(* ===== verification/Prelude.thy ===== *)
theory Prelude
  imports Complex_Main "HOL-Library.Sublist"
begin

text \<open>
  What every other theory of the development shares: the outcome of an \<open>async\<close> function and the
  state-passing programs built from it, the \<open>named_theorems\<close> collections, the string functions of
  the JavaScript standard library that the sources use, generic list lemmas, and the interface of a
  state container whose operations keep an invariant.

  Strings are \<open>string\<close>, a list of characters; a character stands for one UTF-16 code unit below 256.
  The sources only inspect ASCII characters (separators, digits, hexadecimal digits, letters), so
  a code unit outside that range behaves as an uninspected character of the model does.
\<close>

named_theorems prog_simps \<open>unfolding of the program combinators\<close>
named_theorems store_defs \<open>definitions of the client side store operations\<close>
named_theorems js_simps \<open>characteristic equations of the string functions\<close>

section \<open>Outcomes and programs\<close>

text \<open>
  An \<open>async\<close> function of the code resolves with a value, rejects with an exception, or never settles.
  The last case is only produced by \<open>CacheService.delByPattern\<close>, whose loop ends when the server
  says so.
\<close>

datatype ('e, 'a) outcome = Return 'a | Throw 'e | Diverge

type_synonym ('s, 'e, 'a) prog = "'s \<Rightarrow> ('e, 'a) outcome \<times> 's"

definition ret :: "'a \<Rightarrow> ('s, 'e, 'a) prog" where
  "ret a = (\<lambda>s. (Return a, s))"

definition throw :: "'e \<Rightarrow> ('s, 'e, 'a) prog" where
  "throw e = (\<lambda>s. (Throw e, s))"

definition diverge :: "('s, 'e, 'a) prog" where
  "diverge = (\<lambda>s. (Diverge, s))"

definition seq :: "('s, 'e, 'a) prog \<Rightarrow> ('a \<Rightarrow> ('s, 'e, 'b) prog) \<Rightarrow> ('s, 'e, 'b) prog" where
  "seq m f = (\<lambda>s. case m s of
      (Return a, s') \<Rightarrow> f a s'
    | (Throw e, s') \<Rightarrow> (Throw e, s')
    | (Diverge, s') \<Rightarrow> (Diverge, s'))"

text \<open>\<open>promise.catch(handler)\<close> and \<open>try { ... } catch (error) { ... }\<close>.\<close>

definition catch :: "('s, 'e, 'a) prog \<Rightarrow> ('e \<Rightarrow> ('s, 'e, 'a) prog) \<Rightarrow> ('s, 'e, 'a) prog" where
  "catch m h = (\<lambda>s. case m s of
      (Return a, s') \<Rightarrow> (Return a, s')
    | (Throw e, s') \<Rightarrow> h e s'
    | (Diverge, s') \<Rightarrow> (Diverge, s'))"

definition get_state :: "('s, 'e, 's) prog" where
  "get_state = (\<lambda>s. (Return s, s))"

definition modify_state :: "('s \<Rightarrow> 's) \<Rightarrow> ('s, 'e, unit) prog" where
  "modify_state f = (\<lambda>s. (Return (), f s))"

definition do_if :: "bool \<Rightarrow> ('s, 'e, unit) prog \<Rightarrow> ('s, 'e, unit) prog" where
  "do_if b m = (if b then m else ret ())"

primrec seq_all :: "('a \<Rightarrow> ('s, 'e, unit) prog) \<Rightarrow> 'a list \<Rightarrow> ('s, 'e, unit) prog" where
  "seq_all f [] = ret ()"
| "seq_all f (x # xs) = seq (f x) (\<lambda>_. seq_all f xs)"

lemma ret_apply [simp, prog_simps]: "ret a s = (Return a, s)"
  by (simp add: ret_def)

lemma throw_apply [simp, prog_simps]: "throw e s = (Throw e, s)"
  by (simp add: throw_def)

lemma diverge_apply [simp, prog_simps]: "diverge s = (Diverge, s)"
  by (simp add: diverge_def)

lemma seq_Return [simp, prog_simps]: "m s = (Return a, s') \<Longrightarrow> seq m f s = f a s'"
  by (simp add: seq_def)

lemma seq_Throw [simp, prog_simps]: "m s = (Throw e, s') \<Longrightarrow> seq m f s = (Throw e, s')"
  by (simp add: seq_def)

lemma seq_Diverge [simp, prog_simps]: "m s = (Diverge, s') \<Longrightarrow> seq m f s = (Diverge, s')"
  by (simp add: seq_def)

lemma catch_Return [simp, prog_simps]: "m s = (Return a, s') \<Longrightarrow> catch m h s = (Return a, s')"
  by (simp add: catch_def)

lemma catch_Throw [simp, prog_simps]: "m s = (Throw e, s') \<Longrightarrow> catch m h s = h e s'"
  by (simp add: catch_def)

lemma get_state_apply [simp, prog_simps]: "get_state s = (Return s, s)"
  by (simp add: get_state_def)

lemma modify_state_apply [simp, prog_simps]: "modify_state f s = (Return (), f s)"
  by (simp add: modify_state_def)

lemma do_if_simps [simp, prog_simps]: "do_if True m = m" "do_if False m = ret ()"
  by (simp_all add: do_if_def)

lemma seq_eq_Return:
  "seq m f s = (Return b, t) \<longleftrightarrow> (\<exists>a s'. m s = (Return a, s') \<and> f a s' = (Return b, t))"
  by (auto simp: seq_def split: prod.splits outcome.splits)

lemma seq_eq_Throw:
  "seq m f s = (Throw e, t) \<longleftrightarrow>
     m s = (Throw e, t) \<or> (\<exists>a s'. m s = (Return a, s') \<and> f a s' = (Throw e, t))"
  by (auto simp: seq_def split: prod.splits outcome.splits)

lemma catch_eq_Return:
  "catch m h s = (Return a, t) \<longleftrightarrow>
     m s = (Return a, t) \<or> (\<exists>e s'. m s = (Throw e, s') \<and> h e s' = (Return a, t))"
  by (auto simp: catch_def split: prod.splits outcome.splits)

lemma catch_ret_no_Throw [simp]: "fst (catch m (\<lambda>_. ret a) s) \<noteq> Throw e"
  by (auto simp: catch_def split: prod.split outcome.split)

lemma seq_assoc: "seq (seq m f) g = seq m (\<lambda>a. seq (f a) g)"
  by (auto simp: seq_def fun_eq_iff split: prod.splits outcome.splits)

lemma seq_ret [simp]: "seq (ret a) f = f a" "seq m ret = m"
  by (auto simp: seq_def ret_def fun_eq_iff split: prod.splits outcome.splits)

section \<open>JavaScript strings\<close>

text \<open>\<open>String.prototype.trim\<close> removes white space and line terminators at both ends.\<close>

definition js_space :: "char \<Rightarrow> bool" where
  "js_space c \<longleftrightarrow> (let n = (of_char c :: nat) in n = 32 \<or> (9 \<le> n \<and> n \<le> 13) \<or> n = 160)"

definition trim_start :: "string \<Rightarrow> string" where
  "trim_start s = dropWhile js_space s"

definition trim_end :: "string \<Rightarrow> string" where
  "trim_end s = rev (dropWhile js_space (rev s))"

definition trim :: "string \<Rightarrow> string" where
  "trim s = trim_end (trim_start s)"

definition char_lower :: "char \<Rightarrow> char" where
  "char_lower c = (let n = (of_char c :: nat) in if 65 \<le> n \<and> n \<le> 90 then char_of (n + 32) else c)"

text \<open>\<open>toLowerCase\<close> on the ASCII letters, the only ones the sources compare afterwards.\<close>

definition to_lower :: "string \<Rightarrow> string" where
  "to_lower s = map char_lower s"

definition starts_with :: "string \<Rightarrow> string \<Rightarrow> bool" where
  "starts_with s p \<longleftrightarrow> take (length p) s = p"

text \<open>\<open>s.includes(t)\<close>.\<close>

fun js_includes :: "string \<Rightarrow> string \<Rightarrow> bool" where
  "js_includes [] t = (t = [])"
| "js_includes (c # s) t = (starts_with (c # s) t \<or> js_includes s t)"

text \<open>\<open>parts.join(sep)\<close> and \<open>s.split(c)\<close> for a one character separator.\<close>

fun join :: "string \<Rightarrow> string list \<Rightarrow> string" where
  "join sep [] = []"
| "join sep [x] = x"
| "join sep (x # y # zs) = x @ sep @ join sep (y # zs)"

fun split_on :: "char \<Rightarrow> string \<Rightarrow> string list" where
  "split_on c [] = [[]]"
| "split_on c (x # xs) =
     (if x = c then [] # split_on c xs
      else case split_on c xs of [] \<Rightarrow> [[x]] | w # ws \<Rightarrow> (x # w) # ws)"

lemma split_on_nonempty [simp]: "split_on c s \<noteq> []"
  by (induction s) (auto split: list.splits)

lemma split_on_no_sep [js_simps]: "c \<notin> set s \<Longrightarrow> split_on c s = [s]"
  by (induction s) auto

lemma split_on_append_sep [js_simps]:
  "c \<notin> set s \<Longrightarrow> split_on c (s @ c # t) = s # split_on c t"
  by (induction s) (auto split: list.splits)

lemma join_split_on [js_simps]: "join [c] (split_on c s) = s"
proof (induction s)
  case Nil
  then show ?case by simp
next
  case (Cons x xs)
  then show ?case
    by (cases "split_on c xs" rule: list.exhaust; cases "tl (split_on c xs)") auto
qed

lemma split_on_join [js_simps]:
  "ws \<noteq> [] \<Longrightarrow> (\<forall>w\<in>set ws. c \<notin> set w) \<Longrightarrow> split_on c (join [c] ws) = ws"
  by (induction "[c]" ws rule: join.induct) (auto simp: split_on_no_sep split_on_append_sep)

lemma starts_with_append [simp]: "starts_with (p @ s) p"
  by (simp add: starts_with_def)

lemma starts_with_prefix: "starts_with s p \<longleftrightarrow> prefix p s"
  unfolding starts_with_def prefix_def by (metis append_eq_conv_conj)

lemma js_includes_self_append [simp]: "js_includes (a @ t @ b) t"
proof (induction a)
  case Nil
  show ?case
  proof (cases "t @ b")
    case Nil
    then show ?thesis by simp
  next
    case (Cons c r)
    then have "starts_with (c # r) t" by (metis starts_with_append)
    with Cons show ?thesis by simp
  qed
next
  case (Cons x a)
  then show ?case by simp
qed

lemma trim_start_no_space: "s = [] \<or> \<not> js_space (hd s) \<Longrightarrow> trim_start s = s"
  by (cases s) (auto simp: trim_start_def)

lemma trim_end_no_space: "s = [] \<or> \<not> js_space (last s) \<Longrightarrow> trim_end s = s"
  by (cases s rule: rev_cases) (auto simp: trim_end_def)

lemma trim_no_space [js_simps]: "(\<forall>c\<in>set s. \<not> js_space c) \<Longrightarrow> trim s = s"
  by (cases s) (auto simp: trim_def trim_start_no_space trim_end_no_space)

lemma trim_hd: "trim_start s \<noteq> [] \<Longrightarrow> \<not> js_space (hd (trim_start s))"
  unfolding trim_start_def using hd_dropWhile by blast

lemma trim_end_last: "trim_end s \<noteq> [] \<Longrightarrow> \<not> js_space (last (trim_end s))"
  unfolding trim_end_def by (metis hd_dropWhile last_rev rev_is_Nil_conv)

lemma trim_end_prefix: "prefix (trim_end s) s"
  using suffix_dropWhile [of js_space "rev s"] by (simp add: trim_end_def suffix_to_prefix)

lemma trim_idem [simp]: "trim (trim s) = trim s"
proof (cases "trim s = []")
  case True
  have "trim [] = []" by (simp add: trim_def trim_start_def trim_end_def)
  with True show ?thesis by metis
next
  case False
  have pre: "prefix (trim s) (trim_start s)"
    by (simp add: trim_def trim_end_prefix)
  with False have ne: "trim_start s \<noteq> []" by auto
  from pre False have "hd (trim s) = hd (trim_start s)"
    by (metis hd_append2 prefixE)
  with trim_hd [OF ne] have "trim_start (trim s) = trim s"
    by (intro trim_start_no_space) simp
  moreover have "trim_end (trim s) = trim s"
    using False trim_end_last [of "trim_start s"] by (intro trim_end_no_space) (simp add: trim_def)
  ultimately show ?thesis by (simp add: trim_def)
qed

lemma char_lower_idem [simp]: "char_lower (char_lower c) = char_lower c"
  by (auto simp: char_lower_def Let_def)

lemma to_lower_idem [simp]: "to_lower (to_lower s) = to_lower s"
  by (simp add: to_lower_def)

section \<open>Lists with set semantics\<close>

text \<open>\<open>Array.from(new Set(xs))\<close> keeps the first occurrence of each element, in order.\<close>

fun unique_acc :: "'a list \<Rightarrow> 'a list \<Rightarrow> 'a list" where
  "unique_acc seen [] = []"
| "unique_acc seen (x # xs) =
     (if x \<in> set seen then unique_acc seen xs else x # unique_acc (x # seen) xs)"

definition js_unique :: "'a list \<Rightarrow> 'a list" where
  "js_unique xs = unique_acc [] xs"

lemma set_unique_acc: "set (unique_acc seen xs) = set xs - set seen"
  by (induction seen xs rule: unique_acc.induct) auto

lemma distinct_unique_acc: "distinct (unique_acc seen xs)"
  by (induction seen xs rule: unique_acc.induct) (auto simp: set_unique_acc)

lemma unique_acc_id: "distinct xs \<Longrightarrow> set xs \<inter> set seen = {} \<Longrightarrow> unique_acc seen xs = xs"
  by (induction seen xs rule: unique_acc.induct) auto

lemma set_js_unique [simp]: "set (js_unique xs) = set xs"
  by (simp add: js_unique_def set_unique_acc)

lemma distinct_js_unique [simp]: "distinct (js_unique xs)"
  by (simp add: js_unique_def distinct_unique_acc)

lemma js_unique_distinct [simp]: "distinct xs \<Longrightarrow> js_unique xs = xs"
  by (simp add: js_unique_def unique_acc_id)

lemma js_unique_eq_Nil [simp]: "js_unique xs = [] \<longleftrightarrow> xs = []"
  using set_js_unique [of xs] by (metis set_empty)

lemma filter_neq_absent [simp]: "x \<notin> set xs \<Longrightarrow> filter (\<lambda>y. y \<noteq> x) xs = xs"
  by (induction xs) auto

lemma length_dropWhile_less [termination_simp]: "length (dropWhile P xs) < Suc (length xs)"
  by (simp add: length_dropWhile_le le_imp_less_Suc)

section \<open>The interface of a state container\<close>

text \<open>
  Every client side store is a state with actions that keep an invariant, for the arguments they are called with. What
  follows for a whole run is proved here once.
\<close>

locale state_container =
  fixes init :: "'s"
    and step :: "'op \<Rightarrow> 's \<Rightarrow> 's"
    and op_ok :: "'op \<Rightarrow> bool"
    and inv :: "'s \<Rightarrow> bool"
  assumes inv_init: "inv init"
    and inv_step: "op_ok op \<Longrightarrow> inv s \<Longrightarrow> inv (step op s)"
begin

lemma inv_fold: "\<forall>op\<in>set ops. op_ok op \<Longrightarrow> inv s \<Longrightarrow> inv (fold step ops s)"
  by (induction ops arbitrary: s) (auto intro: inv_step)

lemma inv_run: "\<forall>op\<in>set ops. op_ok op \<Longrightarrow> inv (fold step ops init)"
  by (rule inv_fold [OF _ inv_init])

end

end
