(* ===== verification/Js_Values.thy ===== *)
theory Js_Values
  imports Prelude
begin

text \<open>
  Dynamically typed JavaScript values, as far as the error normaliser, the response interceptor and
  the query-string transforms look at them: \<open>typeof\<close>, \<open>Array.isArray\<close>, \<open>instanceof Error\<close>, property
  reads, truthiness, and the number functions \<open>Number.isFinite\<close>, \<open>Math.trunc\<close>, \<open>Math.max\<close> and
  \<open>Math.min\<close>. Finite numbers are rationals: every double is one, and the sources that use these
  functions add, multiply and round integers well inside the exact range.
\<close>

datatype js_num = Fin rat | NaN | Infinity bool

datatype js_class = PlainObject | ErrorObject | BufferObject | StreamableFileObject

datatype js_value =
    Undefined
  | Null
  | JBool bool
  | JNum js_num
  | JStr string
  | JArr "js_value list"
  | JObj js_class "(string \<times> js_value) list"

section \<open>Type tests\<close>

fun is_string :: "js_value \<Rightarrow> bool" where
  "is_string (JStr _) = True"
| "is_string _ = False"

fun is_boolean :: "js_value \<Rightarrow> bool" where
  "is_boolean (JBool _) = True"
| "is_boolean _ = False"

fun is_number :: "js_value \<Rightarrow> bool" where
  "is_number (JNum _) = True"
| "is_number _ = False"

fun is_array :: "js_value \<Rightarrow> bool" where
  "is_array (JArr _) = True"
| "is_array _ = False"

text \<open>\<open>typeof value === 'object' && value !== null\<close>; an array is an object.\<close>

fun is_record :: "js_value \<Rightarrow> bool" where
  "is_record (JObj _ _) = True"
| "is_record (JArr _) = True"
| "is_record _ = False"

fun js_class_of :: "js_value \<Rightarrow> js_class option" where
  "js_class_of (JObj c _) = Some c"
| "js_class_of _ = None"

text \<open>
  Property read \<open>value.key\<close> on an object; the sources guard it with \<open>isRecord\<close>, and none of the keys
  they read is a property of an array.
\<close>

fun get_prop :: "js_value \<Rightarrow> string \<Rightarrow> js_value" where
  "get_prop (JObj _ fields) key = (case map_of fields key of None \<Rightarrow> Undefined | Some v \<Rightarrow> v)"
| "get_prop _ key = Undefined"

fun string_of :: "js_value \<Rightarrow> string option" where
  "string_of (JStr s) = Some s"
| "string_of _ = None"

fun array_of :: "js_value \<Rightarrow> js_value list" where
  "array_of (JArr xs) = xs"
| "array_of _ = []"

fun num_of :: "js_value \<Rightarrow> js_num option" where
  "num_of (JNum n) = Some n"
| "num_of _ = None"

fun entries_of :: "js_value \<Rightarrow> (string \<times> js_value) list" where
  "entries_of (JObj _ fields) = fields"
| "entries_of _ = []"

lemma is_string_iff: "is_string v \<longleftrightarrow> (\<exists>s. v = JStr s)"
  by (cases v) auto

lemma is_number_iff: "is_number v \<longleftrightarrow> (\<exists>n. v = JNum n)"
  by (cases v) auto

lemma is_array_iff: "is_array v \<longleftrightarrow> (\<exists>xs. v = JArr xs)"
  by (cases v) auto

lemma is_boolean_iff: "is_boolean v \<longleftrightarrow> (\<exists>b. v = JBool b)"
  by (cases v) auto

lemma string_of_eq_Some [simp]: "string_of v = Some s \<longleftrightarrow> v = JStr s"
  by (cases v) auto

lemma string_of_eq_None [simp]: "string_of v = None \<longleftrightarrow> \<not> is_string v"
  by (cases v) auto

section \<open>Numbers\<close>

definition js_is_finite :: "js_num \<Rightarrow> bool" where
  "js_is_finite n = (case n of Fin _ \<Rightarrow> True | _ \<Rightarrow> False)"

text \<open>\<open>Math.trunc\<close> rounds towards zero.\<close>

definition trunc_rat :: "rat \<Rightarrow> int" where
  "trunc_rat r = (if 0 \<le> r then floor r else ceiling r)"

text \<open>\<open>Math.round\<close> rounds half up.\<close>

definition round_rat :: "rat \<Rightarrow> int" where
  "round_rat r = floor (r + 1 / 2)"

lemma trunc_rat_of_int [simp]: "trunc_rat (of_int i) = i"
  by (simp add: trunc_rat_def)

lemma trunc_rat_mono_pos: "1 \<le> r \<Longrightarrow> 1 \<le> trunc_rat r"
  by (simp add: trunc_rat_def le_floor_iff)

text \<open>A number is falsy when it is zero or \<open>NaN\<close>.\<close>

definition num_truthy :: "js_num \<Rightarrow> bool" where
  "num_truthy n = (case n of Fin r \<Rightarrow> r \<noteq> 0 | NaN \<Rightarrow> False | Infinity _ \<Rightarrow> True)"

fun truthy :: "js_value \<Rightarrow> bool" where
  "truthy Undefined = False"
| "truthy Null = False"
| "truthy (JBool b) = b"
| "truthy (JNum n) = num_truthy n"
| "truthy (JStr s) = (s \<noteq> [])"
| "truthy (JArr _) = True"
| "truthy (JObj _ _) = True"

section \<open>Decimal text of an integer\<close>

text \<open>\<open>String(n)\<close> of a natural number and of an integer, and reading a run of digits back.\<close>

definition digit_char :: "nat \<Rightarrow> char" where
  "digit_char d = char_of (48 + d)"

fun show_nat :: "nat \<Rightarrow> string" where
  "show_nat n = (if n < 10 then [digit_char n] else show_nat (n div 10) @ [digit_char (n mod 10)])"

declare show_nat.simps [simp del]

definition show_int :: "int \<Rightarrow> string" where
  "show_int i = (if i < 0 then CHR ''-'' # show_nat (nat (- i)) else show_nat (nat i))"

definition is_digit :: "char \<Rightarrow> bool" where
  "is_digit c \<longleftrightarrow> (let n = (of_char c :: nat) in 48 \<le> n \<and> n \<le> 57)"

definition digit_val :: "char \<Rightarrow> nat" where
  "digit_val c = of_char c - 48"

definition read_nat :: "string \<Rightarrow> nat" where
  "read_nat s = foldl (\<lambda>n c. 10 * n + digit_val c) 0 s"

lemma digit_char_props [simp]:
  assumes "d < 10"
  shows "is_digit (digit_char d)" "digit_val (digit_char d) = d"
  using assms by (simp_all add: is_digit_def digit_val_def digit_char_def Let_def)

lemma show_nat_digits: "\<forall>c\<in>set (show_nat n). is_digit c"
proof (induction n rule: show_nat.induct)
  case (1 n)
  then show ?case by (cases "n < 10") (auto simp: show_nat.simps [of n])
qed

lemma show_nat_nonempty [simp]: "show_nat n \<noteq> []"
  by (subst show_nat.simps) simp

lemma read_nat_snoc: "read_nat (s @ [c]) = 10 * read_nat s + digit_val c"
  by (simp add: read_nat_def)

lemma read_show_nat [simp]: "read_nat (show_nat n) = n"
proof (induction n rule: show_nat.induct)
  case (1 n)
  show ?case
  proof (cases "n < 10")
    case True
    then show ?thesis by (simp add: show_nat.simps [of n] read_nat_def)
  next
    case False
    with "1.IH" show ?thesis by (simp add: show_nat.simps [of n] read_nat_snoc)
  qed
qed

lemma show_nat_inj: "show_nat m = show_nat n \<longleftrightarrow> m = n"
  by (metis read_show_nat)

lemma show_int_inj: "show_int a = show_int b \<longleftrightarrow> a = b"
proof -
  have dash: "show_nat m \<noteq> CHR ''-'' # cs" for m cs
    using show_nat_digits [of m] by (auto simp: is_digit_def)
  show ?thesis
    using dash dash [symmetric] by (auto simp: show_int_def show_nat_inj)
qed

lemma digit_not_space: "is_digit c \<Longrightarrow> \<not> js_space c"
  by (auto simp: is_digit_def js_space_def Let_def)

lemma digit_neq: "is_digit c \<Longrightarrow> \<not> is_digit d \<Longrightarrow> c \<noteq> d"
  by auto

end
