(* ===== verification/Http_Errors.thy ===== *)
theory Http_Errors
  imports Js_Values
begin

text \<open>
  The error vocabulary of api-core and the two ends of its response envelope:
  the codes (\<open>common/errors/error-codes.ts\<close>), \<open>AppException\<close> (\<open>common/errors/app.exception.ts\<close>), the
  normaliser that maps any thrown value to an HTTP error (\<open>common/filters/error-normalizer.ts\<close>), the
  global filter that renders it (\<open>common/filters/http-exception.filter.ts\<close>), the flattening of
  validation errors (\<open>common/pipes/validation-pipe.factory.ts\<close>), and the interceptor that wraps
  successful payloads (\<open>common/interceptors/transform.interceptor.ts\<close>).
\<close>

section \<open>Error codes\<close>

datatype error_code =
    BadRequestCode | ValidationErrorCode | UnauthorizedCode | ForbiddenCode | NotFoundCode
  | MethodNotAllowedCode | ConflictCode | UnsupportedMediaTypeCode | PayloadTooLargeCode
  | TooManyRequestsCode | InternalServerErrorCode | NotImplementedCode | BadGatewayCode
  | ServiceUnavailableCode | GatewayTimeoutCode
  | DatabaseErrorCode | DatabaseUnavailableCode | DuplicateResourceCode
  | RelatedResourceNotFoundCode | ResourceInUseCode | InvalidIdentifierCode
  | InvalidCredentialsCode | EmailAlreadyExistsCode | AccountDisabledCode | TokenExpiredCode
  | InvalidTokenCode | RefreshTokenReusedCode | RefreshTokenMissingCode | OauthNotConfiguredCode
  | OauthFailedCode | InsufficientRoleCode | InvalidServiceTokenCode | PasswordResetInvalidCode
  | PropertyNotFoundCode | CompoundNotFoundCode | DeveloperNotFoundCode | AreaNotFoundCode
  | AmenityNotFoundCode | UserNotFoundCode | LeadNotFoundCode | FavoriteNotFoundCode
  | FavoriteAlreadyExistsCode | SavedSearchNotFoundCode | ReviewNotFoundCode | UploadFailedCode
  | StorageNotConfiguredCode

primrec code_string :: "error_code \<Rightarrow> string" where
  "code_string BadRequestCode = ''BAD_REQUEST''"
| "code_string ValidationErrorCode = ''VALIDATION_ERROR''"
| "code_string UnauthorizedCode = ''UNAUTHORIZED''"
| "code_string ForbiddenCode = ''FORBIDDEN''"
| "code_string NotFoundCode = ''NOT_FOUND''"
| "code_string MethodNotAllowedCode = ''METHOD_NOT_ALLOWED''"
| "code_string ConflictCode = ''CONFLICT''"
| "code_string UnsupportedMediaTypeCode = ''UNSUPPORTED_MEDIA_TYPE''"
| "code_string PayloadTooLargeCode = ''PAYLOAD_TOO_LARGE''"
| "code_string TooManyRequestsCode = ''TOO_MANY_REQUESTS''"
| "code_string InternalServerErrorCode = ''INTERNAL_SERVER_ERROR''"
| "code_string NotImplementedCode = ''NOT_IMPLEMENTED''"
| "code_string BadGatewayCode = ''BAD_GATEWAY''"
| "code_string ServiceUnavailableCode = ''SERVICE_UNAVAILABLE''"
| "code_string GatewayTimeoutCode = ''GATEWAY_TIMEOUT''"
| "code_string DatabaseErrorCode = ''DATABASE_ERROR''"
| "code_string DatabaseUnavailableCode = ''DATABASE_UNAVAILABLE''"
| "code_string DuplicateResourceCode = ''DUPLICATE_RESOURCE''"
| "code_string RelatedResourceNotFoundCode = ''RELATED_RESOURCE_NOT_FOUND''"
| "code_string ResourceInUseCode = ''RESOURCE_IN_USE''"
| "code_string InvalidIdentifierCode = ''INVALID_IDENTIFIER''"
| "code_string InvalidCredentialsCode = ''INVALID_CREDENTIALS''"
| "code_string EmailAlreadyExistsCode = ''EMAIL_ALREADY_EXISTS''"
| "code_string AccountDisabledCode = ''ACCOUNT_DISABLED''"
| "code_string TokenExpiredCode = ''TOKEN_EXPIRED''"
| "code_string InvalidTokenCode = ''INVALID_TOKEN''"
| "code_string RefreshTokenReusedCode = ''REFRESH_TOKEN_REUSED''"
| "code_string RefreshTokenMissingCode = ''REFRESH_TOKEN_MISSING''"
| "code_string OauthNotConfiguredCode = ''OAUTH_NOT_CONFIGURED''"
| "code_string OauthFailedCode = ''OAUTH_FAILED''"
| "code_string InsufficientRoleCode = ''INSUFFICIENT_ROLE''"
| "code_string InvalidServiceTokenCode = ''INVALID_SERVICE_TOKEN''"
| "code_string PasswordResetInvalidCode = ''PASSWORD_RESET_INVALID''"
| "code_string PropertyNotFoundCode = ''PROPERTY_NOT_FOUND''"
| "code_string CompoundNotFoundCode = ''COMPOUND_NOT_FOUND''"
| "code_string DeveloperNotFoundCode = ''DEVELOPER_NOT_FOUND''"
| "code_string AreaNotFoundCode = ''AREA_NOT_FOUND''"
| "code_string AmenityNotFoundCode = ''AMENITY_NOT_FOUND''"
| "code_string UserNotFoundCode = ''USER_NOT_FOUND''"
| "code_string LeadNotFoundCode = ''LEAD_NOT_FOUND''"
| "code_string FavoriteNotFoundCode = ''FAVORITE_NOT_FOUND''"
| "code_string FavoriteAlreadyExistsCode = ''FAVORITE_ALREADY_EXISTS''"
| "code_string SavedSearchNotFoundCode = ''SAVED_SEARCH_NOT_FOUND''"
| "code_string ReviewNotFoundCode = ''REVIEW_NOT_FOUND''"
| "code_string UploadFailedCode = ''UPLOAD_FAILED''"
| "code_string StorageNotConfiguredCode = ''STORAGE_NOT_CONFIGURED''"

text \<open>The wire strings are upper case words joined by underscores.\<close>

definition screaming_snake :: "string \<Rightarrow> bool" where
  "screaming_snake s \<longleftrightarrow> s \<noteq> [] \<and>
     list_all (\<lambda>c. c = CHR ''_'' \<or> (65 \<le> (of_char c :: nat) \<and> (of_char c :: nat) \<le> 90)) s"

definition status_table :: "(rat \<times> error_code) list" where
  "status_table = [
     (400, BadRequestCode),
     (401, UnauthorizedCode),
     (403, ForbiddenCode),
     (404, NotFoundCode),
     (405, MethodNotAllowedCode),
     (409, ConflictCode),
     (413, PayloadTooLargeCode),
     (415, UnsupportedMediaTypeCode),
     (422, ValidationErrorCode),
     (429, TooManyRequestsCode),
     (500, InternalServerErrorCode),
     (501, NotImplementedCode),
     (502, BadGatewayCode),
     (503, ServiceUnavailableCode),
     (504, GatewayTimeoutCode)]"

definition error_code_for_status :: "rat \<Rightarrow> error_code" where
  "error_code_for_status status =
     (case map_of status_table status of
        Some code \<Rightarrow> code
      | None \<Rightarrow> if 500 \<le> status then InternalServerErrorCode else BadRequestCode)"

section \<open>Exceptions\<close>

text \<open>
  A detail is an object \<open>{ field?, message, rule? }\<close>; the normaliser passes foreign details through
  unchanged, so a detail is any value.
\<close>

definition mk_detail :: "js_value option \<Rightarrow> js_value \<Rightarrow> js_value option \<Rightarrow> js_value" where
  "mk_detail fld msg rule = JObj PlainObject
     ((case fld of None \<Rightarrow> [] | Some f \<Rightarrow> [(''field'', f)]) @ [(''message'', msg)] @
      (case rule of None \<Rightarrow> [] | Some r \<Rightarrow> [(''rule'', r)]))"

definition str_detail :: "string \<Rightarrow> string \<Rightarrow> string \<Rightarrow> js_value" where
  "str_detail fld msg rule = mk_detail (Some (JStr fld)) (JStr msg) (Some (JStr rule))"

record app_exception =
  ae_status :: rat
  ae_code :: string
  ae_message :: string
  ae_details :: "js_value list"

text \<open>\<open>new AppException(status, payload)\<close> and its factories.\<close>

definition app_exc :: "rat \<Rightarrow> error_code \<Rightarrow> string \<Rightarrow> js_value list \<Rightarrow> app_exception" where
  "app_exc status code msg details =
     \<lparr>ae_status = status, ae_code = code_string code, ae_message = msg, ae_details = details\<rparr>"

definition bad_request :: "string \<Rightarrow> error_code \<Rightarrow> js_value list \<Rightarrow> app_exception" where
  "bad_request msg code details = app_exc 400 code msg details"

definition validation_exc :: "string \<Rightarrow> js_value list \<Rightarrow> error_code \<Rightarrow> app_exception" where
  "validation_exc msg details code = app_exc 422 code msg details"

definition unauthorized :: "string \<Rightarrow> error_code \<Rightarrow> app_exception" where
  "unauthorized msg code = app_exc 401 code msg []"

definition forbidden :: "string \<Rightarrow> error_code \<Rightarrow> app_exception" where
  "forbidden msg code = app_exc 403 code msg []"

definition not_found :: "string \<Rightarrow> error_code \<Rightarrow> app_exception" where
  "not_found msg code = app_exc 404 code msg []"

definition conflict :: "string \<Rightarrow> error_code \<Rightarrow> js_value list \<Rightarrow> app_exception" where
  "conflict msg code details = app_exc 409 code msg details"

definition too_many_requests :: "string \<Rightarrow> app_exception" where
  "too_many_requests msg = app_exc 429 TooManyRequestsCode msg []"

definition service_unavailable :: "string \<Rightarrow> error_code \<Rightarrow> app_exception" where
  "service_unavailable msg code = app_exc 503 code msg []"

definition internal :: "string \<Rightarrow> error_code \<Rightarrow> app_exception" where
  "internal msg code = app_exc 500 code msg []"

text \<open>
  What can be thrown: an \<open>AppException\<close>, another \<open>HttpException\<close> of the framework (its status, its
  response and its message), or any other value.
\<close>

datatype exn =
    AppExc app_exception
  | HttpExc rat js_value string
  | Thrown js_value

section \<open>Normalisation\<close>

record normalized_error =
  ne_status :: rat
  ne_code :: string
  ne_message :: string
  ne_details :: "js_value list"
  ne_cause :: "exn option"

definition normalized :: "rat \<Rightarrow> error_code \<Rightarrow> string \<Rightarrow> js_value list \<Rightarrow> exn option \<Rightarrow> normalized_error" where
  "normalized status code msg details cause =
     \<lparr>ne_status = status, ne_code = code_string code, ne_message = msg, ne_details = details,
      ne_cause = cause\<rparr>"

definition as_string_array :: "js_value \<Rightarrow> string list" where
  "as_string_array v =
     (case v of
        JArr xs \<Rightarrow> List.map_filter string_of xs
      | JStr s \<Rightarrow> [s]
      | _ \<Rightarrow> [])"

text \<open>\<open>a ?? b\<close>, \<open>Object.keys\<close> and \<open>Object.entries\<close>.\<close>

definition nullish :: "js_value \<Rightarrow> js_value \<Rightarrow> js_value" where
  "nullish v d = (case v of Undefined \<Rightarrow> d | Null \<Rightarrow> d | _ \<Rightarrow> v)"

definition object_entries :: "js_value \<Rightarrow> (string \<times> js_value) list" where
  "object_entries v =
     (case v of
        JObj _ flds \<Rightarrow> flds
      | JArr xs \<Rightarrow> zip (map show_nat [0..<length xs]) xs
      | JStr s \<Rightarrow> zip (map show_nat [0..<length s]) (map (\<lambda>c. JStr [c]) s)
      | _ \<Rightarrow> [])"

definition object_keys :: "js_value \<Rightarrow> string list" where
  "object_keys v = map fst (object_entries v)"

text \<open>\<open>/^P\d{4}$/\<close>.\<close>

definition prisma_code_pattern :: "string \<Rightarrow> bool" where
  "prisma_code_pattern s \<longleftrightarrow> length s = 5 \<and> take 1 s = ''P'' \<and> list_all is_digit (drop 1 s)"

definition is_prisma_known_request_error :: "js_value \<Rightarrow> bool" where
  "is_prisma_known_request_error e \<longleftrightarrow>
     is_record e \<and>
     (case get_prop e ''code'' of JStr s \<Rightarrow> prisma_code_pattern s | _ \<Rightarrow> False) \<and>
     is_string (get_prop e ''clientVersion'')"

definition is_prisma_error_named :: "js_value \<Rightarrow> string \<Rightarrow> bool" where
  "is_prisma_error_named e name \<longleftrightarrow>
     is_record e \<and> get_prop e ''name'' = JStr name \<and> is_string (get_prop e ''clientVersion'')"

definition prisma_target_fields :: "js_value \<Rightarrow> string list" where
  "prisma_target_fields meta = as_string_array (get_prop meta ''target'')"

definition normalize_prisma_known_error :: "js_value \<Rightarrow> normalized_error" where
  "normalize_prisma_known_error e =
     (let meta = get_prop e ''meta'';
          flds = prisma_target_fields meta;
          field_list = (if flds \<noteq> [] then join '', '' flds else ''value'');
          code = (case get_prop e ''code'' of JStr s \<Rightarrow> s | _ \<Rightarrow> [])
      in if code = ''P2000'' then
           normalized 422 ValidationErrorCode
             (''The provided value for '' @ field_list @ '' is too long'')
             (map (\<lambda>f. str_detail f ''value too long'' ''maxLength'') flds) None
         else if code = ''P2002'' then
           normalized 409 DuplicateResourceCode
             (''A record with this '' @ field_list @ '' already exists'')
             (map (\<lambda>f. str_detail f ''must be unique'' ''unique'') flds) None
         else if code = ''P2003'' then
           normalized 422 RelatedResourceNotFoundCode ''A referenced record does not exist''
             (map (\<lambda>f. str_detail f ''unknown reference'' ''foreignKey'') flds) None
         else if code = ''P2011'' then
           normalized 422 ValidationErrorCode (field_list @ '' must not be null'')
             (map (\<lambda>f. str_detail f ''must not be null'' ''required'') flds) None
         else if code = ''P2014'' then
           normalized 409 ResourceInUseCode
             ''The change would break a required relation between records'' [] None
         else if code = ''P2025'' then
           normalized 404 NotFoundCode
             (case (if truthy meta then get_prop meta ''cause'' else Undefined) of
                JStr cause \<Rightarrow> cause
              | _ \<Rightarrow> ''The record was not found'') [] None
         else normalized 500 DatabaseErrorCode ''Database request failed'' [] (Some (Thrown e)))"

definition is_mongoose_validation_error :: "js_value \<Rightarrow> bool" where
  "is_mongoose_validation_error e \<longleftrightarrow>
     is_record e \<and> get_prop e ''name'' = JStr ''ValidationError'' \<and> is_record (get_prop e ''errors'')"

definition is_mongoose_cast_error :: "js_value \<Rightarrow> bool" where
  "is_mongoose_cast_error e \<longleftrightarrow> is_record e \<and> get_prop e ''name'' = JStr ''CastError''"

definition is_mongo_duplicate_key_error :: "js_value \<Rightarrow> bool" where
  "is_mongo_duplicate_key_error e \<longleftrightarrow> is_record e \<and> get_prop e ''code'' = JNum (Fin 11000)"

definition is_zod_error :: "js_value \<Rightarrow> bool" where
  "is_zod_error e \<longleftrightarrow>
     is_record e \<and> get_prop e ''name'' = JStr ''ZodError'' \<and> is_array (get_prop e ''issues'')"

definition jwt_error_names :: "string list" where
  "jwt_error_names = [''TokenExpiredError'', ''JsonWebTokenError'', ''NotBeforeError'']"

text \<open>A 5xx keeps the exception, so that it is logged with its stack.\<close>

definition server_cause :: "rat \<Rightarrow> exn \<Rightarrow> exn option" where
  "server_cause status e = (if 500 \<le> status then Some e else None)"

fun normalize_http_exception :: "exn \<Rightarrow> normalized_error option" where
  "normalize_http_exception (AppExc a) = Some
     \<lparr>ne_status = ae_status a, ne_code = ae_code a, ne_message = ae_message a,
      ne_details = ae_details a, ne_cause = server_cause (ae_status a) (AppExc a)\<rparr>"
| "normalize_http_exception (HttpExc status response msg) = Some
     (case response of
        JStr s \<Rightarrow>
          normalized status (error_code_for_status status) s []
            (server_cause status (HttpExc status response msg))
      | _ \<Rightarrow>
          if is_record response then
            (let default_code = code_string (error_code_for_status status);
                 code = (case get_prop response ''code'' of JStr c \<Rightarrow> c | _ \<Rightarrow> default_code);
                 raw = get_prop response ''message''
             in \<lparr>ne_status = status,
                 ne_code = (if is_array raw \<and> code = default_code
                            then code_string ValidationErrorCode else code),
                 ne_message = (if is_array raw then ''Request validation failed''
                               else case raw of JStr m \<Rightarrow> m | _ \<Rightarrow> msg),
                 ne_details = (if is_array (get_prop response ''details'')
                               then array_of (get_prop response ''details'')
                               else if is_array raw
                               then map (\<lambda>m. mk_detail None (JStr m) None) (as_string_array raw)
                               else []),
                 ne_cause = server_cause status (HttpExc status response msg)\<rparr>)
          else
            normalized status (error_code_for_status status) msg []
              (server_cause status (HttpExc status response msg)))"
| "normalize_http_exception (Thrown _) = None"

text \<open>
  String conversion of a value that is not a string (\<open>template literals\<close>, \<open>Array.prototype.join\<close>) is
  the parameter \<open>str\<close>; strings convert to themselves, and \<open>join\<close> prints nothing for a nullish element.
\<close>

definition template :: "(js_value \<Rightarrow> string) \<Rightarrow> js_value \<Rightarrow> string" where
  "template str v = (case v of JStr s \<Rightarrow> s | _ \<Rightarrow> str v)"

definition join_elem :: "(js_value \<Rightarrow> string) \<Rightarrow> js_value \<Rightarrow> string" where
  "join_elem str v = (case v of Undefined \<Rightarrow> [] | Null \<Rightarrow> [] | _ \<Rightarrow> template str v)"

definition zod_detail :: "(js_value \<Rightarrow> string) \<Rightarrow> js_value \<Rightarrow> js_value" where
  "zod_detail str issue =
     (let path = (case get_prop issue ''path'' of
                    JArr ps \<Rightarrow> join ''.'' (map (join_elem str) ps)
                  | _ \<Rightarrow> [])
      in mk_detail (if path \<noteq> [] then Some (JStr path) else None)
           (case get_prop issue ''message'' of JStr m \<Rightarrow> JStr m | _ \<Rightarrow> JStr ''is invalid'')
           (case get_prop issue ''code'' of JStr c \<Rightarrow> Some (JStr c) | _ \<Rightarrow> None))"

definition mongoose_detail :: "string \<times> js_value \<Rightarrow> js_value" where
  "mongoose_detail entry =
     mk_detail (Some (nullish (get_prop (snd entry) ''path'') (JStr (fst entry))))
       (nullish (get_prop (snd entry) ''message'') (JStr ''is invalid''))
       (Some (get_prop (snd entry) ''kind''))"

text \<open>The \<open>status\<close> or \<open>statusCode\<close> an express or body-parser error carries.\<close>

definition carried_status :: "js_value \<Rightarrow> rat option" where
  "carried_status e =
     (let n = (case get_prop e ''status'' of
                 JNum n \<Rightarrow> Some n
               | _ \<Rightarrow> (case get_prop e ''statusCode'' of JNum n \<Rightarrow> Some n | _ \<Rightarrow> None))
      in case n of
           Some (Fin r) \<Rightarrow> if r \<noteq> 0 \<and> 400 \<le> r \<and> r < 600 then Some r else None
         | _ \<Rightarrow> None)"

definition normalize_thrown :: "(js_value \<Rightarrow> string) \<Rightarrow> js_value \<Rightarrow> normalized_error" where
  "normalize_thrown str e =
     (if is_prisma_known_request_error e then normalize_prisma_known_error e
      else if is_prisma_error_named e ''PrismaClientValidationError'' then
        normalized 422 ValidationErrorCode
          ''The database query was rejected because the payload is invalid'' [] (Some (Thrown e))
      else if is_prisma_error_named e ''PrismaClientInitializationError'' \<or>
              is_prisma_error_named e ''PrismaClientRustPanicError'' then
        normalized 503 DatabaseUnavailableCode
          ''The database is unavailable, please retry shortly'' [] (Some (Thrown e))
      else if is_mongoose_validation_error e then
        normalized 422 ValidationErrorCode ''Document validation failed''
          (map mongoose_detail (object_entries (get_prop e ''errors''))) None
      else if is_mongo_duplicate_key_error e then
        (let flds = object_keys (nullish (get_prop e ''keyValue'') (JObj PlainObject []))
         in normalized 409 DuplicateResourceCode
              (if flds \<noteq> [] then ''A record with this '' @ join '', '' flds @ '' already exists''
               else ''A record with these values already exists'')
              (map (\<lambda>f. str_detail f ''must be unique'' ''unique'') flds) None)
      else if is_mongoose_cast_error e then
        (let path = get_prop e ''path''
         in normalized 400 InvalidIdentifierCode
              (if truthy path
               then ''The value provided for '' @ [CHR 0x22] @ template str path @ [CHR 0x22] @
                    '' is not valid''
               else ''The provided identifier is not valid'')
              (if truthy path then [mk_detail (Some path) (JStr ''invalid value'') None] else [])
              None)
      else if is_record e \<and> get_prop e ''name'' = JStr ''DocumentNotFoundError'' then
        normalized 404 NotFoundCode ''The record was not found'' [] None
      else if is_zod_error e then
        normalized 422 ValidationErrorCode ''Request validation failed''
          (map (zod_detail str) (array_of (get_prop e ''issues''))) None
      else if is_record e \<and>
              (case get_prop e ''name'' of JStr n \<Rightarrow> n \<in> set jwt_error_names | _ \<Rightarrow> False) then
        (let expired = (get_prop e ''name'' = JStr ''TokenExpiredError'')
         in normalized 401 (if expired then TokenExpiredCode else InvalidTokenCode)
              (if expired then ''The access token has expired'' else ''The provided token is not valid'')
              [] None)
      else case (if is_record e then carried_status e else None) of
        Some status \<Rightarrow>
          (let parse_failed = (get_prop e ''type'' = JStr ''entity.parse.failed'')
           in normalized status (if parse_failed then BadRequestCode else error_code_for_status status)
                (if parse_failed then ''Malformed JSON body''
                 else case get_prop e ''message'' of JStr m \<Rightarrow> m | _ \<Rightarrow> ''Request failed'')
                [] (server_cause status (Thrown e)))
      | None \<Rightarrow>
          normalized 500 InternalServerErrorCode ''Unexpected server error'' [] (Some (Thrown e)))"

definition normalize_exception :: "(js_value \<Rightarrow> string) \<Rightarrow> exn \<Rightarrow> normalized_error" where
  "normalize_exception str e =
     (case normalize_http_exception e of
        Some n \<Rightarrow> n
      | None \<Rightarrow> (case e of Thrown v \<Rightarrow> normalize_thrown str v | _ \<Rightarrow> normalize_thrown str Undefined))"

subsection \<open>What the normaliser guarantees\<close>

lemma normalized_sel [simp]:
  "ne_status (normalized s c m d x) = s" "ne_code (normalized s c m d x) = code_string c"
  "ne_message (normalized s c m d x) = m" "ne_details (normalized s c m d x) = d"
  "ne_cause (normalized s c m d x) = x"
  by (simp_all add: normalized_def)

lemma carried_status_range: "carried_status e = Some r \<Longrightarrow> 400 \<le> r \<and> r < 600"
  by (auto simp: carried_status_def Let_def split: js_value.splits js_num.splits option.splits if_splits)

text \<open>
  A normalised error of \<open>e\<close> is well formed: an HTTP error status, a code of the catalogue, and the
  exception itself kept as the cause of every 5xx.
\<close>

definition well_normalized :: "exn \<Rightarrow> normalized_error \<Rightarrow> bool" where
  "well_normalized e n \<longleftrightarrow>
     400 \<le> ne_status n \<and> ne_status n < 600 \<and> ne_code n \<in> range code_string \<and>
     (500 \<le> ne_status n \<longrightarrow> ne_cause n = Some e)"

lemma well_normalized_normalized [simp]:
  "well_normalized e (normalized s c m d x) \<longleftrightarrow>
     400 \<le> s \<and> s < 600 \<and> (500 \<le> s \<longrightarrow> x = Some e)"
  by (simp add: well_normalized_def)

lemma server_cause_some [simp]: "500 \<le> s \<Longrightarrow> server_cause s e = Some e"
  by (simp add: server_cause_def)

lemma well_normalized_prisma: "well_normalized (Thrown e) (normalize_prisma_known_error e)"
  by (simp add: normalize_prisma_known_error_def Let_def)

lemma well_normalized_thrown: "well_normalized (Thrown e) (normalize_thrown str e)"
  unfolding normalize_thrown_def
  by (simp add: well_normalized_prisma Let_def split: option.split) (auto dest: carried_status_range)

lemma normalize_http_cause:
  "normalize_http_exception e = Some n \<Longrightarrow> 500 \<le> ne_status n \<Longrightarrow> ne_cause n = Some e"
  by (cases e) (auto simp: Let_def split: js_value.splits)

lemma normalize_http_status:
  "normalize_http_exception (HttpExc status response msg) = Some n \<Longrightarrow> ne_status n = status"
  by (auto simp: Let_def split: js_value.splits if_splits)

section \<open>The global filter\<close>

datatype log_level = LogError | LogWarn | LogDebug

record http_request =
  rq_id :: "string option"
  rq_header_id :: "string option"

record http_reply =
  rp_status :: rat
  rp_body :: js_value
  rp_request_id :: "string option"

definition error_envelope :: "normalized_error \<Rightarrow> js_value" where
  "error_envelope n = JObj PlainObject
     [(''success'', JBool False),
      (''error'', JObj PlainObject
         [(''code'', JStr (ne_code n)),
          (''message'', JStr (ne_message n)),
          (''details'', JArr (ne_details n))])]"

text \<open>\<open>HttpExceptionFilter.log\<close>: the level an error of this status is logged at.\<close>

definition filter_log_level :: "rat \<Rightarrow> log_level" where
  "filter_log_level status =
     (if 500 \<le> status then LogError else if status = 404 then LogDebug else LogWarn)"

definition request_id_of :: "http_request \<Rightarrow> string" where
  "request_id_of rq =
     (case rq_id rq of
        Some i \<Rightarrow> i
      | None \<Rightarrow> (case rq_header_id rq of Some i \<Rightarrow> i | None \<Rightarrow> []))"

text \<open>
  \<open>HttpExceptionFilter.catch\<close>: what is logged, and the reply, if one is sent. A context that is not
  HTTP is only logged; so is an exception after the headers were sent.
\<close>

definition filter_catch ::
  "(js_value \<Rightarrow> string) \<Rightarrow> bool \<Rightarrow> bool \<Rightarrow> http_request \<Rightarrow> exn \<Rightarrow> log_level \<times> http_reply option" where
  "filter_catch str is_http headers_sent rq e =
     (if \<not> is_http then (LogError, None)
      else let n = normalize_exception str e;
               rid = request_id_of rq;
               level = filter_log_level (ne_status n)
           in if headers_sent then (level, None)
              else (level, Some \<lparr>rp_status = ne_status n, rp_body = error_envelope n,
                                 rp_request_id = (if rid \<noteq> [] then Some rid else None)\<rparr>))"

section \<open>Validation errors\<close>

text \<open>A class-validator error: the property, its failed constraints, and the errors of its children.\<close>

datatype validation_error =
  ValidationError (ve_property: string) (ve_constraints: "(string \<times> string) list")
    (ve_children: "validation_error list")

fun flatten_validation_error :: "string \<Rightarrow> validation_error \<Rightarrow> js_value list" where
  "flatten_validation_error parent (ValidationError p constraints children) =
     (let path = (if parent \<noteq> [] then parent @ ''.'' @ p else p)
      in map (\<lambda>(rule, msg). str_detail path msg rule) constraints @
         concat (map (flatten_validation_error path) children))"

definition flatten_validation_errors :: "validation_error list \<Rightarrow> string \<Rightarrow> js_value list" where
  "flatten_validation_errors errors parent = concat (map (flatten_validation_error parent) errors)"

text \<open>\<open>exceptionFactory\<close> of the global pipe.\<close>

definition validation_exception :: "validation_error list \<Rightarrow> app_exception" where
  "validation_exception errors =
     validation_exc ''Request validation failed'' (flatten_validation_errors errors [])
       ValidationErrorCode"

primrec count_constraints :: "validation_error \<Rightarrow> nat" where
  "count_constraints (ValidationError p constraints children) =
     length constraints + sum_list (map count_constraints children)"

lemma length_flatten_validation_error:
  "length (flatten_validation_error parent v) = count_constraints v"
proof (induction v arbitrary: parent)
  case (ValidationError p constraints children)
  then have "(\<Sum>x\<leftarrow>children. length (flatten_validation_error path x)) =
      sum_list (map count_constraints children)" for path
    by (intro arg_cong [of _ _ sum_list] map_cong) auto
  then show ?case by (simp add: Let_def length_concat comp_def)
qed

lemma flatten_validation_error_details:
  "d \<in> set (flatten_validation_error parent v) \<Longrightarrow>
     is_string (get_prop d ''field'') \<and> is_string (get_prop d ''message'') \<and> is_string (get_prop d ''rule'')"
proof (induction v arbitrary: parent)
  case (ValidationError p constraints children)
  then show ?case by (fastforce simp: Let_def str_detail_def mk_detail_def)
qed

section \<open>The success envelope\<close>

definition is_pagination_meta :: "js_value \<Rightarrow> bool" where
  "is_pagination_meta v \<longleftrightarrow>
     is_record v \<and> is_number (get_prop v ''page'') \<and> is_number (get_prop v ''limit'') \<and>
     is_number (get_prop v ''total'') \<and> is_number (get_prop v ''totalPages'')"

definition envelope :: "js_value \<Rightarrow> js_value" where
  "envelope data = JObj PlainObject [(''success'', JBool True), (''data'', data)]"

definition paginated_envelope :: "js_value \<Rightarrow> js_value \<Rightarrow> js_value" where
  "paginated_envelope data meta =
     JObj PlainObject [(''success'', JBool True), (''data'', data), (''meta'', meta)]"

text \<open>\<open>TransformInterceptor.wrap\<close>.\<close>

definition wrap_payload :: "js_value \<Rightarrow> js_value" where
  "wrap_payload payload =
     (if js_class_of payload = Some StreamableFileObject \<or> js_class_of payload = Some BufferObject
      then payload
      else if is_record payload \<and> is_boolean (get_prop payload ''success'') then payload
      else if is_record payload \<and> is_array (get_prop payload ''data'') \<and>
              is_pagination_meta (get_prop payload ''meta'')
      then paginated_envelope (get_prop payload ''data'') (get_prop payload ''meta'')
      else envelope (if payload = Undefined then Null else payload))"

text \<open>\<open>intercept\<close>: only HTTP handlers without \<open>@SkipResponseTransform()\<close> are wrapped.\<close>

definition intercept :: "bool \<Rightarrow> bool \<Rightarrow> js_value \<Rightarrow> js_value" where
  "intercept is_http skip payload =
     (if \<not> is_http then payload else if skip then payload else wrap_payload payload)"

lemma wrap_payload_envelope: "wrap_payload (envelope d) = envelope d"
  by (simp add: wrap_payload_def envelope_def)

lemma wrap_payload_paginated_envelope: "wrap_payload (paginated_envelope d m) = paginated_envelope d m"
  by (simp add: wrap_payload_def paginated_envelope_def)

section \<open>Properties\<close>

text \<open>The code of an \<open>HttpException\<close>: one of the catalogue, or the one its response body names.\<close>

definition code_given :: "js_value \<Rightarrow> string \<Rightarrow> bool" where
  "code_given response c \<longleftrightarrow> c \<in> range code_string \<or> get_prop response ''code'' = JStr c"

lemma code_given_catalogue: "code_given response (code_string c)"
  by (simp add: code_given_def)

lemma code_given_named: "get_prop response ''code'' = JStr c \<Longrightarrow> code_given response c"
  by (simp add: code_given_def)

lemma normalize_http_code:
  "normalize_http_exception (HttpExc status response msg) = Some n \<Longrightarrow> code_given response (ne_code n)"
  by (auto simp: Let_def code_given_catalogue code_given_named simp del: code_string.simps split: js_value.splits if_splits)

text \<open>
  C38: whatever is thrown, the normaliser answers. A value that is not an \<open>HttpException\<close> (a Prisma,
  Mongoose, Zod, JWT or body-parser error, or garbage) gets a status in the range 400 to 599 and a
  code of the catalogue, never a foreign one. An \<open>AppException\<close> keeps its status, code, message and details.
  Another \<open>HttpException\<close> keeps its status, whatever it is, and its code is one of the catalogue unless its response
  body names another, which is passed on. Any 5xx keeps the exception as its cause, so that it is logged.
\<close>

theorem normalize_exception_total:
  "(\<forall>v. e = Thrown v \<longrightarrow> well_normalized e (normalize_exception str e)) \<and>
   (\<forall>a. e = AppExc a \<longrightarrow>
      ne_status (normalize_exception str e) = ae_status a \<and> ne_code (normalize_exception str e) = ae_code a \<and>
      ne_message (normalize_exception str e) = ae_message a \<and> ne_details (normalize_exception str e) = ae_details a) \<and>
   (\<forall>status response msg. e = HttpExc status response msg \<longrightarrow>
      ne_status (normalize_exception str e) = status \<and>
      code_given response (ne_code (normalize_exception str e))) \<and>
   (500 \<le> ne_status (normalize_exception str e) \<longrightarrow> ne_cause (normalize_exception str e) = Some e)"
proof (cases e)
  case (Thrown v)
  with well_normalized_thrown [of v str] show ?thesis
    by (auto simp: normalize_exception_def well_normalized_def)
next
  case (HttpExc status response msg)
  obtain n where n: "normalize_http_exception e = Some n" by (simp add: HttpExc)
  then have "normalize_exception str e = n" by (simp add: normalize_exception_def)
  with n HttpExc show ?thesis
    using normalize_http_status normalize_http_code normalize_http_cause by blast
qed (auto simp: normalize_exception_def normalize_http_cause split: option.splits)

text \<open>A Prisma error the switch does not list is a 500 whose cause is the error.\<close>

theorem normalize_exception_total_witness:
  "let e = Thrown (JObj ErrorObject [(''code'', JStr ''P2034''), (''clientVersion'', JStr ''6.0.0'')])
   in well_normalized e (normalize_exception (\<lambda>_. []) e) \<and>
      ne_status (normalize_exception (\<lambda>_. []) e) = 500 \<and>
      ne_cause (normalize_exception (\<lambda>_. []) e) = Some e"
proof -
  let ?e = "Thrown (JObj ErrorObject [(''code'', JStr ''P2034''), (''clientVersion'', JStr ''6.0.0'')])"
  have s: "ne_status (normalize_exception (\<lambda>_. []) ?e) = 500" by code_simp
  show ?thesis using normalize_exception_total [of ?e "\<lambda>_. []"] s by (simp add: Let_def)
qed

text \<open>
  the interceptor is idempotent: a payload that already is an envelope (also one proxied from
  another service), or binary data, is not wrapped a second time.
\<close>

theorem wrap_payload_idem: "wrap_payload (wrap_payload p) = wrap_payload p"
proof -
  consider "wrap_payload p = p" | d where "wrap_payload p = envelope d"
    | d m where "wrap_payload p = paginated_envelope d m"
    unfolding wrap_payload_def by metis
  then show ?thesis by cases (simp_all add: wrap_payload_envelope wrap_payload_paginated_envelope)
qed

text \<open>
  Flattening loses no violation: one detail for each failed constraint at any depth, and every
  detail carries a field path, a message and the name of the rule.
\<close>

theorem flatten_validation_errors_complete:
  "length (flatten_validation_errors errors parent) = sum_list (map count_constraints errors) \<and>
   list_all (\<lambda>d. is_string (get_prop d ''field'') \<and> is_string (get_prop d ''message'') \<and>
                  is_string (get_prop d ''rule'')) (flatten_validation_errors errors parent)"
  by (auto simp: flatten_validation_errors_def length_concat comp_def length_flatten_validation_error
      list_all_iff dest: flatten_validation_error_details)

end
