(* ===== verification/Pagination.thy ===== *)
theory Pagination
  imports Http_Errors
begin

text \<open>
  Pagination and sorting of list endpoints: \<open>common/utils/pagination.ts\<close>, the constants of
  \<open>common/constants.ts\<close> and the derived offsets of \<open>common/dto/pagination-query.dto.ts\<close>. The lemmas
  bound the window a caller can ask for, and show that walking the pages of the reported total visits
  every row once, in order.
\<close>

section \<open>Pages\<close>

definition default_page :: int where "default_page = 1"
definition default_page_size :: int where "default_page_size = 20"
definition max_page_size :: int where "max_page_size = 100"

record pagination_input =
  pi_page :: "js_num option"
  pi_limit :: "js_num option"

record normalized_pagination =
  np_page :: int
  np_limit :: int
  np_skip :: int

definition finite_of :: "js_num option \<Rightarrow> rat option" where
  "finite_of n = (case n of Some (Fin r) \<Rightarrow> Some r | _ \<Rightarrow> None)"

definition normalize_pagination :: "pagination_input \<Rightarrow> normalized_pagination" where
  "normalize_pagination input =
     (let page = (case finite_of (pi_page input) of
                    Some r \<Rightarrow> max 1 (trunc_rat r) | None \<Rightarrow> default_page);
          raw_limit = (case finite_of (pi_limit input) of
                    Some r \<Rightarrow> trunc_rat r | None \<Rightarrow> default_page_size);
          limit = min max_page_size (max 1 raw_limit)
      in \<lparr>np_page = page, np_limit = limit, np_skip = (page - 1) * limit\<rparr>)"

record pagination_meta =
  pm_page :: int
  pm_limit :: int
  pm_total :: int
  pm_total_pages :: int

definition build_pagination_meta :: "rat \<Rightarrow> pagination_input \<Rightarrow> pagination_meta" where
  "build_pagination_meta count input =
     (let n = normalize_pagination input;
          safe_total = max 0 (trunc_rat count)
      in \<lparr>pm_page = np_page n, pm_limit = np_limit n, pm_total = safe_total,
          pm_total_pages = (if safe_total = 0 then 0
                            else ceiling (of_int safe_total / of_int (np_limit n) :: rat))\<rparr>)"

text \<open>\<open>paginate(data, total, input)\<close>: the page of rows and its meta.\<close>

definition paginate :: "'a list \<Rightarrow> rat \<Rightarrow> pagination_input \<Rightarrow> 'a list \<times> pagination_meta" where
  "paginate data count input = (data, build_pagination_meta count input)"

text \<open>The query DTO: its page and limit are validated integers; \<open>skip\<close> and \<open>take\<close> are getters.\<close>

record pagination_query =
  pq_page :: int
  pq_limit :: int
  pq_sort :: "string option"

definition query_skip :: "pagination_query \<Rightarrow> int" where
  "query_skip q = (pq_page q - 1) * pq_limit q"

definition query_take :: "pagination_query \<Rightarrow> int" where
  "query_take q = pq_limit q"

text \<open>The input a service hands to \<open>paginate\<close> is the query itself.\<close>

definition query_input :: "('a pagination_query_scheme) \<Rightarrow> pagination_input" where
  "query_input q = \<lparr>pi_page = Some (Fin (of_int (pq_page q))), pi_limit = Some (Fin (of_int (pq_limit q)))\<rparr>"

subsection \<open>Bounds\<close>

lemma normalize_pagination_bounds:
  "1 \<le> np_page (normalize_pagination i)"
  "1 \<le> np_limit (normalize_pagination i)"
  "np_limit (normalize_pagination i) \<le> 100"
  "np_skip (normalize_pagination i) =
     (np_page (normalize_pagination i) - 1) * np_limit (normalize_pagination i)"
  by (auto simp: normalize_pagination_def Let_def default_page_def default_page_size_def
      max_page_size_def split: option.splits)

lemma normalize_pagination_valid:
  assumes "1 \<le> page" "1 \<le> limit" "limit \<le> 100"
  shows "normalize_pagination \<lparr>pi_page = Some (Fin (of_int page)), pi_limit = Some (Fin (of_int limit))\<rparr> =
         \<lparr>np_page = page, np_limit = limit, np_skip = (page - 1) * limit\<rparr>"
  using assms by (simp add: normalize_pagination_def finite_of_def max_page_size_def Let_def)

lemma meta_sel [simp]:
  "pm_page (build_pagination_meta t i) = np_page (normalize_pagination i)"
  "pm_limit (build_pagination_meta t i) = np_limit (normalize_pagination i)"
  "pm_total (build_pagination_meta t i) = max 0 (trunc_rat t)"
  by (simp_all add: build_pagination_meta_def Let_def)

lemma ceiling_div_bounds:
  fixes n d :: int
  assumes "0 < d"
  shows "(ceiling (of_int n / of_int d :: rat) - 1) * d < n \<and> n \<le> ceiling (of_int n / of_int d :: rat) * d"
proof -
  let ?c = "ceiling (of_int n / of_int d :: rat)"
  have lo: "of_int ?c - 1 < (of_int n / of_int d :: rat)" and hi: "(of_int n / of_int d :: rat) \<le> of_int ?c"
    by linarith+
  have d: "(0 :: rat) < of_int d" using assms by simp
  from lo d have "(of_int ?c - 1) * of_int d < (of_int n :: rat)" by (simp add: pos_less_divide_eq)
  moreover have "(of_int n :: rat) \<le> of_int ?c * of_int d"
    by (rule pos_divide_le_eq [OF d, THEN iffD1, OF hi])
  ultimately have "(of_int ((?c - 1) * d) :: rat) < of_int n" and "(of_int n :: rat) \<le> of_int (?c * d)"
    by simp_all
  then show ?thesis by (simp only: of_int_less_iff of_int_le_iff)
qed

subsection \<open>Walking the pages\<close>

text \<open>The rows a query returns for one page: \<open>skip\<close> and \<open>take\<close> over the ordered rows.\<close>

definition page_rows :: "'a list \<Rightarrow> int \<Rightarrow> int \<Rightarrow> 'a list" where
  "page_rows rows page limit = take (nat limit) (drop (nat ((page - 1) * limit)) rows)"

lemma concat_chunks:
  "0 < l \<Longrightarrow> length xs \<le> n * l \<Longrightarrow> concat (map (\<lambda>k. take l (drop (k * l) xs)) [0..<n]) = xs"
proof (induction n arbitrary: xs)
  case 0
  then show ?case by simp
next
  case (Suc n)
  have "map (\<lambda>k. take l (drop (k * l) xs)) [0..<Suc n] =
      take l xs # map (\<lambda>k. take l (drop (k * l) (drop l xs))) [0..<n]"
    by (simp add: upt_rec [of 0] map_Suc_upt [symmetric] add.commute del: upt_Suc)
  moreover have "concat (map (\<lambda>k. take l (drop (k * l) (drop l xs))) [0..<n]) = drop l xs"
    using Suc.prems by (intro Suc.IH) auto
  ultimately show ?case by simp
qed

lemma page_rows_nat:
  "1 \<le> l \<Longrightarrow> page_rows rows (int k + 1) l = take (nat l) (drop (k * nat l) rows)"
  by (simp add: page_rows_def nat_mult_distrib)

section \<open>Sorting\<close>

datatype sort_direction = Asc | Desc

record parsed_sort =
  ps_field :: string
  ps_direction :: sort_direction

definition sort_string :: "sort_direction \<Rightarrow> string" where
  "sort_string d = (case d of Asc \<Rightarrow> ''asc'' | Desc \<Rightarrow> ''desc'')"

definition parse_sort :: "string option \<Rightarrow> string list \<Rightarrow> parsed_sort \<Rightarrow> parsed_sort" where
  "parse_sort srt allowed fallback =
     (case srt of
        None \<Rightarrow> fallback
      | Some s \<Rightarrow>
          if s = [] then fallback
          else let trimmed = trim s;
                   direction = (if starts_with trimmed ''-'' then Desc else Asc);
                   fld = (case trimmed of
                            c # rest \<Rightarrow> if c = CHR ''-'' \<or> c = CHR ''+'' then rest else trimmed
                          | [] \<Rightarrow> trimmed)
               in if fld \<in> set allowed then \<lparr>ps_field = fld, ps_direction = direction\<rparr> else fallback)"

definition to_prisma_order_by :: "parsed_sort \<Rightarrow> string \<times> string" where
  "to_prisma_order_by p = (ps_field p, sort_string (ps_direction p))"

definition to_mongo_sort :: "parsed_sort \<Rightarrow> string \<times> int" where
  "to_mongo_sort p = (ps_field p, if ps_direction p = Desc then -1 else 1)"

definition plain_field :: "string \<Rightarrow> bool" where
  "plain_field f \<longleftrightarrow> f \<noteq> [] \<and> (\<forall>c\<in>set f. \<not> js_space c) \<and> hd f \<noteq> CHR ''-'' \<and> hd f \<noteq> CHR ''+''"

text \<open>The query text of a parsed sort, as the clients write it.\<close>

definition print_sort :: "parsed_sort \<Rightarrow> string" where
  "print_sort p = (case ps_direction p of Desc \<Rightarrow> CHR ''-'' # ps_field p | Asc \<Rightarrow> ps_field p)"

section \<open>Properties\<close>

text \<open>
  Whatever numbers the caller sends (missing, infinite, \<open>NaN\<close>, negative, fractional), the window
  stays within the contract: page at least 1, limit between 1 and 100, and the offset the product of
  the two.
\<close>

theorem normalize_pagination_window:
  "1 \<le> np_page (normalize_pagination i) \<and> 1 \<le> np_limit (normalize_pagination i) \<and>
   np_limit (normalize_pagination i) \<le> 100 \<and> 0 \<le> np_skip (normalize_pagination i) \<and>
   np_skip (normalize_pagination i) =
     (np_page (normalize_pagination i) - 1) * np_limit (normalize_pagination i)"
  using normalize_pagination_bounds [of i] by simp

text \<open>
  A client that requests pages 1 to \<open>totalPages\<close> of the reported total gets every row exactly
  once, in order, and no page of that walk is empty.
\<close>

theorem pages_partition_rows:
  "let m = build_pagination_meta (of_nat (length rows)) i in
     concat (map (\<lambda>k. page_rows rows (int k + 1) (pm_limit m)) [0..<nat (pm_total_pages m)]) = rows \<and>
     list_all (\<lambda>k. page_rows rows (int k + 1) (pm_limit m) \<noteq> []) [0..<nat (pm_total_pages m)]"
proof -
  let ?m = "build_pagination_meta (of_nat (length rows)) i"
  let ?l = "np_limit (normalize_pagination i)"
  have l: "1 \<le> ?l" by (rule normalize_pagination_bounds)
  have lim: "pm_limit ?m = ?l" by simp
  have tot: "trunc_rat (of_nat (length rows)) = int (length rows)"
    using trunc_rat_of_int [of "int (length rows)"] by simp
  show ?thesis
  proof (cases "rows = []")
    case True
    then show ?thesis by (simp add: build_pagination_meta_def trunc_rat_def Let_def)
  next
    case False
    let ?c = "ceiling (of_int (int (length rows)) / of_int ?l :: rat)"
    have pages: "pm_total_pages ?m = ?c"
      using False tot by (simp add: build_pagination_meta_def Let_def)
    from ceiling_div_bounds [of ?l "int (length rows)"] l
    have lo: "(?c - 1) * ?l < int (length rows)" and hi: "int (length rows) \<le> ?c * ?l" by auto
    from hi l False have c0: "0 \<le> ?c" by (smt (verit) mult_neg_pos of_nat_0_le_iff)
    from hi have "int (length rows) \<le> int (nat ?c * nat ?l)" using c0 l by simp
    then have enough: "length rows \<le> nat ?c * nat ?l" by linarith
    have nonempty: "page_rows rows (int k + 1) ?l \<noteq> []" if "k < nat ?c" for k
    proof -
      from that have "int k \<le> ?c - 1" by linarith
      then have "int k * ?l \<le> (?c - 1) * ?l" using l by (intro mult_right_mono) auto
      with lo have "int k * ?l < int (length rows)" by linarith
      moreover have "int (k * nat ?l) = int k * ?l" using l by simp
      ultimately have "k * nat ?l < length rows" by linarith
      then show ?thesis using l by (simp add: page_rows_nat)
    qed
    have "concat (map (\<lambda>k. take (nat ?l) (drop (k * nat ?l) rows)) [0..<nat ?c]) = rows"
      using l enough by (intro concat_chunks) auto
    then show ?thesis using l nonempty by (simp add: Let_def lim pages page_rows_nat list_all_iff)
  qed
qed

text \<open>
  A caller can only sort by an allowed field: the parsed field is one of the allow-list or the
  fallback, whatever the text of the parameter.
\<close>

theorem parse_sort_allowed:
  "ps_field (parse_sort s allowed fallback) \<in> set (ps_field fallback # allowed)"
  by (auto simp: parse_sort_def Let_def split: option.splits)

text \<open>
  printing a sort and parsing it gives it back, for every allowed field that is an identifier.
\<close>

theorem parse_print_sort:
  assumes "ps_field p \<in> set allowed" and "plain_field (ps_field p)"
  shows "parse_sort (Some (print_sort p)) allowed fallback = p"
proof -
  have dash: "\<not> js_space CHR ''-''" by (simp add: js_space_def)
  with assms(2) have t: "trim (print_sort p) = print_sort p"
    by (intro trim_no_space) (auto simp: print_sort_def plain_field_def split: sort_direction.splits)
  obtain c f where f: "ps_field p = c # f" "c \<noteq> CHR ''-''" "c \<noteq> CHR ''+''"
    using assms(2) by (cases "ps_field p") (auto simp: plain_field_def)
  with t assms(1) show ?thesis
    by (cases p; cases "ps_direction p")
       (auto simp: parse_sort_def print_sort_def starts_with_def Let_def)
qed

theorem parse_print_sort_witness:
  "parse_sort (Some (print_sort \<lparr>ps_field = ''price'', ps_direction = Desc\<rparr>)) [''createdAt'', ''price'']
     \<lparr>ps_field = ''createdAt'', ps_direction = Desc\<rparr> = \<lparr>ps_field = ''price'', ps_direction = Desc\<rparr>"
  by (rule parse_print_sort) (simp_all add: plain_field_def js_space_def)

end
