(* ===== verification/Enums.thy ===== *)
theory Enums
  imports Js_Values
begin

text \<open>
  The enumerations of the contract, as api-core (\<open>common/enums.ts\<close>) and the web client
  (\<open>types/enums.ts\<close>) list them, and the type guards of both sides. The lemmas check that the two
  copies of each list are the same and that the guards accept exactly the listed strings.
\<close>

section \<open>Roles and lead statuses\<close>

datatype user_role = RoleUser | RoleAgent | RoleAdmin | RoleSuperadmin

primrec role_string :: "user_role \<Rightarrow> string" where
  "role_string RoleUser = ''user''"
| "role_string RoleAgent = ''agent''"
| "role_string RoleAdmin = ''admin''"
| "role_string RoleSuperadmin = ''superadmin''"

definition USER_ROLES :: "user_role list" where
  "USER_ROLES = [RoleUser, RoleAgent, RoleAdmin, RoleSuperadmin]"

definition STAFF_ROLES :: "user_role list" where
  "STAFF_ROLES = [RoleAgent, RoleAdmin, RoleSuperadmin]"

definition ADMIN_ROLES :: "user_role list" where
  "ADMIN_ROLES = [RoleAdmin, RoleSuperadmin]"

datatype lead_status = New | Contacted | Qualified | Viewing | Negotiating | Won | Lost

primrec lead_status_string :: "lead_status \<Rightarrow> string" where
  "lead_status_string New = ''new''"
| "lead_status_string Contacted = ''contacted''"
| "lead_status_string Qualified = ''qualified''"
| "lead_status_string Viewing = ''viewing''"
| "lead_status_string Negotiating = ''negotiating''"
| "lead_status_string Won = ''won''"
| "lead_status_string Lost = ''lost''"

definition LEAD_STATUSES :: "lead_status list" where
  "LEAD_STATUSES = [New, Contacted, Qualified, Viewing, Negotiating, Won, Lost]"

section \<open>Listing enumerations\<close>

definition PROPERTY_TYPES :: "string list" where
  "PROPERTY_TYPES = [''apartment'', ''villa'', ''townhouse'', ''twinhouse'', ''duplex'', ''penthouse'',
     ''studio'', ''chalet'', ''office'', ''retail'', ''clinic'']"

definition SALE_TYPES :: "string list" where
  "SALE_TYPES = [''primary'', ''resale'', ''rent'']"

datatype property_status = Available | Reserved | Sold | Off_Plan | Delivered

primrec property_status_string :: "property_status \<Rightarrow> string" where
  "property_status_string Available = ''available''"
| "property_status_string Reserved = ''reserved''"
| "property_status_string Sold = ''sold''"
| "property_status_string Off_Plan = ''off_plan''"
| "property_status_string Delivered = ''delivered''"

definition PROPERTY_STATUSES :: "property_status list" where
  "PROPERTY_STATUSES = [Available, Reserved, Sold, Off_Plan, Delivered]"

definition FINISHING_TYPES :: "string list" where
  "FINISHING_TYPES = [''core_shell'', ''semi_finished'', ''fully_finished'', ''furnished'']"

definition CURRENCIES :: "string list" where
  "CURRENCIES = [''EGP'']"

text \<open>The guard \<open>includes(values, value)\<close>, and its instances.\<close>

definition enum_includes :: "string list \<Rightarrow> js_value \<Rightarrow> bool" where
  "enum_includes vals v = (case v of JStr s \<Rightarrow> s \<in> set vals | _ \<Rightarrow> False)"

definition is_property_type :: "js_value \<Rightarrow> bool" where
  "is_property_type v = enum_includes PROPERTY_TYPES v"

definition is_sale_type :: "js_value \<Rightarrow> bool" where
  "is_sale_type v = enum_includes SALE_TYPES v"

definition is_property_status :: "js_value \<Rightarrow> bool" where
  "is_property_status v = enum_includes (map property_status_string PROPERTY_STATUSES) v"

definition is_finishing_type :: "js_value \<Rightarrow> bool" where
  "is_finishing_type v = enum_includes FINISHING_TYPES v"

definition is_user_role :: "js_value \<Rightarrow> bool" where
  "is_user_role v = enum_includes (map role_string USER_ROLES) v"

definition is_lead_status :: "js_value \<Rightarrow> bool" where
  "is_lead_status v = enum_includes (map lead_status_string LEAD_STATUSES) v"

section \<open>The copies of the web client\<close>

definition WEB_PROPERTY_TYPES :: "string list" where
  "WEB_PROPERTY_TYPES = [''apartment'', ''villa'', ''townhouse'', ''twinhouse'', ''duplex'', ''penthouse'',
     ''studio'', ''chalet'', ''office'', ''retail'', ''clinic'']"

definition WEB_SALE_TYPES :: "string list" where
  "WEB_SALE_TYPES = [''primary'', ''resale'', ''rent'']"

definition WEB_PROPERTY_STATUSES :: "string list" where
  "WEB_PROPERTY_STATUSES = [''available'', ''reserved'', ''sold'', ''off_plan'', ''delivered'']"

definition WEB_FINISHING_TYPES :: "string list" where
  "WEB_FINISHING_TYPES = [''core_shell'', ''semi_finished'', ''fully_finished'', ''furnished'']"

definition WEB_USER_ROLES :: "string list" where
  "WEB_USER_ROLES = [''user'', ''agent'', ''admin'', ''superadmin'']"

definition WEB_LEAD_STATUSES :: "string list" where
  "WEB_LEAD_STATUSES = [''new'', ''contacted'', ''qualified'', ''viewing'', ''negotiating'', ''won'', ''lost'']"

definition SEARCH_SORTS :: "string list" where
  "SEARCH_SORTS = [''relevance'', ''price_asc'', ''price_desc'', ''newest'', ''area_desc'']"

definition LOCALES :: "string list" where
  "LOCALES = [''en'', ''ar'']"

definition web_is_property_type :: "string \<Rightarrow> bool" where
  "web_is_property_type v \<longleftrightarrow> v \<in> set WEB_PROPERTY_TYPES"

definition web_is_sale_type :: "string \<Rightarrow> bool" where
  "web_is_sale_type v \<longleftrightarrow> v \<in> set WEB_SALE_TYPES"

definition web_is_property_status :: "string \<Rightarrow> bool" where
  "web_is_property_status v \<longleftrightarrow> v \<in> set WEB_PROPERTY_STATUSES"

definition web_is_finishing :: "string \<Rightarrow> bool" where
  "web_is_finishing v \<longleftrightarrow> v \<in> set WEB_FINISHING_TYPES"

definition web_is_search_sort :: "string \<Rightarrow> bool" where
  "web_is_search_sort v \<longleftrightarrow> v \<in> set SEARCH_SORTS"

definition web_is_locale :: "string \<Rightarrow> bool" where
  "web_is_locale v \<longleftrightarrow> v \<in> set LOCALES"

section \<open>Lemmas\<close>

lemma USER_ROLES_all: "r \<in> set USER_ROLES"
  by (cases r) (simp_all add: USER_ROLES_def)

lemma LEAD_STATUSES_all: "s \<in> set LEAD_STATUSES"
  by (cases s) (simp_all add: LEAD_STATUSES_def)

lemma PROPERTY_STATUSES_all: "s \<in> set PROPERTY_STATUSES"
  by (cases s) (simp_all add: PROPERTY_STATUSES_def)

lemma role_string_inj: "role_string a = role_string b \<longleftrightarrow> a = b"
  by (cases a; cases b) simp_all

lemma lead_status_string_inj: "lead_status_string a = lead_status_string b \<longleftrightarrow> a = b"
  by (cases a; cases b) simp_all

lemma property_status_string_inj: "property_status_string a = property_status_string b \<longleftrightarrow> a = b"
  by (cases a; cases b) simp_all

text \<open>The two copies of every list agree, so a value one side accepts the other accepts too.\<close>

lemma guards_agree:
  "web_is_property_type s = is_property_type (JStr s)"
  "web_is_sale_type s = is_sale_type (JStr s)"
  "web_is_property_status s = is_property_status (JStr s)"
  "web_is_finishing s = is_finishing_type (JStr s)"
  by (simp_all add: web_is_property_type_def is_property_type_def web_is_sale_type_def
      is_sale_type_def web_is_property_status_def is_property_status_def web_is_finishing_def
      is_finishing_type_def enum_includes_def WEB_PROPERTY_TYPES_def PROPERTY_TYPES_def
      WEB_SALE_TYPES_def SALE_TYPES_def WEB_PROPERTY_STATUSES_def PROPERTY_STATUSES_def
      WEB_FINISHING_TYPES_def FINISHING_TYPES_def)

lemma role_guard: "is_user_role (JStr s) \<longleftrightarrow> (\<exists>r. s = role_string r)"
  by (auto simp: is_user_role_def enum_includes_def USER_ROLES_all)

lemma lead_status_guard: "is_lead_status (JStr s) \<longleftrightarrow> (\<exists>r. s = lead_status_string r)"
  by (auto simp: is_lead_status_def enum_includes_def LEAD_STATUSES_all)

end
