(* ===== verification/Identifiers.thy ===== *)
theory Identifiers
  imports Http_Errors
begin

text \<open>
  Identifiers and text that crosses the trust boundary: UUID and ObjectId recognition
  (\<open>modules/shared/identifier.util.ts\<close>), request ids (\<open>common/middleware/request-id.middleware.ts\<close>),
  regular expression escaping (\<open>common/utils/escape-regexp.ts\<close>), query-string transforms
  (\<open>modules/shared/transform.util.ts\<close>) and slugs (\<open>modules/shared/slug.util.ts\<close>).
\<close>

section \<open>UUIDs and ObjectIds\<close>

definition hex_char :: "char \<Rightarrow> bool" where
  "hex_char c \<longleftrightarrow> (let n = (of_char c :: nat)
     in (48 \<le> n \<and> n \<le> 57) \<or> (97 \<le> n \<and> n \<le> 102) \<or> (65 \<le> n \<and> n \<le> 70))"

definition hex_run :: "nat \<Rightarrow> string \<Rightarrow> bool" where
  "hex_run n s \<longleftrightarrow> length s = n \<and> list_all hex_char s"

text \<open>\<open>UUID_PATTERN\<close>: five hexadecimal groups; the version digit is 1 to 8, the variant 8, 9, a or b.\<close>

definition is_uuid :: "string \<Rightarrow> bool" where
  "is_uuid s \<longleftrightarrow>
     (case split_on CHR ''-'' s of
        [a, b, c, d, e] \<Rightarrow>
          hex_run 8 a \<and> hex_run 4 b \<and> hex_run 4 c \<and> hex_run 4 d \<and> hex_run 12 e \<and>
          hd c \<in> set ''12345678'' \<and> hd d \<in> set ''89abAB''
      | _ \<Rightarrow> False)"

definition is_object_id_hex :: "string \<Rightarrow> bool" where
  "is_object_id_hex s \<longleftrightarrow> hex_run 24 s"

definition quote :: "string \<Rightarrow> string" where
  "quote s = CHR 0x22 # s @ [CHR 0x22]"

definition assert_uuid :: "string \<Rightarrow> string \<Rightarrow> app_exception + string" where
  "assert_uuid v fld =
     (if \<not> is_uuid v
      then Inl (bad_request (quote fld @ '' must be a valid UUID'') InvalidIdentifierCode
                  [str_detail fld ''must be a valid UUID'' ''uuid''])
      else Inr v)"

lemma is_uuid_dash: "is_uuid s \<Longrightarrow> CHR ''-'' \<in> set s"
  by (rule ccontr) (simp add: is_uuid_def split_on_no_sep)

lemma hex_char_not_dash: "\<not> hex_char CHR ''-''"
  by (simp add: hex_char_def)

lemma uuid_not_object_id: "is_uuid s \<Longrightarrow> \<not> is_object_id_hex s"
  using is_uuid_dash hex_char_not_dash by (auto simp: is_object_id_hex_def hex_run_def list_all_iff)

section \<open>Request ids\<close>

definition max_request_id_length :: nat where "max_request_id_length = 128"

text \<open>\<open>SAFE_REQUEST_ID\<close>: one or more of \<open>A-Za-z0-9._:-\<close>.\<close>

definition safe_id_char :: "char \<Rightarrow> bool" where
  "safe_id_char c \<longleftrightarrow> (let n = (of_char c :: nat)
     in (65 \<le> n \<and> n \<le> 90) \<or> (97 \<le> n \<and> n \<le> 122) \<or> (48 \<le> n \<and> n \<le> 57)) \<or> c \<in> set ''._:-''"

definition safe_request_id :: "string \<Rightarrow> bool" where
  "safe_request_id s \<longleftrightarrow> s \<noteq> [] \<and> list_all safe_id_char s"

text \<open>
  \<open>normalizeRequestId\<close>. The UUID test and the generator are the \<open>uuid\<close> package's \<open>validate\<close> and \<open>v4\<close>:
  the parameters \<open>pkg_is_uuid\<close> and \<open>fresh\<close>.
\<close>

definition normalize_request_id :: "(string \<Rightarrow> bool) \<Rightarrow> string \<Rightarrow> js_value \<Rightarrow> string" where
  "normalize_request_id pkg_is_uuid fresh raw =
     (let candidate = (case raw of
                         JArr xs \<Rightarrow> (case xs of [] \<Rightarrow> Undefined | x # _ \<Rightarrow> x)
                       | _ \<Rightarrow> raw)
      in case candidate of
           JStr s \<Rightarrow>
             (let trimmed = trim s
              in if 0 < length trimmed \<and> length trimmed \<le> max_request_id_length \<and>
                    (pkg_is_uuid trimmed \<or> safe_request_id trimmed)
                 then trimmed else fresh)
         | _ \<Rightarrow> fresh)"

section \<open>Escaping a search term\<close>

definition regex_metachars :: string where
  "regex_metachars = ''.*+?^${}()|[]'' @ [CHR 0x5C]"

definition escape_reg_exp :: "string \<Rightarrow> string" where
  "escape_reg_exp v =
     concat (map (\<lambda>c. if c \<in> set regex_metachars then [CHR 0x5C, c] else [c]) v)"

text \<open>
  How a regular expression engine reads a pattern that contains no operator: an escaped
  metacharacter or an ordinary character stands for itself. A pattern with a bare metacharacter is
  not a literal.
\<close>

fun literal_pattern :: "string \<Rightarrow> string option" where
  "literal_pattern [] = Some []"
| "literal_pattern (c # p) =
     (if c = CHR 0x5C then
        (case p of
           [] \<Rightarrow> None
         | d # q \<Rightarrow> if d \<in> set regex_metachars then map_option (Cons d) (literal_pattern q) else None)
      else if c \<in> set regex_metachars then None
      else map_option (Cons c) (literal_pattern p))"

section \<open>Query-string transforms\<close>

definition TRUTHY :: "string list" where "TRUTHY = [''true'', ''1'', ''yes'', ''on'']"
definition FALSY :: "string list" where "FALSY = [''false'', ''0'', ''no'', ''off'']"

definition to_boolean_value :: "js_value \<Rightarrow> js_value" where
  "to_boolean_value v =
     (case v of
        JBool b \<Rightarrow> v
      | JStr s \<Rightarrow>
          (let normalized = to_lower (trim s)
           in if normalized \<in> set TRUTHY then JBool True
              else if normalized \<in> set FALSY then JBool False
              else v)
      | _ \<Rightarrow> v)"

definition to_trimmed_string :: "js_value \<Rightarrow> js_value" where
  "to_trimmed_string v = (case v of JStr s \<Rightarrow> JStr (trim s) | _ \<Rightarrow> v)"

definition to_lower_case_string :: "js_value \<Rightarrow> js_value" where
  "to_lower_case_string v = (case v of JStr s \<Rightarrow> JStr (to_lower (trim s)) | _ \<Rightarrow> v)"

definition clean_entries :: "string list \<Rightarrow> js_value" where
  "clean_entries ws = JArr (map JStr (filter (\<lambda>w. 0 < length w) (map trim ws)))"

definition to_string_array :: "js_value \<Rightarrow> js_value" where
  "to_string_array v =
     (case v of
        JArr xs \<Rightarrow> clean_entries (List.map_filter string_of xs)
      | JStr s \<Rightarrow> clean_entries (split_on CHR '','' s)
      | _ \<Rightarrow> v)"

section \<open>Slugs\<close>

text \<open>
  \<open>slugify\<close> works on UTF-16 code units, here natural numbers. \<open>normalize('NFKD')\<close> is the parameter
  \<open>nfkd\<close>; nothing below depends on what it does. \<open>toLowerCase\<close> is written out for ASCII: any other
  letter is replaced by a dash right after, and after NFKD none lowers to an ASCII one.
\<close>

definition max_slug_length :: nat where "max_slug_length = 120"

definition unit_lower :: "nat \<Rightarrow> nat" where
  "unit_lower u = (if 65 \<le> u \<and> u \<le> 90 then u + 32 else u)"

definition slug_unit :: "nat \<Rightarrow> bool" where
  "slug_unit u \<longleftrightarrow> (97 \<le> u \<and> u \<le> 122) \<or> (48 \<le> u \<and> u \<le> 57)"

text \<open>\<open>.replace(/[^a-z0-9]+/g, '-')\<close>: each maximal run of other units becomes one dash (45).\<close>

fun dash_runs :: "nat list \<Rightarrow> nat list" where
  "dash_runs [] = []"
| "dash_runs (u # us) =
     (if slug_unit u then u # dash_runs us
      else 45 # dash_runs (dropWhile (\<lambda>v. \<not> slug_unit v) us))"

text \<open>\<open>.replace(/-{2,}/g, '-')\<close>.\<close>

fun collapse_dashes :: "nat list \<Rightarrow> nat list" where
  "collapse_dashes [] = []"
| "collapse_dashes (u # us) =
     (if u = 45 then 45 # collapse_dashes (dropWhile (\<lambda>v. v = 45) us) else u # collapse_dashes us)"

definition strip_trailing_dashes :: "nat list \<Rightarrow> nat list" where
  "strip_trailing_dashes us = rev (dropWhile (\<lambda>v. v = 45) (rev us))"

definition strip_dashes :: "nat list \<Rightarrow> nat list" where
  "strip_dashes us = strip_trailing_dashes (dropWhile (\<lambda>v. v = 45) us)"

definition slug_units :: "(nat list \<Rightarrow> nat list) \<Rightarrow> nat list option \<Rightarrow> nat list" where
  "slug_units nfkd v =
     (let s0 = nfkd (case v of None \<Rightarrow> [] | Some s \<Rightarrow> s);
          s1 = filter (\<lambda>u. \<not> (0x300 \<le> u \<and> u \<le> 0x36F)) s0;
          s2 = map unit_lower s1;
          s3 = filter (\<lambda>u. u \<notin> {39, 0x2019, 96}) s2;
          s4 = strip_dashes (collapse_dashes (dash_runs s3))
      in strip_trailing_dashes (take max_slug_length s4))"

definition slugify :: "(nat list \<Rightarrow> nat list) \<Rightarrow> nat list option \<Rightarrow> string \<Rightarrow> string" where
  "slugify nfkd v fallback =
     (let slug = map (\<lambda>u. char_of u :: char) (slug_units nfkd v)
      in if 0 < length slug then slug else fallback)"

text \<open>
  \<open>buildUniqueSlug\<close>: the loop over the attempts; \<open>isTaken\<close> asks the database and \<open>stamp\<close> is
  \<open>Date.now().toString(36)\<close>.
\<close>

fun first_free :: "(string \<Rightarrow> bool) \<Rightarrow> string \<Rightarrow> nat list \<Rightarrow> string option" where
  "first_free is_taken base [] = None"
| "first_free is_taken base (attempt # attempts) =
     (let candidate = base @ ''-'' @ show_nat attempt
      in if \<not> is_taken candidate then Some candidate else first_free is_taken base attempts)"

definition build_unique_slug ::
  "(nat list \<Rightarrow> nat list) \<Rightarrow> string \<Rightarrow> nat list option \<Rightarrow> (string \<Rightarrow> bool) \<Rightarrow> string \<Rightarrow> nat \<Rightarrow> string" where
  "build_unique_slug nfkd stamp desired is_taken fallback max_attempts =
     (let base = slugify nfkd desired fallback
      in if \<not> is_taken base then base
         else case first_free is_taken base [2..<Suc max_attempts] of
                Some candidate \<Rightarrow> candidate
              | None \<Rightarrow> base @ ''-'' @ stamp)"

section \<open>Lemmas\<close>

lemma set_escape: "c \<in> set (escape_reg_exp s) \<Longrightarrow> c \<in> set s \<or> c = CHR 0x5C"
  by (auto simp: escape_reg_exp_def split: if_splits)

lemma set_trim: "set (trim s) \<subseteq> set s"
proof -
  have "set (trim_end t) \<subseteq> set t" for t
    by (simp add: trim_end_def) (metis set_dropWhileD set_rev subsetI)
  moreover have "set (trim_start s) \<subseteq> set s"
    by (auto simp: trim_start_def dest: set_dropWhileD)
  ultimately show ?thesis by (auto simp: trim_def)
qed

lemma clean_entries_trimmed:
  "clean_entries ws = JArr vs \<Longrightarrow> v \<in> set vs \<Longrightarrow> \<exists>w. v = JStr w \<and> w \<noteq> [] \<and> trim w = w"
  by (auto simp: clean_entries_def)

lemma map_filter_JStr [simp]: "List.map_filter string_of (map JStr ws) = ws"
  by (induction ws) (simp_all add: List.map_filter_simps)

lemma clean_entries_clean:
  "(\<forall>w\<in>set ws. w \<noteq> [] \<and> trim w = w) \<Longrightarrow> clean_entries ws = JArr (map JStr ws)"
proof -
  assume *: "\<forall>w\<in>set ws. w \<noteq> [] \<and> trim w = w"
  then have "map trim ws = ws" by (intro map_idI) auto
  moreover from * have "filter (\<lambda>w. 0 < length w) ws = ws" by (intro filter_True) auto
  ultimately show ?thesis by (simp add: clean_entries_def)
qed

subsection \<open>The characters of a slug\<close>

definition slug_chars :: "nat list \<Rightarrow> bool" where
  "slug_chars us \<longleftrightarrow> (\<forall>u\<in>set us. slug_unit u \<or> u = 45)"

text \<open>No two dashes in a row.\<close>

definition no_double_dash :: "nat list \<Rightarrow> bool" where
  "no_double_dash us \<longleftrightarrow> successively (\<lambda>a b. a = 45 \<longrightarrow> b \<noteq> 45) us"

lemma not_slug_unit_dash [simp]: "\<not> slug_unit 45"
  by (simp add: slug_unit_def)

lemma dash_runs_chars: "slug_chars (dash_runs us)"
  by (induction us rule: dash_runs.induct) (auto simp: slug_chars_def)

lemma collapse_dashes_subset: "set (collapse_dashes us) \<subseteq> set us"
  by (induction us rule: collapse_dashes.induct) (auto dest: set_dropWhileD)

lemma hd_collapse_dashes: "us \<noteq> [] \<Longrightarrow> hd (collapse_dashes us) = hd us"
  by (cases us) auto

lemma collapse_dashes_Nil [simp]: "collapse_dashes us = [] \<longleftrightarrow> us = []"
  by (cases us) auto

lemma no_double_dash_Cons:
  "no_double_dash (u # us) \<longleftrightarrow> no_double_dash us \<and> (u = 45 \<longrightarrow> us = [] \<or> hd us \<noteq> 45)"
  by (auto simp: no_double_dash_def successively_Cons)

lemma collapse_no_double: "no_double_dash (collapse_dashes us)"
proof (induction us rule: collapse_dashes.induct)
  case 1
  then show ?case by (simp add: no_double_dash_def)
next
  case (2 u us)
  show ?case
  proof (cases "u = 45")
    case True
    let ?rest = "dropWhile (\<lambda>v. v = 45) us"
    have "collapse_dashes ?rest = [] \<or> hd (collapse_dashes ?rest) \<noteq> 45"
      by (metis (mono_tags, lifting) collapse_dashes_Nil hd_collapse_dashes hd_dropWhile)
    with True 2 show ?thesis by (simp add: no_double_dash_Cons)
  next
    case False
    with 2 show ?thesis by (simp add: no_double_dash_Cons)
  qed
qed

lemma no_double_dash_infix: "no_double_dash (a @ us @ b) \<Longrightarrow> no_double_dash us"
  by (auto simp: no_double_dash_def successively_append_iff)

lemma strip_trailing_prefix: "\<exists>b. us = strip_trailing_dashes us @ b"
  using suffix_dropWhile [of "\<lambda>v. v = 45" "rev us"]
  by (simp add: strip_trailing_dashes_def suffix_to_prefix prefix_def)

lemma strip_trailing_last: "strip_trailing_dashes us \<noteq> [] \<Longrightarrow> last (strip_trailing_dashes us) \<noteq> 45"
  unfolding strip_trailing_dashes_def by (metis (mono_tags, lifting) hd_dropWhile last_rev rev_is_Nil_conv)

lemma strip_dashes_infix: "\<exists>a b. us = a @ strip_dashes us @ b"
proof -
  obtain b where "dropWhile (\<lambda>v. v = 45) us = strip_dashes us @ b"
    unfolding strip_dashes_def using strip_trailing_prefix by blast
  then have "us = takeWhile (\<lambda>v. v = 45) us @ strip_dashes us @ b"
    using takeWhile_dropWhile_id [of "\<lambda>v. v = 45" us] by simp
  then show ?thesis by blast
qed

lemma strip_dashes_hd: "strip_dashes us \<noteq> [] \<Longrightarrow> hd (strip_dashes us) \<noteq> 45"
proof -
  assume ne: "strip_dashes us \<noteq> []"
  let ?d = "dropWhile (\<lambda>v. v = 45) us"
  obtain b where b: "?d = strip_dashes us @ b"
    unfolding strip_dashes_def using strip_trailing_prefix by blast
  with ne have d: "?d \<noteq> []" by auto
  have "hd ?d = hd (strip_dashes us)" unfolding b using ne by (rule hd_append2)
  with hd_dropWhile [OF d] show ?thesis by argo
qed

text \<open>What a slug looks like, as a predicate on its code units.\<close>

definition well_formed_slug :: "nat list \<Rightarrow> bool" where
  "well_formed_slug us \<longleftrightarrow> slug_chars us \<and> no_double_dash us \<and> length us \<le> max_slug_length \<and>
     (us \<noteq> [] \<longrightarrow> hd us \<noteq> 45 \<and> last us \<noteq> 45)"

lemma strip_take_well_formed:
  assumes chars: "slug_chars c" and dashes: "no_double_dash c"
  shows "well_formed_slug (strip_trailing_dashes (take max_slug_length (strip_dashes c)))"
proof -
  define t where "t = take max_slug_length (strip_dashes c)"
  define r where "r = strip_trailing_dashes t"
  obtain a b where ab: "c = a @ strip_dashes c @ b" using strip_dashes_infix by blast
  obtain e where e: "t = r @ e" unfolding r_def using strip_trailing_prefix by blast
  have "strip_dashes c = r @ e @ drop max_slug_length (strip_dashes c)"
    using e append_take_drop_id [of max_slug_length "strip_dashes c"] by (metis append.assoc t_def)
  with ab have c: "c = a @ r @ (e @ drop max_slug_length (strip_dashes c) @ b)"
    by (metis append.assoc)
  have "set r \<subseteq> set c" by (subst c) auto
  with chars have 1: "slug_chars r" by (auto simp: slug_chars_def)
  from dashes c have 2: "no_double_dash r" by (metis no_double_dash_infix)
  have "length t \<le> max_slug_length" by (simp add: t_def)
  then have 3: "length r \<le> max_slug_length" using e by simp
  have 4: "hd r \<noteq> 45" if "r \<noteq> []"
  proof -
    from that e have "t \<noteq> []" and "hd r = hd t" by auto
    then have "strip_dashes c \<noteq> []" and "hd r = hd (strip_dashes c)"
      by (auto simp: t_def hd_take)
    with strip_dashes_hd [of c] show ?thesis by argo
  qed
  have 5: "last r \<noteq> 45" if "r \<noteq> []"
    using that strip_trailing_last [of t] by (simp add: r_def)
  from 1 2 3 4 5 show ?thesis by (simp add: well_formed_slug_def r_def t_def)
qed

lemma slug_units_well_formed: "well_formed_slug (slug_units nfkd v)"
proof -
  have "slug_chars (collapse_dashes (dash_runs s))" for s
    using dash_runs_chars [of s] collapse_dashes_subset [of "dash_runs s"] by (auto simp: slug_chars_def)
  then show ?thesis
    unfolding slug_units_def Let_def by (intro strip_take_well_formed collapse_no_double)
qed

subsection \<open>Unique slugs\<close>

lemma first_free_Some:
  "first_free is_taken base [i..<n] = Some s \<Longrightarrow>
     \<exists>k. i \<le> k \<and> k < n \<and> s = base @ ''-'' @ show_nat k \<and> \<not> is_taken s \<and>
         (\<forall>j\<in>{i..<k}. is_taken (base @ ''-'' @ show_nat j))"
proof (induction "n - i" arbitrary: i)
  case 0
  then show ?case by simp
next
  case (Suc d)
  then have less: "i < n" by simp
  then have upt: "[i..<n] = i # [Suc i..<n]" by (rule upt_conv_Cons)
  show ?case
  proof (cases "is_taken (base @ ''-'' @ show_nat i)")
    case True
    with Suc.prems have "first_free is_taken base [Suc i..<n] = Some s"
      by (simp add: upt Let_def)
    moreover have "d = n - Suc i" using Suc.hyps(2) by simp
    ultimately obtain k where "Suc i \<le> k" "k < n" "s = base @ ''-'' @ show_nat k" "\<not> is_taken s"
      and all: "\<forall>j\<in>{Suc i..<k}. is_taken (base @ ''-'' @ show_nat j)"
      using Suc.hyps(1) by blast
    moreover have "\<forall>j\<in>{i..<k}. is_taken (base @ ''-'' @ show_nat j)"
      using all True by (metis Suc_leI atLeastLessThan_iff le_neq_implies_less)
    ultimately show ?thesis by (intro exI [of _ k]) simp
  next
    case False
    with Suc.prems less show ?thesis by (intro exI [of _ i]) (auto simp: upt Let_def)
  qed
qed

lemma first_free_None:
  "first_free is_taken base attempts = None \<longleftrightarrow> (\<forall>k\<in>set attempts. is_taken (base @ ''-'' @ show_nat k))"
  by (induction attempts) (auto simp: Let_def)

section \<open>Properties\<close>

text \<open>
  a request id is safe to log: given that the UUID package recognises and generates only
  such text, the id that is propagated is never empty, has at most 128 characters, and each is a
  letter, a digit or one of \<open>._:-\<close>; in particular no line break from the header survives.
\<close>

theorem normalize_request_id_safe:
  assumes "\<And>s. pkg_is_uuid s \<Longrightarrow> safe_request_id s"
    and "safe_request_id fresh" and "length fresh \<le> max_request_id_length"
  shows "safe_request_id (normalize_request_id pkg_is_uuid fresh raw) \<and>
         length (normalize_request_id pkg_is_uuid fresh raw) \<le> max_request_id_length"
  using assms by (auto simp: normalize_request_id_def Let_def split: js_value.splits list.splits)

theorem normalize_request_id_safe_witness:
  "safe_request_id (normalize_request_id is_uuid ''f81d4fae'' (JStr [CHR ''a'', CHR 0x0A, CHR ''b''])) \<and>
   length (normalize_request_id is_uuid ''f81d4fae'' (JStr [CHR ''a'', CHR 0x0A, CHR ''b''])) \<le>
     max_request_id_length"
proof (rule normalize_request_id_safe)
  fix s :: string
  assume "is_uuid s"
  then have "\<forall>c\<in>set s. hex_char c \<or> c = CHR ''-''" and "s \<noteq> []"
    using join_split_on [of "CHR ''-''" s] is_uuid_dash [of s]
    by (auto simp: is_uuid_def hex_run_def list_all_iff split: list.splits)
  then show "safe_request_id s"
    by (auto simp: safe_request_id_def list_all_iff hex_char_def safe_id_char_def Let_def)
qed (simp_all add: safe_request_id_def safe_id_char_def max_request_id_length_def)

text \<open>
  An escaped search term is a pattern that matches that term literally: read by the regular
  expression grammar it contains no operator, and the literal it denotes is the term itself.
\<close>

theorem escape_reg_exp_literal: "literal_pattern (escape_reg_exp s) = Some s"
proof (induction s)
  case Nil
  then show ?case by (simp add: escape_reg_exp_def)
next
  case (Cons c s)
  have meta: "CHR 0x5C \<in> set regex_metachars" by (simp add: regex_metachars_def)
  have "escape_reg_exp (c # s) =
      (if c \<in> set regex_metachars then [CHR 0x5C, c] else [c]) @ escape_reg_exp s"
    by (simp add: escape_reg_exp_def)
  with Cons meta show ?case by auto
qed

text \<open>
  the two spellings of a list parameter agree: \<open>?x=a,b\<close> and \<open>?x=a&x=b\<close> are transformed to the same
  array, for entries that are not empty, not padded and contain no comma.
\<close>

theorem to_string_array_spellings:
  assumes "ws \<noteq> []" and "\<forall>w\<in>set ws. w \<noteq> [] \<and> trim w = w \<and> CHR '','' \<notin> set w"
  shows "to_string_array (JStr (join '','' ws)) = JArr (map JStr ws) \<and>
         to_string_array (JArr (map JStr ws)) = JArr (map JStr ws)"
  using assms by (simp add: to_string_array_def split_on_join clean_entries_clean)

theorem to_string_array_spellings_witness:
  "to_string_array (JStr ''pool,gym'') = JArr [JStr ''pool'', JStr ''gym''] \<and>
   to_string_array (JArr [JStr ''pool'', JStr ''gym'']) = JArr [JStr ''pool'', JStr ''gym'']"
proof -
  have "trim ''pool'' = ''pool''" "trim ''gym'' = ''gym''" by code_simp+
  then show ?thesis using to_string_array_spellings [of "[''pool'', ''gym'']"] by simp
qed

text \<open>
  A slug is URL safe: whatever the name, and whatever Unicode normalisation does to it, the
  result is the fallback or at most 120 characters of lower case letters, digits and single dashes
  that neither starts nor ends with a dash.
\<close>

theorem slugify_well_formed:
  "slugify nfkd v fallback = fallback \<or>
   (\<exists>us. us \<noteq> [] \<and> well_formed_slug us \<and> slugify nfkd v fallback = map char_of us)"
  using slug_units_well_formed [of nfkd v] by (auto simp: slugify_def Let_def)

text \<open>
  The slug handed out is free, unless every candidate was taken: it is the base slug when that is
  free, else the base with the smallest free suffix from 2 to the limit; the timestamp is used only
  when the base and all numbered candidates are taken.
\<close>

theorem build_unique_slug_free:
  "let base = slugify nfkd desired fallback;
       s = build_unique_slug nfkd stamp desired is_taken fallback m
   in \<not> is_taken s \<and> (s = base \<or>
        (\<exists>k\<in>{2..m}. s = base @ ''-'' @ show_nat k \<and> is_taken base \<and>
           (\<forall>j\<in>{2..<k}. is_taken (base @ ''-'' @ show_nat j)))) \<or>
      (s = base @ ''-'' @ stamp \<and> is_taken base \<and>
        (\<forall>k\<in>{2..m}. is_taken (base @ ''-'' @ show_nat k)))"
proof -
  let ?base = "slugify nfkd desired fallback"
  show ?thesis
  proof (cases "is_taken ?base")
    case False
    then show ?thesis by (simp add: build_unique_slug_def Let_def)
  next
    case True
    show ?thesis
    proof (cases "first_free is_taken ?base [2..<Suc m]")
      case None
      then have "\<forall>k\<in>{2..m}. is_taken (?base @ ''-'' @ show_nat k)"
        by (auto simp: first_free_None simp del: upt_Suc)
      with True None show ?thesis
        by (simp add: build_unique_slug_def Let_def del: upt_Suc)
    next
      case (Some s)
      from first_free_Some [OF this] obtain k where "2 \<le> k" "k < Suc m"
        and s: "s = ?base @ ''-'' @ show_nat k" "\<not> is_taken s"
        and below: "\<forall>j\<in>{2..<k}. is_taken (?base @ ''-'' @ show_nat j)"
        by blast
      then have k: "k \<in> {2..m}" by simp
      have "build_unique_slug nfkd stamp desired is_taken fallback m = s"
        using True Some by (simp add: build_unique_slug_def Let_def del: upt_Suc)
      with True s k below show ?thesis by (simp add: Let_def show_nat_inj)
    qed
  qed
qed

text \<open>
  Three candidates in, one taken slug: the witness shows the second disjunct of the theorem.
\<close>

theorem build_unique_slug_free_witness:
  "let base = slugify id (Some [83, 79]) ''item'';
       s = build_unique_slug id ''t'' (Some [83, 79]) (\<lambda>c. c = ''so'') ''item'' 3
   in base = ''so'' \<and> s = ''so-2''"
  using build_unique_slug_free [of id "Some [83, 79]" "''item''" "''t''" "\<lambda>c. c = ''so''" 3]
  by code_simp

end
