(* ===== verification/Cache.thy ===== *)
theory Cache
  imports Http_Errors "HOL-Library.Multiset" "HOL-Library.Char_ord" "HOL-Library.List_Lexorder"
begin

text \<open>
  The cache over Redis: the key namespaces (\<open>redis/cache-keys.ts\<close>) and \<open>CacheService\<close>
  (\<open>redis/cache.service.ts\<close>), every operation of it.

  The Redis client is a parameter, the record \<open>redis\<close> of the commands the service sends. A command
  is given the instant \<open>now\<close> (milliseconds) at which it reaches the server, and may reject, as any
  command does when the server is down. What the server documents is \<open>redis_ok\<close>: the effect of each
  command on the live keys from that instant on. JSON encoding is a parameter too, the \<open>codec\<close> of the
  type stored under a key.
\<close>

section \<open>Keys\<close>

definition ttl_property :: rat where "ttl_property = 300"
definition ttl_list :: rat where "ttl_list = 120"
definition ttl_search :: rat where "ttl_search = 60"
definition ttl_refresh_token :: rat where "ttl_refresh_token = 60 * 60 * 24 * 30"
definition ttl_chat_stream :: rat where "ttl_chat_stream = 3600"
definition ttl_lock :: rat where "ttl_lock = 30"

text \<open>
  \<open>hashKey\<close>: objects become lists of entries ordered by key, without the undefined ones; the digest is
  over the JSON text. The comparison (\<open>localeCompare\<close>), the JSON text and SHA-1 are parameters.
\<close>

primrec insert_by :: "('a \<Rightarrow> 'a \<Rightarrow> bool) \<Rightarrow> 'a \<Rightarrow> 'a list \<Rightarrow> 'a list" where
  "insert_by le x [] = [x]"
| "insert_by le x (y # ys) = (if le x y then x # y # ys else y # insert_by le x ys)"

definition sort_by :: "('a \<Rightarrow> 'a \<Rightarrow> bool) \<Rightarrow> 'a list \<Rightarrow> 'a list" where
  "sort_by le xs = foldr (insert_by le) xs []"

lemma mset_insert_by [simp]: "mset (insert_by le x xs) = add_mset x (mset xs)"
  by (induction xs) auto

lemma mset_sort_by [simp]: "mset (sort_by le xs) = mset xs"
  by (induction xs) (auto simp: sort_by_def)

lemma set_sort_by [simp]: "set (sort_by le xs) = set xs"
  by (metis mset_sort_by set_mset_mset)

lemma size_entry_less [termination_simp]:
  "(k, v) \<in> set flds \<Longrightarrow> size v < Suc (size_list (\<lambda>x. Suc (size (snd x))) flds)"
  by (induction flds) auto

fun hash_normalize :: "(string \<Rightarrow> string \<Rightarrow> bool) \<Rightarrow> js_value \<Rightarrow> js_value" where
  "hash_normalize le (JArr xs) = JArr (map (hash_normalize le) xs)"
| "hash_normalize le (JObj c flds) =
     JArr (map (\<lambda>(k, v). JArr [JStr k, v])
       (map (\<lambda>(k, v). (k, hash_normalize le v))
         (sort_by (\<lambda>p q. le (fst p) (fst q)) (filter (\<lambda>p. snd p \<noteq> Undefined) flds))))"
| "hash_normalize le v = v"

definition hash_key ::
  "(string \<Rightarrow> string \<Rightarrow> bool) \<Rightarrow> (js_value \<Rightarrow> string) \<Rightarrow> (string \<Rightarrow> string) \<Rightarrow> js_value \<Rightarrow> string" where
  "hash_key le json_text sha1_hex payload = sha1_hex (json_text (nullish (hash_normalize le payload) Null))"

definition property_key :: "string \<Rightarrow> string" where
  "property_key i = ''cache:prop:'' @ i"

definition property_pattern :: string where
  "property_pattern = ''cache:prop:*''"

text \<open>\<open>list(query)\<close> and \<open>search(query)\<close>, over the digest \<open>hashKey(query)\<close>.\<close>

definition list_key :: "('q \<Rightarrow> string) \<Rightarrow> 'q \<Rightarrow> string" where
  "list_key digest query = ''cache:list:'' @ digest query"

definition list_pattern :: string where
  "list_pattern = ''cache:list:*''"

definition search_key :: "('q \<Rightarrow> string) \<Rightarrow> 'q \<Rightarrow> string" where
  "search_key digest query = ''cache:search:'' @ digest query"

definition search_pattern :: string where
  "search_pattern = ''cache:search:*''"

definition rate_limit_key :: "string \<Rightarrow> string \<Rightarrow> string" where
  "rate_limit_key scope identifier = ''ratelimit:'' @ scope @ '':'' @ identifier"

definition deny_key :: "string \<Rightarrow> string" where
  "deny_key jti = ''auth:denylist:'' @ jti"

definition refresh_key :: "string \<Rightarrow> string \<Rightarrow> string" where
  "refresh_key user_id jti = ''auth:refresh:'' @ user_id @ '':'' @ jti"

definition refresh_prefix :: "string \<Rightarrow> string" where
  "refresh_prefix user_id = ''auth:refresh:'' @ user_id @ '':''"

definition refresh_pattern :: "string \<Rightarrow> string" where
  "refresh_pattern user_id = refresh_prefix user_id @ ''*''"

definition chat_stream_key :: "string \<Rightarrow> string" where
  "chat_stream_key thread_id = ''chat:stream:'' @ thread_id"

definition lock_key :: "string \<Rightarrow> string" where
  "lock_key resource = ''lock:'' @ resource"

lemma deny_key_inj [simp]: "deny_key a = deny_key b \<longleftrightarrow> a = b"
  by (simp add: deny_key_def)

lemma deny_neq_refresh [simp]: "deny_key a \<noteq> refresh_key u b" "refresh_key u b \<noteq> deny_key a"
  by (simp_all add: deny_key_def refresh_key_def)

lemma refresh_prefix_inj:
  assumes "CHR '':'' \<notin> set u" and "CHR '':'' \<notin> set v" and "starts_with (refresh_key v j) (refresh_prefix u)"
  shows "u = v"
proof -
  from assms(3) obtain r where "u @ '':'' @ r = v @ '':'' @ j"
    unfolding starts_with_prefix refresh_key_def refresh_prefix_def prefix_def by auto
  then have "split_on CHR '':'' (u @ CHR '':'' # r) = split_on CHR '':'' (v @ CHR '':'' # j)" by simp
  then show ?thesis by (metis assms(1,2) list.inject split_on_append_sep)
qed

lemma refresh_key_has_prefix [simp]: "starts_with (refresh_key u j) (refresh_prefix u)"
  unfolding refresh_key_def refresh_prefix_def starts_with_prefix prefix_def by simp

lemma deny_key_no_refresh_prefix [simp]: "\<not> starts_with (deny_key j) (refresh_prefix u)"
  by (simp add: deny_key_def refresh_prefix_def starts_with_def)

lemma refresh_key_inj:
  assumes "CHR '':'' \<notin> set u" and "CHR '':'' \<notin> set v"
  shows "refresh_key u i = refresh_key v j \<longleftrightarrow> u = v \<and> i = j"
proof
  assume eq: "refresh_key u i = refresh_key v j"
  then have "starts_with (refresh_key v j) (refresh_prefix u)"
    by (metis refresh_key_has_prefix)
  with assms have "u = v" by (rule refresh_prefix_inj)
  with eq show "u = v \<and> i = j" by (simp add: refresh_key_def)
qed simp

section \<open>The Redis client\<close>

record 'r redis =
  rd_get :: "int \<Rightarrow> string \<Rightarrow> ('r, exn, string option) prog"
  rd_set :: "int \<Rightarrow> string \<Rightarrow> string \<Rightarrow> ('r, exn, unit) prog"
  rd_set_ex :: "int \<Rightarrow> string \<Rightarrow> string \<Rightarrow> int \<Rightarrow> ('r, exn, unit) prog"
  rd_set_ex_nx :: "int \<Rightarrow> string \<Rightarrow> string \<Rightarrow> int \<Rightarrow> ('r, exn, string option) prog"
  rd_unlink :: "int \<Rightarrow> string list \<Rightarrow> ('r, exn, int) prog"
  rd_exists :: "int \<Rightarrow> string \<Rightarrow> ('r, exn, int) prog"
  rd_ttl :: "int \<Rightarrow> string \<Rightarrow> ('r, exn, int) prog"
  rd_scan :: "int \<Rightarrow> string \<Rightarrow> string \<Rightarrow> int \<Rightarrow> ('r, exn, string \<times> string list) prog"
  rd_incr :: "int \<Rightarrow> string \<Rightarrow> ('r, exn, int) prog"
  rd_expire :: "int \<Rightarrow> string \<Rightarrow> int \<Rightarrow> ('r, exn, unit) prog"
  rd_ping :: "int \<Rightarrow> ('r, exn, string) prog"

text \<open>
  \<open>JSON.stringify\<close> and \<open>JSON.parse\<close> on the type stored. The inner option of \<open>cd_parse\<close> is the JSON
  text \<open>null\<close>, the outer one a syntax error; \<open>cd_stringify\<close> throws on a value JSON cannot hold.
\<close>

record 'v codec =
  cd_stringify :: "'v \<Rightarrow> string option"
  cd_parse :: "string \<Rightarrow> 'v option option"

definition json_error :: exn where
  "json_error = Thrown (JObj ErrorObject [(''name'', JStr ''SyntaxError'')])"

section \<open>CacheService\<close>

definition cache_get :: "'v codec \<Rightarrow> 'r redis \<Rightarrow> int \<Rightarrow> string \<Rightarrow> ('r, exn, 'v option) prog" where
  "cache_get cd rc now key =
     catch
       (seq (rd_get rc now key) (\<lambda>raw.
          case raw of
            None \<Rightarrow> ret None
          | Some text \<Rightarrow> (case cd_parse cd text of None \<Rightarrow> throw json_error | Some v \<Rightarrow> ret v)))
       (\<lambda>_. ret None)"

definition cache_set :: "'v codec \<Rightarrow> 'r redis \<Rightarrow> int \<Rightarrow> string \<Rightarrow> 'v \<Rightarrow> rat \<Rightarrow> ('r, exn, unit) prog" where
  "cache_set cd rc now key value ttl_seconds =
     catch
       (case cd_stringify cd value of
          None \<Rightarrow> throw json_error
        | Some payload \<Rightarrow>
            if 0 < ttl_seconds then rd_set_ex rc now key payload \<lfloor>ttl_seconds\<rfloor>
            else rd_set rc now key payload)
       (\<lambda>_. ret ())"

definition cache_del :: "'r redis \<Rightarrow> int \<Rightarrow> string list \<Rightarrow> ('r, exn, int) prog" where
  "cache_del rc now keys =
     (if keys = [] then ret 0 else catch (rd_unlink rc now keys) (\<lambda>_. ret 0))"

definition cache_exists :: "'r redis \<Rightarrow> int \<Rightarrow> string \<Rightarrow> ('r, exn, bool) prog" where
  "cache_exists rc now key =
     catch (seq (rd_exists rc now key) (\<lambda>n. ret (n = 1))) (\<lambda>_. ret False)"

definition cache_ttl :: "'r redis \<Rightarrow> int \<Rightarrow> string \<Rightarrow> ('r, exn, int) prog" where
  "cache_ttl rc now key = catch (rd_ttl rc now key) (\<lambda>_. ret (- 2))"

text \<open>
  \<open>wrap\<close> runs the caller's factory, a program over the caller's whole state; \<open>part\<close> lifts a program
  over the Redis state to that state. The factory's \<open>null\<close> and \<open>undefined\<close> are \<open>None\<close>.
\<close>

definition part :: "('w \<Rightarrow> 'r) \<Rightarrow> (('r \<Rightarrow> 'r) \<Rightarrow> 'w \<Rightarrow> 'w) \<Rightarrow> ('r, 'e, 'a) prog \<Rightarrow> ('w, 'e, 'a) prog" where
  "part sel upd m = (\<lambda>w. let (out, r) = m (sel w) in (out, upd (\<lambda>_. r) w))"

definition cache_wrap ::
  "'v codec \<Rightarrow> 'r redis \<Rightarrow> ('w \<Rightarrow> 'r) \<Rightarrow> (('r \<Rightarrow> 'r) \<Rightarrow> 'w \<Rightarrow> 'w) \<Rightarrow> int \<Rightarrow> string \<Rightarrow> rat \<Rightarrow>
   ('w, exn, 'v option) prog \<Rightarrow> ('w, exn, 'v option) prog" where
  "cache_wrap cd rc sel upd now key ttl_seconds factory =
     seq (part sel upd (cache_get cd rc now key)) (\<lambda>cached.
       if cached \<noteq> None then ret cached
       else seq factory (\<lambda>value.
         case value of
           None \<Rightarrow> ret None
         | Some v \<Rightarrow> seq (part sel upd (cache_set cd rc now key v ttl_seconds)) (\<lambda>_. ret (Some v))))"

text \<open>
  The loop of \<open>delByPattern\<close>: one \<open>SCAN\<close> step, one \<open>UNLINK\<close> of what it found, until the server hands
  back the cursor 0. A rejected command ends it with what was removed so far; \<open>None\<close> is a loop that
  never ends.
\<close>

partial_function (option) scan_loop ::
  "'r redis \<Rightarrow> int \<Rightarrow> string \<Rightarrow> int \<Rightarrow> string \<Rightarrow> int \<Rightarrow> 'r \<Rightarrow> (int \<times> 'r) option" where
  "scan_loop rc now pattern batch cursor removed s =
     (case rd_scan rc now cursor pattern batch s of
        (Throw e, s1) \<Rightarrow> Some (removed, s1)
      | (Diverge, s1) \<Rightarrow> None
      | (Return (next_cursor, keys), s1) \<Rightarrow>
          (case (if keys \<noteq> [] then rd_unlink rc now keys s1 else (Return 0, s1)) of
             (Throw e, s2) \<Rightarrow> Some (removed, s2)
           | (Diverge, s2) \<Rightarrow> None
           | (Return n, s2) \<Rightarrow>
               if next_cursor \<noteq> ''0'' then scan_loop rc now pattern batch next_cursor (removed + n) s2
               else Some (removed + n, s2)))"

definition cache_del_by_pattern :: "'r redis \<Rightarrow> int \<Rightarrow> string \<Rightarrow> int \<Rightarrow> ('r, exn, int) prog" where
  "cache_del_by_pattern rc now pattern batch_size = (\<lambda>s.
     case scan_loop rc now pattern batch_size ''0'' 0 s of
       Some (removed, s') \<Rightarrow> (Return removed, s')
     | None \<Rightarrow> (Diverge, s))"

definition cache_increment :: "'r redis \<Rightarrow> int \<Rightarrow> string \<Rightarrow> rat \<Rightarrow> ('r, exn, int) prog" where
  "cache_increment rc now key ttl_seconds =
     catch
       (seq (rd_incr rc now key) (\<lambda>count.
          seq (do_if (count = 1 \<and> 0 < ttl_seconds) (rd_expire rc now key \<lfloor>ttl_seconds\<rfloor>)) (\<lambda>_.
            ret count)))
       (\<lambda>_. ret 0)"

definition cache_acquire_lock :: "'r redis \<Rightarrow> int \<Rightarrow> string \<Rightarrow> rat \<Rightarrow> string \<Rightarrow> ('r, exn, bool) prog" where
  "cache_acquire_lock rc now key ttl_seconds token =
     catch
       (seq (rd_set_ex_nx rc now key token \<lfloor>ttl_seconds\<rfloor>) (\<lambda>result. ret (result = Some ''OK'')))
       (\<lambda>_. ret False)"

definition cache_ping :: "'r redis \<Rightarrow> int \<Rightarrow> ('r, exn, string) prog" where
  "cache_ping rc now = rd_ping rc now"

section \<open>What Redis documents\<close>

text \<open>
  A view of the server: the value of a key that is live at an instant, what a \<open>MATCH\<close> pattern selects,
  and for a \<open>SCAN\<close> in progress the keys the cursor has still to visit and a bound on the steps left
  (the keyspace is bounded while the scan runs).
\<close>

record 'r redis_view =
  rv_live :: "'r \<Rightarrow> int \<Rightarrow> string \<Rightarrow> string option"
  rv_glob :: "string \<Rightarrow> string \<Rightarrow> bool"
  rv_pending :: "'r \<Rightarrow> string \<Rightarrow> string set"
  rv_rank :: "'r \<Rightarrow> string \<Rightarrow> nat"

text \<open>From the instant \<open>t\<close> on, the live keys of \<open>r'\<close> are those of \<open>r\<close> changed by \<open>f\<close>.\<close>

definition keys_become ::
  "'r redis_view \<Rightarrow> int \<Rightarrow> 'r \<Rightarrow> 'r \<Rightarrow> (int \<Rightarrow> string \<Rightarrow> string option \<Rightarrow> string option) \<Rightarrow> bool" where
  "keys_become v t r r' f \<longleftrightarrow> (\<forall>u k. t \<le> u \<longrightarrow> rv_live v r' u k = f u k (rv_live v r u k))"

definition glob_special :: "char \<Rightarrow> bool" where
  "glob_special c \<longleftrightarrow> c \<in> set ''*?['' \<or> c = CHR 0x5C"

definition law_live :: "'r redis \<Rightarrow> 'r redis_view \<Rightarrow> bool" where
  "law_live rc v \<longleftrightarrow>
     (\<forall>r t u k. t \<le> u \<longrightarrow> rv_live v r u k \<noteq> None \<longrightarrow> rv_live v r t k = rv_live v r u k)"

definition law_glob :: "'r redis \<Rightarrow> 'r redis_view \<Rightarrow> bool" where
  "law_glob rc v \<longleftrightarrow>
     (\<forall>p k. (\<forall>c\<in>set p. \<not> glob_special c) \<longrightarrow> rv_glob v (p @ ''*'') k = starts_with k p)"

definition law_get :: "'r redis \<Rightarrow> 'r redis_view \<Rightarrow> bool" where
  "law_get rc v \<longleftrightarrow>
     (\<forall>r t k. \<exists>r'. rd_get rc t k r = (Return (rv_live v r t k), r') \<and> keys_become v t r r' (\<lambda>_ _ x. x))"

definition law_set :: "'r redis \<Rightarrow> 'r redis_view \<Rightarrow> bool" where
  "law_set rc v \<longleftrightarrow>
     (\<forall>r t k x. \<exists>r'. rd_set rc t k x r = (Return (), r') \<and>
      keys_become v t r r' (\<lambda>_ k' y. if k' = k then Some x else y))"

definition law_set_ex :: "'r redis \<Rightarrow> 'r redis_view \<Rightarrow> bool" where
  "law_set_ex rc v \<longleftrightarrow>
     (\<forall>r t k x n. 0 < n \<longrightarrow> (\<exists>r'. rd_set_ex rc t k x n r = (Return (), r') \<and>
      keys_become v t r r' (\<lambda>u k' y. if k' = k then (if u < t + 1000 * n then Some x else None) else y)))"

definition law_set_ex_nx :: "'r redis \<Rightarrow> 'r redis_view \<Rightarrow> bool" where
  "law_set_ex_nx rc v \<longleftrightarrow>
     (\<forall>r t k x n. 0 < n \<longrightarrow>
      (if rv_live v r t k = None
       then \<exists>r'. rd_set_ex_nx rc t k x n r = (Return (Some ''OK''), r') \<and>
         keys_become v t r r' (\<lambda>u k' y. if k' = k then (if u < t + 1000 * n then Some x else None) else y)
       else \<exists>r'. rd_set_ex_nx rc t k x n r = (Return None, r') \<and> keys_become v t r r' (\<lambda>_ _ x. x)))"

definition law_unlink :: "'r redis \<Rightarrow> 'r redis_view \<Rightarrow> bool" where
  "law_unlink rc v \<longleftrightarrow>
     (\<forall>r t ks. \<exists>r' n. rd_unlink rc t ks r = (Return n, r') \<and>
      keys_become v t r r' (\<lambda>_ k y. if k \<in> set ks then None else y) \<and>
      rv_pending v r' = rv_pending v r \<and> rv_rank v r' = rv_rank v r)"

definition law_exists :: "'r redis \<Rightarrow> 'r redis_view \<Rightarrow> bool" where
  "law_exists rc v \<longleftrightarrow>
     (\<forall>r t k. \<exists>r'. rd_exists rc t k r = (Return (if rv_live v r t k = None then 0 else 1), r') \<and>
      keys_become v t r r' (\<lambda>_ _ x. x))"

definition law_scan :: "'r redis \<Rightarrow> 'r redis_view \<Rightarrow> bool" where
  "law_scan rc v \<longleftrightarrow>
     (\<forall>r t c p n. 0 < n \<longrightarrow> (\<exists>next_c ks r'. rd_scan rc t c p n r = (Return (next_c, ks), r') \<and>
      keys_become v t r r' (\<lambda>_ _ x. x) \<and> (\<forall>k\<in>set ks. rv_glob v p k) \<and>
      (\<forall>k. rv_glob v p k \<and> rv_live v r t k \<noteq> None \<and> k \<in> rv_pending v r c \<longrightarrow>
         k \<in> set ks \<or> (next_c \<noteq> ''0'' \<and> k \<in> rv_pending v r' next_c)) \<and>
      (next_c \<noteq> ''0'' \<longrightarrow> rv_rank v r' next_c < rv_rank v r c)))"

definition law_scan_start :: "'r redis \<Rightarrow> 'r redis_view \<Rightarrow> bool" where
  "law_scan_start rc v \<longleftrightarrow>
     (\<forall>r. rv_pending v r ''0'' = UNIV)"

definition law_incr_fresh :: "'r redis \<Rightarrow> 'r redis_view \<Rightarrow> bool" where
  "law_incr_fresh rc v \<longleftrightarrow>
     (\<forall>r t k. rv_live v r t k = None \<longrightarrow> (\<exists>r'. rd_incr rc t k r = (Return 1, r') \<and>
      keys_become v t r r' (\<lambda>_ k' y. if k' = k then Some ''1'' else y)))"

definition law_incr_more :: "'r redis \<Rightarrow> 'r redis_view \<Rightarrow> bool" where
  "law_incr_more rc v \<longleftrightarrow>
     (\<forall>r t k n. rv_live v r t k = Some (show_nat n) \<longrightarrow>
      (\<exists>r'. rd_incr rc t k r = (Return (int n + 1), r') \<and>
        keys_become v t r r' (\<lambda>_ k' y. if k' = k \<and> y \<noteq> None then Some (show_nat (Suc n)) else y)))"

definition law_expire :: "'r redis \<Rightarrow> 'r redis_view \<Rightarrow> bool" where
  "law_expire rc v \<longleftrightarrow>
     (\<forall>r t k n. 0 < n \<longrightarrow> (\<exists>r'. rd_expire rc t k n r = (Return (), r') \<and>
      keys_become v t r r' (\<lambda>u k' y. if k' = k then (if u < t + 1000 * n then rv_live v r t k else None) else y)))"

definition redis_ok :: "'r redis \<Rightarrow> 'r redis_view \<Rightarrow> bool" where
  "redis_ok rc v \<longleftrightarrow>
     law_live rc v \<and> law_glob rc v \<and> law_get rc v \<and> law_set rc v \<and> law_set_ex rc v \<and> law_set_ex_nx rc v \<and>
     law_unlink rc v \<and> law_exists rc v \<and> law_scan rc v \<and> law_scan_start rc v \<and> law_incr_fresh rc v \<and> law_incr_more rc v \<and> law_expire rc v"

text \<open>The laws, one lemma for each command.\<close>

lemma redis_live_later:
  "redis_ok rc v \<Longrightarrow> t \<le> u \<Longrightarrow> rv_live v r u k = Some x \<Longrightarrow> rv_live v r t k = Some x"
  unfolding redis_ok_def law_live_def by (metis option.distinct(1))

lemma redis_glob:
  "redis_ok rc v \<Longrightarrow> \<forall>c\<in>set p. \<not> glob_special c \<Longrightarrow> rv_glob v (p @ ''*'') k = starts_with k p"
  unfolding redis_ok_def law_glob_def by blast

lemma redis_get:
  assumes "redis_ok rc v"
  obtains r' where "rd_get rc t k r = (Return (rv_live v r t k), r')" "keys_become v t r r' (\<lambda>_ _ x. x)"
  using assms unfolding redis_ok_def law_get_def by blast

lemma redis_set_ex:
  assumes "redis_ok rc v" and "0 < n"
  obtains r' where "rd_set_ex rc t k x n r = (Return (), r')"
    "keys_become v t r r' (\<lambda>u k' y. if k' = k then (if u < t + 1000 * n then Some x else None) else y)"
  using assms unfolding redis_ok_def law_set_ex_def by blast

lemma redis_set_nx_free:
  assumes "redis_ok rc v" and "0 < n" and "rv_live v r t k = None"
  obtains r' where "rd_set_ex_nx rc t k x n r = (Return (Some ''OK''), r')"
    "keys_become v t r r' (\<lambda>u k' y. if k' = k then (if u < t + 1000 * n then Some x else None) else y)"
  using assms unfolding redis_ok_def law_set_ex_nx_def by meson

lemma redis_set_nx_held:
  assumes "redis_ok rc v" and "0 < n" and "rv_live v r t k \<noteq> None"
  obtains r' where "rd_set_ex_nx rc t k x n r = (Return None, r')"
    "keys_become v t r r' (\<lambda>_ _ x. x)"
  using assms unfolding redis_ok_def law_set_ex_nx_def by meson

lemma redis_unlink:
  assumes "redis_ok rc v"
  obtains r' n where "rd_unlink rc t ks r = (Return n, r')"
    "keys_become v t r r' (\<lambda>_ k y. if k \<in> set ks then None else y)"
    "rv_pending v r' = rv_pending v r" "rv_rank v r' = rv_rank v r"
  using assms unfolding redis_ok_def law_unlink_def by blast

lemma redis_exists:
  assumes "redis_ok rc v"
  obtains r' where "rd_exists rc t k r = (Return (if rv_live v r t k = None then 0 else 1), r')"
    "keys_become v t r r' (\<lambda>_ _ x. x)"
  using assms unfolding redis_ok_def law_exists_def by blast

lemma redis_scan:
  assumes "redis_ok rc v" and "0 < n"
  obtains next_c ks r' where "rd_scan rc t c p n r = (Return (next_c, ks), r')"
    "keys_become v t r r' (\<lambda>_ _ x. x)" "\<forall>k\<in>set ks. rv_glob v p k"
    "\<forall>k. rv_glob v p k \<and> rv_live v r t k \<noteq> None \<and> k \<in> rv_pending v r c \<longrightarrow>
       k \<in> set ks \<or> (next_c \<noteq> ''0'' \<and> k \<in> rv_pending v r' next_c)"
    "next_c \<noteq> ''0'' \<longrightarrow> rv_rank v r' next_c < rv_rank v r c"
  using assms unfolding redis_ok_def law_scan_def by blast

lemma redis_pending_start: "redis_ok rc v \<Longrightarrow> rv_pending v r ''0'' = UNIV"
  unfolding redis_ok_def law_scan_start_def by blast

lemma redis_incr_fresh:
  assumes "redis_ok rc v" and "rv_live v r t k = None"
  obtains r' where "rd_incr rc t k r = (Return 1, r')"
    "keys_become v t r r' (\<lambda>_ k' y. if k' = k then Some ''1'' else y)"
  using assms unfolding redis_ok_def law_incr_fresh_def by blast

lemma redis_incr_more:
  assumes "redis_ok rc v" and "rv_live v r t k = Some (show_nat n)"
  obtains r' where "rd_incr rc t k r = (Return (int n + 1), r')"
    "keys_become v t r r' (\<lambda>_ k' y. if k' = k \<and> y \<noteq> None then Some (show_nat (Suc n)) else y)"
  using assms unfolding redis_ok_def law_incr_more_def by blast

lemma redis_expire:
  assumes "redis_ok rc v" and "0 < n"
  obtains r' where "rd_expire rc t k n r = (Return (), r')"
    "keys_become v t r r' (\<lambda>u k' y. if k' = k then (if u < t + 1000 * n then rv_live v r t k else None) else y)"
  using assms unfolding redis_ok_def law_expire_def by blast

section \<open>Deleting by pattern\<close>

text \<open>The loop ends when the server answers, and unlinks every live key it had still to visit.\<close>

lemma scan_loop_terminates:
  assumes ok: "redis_ok rc v" and batch: "0 < batch"
    and pend: "\<And>k. rv_glob v p k \<Longrightarrow> rv_live v s t k \<noteq> None \<Longrightarrow> k \<in> rv_pending v s cursor"
  shows "\<exists>n s'. scan_loop rc t p batch cursor removed s = Some (n, s') \<and>
           keys_become v t s s' (\<lambda>_ k y. if rv_glob v p k then None else y)"
  using pend
proof (induction "rv_rank v s cursor" arbitrary: s cursor removed rule: less_induct)
  case less
  obtain next_c ks s1 where scan: "rd_scan rc t cursor p batch s = (Return (next_c, ks), s1)"
    and same: "keys_become v t s s1 (\<lambda>_ _ x. x)" and sel: "\<forall>k\<in>set ks. rv_glob v p k"
    and visit: "\<forall>k. rv_glob v p k \<and> rv_live v s t k \<noteq> None \<and> k \<in> rv_pending v s cursor \<longrightarrow>
       k \<in> set ks \<or> (next_c \<noteq> ''0'' \<and> k \<in> rv_pending v s1 next_c)"
    and rank: "next_c \<noteq> ''0'' \<longrightarrow> rv_rank v s1 next_c < rv_rank v s cursor"
    using redis_scan [OF ok batch] by blast
  obtain s2 n where unl: "(if ks \<noteq> [] then rd_unlink rc t ks s1 else (Return 0, s1)) = (Return n, s2)"
    and gone: "keys_become v t s1 s2 (\<lambda>_ k y. if k \<in> set ks then None else y)"
    and keep: "rv_pending v s2 = rv_pending v s1" "rv_rank v s2 = rv_rank v s1"
  proof (cases "ks = []")
    case True
    then show thesis by (intro that [of 0 s1]) (simp_all add: keys_become_def)
  next
    case False
    obtain n r' where "rd_unlink rc t ks s1 = (Return n, r')"
      "keys_become v t s1 r' (\<lambda>_ k y. if k \<in> set ks then None else y)"
      "rv_pending v r' = rv_pending v s1" "rv_rank v r' = rv_rank v s1"
      using redis_unlink [OF ok] by metis
    with False show thesis by (intro that [of n r']) simp_all
  qed
  have live2: "rv_live v s2 u k = (if k \<in> set ks then None else rv_live v s u k)" if "t \<le> u" for u k
    using same gone that by (simp add: keys_become_def)
  show ?case
  proof (cases "next_c = ''0''")
    case True
    have "rv_live v s2 u k = (if rv_glob v p k then None else rv_live v s u k)" if "t \<le> u" for u k
    proof (cases "rv_glob v p k \<and> rv_live v s u k \<noteq> None")
      case selected: True
      then have "rv_live v s t k \<noteq> None" using redis_live_later [OF ok that] by auto
      with selected visit True less.prems have "k \<in> set ks" by blast
      with selected live2 [OF that] show ?thesis by simp
    next
      case False
      with sel live2 [OF that, of k] show ?thesis by auto
    qed
    then show ?thesis
      using True by (subst scan_loop.simps) (simp add: scan unl keys_become_def)
  next
    case False
    have "k \<in> rv_pending v s2 next_c" if "rv_glob v p k" "rv_live v s2 t k \<noteq> None" for k
      using that visit live2 [of t k] less.prems [of k] False keep by (auto split: if_splits)
    with less.hyps [of s2 next_c "removed + n"] rank keep False obtain m s'
      where rest: "scan_loop rc t p batch next_c (removed + n) s2 = Some (m, s')"
        and become: "keys_become v t s2 s' (\<lambda>_ k y. if rv_glob v p k then None else y)" by metis
    have "keys_become v t s s' (\<lambda>_ k y. if rv_glob v p k then None else y)"
      using become live2 sel by (auto simp: keys_become_def)
    with rest show ?thesis
      using False by (subst scan_loop.simps) (simp add: scan unl)
  qed
qed

lemma del_by_pattern_prefix:
  assumes ok: "redis_ok rc v" and plain: "\<forall>c\<in>set p. \<not> glob_special c" and batch: "0 < batch"
  obtains n s' where "cache_del_by_pattern rc t (p @ ''*'') batch s = (Return n, s')"
    "keys_become v t s s' (\<lambda>_ k y. if starts_with k p then None else y)"
proof -
  have "\<exists>n s'. scan_loop rc t (p @ ''*'') batch ''0'' 0 s = Some (n, s') \<and>
      keys_become v t s s' (\<lambda>_ k y. if rv_glob v (p @ ''*'') k then None else y)"
    by (rule scan_loop_terminates [OF ok batch]) (simp add: redis_pending_start [OF ok])
  then obtain n s' where "scan_loop rc t (p @ ''*'') batch ''0'' 0 s = Some (n, s')"
    "keys_become v t s s' (\<lambda>_ k y. if rv_glob v (p @ ''*'') k then None else y)" by blast
  then show thesis by (intro that) (simp_all add: cache_del_by_pattern_def redis_glob [OF ok plain])
qed

section \<open>The interface of a store of marks\<close>

text \<open>
  What the session code relies on: a mark is set for a number of seconds, tested, and removed singly
  or by prefix. \<open>ok\<close> says the server answers.
\<close>

locale marker_store =
  fixes ok :: "'p \<Rightarrow> bool"
    and marked :: "'p \<Rightarrow> 'r \<Rightarrow> int \<Rightarrow> string \<Rightarrow> bool"
    and mark :: "'p \<Rightarrow> int \<Rightarrow> string \<Rightarrow> 'v \<Rightarrow> rat \<Rightarrow> ('r, exn, unit) prog"
    and unmark :: "'p \<Rightarrow> int \<Rightarrow> string list \<Rightarrow> ('r, exn, int) prog"
    and unmark_prefix :: "'p \<Rightarrow> int \<Rightarrow> string \<Rightarrow> ('r, exn, int) prog"
    and is_marked :: "'p \<Rightarrow> int \<Rightarrow> string \<Rightarrow> ('r, exn, bool) prog"
  assumes mark_law: "ok p \<Longrightarrow> 1 \<le> ttl \<Longrightarrow>
      \<exists>r'. mark p t k x ttl r = (Return (), r') \<and>
        (\<forall>u\<ge>t. \<forall>k'. marked p r' u k' = (if k' = k then u < t + 1000 * \<lfloor>ttl\<rfloor> else marked p r u k'))"
    and unmark_law: "ok p \<Longrightarrow>
      \<exists>r' n. unmark p t ks r = (Return n, r') \<and>
        (\<forall>u\<ge>t. \<forall>k. marked p r' u k = (k \<notin> set ks \<and> marked p r u k))"
    and unmark_prefix_law: "ok p \<Longrightarrow> \<forall>c\<in>set q. \<not> glob_special c \<Longrightarrow>
      \<exists>r' n. unmark_prefix p t q r = (Return n, r') \<and>
        (\<forall>u\<ge>t. \<forall>k. marked p r' u k = (\<not> starts_with k q \<and> marked p r u k))"
    and is_marked_law: "ok p \<Longrightarrow>
      \<exists>r'. is_marked p t k r = (Return (marked p r t k), r') \<and>
        (\<forall>u\<ge>t. \<forall>k'. marked p r' u k' = marked p r u k')"
begin

lemma mark_all:
  assumes "ok p" and "\<forall>x\<in>set xs. 1 \<le> ttl x"
  shows "\<exists>r'. seq_all (\<lambda>x. mark p t (key x) (val x) (ttl x)) xs r = (Return (), r') \<and>
    (\<forall>u\<ge>t. \<forall>k. marked p r' u k \<longrightarrow> k \<in> key ` set xs \<or> marked p r u k) \<and>
    (\<forall>k. k \<notin> key ` set xs \<longrightarrow> (\<forall>u\<ge>t. marked p r' u k = marked p r u k)) \<and>
    (\<forall>k\<in>key ` set xs. marked p r' t k)"
  using assms(2)
proof (induction xs arbitrary: r)
  case Nil
  then show ?case by simp
next
  case (Cons x xs)
  then have ttl: "1 \<le> \<lfloor>ttl x\<rfloor>" by simp
  from Cons.prems mark_law [OF assms(1), of "ttl x" t "key x" "val x" r] obtain r1
    where m: "mark p t (key x) (val x) (ttl x) r = (Return (), r1)"
      and e: "\<forall>u\<ge>t. \<forall>k'. marked p r1 u k' =
        (if k' = key x then u < t + 1000 * \<lfloor>ttl x\<rfloor> else marked p r u k')" by auto
  from Cons.IH [of r1] Cons.prems obtain r2
    where s: "seq_all (\<lambda>x. mark p t (key x) (val x) (ttl x)) xs r1 = (Return (), r2)"
      and a: "\<forall>u\<ge>t. \<forall>k. marked p r2 u k \<longrightarrow> k \<in> key ` set xs \<or> marked p r1 u k"
      and b: "\<forall>k. k \<notin> key ` set xs \<longrightarrow> (\<forall>u\<ge>t. marked p r2 u k = marked p r1 u k)"
      and c: "\<forall>k\<in>key ` set xs. marked p r2 t k" by auto
  have at: "marked p r1 t (key x)" using e ttl by simp
  have "marked p r2 t (key x)"
    using at b c by (metis order_refl)
  with c have "\<forall>k\<in>key ` set (x # xs). marked p r2 t k" by simp
  moreover have "\<forall>u\<ge>t. \<forall>k. marked p r2 u k \<longrightarrow> k \<in> key ` set (x # xs) \<or> marked p r u k"
    using a e by (auto split: if_splits)
  moreover have "\<forall>k. k \<notin> key ` set (x # xs) \<longrightarrow> (\<forall>u\<ge>t. marked p r2 u k = marked p r u k)"
    using b e by auto
  ultimately show ?case using m s by auto
qed

lemma mark_then_test:
  assumes "ok p" and "1 \<le> ttl" and "mark p t k x ttl r = (out, r')" and "t \<le> u" and "u < t + 1000 * \<lfloor>ttl\<rfloor>"
  shows "fst (is_marked p u k r') = Return True"
proof -
  from mark_law [OF assms(1,2), of t k x r] assms(3-5) have "marked p r' u k" by auto
  with is_marked_law [OF assms(1), of u k r'] show ?thesis by auto
qed

lemma unmark_then_test:
  assumes "ok p" and "unmark p t ks r = (out, r')" and "k \<in> set ks" and "t \<le> u"
  shows "fst (is_marked p u k r') = Return False"
proof -
  from unmark_law [OF assms(1), of t ks r] assms(2-4) have "\<not> marked p r' u k" by auto
  with is_marked_law [OF assms(1), of u k r'] show ?thesis by auto
qed

end

text \<open>CacheService over a Redis server that answers is a store of marks.\<close>

type_synonym ('v, 'r) cache_port = "'v codec \<times> 'r redis \<times> 'r redis_view"

definition port_ok :: "('v, 'r) cache_port \<Rightarrow> bool" where
  "port_ok p = (case p of (cd, rc, v) \<Rightarrow> redis_ok rc v \<and> (\<forall>x. cd_stringify cd x \<noteq> None))"

definition port_marked :: "('v, 'r) cache_port \<Rightarrow> 'r \<Rightarrow> int \<Rightarrow> string \<Rightarrow> bool" where
  "port_marked p r t k = (case p of (cd, rc, v) \<Rightarrow> rv_live v r t k \<noteq> None)"

definition port_mark :: "('v, 'r) cache_port \<Rightarrow> int \<Rightarrow> string \<Rightarrow> 'v \<Rightarrow> rat \<Rightarrow> ('r, exn, unit) prog" where
  "port_mark p t k x ttl = (case p of (cd, rc, v) \<Rightarrow> cache_set cd rc t k x ttl)"

definition port_unmark :: "('v, 'r) cache_port \<Rightarrow> int \<Rightarrow> string list \<Rightarrow> ('r, exn, int) prog" where
  "port_unmark p t ks = (case p of (cd, rc, v) \<Rightarrow> cache_del rc t ks)"

definition port_unmark_prefix :: "('v, 'r) cache_port \<Rightarrow> int \<Rightarrow> string \<Rightarrow> ('r, exn, int) prog" where
  "port_unmark_prefix p t q = (case p of (cd, rc, v) \<Rightarrow> cache_del_by_pattern rc t (q @ ''*'') 250)"

definition port_is_marked :: "('v, 'r) cache_port \<Rightarrow> int \<Rightarrow> string \<Rightarrow> ('r, exn, bool) prog" where
  "port_is_marked p t k = (case p of (cd, rc, v) \<Rightarrow> cache_exists rc t k)"

lemmas port_defs = port_ok_def port_marked_def port_mark_def port_unmark_def port_unmark_prefix_def
  port_is_marked_def

lemma cache_set_law:
  assumes "redis_ok rc v" and "cd_stringify cd x = Some y" and "1 \<le> ttl"
  obtains r' where "cache_set cd rc t k x ttl r = (Return (), r')"
    "keys_become v t r r' (\<lambda>u k' z. if k' = k then (if u < t + 1000 * \<lfloor>ttl\<rfloor> then Some y else None) else z)"
proof -
  from assms(3) have "0 < \<lfloor>ttl\<rfloor>" by linarith
  then obtain r' where "rd_set_ex rc t k y \<lfloor>ttl\<rfloor> r = (Return (), r')"
    "keys_become v t r r' (\<lambda>u k' z. if k' = k then (if u < t + 1000 * \<lfloor>ttl\<rfloor> then Some y else None) else z)"
    using redis_set_ex [OF assms(1)] by blast
  with assms(2,3) show thesis by (intro that) (simp_all add: cache_set_def)
qed

lemma cache_del_law:
  assumes "redis_ok rc v"
  obtains n r' where "cache_del rc t ks r = (Return n, r')"
    "keys_become v t r r' (\<lambda>_ k y. if k \<in> set ks then None else y)"
proof (cases "ks = []")
  case True
  then show thesis by (intro that [of 0 r]) (simp_all add: cache_del_def keys_become_def)
next
  case False
  obtain n r' where "rd_unlink rc t ks r = (Return n, r')"
    "keys_become v t r r' (\<lambda>_ k y. if k \<in> set ks then None else y)"
    using redis_unlink [OF assms] by metis
  with False show thesis by (intro that [of n r']) (simp_all add: cache_del_def)
qed

lemma cache_exists_law:
  assumes "redis_ok rc v"
  obtains r' where "cache_exists rc t k r = (Return (rv_live v r t k \<noteq> None), r')"
    "keys_become v t r r' (\<lambda>_ _ x. x)"
proof -
  obtain r' where "rd_exists rc t k r = (Return (if rv_live v r t k = None then 0 else 1), r')"
    "keys_become v t r r' (\<lambda>_ _ x. x)"
    using redis_exists [OF assms] by metis
  then show thesis by (intro that [of r']) (simp_all add: cache_exists_def)
qed

interpretation sessions_cache: marker_store port_ok port_marked port_mark port_unmark port_unmark_prefix port_is_marked
proof (unfold_locales, goal_cases)
  case (1 p ttl t k x r)
  then obtain cd rc v y where p: "p = (cd, rc, v)" "redis_ok rc v" "cd_stringify cd x = Some y"
    by (cases p rule: prod_cases3) (fastforce simp: port_ok_def)
  obtain r' where "cache_set cd rc t k x ttl r = (Return (), r')"
    "keys_become v t r r' (\<lambda>u k' z. if k' = k then (if u < t + 1000 * \<lfloor>ttl\<rfloor> then Some y else None) else z)"
    by (rule cache_set_law [OF p(2,3) 1(2)])
  then show ?case by (intro exI [of _ r']) (simp add: p(1) port_defs keys_become_def)
next
  case (2 p t ks r)
  then obtain cd rc v where p: "p = (cd, rc, v)" "redis_ok rc v"
    by (cases p rule: prod_cases3) (simp add: port_ok_def)
  obtain n r' where "cache_del rc t ks r = (Return n, r')"
    "keys_become v t r r' (\<lambda>_ k y. if k \<in> set ks then None else y)"
    by (rule cache_del_law [OF p(2)])
  then show ?case by (intro exI [of _ r'] exI [of _ n]) (simp add: p(1) port_defs keys_become_def)
next
  case (3 p q t r)
  then obtain cd rc v where p: "p = (cd, rc, v)" "redis_ok rc v"
    by (cases p rule: prod_cases3) (simp add: port_ok_def)
  obtain n r' where "cache_del_by_pattern rc t (q @ ''*'') 250 r = (Return n, r')"
    "keys_become v t r r' (\<lambda>_ k y. if starts_with k q then None else y)"
    using del_by_pattern_prefix [OF p(2) 3(2), where batch = 250] by simp blast
  then show ?case by (intro exI [of _ r'] exI [of _ n]) (simp add: p(1) port_defs keys_become_def)
next
  case (4 p t k r)
  then obtain cd rc v where p: "p = (cd, rc, v)" "redis_ok rc v"
    by (cases p rule: prod_cases3) (simp add: port_ok_def)
  obtain r' where "cache_exists rc t k r = (Return (rv_live v r t k \<noteq> None), r')"
    "keys_become v t r r' (\<lambda>_ _ x. x)"
    by (rule cache_exists_law [OF p(2)])
  then show ?case by (intro exI [of _ r']) (simp add: p(1) port_defs keys_become_def)
qed

section \<open>An instance in memory\<close>

text \<open>
  A server that keeps its keys in a list, newest entry first, each with the instant it expires. It
  shows that the laws can hold, and the witnesses of the development run on it.
\<close>

type_synonym mem = "(string \<times> string \<times> int option) list"

definition mem_live :: "mem \<Rightarrow> int \<Rightarrow> string \<Rightarrow> string option" where
  "mem_live r t k =
     (case map_of r k of
        None \<Rightarrow> None
      | Some (x, None) \<Rightarrow> Some x
      | Some (x, Some e) \<Rightarrow> if t < e then Some x else None)"

definition mem_glob :: "string \<Rightarrow> string \<Rightarrow> bool" where
  "mem_glob p k = (if p \<noteq> [] \<and> last p = CHR ''*'' then starts_with k (butlast p) else p = k)"

definition mem_expiry :: "mem \<Rightarrow> string \<Rightarrow> int option" where
  "mem_expiry r k = (case map_of r k of None \<Rightarrow> None | Some (x, e) \<Rightarrow> e)"

definition mem_redis :: "mem redis" where
  "mem_redis =
     \<lparr>rd_get = (\<lambda>t k r. (Return (mem_live r t k), r)),
      rd_set = (\<lambda>t k x r. (Return (), (k, x, None) # r)),
      rd_set_ex = (\<lambda>t k x n r. (Return (), (k, x, Some (t + 1000 * n)) # r)),
      rd_set_ex_nx = (\<lambda>t k x n r.
        if mem_live r t k = None then (Return (Some ''OK''), (k, x, Some (t + 1000 * n)) # r)
        else (Return None, r)),
      rd_unlink = (\<lambda>t ks r.
        (Return (int (length (filter (\<lambda>k. mem_live r t k \<noteq> None) (remdups ks)))),
         filter (\<lambda>e. fst e \<notin> set ks) r)),
      rd_exists = (\<lambda>t k r. (Return (if mem_live r t k = None then 0 else 1), r)),
      rd_ttl = (\<lambda>t k r.
        (Return (if mem_live r t k = None then - 2
                 else case mem_expiry r k of None \<Rightarrow> - 1 | Some e \<Rightarrow> (e - t) div 1000), r)),
      rd_scan = (\<lambda>t c p n r. (Return (''0'', filter (mem_glob p) (remdups (map fst r))), r)),
      rd_incr = (\<lambda>t k r.
        case mem_live r t k of
          None \<Rightarrow> (Return 1, (k, ''1'', None) # r)
        | Some x \<Rightarrow> (Return (int (read_nat x) + 1), (k, show_nat (read_nat x + 1), mem_expiry r k) # r)),
      rd_expire = (\<lambda>t k n r.
        case mem_live r t k of
          None \<Rightarrow> (Return (), r)
        | Some x \<Rightarrow> (Return (), (k, x, Some (t + 1000 * n)) # r)),
      rd_ping = (\<lambda>t r. (Return ''PONG'', r))\<rparr>"

definition mem_view :: "mem redis_view" where
  "mem_view =
     \<lparr>rv_live = mem_live, rv_glob = mem_glob, rv_pending = (\<lambda>_ _. UNIV), rv_rank = (\<lambda>_ _. 0)\<rparr>"

lemma mem_view_sel [simp]:
  "rv_live mem_view = mem_live" "rv_glob mem_view = mem_glob" "rv_pending mem_view = (\<lambda>_ _. UNIV)"
  "rv_rank mem_view = (\<lambda>_ _. 0)"
  by (simp_all add: mem_view_def)

lemma mem_live_Cons:
  "mem_live ((k, x, e) # r) t k' =
     (if k' = k then (case e of None \<Rightarrow> Some x | Some n \<Rightarrow> if t < n then Some x else None)
      else mem_live r t k')"
  by (auto simp: mem_live_def split: option.split)

lemma mem_live_filter:
  "mem_live (filter (\<lambda>e. fst e \<notin> set ks) r) t k = (if k \<in> set ks then None else mem_live r t k)"
proof -
  have "map_of (filter (\<lambda>e. fst e \<notin> set ks) r) k = (if k \<in> set ks then None else map_of r k)"
    by (induction r) auto
  then show ?thesis by (simp add: mem_live_def)
qed

lemma mem_live_dom: "mem_live r t k \<noteq> None \<Longrightarrow> k \<in> fst ` set r"
  by (cases "map_of r k") (auto simp: mem_live_def map_of_eq_None_iff dest: map_of_SomeD intro: rev_image_eqI)

lemma mem_live_expiry:
  "mem_live r t k = Some x \<Longrightarrow> mem_live r u k =
     (case mem_expiry r k of None \<Rightarrow> Some x | Some e \<Rightarrow> if u < e then Some x else None)"
  by (auto simp: mem_live_def mem_expiry_def split: option.splits if_splits)

lemma mem_incr_more:
  "mem_live r t k = Some x \<Longrightarrow>
     keys_become mem_view t r ((k, y, mem_expiry r k) # r) (\<lambda>_ k' z. if k' = k \<and> z \<noteq> None then Some y else z)"
  using mem_live_expiry [of r t k x]
  by (cases "mem_expiry r k") (auto simp: keys_become_def mem_live_Cons)

lemma mem_dead_later: "mem_live r t k = None \<Longrightarrow> t \<le> u \<Longrightarrow> mem_live r u k = None"
  by (auto simp: mem_live_def split: option.splits if_splits)

lemma mem_glob_prefix: "mem_glob (p @ ''*'') k = starts_with k p"
  by (simp add: mem_glob_def butlast_append)

lemma mem_redis_ok: "redis_ok mem_redis mem_view"
  unfolding redis_ok_def
proof (intro conjI)
  show "law_live mem_redis mem_view"
    by (auto simp: law_live_def mem_live_def split: option.splits if_splits)
  show "law_glob mem_redis mem_view" by (simp add: law_glob_def mem_glob_prefix)
  show "law_get mem_redis mem_view" by (simp add: law_get_def mem_redis_def keys_become_def)
  show "law_set mem_redis mem_view" by (simp add: law_set_def mem_redis_def keys_become_def mem_live_Cons)
  show "law_set_ex mem_redis mem_view"
    by (simp add: law_set_ex_def mem_redis_def keys_become_def mem_live_Cons)
  show "law_set_ex_nx mem_redis mem_view"
    by (simp add: law_set_ex_nx_def mem_redis_def keys_become_def mem_live_Cons)
  show "law_unlink mem_redis mem_view"
    by (simp add: law_unlink_def mem_redis_def keys_become_def mem_live_filter)
  show "law_exists mem_redis mem_view" by (simp add: law_exists_def mem_redis_def keys_become_def)
  show "law_scan mem_redis mem_view"
    using mem_live_dom by (fastforce simp: law_scan_def mem_redis_def keys_become_def)
  show "law_scan_start mem_redis mem_view" by (simp add: law_scan_start_def)
  show "law_incr_fresh mem_redis mem_view"
    by (simp add: law_incr_fresh_def mem_redis_def keys_become_def mem_live_Cons)
  show "law_incr_more mem_redis mem_view"
    using mem_incr_more by (simp add: law_incr_more_def mem_redis_def)
  show "law_expire mem_redis mem_view"
    by (auto simp: law_expire_def mem_redis_def keys_become_def mem_live_Cons mem_dead_later
        split: option.split)
qed

section \<open>Properties\<close>

definition text_codec :: "string codec" where
  "text_codec = \<lparr>cd_stringify = Some, cd_parse = (\<lambda>s. Some (Some s))\<rparr>"

text \<open>What \<open>GET\<close> brought: a value, if the server answered with a text that is JSON and not \<open>null\<close>.\<close>

definition cached_value :: "'v codec \<Rightarrow> (exn, string option) outcome \<Rightarrow> 'v option" where
  "cached_value cd out =
     (case out of Return (Some text) \<Rightarrow> (case cd_parse cd text of Some x \<Rightarrow> x | None \<Rightarrow> None) | _ \<Rightarrow> None)"

lemma cache_get_outcome:
  assumes "rd_get rc now key r = (out, r')" and "out \<noteq> Diverge"
  shows "cache_get cd rc now key r = (Return (cached_value cd out), r')"
  using assms by (auto simp: cache_get_def cached_value_def seq_def catch_def split: outcome.splits option.splits)

lemma cache_set_returns:
  assumes "\<And>x n. fst (rd_set_ex rc now key x n r) \<noteq> Diverge" and "\<And>x. fst (rd_set rc now key x r) \<noteq> Diverge"
  shows "\<exists>r'. cache_set cd rc now key value ttl r = (Return (), r')"
  using assms(1) [of _ "\<lfloor>ttl\<rfloor>"] assms(2)
  by (auto simp: cache_set_def catch_def split: option.splits prod.splits outcome.splits) (metis fst_conv)+

text \<open>
  C36: The cache fails open: whatever Redis does - answer, reject every command, hold a text that is no JSON - reading
  through the cache gives what the computation behind it gives. If \<open>GET\<close> brings a value, that value is the answer and the
  computation does not run. Otherwise the computation runs once, on the state with nothing but Redis touched; its answer,
  or the error it throws, is the answer, and the state it left is kept but for Redis. The commands only have to answer or
  reject in the end.
\<close>

theorem cache_fails_open:
  assumes "\<And>r. fst (rd_get rc now key r) \<noteq> Diverge" and "\<And>r x n. fst (rd_set_ex rc now key x n r) \<noteq> Diverge"
    and "\<And>r x. fst (rd_set rc now key x r) \<noteq> Diverge"
  shows "let (got, r) = rd_get rc now key (sel w); w1 = upd (\<lambda>_. r) w in
    case cached_value cd got of
      Some v \<Rightarrow> cache_wrap cd rc sel upd now key ttl factory w = (Return (Some v), w1)
    | None \<Rightarrow>
        let (out, w2) = factory w1; (out', w') = cache_wrap cd rc sel upd now key ttl factory w
        in out' = out \<and> (w' = w2 \<or> (\<exists>r'. w' = upd (\<lambda>_. r') w2))"
proof -
  obtain got r where get: "rd_get rc now key (sel w) = (got, r)" by (cases "rd_get rc now key (sel w)")
  then have read: "part sel upd (cache_get cd rc now key) w = (Return (cached_value cd got), upd (\<lambda>_. r) w)"
    using assms(1) [of "sel w"] by (simp add: part_def cache_get_outcome)
  obtain out w2 where run: "factory (upd (\<lambda>_. r) w) = (out, w2)" by (cases "factory (upd (\<lambda>_. r) w)")
  have put: "\<exists>s. part sel upd (cache_set cd rc now key v ttl) w2 = (Return (), upd (\<lambda>_. s) w2)" for v
  proof -
    have "\<exists>s. cache_set cd rc now key v ttl (sel w2) = (Return (), s)" by (rule cache_set_returns [OF assms(2,3)])
    then obtain s where "cache_set cd rc now key v ttl (sel w2) = (Return (), s)" ..
    then show ?thesis by (intro exI [of _ s]) (simp add: part_def)
  qed
  show ?thesis
  proof (cases "cached_value cd got")
    case None
    then have "cache_wrap cd rc sel upd now key ttl factory w =
        seq factory (\<lambda>value. case value of None \<Rightarrow> ret None
          | Some v \<Rightarrow> seq (part sel upd (cache_set cd rc now key v ttl)) (\<lambda>_. ret (Some v))) (upd (\<lambda>_. r) w)"
      by (simp add: cache_wrap_def read)
    moreover have "let (out', w') = seq factory (\<lambda>value. case value of None \<Rightarrow> ret None
          | Some v \<Rightarrow> seq (part sel upd (cache_set cd rc now key v ttl)) (\<lambda>_. ret (Some v))) (upd (\<lambda>_. r) w)
        in out' = out \<and> (w' = w2 \<or> (\<exists>r'. w' = upd (\<lambda>_. r') w2))"
    proof (cases out)
      case (Return x)
      show ?thesis
      proof (cases x)
        case (Some v)
        obtain s where "part sel upd (cache_set cd rc now key v ttl) w2 = (Return (), upd (\<lambda>_. s) w2)" using put by blast
        then show ?thesis using run Return Some by auto
      qed (use run Return in simp)
    qed (use run in simp_all)
    ultimately show ?thesis using None by (simp add: get run Let_def)
  qed (use read in \<open>simp add: get cache_wrap_def\<close>)
qed

theorem cache_fails_open_witness:
  "let (out, w') = cache_wrap text_codec (mem_redis\<lparr>rd_get := \<lambda>t k. throw json_error\<rparr>) fst apfst 5 ''cache:list:q'' 60
     (\<lambda>w. (Return (Some ''hits''), (fst w, Suc (snd w)))) ([], 0)
   in out = Return (Some ''hits'') \<and> snd w' = 1"
proof -
  let ?rc = "mem_redis\<lparr>rd_get := \<lambda>t k. throw json_error\<rparr>" and ?f = "\<lambda>w :: mem \<times> nat. (Return (Some ''hits''), (fst w, Suc (snd w)))"
  have "rd_get ?rc 5 ''cache:list:q'' r = (Throw json_error, r)" for r by simp
  moreover have "fst (rd_set_ex ?rc 5 ''cache:list:q'' x n r) \<noteq> Diverge" "fst (rd_set ?rc 5 ''cache:list:q'' x r) \<noteq> Diverge" for r x n
    by (simp_all add: mem_redis_def)
  ultimately show ?thesis
    using cache_fails_open [where rc = ?rc and now = 5 and key = "''cache:list:q''" and sel = fst and w = "([], 0)" and
        upd = apfst and cd = text_codec and factory = ?f and ttl = 60]
    by (auto simp: cached_value_def Let_def split: prod.splits)
qed

text \<open>
  C37: \<open>delByPattern\<close> terminates and is complete: while the server answers, the loop ends, and from then
  on no key with the prefix is live; every other key is untouched.
\<close>

theorem del_by_pattern_complete:
  assumes "redis_ok rc v" and "\<forall>c\<in>set p. \<not> glob_special c" and "0 < batch"
  shows "\<exists>n r'. cache_del_by_pattern rc t (p @ ''*'') batch r = (Return n, r') \<and>
    (\<forall>u\<ge>t. \<forall>k. rv_live v r' u k = (if starts_with k p then None else rv_live v r u k))"
  using del_by_pattern_prefix [OF assms, where t = t and s = r] unfolding keys_become_def by metis

theorem del_by_pattern_complete_witness:
  "\<exists>n r'. cache_del_by_pattern mem_redis 0 (''cache:list:'' @ ''*'') 250
       [(''cache:list:a'', ''1'', Some 5000), (''cache:prop:b'', ''2'', None)] = (Return n, r') \<and>
     mem_live r' 10 ''cache:list:a'' = None \<and> mem_live r' 10 ''cache:prop:b'' = Some ''2''"
proof -
  let ?r = "[(''cache:list:a'', ''1'', Some 5000), (''cache:prop:b'', ''2'', None :: int option)]"
  obtain n r' where "cache_del_by_pattern mem_redis 0 (''cache:list:'' @ ''*'') 250 ?r = (Return n, r')"
    and "\<forall>u\<ge>0. \<forall>k. rv_live mem_view r' u k =
      (if starts_with k ''cache:list:'' then None else rv_live mem_view ?r u k)"
    using del_by_pattern_complete [OF mem_redis_ok, of "''cache:list:''" 250 0 ?r] by (auto simp: glob_special_def)
  then show ?thesis by (simp add: starts_with_def mem_live_Cons)
qed

text \<open>
  A lock is exclusive: once \<open>acquireLock\<close> returned true, every other attempt on the same key returns
  false until the time to live has passed.
\<close>

theorem acquire_lock_exclusive:
  assumes "redis_ok rc v" and "1 \<le> ttl" and "1 \<le> ttl'"
    and "cache_acquire_lock rc t (lock_key res) ttl tok r = (Return True, r')"
    and "t \<le> u" and "u < t + 1000 * \<lfloor>ttl\<rfloor>"
  shows "fst (cache_acquire_lock rc u (lock_key res) ttl' tok' r') = Return False"
proof -
  from assms(2,3) have pos: "0 < \<lfloor>ttl\<rfloor>" "0 < \<lfloor>ttl'\<rfloor>" by linarith+
  have free: "rv_live v r t (lock_key res) = None"
  proof (rule ccontr)
    assume held: "rv_live v r t (lock_key res) \<noteq> None"
    show False
      by (rule redis_set_nx_held [OF assms(1) pos(1) held, of tok])
        (use assms(4) in \<open>simp add: cache_acquire_lock_def catch_def seq_def\<close>)
  qed
  have "rv_live v r' u (lock_key res) \<noteq> None"
    by (rule redis_set_nx_free [OF assms(1) pos(1) free, of tok])
      (use assms(4-6) in \<open>simp add: cache_acquire_lock_def catch_def seq_def keys_become_def\<close>)
  then show ?thesis
    by (rule redis_set_nx_held [OF assms(1) pos(2), of r' u "lock_key res" tok'])
      (simp add: cache_acquire_lock_def catch_def seq_def)
qed

theorem acquire_lock_exclusive_witness:
  "fst (cache_acquire_lock mem_redis 29999 (lock_key ''sync'') ttl_lock ''b''
     [(lock_key ''sync'', ''a'', Some 30000)]) = Return False"
  by (rule acquire_lock_exclusive [OF mem_redis_ok, of ttl_lock ttl_lock 0 "''sync''" "''a''" "[]"])
    (simp_all add: ttl_lock_def cache_acquire_lock_def mem_redis_def mem_live_def)

text \<open>
  Read-through. A miss runs the factory and stores its value: within the time to live the next
  \<open>wrap\<close> of the key returns that value whatever its own factory would do.
\<close>

theorem wrap_read_through:
  assumes "redis_ok rc v" and "1 \<le> ttl"
    and lens: "\<And>f w. sel (upd f w) = f (sel w)"
    and "cd_stringify cd x = Some y" and "cd_parse cd y = Some (Some x)"
    and miss: "rv_live v (sel w) t key = None"
    and "cache_wrap cd rc sel upd t key ttl factory w = (Return (Some x), w')"
    and "t \<le> u" and "u < t + 1000 * \<lfloor>ttl\<rfloor>"
  shows "fst (cache_wrap cd rc sel upd u key ttl' factory' w') = Return (Some x)"
proof -
  obtain r1 where "rd_get rc t key (sel w) = (Return None, r1)"
    using redis_get [OF assms(1), of t key "sel w"] miss by metis
  then have "cache_get cd rc t key (sel w) = (Return None, r1)"
    by (simp add: cache_get_def catch_def seq_def)
  then have "part sel upd (cache_get cd rc t key) w = (Return None, upd (\<lambda>_. r1) w)"
    by (simp add: part_def)
  with assms(7) have "seq factory (\<lambda>value. case value of None \<Rightarrow> ret None
      | Some z \<Rightarrow> seq (part sel upd (cache_set cd rc t key z ttl)) (\<lambda>_. ret (Some z)))
      (upd (\<lambda>_. r1) w) = (Return (Some x), w')"
    by (simp add: cache_wrap_def)
  then obtain a w2 where "factory (upd (\<lambda>_. r1) w) = (Return a, w2)"
    and "(case a of None \<Rightarrow> ret None
      | Some z \<Rightarrow> seq (part sel upd (cache_set cd rc t key z ttl)) (\<lambda>_. ret (Some z))) w2 =
      (Return (Some x), w')"
    unfolding seq_eq_Return by blast
  then have put: "part sel upd (cache_set cd rc t key x ttl) w2 = (Return (), w')"
    by (cases a) (auto simp: seq_eq_Return)
  obtain r2 where "cache_set cd rc t key x ttl (sel w2) = (Return (), r2)"
    "keys_become v t (sel w2) r2 (\<lambda>u k' z. if k' = key then (if u < t + 1000 * \<lfloor>ttl\<rfloor> then Some y else None) else z)"
    by (rule cache_set_law [OF assms(1,4,2)])
  with put assms(8,9) have "rv_live v (sel w') u key = Some y"
    by (auto simp: part_def lens keys_become_def)
  then obtain r3 where "rd_get rc u key (sel w') = (Return (Some y), r3)"
    using redis_get [OF assms(1), of u key "sel w'"] by metis
  then have "cache_get cd rc u key (sel w') = (Return (Some x), r3)"
    by (simp add: cache_get_def catch_def seq_def assms(5))
  then show ?thesis by (simp add: cache_wrap_def part_def)
qed

theorem wrap_read_through_witness:
  "fst (cache_wrap text_codec mem_redis id (\<lambda>f. f) 59999 ''cache:search:q'' ttl_search diverge
     [(''cache:search:q'', ''hits'', Some 60000)]) = Return (Some ''hits'')"
proof -
  have run: "cache_wrap text_codec mem_redis id (\<lambda>f. f) 0 ''cache:search:q'' ttl_search (ret (Some ''hits'')) [] =
      (Return (Some ''hits''), [(''cache:search:q'', ''hits'', Some 60000)])"
    by code_simp
  show ?thesis
    by (rule wrap_read_through [OF mem_redis_ok _ _ _ _ _ run, of "''hits''"])
      (simp_all add: ttl_search_def text_codec_def mem_live_def)
qed

text \<open>The counter through a window.\<close>

primrec increments :: "'r redis \<Rightarrow> string \<Rightarrow> rat \<Rightarrow> int list \<Rightarrow> 'r \<Rightarrow> (exn, int) outcome list" where
  "increments rc key ttl [] r = []"
| "increments rc key ttl (t # ts) r =
     (let (out, r') = cache_increment rc t key ttl r in out # increments rc key ttl ts r')"

lemma increment_more:
  assumes "redis_ok rc v" and "0 < n"
    and live: "\<forall>u\<ge>t. rv_live v r u key = (if u < e then Some (show_nat n) else None)" and "t < e"
  obtains r' where "cache_increment rc t key ttl r = (Return (int (Suc n)), r')"
    "\<forall>u\<ge>t. rv_live v r' u key = (if u < e then Some (show_nat (Suc n)) else None)"
proof -
  from live assms(4) have now: "rv_live v r t key = Some (show_nat n)" by simp
  obtain r' where "rd_incr rc t key r = (Return (int n + 1), r')"
    "keys_become v t r r' (\<lambda>_ k' y. if k' = key \<and> y \<noteq> None then Some (show_nat (Suc n)) else y)"
    by (rule redis_incr_more [OF assms(1) now])
  with live assms(2) show thesis
    by (intro that [of r']) (simp_all add: cache_increment_def keys_become_def)
qed

lemma increments_count:
  assumes "redis_ok rc v" and "0 < n" and "sorted ts" and "\<forall>t\<in>set ts. s \<le> t \<and> t < e"
    and "\<forall>u\<ge>s. rv_live v r u key = (if u < e then Some (show_nat n) else None)"
  shows "increments rc key ttl ts r = map (\<lambda>i. Return (int i)) [Suc n..<Suc n + length ts]"
  using assms(2-5)
proof (induction ts arbitrary: s n r)
  case Nil
  then show ?case by simp
next
  case (Cons t ts)
  have "\<forall>u\<ge>t. rv_live v r u key = (if u < e then Some (show_nat n) else None)" "t < e"
    using Cons.prems by auto
  with increment_more [OF assms(1) Cons.prems(1)] obtain r'
    where inc: "cache_increment rc t key ttl r = (Return (int (Suc n)), r')"
      and live: "\<forall>u\<ge>t. rv_live v r' u key = (if u < e then Some (show_nat (Suc n)) else None)"
    by metis
  have "increments rc key ttl ts r' = map (\<lambda>i. Return (int i)) [Suc (Suc n)..<Suc (Suc n) + length ts]"
    using Cons.IH [of "Suc n" t r'] Cons.prems live by auto
  with inc show ?case by (simp add: upt_rec [of "Suc n"] del: upt_Suc)
qed

text \<open>
  The counter of a fixed window: from the first increment of an absent key on, increments within
  the window return 1, 2, 3, ... in order, and once the window has passed the key is absent again.
\<close>

theorem increment_fixed_window:
  assumes "redis_ok rc v" and "1 \<le> ttl" and "rv_live v r t key = None"
    and "sorted (t # ts)" and "\<forall>t'\<in>set ts. t' < t + 1000 * \<lfloor>ttl\<rfloor>"
  shows "increments rc key ttl (t # ts) r = map (\<lambda>i. Return (int i)) [1..<length ts + 2] \<and>
    (\<forall>u \<ge> t + 1000 * \<lfloor>ttl\<rfloor>. rv_live v (snd (cache_increment rc t key ttl r)) u key = None)"
proof -
  from assms(2) have pos: "0 < \<lfloor>ttl\<rfloor>" by linarith
  have one: "show_nat (Suc 0) = ''1''" by code_simp
  obtain r1 where r1: "rd_incr rc t key r = (Return 1, r1)"
    "keys_become v t r r1 (\<lambda>_ k' y. if k' = key then Some ''1'' else y)"
    by (rule redis_incr_fresh [OF assms(1,3)])
  obtain r2 where r2: "rd_expire rc t key \<lfloor>ttl\<rfloor> r1 = (Return (), r2)"
    "keys_become v t r1 r2 (\<lambda>u k' y. if k' = key then
       (if u < t + 1000 * \<lfloor>ttl\<rfloor> then rv_live v r1 t key else None) else y)"
    by (rule redis_expire [OF assms(1) pos])
  have inc: "cache_increment rc t key ttl r = (Return 1, r2)"
    using assms(2) by (simp add: cache_increment_def r1 r2)
  have live: "\<forall>u\<ge>t. rv_live v r2 u key = (if u < t + 1000 * \<lfloor>ttl\<rfloor> then Some (show_nat 1) else None)"
    using r1(2) r2(2) by (simp add: keys_become_def one)
  have "increments rc key ttl ts r2 = map (\<lambda>i. Return (int i)) [Suc 1..<Suc 1 + length ts]"
    by (rule increments_count [OF assms(1), of _ _ t "t + 1000 * \<lfloor>ttl\<rfloor>"]) (use assms(4,5) live in auto)
  moreover have "[1..<length ts + 2] = 1 # [Suc 1..<Suc 1 + length ts]"
    by (simp add: upt_conv_Cons del: upt_Suc)
  ultimately have "increments rc key ttl (t # ts) r = map (\<lambda>i. Return (int i)) [1..<length ts + 2]"
    using inc by (simp del: upt_Suc)
  moreover have "rv_live v r2 u key = None" if "t + 1000 * \<lfloor>ttl\<rfloor> \<le> u" for u
  proof -
    from that pos have "t \<le> u" "\<not> u < t + 1000 * \<lfloor>ttl\<rfloor>" by linarith+
    with live show ?thesis by simp
  qed
  ultimately show ?thesis using inc by simp
qed

theorem increment_fixed_window_witness:
  "increments mem_redis ''v'' 60 [0, 10, 59999] [] = map (\<lambda>i. Return (int i)) [1..<4] \<and>
    mem_live (snd (cache_increment mem_redis 0 ''v'' 60 [])) 60000 ''v'' = None"
  using increment_fixed_window [OF mem_redis_ok, of 60 "[]" 0 "''v''" "[10, 59999]"]
  by (simp add: mem_live_def eval_nat_numeral del: upt_Suc increments.simps)

definition no_expire :: "mem redis" where
  "no_expire = mem_redis\<lparr>rd_expire := \<lambda>t k n r. (Throw json_error, r)\<rparr>"

text \<open>
  But the two commands of \<open>increment\<close> are not one: when \<open>EXPIRE\<close> is rejected after \<open>INCR\<close> the
  caller is told 0 and the key stays for ever, so that no later call sets the window again.
\<close>

theorem increment_not_atomic:
  "let (out, r) = cache_increment no_expire t key 60 [] in
     out = Return 0 \<and> (\<forall>u. mem_live r u key \<noteq> None) \<and>
     (let (out', r') = cache_increment mem_redis u key 60 r in
        out' = Return 2 \<and> (\<forall>u. mem_live r' u key \<noteq> None))"
  by (simp add: no_expire_def mem_redis_def cache_increment_def mem_live_def mem_expiry_def
      read_nat_def digit_val_def catch_def seq_def)

lemma insert_by_commute:
  assumes "\<And>a b. le a b \<or> le b a" and "\<And>a b c. le a b \<Longrightarrow> le b c \<Longrightarrow> le a c"
    and "le x y \<Longrightarrow> le y x \<Longrightarrow> x = y"
  shows "insert_by le x (insert_by le y zs) = insert_by le y (insert_by le x zs)"
proof (induction zs)
  case Nil
  show ?case using assms(1) [of x y] assms(3) by auto
next
  case (Cons z zs)
  show ?case
  proof (cases "x = y")
    case True
    then show ?thesis by simp
  next
    case False
    then have strict: "\<not> le x y \<or> \<not> le y x" using assms(3) by blast
    have tr: "\<not> le a b \<or> \<not> le b c \<or> le a c" for a b c using assms(2) by blast
    from Cons strict show ?thesis
      using assms(1) [of x z] assms(1) [of y z] assms(1) [of x y]
        tr [of x z y] tr [of y z x] tr [of y x z] tr [of x y z]
      by (cases "le x z"; cases "le y z"; cases "le x y"; cases "le y x") simp_all
  qed
qed

lemma sort_by_mset:
  assumes "\<And>a b. le a b \<or> le b a" and "\<And>a b c. le a b \<Longrightarrow> le b c \<Longrightarrow> le a c"
    and "\<And>a b. a \<in> set xs \<Longrightarrow> b \<in> set xs \<Longrightarrow> le a b \<Longrightarrow> le b a \<Longrightarrow> a = b"
    and "mset xs = mset ys"
  shows "sort_by le xs = sort_by le ys"
  using assms(3,4)
proof (induction xs arbitrary: ys)
  case Nil
  then show ?case by simp
next
  case (Cons x xs)
  note Cons_antisym = Cons.prems(1)
  from Cons obtain us vs where ys: "ys = us @ x # vs"
    by (metis list.set_intros(1) set_mset_mset split_list)
  have sub: "set us \<subseteq> set (x # xs)"
    using Cons.prems(2) ys by (metis Un_subset_iff order_refl set_append set_mset_mset)
  have move: "foldr (insert_by le) ws (insert_by le x zs) = insert_by le x (foldr (insert_by le) ws zs)"
    if "set ws \<subseteq> set (x # xs)" for ws zs
    using that
  proof (induction ws)
    case (Cons w ws)
    have anti: "w = x" if "le w x" "le x w"
      by (rule Cons_antisym) (use that Cons.prems in auto)
    have "insert_by le w (insert_by le x qs) = insert_by le x (insert_by le w qs)" for qs
      by (rule insert_by_commute) (use assms(1) in blast, erule (1) assms(2), erule (1) anti)
    with Cons show ?case by simp
  qed simp
  have "sort_by le xs = sort_by le (us @ vs)"
    using Cons.prems ys by (intro Cons.IH) auto
  then show ?case
    using move [OF sub] by (simp add: ys sort_by_def)
qed

text \<open>
  The digest of a query does not depend on the order in which its fields were written, nor on
  fields that are undefined.
\<close>

theorem hash_key_field_order:
  assumes "\<And>a b. le a b \<or> le b a" and "\<And>a b c. le a b \<Longrightarrow> le b c \<Longrightarrow> le a c"
    and "\<And>a b. le a b \<Longrightarrow> le b a \<Longrightarrow> a = b"
    and "distinct (map fst flds)"
    and "mset (filter (\<lambda>p. snd p \<noteq> Undefined) flds) = mset (filter (\<lambda>p. snd p \<noteq> Undefined) flds')"
  shows "hash_key le json sha (JObj c flds) = hash_key le json sha (JObj c flds')"
proof -
  let ?le = "\<lambda>p q :: string \<times> js_value. le (fst p) (fst q)"
  have "a = b" if "a \<in> set flds" "b \<in> set flds" "fst a = fst b" for a b
    using assms(4) that by (metis eq_key_imp_eq_value prod.collapse)
  then have "sort_by ?le (filter (\<lambda>p. snd p \<noteq> Undefined) flds) =
      sort_by ?le (filter (\<lambda>p. snd p \<noteq> Undefined) flds')"
    using assms(1-3,5) by (intro sort_by_mset) auto
  then show ?thesis by (simp add: hash_key_def)
qed

theorem hash_key_field_order_witness:
  "hash_key (\<le>) (\<lambda>v. show_nat (size v)) rev (JObj PlainObject
     [(''page'', JNum (Fin 2)), (''area'', Undefined), (''limit'', JNum (Fin 12))]) =
   hash_key (\<le>) (\<lambda>v. show_nat (size v)) rev
     (JObj PlainObject [(''limit'', JNum (Fin 12)), (''page'', JNum (Fin 2))])"
  by (rule hash_key_field_order) auto

end
