(* ===== verification/Database.thy ===== *)
theory Database
  imports Http_Errors
begin

text \<open>
  The tables of the relational database as the services see them. The Prisma client is a parameter, a
  record \<open>table\<close> of the calls the services make on one model; a call may reject. The \<open>where\<close> of a call
  is the predicate it denotes on a row and the \<open>data\<close> of an update the function it denotes. What Prisma
  documents is \<open>table_ok\<close>.
\<close>

record 'row table =
  tb_find :: "('row \<Rightarrow> bool) \<Rightarrow> ('row list, exn, 'row option) prog"
  tb_find_many :: "('row \<Rightarrow> bool) \<Rightarrow> ('row list, exn, 'row list) prog"
  tb_count :: "('row \<Rightarrow> bool) \<Rightarrow> ('row list, exn, nat) prog"
  tb_create :: "'row \<Rightarrow> ('row list, exn, 'row) prog"
  tb_update :: "('row \<Rightarrow> bool) \<Rightarrow> ('row \<Rightarrow> 'row) \<Rightarrow> ('row list, exn, 'row) prog"
  tb_update_many :: "('row \<Rightarrow> bool) \<Rightarrow> ('row \<Rightarrow> 'row) \<Rightarrow> ('row list, exn, nat) prog"
  tb_delete :: "('row \<Rightarrow> bool) \<Rightarrow> ('row list, exn, 'row) prog"
  tb_delete_many :: "('row \<Rightarrow> bool) \<Rightarrow> ('row list, exn, nat) prog"

definition prisma_error :: "string \<Rightarrow> exn" where
  "prisma_error code = Thrown (JObj ErrorObject
     [(''name'', JStr ''PrismaClientKnownRequestError''), (''code'', JStr code),
      (''clientVersion'', JStr ''6'')])"

definition update_where :: "('row \<Rightarrow> bool) \<Rightarrow> ('row \<Rightarrow> 'row) \<Rightarrow> 'row list \<Rightarrow> 'row list" where
  "update_where P f rows = map (\<lambda>r. if P r then f r else r) rows"

text \<open>An update gives the row a key that another row has.\<close>

definition takes_key :: "('row \<Rightarrow> 'row \<Rightarrow> bool) \<Rightarrow> ('row \<Rightarrow> bool) \<Rightarrow> 'row \<Rightarrow> 'row \<Rightarrow> 'row list \<Rightarrow> bool" where
  "takes_key clash P r r' rows \<longleftrightarrow> list_ex (\<lambda>x. \<not> P x \<and> clash r' x \<and> \<not> clash r x) rows"

lemma takes_key_simps [simp]:
  "\<not> takes_key clash P r r' []"
  "takes_key clash P r r' (x # xs) \<longleftrightarrow> (\<not> P x \<and> clash r' x \<and> \<not> clash r x) \<or> takes_key clash P r r' xs"
  by (simp_all add: takes_key_def)

lemma takes_key_same [simp]: "clash r' = clash r \<Longrightarrow> \<not> takes_key clash P r r' rows"
  by (simp add: takes_key_def list_ex_iff)

text \<open>
  The documented behaviour: \<open>findUnique\<close>/\<open>findFirst\<close> return the first match, \<open>create\<close> and \<open>update\<close> reject
  with P2002 when the row would clash with another stored one, \<open>update\<close> and \<open>delete\<close> of a row that is not
  there reject with P2025; a call that rejects changes nothing.
\<close>

definition table_ok :: "('row \<Rightarrow> 'row \<Rightarrow> bool) \<Rightarrow> 'row table \<Rightarrow> bool" where
  "table_ok clash tb \<longleftrightarrow>
     (\<forall>P rows. tb_find tb P rows = (Return (List.find P rows), rows)) \<and>
     (\<forall>P rows. tb_find_many tb P rows = (Return (filter P rows), rows)) \<and>
     (\<forall>P rows. tb_count tb P rows = (Return (length (filter P rows)), rows)) \<and>
     (\<forall>r rows. tb_create tb r rows =
        (if list_ex (clash r) rows then (Throw (prisma_error ''P2002''), rows) else (Return r, rows @ [r]))) \<and>
     (\<forall>P f rows. tb_update tb P f rows =
        (case List.find P rows of
           None \<Rightarrow> (Throw (prisma_error ''P2025''), rows)
         | Some r \<Rightarrow> if takes_key clash P r (f r) rows then (Throw (prisma_error ''P2002''), rows)
                     else (Return (f r), update_where P f rows))) \<and>
     (\<forall>P f rows. tb_update_many tb P f rows = (Return (length (filter P rows)), update_where P f rows)) \<and>
     (\<forall>P rows. tb_delete tb P rows =
        (case List.find P rows of
           None \<Rightarrow> (Throw (prisma_error ''P2025''), rows)
         | Some r \<Rightarrow> (Return r, filter (\<lambda>r. \<not> P r) rows))) \<and>
     (\<forall>P rows. tb_delete_many tb P rows = (Return (length (filter P rows)), filter (\<lambda>r. \<not> P r) rows))"

lemma table_okD:
  assumes "table_ok clash tb"
  shows "tb_find tb P rows = (Return (List.find P rows), rows)"
    "tb_find_many tb P rows = (Return (filter P rows), rows)"
    "tb_count tb P rows = (Return (length (filter P rows)), rows)"
    "tb_create tb r rows =
       (if list_ex (clash r) rows then (Throw (prisma_error ''P2002''), rows) else (Return r, rows @ [r]))"
    "tb_update tb P f rows =
       (case List.find P rows of
          None \<Rightarrow> (Throw (prisma_error ''P2025''), rows)
        | Some r \<Rightarrow> if takes_key clash P r (f r) rows then (Throw (prisma_error ''P2002''), rows)
                     else (Return (f r), update_where P f rows))"
    "tb_update_many tb P f rows = (Return (length (filter P rows)), update_where P f rows)"
    "tb_delete tb P rows =
       (case List.find P rows of
          None \<Rightarrow> (Throw (prisma_error ''P2025''), rows)
        | Some r \<Rightarrow> (Return r, filter (\<lambda>r. \<not> P r) rows))"
    "tb_delete_many tb P rows = (Return (length (filter P rows)), filter (\<lambda>r. \<not> P r) rows)"
  using assms by (simp_all add: table_ok_def)

text \<open>A table in memory, and a database that is down.\<close>

definition mem_table :: "('row \<Rightarrow> 'row \<Rightarrow> bool) \<Rightarrow> 'row table" where
  "mem_table clash =
     \<lparr>tb_find = (\<lambda>P rows. (Return (List.find P rows), rows)),
      tb_find_many = (\<lambda>P rows. (Return (filter P rows), rows)),
      tb_count = (\<lambda>P rows. (Return (length (filter P rows)), rows)),
      tb_create = (\<lambda>r rows.
        if list_ex (clash r) rows then (Throw (prisma_error ''P2002''), rows) else (Return r, rows @ [r])),
      tb_update = (\<lambda>P f rows.
        case List.find P rows of
          None \<Rightarrow> (Throw (prisma_error ''P2025''), rows)
        | Some r \<Rightarrow> if takes_key clash P r (f r) rows then (Throw (prisma_error ''P2002''), rows)
                     else (Return (f r), update_where P f rows)),
      tb_update_many = (\<lambda>P f rows. (Return (length (filter P rows)), update_where P f rows)),
      tb_delete = (\<lambda>P rows.
        case List.find P rows of
          None \<Rightarrow> (Throw (prisma_error ''P2025''), rows)
        | Some r \<Rightarrow> (Return r, filter (\<lambda>r. \<not> P r) rows)),
      tb_delete_many = (\<lambda>P rows. (Return (length (filter P rows)), filter (\<lambda>r. \<not> P r) rows))\<rparr>"

lemma mem_table_ok [simp]: "table_ok clash (mem_table clash)"
  by (simp add: table_ok_def mem_table_def)

definition down_error :: exn where
  "down_error = Thrown (JObj ErrorObject [(''name'', JStr ''PrismaClientInitializationError'')])"

definition down_table :: "'row table" where
  "down_table =
     \<lparr>tb_find = (\<lambda>P. throw down_error), tb_find_many = (\<lambda>P. throw down_error),
      tb_count = (\<lambda>P. throw down_error), tb_create = (\<lambda>r. throw down_error),
      tb_update = (\<lambda>P f. throw down_error), tb_update_many = (\<lambda>P f. throw down_error),
      tb_delete = (\<lambda>P. throw down_error), tb_delete_many = (\<lambda>P. throw down_error)\<rparr>"

section \<open>Lemmas on rows\<close>

lemma set_update_where: "set (update_where P f rows) = (\<lambda>r. if P r then f r else r) ` set rows"
  by (simp add: update_where_def)

lemma find_SomeD: "List.find P rows = Some r \<Longrightarrow> P r \<and> r \<in> set rows"
  by (induction rows) (auto split: if_splits)

lemma find_NoneD: "List.find P rows = None \<Longrightarrow> r \<in> set rows \<Longrightarrow> \<not> P r"
  by (auto simp: find_None_iff)

lemma find_append: "List.find P (xs @ ys) = (case List.find P xs of None \<Rightarrow> List.find P ys | Some r \<Rightarrow> Some r)"
  by (induction xs) auto

end
