(* ===== verification/Tokens.thy ===== *)
theory Tokens
  imports Cache Database Enums Identifiers
begin

text \<open>
  Sessions: durations (\<open>modules/shared/duration.util.ts\<close>), the token claims
  (\<open>common/types/authenticated-user.ts\<close>) and every operation of \<open>TokenService\<close>
  (\<open>modules/auth/token.service.ts\<close>).

  The state of an operation is a \<open>session_world\<close>: the Redis server, the rows of \<open>refresh_tokens\<close>, and
  how many UUIDs have been drawn. The JWT library, UUID generation, SHA-256, the Redis client and the
  Prisma client are parameters, collected in \<open>token_env\<close>. An operation runs at an instant \<open>now\<close> in
  milliseconds, what \<open>Date.now()\<close> returns. Logging is left out.
\<close>

section \<open>Durations\<close>

definition unit_seconds :: "string \<Rightarrow> int option" where
  "unit_seconds u = map_of
     [(''s'', 1), (''m'', 60), (''h'', 60 * 60), (''d'', 60 * 60 * 24), (''w'', 60 * 60 * 24 * 7),
      (''y'', 60 * 60 * 24 * 365)] u"

text \<open>A thrown \<open>Error\<close> with its message.\<close>

definition js_error :: "string \<Rightarrow> exn" where
  "js_error msg = Thrown (JObj ErrorObject [(''name'', JStr ''Error''), (''message'', JStr msg)])"

text \<open>
  \<open>DURATION_PATTERN\<close>: digits, optionally a dot and more digits, white space, optionally a unit in either
  case. The result is the decimal number and the unit matched.
\<close>

definition decimal_value :: "string \<Rightarrow> string \<Rightarrow> rat" where
  "decimal_value whole fdig = of_nat (read_nat whole) + of_nat (read_nat fdig) / 10 ^ length fdig"

definition match_unit :: "rat \<Rightarrow> string \<Rightarrow> (rat \<times> string) option" where
  "match_unit amount rest =
     (let u = to_lower (dropWhile js_space rest)
      in if u = [] then Some (amount, ''s'') else if unit_seconds u \<noteq> None then Some (amount, u) else None)"

definition match_duration :: "string \<Rightarrow> (rat \<times> string) option" where
  "match_duration s =
     (let whole = takeWhile is_digit s; rest = dropWhile is_digit s
      in if whole = [] then None
         else case rest of
             c # rest' \<Rightarrow>
               if c = CHR ''.'' then
                 (let fdig = takeWhile is_digit rest'
                  in if fdig = [] then None
                     else match_unit (decimal_value whole fdig) (dropWhile is_digit rest'))
               else match_unit (decimal_value whole []) rest
           | [] \<Rightarrow> match_unit (decimal_value whole []) [])"

text \<open>\<open>num_text\<close> is the number as a template literal prints it.\<close>

fun duration_to_seconds :: "(js_num \<Rightarrow> string) \<Rightarrow> js_value \<Rightarrow> exn + int" where
  "duration_to_seconds num_text (JNum n) =
     (case n of
        Fin r \<Rightarrow> if r \<le> 0 then Inl (js_error (''Invalid duration: '' @ num_text n)) else Inr \<lfloor>r\<rfloor>
      | _ \<Rightarrow> Inl (js_error (''Invalid duration: '' @ num_text n)))"
| "duration_to_seconds num_text (JStr s) =
     (case match_duration (trim s) of
        None \<Rightarrow> Inl (js_error (''Invalid duration: '' @ quote s @ '' (expected e.g. '' @ quote ''15m'' @ '', '' @
          quote ''30d'' @ '', '' @ quote ''3600'' @ '')''))
      | Some (amount, u) \<Rightarrow>
          (let seconds = \<lfloor>amount * of_int (the (unit_seconds u))\<rfloor>
           in if seconds \<le> 0
              then Inl (js_error (''Invalid duration: '' @ quote s @ '' resolves to '' @ show_int seconds @ ''s''))
              else Inr seconds))"
| "duration_to_seconds num_text _ = Inl (js_error ''Invalid duration'')"

definition seconds_from_now :: "int \<Rightarrow> int \<Rightarrow> int" where
  "seconds_from_now seconds now = now + seconds * 1000"

definition seconds_until_expiry :: "int \<Rightarrow> int \<Rightarrow> int" where
  "seconds_until_expiry exp_unix_seconds now = max 0 (exp_unix_seconds - now div 1000)"

section \<open>Claims and the JWT library\<close>

record token_subject =
  ts_id :: string
  ts_email :: string
  ts_name :: string
  ts_role :: user_role

text \<open>
  The claims the service puts into a token, and the payload the library makes of them: an access token
  carries all of \<open>email\<close>, \<open>role\<close> and \<open>name\<close>, a refresh token none of them.
\<close>

record jwt_claims =
  jc_sub :: string
  jc_email :: "string option"
  jc_role :: "user_role option"
  jc_name :: "string option"
  jc_jti :: string

record jwt_payload = jwt_claims +
  jp_iss :: string
  jp_aud :: string
  jp_iat :: int
  jp_exp :: int

record authenticated_user =
  au_id :: string
  au_email :: "string option"
  au_name :: "string option"
  au_role :: "user_role option"
  au_jti :: string

definition authenticated_user_from_payload :: "jwt_payload \<Rightarrow> authenticated_user" where
  "authenticated_user_from_payload p =
     \<lparr>au_id = jc_sub p, au_email = jc_email p, au_name = jc_name p, au_role = jc_role p, au_jti = jc_jti p\<rparr>"

record token_config =
  cf_issuer :: string
  cf_audience :: string
  cf_access_secret :: string
  cf_refresh_secret :: string
  cf_access_ttl :: int
  cf_refresh_ttl :: int

text \<open>
  \<open>signAsync\<close>, \<open>verifyAsync\<close> (which rejects with a message) and \<open>decode\<close>. Signing stamps \<open>iat\<close> and \<open>exp\<close>.
\<close>

record jwt_service =
  jw_sign :: "int \<Rightarrow> string \<Rightarrow> int \<Rightarrow> string \<Rightarrow> string \<Rightarrow> jwt_claims \<Rightarrow> string"
  jw_verify :: "int \<Rightarrow> string \<Rightarrow> string \<Rightarrow> string \<Rightarrow> string \<Rightarrow> string + jwt_payload"
  jw_decode :: "string \<Rightarrow> jwt_payload option"

definition stamped :: "int \<Rightarrow> int \<Rightarrow> string \<Rightarrow> string \<Rightarrow> jwt_claims \<Rightarrow> jwt_payload" where
  "stamped now ttl issuer audience c =
     jwt_claims.extend c
       (jwt_payload.fields issuer audience (now div 1000) (now div 1000 + ttl))"

text \<open>
  What the library documents: a token decodes to its stamped claims; a token signed with the secret is
  accepted until its \<open>exp\<close>, then rejected as expired; an accepted token decodes to what was accepted and
  stays accepted until its \<open>exp\<close>.
\<close>

definition jwt_law_decode :: "jwt_service \<Rightarrow> bool" where
  "jwt_law_decode jw \<longleftrightarrow>
     (\<forall>now sec ttl iss aud c. jw_decode jw (jw_sign jw now sec ttl iss aud c) =
        Some (stamped now ttl iss aud c))"

definition jwt_law_verify :: "jwt_service \<Rightarrow> bool" where
  "jwt_law_verify jw \<longleftrightarrow>
     (\<forall>now sec ttl iss aud c u. jw_verify jw u sec iss aud (jw_sign jw now sec ttl iss aud c) =
        (if u div 1000 < now div 1000 + ttl then Inr (stamped now ttl iss aud c) else Inl ''jwt expired''))"

definition jwt_law_accept :: "jwt_service \<Rightarrow> bool" where
  "jwt_law_accept jw \<longleftrightarrow>
     (\<forall>u sec iss aud tok p. jw_verify jw u sec iss aud tok = Inr p \<longrightarrow>
        jw_decode jw tok = Some p \<and> u div 1000 < jp_exp p)"

definition jwt_law_stays :: "jwt_service \<Rightarrow> bool" where
  "jwt_law_stays jw \<longleftrightarrow>
     (\<forall>t u sec iss aud tok p. jw_verify jw t sec iss aud tok = Inr p \<longrightarrow> t \<le> u \<longrightarrow> u div 1000 < jp_exp p \<longrightarrow>
        jw_verify jw u sec iss aud tok = Inr p)"

definition jwt_ok :: "jwt_service \<Rightarrow> bool" where
  "jwt_ok jw \<longleftrightarrow> jwt_law_decode jw \<and> jwt_law_verify jw \<and> jwt_law_accept jw \<and> jwt_law_stays jw"

lemma jwt_signed:
  "jwt_ok jw \<Longrightarrow> u div 1000 < now div 1000 + ttl \<Longrightarrow>
     jw_verify jw u sec iss aud (jw_sign jw now sec ttl iss aud c) = Inr (stamped now ttl iss aud c)"
  by (simp add: jwt_ok_def jwt_law_verify_def)

lemma jwt_accepted:
  "jwt_ok jw \<Longrightarrow> jw_verify jw u sec iss aud tok = Inr p \<Longrightarrow> jw_decode jw tok = Some p \<and> u div 1000 < jp_exp p"
  unfolding jwt_ok_def jwt_law_accept_def by blast

lemma jwt_stays:
  "jwt_ok jw \<Longrightarrow> jw_verify jw t sec iss aud tok = Inr p \<Longrightarrow> t \<le> u \<Longrightarrow> u div 1000 < jp_exp p \<Longrightarrow>
     jw_verify jw u sec iss aud tok = Inr p"
  unfolding jwt_ok_def jwt_law_stays_def by blast

section \<open>The state and the services used\<close>

text \<open>A row of \<open>refresh_tokens\<close>; the columns the service never reads or writes are left out.\<close>

record refresh_row =
  rt_user_id :: string
  rt_jti :: string
  rt_token_hash :: string
  rt_user_agent :: "string option"
  rt_ip_address :: "string option"
  rt_expires_at :: int
  rt_revoked_at :: "int option"
  rt_replaced_by :: "string option"

text \<open>What is stored under a session key: \<open>{ issuedAt }\<close>, or \<open>{ userId?, revokedAt }\<close>.\<close>

datatype session_mark = IssuedAt int | RevokedAt "string option" int

record session_context =
  sc_user_agent :: "string option"
  sc_ip_address :: "string option"

record issued_tokens =
  it_access_token :: string
  it_refresh_token :: string
  it_expires_in :: int
  it_refresh_expires_in :: int

record 'r token_env =
  te_redis :: "'r redis"
  te_codec :: "session_mark codec"
  te_table :: "refresh_row table"
  te_jwt :: jwt_service
  te_uuid :: "nat \<Rightarrow> string"
  te_sha256 :: "string \<Rightarrow> string"
  te_config :: token_config

record 'r session_world =
  sw_cache :: 'r
  sw_tokens :: "refresh_row list"
  sw_uuids :: nat

type_synonym ('r, 'z, 'a) session_prog = "(('r, 'z) session_world_scheme, exn, 'a) prog"

definition on_cache :: "('r, exn, 'a) prog \<Rightarrow> ('r, 'z, 'a) session_prog" where
  "on_cache = part sw_cache sw_cache_update"

definition on_tokens :: "(refresh_row list, exn, 'a) prog \<Rightarrow> ('r, 'z, 'a) session_prog" where
  "on_tokens = part sw_tokens sw_tokens_update"

definition fresh_uuid :: "'r token_env \<Rightarrow> ('r, 'z, string) session_prog" where
  "fresh_uuid env = (\<lambda>w. (Return (te_uuid env (sw_uuids w)), w\<lparr>sw_uuids := Suc (sw_uuids w)\<rparr>))"

definition set_mark :: "'r token_env \<Rightarrow> int \<Rightarrow> string \<Rightarrow> session_mark \<Rightarrow> int \<Rightarrow> ('r, 'z, unit) session_prog" where
  "set_mark env now key x ttl = on_cache (cache_set (te_codec env) (te_redis env) now key x (of_int ttl))"

section \<open>TokenService\<close>

definition is_denied :: "'r token_env \<Rightarrow> int \<Rightarrow> string \<Rightarrow> ('r, 'z, bool) session_prog" where
  "is_denied env now jti = on_cache (cache_exists (te_redis env) now (deny_key jti))"

definition is_known_in_database ::
  "'r token_env \<Rightarrow> int \<Rightarrow> string \<Rightarrow> string \<Rightarrow> ('r, 'z, bool) session_prog" where
  "is_known_in_database env now user_id jti =
     seq (catch (on_tokens (tb_find (te_table env) (\<lambda>r. rt_jti r = jti))) (\<lambda>_. ret None)) (\<lambda>found.
       ret (case found of
              None \<Rightarrow> False
            | Some r \<Rightarrow> rt_user_id r = user_id \<and> rt_revoked_at r = None \<and> now < rt_expires_at r))"

definition remember_refresh_token ::
  "'r token_env \<Rightarrow> int \<Rightarrow> string \<Rightarrow> string \<Rightarrow> string \<Rightarrow> session_context \<Rightarrow> ('r, 'z, unit) session_prog" where
  "remember_refresh_token env now user_id jti token ctx =
     (let ttl = cf_refresh_ttl (te_config env); expires_at = seconds_from_now ttl now
      in seq (set_mark env now (refresh_key user_id jti) (IssuedAt now) ttl) (\<lambda>_.
         catch
           (seq (on_tokens (tb_create (te_table env)
              \<lparr>rt_user_id = user_id, rt_jti = jti, rt_token_hash = te_sha256 env token,
               rt_user_agent = sc_user_agent ctx, rt_ip_address = sc_ip_address ctx,
               rt_expires_at = expires_at, rt_revoked_at = None, rt_replaced_by = None\<rparr>)) (\<lambda>_. ret ()))
           (\<lambda>_. ret ())))"

definition issue_tokens ::
  "'r token_env \<Rightarrow> int \<Rightarrow> token_subject \<Rightarrow> session_context \<Rightarrow> ('r, 'z, issued_tokens) session_prog" where
  "issue_tokens env now user ctx =
     (let cf = te_config env
      in seq (fresh_uuid env) (\<lambda>access_jti.
         seq (fresh_uuid env) (\<lambda>refresh_jti.
         let access_token = jw_sign (te_jwt env) now (cf_access_secret cf) (cf_access_ttl cf)
               (cf_issuer cf) (cf_audience cf)
               \<lparr>jc_sub = ts_id user, jc_email = Some (ts_email user), jc_role = Some (ts_role user),
                jc_name = Some (ts_name user), jc_jti = access_jti\<rparr>;
             refresh_token = jw_sign (te_jwt env) now (cf_refresh_secret cf) (cf_refresh_ttl cf)
               (cf_issuer cf) (cf_audience cf)
               \<lparr>jc_sub = ts_id user, jc_email = None, jc_role = None, jc_name = None, jc_jti = refresh_jti\<rparr>
         in seq (remember_refresh_token env now (ts_id user) refresh_jti refresh_token ctx) (\<lambda>_.
            ret \<lparr>it_access_token = access_token, it_refresh_token = refresh_token,
                 it_expires_in = cf_access_ttl cf, it_refresh_expires_in = cf_refresh_ttl cf\<rparr>))))"

definition decode_token :: "'r token_env \<Rightarrow> int \<Rightarrow> string \<Rightarrow> string \<Rightarrow> ('r, 'z, jwt_payload) session_prog" where
  "decode_token env now token secret =
     (case jw_verify (te_jwt env) now secret (cf_issuer (te_config env)) (cf_audience (te_config env)) token of
        Inr p \<Rightarrow> ret p
      | Inl message \<Rightarrow>
          (let expired = js_includes (to_lower message) ''expired''
           in throw (AppExc (unauthorized
                (if expired then ''Token has expired'' else ''Token is invalid'')
                (if expired then TokenExpiredCode else InvalidTokenCode)))))"

definition verify_access_token :: "'r token_env \<Rightarrow> int \<Rightarrow> string \<Rightarrow> ('r, 'z, jwt_payload) session_prog" where
  "verify_access_token env now token =
     seq (decode_token env now token (cf_access_secret (te_config env))) (\<lambda>payload.
     seq (is_denied env now (jc_jti payload)) (\<lambda>denied.
       if denied then throw (AppExc (unauthorized ''Session has been revoked'' InvalidTokenCode))
       else ret payload))"

text \<open>
  A \<open>@db.Uuid\<close> column holds the lower case text of a UUID and is matched in either case: the value PostgreSQL
  makes of an identifier, and when it takes two identifiers for the same.
\<close>

definition uuid_value :: "string \<Rightarrow> string" where
  "uuid_value i = to_lower i"

definition same_uuid :: "string \<Rightarrow> string \<Rightarrow> bool" where
  "same_uuid i j \<longleftrightarrow> uuid_value i = uuid_value j"

text \<open>\<open>Promise.all\<close> over the live rows: its writes go to different keys, so their order does not matter.\<close>

definition revoke_all_sessions :: "'r token_env \<Rightarrow> int \<Rightarrow> string \<Rightarrow> ('r, 'z, unit) session_prog" where
  "revoke_all_sessions env now user_id =
     seq (on_cache (cache_del_by_pattern (te_redis env) now (refresh_pattern user_id) 250)) (\<lambda>_.
     seq (catch
           (on_tokens (tb_find_many (te_table env)
             (\<lambda>r. same_uuid (rt_user_id r) user_id \<and> rt_revoked_at r = None \<and> now < rt_expires_at r)))
           (\<lambda>_. ret [])) (\<lambda>live.
     seq (seq_all
           (\<lambda>r. set_mark env now (deny_key (rt_jti r)) (RevokedAt (Some user_id) now)
              (max 1 ((rt_expires_at r - now) div 1000))) live) (\<lambda>_.
       catch
         (seq (on_tokens (tb_update_many (te_table env)
                (\<lambda>r. same_uuid (rt_user_id r) user_id \<and> rt_revoked_at r = None)
                (\<lambda>r. r\<lparr>rt_revoked_at := Some now\<rparr>))) (\<lambda>_. ret ()))
         (\<lambda>_. ret ()))))"

definition verify_refresh_token :: "'r token_env \<Rightarrow> int \<Rightarrow> string \<Rightarrow> ('r, 'z, jwt_payload) session_prog" where
  "verify_refresh_token env now token =
     seq (decode_token env now token (cf_refresh_secret (te_config env))) (\<lambda>payload.
     seq (is_denied env now (jc_jti payload)) (\<lambda>denied.
       if denied then
         seq (revoke_all_sessions env now (jc_sub payload)) (\<lambda>_.
           throw (AppExc (unauthorized ''Refresh token has already been used'' RefreshTokenReusedCode)))
       else
         seq (on_cache (cache_exists (te_redis env) now (refresh_key (jc_sub payload) (jc_jti payload)))) (\<lambda>active.
         seq (if active then ret True
              else is_known_in_database env now (jc_sub payload) (jc_jti payload)) (\<lambda>known.
           if known then ret payload
           else throw (AppExc (unauthorized ''Refresh token is no longer valid'' InvalidTokenCode))))))"

definition revoke_refresh_jti ::
  "'r token_env \<Rightarrow> int \<Rightarrow> string \<Rightarrow> string \<Rightarrow> int \<Rightarrow> string option \<Rightarrow> ('r, 'z, unit) session_prog" where
  "revoke_refresh_jti env now user_id jti exp_unix_seconds replaced_by =
     (let remaining = seconds_until_expiry exp_unix_seconds now
      in seq (do_if (0 < remaining)
               (set_mark env now (deny_key jti) (RevokedAt (Some user_id) now) remaining)) (\<lambda>_.
         seq (on_cache (cache_del (te_redis env) now [refresh_key user_id jti])) (\<lambda>_.
           catch
             (seq (on_tokens (tb_update_many (te_table env)
                    (\<lambda>r. rt_jti r = jti \<and> rt_revoked_at r = None)
                    (\<lambda>r. r\<lparr>rt_revoked_at := Some now, rt_replaced_by := replaced_by\<rparr>))) (\<lambda>_. ret ()))
             (\<lambda>_. ret ()))))"

definition revoke_access_jti :: "'r token_env \<Rightarrow> int \<Rightarrow> string \<Rightarrow> int \<Rightarrow> ('r, 'z, unit) session_prog" where
  "revoke_access_jti env now jti exp_unix_seconds =
     (let remaining = seconds_until_expiry exp_unix_seconds now
      in do_if (0 < remaining) (set_mark env now (deny_key jti) (RevokedAt None now) remaining))"

definition rotate_tokens ::
  "'r token_env \<Rightarrow> int \<Rightarrow> token_subject \<Rightarrow> jwt_payload \<Rightarrow> session_context \<Rightarrow> ('r, 'z, issued_tokens) session_prog" where
  "rotate_tokens env now user old_payload ctx =
     seq (issue_tokens env now user ctx) (\<lambda>issued.
     let new_jti = map_option jc_jti (jw_decode (te_jwt env) (it_refresh_token issued))
     in seq (revoke_refresh_jti env now (jc_sub old_payload) (jc_jti old_payload) (jp_exp old_payload) new_jti) (\<lambda>_.
        ret issued))"

definition purge_expired_refresh_tokens :: "'r token_env \<Rightarrow> int \<Rightarrow> ('r, 'z, nat) session_prog" where
  "purge_expired_refresh_tokens env now =
     on_tokens (tb_delete_many (te_table env) (\<lambda>r. rt_expires_at r < now))"

text \<open>\<open>AuthCleanupService\<close>: the scheduled job swallows a failed purge.\<close>

definition cleanup_job :: "'r token_env \<Rightarrow> int \<Rightarrow> ('r, 'z, unit) session_prog" where
  "cleanup_job env now =
     catch (seq (purge_expired_refresh_tokens env now) (\<lambda>_. ret ())) (\<lambda>_. ret ())"

section \<open>What the session world shows\<close>

definition port_of :: "'r token_env \<Rightarrow> 'r redis_view \<Rightarrow> (session_mark, 'r) cache_port" where
  "port_of env v = (te_codec env, te_redis env, v)"

definition same_jti :: "refresh_row \<Rightarrow> refresh_row \<Rightarrow> bool" where
  "same_jti a b \<longleftrightarrow> rt_jti a = rt_jti b"

text \<open>Every service answers as documented.\<close>

definition env_ok :: "'r token_env \<Rightarrow> 'r redis_view \<Rightarrow> bool" where
  "env_ok env v \<longleftrightarrow> port_ok (port_of env v) \<and> table_ok same_jti (te_table env) \<and> jwt_ok (te_jwt env)"

definition marked :: "'r redis_view \<Rightarrow> 'r \<Rightarrow> int \<Rightarrow> string \<Rightarrow> bool" where
  "marked v r t k \<longleftrightarrow> rv_live v r t k \<noteq> None"

definition known :: "refresh_row list \<Rightarrow> int \<Rightarrow> string \<Rightarrow> string \<Rightarrow> bool" where
  "known rows now user_id jti =
     (case List.find (\<lambda>r. rt_jti r = jti) rows of
        None \<Rightarrow> False
      | Some r \<Rightarrow> rt_user_id r = user_id \<and> rt_revoked_at r = None \<and> now < rt_expires_at r)"

definition plain :: "string \<Rightarrow> bool" where
  "plain s \<longleftrightarrow> (\<forall>c\<in>set s. \<not> glob_special c)"

lemma port_marked_of [simp]: "port_marked (port_of env v) r t k = marked v r t k"
  by (simp add: port_marked_def port_of_def marked_def)

lemma port_of_simps [simp]:
  "port_mark (port_of env v) t k x ttl = cache_set (te_codec env) (te_redis env) t k x ttl"
  "port_unmark (port_of env v) t ks = cache_del (te_redis env) t ks"
  "port_unmark_prefix (port_of env v) t q = cache_del_by_pattern (te_redis env) t (q @ ''*'') 250"
  "port_is_marked (port_of env v) t k = cache_exists (te_redis env) t k"
  by (simp_all add: port_mark_def port_unmark_def port_unmark_prefix_def port_is_marked_def port_of_def)

lemma plain_refresh_prefix: "plain u \<Longrightarrow> \<forall>c\<in>set (refresh_prefix u). \<not> glob_special c"
  by (auto simp: plain_def refresh_prefix_def glob_special_def)

lemma on_cache_eq: "on_cache m w = (fst (m (sw_cache w)), w\<lparr>sw_cache := snd (m (sw_cache w))\<rparr>)"
  by (simp add: on_cache_def part_def split: prod.split)

lemma on_tokens_eq: "on_tokens m w = (fst (m (sw_tokens w)), w\<lparr>sw_tokens := snd (m (sw_tokens w))\<rparr>)"
  by (simp add: on_tokens_def part_def split: prod.split)

lemma on_cache_ret: "on_cache (ret a) = ret a" "on_cache (Pair (Return a)) = Pair (Return a)"
  by (rule ext, simp add: on_cache_eq)+

lemma on_cache_seq: "on_cache (seq m f) = seq (on_cache m) (\<lambda>a. on_cache (f a))"
  by (simp add: on_cache_eq fun_eq_iff seq_def split: prod.split outcome.split)

lemma seq_all_on_cache: "seq_all (\<lambda>x. on_cache (f x)) xs = on_cache (seq_all f xs)"
  by (induction xs) (simp_all add: on_cache_seq on_cache_ret)

lemma set_mark_effect:
  assumes "env_ok env v" and "1 \<le> ttl"
  obtains r where "set_mark env t k x ttl w = (Return (), w\<lparr>sw_cache := r\<rparr>)"
    "\<forall>u\<ge>t. \<forall>k'. marked v r u k' = (if k' = k then u < t + 1000 * ttl else marked v (sw_cache w) u k')"
proof -
  have "\<exists>r. port_mark (port_of env v) t k x (of_int ttl) (sw_cache w) = (Return (), r) \<and>
    (\<forall>u\<ge>t. \<forall>k'. port_marked (port_of env v) r u k' =
      (if k' = k then u < t + 1000 * \<lfloor>of_int ttl :: rat\<rfloor> else port_marked (port_of env v) (sw_cache w) u k'))"
    by (rule sessions_cache.mark_law) (use assms in \<open>simp_all add: env_ok_def\<close>)
  then show thesis
    unfolding port_marked_of floor_of_int
    by (elim exE conjE, intro that) (simp_all add: set_mark_def on_cache_eq)
qed

lemma set_marks_effect:
  assumes "env_ok env v" and "\<forall>x\<in>set xs. 1 \<le> ttl x"
  obtains r where "seq_all (\<lambda>x. set_mark env t (key x) (val x) (ttl x)) xs w = (Return (), w\<lparr>sw_cache := r\<rparr>)"
    "\<forall>u\<ge>t. \<forall>k. marked v r u k \<longrightarrow> k \<in> key ` set xs \<or> marked v (sw_cache w) u k"
    "\<forall>k. k \<notin> key ` set xs \<longrightarrow> (\<forall>u\<ge>t. marked v r u k = marked v (sw_cache w) u k)"
    "\<forall>k\<in>key ` set xs. marked v r t k"
proof -
  from assms(2) have "\<forall>x\<in>set xs. 1 \<le> (of_int (ttl x) :: rat)" by simp
  from sessions_cache.mark_all [OF _ this, of "port_of env v" t key val "sw_cache w"] assms(1)
  obtain r where r: "seq_all (\<lambda>x. port_mark (port_of env v) t (key x) (val x) (of_int (ttl x))) xs (sw_cache w) =
      (Return (), r)"
    "\<forall>u\<ge>t. \<forall>k. marked v r u k \<longrightarrow> k \<in> key ` set xs \<or> marked v (sw_cache w) u k"
    "\<forall>k. k \<notin> key ` set xs \<longrightarrow> (\<forall>u\<ge>t. marked v r u k = marked v (sw_cache w) u k)"
    "\<forall>k\<in>key ` set xs. marked v r t k"
    unfolding port_marked_of env_ok_def by blast
  show thesis
    using r(1) by (intro that [OF _ r(2-4)])
      (simp add: set_mark_def seq_all_on_cache on_cache_eq)
qed

lemma is_marked_effect:
  assumes "env_ok env v"
  obtains r where "on_cache (cache_exists (te_redis env) t k) w = (Return (marked v (sw_cache w) t k), w\<lparr>sw_cache := r\<rparr>)"
    "\<forall>u\<ge>t. \<forall>k'. marked v r u k' = marked v (sw_cache w) u k'"
proof -
  have "\<exists>r. port_is_marked (port_of env v) t k (sw_cache w) =
      (Return (port_marked (port_of env v) (sw_cache w) t k), r) \<and>
    (\<forall>u\<ge>t. \<forall>k'. port_marked (port_of env v) r u k' = port_marked (port_of env v) (sw_cache w) u k')"
    by (rule sessions_cache.is_marked_law) (use assms in \<open>simp add: env_ok_def\<close>)
  then show thesis
    by (elim exE conjE, intro that) (simp_all add: on_cache_eq)
qed

lemma unmark_effect:
  assumes "env_ok env v"
  obtains r n where "on_cache (cache_del (te_redis env) t ks) w = (Return n, w\<lparr>sw_cache := r\<rparr>)"
    "\<forall>u\<ge>t. \<forall>k. marked v r u k = (k \<notin> set ks \<and> marked v (sw_cache w) u k)"
proof -
  have "\<exists>r n. port_unmark (port_of env v) t ks (sw_cache w) = (Return n, r) \<and>
    (\<forall>u\<ge>t. \<forall>k. port_marked (port_of env v) r u k = (k \<notin> set ks \<and> port_marked (port_of env v) (sw_cache w) u k))"
    by (rule sessions_cache.unmark_law) (use assms in \<open>simp add: env_ok_def\<close>)
  then show thesis
    by (elim exE conjE, intro that) (simp_all add: on_cache_eq)
qed

lemma unmark_prefix_effect:
  assumes "env_ok env v" and "plain user_id"
  obtains r n where
    "on_cache (cache_del_by_pattern (te_redis env) t (refresh_pattern user_id) 250) w = (Return n, w\<lparr>sw_cache := r\<rparr>)"
    "\<forall>u\<ge>t. \<forall>k. marked v r u k = (\<not> starts_with k (refresh_prefix user_id) \<and> marked v (sw_cache w) u k)"
proof -
  have "\<exists>r n. port_unmark_prefix (port_of env v) t (refresh_prefix user_id) (sw_cache w) = (Return n, r) \<and>
    (\<forall>u\<ge>t. \<forall>k. port_marked (port_of env v) r u k =
      (\<not> starts_with k (refresh_prefix user_id) \<and> port_marked (port_of env v) (sw_cache w) u k))"
    by (rule sessions_cache.unmark_prefix_law)
      (use assms plain_refresh_prefix in \<open>simp_all add: env_ok_def\<close>)
  then show thesis
    by (elim exE conjE, intro that) (simp_all add: on_cache_eq refresh_pattern_def)
qed

lemma env_table: "env_ok env v \<Longrightarrow> table_ok same_jti (te_table env)"
  by (simp add: env_ok_def)

lemma env_jwt: "env_ok env v \<Longrightarrow> jwt_ok (te_jwt env)"
  by (simp add: env_ok_def)

section \<open>The effect of the operations\<close>

lemma find_update_where:
  "(\<And>r. Q (f r) = Q r) \<Longrightarrow>
     List.find Q (update_where P f rows) = map_option (\<lambda>r. if P r then f r else r) (List.find Q rows)"
  by (induction rows) (auto simp: update_where_def)

lemma known_effect:
  assumes "table_ok same_jti (te_table env)"
  shows "is_known_in_database env t user_id jti w = (Return (known (sw_tokens w) t user_id jti), w)"
  by (simp add: is_known_in_database_def on_tokens_eq table_okD [OF assms] known_def catch_def seq_def)

lemma known_revoked:
  "\<not> known (update_where (\<lambda>r. same_uuid (rt_user_id r) user_id \<and> rt_revoked_at r = None)
      (\<lambda>r. r\<lparr>rt_revoked_at := Some t\<rparr>) rows) u user_id jti"
  unfolding known_def by (subst find_update_where) (auto simp: same_uuid_def split: option.split)

text \<open>The rows \<open>revokeAllSessions\<close> closes.\<close>

definition open_row :: "string \<Rightarrow> int \<Rightarrow> refresh_row \<Rightarrow> bool" where
  "open_row user_id t r \<longleftrightarrow> same_uuid (rt_user_id r) user_id \<and> rt_revoked_at r = None \<and> t < rt_expires_at r"

lemma revoke_all_effect:
  assumes ok: "env_ok env v" and uid: "plain user_id"
  obtains r where
    "revoke_all_sessions env t user_id w = (Return (), w\<lparr>sw_cache := r,
       sw_tokens := update_where (\<lambda>r. same_uuid (rt_user_id r) user_id \<and> rt_revoked_at r = None)
         (\<lambda>r. r\<lparr>rt_revoked_at := Some t\<rparr>) (sw_tokens w)\<rparr>)"
    "\<forall>u\<ge>t. \<forall>jti. \<not> marked v r u (refresh_key user_id jti)"
    "\<forall>u\<ge>t. \<forall>k. marked v r u k \<longrightarrow> marked v (sw_cache w) u k \<or> (\<exists>jti. k = deny_key jti)"
    "\<forall>row\<in>set (sw_tokens w). open_row user_id t row \<longrightarrow> marked v r t (deny_key (rt_jti row))"
proof -
  define live where "live = filter (\<lambda>r. same_uuid (rt_user_id r) user_id \<and> rt_revoked_at r = None \<and> t < rt_expires_at r) (sw_tokens w)"
  let ?key = "\<lambda>r. deny_key (rt_jti r)" and ?ttl = "\<lambda>r. max 1 ((rt_expires_at r - t) div 1000)"
  obtain r1 n where del: "on_cache (cache_del_by_pattern (te_redis env) t (refresh_pattern user_id) 250) w =
      (Return n, w\<lparr>sw_cache := r1\<rparr>)"
    and gone: "\<forall>u\<ge>t. \<forall>k. marked v r1 u k = (\<not> starts_with k (refresh_prefix user_id) \<and> marked v (sw_cache w) u k)"
    by (rule unmark_prefix_effect [OF ok uid])
  have "\<forall>x\<in>set live. 1 \<le> ?ttl x" by simp
  then obtain r2 where
      set: "seq_all (\<lambda>r. set_mark env t (?key r) (RevokedAt (Some user_id) t) (?ttl r)) live (w\<lparr>sw_cache := r1\<rparr>) =
        (Return (), w\<lparr>sw_cache := r1\<rparr>\<lparr>sw_cache := r2\<rparr>)"
    and new: "\<forall>u\<ge>t. \<forall>k. marked v r2 u k \<longrightarrow> k \<in> ?key ` set live \<or> marked v (sw_cache (w\<lparr>sw_cache := r1\<rparr>)) u k"
    and old: "\<forall>k. k \<notin> ?key ` set live \<longrightarrow> (\<forall>u\<ge>t. marked v r2 u k = marked v (sw_cache (w\<lparr>sw_cache := r1\<rparr>)) u k)"
    and at: "\<forall>k\<in>?key ` set live. marked v r2 t k"
    by (rule set_marks_effect [OF ok])
  show thesis
  proof (rule that [of r2])
    show "revoke_all_sessions env t user_id w = (Return (), w\<lparr>sw_cache := r2,
       sw_tokens := update_where (\<lambda>r. same_uuid (rt_user_id r) user_id \<and> rt_revoked_at r = None)
         (\<lambda>r. r\<lparr>rt_revoked_at := Some t\<rparr>) (sw_tokens w)\<rparr>)"
      using set del by (simp add: revoke_all_sessions_def seq_def catch_def on_tokens_eq
          table_okD [OF env_table [OF ok]] live_def)
    show "\<forall>u\<ge>t. \<forall>jti. \<not> marked v r2 u (refresh_key user_id jti)"
      using old gone by (auto simp: image_iff)
    show "\<forall>u\<ge>t. \<forall>k. marked v r2 u k \<longrightarrow> marked v (sw_cache w) u k \<or> (\<exists>jti. k = deny_key jti)"
      using new gone by auto
    show "\<forall>row\<in>set (sw_tokens w). open_row user_id t row \<longrightarrow> marked v r2 t (deny_key (rt_jti row))"
      using at by (auto simp: open_row_def live_def)
  qed
qed

lemma decode_Inr:
  "jw_verify (te_jwt env) t (cf_refresh_secret (te_config env)) (cf_issuer (te_config env))
     (cf_audience (te_config env)) tok = Inr p \<Longrightarrow>
   decode_token env t tok (cf_refresh_secret (te_config env)) w = (Return p, w)"
  by (simp add: decode_token_def)

lemma decode_Inl:
  "jw_verify (te_jwt env) t (cf_refresh_secret (te_config env)) (cf_issuer (te_config env))
     (cf_audience (te_config env)) tok = Inl m \<Longrightarrow>
   \<exists>e. decode_token env t tok (cf_refresh_secret (te_config env)) w = (Throw (AppExc e), w)"
  by (simp add: decode_token_def Let_def)

text \<open>The verdict on a refresh token: denied, known to Redis or to the database, or unknown.\<close>

lemma verify_refresh_verdict:
  assumes ok: "env_ok env v" and uid: "plain (jc_sub p)"
    and dec: "jw_verify (te_jwt env) t (cf_refresh_secret (te_config env)) (cf_issuer (te_config env))
      (cf_audience (te_config env)) tok = Inr p"
  shows "fst (verify_refresh_token env t tok w) =
    (if marked v (sw_cache w) t (deny_key (jc_jti p))
     then Throw (AppExc (unauthorized ''Refresh token has already been used'' RefreshTokenReusedCode))
     else if marked v (sw_cache w) t (refresh_key (jc_sub p) (jc_jti p)) \<or>
             known (sw_tokens w) t (jc_sub p) (jc_jti p)
     then Return p
     else Throw (AppExc (unauthorized ''Refresh token is no longer valid'' InvalidTokenCode)))"
proof -
  obtain r1 where den: "on_cache (cache_exists (te_redis env) t (deny_key (jc_jti p))) w =
      (Return (marked v (sw_cache w) t (deny_key (jc_jti p))), w\<lparr>sw_cache := r1\<rparr>)"
    and s1: "\<forall>u\<ge>t. \<forall>k. marked v r1 u k = marked v (sw_cache w) u k"
    by (rule is_marked_effect [OF ok])
  show ?thesis
  proof (cases "marked v (sw_cache w) t (deny_key (jc_jti p))")
    case True
    obtain r2 where "revoke_all_sessions env t (jc_sub p) (w\<lparr>sw_cache := r1\<rparr>) = (Return (), r2)"
      by (rule revoke_all_effect [OF ok uid]) (erule that)
    with den True show ?thesis
      by (simp add: verify_refresh_token_def is_denied_def decode_Inr [OF dec] seq_def)
  next
    case False
    obtain r2 where act: "on_cache (cache_exists (te_redis env) t (refresh_key (jc_sub p) (jc_jti p))) (w\<lparr>sw_cache := r1\<rparr>) =
        (Return (marked v (sw_cache (w\<lparr>sw_cache := r1\<rparr>)) t (refresh_key (jc_sub p) (jc_jti p))),
         w\<lparr>sw_cache := r1\<rparr>\<lparr>sw_cache := r2\<rparr>)"
      by (rule is_marked_effect [OF ok])
    from den act False s1 show ?thesis
      by (simp add: verify_refresh_token_def is_denied_def decode_Inr [OF dec] seq_def
          known_effect [OF env_table [OF ok]])
  qed
qed

lemma revoke_refresh_effect:
  assumes ok: "env_ok env v"
  obtains r where
    "revoke_refresh_jti env t user_id jti ex rep w = (Return (), w\<lparr>sw_cache := r,
       sw_tokens := update_where (\<lambda>r. rt_jti r = jti \<and> rt_revoked_at r = None)
         (\<lambda>r. r\<lparr>rt_revoked_at := Some t, rt_replaced_by := rep\<rparr>) (sw_tokens w)\<rparr>)"
    "\<forall>u\<ge>t. \<forall>k. marked v r u k =
       (k \<noteq> refresh_key user_id jti \<and>
        (if k = deny_key jti \<and> 0 < seconds_until_expiry ex t
         then u < t + 1000 * seconds_until_expiry ex t else marked v (sw_cache w) u k))"
proof -
  let ?rem = "seconds_until_expiry ex t"
  have "\<exists>r. do_if (0 < ?rem) (set_mark env t (deny_key jti) (RevokedAt (Some user_id) t) ?rem) w =
      (Return (), w\<lparr>sw_cache := r\<rparr>) \<and>
      (\<forall>u\<ge>t. \<forall>k. marked v r u k =
        (if k = deny_key jti \<and> 0 < ?rem then u < t + 1000 * ?rem else marked v (sw_cache w) u k))"
  proof (cases "0 < ?rem")
    case True
    then have "1 \<le> ?rem" by simp
    then obtain r where "set_mark env t (deny_key jti) (RevokedAt (Some user_id) t) ?rem w =
        (Return (), w\<lparr>sw_cache := r\<rparr>)"
      "\<forall>u\<ge>t. \<forall>k'. marked v r u k' = (if k' = deny_key jti then u < t + 1000 * ?rem else marked v (sw_cache w) u k')"
      by (rule set_mark_effect [OF ok])
    with True show ?thesis by auto
  qed (auto intro: exI [of _ "sw_cache w"])
  then obtain r1 where mark: "do_if (0 < ?rem) (set_mark env t (deny_key jti) (RevokedAt (Some user_id) t) ?rem) w =
      (Return (), w\<lparr>sw_cache := r1\<rparr>)"
    and m1: "\<forall>u\<ge>t. \<forall>k. marked v r1 u k =
        (if k = deny_key jti \<and> 0 < ?rem then u < t + 1000 * ?rem else marked v (sw_cache w) u k)" by blast
  obtain r2 n where del: "on_cache (cache_del (te_redis env) t [refresh_key user_id jti]) (w\<lparr>sw_cache := r1\<rparr>) =
      (Return n, w\<lparr>sw_cache := r1\<rparr>\<lparr>sw_cache := r2\<rparr>)"
    and m2: "\<forall>u\<ge>t. \<forall>k. marked v r2 u k =
      (k \<notin> set [refresh_key user_id jti] \<and> marked v (sw_cache (w\<lparr>sw_cache := r1\<rparr>)) u k)"
    by (rule unmark_effect [OF ok])
  show thesis
  proof (rule that [of r2])
    show "revoke_refresh_jti env t user_id jti ex rep w = (Return (), w\<lparr>sw_cache := r2,
       sw_tokens := update_where (\<lambda>r. rt_jti r = jti \<and> rt_revoked_at r = None)
         (\<lambda>r. r\<lparr>rt_revoked_at := Some t, rt_replaced_by := rep\<rparr>) (sw_tokens w)\<rparr>)"
      using mark del by (simp add: revoke_refresh_jti_def Let_def seq_def catch_def on_tokens_eq
          table_okD [OF env_table [OF ok]])
    show "\<forall>u\<ge>t. \<forall>k. marked v r2 u k =
       (k \<noteq> refresh_key user_id jti \<and>
        (if k = deny_key jti \<and> 0 < ?rem then u < t + 1000 * ?rem else marked v (sw_cache w) u k))"
      using m1 m2 by simp
  qed
qed

definition refresh_claims :: "'r token_env \<Rightarrow> ('r, 'z) session_world_scheme \<Rightarrow> token_subject \<Rightarrow> jwt_claims" where
  "refresh_claims env w user =
     \<lparr>jc_sub = ts_id user, jc_email = None, jc_role = None, jc_name = None,
      jc_jti = te_uuid env (Suc (sw_uuids w))\<rparr>"

lemma remember_effect:
  assumes ok: "env_ok env v" and ttl: "1 \<le> cf_refresh_ttl (te_config env)"
  obtains r rows where
    "remember_refresh_token env t user_id jti tok ctx w = (Return (), w\<lparr>sw_cache := r, sw_tokens := rows\<rparr>)"
    "\<forall>u\<ge>t. \<forall>k. marked v r u k =
       (if k = refresh_key user_id jti then u < t + 1000 * cf_refresh_ttl (te_config env)
        else marked v (sw_cache w) u k)"
proof -
  obtain r where m: "set_mark env t (refresh_key user_id jti) (IssuedAt t) (cf_refresh_ttl (te_config env)) w =
      (Return (), w\<lparr>sw_cache := r\<rparr>)"
    and e: "\<forall>u\<ge>t. \<forall>k. marked v r u k =
       (if k = refresh_key user_id jti then u < t + 1000 * cf_refresh_ttl (te_config env)
        else marked v (sw_cache w) u k)"
    by (rule set_mark_effect [OF ok ttl])
  define row where "row = \<lparr>rt_user_id = user_id, rt_jti = jti, rt_token_hash = te_sha256 env tok,
     rt_user_agent = sc_user_agent ctx, rt_ip_address = sc_ip_address ctx,
     rt_expires_at = seconds_from_now (cf_refresh_ttl (te_config env)) t, rt_revoked_at = None,
     rt_replaced_by = None\<rparr>"
  have "remember_refresh_token env t user_id jti tok ctx w =
      (Return (), w\<lparr>sw_cache := r, sw_tokens := snd (tb_create (te_table env) row (sw_tokens w))\<rparr>)"
    using m unfolding remember_refresh_token_def Let_def row_def [symmetric]
    by (simp add: seq_def catch_def on_tokens_eq table_okD [OF env_table [OF ok]])
  with e that show thesis by blast
qed

lemma issue_effect:
  assumes ok: "env_ok env v" and ttl: "1 \<le> cf_refresh_ttl (te_config env)"
  obtains it r rows where
    "issue_tokens env t user ctx w = (Return it, w\<lparr>sw_cache := r, sw_tokens := rows, sw_uuids := Suc (Suc (sw_uuids w))\<rparr>)"
    "it_refresh_token it = jw_sign (te_jwt env) t (cf_refresh_secret (te_config env))
       (cf_refresh_ttl (te_config env)) (cf_issuer (te_config env)) (cf_audience (te_config env))
       (refresh_claims env w user)"
    "\<forall>u\<ge>t. \<forall>k. marked v r u k =
       (if k = refresh_key (ts_id user) (te_uuid env (Suc (sw_uuids w)))
        then u < t + 1000 * cf_refresh_ttl (te_config env) else marked v (sw_cache w) u k)"
proof -
  let ?tok = "jw_sign (te_jwt env) t (cf_refresh_secret (te_config env))
       (cf_refresh_ttl (te_config env)) (cf_issuer (te_config env)) (cf_audience (te_config env))
       (refresh_claims env w user)"
  let ?w = "w\<lparr>sw_uuids := Suc (Suc (sw_uuids w))\<rparr>"
  obtain r rows where m: "remember_refresh_token env t (ts_id user) (te_uuid env (Suc (sw_uuids w))) ?tok ctx ?w =
      (Return (), ?w\<lparr>sw_cache := r, sw_tokens := rows\<rparr>)"
    and e: "\<forall>u\<ge>t. \<forall>k. marked v r u k =
       (if k = refresh_key (ts_id user) (te_uuid env (Suc (sw_uuids w)))
        then u < t + 1000 * cf_refresh_ttl (te_config env) else marked v (sw_cache ?w) u k)"
    by (rule remember_effect [OF ok ttl])
  from m have "\<exists>it. issue_tokens env t user ctx w =
      (Return it, w\<lparr>sw_cache := r, sw_tokens := rows, sw_uuids := Suc (Suc (sw_uuids w))\<rparr>) \<and>
      it_refresh_token it = ?tok"
    by (simp add: issue_tokens_def Let_def seq_def fresh_uuid_def refresh_claims_def)
  with e that show thesis by auto
qed

text \<open>A denial that starts at \<open>t\<close> lasts for as long as the token is accepted.\<close>

lemma expiry_covered:
  assumes "t \<le> u" and "u div 1000 < e"
  shows "0 < seconds_until_expiry e t \<and> u < t + 1000 * seconds_until_expiry e t"
proof -
  have arith: "1000 * uq + um < 1000 * tq + tm + 1000 * (e - tq)"
    if "uq < e" "0 \<le> tm" "um < 1000" for tq tm uq um :: int
    using that by (simp add: algebra_simps)
  have "t div 1000 \<le> u div 1000" using assms(1) by (rule zdiv_mono1) simp
  with assms(2) have "0 < e - t div 1000" by simp
  moreover have "u < t + 1000 * (e - t div 1000)"
    using arith [OF assms(2), of "t mod 1000" "u mod 1000" "t div 1000"] by simp
  ultimately have "0 < e - t div 1000" "u < t + 1000 * (e - t div 1000)" .
  then show ?thesis by (simp add: seconds_until_expiry_def max_def)
qed

lemma rotate_marks:
  assumes ok: "env_ok env v" and ttl: "1 \<le> cf_refresh_ttl (te_config env)"
  obtains it w' where "rotate_tokens env t user p ctx w = (Return it, w')"
    "it_refresh_token it = jw_sign (te_jwt env) t (cf_refresh_secret (te_config env))
       (cf_refresh_ttl (te_config env)) (cf_issuer (te_config env)) (cf_audience (te_config env))
       (refresh_claims env w user)"
    "sw_uuids w' = Suc (Suc (sw_uuids w))"
    "\<forall>u\<ge>t. \<forall>k. marked v (sw_cache w') u k =
       (k \<noteq> refresh_key (jc_sub p) (jc_jti p) \<and>
        (if k = deny_key (jc_jti p) \<and> 0 < seconds_until_expiry (jp_exp p) t
         then u < t + 1000 * seconds_until_expiry (jp_exp p) t
         else if k = refresh_key (ts_id user) (te_uuid env (Suc (sw_uuids w)))
         then u < t + 1000 * cf_refresh_ttl (te_config env) else marked v (sw_cache w) u k))"
proof -
  obtain it r rows where iss: "issue_tokens env t user ctx w =
      (Return it, w\<lparr>sw_cache := r, sw_tokens := rows, sw_uuids := Suc (Suc (sw_uuids w))\<rparr>)"
    and tok: "it_refresh_token it = jw_sign (te_jwt env) t (cf_refresh_secret (te_config env))
       (cf_refresh_ttl (te_config env)) (cf_issuer (te_config env)) (cf_audience (te_config env))
       (refresh_claims env w user)"
    and m1: "\<forall>u\<ge>t. \<forall>k. marked v r u k =
       (if k = refresh_key (ts_id user) (te_uuid env (Suc (sw_uuids w)))
        then u < t + 1000 * cf_refresh_ttl (te_config env) else marked v (sw_cache w) u k)"
    by (rule issue_effect [OF ok ttl])
  let ?w = "w\<lparr>sw_cache := r, sw_tokens := rows, sw_uuids := Suc (Suc (sw_uuids w))\<rparr>"
  let ?rem = "seconds_until_expiry (jp_exp p) t"
  let ?next = "map_option jc_jti (jw_decode (te_jwt env) (it_refresh_token it))"
  obtain r2 where rev: "revoke_refresh_jti env t (jc_sub p) (jc_jti p) (jp_exp p) ?next ?w =
      (Return (), ?w\<lparr>sw_cache := r2,
         sw_tokens := update_where (\<lambda>r. rt_jti r = jc_jti p \<and> rt_revoked_at r = None)
           (\<lambda>r. r\<lparr>rt_revoked_at := Some t, rt_replaced_by := ?next\<rparr>) (sw_tokens ?w)\<rparr>)"
    and m2: "\<forall>u\<ge>t. \<forall>k. marked v r2 u k =
       (k \<noteq> refresh_key (jc_sub p) (jc_jti p) \<and>
        (if k = deny_key (jc_jti p) \<and> 0 < ?rem then u < t + 1000 * ?rem else marked v (sw_cache ?w) u k))"
    by (rule revoke_refresh_effect [OF ok])
  have "rotate_tokens env t user p ctx w = (Return it, ?w\<lparr>sw_cache := r2,
         sw_tokens := update_where (\<lambda>r. rt_jti r = jc_jti p \<and> rt_revoked_at r = None)
           (\<lambda>r. r\<lparr>rt_revoked_at := Some t, rt_replaced_by := ?next\<rparr>) (sw_tokens ?w)\<rparr>)"
    using iss rev by (simp add: rotate_tokens_def seq_def Let_def)
  then show thesis
    by (rule that [OF _ tok]) (use m1 m2 in simp_all)
qed

lemma rotate_effect:
  assumes ok: "env_ok env v" and ttl: "1 \<le> cf_refresh_ttl (te_config env)"
  obtains it w' where "rotate_tokens env t user p ctx w = (Return it, w')"
    "\<forall>u\<ge>t. u div 1000 < jp_exp p \<longrightarrow> marked v (sw_cache w') u (deny_key (jc_jti p))"
proof -
  obtain it w' where rot: "rotate_tokens env t user p ctx w = (Return it, w')"
    and m: "\<forall>u\<ge>t. \<forall>k. marked v (sw_cache w') u k =
       (k \<noteq> refresh_key (jc_sub p) (jc_jti p) \<and>
        (if k = deny_key (jc_jti p) \<and> 0 < seconds_until_expiry (jp_exp p) t
         then u < t + 1000 * seconds_until_expiry (jp_exp p) t
         else if k = refresh_key (ts_id user) (te_uuid env (Suc (sw_uuids w)))
         then u < t + 1000 * cf_refresh_ttl (te_config env) else marked v (sw_cache w) u k))"
    by (rule rotate_marks [OF ok ttl])
  have "marked v (sw_cache w') u (deny_key (jc_jti p))" if "t \<le> u" "u div 1000 < jp_exp p" for u
    using m that expiry_covered [OF that] by simp
  with rot show thesis by (intro that) auto
qed

section \<open>An instance in memory\<close>

text \<open>
  Tokens as length-prefixed lists of fields, an instance of the laws of the JWT library on which the
  witnesses run.
\<close>

definition enc_field :: "string \<Rightarrow> string" where
  "enc_field s = show_nat (length s) @ CHR '':'' # s"

definition dec_field :: "string \<Rightarrow> string \<times> string" where
  "dec_field s =
     (let n = read_nat (takeWhile is_digit s); rest = drop 1 (dropWhile is_digit s)
      in (take n rest, drop n rest))"

primrec dec_fields :: "nat \<Rightarrow> string \<Rightarrow> string list" where
  "dec_fields 0 s = []"
| "dec_fields (Suc n) s = (let (x, rest) = dec_field s in x # dec_fields n rest)"

lemma dec_enc_field: "dec_field (enc_field s @ t) = (s, t)"
proof -
  have d: "\<forall>c\<in>set (show_nat (length s)). is_digit c" by (rule show_nat_digits)
  have n: "\<not> is_digit CHR '':''" by code_simp
  have "takeWhile is_digit (show_nat (length s) @ CHR '':'' # s @ t) = show_nat (length s)"
    using d n by (subst takeWhile_append2) auto
  moreover have "dropWhile is_digit (show_nat (length s) @ CHR '':'' # s @ t) = CHR '':'' # s @ t"
    using d n by (subst dropWhile_append2) auto
  ultimately show ?thesis by (simp add: dec_field_def enc_field_def Let_def)
qed

lemma dec_enc_fields: "dec_fields (length xs) (concat (map enc_field xs)) = xs"
  by (induction xs) (simp_all add: dec_enc_field)

definition enc_option :: "string option \<Rightarrow> string" where
  "enc_option x = (case x of None \<Rightarrow> [] | Some s \<Rightarrow> CHR ''+'' # s)"

definition dec_option :: "string \<Rightarrow> string option" where
  "dec_option s = (case s of [] \<Rightarrow> None | c # r \<Rightarrow> Some r)"

definition enc_int :: "int \<Rightarrow> string" where
  "enc_int i = (if i < 0 then CHR ''-'' # show_nat (nat (- i)) else CHR ''+'' # show_nat (nat i))"

definition dec_int :: "string \<Rightarrow> int" where
  "dec_int s = (case s of [] \<Rightarrow> 0 | c # r \<Rightarrow> if c = CHR ''-'' then - int (read_nat r) else int (read_nat r))"

definition dec_role :: "string \<Rightarrow> user_role option" where
  "dec_role s = List.find (\<lambda>r. role_string r = s) USER_ROLES"

lemma dec_enc_option [simp]: "dec_option (enc_option x) = x"
  by (simp add: dec_option_def enc_option_def split: option.split)

lemma dec_enc_int [simp]: "dec_int (enc_int i) = i"
  by (simp add: dec_int_def enc_int_def)

lemma dec_role_string [simp]: "dec_role (role_string r) = Some r"
  by (cases r) (simp_all add: dec_role_def USER_ROLES_def)

definition mem_sign :: "int \<Rightarrow> string \<Rightarrow> int \<Rightarrow> string \<Rightarrow> string \<Rightarrow> jwt_claims \<Rightarrow> string" where
  "mem_sign now sec ttl iss aud c = concat (map enc_field
     [sec, jc_sub c, enc_option (jc_email c), enc_option (map_option role_string (jc_role c)),
      enc_option (jc_name c), jc_jti c, iss, aud, enc_int (now div 1000), enc_int (now div 1000 + ttl)])"

definition mem_decode :: "string \<Rightarrow> jwt_payload option" where
  "mem_decode tok =
     (let f = (\<lambda>i. dec_fields 10 tok ! i)
      in Some \<lparr>jc_sub = f 1, jc_email = dec_option (f 2), jc_role = Option.bind (dec_option (f 3)) dec_role,
               jc_name = dec_option (f 4), jc_jti = f 5, jp_iss = f 6, jp_aud = f 7,
               jp_iat = dec_int (f 8), jp_exp = dec_int (f 9)\<rparr>)"

definition mem_verify :: "int \<Rightarrow> string \<Rightarrow> string \<Rightarrow> string \<Rightarrow> string \<Rightarrow> string + jwt_payload" where
  "mem_verify now sec iss aud tok =
     (case mem_decode tok of
        None \<Rightarrow> Inl ''jwt malformed''
      | Some p \<Rightarrow>
          if dec_fields 10 tok ! 0 \<noteq> sec then Inl ''invalid signature''
          else if jp_iss p \<noteq> iss \<or> jp_aud p \<noteq> aud then Inl ''jwt audience invalid''
          else if jp_exp p \<le> now div 1000 then Inl ''jwt expired'' else Inr p)"

definition mem_jwt :: jwt_service where
  "mem_jwt = \<lparr>jw_sign = mem_sign, jw_verify = mem_verify, jw_decode = mem_decode\<rparr>"

lemma dec_mem_sign:
  "dec_fields 10 (mem_sign now sec ttl iss aud c) =
     [sec, jc_sub c, enc_option (jc_email c), enc_option (map_option role_string (jc_role c)),
      enc_option (jc_name c), jc_jti c, iss, aud, enc_int (now div 1000), enc_int (now div 1000 + ttl)]"
proof -
  have "dec_fields (length xs) (concat (map enc_field xs)) = xs" for xs by (rule dec_enc_fields)
  from this [of "[sec, jc_sub c, enc_option (jc_email c), enc_option (map_option role_string (jc_role c)),
      enc_option (jc_name c), jc_jti c, iss, aud, enc_int (now div 1000), enc_int (now div 1000 + ttl)]"]
  show ?thesis by (simp add: mem_sign_def eval_nat_numeral)
qed

lemma mem_decode_sign: "mem_decode (mem_sign now sec ttl iss aud c) = Some (stamped now ttl iss aud c)"
  by (cases "jc_role c")
    (simp_all add: mem_decode_def dec_mem_sign stamped_def jwt_claims.defs jwt_payload.defs)

lemma mem_jwt_ok: "jwt_ok mem_jwt"
  unfolding jwt_ok_def
proof (intro conjI)
  show "jwt_law_decode mem_jwt" by (simp add: jwt_law_decode_def mem_jwt_def mem_decode_sign)
  show "jwt_law_verify mem_jwt"
    by (simp add: jwt_law_verify_def mem_jwt_def mem_verify_def mem_decode_sign dec_mem_sign stamped_def
        jwt_claims.defs jwt_payload.defs)
  show "jwt_law_accept mem_jwt"
    by (auto simp: jwt_law_accept_def mem_jwt_def mem_verify_def split: option.splits if_splits)
  show "jwt_law_stays mem_jwt"
    by (auto simp: jwt_law_stays_def mem_jwt_def mem_verify_def split: option.splits if_splits)
qed

definition mark_codec :: "session_mark codec" where
  "mark_codec = \<lparr>cd_stringify = (\<lambda>_. Some ''{}''), cd_parse = (\<lambda>_. None)\<rparr>"

definition mem_env :: "mem token_env" where
  "mem_env =
     \<lparr>te_redis = mem_redis, te_codec = mark_codec, te_table = mem_table same_jti, te_jwt = mem_jwt,
      te_uuid = (\<lambda>n. replicate n CHR ''j''), te_sha256 = (\<lambda>s. s),
      te_config = \<lparr>cf_issuer = ''topchoice-api'', cf_audience = ''topchoice-clients'',
        cf_access_secret = ''a'', cf_refresh_secret = ''r'', cf_access_ttl = 900, cf_refresh_ttl = 2592000\<rparr>\<rparr>"

lemma mem_env_ok: "env_ok mem_env mem_view"
  by (simp add: env_ok_def port_of_def port_ok_def mem_env_def mem_redis_ok mem_jwt_ok mark_codec_def)

section \<open>Properties\<close>

abbreviation refresh_verified :: "'r token_env \<Rightarrow> int \<Rightarrow> string \<Rightarrow> jwt_payload \<Rightarrow> bool" where
  "refresh_verified env t tok p \<equiv>
     jw_verify (te_jwt env) t (cf_refresh_secret (te_config env)) (cf_issuer (te_config env))
       (cf_audience (te_config env)) tok = Inr p"

lemma verify_Return_decoded:
  "verify_refresh_token env t tok w = (Return p, w') \<Longrightarrow> refresh_verified env t tok p"
  by (auto simp: verify_refresh_token_def decode_token_def Let_def seq_eq_Return split: sum.splits if_splits)

lemma verify_undecoded:
  "jw_verify (te_jwt env) t (cf_refresh_secret (te_config env)) (cf_issuer (te_config env))
     (cf_audience (te_config env)) tok = Inl m \<Longrightarrow>
   \<exists>e. fst (verify_refresh_token env t tok w) = Throw (AppExc e)"
  using decode_Inl [of env t tok m w] by (auto simp: verify_refresh_token_def seq_def)

text \<open>
  C1: refresh tokens are single use. Once a verified token has been rotated, presenting it again is
  answered with REFRESH_TOKEN_REUSED for as long as its signature is accepted, and rejected after.
\<close>

theorem rotation_single_use:
  assumes ok: "env_ok env v" and ttl: "1 \<le> cf_refresh_ttl (te_config env)" and uid: "plain (jc_sub p)"
    and ver: "verify_refresh_token env s tok w = (Return p, w1)"
    and rot: "rotate_tokens env t user p ctx w1 = (Return it, w2)"
    and "s \<le> t" and "t \<le> u"
  shows "fst (verify_refresh_token env u tok w2) =
      Throw (AppExc (unauthorized ''Refresh token has already been used'' RefreshTokenReusedCode)) \<or>
    jp_exp p \<le> u div 1000 \<and> (\<exists>e. fst (verify_refresh_token env u tok w2) = Throw (AppExc e))"
proof -
  have dec: "refresh_verified env s tok p" by (rule verify_Return_decoded [OF ver])
  obtain it' w' where rot': "rotate_tokens env t user p ctx w1 = (Return it', w')"
    and den: "\<forall>u\<ge>t. u div 1000 < jp_exp p \<longrightarrow> marked v (sw_cache w') u (deny_key (jc_jti p))"
    by (rule rotate_effect [OF ok ttl])
  from rot rot' have w': "w' = w2" by simp
  show ?thesis
  proof (cases "u div 1000 < jp_exp p")
    case True
    have "refresh_verified env u tok p"
      by (rule jwt_stays [OF env_jwt [OF ok] dec _ True]) (use assms(6,7) in simp)
    from verify_refresh_verdict [OF ok uid this, of w2] True den assms(7) w' show ?thesis by simp
  next
    case False
    then have "\<not> refresh_verified env u tok q" for q
      using jwt_accepted [OF env_jwt [OF ok] dec] jwt_accepted [OF env_jwt [OF ok], of u _ _ _ tok q] by auto
    then obtain m where "jw_verify (te_jwt env) u (cf_refresh_secret (te_config env))
        (cf_issuer (te_config env)) (cf_audience (te_config env)) tok = Inl m"
      by (metis obj_sumE)
    with False show ?thesis using verify_undecoded by (metis linorder_not_less)
  qed
qed

lemma revoked_rejected:
  assumes ok: "env_ok env v" and uid: "plain (jc_sub p)" and dec: "jw_decode (te_jwt env) tok = Some p"
    and "t \<le> u" and "snd (revoke_all_sessions env t (jc_sub p) w) = w'"
  shows "\<exists>e. fst (verify_refresh_token env u tok w') = Throw (AppExc e)"
proof -
  obtain r where "revoke_all_sessions env t (jc_sub p) w = (Return (), w\<lparr>sw_cache := r,
       sw_tokens := update_where (\<lambda>r. same_uuid (rt_user_id r) (jc_sub p) \<and> rt_revoked_at r = None)
         (\<lambda>r. r\<lparr>rt_revoked_at := Some t\<rparr>) (sw_tokens w)\<rparr>)"
    and gone: "\<forall>u\<ge>t. \<forall>jti. \<not> marked v r u (refresh_key (jc_sub p) jti)"
    by (rule revoke_all_effect [OF ok uid])
  with assms(5) have c: "sw_cache w' = r" and k: "\<not> known (sw_tokens w') u (jc_sub p) (jc_jti p)"
    by (auto simp: known_revoked)
  show ?thesis
  proof (cases "jw_verify (te_jwt env) u (cf_refresh_secret (te_config env)) (cf_issuer (te_config env))
      (cf_audience (te_config env)) tok")
    case (Inl m)
    then show ?thesis by (rule verify_undecoded)
  next
    case (Inr q)
    with jwt_accepted [OF env_jwt [OF ok] Inr] dec have "q = p" by simp
    with Inr verify_refresh_verdict [OF ok uid, of u tok w'] c k gone \<open>t \<le> u\<close> show ?thesis by simp
  qed
qed

text \<open>
  \<open>revokeAllSessions\<close> ends every session: it returns, and from then on no refresh token of the user
  is accepted, whichever of Redis and the database knew it.
\<close>

theorem revoke_all_sessions_complete:
  assumes "env_ok env v" and "plain user_id" and "t \<le> u"
    and "jw_decode (te_jwt env) tok = Some p" and "jc_sub p = user_id"
  shows "let (out, w') = revoke_all_sessions env t user_id w in
    out = Return () \<and> (\<exists>e. fst (verify_refresh_token env u tok w') = Throw (AppExc e))"
proof -
  obtain w' where "revoke_all_sessions env t user_id w = (Return (), w')"
    by (rule revoke_all_effect [OF assms(1,2)]) (erule that)
  with revoked_rejected [of env v p tok t u w w'] assms show ?thesis by simp
qed

text \<open>
  C32: a replay ends the family: after a refresh token was answered with REFRESH_TOKEN_REUSED, no
  refresh token of that user is accepted any more.
\<close>

theorem replay_ends_every_session:
  assumes ok: "env_ok env v" and uid: "plain (jc_sub p)" and dec: "refresh_verified env t tok p"
    and reuse: "verify_refresh_token env t tok w =
      (Throw (AppExc (unauthorized ''Refresh token has already been used'' RefreshTokenReusedCode)), w')"
    and other: "jw_decode (te_jwt env) tok' = Some q" "jc_sub q = jc_sub p" and "t \<le> u"
  shows "\<exists>e. fst (verify_refresh_token env u tok' w') = Throw (AppExc e)"
proof -
  obtain r1 where den: "on_cache (cache_exists (te_redis env) t (deny_key (jc_jti p))) w =
      (Return (marked v (sw_cache w) t (deny_key (jc_jti p))), w\<lparr>sw_cache := r1\<rparr>)"
    by (rule is_marked_effect [OF ok])
  have "unauthorized ''Refresh token has already been used'' RefreshTokenReusedCode \<noteq>
      unauthorized ''Refresh token is no longer valid'' InvalidTokenCode"
    by (simp add: unauthorized_def app_exc_def)
  then have hit: "marked v (sw_cache w) t (deny_key (jc_jti p))"
    using verify_refresh_verdict [OF ok uid dec, of w] reuse by (simp split: if_splits)
  obtain w2 where rev: "revoke_all_sessions env t (jc_sub p) (w\<lparr>sw_cache := r1\<rparr>) = (Return (), w2)"
    by (rule revoke_all_effect [OF ok uid]) (erule that)
  from reuse den hit rev have "w' = w2"
    by (simp add: verify_refresh_token_def is_denied_def decode_Inr [OF dec] seq_def)
  with rev other uid show ?thesis
    by (intro revoked_rejected [OF ok _ other(1) \<open>t \<le> u\<close>, of "w\<lparr>sw_cache := r1\<rparr>"]) simp_all
qed

text \<open>
  A freshly issued refresh token is accepted, with the user it was issued to, until its lifetime
  has passed (unless its \<open>jti\<close> is denied).
\<close>

theorem issued_token_accepted:
  assumes ok: "env_ok env v" and ttl: "1 \<le> cf_refresh_ttl (te_config env)" and uid: "plain (ts_id user)"
    and iss: "issue_tokens env t user ctx w = (Return it, w')"
    and fresh: "\<not> marked v (sw_cache w) u (deny_key (te_uuid env (Suc (sw_uuids w))))"
    and "t \<le> u" and "u div 1000 < t div 1000 + cf_refresh_ttl (te_config env)"
  shows "\<exists>p. fst (verify_refresh_token env u (it_refresh_token it) w') = Return p \<and>
    jc_sub p = ts_id user \<and> jp_exp p = t div 1000 + cf_refresh_ttl (te_config env)"
proof -
  let ?p = "stamped t (cf_refresh_ttl (te_config env)) (cf_issuer (te_config env))
     (cf_audience (te_config env)) (refresh_claims env w user)"
  have p: "jc_sub ?p = ts_id user" "jc_jti ?p = te_uuid env (Suc (sw_uuids w))"
    "jp_exp ?p = t div 1000 + cf_refresh_ttl (te_config env)"
    by (simp_all add: stamped_def refresh_claims_def jwt_claims.defs jwt_payload.defs)
  obtain it' r rows where "issue_tokens env t user ctx w =
      (Return it', w\<lparr>sw_cache := r, sw_tokens := rows, sw_uuids := Suc (Suc (sw_uuids w))\<rparr>)"
    and tok: "it_refresh_token it' = jw_sign (te_jwt env) t (cf_refresh_secret (te_config env))
       (cf_refresh_ttl (te_config env)) (cf_issuer (te_config env)) (cf_audience (te_config env))
       (refresh_claims env w user)"
    and m: "\<forall>u\<ge>t. \<forall>k. marked v r u k =
       (if k = refresh_key (ts_id user) (te_uuid env (Suc (sw_uuids w)))
        then u < t + 1000 * cf_refresh_ttl (te_config env) else marked v (sw_cache w) u k)"
    by (rule issue_effect [OF ok ttl])
  with iss have it: "it' = it" and c: "sw_cache w' = r" by auto
  have "refresh_verified env u (it_refresh_token it) ?p"
    using jwt_signed [OF env_jwt [OF ok] assms(7)] tok it by simp
  note verdict = verify_refresh_verdict [OF ok _ this, of w', unfolded p, OF uid]
  have "u < t + 1000 * cf_refresh_ttl (te_config env)"
    using expiry_covered [OF assms(6,7)] by (simp add: seconds_until_expiry_def max_def split: if_splits)
  with m c assms(6) fresh have "marked v (sw_cache w') u (refresh_key (ts_id user) (te_uuid env (Suc (sw_uuids w))))"
    "\<not> marked v (sw_cache w') u (deny_key (te_uuid env (Suc (sw_uuids w))))" by simp_all
  with verdict p show ?thesis by auto
qed

lemma mem_env_sel [simp]:
  "te_redis mem_env = mem_redis" "te_codec mem_env = mark_codec" "te_table mem_env = mem_table same_jti"
  "te_jwt mem_env = mem_jwt" "te_uuid mem_env = (\<lambda>n. replicate n CHR ''j'')" "te_sha256 mem_env = (\<lambda>s. s)"
  "cf_issuer (te_config mem_env) = ''topchoice-api''" "cf_audience (te_config mem_env) = ''topchoice-clients''"
  "cf_access_secret (te_config mem_env) = ''a''" "cf_refresh_secret (te_config mem_env) = ''r''"
  "cf_access_ttl (te_config mem_env) = 900" "cf_refresh_ttl (te_config mem_env) = 2592000"
  by (simp_all add: mem_env_def)

section \<open>A session, step by step\<close>

text \<open>A user logs in at 0 and uses the refresh token later.\<close>

definition demo_user :: token_subject where
  "demo_user = \<lparr>ts_id = ''u1'', ts_email = ''a@b.co'', ts_name = ''Ann'', ts_role = RoleUser\<rparr>"

definition demo_ctx :: session_context where
  "demo_ctx = \<lparr>sc_user_agent = None, sc_ip_address = None\<rparr>"

definition demo_world :: "mem session_world" where
  "demo_world = \<lparr>sw_cache = [], sw_tokens = [], sw_uuids = 0\<rparr>"

definition demo_claims :: jwt_claims where
  "demo_claims = \<lparr>jc_sub = ''u1'', jc_email = None, jc_role = None, jc_name = None, jc_jti = ''j''\<rparr>"

definition demo_token :: string where
  "demo_token = mem_sign 0 ''r'' 2592000 ''topchoice-api'' ''topchoice-clients'' demo_claims"

definition demo_payload :: jwt_payload where
  "demo_payload = stamped 0 2592000 ''topchoice-api'' ''topchoice-clients'' demo_claims"

definition demo_login :: "mem session_world" where
  "demo_login = \<lparr>sw_cache = [(refresh_key ''u1'' ''j'', ''{}'', Some 2592000000)],
     sw_tokens = [\<lparr>rt_user_id = ''u1'', rt_jti = ''j'', rt_token_hash = demo_token, rt_user_agent = None,
       rt_ip_address = None, rt_expires_at = 2592000000, rt_revoked_at = None, rt_replaced_by = None\<rparr>],
     sw_uuids = 2\<rparr>"

lemma demo_payload_sel [simp]: "jc_sub demo_payload = ''u1''" "jc_jti demo_payload = ''j''" "jp_exp demo_payload = 2592000"
  by (simp_all add: demo_payload_def demo_claims_def stamped_def jwt_claims.defs jwt_payload.defs)

lemma demo_jwt:
  "u div 1000 < 2592000 \<Longrightarrow> jw_verify mem_jwt u ''r'' ''topchoice-api'' ''topchoice-clients'' demo_token = Inr demo_payload"
  "jw_decode mem_jwt demo_token = Some demo_payload"
  using jwt_signed [OF mem_jwt_ok, of u 0 2592000 "''r''" "''topchoice-api''" "''topchoice-clients''" demo_claims]
  by (simp_all add: demo_token_def demo_payload_def mem_jwt_def mem_decode_sign)

lemma mem_redis_sel [simp]:
  "rd_exists mem_redis t k r = (Return (if mem_live r t k = None then 0 else 1), r)"
  "rd_set_ex mem_redis t k x n r = (Return (), (k, x, Some (t + 1000 * n)) # r)"
  "rd_unlink mem_redis t ks r =
     (Return (int (length (filter (\<lambda>k. mem_live r t k \<noteq> None) (remdups ks)))), filter (\<lambda>e. fst e \<notin> set ks) r)"
  by (simp_all add: mem_redis_def)

lemma refresh_key_same_user [simp]: "refresh_key u i = refresh_key u j \<longleftrightarrow> i = j"
  by (simp add: refresh_key_def)

lemma mem_live_Nil [simp]: "mem_live [] t k = None"
  by (simp add: mem_live_def)

lemmas demo_steps = issue_tokens_def rotate_tokens_def verify_refresh_token_def revoke_refresh_jti_def decode_token_def
  remember_refresh_token_def is_denied_def is_known_in_database_def set_mark_def fresh_uuid_def
  on_cache_eq on_tokens_eq cache_set_def cache_exists_def cache_del_def seq_def catch_def Let_def
  seconds_until_expiry_def seconds_from_now_def mark_codec_def demo_jwt

lemma demo_issue:
  "\<exists>it. issue_tokens mem_env 0 demo_user demo_ctx demo_world = (Return it, demo_login) \<and> it_refresh_token it = demo_token"
  by (simp add: demo_steps demo_login_def demo_world_def demo_user_def demo_ctx_def demo_token_def
      demo_claims_def mem_jwt_def mem_table_def numeral_2_eq_2)

lemma demo_verify: "verify_refresh_token mem_env 1000 demo_token demo_login = (Return demo_payload, demo_login)"
  by (simp add: demo_steps demo_login_def mem_live_Cons)

lemma demo_plain: "plain ''u1''"
  by (simp add: plain_def glob_special_def)

definition demo_rotate :: "(exn, issued_tokens) outcome \<times> mem session_world" where
  "demo_rotate = rotate_tokens mem_env 2000 demo_user demo_payload demo_ctx demo_login"

lemma demo_rotate_returns: "\<exists>it. rotate_tokens mem_env 2000 demo_user demo_payload demo_ctx demo_login = (Return it, snd demo_rotate)"
proof -
  obtain it w where "rotate_tokens mem_env 2000 demo_user demo_payload demo_ctx demo_login = (Return it, w)"
    by (rule rotate_effect [OF mem_env_ok]) (simp, erule that)
  then show ?thesis by (simp add: demo_rotate_def)
qed

lemma demo_replay:
  "fst (verify_refresh_token mem_env 3000 demo_token (snd demo_rotate)) =
     Throw (AppExc (unauthorized ''Refresh token has already been used'' RefreshTokenReusedCode))"
proof -
  have ttl: "1 \<le> cf_refresh_ttl (te_config mem_env)" by simp
  obtain it w where rot: "rotate_tokens mem_env 2000 demo_user demo_payload demo_ctx demo_login = (Return it, w)"
    and den: "\<forall>u\<ge>2000. u div 1000 < jp_exp demo_payload \<longrightarrow>
      marked mem_view (sw_cache w) u (deny_key (jc_jti demo_payload))"
    by (rule rotate_effect [OF mem_env_ok ttl])
  have "refresh_verified mem_env 3000 demo_token demo_payload" by (simp add: demo_jwt)
  moreover have "plain (jc_sub demo_payload)" by (simp add: demo_plain)
  moreover have "marked mem_view (sw_cache w) 3000 (deny_key (jc_jti demo_payload))" using den by simp
  ultimately have "fst (verify_refresh_token mem_env 3000 demo_token w) =
     Throw (AppExc (unauthorized ''Refresh token has already been used'' RefreshTokenReusedCode))"
    by (simp only: verify_refresh_verdict [OF mem_env_ok] if_True)
  with rot show ?thesis by (simp add: demo_rotate_def)
qed

theorem rotation_single_use_witness:
  "fst (verify_refresh_token mem_env 3000 demo_token (snd demo_rotate)) =
      Throw (AppExc (unauthorized ''Refresh token has already been used'' RefreshTokenReusedCode)) \<or>
    jp_exp demo_payload \<le> 3000 div 1000 \<and>
    (\<exists>e. fst (verify_refresh_token mem_env 3000 demo_token (snd demo_rotate)) = Throw (AppExc e))"
proof -
  obtain it where "rotate_tokens mem_env 2000 demo_user demo_payload demo_ctx demo_login = (Return it, snd demo_rotate)"
    using demo_rotate_returns by blast
  note rot = this
  show ?thesis
    by (rule rotation_single_use [OF mem_env_ok _ _ demo_verify rot]) (simp_all add: demo_plain)
qed

theorem revoke_all_sessions_complete_witness:
  "let (out, w') = revoke_all_sessions mem_env 1000 ''u1'' demo_login in
    out = Return () \<and> (\<exists>e. fst (verify_refresh_token mem_env 1500 demo_token w') = Throw (AppExc e))"
  by (rule revoke_all_sessions_complete [OF mem_env_ok demo_plain, of _ _ _ demo_payload])
    (simp_all add: demo_jwt)

theorem replay_ends_every_session_witness:
  "\<exists>e. fst (verify_refresh_token mem_env 4000 demo_token
      (snd (verify_refresh_token mem_env 3000 demo_token (snd demo_rotate)))) = Throw (AppExc e)"
proof (rule replay_ends_every_session [OF mem_env_ok, of demo_payload 3000 demo_token "snd demo_rotate" _ _ demo_payload])
  show "refresh_verified mem_env 3000 demo_token demo_payload" by (simp add: demo_jwt)
  show "verify_refresh_token mem_env 3000 demo_token (snd demo_rotate) =
      (Throw (AppExc (unauthorized ''Refresh token has already been used'' RefreshTokenReusedCode)),
       snd (verify_refresh_token mem_env 3000 demo_token (snd demo_rotate)))"
    using demo_replay by (metis prod.collapse)
qed (simp_all add: demo_jwt demo_plain)

theorem issued_token_accepted_witness:
  "\<exists>p. fst (verify_refresh_token mem_env 2591999999 demo_token demo_login) = Return p \<and>
    jc_sub p = ts_id demo_user \<and> jp_exp p = 0 div 1000 + cf_refresh_ttl (te_config mem_env)"
proof -
  obtain it where it: "issue_tokens mem_env 0 demo_user demo_ctx demo_world = (Return it, demo_login)"
    "it_refresh_token it = demo_token" using demo_issue by blast
  show ?thesis unfolding it(2) [symmetric]
    by (rule issued_token_accepted [OF mem_env_ok _ _ it(1)])
      (simp_all add: marked_def demo_world_def demo_user_def demo_plain)
qed

section \<open>What an outage and an interleaving do\<close>

definition rejects :: "('s, exn, 'a) prog \<Rightarrow> bool" where
  "rejects m \<longleftrightarrow> (\<forall>s. \<exists>e. m s = (Throw e, s))"

definition redis_down :: "'r redis \<Rightarrow> bool" where
  "redis_down rc \<longleftrightarrow>
     (\<forall>t k x n. rejects (rd_set_ex rc t k x n)) \<and> (\<forall>t k x. rejects (rd_set rc t k x)) \<and>
     (\<forall>t k. rejects (rd_exists rc t k)) \<and> (\<forall>t ks. rejects (rd_unlink rc t ks)) \<and>
     (\<forall>t c p n. rejects (rd_scan rc t c p n))"

definition down_redis :: "'r redis" where
  "down_redis =
     \<lparr>rd_get = (\<lambda>t k. throw down_error), rd_set = (\<lambda>t k x. throw down_error),
      rd_set_ex = (\<lambda>t k x n. throw down_error), rd_set_ex_nx = (\<lambda>t k x n. throw down_error),
      rd_unlink = (\<lambda>t ks. throw down_error), rd_exists = (\<lambda>t k. throw down_error),
      rd_ttl = (\<lambda>t k. throw down_error), rd_scan = (\<lambda>t c p n. throw down_error),
      rd_incr = (\<lambda>t k. throw down_error), rd_expire = (\<lambda>t k n. throw down_error),
      rd_ping = (\<lambda>t. throw down_error)\<rparr>"

lemma down_redis_down [simp]: "redis_down down_redis"
  by (simp add: redis_down_def rejects_def down_redis_def)

lemma down_set_mark:
  assumes "redis_down (te_redis env)"
  shows "set_mark env t k x n w = (Return (), w)"
proof -
  have "catch m (\<lambda>_. ret ()) r = (Return (), r)" if "rejects m" for m :: "('a, exn, unit) prog" and r
    using that [unfolded rejects_def, rule_format, of r] by (auto simp: catch_def)
  moreover have "rejects (throw e)" for e by (simp add: rejects_def)
  ultimately show ?thesis
    using assms by (simp add: set_mark_def on_cache_eq cache_set_def redis_down_def split: option.split)
qed

lemma down_exists:
  assumes "redis_down (te_redis env)"
  shows "on_cache (cache_exists (te_redis env) t k) w = (Return False, w)"
proof -
  have "rejects (rd_exists (te_redis env) t k)" using assms by (simp add: redis_down_def)
  then obtain e where "rd_exists (te_redis env) t k (sw_cache w) = (Throw e, sw_cache w)"
    unfolding rejects_def by blast
  then show ?thesis by (simp add: on_cache_eq cache_exists_def catch_def seq_def)
qed

lemma down_del:
  assumes "redis_down (te_redis env)"
  shows "\<exists>n. on_cache (cache_del (te_redis env) t ks) w = (Return n, w)"
proof -
  have "rejects (rd_unlink (te_redis env) t ks)" using assms by (simp add: redis_down_def)
  then obtain e where "rd_unlink (te_redis env) t ks (sw_cache w) = (Throw e, sw_cache w)"
    unfolding rejects_def by blast
  then show ?thesis by (simp add: on_cache_eq cache_del_def catch_def)
qed

lemma revoked_where:
  "\<forall>r\<in>set (update_where (\<lambda>r. rt_jti r = jti \<and> rt_revoked_at r = None)
      (\<lambda>r. r\<lparr>rt_revoked_at := Some t, rt_replaced_by := rp\<rparr>) rows). rt_jti r = jti \<longrightarrow> rt_revoked_at r \<noteq> None"
  unfolding update_where_def set_map ball_simps by (intro ballI) (simp split: if_split)

lemma rotate_down:
  assumes down: "redis_down (te_redis env)" and db: "table_ok same_jti (te_table env)"
  obtains it w' where "rotate_tokens env t user p ctx w = (Return it, w')" "sw_cache w' = sw_cache w"
    "\<forall>r\<in>set (sw_tokens w'). rt_jti r = jc_jti p \<longrightarrow> rt_revoked_at r \<noteq> None"
proof -
  have iss: "\<exists>it w'. issue_tokens env t user ctx w = (Return it, w') \<and> sw_cache w' = sw_cache w"
    by (simp add: issue_tokens_def Let_def seq_def fresh_uuid_def remember_refresh_token_def
        down_set_mark [OF down] catch_def on_tokens_eq table_okD [OF db])
  have rev: "\<exists>w'. revoke_refresh_jti env t uid jti ex rp w0 = (Return (), w') \<and> sw_cache w' = sw_cache w0 \<and>
      sw_tokens w' = update_where (\<lambda>r. rt_jti r = jti \<and> rt_revoked_at r = None)
        (\<lambda>r. r\<lparr>rt_revoked_at := Some t, rt_replaced_by := rp\<rparr>) (sw_tokens w0)" for uid jti ex rp w0
  proof -
    obtain n where "on_cache (cache_del (te_redis env) t [refresh_key uid jti]) w0 = (Return n, w0)"
      using down_del [OF down] by blast
    then show ?thesis
      by (simp add: revoke_refresh_jti_def Let_def do_if_def seq_def catch_def on_tokens_eq
          down_set_mark [OF down] table_okD [OF db])
  qed
  from iss obtain it w1 where i: "issue_tokens env t user ctx w = (Return it, w1)" "sw_cache w1 = sw_cache w" by blast
  obtain w2 where r: "revoke_refresh_jti env t (jc_sub p) (jc_jti p) (jp_exp p)
      (map_option jc_jti (jw_decode (te_jwt env) (it_refresh_token it))) w1 = (Return (), w2)" "sw_cache w2 = sw_cache w1"
    and rows: "sw_tokens w2 = update_where (\<lambda>r. rt_jti r = jc_jti p \<and> rt_revoked_at r = None) (\<lambda>r. r\<lparr>rt_revoked_at := Some t,
         rt_replaced_by := map_option jc_jti (jw_decode (te_jwt env) (it_refresh_token it))\<rparr>) (sw_tokens w1)"
    using rev by blast
  have "rotate_tokens env t user p ctx w = (Return it, w2)"
    using i r by (simp add: rotate_tokens_def seq_def Let_def)
  moreover have "sw_cache w2 = sw_cache w" using i r by simp
  moreover have "\<forall>r\<in>set (sw_tokens w2). rt_jti r = jc_jti p \<longrightarrow> rt_revoked_at r \<noteq> None"
    unfolding rows by (rule revoked_where)
  ultimately show thesis by (rule that)
qed

text \<open>
  C33: sessions survive a Redis outage: while every Redis command is rejected, a token issued meanwhile
  (its \<open>jti\<close> new to the table) is still accepted, from its row, until it expires.
\<close>

theorem session_survives_redis_outage:
  assumes down: "redis_down (te_redis env)" and db: "table_ok same_jti (te_table env)" and jwt: "jwt_ok (te_jwt env)"
    and iss: "issue_tokens env t user ctx w = (Return it, w')"
    and fresh: "\<forall>r\<in>set (sw_tokens w). rt_jti r \<noteq> te_uuid env (Suc (sw_uuids w))"
    and "t \<le> u" and "u div 1000 < t div 1000 + cf_refresh_ttl (te_config env)"
  shows "\<exists>p. fst (verify_refresh_token env u (it_refresh_token it) w') = Return p \<and> jc_sub p = ts_id user"
proof -
  let ?ttl = "cf_refresh_ttl (te_config env)"
  let ?tok = "jw_sign (te_jwt env) t (cf_refresh_secret (te_config env)) ?ttl (cf_issuer (te_config env))
     (cf_audience (te_config env)) (refresh_claims env w user)"
  let ?p = "stamped t ?ttl (cf_issuer (te_config env)) (cf_audience (te_config env)) (refresh_claims env w user)"
  let ?row = "\<lparr>rt_user_id = ts_id user, rt_jti = te_uuid env (Suc (sw_uuids w)),
     rt_token_hash = te_sha256 env ?tok, rt_user_agent = sc_user_agent ctx,
     rt_ip_address = sc_ip_address ctx, rt_expires_at = seconds_from_now ?ttl t, rt_revoked_at = None,
     rt_replaced_by = None\<rparr>"
  have p: "jc_sub ?p = ts_id user" "jc_jti ?p = te_uuid env (Suc (sw_uuids w))"
    by (simp_all add: stamped_def refresh_claims_def jwt_claims.defs jwt_payload.defs)
  have new: "\<not> list_ex (same_jti ?row) (sw_tokens w)"
    using fresh by (auto simp: list_ex_iff same_jti_def)
  have world: "it_refresh_token it = ?tok \<and> sw_tokens w' = sw_tokens w @ [?row]"
    using iss new by (auto simp: issue_tokens_def Let_def seq_def fresh_uuid_def refresh_claims_def
        remember_refresh_token_def down_set_mark [OF down] catch_def on_tokens_eq table_okD [OF db])
  have dec: "refresh_verified env u (it_refresh_token it) ?p"
    using world jwt_signed [OF jwt assms(7)] by simp
  have "List.find (\<lambda>r. rt_jti r = te_uuid env (Suc (sw_uuids w))) (sw_tokens w) = None"
    using fresh by (auto simp: find_None_iff)
  moreover have "u < seconds_from_now ?ttl t"
    using expiry_covered [OF assms(6,7)] by (simp add: seconds_until_expiry_def seconds_from_now_def max_def split: if_splits)
  ultimately have "known (sw_tokens w') u (ts_id user) (te_uuid env (Suc (sw_uuids w)))"
    using world by (simp add: known_def find_append)
  then have "fst (verify_refresh_token env u (it_refresh_token it) w') = Return ?p"
    by (simp add: verify_refresh_token_def is_denied_def decode_Inr [OF dec] seq_def down_exists [OF down]
        known_effect [OF db] p)
  with p show ?thesis by blast
qed

text \<open>
  C34: an outage during a rotation costs the single use. Every rotation that runs while Redis rejects its commands
  hands out the new pair and revokes the old row, but its denial and the removal of the old marker are lost: at any
  later instant at which that marker is still live, with Redis back, the rotated token is accepted again, although no row
  of the table vouches for it.
\<close>

theorem rotation_during_outage_leaves_token_usable:
  assumes ok: "env_ok env v" and down: "redis_down rc" and uid: "plain (jc_sub p)"
    and dec: "refresh_verified env u tok p"
    and live: "marked v (sw_cache w) u (refresh_key (jc_sub p) (jc_jti p))"
    and free: "\<not> marked v (sw_cache w) u (deny_key (jc_jti p))"
  shows "\<exists>it w'. rotate_tokens (env\<lparr>te_redis := rc\<rparr>) t user p ctx w = (Return it, w') \<and>
    (\<forall>r\<in>set (sw_tokens w'). rt_jti r = jc_jti p \<longrightarrow> rt_revoked_at r \<noteq> None) \<and>
    fst (verify_refresh_token env u tok w') = Return p"
proof -
  obtain it w' where rot: "rotate_tokens (env\<lparr>te_redis := rc\<rparr>) t user p ctx w = (Return it, w')"
    and c: "sw_cache w' = sw_cache w"
    and r: "\<forall>r\<in>set (sw_tokens w'). rt_jti r = jc_jti p \<longrightarrow> rt_revoked_at r \<noteq> None"
    by (rule rotate_down [of "env\<lparr>te_redis := rc\<rparr>" t user p ctx w]) (use down env_table [OF ok] in simp_all)
  from verify_refresh_verdict [OF ok uid dec, of w'] live free c
  have "fst (verify_refresh_token env u tok w') = Return p" by simp
  with rot r show ?thesis by blast
qed

theorem rotation_during_outage_leaves_token_usable_witness:
  "fst (verify_refresh_token mem_env 3000 demo_token
     (snd (rotate_tokens (mem_env\<lparr>te_redis := down_redis\<rparr>) 2000 demo_user demo_payload demo_ctx demo_login))) =
   Return demo_payload"
proof -
  have "\<exists>it w'. rotate_tokens (mem_env\<lparr>te_redis := down_redis\<rparr>) 2000 demo_user demo_payload demo_ctx demo_login = (Return it, w') \<and>
    (\<forall>r\<in>set (sw_tokens w'). rt_jti r = jc_jti demo_payload \<longrightarrow> rt_revoked_at r \<noteq> None) \<and>
    fst (verify_refresh_token mem_env 3000 demo_token w') = Return demo_payload"
    by (rule rotation_during_outage_leaves_token_usable [OF mem_env_ok])
      (simp_all add: demo_plain demo_jwt marked_def demo_login_def mem_live_Cons)
  then show ?thesis by auto
qed

definition refresh_of :: "(exn, issued_tokens) outcome \<Rightarrow> string" where
  "refresh_of out = (case out of Return it \<Rightarrow> it_refresh_token it | _ \<Rightarrow> [])"

lemma rotated_accepted:
  assumes ok: "env_ok env v" and uid: "plain (ts_id user)"
    and tok: "tok = jw_sign (te_jwt env) t (cf_refresh_secret (te_config env)) (cf_refresh_ttl (te_config env))
       (cf_issuer (te_config env)) (cf_audience (te_config env)) (refresh_claims env w user)"
    and "u div 1000 < t div 1000 + cf_refresh_ttl (te_config env)"
    and "marked v (sw_cache w') u (refresh_key (ts_id user) (te_uuid env (Suc (sw_uuids w))))"
    and "\<not> marked v (sw_cache w') u (deny_key (te_uuid env (Suc (sw_uuids w))))"
  shows "\<exists>q. fst (verify_refresh_token env u tok w') = Return q \<and> jc_sub q = ts_id user \<and>
    jc_jti q = te_uuid env (Suc (sw_uuids w)) \<and> jw_decode (te_jwt env) tok = Some q"
proof -
  let ?q = "stamped t (cf_refresh_ttl (te_config env)) (cf_issuer (te_config env))
     (cf_audience (te_config env)) (refresh_claims env w user)"
  have q: "jc_sub ?q = ts_id user" "jc_jti ?q = te_uuid env (Suc (sw_uuids w))"
    by (simp_all add: stamped_def refresh_claims_def jwt_claims.defs jwt_payload.defs)
  have dec: "refresh_verified env u tok ?q"
    using jwt_signed [OF env_jwt [OF ok] assms(4)] tok by simp
  from verify_refresh_verdict [OF ok _ dec, of w', unfolded q, OF uid] assms(5,6)
  have "fst (verify_refresh_token env u tok w') = Return ?q" by simp
  with q jwt_accepted [OF env_jwt [OF ok] dec] show ?thesis by blast
qed

lemma lifetime_covered:
  "t \<le> u \<Longrightarrow> u div 1000 < t div 1000 + n \<Longrightarrow> u < t + 1000 * n" for t u n :: int
  using expiry_covered [of t u "t div 1000 + n"] by (simp add: seconds_until_expiry_def max_def split: if_splits)

text \<open>
  C35: two refreshes that interleave both succeed. When both have verified the same token before either rotates it,
  both rotations return, and the single-use token has bought two different refresh tokens for its user, both accepted
  until they expire. (The UUIDs drawn are new: different from each other and the old \<open>jti\<close>, and not denied.)
\<close>

theorem concurrent_refresh_doubles_session:
  assumes ok: "env_ok env v" and ttl: "1 \<le> cf_refresh_ttl (te_config env)" and uid: "plain (jc_sub p)"
    and user: "ts_id user = jc_sub p"
    and "verify_refresh_token env s1 tok w = (Return p, w1)"
    and "verify_refresh_token env s2 tok w1 = (Return p, w2)"
    and "s1 \<le> s2" and "s2 \<le> t1" and t: "t1 \<le> t2" "t2 \<le> u"
    and life: "u div 1000 < t1 div 1000 + cf_refresh_ttl (te_config env)"
    and new: "inj (te_uuid env)"
      "\<forall>i\<ge>sw_uuids w2. te_uuid env i \<noteq> jc_jti p \<and> \<not> marked v (sw_cache w2) u (deny_key (te_uuid env i))"
  shows "\<exists>it1 w3 it2 w4. rotate_tokens env t1 user p ctx1 w2 = (Return it1, w3) \<and>
    rotate_tokens env t2 user p ctx2 w3 = (Return it2, w4) \<and> it_refresh_token it1 \<noteq> it_refresh_token it2 \<and>
    (\<exists>q. fst (verify_refresh_token env u (it_refresh_token it1) w4) = Return q \<and> jc_sub q = jc_sub p) \<and>
    (\<exists>q. fst (verify_refresh_token env u (it_refresh_token it2) w4) = Return q \<and> jc_sub q = jc_sub p)"
proof -
  let ?ttl = "cf_refresh_ttl (te_config env)"
  obtain it1 w3 where r1: "rotate_tokens env t1 user p ctx1 w2 = (Return it1, w3)"
    and k1: "it_refresh_token it1 = jw_sign (te_jwt env) t1 (cf_refresh_secret (te_config env)) ?ttl
       (cf_issuer (te_config env)) (cf_audience (te_config env)) (refresh_claims env w2 user)"
    and u1: "sw_uuids w3 = Suc (Suc (sw_uuids w2))"
    and m1: "\<forall>u\<ge>t1. \<forall>k. marked v (sw_cache w3) u k =
       (k \<noteq> refresh_key (jc_sub p) (jc_jti p) \<and>
        (if k = deny_key (jc_jti p) \<and> 0 < seconds_until_expiry (jp_exp p) t1
         then u < t1 + 1000 * seconds_until_expiry (jp_exp p) t1
         else if k = refresh_key (ts_id user) (te_uuid env (Suc (sw_uuids w2)))
         then u < t1 + 1000 * ?ttl else marked v (sw_cache w2) u k))"
    by (rule rotate_marks [OF ok ttl])
  obtain it2 w4 where r2: "rotate_tokens env t2 user p ctx2 w3 = (Return it2, w4)"
    and k2: "it_refresh_token it2 = jw_sign (te_jwt env) t2 (cf_refresh_secret (te_config env)) ?ttl
       (cf_issuer (te_config env)) (cf_audience (te_config env)) (refresh_claims env w3 user)"
    and m2: "\<forall>u\<ge>t2. \<forall>k. marked v (sw_cache w4) u k =
       (k \<noteq> refresh_key (jc_sub p) (jc_jti p) \<and>
        (if k = deny_key (jc_jti p) \<and> 0 < seconds_until_expiry (jp_exp p) t2
         then u < t2 + 1000 * seconds_until_expiry (jp_exp p) t2
         else if k = refresh_key (ts_id user) (te_uuid env (Suc (sw_uuids w3)))
         then u < t2 + 1000 * ?ttl else marked v (sw_cache w3) u k))"
    by (rule rotate_marks [OF ok ttl])
  let ?j1 = "te_uuid env (Suc (sw_uuids w2))" and ?j2 = "te_uuid env (Suc (sw_uuids w3))"
  have j: "?j1 \<noteq> ?j2" "?j1 \<noteq> jc_jti p" "?j2 \<noteq> jc_jti p"
      "\<not> marked v (sw_cache w2) u (deny_key ?j1)" "\<not> marked v (sw_cache w2) u (deny_key ?j2)"
    using new u1 by (simp_all add: inj_eq)
  have "t1 div 1000 \<le> t2 div 1000" using t(1) by (rule zdiv_mono1) simp
  with life have life2: "u div 1000 < t2 div 1000 + ?ttl" by simp
  have u: "u < t1 + 1000 * ?ttl" "u < t2 + 1000 * ?ttl" "t1 \<le> u"
    using lifetime_covered [OF _ life] lifetime_covered [OF t(2) life2] t by simp_all
  have "\<exists>q. fst (verify_refresh_token env u (it_refresh_token it1) w4) = Return q \<and> jc_sub q = ts_id user \<and>
      jc_jti q = ?j1 \<and> jw_decode (te_jwt env) (it_refresh_token it1) = Some q"
    by (rule rotated_accepted [OF ok _ k1 life]) (use uid user m1 m2 j u t in simp_all)
  moreover have "\<exists>q. fst (verify_refresh_token env u (it_refresh_token it2) w4) = Return q \<and> jc_sub q = ts_id user \<and>
      jc_jti q = ?j2 \<and> jw_decode (te_jwt env) (it_refresh_token it2) = Some q"
    by (rule rotated_accepted [OF ok _ k2 life2]) (use uid user m1 m2 j u t in simp_all)
  moreover have "it_refresh_token it1 \<noteq> it_refresh_token it2"
    using calculation j(1) by auto
  ultimately show ?thesis using r1 r2 user by auto
qed

theorem concurrent_refresh_doubles_session_witness:
  "\<exists>it1 w3 it2 w4. rotate_tokens mem_env 1002 demo_user demo_payload demo_ctx demo_login = (Return it1, w3) \<and>
    rotate_tokens mem_env 1003 demo_user demo_payload demo_ctx w3 = (Return it2, w4) \<and>
    it_refresh_token it1 \<noteq> it_refresh_token it2 \<and>
    (\<exists>q. fst (verify_refresh_token mem_env 2000 (it_refresh_token it1) w4) = Return q \<and> jc_sub q = jc_sub demo_payload) \<and>
    (\<exists>q. fst (verify_refresh_token mem_env 2000 (it_refresh_token it2) w4) = Return q \<and> jc_sub q = jc_sub demo_payload)"
proof -
  have v2: "verify_refresh_token mem_env 1001 demo_token demo_login = (Return demo_payload, demo_login)"
    by (simp add: demo_steps demo_login_def mem_live_Cons)
  have "inj (te_uuid mem_env)" by (auto simp: inj_on_def)
  moreover have "\<forall>i\<ge>sw_uuids demo_login. te_uuid mem_env i \<noteq> jc_jti demo_payload \<and>
      \<not> marked mem_view (sw_cache demo_login) 2000 (deny_key (te_uuid mem_env i))"
    by (auto simp: demo_login_def marked_def mem_live_Cons dest: arg_cong [of _ _ length])
  ultimately show ?thesis
    by (intro concurrent_refresh_doubles_session [OF mem_env_ok _ _ _ demo_verify v2])
      (simp_all add: demo_plain demo_user_def)
qed

theorem session_survives_redis_outage_witness:
  "\<exists>p. fst (verify_refresh_token (mem_env\<lparr>te_redis := down_redis\<rparr>) 5000
      (refresh_of (fst (issue_tokens (mem_env\<lparr>te_redis := down_redis\<rparr>) 0 demo_user demo_ctx demo_world)))
      (snd (issue_tokens (mem_env\<lparr>te_redis := down_redis\<rparr>) 0 demo_user demo_ctx demo_world))) = Return p \<and>
    jc_sub p = ts_id demo_user"
proof -
  let ?env = "mem_env\<lparr>te_redis := down_redis\<rparr>"
  have "\<exists>it w'. issue_tokens ?env 0 demo_user demo_ctx demo_world = (Return it, w')"
    by (simp add: issue_tokens_def Let_def seq_def fresh_uuid_def remember_refresh_token_def
        down_set_mark catch_def on_tokens_eq mem_table_def)
  then obtain it w' where iss: "issue_tokens ?env 0 demo_user demo_ctx demo_world = (Return it, w')" by blast
  have "\<exists>p. fst (verify_refresh_token ?env 5000 (it_refresh_token it) w') = Return p \<and> jc_sub p = ts_id demo_user"
    by (rule session_survives_redis_outage [OF _ _ _ iss]) (simp_all add: mem_jwt_ok demo_world_def)
  with iss show ?thesis by (simp add: refresh_of_def)
qed

end
