(* ===== verification/World.thy ===== *)
theory World
  imports Tokens Pagination
begin

text \<open>
  The state the api-core services share: the rows of the PostgreSQL tables (\<open>prisma/schema.prisma\<close>), the
  documents of the two MongoDB collections (\<open>mongo/schemas/property.schema.ts\<close>,
  \<open>property-view.schema.ts\<close>), and the clients of both as parameters. A column that no modelled operation
  reads or writes is left out. The state extends the \<open>session_world\<close> of the token service, so that a
  service that ends sessions and changes rows runs on one state.

  A Mongoose model is a record \<open>collection\<close> of the calls the services make on it; what Mongoose documents
  is \<open>collection_ok\<close>, relative to the \<open>schema\<close> the source declares.
\<close>

section \<open>The listing document\<close>

record localized_text =
  lt_en :: string
  lt_ar :: string

record listing_price =
  lp_amount :: int
  lp_currency :: string
  lp_per_meter :: int

record payment_plan =
  pp_down_percent :: int
  pp_years :: int
  pp_monthly :: int
  pp_delivery :: string

record listing_specs =
  ls_bedrooms :: int
  ls_bathrooms :: int
  ls_area_sqm :: int
  ls_garden_sqm :: int
  ls_floor :: int
  ls_parking :: int

record geo_point =
  gp_type :: string
  gp_coordinates :: "rat list"

record listing_location =
  lo_area_id :: string
  lo_area_name :: string
  lo_city :: string
  lo_governorate :: string
  lo_address :: string
  lo_geo :: geo_point

record compound_ref =
  cr_id :: string
  cr_name :: string
  cr_slug :: string

record developer_ref =
  dr_id :: string
  dr_name :: string
  dr_slug :: string
  dr_logo_url :: "string option"

record listing_image =
  im_url :: string
  im_key :: string
  im_width :: int
  im_height :: int
  im_primary :: bool
  im_order :: int

record floor_plan =
  fp_url :: string
  fp_label :: string

record listing_media =
  lm_images :: "listing_image list"
  lm_floor_plans :: "floor_plan list"
  lm_video_url :: "string option"
  lm_tour_url :: "string option"

record listing_stats =
  st_views :: int
  st_favorites :: int
  st_leads :: int

record listing =
  li_mongo_id :: string
  li_property_id :: string
  li_slug :: string
  li_reference_no :: string
  li_title :: localized_text
  li_description :: localized_text
  li_type :: string
  li_sale :: string
  li_status :: property_status
  li_finishing :: string
  li_price :: listing_price
  li_plan :: payment_plan
  li_specs :: listing_specs
  li_location :: listing_location
  li_compound :: compound_ref
  li_developer :: developer_ref
  li_amenities :: "string list"
  li_media :: listing_media
  li_stats :: listing_stats
  li_featured :: bool
  li_published_at :: "int option"
  li_deleted_at :: "int option"
  li_created_at :: int
  li_updated_at :: int

subsection \<open>The schema's setters and validators\<close>

text \<open>\<open>required\<close> on a string also refuses the empty one.\<close>

definition is_iso_date :: "string \<Rightarrow> bool" where
  "is_iso_date s \<longleftrightarrow> length s = 10 \<and> (\<forall>i\<in>{0, 1, 2, 3, 5, 6, 8, 9}. is_digit (s ! i)) \<and>
     s ! 4 = CHR ''-'' \<and> s ! 7 = CHR ''-''"

definition text_cast :: "localized_text \<Rightarrow> localized_text" where
  "text_cast t = \<lparr>lt_en = trim (lt_en t), lt_ar = trim (lt_ar t)\<rparr>"

definition text_valid :: "localized_text \<Rightarrow> bool" where
  "text_valid t \<longleftrightarrow> lt_en t \<noteq> [] \<and> lt_ar t \<noteq> []"

definition price_valid :: "listing_price \<Rightarrow> bool" where
  "price_valid p \<longleftrightarrow> 0 \<le> lp_amount p \<and> lp_currency p \<in> set CURRENCIES \<and> 0 \<le> lp_per_meter p"

definition plan_valid :: "payment_plan \<Rightarrow> bool" where
  "plan_valid p \<longleftrightarrow> 0 \<le> pp_down_percent p \<and> pp_down_percent p \<le> 100 \<and> 0 \<le> pp_years p \<and> 0 \<le> pp_monthly p \<and>
     is_iso_date (pp_delivery p)"

definition specs_valid :: "listing_specs \<Rightarrow> bool" where
  "specs_valid s \<longleftrightarrow> 0 \<le> ls_bedrooms s \<and> 0 \<le> ls_bathrooms s \<and> 0 \<le> ls_area_sqm s \<and> 0 \<le> ls_garden_sqm s \<and>
     0 \<le> ls_parking s"

definition location_cast :: "listing_location \<Rightarrow> listing_location" where
  "location_cast l = l\<lparr>lo_area_name := trim (lo_area_name l), lo_city := trim (lo_city l),
     lo_governorate := trim (lo_governorate l)\<rparr>"

definition location_valid :: "listing_location \<Rightarrow> bool" where
  "location_valid l \<longleftrightarrow> lo_area_id l \<noteq> [] \<and> lo_area_name l \<noteq> [] \<and> lo_city l \<noteq> [] \<and> lo_governorate l \<noteq> [] \<and>
     gp_type (lo_geo l) = ''Point''"

definition compound_cast :: "compound_ref \<Rightarrow> compound_ref" where
  "compound_cast c = c\<lparr>cr_name := trim (cr_name c), cr_slug := trim (cr_slug c)\<rparr>"

definition compound_valid :: "compound_ref \<Rightarrow> bool" where
  "compound_valid c \<longleftrightarrow> cr_id c \<noteq> [] \<and> cr_name c \<noteq> [] \<and> cr_slug c \<noteq> []"

definition developer_cast :: "developer_ref \<Rightarrow> developer_ref" where
  "developer_cast d = d\<lparr>dr_name := trim (dr_name d), dr_slug := trim (dr_slug d)\<rparr>"

definition developer_valid :: "developer_ref \<Rightarrow> bool" where
  "developer_valid d \<longleftrightarrow> dr_id d \<noteq> [] \<and> dr_name d \<noteq> [] \<and> dr_slug d \<noteq> []"

definition image_valid :: "listing_image \<Rightarrow> bool" where
  "image_valid i \<longleftrightarrow> im_url i \<noteq> [] \<and> im_key i \<noteq> []"

definition media_valid :: "listing_media \<Rightarrow> bool" where
  "media_valid m \<longleftrightarrow> (\<forall>i\<in>set (lm_images m). image_valid i) \<and> (\<forall>p\<in>set (lm_floor_plans m). fp_url p \<noteq> [])"

definition stats_valid :: "listing_stats \<Rightarrow> bool" where
  "stats_valid s \<longleftrightarrow> 0 \<le> st_views s \<and> 0 \<le> st_favorites s \<and> 0 \<le> st_leads s"

definition listing_cast :: "listing \<Rightarrow> listing" where
  "listing_cast d = d\<lparr>li_slug := to_lower (trim (li_slug d)), li_reference_no := trim (li_reference_no d),
     li_title := text_cast (li_title d), li_description := text_cast (li_description d),
     li_location := location_cast (li_location d), li_compound := compound_cast (li_compound d),
     li_developer := developer_cast (li_developer d)\<rparr>"

definition listing_valid :: "listing \<Rightarrow> bool" where
  "listing_valid d \<longleftrightarrow> li_property_id d \<noteq> [] \<and> li_slug d \<noteq> [] \<and> li_reference_no d \<noteq> [] \<and>
     text_valid (li_title d) \<and> text_valid (li_description d) \<and> li_type d \<in> set PROPERTY_TYPES \<and>
     li_sale d \<in> set SALE_TYPES \<and> li_finishing d \<in> set FINISHING_TYPES \<and> price_valid (li_price d) \<and>
     plan_valid (li_plan d) \<and> specs_valid (li_specs d) \<and> location_valid (li_location d) \<and>
     compound_valid (li_compound d) \<and> developer_valid (li_developer d) \<and> media_valid (li_media d) \<and>
     stats_valid (li_stats d)"

text \<open>The three unique indexes, and the index of \<open>_id\<close>.\<close>

definition listing_clash :: "listing \<Rightarrow> listing \<Rightarrow> bool" where
  "listing_clash a b \<longleftrightarrow> li_property_id a = li_property_id b \<or> li_slug a = li_slug b \<or>
     li_reference_no a = li_reference_no b \<or> li_mongo_id a = li_mongo_id b"

record property_view =
  pv_property_id :: string
  pv_user_id :: "string option"
  pv_ip_hash :: "string option"
  pv_user_agent :: "string option"
  pv_referrer :: "string option"
  pv_viewed_at :: int

section \<open>Mongoose models\<close>

record 'd collection =
  mg_find_one :: "('d \<Rightarrow> bool) \<Rightarrow> ('d list, exn, 'd option) prog"
  mg_find :: "('d \<Rightarrow> bool) \<Rightarrow> ('d \<Rightarrow> 'd \<Rightarrow> bool) \<Rightarrow> nat \<Rightarrow> nat \<Rightarrow> ('d list, exn, 'd list) prog"
  mg_count :: "('d \<Rightarrow> bool) \<Rightarrow> ('d list, exn, nat) prog"
  mg_create :: "int \<Rightarrow> 'd \<Rightarrow> ('d list, exn, 'd) prog"
  mg_find_one_and_update :: "int \<Rightarrow> ('d \<Rightarrow> bool) \<Rightarrow> ('d \<Rightarrow> 'd) \<Rightarrow> ('d list, exn, 'd option) prog"
  mg_update_one :: "int \<Rightarrow> ('d \<Rightarrow> bool) \<Rightarrow> ('d \<Rightarrow> 'd) \<Rightarrow> ('d list, exn, nat) prog"
  mg_replace_one :: "int \<Rightarrow> ('d \<Rightarrow> bool) \<Rightarrow> 'd \<Rightarrow> ('d list, exn, unit) prog"
  mg_delete_one :: "('d \<Rightarrow> bool) \<Rightarrow> ('d list, exn, unit) prog"

text \<open>
  The parts of a schema the calls depend on: setters, validators, unique indexes, the new \<open>_id\<close> and
  timestamps of a created document, the time stamp of an updated one, and a replacement that keeps
  \<open>_id\<close>.
\<close>

record 'd schema =
  sc_cast :: "'d \<Rightarrow> 'd"
  sc_valid :: "'d \<Rightarrow> bool"
  sc_clash :: "'d \<Rightarrow> 'd \<Rightarrow> bool"
  sc_fresh :: "'d list \<Rightarrow> int \<Rightarrow> 'd \<Rightarrow> 'd"
  sc_stamp :: "int \<Rightarrow> 'd \<Rightarrow> 'd"
  sc_replace :: "'d \<Rightarrow> 'd \<Rightarrow> 'd"

definition mongo_validation_error :: exn where
  "mongo_validation_error = Thrown (JObj ErrorObject
     [(''name'', JStr ''ValidationError''), (''message'', JStr ''Validation failed''),
      (''errors'', JObj PlainObject [])])"

definition mongo_duplicate_error :: exn where
  "mongo_duplicate_error = Thrown (JObj ErrorObject
     [(''name'', JStr ''MongoServerError''), (''message'', JStr ''E11000 duplicate key error''),
      (''code'', JNum (Fin 11000))])"

fun update_first :: "('d \<Rightarrow> bool) \<Rightarrow> ('d \<Rightarrow> 'd) \<Rightarrow> 'd list \<Rightarrow> 'd list" where
  "update_first P f [] = []"
| "update_first P f (d # ds) = (if P d then f d # ds else d # update_first P f ds)"

fun remove_first :: "('d \<Rightarrow> bool) \<Rightarrow> 'd list \<Rightarrow> 'd list" where
  "remove_first P [] = []"
| "remove_first P (d # ds) = (if P d then ds else d # remove_first P ds)"

definition law_mg_reads :: "'d collection \<Rightarrow> bool" where
  "law_mg_reads c \<longleftrightarrow>
     (\<forall>P ds. mg_find_one c P ds = (Return (List.find P ds), ds)) \<and>
     (\<forall>P le skip limit ds. mg_find c P le skip limit ds =
        (Return (take limit (drop skip (sort_by le (filter P ds)))), ds)) \<and>
     (\<forall>P ds. mg_count c P ds = (Return (length (filter P ds)), ds))"

definition law_mg_create :: "'d schema \<Rightarrow> 'd collection \<Rightarrow> bool" where
  "law_mg_create sc c \<longleftrightarrow>
     (\<forall>now d ds. let d' = sc_fresh sc ds now (sc_cast sc d)
        in mg_create c now d ds =
           (if \<not> sc_valid sc d' then (Throw mongo_validation_error, ds)
            else if list_ex (sc_clash sc d') ds then (Throw mongo_duplicate_error, ds)
            else (Return d', ds @ [d'])))"

text \<open>
  \<open>findOneAndUpdate\<close> with \<open>new\<close> and \<open>runValidators\<close> is all or nothing. Its validators see the paths being
  set: a document that was valid and would not be is refused.
\<close>

definition law_mg_find_update :: "'d schema \<Rightarrow> 'd collection \<Rightarrow> bool" where
  "law_mg_find_update sc c \<longleftrightarrow>
     (\<forall>now P f ds. let res = mg_find_one_and_update c now P f ds
        in case List.find P ds of
             None \<Rightarrow> res = (Return None, ds)
           | Some d \<Rightarrow>
               (let d' = sc_stamp sc now (sc_cast sc (f d));
                    dup = list_ex (sc_clash sc d') (remove_first P ds);
                    wr = (Return (Some d'), update_first P (\<lambda>_. d') ds)
                in (\<not> dup \<and> res = wr \<or> (\<exists>e. res = (Throw e, ds))) \<and>
                   (sc_valid sc d' \<and> \<not> dup \<longrightarrow> res = wr) \<and>
                   (sc_valid sc d \<and> \<not> sc_valid sc d' \<longrightarrow> res = (Throw mongo_validation_error, ds)) \<and>
                   (sc_valid sc d' \<and> dup \<longrightarrow> res = (Throw mongo_duplicate_error, ds))))"

definition law_mg_update_one :: "'d schema \<Rightarrow> 'd collection \<Rightarrow> bool" where
  "law_mg_update_one sc c \<longleftrightarrow>
     (\<forall>now P f ds. (\<forall>d. sc_clash sc (f d) = sc_clash sc d) \<longrightarrow>
        mg_update_one c now P f ds =
          (Return (if List.find P ds = None then 0 else 1), update_first P (\<lambda>d. sc_stamp sc now (f d)) ds))"

definition law_mg_replace :: "'d schema \<Rightarrow> 'd collection \<Rightarrow> bool" where
  "law_mg_replace sc c \<longleftrightarrow>
     (\<forall>now P d ds. \<not> list_ex (sc_clash sc d) (remove_first P ds) \<longrightarrow>
        mg_replace_one c now P d ds =
          (Return (), update_first P (\<lambda>old. sc_stamp sc now (sc_replace sc old d)) ds))"

definition law_mg_delete :: "'d collection \<Rightarrow> bool" where
  "law_mg_delete c \<longleftrightarrow> (\<forall>P ds. mg_delete_one c P ds = (Return (), remove_first P ds))"

definition collection_ok :: "'d schema \<Rightarrow> 'd collection \<Rightarrow> bool" where
  "collection_ok sc c \<longleftrightarrow> law_mg_reads c \<and> law_mg_create sc c \<and> law_mg_find_update sc c \<and>
     law_mg_update_one sc c \<and> law_mg_replace sc c \<and> law_mg_delete c"

lemma collection_reads:
  assumes "collection_ok sc c"
  shows "mg_find_one c P ds = (Return (List.find P ds), ds)"
    "mg_find c P le skip limit ds = (Return (take limit (drop skip (sort_by le (filter P ds)))), ds)"
    "mg_count c P ds = (Return (length (filter P ds)), ds)"
  using assms by (simp_all add: collection_ok_def law_mg_reads_def)

lemma collection_create:
  assumes "collection_ok sc c" and "d' = sc_fresh sc ds now (sc_cast sc d)"
  shows "mg_create c now d ds =
    (if \<not> sc_valid sc d' then (Throw mongo_validation_error, ds)
     else if list_ex (sc_clash sc d') ds then (Throw mongo_duplicate_error, ds)
     else (Return d', ds @ [d']))"
  using assms unfolding collection_ok_def law_mg_create_def Let_def by blast

lemma collection_find_update_None:
  assumes "collection_ok sc c" and "List.find P ds = None"
  shows "mg_find_one_and_update c now P f ds = (Return None, ds)"
proof -
  from assms(1) have law: "law_mg_find_update sc c" by (simp add: collection_ok_def)
  show ?thesis
    by (rule law [unfolded law_mg_find_update_def Let_def, THEN spec, THEN spec, THEN spec, THEN spec,
        of now P f ds, unfolded assms(2) option.case])
qed

lemma collection_find_update_Some:
  assumes "collection_ok sc c" and "List.find P ds = Some d"
  shows "\<not> list_ex (sc_clash sc (sc_stamp sc now (sc_cast sc (f d)))) (remove_first P ds) \<and>
      mg_find_one_and_update c now P f ds =
        (Return (Some (sc_stamp sc now (sc_cast sc (f d)))), update_first P (\<lambda>_. sc_stamp sc now (sc_cast sc (f d))) ds) \<or>
      (\<exists>e. mg_find_one_and_update c now P f ds = (Throw e, ds))"
    and "sc_valid sc (sc_stamp sc now (sc_cast sc (f d))) \<Longrightarrow>
      \<not> list_ex (sc_clash sc (sc_stamp sc now (sc_cast sc (f d)))) (remove_first P ds) \<Longrightarrow>
      mg_find_one_and_update c now P f ds =
        (Return (Some (sc_stamp sc now (sc_cast sc (f d)))), update_first P (\<lambda>_. sc_stamp sc now (sc_cast sc (f d))) ds)"
proof -
  from assms(1) have law: "law_mg_find_update sc c" by (simp add: collection_ok_def)
  note inst = law [unfolded law_mg_find_update_def Let_def, THEN spec, THEN spec, THEN spec, THEN spec,
      of now P f ds, unfolded assms(2) option.case]
  show "\<not> list_ex (sc_clash sc (sc_stamp sc now (sc_cast sc (f d)))) (remove_first P ds) \<and>
      mg_find_one_and_update c now P f ds =
        (Return (Some (sc_stamp sc now (sc_cast sc (f d)))), update_first P (\<lambda>_. sc_stamp sc now (sc_cast sc (f d))) ds) \<or>
      (\<exists>e. mg_find_one_and_update c now P f ds = (Throw e, ds))"
    by (rule inst [THEN conjunct1])
  show "sc_valid sc (sc_stamp sc now (sc_cast sc (f d))) \<Longrightarrow>
      \<not> list_ex (sc_clash sc (sc_stamp sc now (sc_cast sc (f d)))) (remove_first P ds) \<Longrightarrow>
      mg_find_one_and_update c now P f ds =
        (Return (Some (sc_stamp sc now (sc_cast sc (f d)))), update_first P (\<lambda>_. sc_stamp sc now (sc_cast sc (f d))) ds)"
    by (rule inst [THEN conjunct2, THEN conjunct1, THEN mp]) (rule conjI)
qed

lemma collection_update_one:
  assumes "collection_ok sc c" and "\<And>d. sc_clash sc (f d) = sc_clash sc d"
  shows "mg_update_one c now P f ds =
    (Return (if List.find P ds = None then 0 else 1), update_first P (\<lambda>d. sc_stamp sc now (f d)) ds)"
  using assms unfolding collection_ok_def law_mg_update_one_def by blast

lemma collection_replace:
  assumes "collection_ok sc c" and "\<not> list_ex (sc_clash sc d) (remove_first P ds)"
  shows "mg_replace_one c now P d ds =
    (Return (), update_first P (\<lambda>old. sc_stamp sc now (sc_replace sc old d)) ds)"
  using assms unfolding collection_ok_def law_mg_replace_def by blast

lemma collection_delete: "collection_ok sc c \<Longrightarrow> mg_delete_one c P ds = (Return (), remove_first P ds)"
  unfolding collection_ok_def law_mg_delete_def by blast

text \<open>A collection in memory.\<close>

definition mem_collection :: "'d schema \<Rightarrow> 'd collection" where
  "mem_collection sc =
     \<lparr>mg_find_one = (\<lambda>P ds. (Return (List.find P ds), ds)),
      mg_find = (\<lambda>P le skip limit ds. (Return (take limit (drop skip (sort_by le (filter P ds)))), ds)),
      mg_count = (\<lambda>P ds. (Return (length (filter P ds)), ds)),
      mg_create = (\<lambda>now d ds. let d' = sc_fresh sc ds now (sc_cast sc d)
        in if \<not> sc_valid sc d' then (Throw mongo_validation_error, ds)
           else if list_ex (sc_clash sc d') ds then (Throw mongo_duplicate_error, ds)
           else (Return d', ds @ [d'])),
      mg_find_one_and_update = (\<lambda>now P f ds.
        case List.find P ds of
          None \<Rightarrow> (Return None, ds)
        | Some d \<Rightarrow>
            (let d' = sc_stamp sc now (sc_cast sc (f d))
             in if \<not> sc_valid sc d' then (Throw mongo_validation_error, ds)
                else if list_ex (sc_clash sc d') (remove_first P ds) then (Throw mongo_duplicate_error, ds)
                else (Return (Some d'), update_first P (\<lambda>_. d') ds))),
      mg_update_one = (\<lambda>now P f ds.
        (Return (if List.find P ds = None then 0 else 1), update_first P (\<lambda>d. sc_stamp sc now (f d)) ds)),
      mg_replace_one = (\<lambda>now P d ds.
        (Return (), update_first P (\<lambda>old. sc_stamp sc now (sc_replace sc old d)) ds)),
      mg_delete_one = (\<lambda>P ds. (Return (), remove_first P ds))\<rparr>"

lemma mem_collection_ok [simp]: "collection_ok sc (mem_collection sc)"
  by (simp add: collection_ok_def mem_collection_def law_mg_reads_def law_mg_create_def law_mg_find_update_def
      law_mg_update_one_def law_mg_replace_def law_mg_delete_def Let_def split: option.split)

text \<open>The schema of listings. The new object id is a parameter, drawn apart from those in use.\<close>

definition listing_schema :: "(listing list \<Rightarrow> string) \<Rightarrow> listing schema" where
  "listing_schema oid =
     \<lparr>sc_cast = listing_cast, sc_valid = listing_valid, sc_clash = listing_clash,
      sc_fresh = (\<lambda>ds now d. d\<lparr>li_mongo_id := oid ds, li_created_at := now, li_updated_at := now\<rparr>),
      sc_stamp = (\<lambda>now d. d\<lparr>li_updated_at := now\<rparr>),
      sc_replace = (\<lambda>old d. d\<lparr>li_mongo_id := li_mongo_id old\<rparr>)\<rparr>"

lemma listing_schema_sel [simp]:
  "sc_cast (listing_schema oid) = listing_cast" "sc_valid (listing_schema oid) = listing_valid"
  "sc_clash (listing_schema oid) = listing_clash"
  "sc_fresh (listing_schema oid) = (\<lambda>ds now d. d\<lparr>li_mongo_id := oid ds, li_created_at := now, li_updated_at := now\<rparr>)"
  "sc_stamp (listing_schema oid) = (\<lambda>now d. d\<lparr>li_updated_at := now\<rparr>)"
  "sc_replace (listing_schema oid) = (\<lambda>old d. d\<lparr>li_mongo_id := li_mongo_id old\<rparr>)"
  by (simp_all add: listing_schema_def)

definition view_schema :: "property_view schema" where
  "view_schema =
     \<lparr>sc_cast = (\<lambda>v. v), sc_valid = (\<lambda>v. pv_property_id v \<noteq> []), sc_clash = (\<lambda>_ _. False),
      sc_fresh = (\<lambda>vs now v. v\<lparr>pv_viewed_at := now\<rparr>), sc_stamp = (\<lambda>now v. v), sc_replace = (\<lambda>old v. v)\<rparr>"

lemma view_schema_sel [simp]:
  "sc_cast view_schema = (\<lambda>v. v)" "sc_valid view_schema = (\<lambda>v. pv_property_id v \<noteq> [])"
  "sc_clash view_schema = (\<lambda>_ _. False)" "sc_fresh view_schema = (\<lambda>vs now v. v\<lparr>pv_viewed_at := now\<rparr>)"
  by (simp_all add: view_schema_def)

section \<open>Rows\<close>

record index_row =
  ix_id :: string
  ix_mongo_id :: string
  ix_slug :: string
  ix_compound_id :: "string option"
  ix_developer_id :: "string option"
  ix_area_id :: "string option"
  ix_price_min :: int
  ix_status :: property_status
  ix_featured :: bool
  ix_published_at :: "int option"
  ix_deleted_at :: "int option"

record developer_row =
  dv_id :: string
  dv_slug :: string
  dv_name :: string
  dv_name_ar :: string
  dv_logo_url :: "string option"
  dv_cover_url :: "string option"
  dv_description_en :: "string option"
  dv_description_ar :: "string option"
  dv_founded_year :: "int option"
  dv_projects_count :: nat
  dv_website :: "string option"
  dv_phone :: "string option"
  dv_featured :: bool
  dv_active :: bool
  dv_created_at :: int
  dv_updated_at :: int

record area_row =
  ar_id :: string
  ar_slug :: string
  ar_name_en :: string
  ar_name_ar :: string
  ar_city :: string
  ar_governorate :: string
  ar_description_en :: "string option"
  ar_description_ar :: "string option"
  ar_lat :: rat
  ar_lng :: rat
  ar_hero_image :: "string option"
  ar_property_count :: nat
  ar_avg_price :: "int option"
  ar_active :: bool
  ar_created_at :: int
  ar_updated_at :: int

record amenity_row =
  am_id :: string
  am_slug :: string
  am_name_en :: string
  am_name_ar :: string
  am_icon :: string
  am_category :: string

record payment_plan_row =
  py_name :: string
  py_down_percent :: int
  py_years :: int
  py_monthly :: "int option"
  py_default :: bool
  py_compound_id :: string

record compound_row =
  co_id :: string
  co_slug :: string
  co_name :: string
  co_name_ar :: string
  co_developer_id :: string
  co_area_id :: string
  co_description_en :: "string option"
  co_description_ar :: "string option"
  co_starting_price :: "int option"
  co_max_price :: "int option"
  co_min_area :: "int option"
  co_max_area :: "int option"
  co_delivery_year :: "int option"
  co_installment_years :: "int option"
  co_down_percent :: "int option"
  co_images :: "string list"
  co_master_plan :: "string option"
  co_lat :: rat
  co_lng :: rat
  co_unit_types :: "string list"
  co_featured :: bool
  co_active :: bool
  co_created_at :: int
  co_updated_at :: int

record compound_amenity_row =
  ca_compound_id :: string
  ca_amenity_id :: string

record favorite_row =
  fv_user_id :: string
  fv_property_id :: string
  fv_created_at :: int

record saved_search_row =
  ss_id :: string
  ss_user_id :: string
  ss_name :: string
  ss_criteria :: js_value
  ss_alert :: bool
  ss_created_at :: int

record lead_row =
  ld_id :: string
  ld_property_id :: "string option"
  ld_user_id :: "string option"
  ld_name :: string
  ld_phone :: string
  ld_email :: "string option"
  ld_message :: "string option"
  ld_source :: string
  ld_area_id :: "string option"
  ld_compound_id :: "string option"
  ld_property_type :: "string option"
  ld_status :: lead_status
  ld_assigned_to :: "string option"
  ld_notes :: "string option"
  ld_contacted_at :: "int option"
  ld_created_at :: int
  ld_updated_at :: int

record user_row =
  us_id :: string
  us_email :: string
  us_name :: string
  us_password_hash :: "string option"
  us_phone :: "string option"
  us_avatar_url :: "string option"
  us_role :: user_role
  us_verified :: bool
  us_active :: bool
  us_locale :: string
  us_reset_hash :: "string option"
  us_reset_expires :: "int option"
  us_last_login :: "int option"
  us_created_at :: int
  us_updated_at :: int

record account_row =
  ac_user_id :: string
  ac_provider :: string
  ac_provider_id :: string
  ac_access_token :: "string option"
  ac_refresh_token :: "string option"

record audit_row =
  ad_user_id :: "string option"
  ad_action :: string
  ad_entity_type :: string
  ad_entity_id :: "string option"
  ad_metadata :: js_value
  ad_ip_address :: "string option"
  ad_user_agent :: "string option"
  ad_request_id :: "string option"
  ad_created_at :: int

text \<open>A request to the search service: method, path and body.\<close>

record search_request =
  sr_method :: string
  sr_path :: string
  sr_body :: js_value

section \<open>The state and the clients\<close>

record 'r platform = "'r session_world" +
  db_listings :: "listing list"
  db_views :: "property_view list"
  db_index :: "index_row list"
  db_areas :: "area_row list"
  db_developers :: "developer_row list"
  db_compounds :: "compound_row list"
  db_compound_amenities :: "compound_amenity_row list"
  db_payment_plans :: "payment_plan_row list"
  db_amenities :: "amenity_row list"
  db_favorites :: "favorite_row list"
  db_searches :: "saved_search_row list"
  db_leads :: "lead_row list"
  db_users :: "user_row list"
  db_accounts :: "account_row list"
  db_audit :: "audit_row list"
  db_requests :: "search_request list"

type_synonym ('r, 'z, 'a) platform_prog = "(('r, 'z) platform_scheme, exn, 'a) prog"

text \<open>The page a list endpoint returns, and the codec of what each cached key holds.\<close>

type_synonym 'a page = "'a list \<times> pagination_meta"

record 'r platform_env =
  pe_tokens :: "'r token_env"
  pe_listings :: "listing collection"
  pe_views :: "property_view collection"
  pe_index :: "index_row table"
  pe_areas :: "area_row table"
  pe_developers :: "developer_row table"
  pe_compounds :: "compound_row table"
  pe_compound_amenities :: "compound_amenity_row table"
  pe_payment_plans :: "payment_plan_row table"
  pe_amenities :: "amenity_row table"
  pe_favorites :: "favorite_row table"
  pe_searches :: "saved_search_row table"
  pe_leads :: "lead_row table"
  pe_users :: "user_row table"
  pe_accounts :: "account_row table"
  pe_audit :: "audit_row table"
  pe_fetch :: "search_request \<Rightarrow> (search_request list, exn, int) prog"
  pe_listing_codec :: "listing codec"
  pe_listing_page :: "listing page codec"
  pe_area_page :: "area_row page codec"
  pe_developer_page :: "developer_row page codec"
  pe_amenity_list :: "amenity_row list codec"
  pe_digest :: "js_value \<Rightarrow> string"
  pe_collate :: "string \<Rightarrow> string \<Rightarrow> bool"
  pe_fold :: "string \<Rightarrow> string"
  pe_nfkd :: "nat list \<Rightarrow> nat list"
  pe_base36 :: "int \<Rightarrow> string"
  pe_parse_url :: "string \<Rightarrow> (string \<times> string) option"
  pe_sha1 :: "string \<Rightarrow> string"
  pe_string_of :: "js_value \<Rightarrow> string"
  pe_parse_date :: "string \<Rightarrow> int"
  pe_encode_uri :: "string \<Rightarrow> string"
  pe_compound_page :: "(compound_row \<times> developer_row \<times> area_row) page codec"

abbreviation pe_redis :: "'r platform_env \<Rightarrow> 'r redis" where
  "pe_redis env \<equiv> te_redis (pe_tokens env)"

definition on_listings :: "(listing list, exn, 'a) prog \<Rightarrow> ('r, 'z, 'a) platform_prog" where
  "on_listings = part db_listings db_listings_update"

definition on_views :: "(property_view list, exn, 'a) prog \<Rightarrow> ('r, 'z, 'a) platform_prog" where
  "on_views = part db_views db_views_update"

definition on_index :: "(index_row list, exn, 'a) prog \<Rightarrow> ('r, 'z, 'a) platform_prog" where
  "on_index = part db_index db_index_update"

definition on_areas :: "(area_row list, exn, 'a) prog \<Rightarrow> ('r, 'z, 'a) platform_prog" where
  "on_areas = part db_areas db_areas_update"

definition on_developers :: "(developer_row list, exn, 'a) prog \<Rightarrow> ('r, 'z, 'a) platform_prog" where
  "on_developers = part db_developers db_developers_update"

definition on_compounds :: "(compound_row list, exn, 'a) prog \<Rightarrow> ('r, 'z, 'a) platform_prog" where
  "on_compounds = part db_compounds db_compounds_update"

definition on_compound_amenities ::
  "(compound_amenity_row list, exn, 'a) prog \<Rightarrow> ('r, 'z, 'a) platform_prog" where
  "on_compound_amenities = part db_compound_amenities db_compound_amenities_update"

definition on_payment_plans :: "(payment_plan_row list, exn, 'a) prog \<Rightarrow> ('r, 'z, 'a) platform_prog" where
  "on_payment_plans = part db_payment_plans db_payment_plans_update"

definition on_amenities :: "(amenity_row list, exn, 'a) prog \<Rightarrow> ('r, 'z, 'a) platform_prog" where
  "on_amenities = part db_amenities db_amenities_update"

definition on_favorites :: "(favorite_row list, exn, 'a) prog \<Rightarrow> ('r, 'z, 'a) platform_prog" where
  "on_favorites = part db_favorites db_favorites_update"

definition on_searches :: "(saved_search_row list, exn, 'a) prog \<Rightarrow> ('r, 'z, 'a) platform_prog" where
  "on_searches = part db_searches db_searches_update"

definition on_leads :: "(lead_row list, exn, 'a) prog \<Rightarrow> ('r, 'z, 'a) platform_prog" where
  "on_leads = part db_leads db_leads_update"

definition on_users :: "(user_row list, exn, 'a) prog \<Rightarrow> ('r, 'z, 'a) platform_prog" where
  "on_users = part db_users db_users_update"

definition on_accounts :: "(account_row list, exn, 'a) prog \<Rightarrow> ('r, 'z, 'a) platform_prog" where
  "on_accounts = part db_accounts db_accounts_update"

definition on_audit :: "(audit_row list, exn, 'a) prog \<Rightarrow> ('r, 'z, 'a) platform_prog" where
  "on_audit = part db_audit db_audit_update"

definition on_requests :: "(search_request list, exn, 'a) prog \<Rightarrow> ('r, 'z, 'a) platform_prog" where
  "on_requests = part db_requests db_requests_update"

lemma part_eq: "part sel upd m w = (fst (m (sel w)), upd (\<lambda>_. snd (m (sel w))) w)"
  by (simp add: part_def split_beta)

lemmas on_defs = on_listings_def on_views_def on_index_def on_areas_def on_developers_def on_compounds_def
  on_compound_amenities_def on_payment_plans_def on_amenities_def on_favorites_def on_searches_def
  on_leads_def on_users_def on_accounts_def on_audit_def on_requests_def

text \<open>A program on one part of the state, unfolded.\<close>

lemma on_simps:
  "on_listings m1 w = (fst (m1 (db_listings w)), w\<lparr>db_listings := snd (m1 (db_listings w))\<rparr>)"
  "on_views m2 w = (fst (m2 (db_views w)), w\<lparr>db_views := snd (m2 (db_views w))\<rparr>)"
  "on_index m3 w = (fst (m3 (db_index w)), w\<lparr>db_index := snd (m3 (db_index w))\<rparr>)"
  "on_areas m4 w = (fst (m4 (db_areas w)), w\<lparr>db_areas := snd (m4 (db_areas w))\<rparr>)"
  "on_developers m5 w = (fst (m5 (db_developers w)), w\<lparr>db_developers := snd (m5 (db_developers w))\<rparr>)"
  "on_compounds m6 w = (fst (m6 (db_compounds w)), w\<lparr>db_compounds := snd (m6 (db_compounds w))\<rparr>)"
  "on_compound_amenities m7 w =
     (fst (m7 (db_compound_amenities w)), w\<lparr>db_compound_amenities := snd (m7 (db_compound_amenities w))\<rparr>)"
  "on_payment_plans m8 w = (fst (m8 (db_payment_plans w)), w\<lparr>db_payment_plans := snd (m8 (db_payment_plans w))\<rparr>)"
  "on_amenities m9 w = (fst (m9 (db_amenities w)), w\<lparr>db_amenities := snd (m9 (db_amenities w))\<rparr>)"
  "on_favorites m10 w = (fst (m10 (db_favorites w)), w\<lparr>db_favorites := snd (m10 (db_favorites w))\<rparr>)"
  "on_searches m11 w = (fst (m11 (db_searches w)), w\<lparr>db_searches := snd (m11 (db_searches w))\<rparr>)"
  "on_leads m12 w = (fst (m12 (db_leads w)), w\<lparr>db_leads := snd (m12 (db_leads w))\<rparr>)"
  "on_users m13 w = (fst (m13 (db_users w)), w\<lparr>db_users := snd (m13 (db_users w))\<rparr>)"
  "on_accounts m14 w = (fst (m14 (db_accounts w)), w\<lparr>db_accounts := snd (m14 (db_accounts w))\<rparr>)"
  "on_audit m15 w = (fst (m15 (db_audit w)), w\<lparr>db_audit := snd (m15 (db_audit w))\<rparr>)"
  "on_requests m16 w = (fst (m16 (db_requests w)), w\<lparr>db_requests := snd (m16 (db_requests w))\<rparr>)"
  by (simp_all add: on_defs part_eq)

section \<open>A platform in memory\<close>

text \<open>Every client in memory; what the properties assume of the clients can hold, as it holds here.\<close>

definition no_codec :: "'v codec" where
  "no_codec = \<lparr>cd_stringify = (\<lambda>_. None), cd_parse = (\<lambda>_. None)\<rparr>"

definition mem_oid :: "listing list \<Rightarrow> string" where
  "mem_oid ds = ''o'' @ show_nat (length ds)"

definition index_clash :: "index_row \<Rightarrow> index_row \<Rightarrow> bool" where
  "index_clash a b \<longleftrightarrow> ix_id a = ix_id b \<or> ix_mongo_id a = ix_mongo_id b \<or> ix_slug a = ix_slug b"

definition favorite_clash :: "favorite_row \<Rightarrow> favorite_row \<Rightarrow> bool" where
  "favorite_clash a b \<longleftrightarrow> fv_user_id a = fv_user_id b \<and> fv_property_id a = fv_property_id b"

definition user_clash :: "user_row \<Rightarrow> user_row \<Rightarrow> bool" where
  "user_clash a b \<longleftrightarrow> us_id a = us_id b \<or> us_email a = us_email b"

definition account_clash :: "account_row \<Rightarrow> account_row \<Rightarrow> bool" where
  "account_clash a b \<longleftrightarrow> ac_provider a = ac_provider b \<and> ac_provider_id a = ac_provider_id b"

definition area_clash :: "area_row \<Rightarrow> area_row \<Rightarrow> bool" where
  "area_clash a b \<longleftrightarrow> ar_id a = ar_id b \<or> ar_slug a = ar_slug b"

definition developer_clash :: "developer_row \<Rightarrow> developer_row \<Rightarrow> bool" where
  "developer_clash a b \<longleftrightarrow> dv_id a = dv_id b \<or> dv_slug a = dv_slug b"

definition compound_clash :: "compound_row \<Rightarrow> compound_row \<Rightarrow> bool" where
  "compound_clash a b \<longleftrightarrow> co_id a = co_id b \<or> co_slug a = co_slug b"

definition amenity_clash :: "amenity_row \<Rightarrow> amenity_row \<Rightarrow> bool" where
  "amenity_clash a b \<longleftrightarrow> am_id a = am_id b \<or> am_slug a = am_slug b"

definition search_clash :: "saved_search_row \<Rightarrow> saved_search_row \<Rightarrow> bool" where
  "search_clash a b \<longleftrightarrow> ss_id a = ss_id b"

definition lead_clash :: "lead_row \<Rightarrow> lead_row \<Rightarrow> bool" where
  "lead_clash a b \<longleftrightarrow> ld_id a = ld_id b"

definition no_clash :: "'row \<Rightarrow> 'row \<Rightarrow> bool" where
  "no_clash a b \<longleftrightarrow> False"

text \<open>Every table keeps its unique indexes, and Redis answers.\<close>

definition services_ready :: "'r platform_env \<Rightarrow> 'r redis_view \<Rightarrow> bool" where
  "services_ready env v \<longleftrightarrow> redis_ok (pe_redis env) v \<and> table_ok index_clash (pe_index env) \<and>
     table_ok area_clash (pe_areas env) \<and> table_ok developer_clash (pe_developers env) \<and>
     table_ok compound_clash (pe_compounds env) \<and> table_ok (=) (pe_compound_amenities env) \<and>
     table_ok no_clash (pe_payment_plans env) \<and> table_ok amenity_clash (pe_amenities env) \<and>
     table_ok favorite_clash (pe_favorites env) \<and> table_ok search_clash (pe_searches env) \<and>
     table_ok lead_clash (pe_leads env) \<and> table_ok user_clash (pe_users env) \<and>
     table_ok account_clash (pe_accounts env) \<and> table_ok no_clash (pe_audit env)"

lemma services_readyD:
  assumes "services_ready env v"
  shows ready_redis: "redis_ok (pe_redis env) v"
    and ready_index: "table_ok index_clash (pe_index env)"
    and ready_areas: "table_ok area_clash (pe_areas env)"
    and ready_developers: "table_ok developer_clash (pe_developers env)"
    and ready_compounds: "table_ok compound_clash (pe_compounds env)"
    and ready_compound_amenities: "table_ok (=) (pe_compound_amenities env)"
    and ready_payment_plans: "table_ok no_clash (pe_payment_plans env)"
    and ready_amenities: "table_ok amenity_clash (pe_amenities env)"
    and ready_favorites: "table_ok favorite_clash (pe_favorites env)"
    and ready_searches: "table_ok search_clash (pe_searches env)"
    and ready_leads: "table_ok lead_clash (pe_leads env)"
    and ready_users: "table_ok user_clash (pe_users env)"
    and ready_accounts: "table_ok account_clash (pe_accounts env)"
    and ready_audit: "table_ok no_clash (pe_audit env)"
  using assms by (simp_all add: services_ready_def)

definition mem_platform :: "mem platform_env" where
  "mem_platform =
     \<lparr>pe_tokens = mem_env, pe_listings = mem_collection (listing_schema mem_oid),
      pe_views = mem_collection view_schema, pe_index = mem_table index_clash,
      pe_areas = mem_table area_clash, pe_developers = mem_table developer_clash,
      pe_compounds = mem_table compound_clash, pe_compound_amenities = mem_table (=),
      pe_payment_plans = mem_table no_clash, pe_amenities = mem_table amenity_clash,
      pe_favorites = mem_table favorite_clash, pe_searches = mem_table search_clash,
      pe_leads = mem_table lead_clash, pe_users = mem_table user_clash,
      pe_accounts = mem_table account_clash, pe_audit = mem_table no_clash,
      pe_fetch = (\<lambda>q s. (Return 200, s @ [q])),
      pe_listing_codec = no_codec, pe_listing_page = no_codec, pe_area_page = no_codec,
      pe_developer_page = no_codec, pe_amenity_list = no_codec,
      pe_digest = (\<lambda>_. ''q''), pe_collate = (\<le>), pe_fold = to_lower, pe_nfkd = (\<lambda>us. us),
      pe_base36 = show_int, pe_parse_url = (\<lambda>_. None), pe_sha1 = (\<lambda>s. s), pe_string_of = (\<lambda>_. []),
      pe_parse_date = (\<lambda>_. 0), pe_encode_uri = (\<lambda>s. s), pe_compound_page = no_codec\<rparr>"

lemma mem_platform_sel [simp]:
  "pe_tokens mem_platform = mem_env" "pe_listings mem_platform = mem_collection (listing_schema mem_oid)"
  "pe_views mem_platform = mem_collection view_schema" "pe_index mem_platform = mem_table index_clash"
  "pe_favorites mem_platform = mem_table favorite_clash" "pe_searches mem_platform = mem_table search_clash"
  "pe_leads mem_platform = mem_table lead_clash" "pe_users mem_platform = mem_table user_clash"
  "pe_accounts mem_platform = mem_table account_clash" "pe_areas mem_platform = mem_table area_clash"
  "pe_developers mem_platform = mem_table developer_clash" "pe_compounds mem_platform = mem_table compound_clash"
  "pe_compound_amenities mem_platform = mem_table (=)" "pe_amenities mem_platform = mem_table amenity_clash"
  "pe_payment_plans mem_platform = mem_table no_clash" "pe_audit mem_platform = mem_table no_clash"
  "pe_collate mem_platform = (\<le>)" "pe_fold mem_platform = to_lower"
  by (simp_all add: mem_platform_def)

lemma mem_services_ready: "services_ready mem_platform mem_view"
  by (simp add: services_ready_def mem_redis_ok)

definition empty_platform :: "mem platform" where
  "empty_platform = \<lparr>sw_cache = [], sw_tokens = [], sw_uuids = 0, db_listings = [], db_views = [], db_index = [],
     db_areas = [], db_developers = [], db_compounds = [], db_compound_amenities = [], db_payment_plans = [],
     db_amenities = [], db_favorites = [], db_searches = [], db_leads = [], db_users = [], db_accounts = [],
     db_audit = [], db_requests = []\<rparr>"

lemma empty_platform_sel [simp]:
  "db_listings empty_platform = []" "db_index empty_platform = []" "db_favorites empty_platform = []"
  "db_leads empty_platform = []" "db_searches empty_platform = []" "db_users empty_platform = []"
  "db_accounts empty_platform = []" "sw_cache empty_platform = []" "sw_tokens empty_platform = []"
  "db_areas empty_platform = []" "db_compounds empty_platform = []" "db_developers empty_platform = []"
  by (simp_all add: empty_platform_def)

definition demo_listing :: listing where
  "demo_listing =
     \<lparr>li_mongo_id = ''o0'', li_property_id = ''p1'', li_slug = ''villa'', li_reference_no = ''TC-1001'',
      li_title = \<lparr>lt_en = ''Villa'', lt_ar = ''v''\<rparr>, li_description = \<lparr>lt_en = ''A villa'', lt_ar = ''v''\<rparr>,
      li_type = ''villa'', li_sale = ''resale'', li_status = Available, li_finishing = ''furnished'',
      li_price = \<lparr>lp_amount = 9000000, lp_currency = ''EGP'', lp_per_meter = 30000\<rparr>,
      li_plan = \<lparr>pp_down_percent = 10, pp_years = 8, pp_monthly = 84375, pp_delivery = ''2027-06-30''\<rparr>,
      li_specs = \<lparr>ls_bedrooms = 4, ls_bathrooms = 3, ls_area_sqm = 300, ls_garden_sqm = 50, ls_floor = 0, ls_parking = 2\<rparr>,
      li_location = \<lparr>lo_area_id = ''a1'', lo_area_name = ''New Cairo'', lo_city = ''Cairo'', lo_governorate = ''Cairo'',
        lo_address = [], lo_geo = \<lparr>gp_type = ''Point'', gp_coordinates = [31, 30]\<rparr>\<rparr>,
      li_compound = \<lparr>cr_id = ''c1'', cr_name = ''Palm Hills'', cr_slug = ''palm-hills''\<rparr>,
      li_developer = \<lparr>dr_id = ''d1'', dr_name = ''Palm'', dr_slug = ''palm'', dr_logo_url = None\<rparr>,
      li_amenities = [], li_media = \<lparr>lm_images = [], lm_floor_plans = [], lm_video_url = None, lm_tour_url = None\<rparr>,
      li_stats = \<lparr>st_views = 0, st_favorites = 0, st_leads = 0\<rparr>, li_featured = False, li_published_at = Some 0,
      li_deleted_at = None, li_created_at = 0, li_updated_at = 0\<rparr>"

end
