(* ===== verification/Mirror.thy ===== *)
theory Mirror
  imports World
begin

text \<open>
  \<open>PropertyMirrorService\<close> (\<open>modules/properties/property-mirror.service.ts\<close>): the listing document in
  MongoDB and its \<open>property_index\<close> row in PostgreSQL are written one after the other, and a failed row
  write undoes the document write.

  The lemmas assume that MongoDB answers and that a PostgreSQL statement is all or nothing, and nothing
  of when PostgreSQL rejects. Then the two stores stay in step, and together behave as one store whose
  operations are atomic.
\<close>

section \<open>The service\<close>

definition mirror_of :: "listing \<Rightarrow> index_row" where
  "mirror_of doc =
     \<lparr>ix_id = li_property_id doc, ix_mongo_id = li_mongo_id doc, ix_slug = li_slug doc,
      ix_compound_id = Some (cr_id (li_compound doc)), ix_developer_id = Some (dr_id (li_developer doc)),
      ix_area_id = Some (lo_area_id (li_location doc)), ix_price_min = lp_amount (li_price doc),
      ix_status = li_status doc, ix_featured = li_featured doc, ix_published_at = li_published_at doc,
      ix_deleted_at = li_deleted_at doc\<rparr>"

text \<open>\<open>error instanceof Error ? error.message : String(error)\<close>.\<close>

definition error_text :: "(js_value \<Rightarrow> string) \<Rightarrow> exn \<Rightarrow> string" where
  "error_text str e =
     (case e of
        AppExc a \<Rightarrow> ae_message a
      | HttpExc status response message \<Rightarrow> message
      | Thrown v \<Rightarrow>
          if js_class_of v = Some ErrorObject
          then (case get_prop v ''message'' of JStr m \<Rightarrow> m | _ \<Rightarrow> [])
          else str v)"

definition as_app_exception :: "(js_value \<Rightarrow> string) \<Rightarrow> exn \<Rightarrow> string \<Rightarrow> app_exception" where
  "as_app_exception str e operation =
     (case e of
        AppExc a \<Rightarrow> a
      | _ \<Rightarrow>
          (let message = error_text str e
           in if js_includes message ''Unique constraint'' \<or> js_includes message ''P2002'' then
                conflict ''A property with this slug or reference number already exists'' DuplicateResourceCode []
              else if js_includes message ''Foreign key constraint'' \<or> js_includes message ''P2003'' then
                bad_request ''The compound, developer or area referenced by this listing does not exist''
                  RelatedResourceNotFoundCode []
              else
                internal (''Could not '' @ operation @ '' the listing - the relational mirror rejected the write'')
                  DatabaseErrorCode))"

definition property_not_found :: "string \<Rightarrow> exn" where
  "property_not_found i = AppExc (not_found (''Property '' @ quote i @ '' was not found'') PropertyNotFoundCode)"

definition compensate :: "'r platform_env \<Rightarrow> listing \<Rightarrow> ('r, 'z, unit) platform_prog" where
  "compensate env doc =
     catch (on_listings (mg_delete_one (pe_listings env) (\<lambda>d. li_mongo_id d = li_mongo_id doc))) (\<lambda>_. ret ())"

definition create_with_mirror :: "'r platform_env \<Rightarrow> int \<Rightarrow> listing \<Rightarrow> ('r, 'z, listing) platform_prog" where
  "create_with_mirror env now data =
     seq (on_listings (mg_create (pe_listings env) now data)) (\<lambda>doc.
       catch
         (seq (on_index (tb_create (pe_index env) (mirror_of doc))) (\<lambda>_. ret doc))
         (\<lambda>e. seq (compensate env doc) (\<lambda>_.
            throw (AppExc (as_app_exception (pe_string_of env) e ''create'')))))"

definition copy_mirror :: "index_row \<Rightarrow> index_row \<Rightarrow> index_row" where
  "copy_mirror mirror row =
     row\<lparr>ix_slug := ix_slug mirror, ix_compound_id := ix_compound_id mirror,
         ix_developer_id := ix_developer_id mirror, ix_area_id := ix_area_id mirror,
         ix_price_min := ix_price_min mirror, ix_status := ix_status mirror, ix_featured := ix_featured mirror,
         ix_published_at := ix_published_at mirror, ix_deleted_at := ix_deleted_at mirror\<rparr>"

definition update_with_mirror ::
  "'r platform_env \<Rightarrow> int \<Rightarrow> string \<Rightarrow> (listing \<Rightarrow> listing) \<Rightarrow> ('r, 'z, listing) platform_prog" where
  "update_with_mirror env now property_id f =
     seq (on_listings (mg_find_one (pe_listings env) (\<lambda>d. li_property_id d = property_id))) (\<lambda>found.
       case found of
         None \<Rightarrow> throw (property_not_found property_id)
       | Some before \<Rightarrow>
           seq (on_listings (mg_find_one_and_update (pe_listings env) now (\<lambda>d. li_property_id d = property_id) f))
             (\<lambda>updated.
               case updated of
                 None \<Rightarrow> throw (property_not_found property_id)
               | Some after \<Rightarrow>
                   catch
                     (seq (on_index (tb_update (pe_index env) (\<lambda>r. ix_id r = property_id)
                             (copy_mirror (mirror_of after)))) (\<lambda>_. ret after))
                     (\<lambda>e. seq
                        (catch (on_listings (mg_replace_one (pe_listings env) now
                                  (\<lambda>d. li_property_id d = property_id) before)) (\<lambda>_. ret ()))
                        (\<lambda>_. throw (AppExc (as_app_exception (pe_string_of env) e ''update''))))))"

definition soft_delete_with_mirror :: "'r platform_env \<Rightarrow> int \<Rightarrow> string \<Rightarrow> ('r, 'z, unit) platform_prog" where
  "soft_delete_with_mirror env now property_id =
     seq (on_listings (mg_update_one (pe_listings env) now
            (\<lambda>d. li_property_id d = property_id \<and> li_deleted_at d = None)
            (\<lambda>d. d\<lparr>li_deleted_at := Some now\<rparr>))) (\<lambda>matched.
       if matched = 0 then throw (property_not_found property_id)
       else
         catch
           (seq (on_index (tb_update (pe_index env) (\<lambda>r. ix_id r = property_id)
                   (\<lambda>r. r\<lparr>ix_deleted_at := Some now\<rparr>))) (\<lambda>_. ret ()))
           (\<lambda>e. seq
              (catch (seq (on_listings (mg_update_one (pe_listings env) now (\<lambda>d. li_property_id d = property_id)
                        (\<lambda>d. d\<lparr>li_deleted_at := None\<rparr>))) (\<lambda>_. ret ())) (\<lambda>_. ret ()))
              (\<lambda>_. throw (AppExc (as_app_exception (pe_string_of env) e ''delete'')))))"

section \<open>What the stores promise\<close>

text \<open>A statement that commits, or rejects and leaves the rows as they were.\<close>

definition atomic_table :: "'row table \<Rightarrow> bool" where
  "atomic_table tb \<longleftrightarrow>
     (\<forall>r rows. (\<exists>x. tb_create tb r rows = (Return x, rows @ [r])) \<or> (\<exists>e. tb_create tb r rows = (Throw e, rows))) \<and>
     (\<forall>P f rows. (\<exists>x. tb_update tb P f rows = (Return x, update_where P f rows)) \<or>
        (\<exists>e. tb_update tb P f rows = (Throw e, rows)))"

lemma atomic_createE:
  assumes "atomic_table tb"
  obtains x where "tb_create tb r rows = (Return x, rows @ [r])" | e where "tb_create tb r rows = (Throw e, rows)"
  using assms unfolding atomic_table_def by blast

lemma atomic_updateE:
  assumes "atomic_table tb"
  obtains x where "tb_update tb P f rows = (Return x, update_where P f rows)"
    | e where "tb_update tb P f rows = (Throw e, rows)"
  using assms unfolding atomic_table_def by blast

lemma find_None_update_where: "List.find P rows = None \<Longrightarrow> update_where P f rows = rows"
  by (induction rows) (auto simp: update_where_def split: if_splits)

lemma mem_table_atomic: "atomic_table (mem_table clash)"
  by (auto simp: atomic_table_def mem_table_def find_None_update_where split: option.split)

lemma down_table_atomic: "atomic_table down_table"
  by (simp add: atomic_table_def down_table_def)

definition stores_ok :: "'r platform_env \<Rightarrow> (listing list \<Rightarrow> string) \<Rightarrow> bool" where
  "stores_ok env oid \<longleftrightarrow> collection_ok (listing_schema oid) (pe_listings env) \<and> atomic_table (pe_index env)"

section \<open>The stores stay in step\<close>

fun apart :: "('d \<Rightarrow> 'd \<Rightarrow> bool) \<Rightarrow> 'd list \<Rightarrow> bool" where
  "apart clash [] = True"
| "apart clash (d # ds) = (\<not> list_ex (clash d) ds \<and> apart clash ds)"

definition in_step :: "('r, 'z) platform_scheme \<Rightarrow> bool" where
  "in_step w \<longleftrightarrow> apart listing_clash (db_listings w) \<and> mset (db_index w) = mset (map mirror_of (db_listings w))"

text \<open>What a \<open>$set\<close> of the service does to a document: it keeps the identifiers and leaves the time stamp alone.\<close>

definition set_only :: "(listing \<Rightarrow> listing) \<Rightarrow> bool" where
  "set_only f \<longleftrightarrow>
     (\<forall>d. li_property_id (f d) = li_property_id d \<and> li_mongo_id (f d) = li_mongo_id d) \<and>
     (\<forall>d t. f (d\<lparr>li_updated_at := t\<rparr>) = (f d)\<lparr>li_updated_at := t\<rparr>)"

lemma listing_clash_sym: "listing_clash a b = listing_clash b a"
  by (auto simp: listing_clash_def)

lemma apart_append: "apart listing_clash (ds @ [d]) \<longleftrightarrow> apart listing_clash ds \<and> \<not> list_ex (listing_clash d) ds"
proof (induction ds)
  case (Cons x ds)
  then show ?case using listing_clash_sym [of x d] by auto
qed simp

lemma apart_found:
  "apart listing_clash ds \<Longrightarrow> List.find P ds = Some d \<Longrightarrow> \<not> list_ex (listing_clash d) (remove_first P ds)"
proof (induction ds)
  case (Cons x ds)
  then show ?case
    using listing_clash_sym [of d x] find_SomeD [of P ds d] by (cases "P x") (auto simp: list_ex_iff)
qed simp

lemma remove_first_update:
  "List.find P ds = Some d \<Longrightarrow> P d' \<Longrightarrow> remove_first P (update_first P (\<lambda>_. d') ds) = remove_first P ds"
  by (induction ds) (auto split: if_splits)

lemma update_first_twice:
  "List.find P ds = Some d \<Longrightarrow> P d' \<Longrightarrow> update_first P g (update_first P (\<lambda>_. d') ds) = update_first P (\<lambda>_. g d') ds"
  by (induction ds) (auto split: if_splits)

lemma update_first_cong_found:
  "List.find P ds = Some d \<Longrightarrow> update_first P g ds = update_first P (\<lambda>_. g d) ds"
  by (induction ds) (auto split: if_splits)

lemma update_first_same: "List.find P ds = Some d \<Longrightarrow> update_first P (\<lambda>_. d) ds = ds"
  by (induction ds) (auto split: if_splits)

lemma update_first_None: "List.find P ds = None \<Longrightarrow> update_first P g ds = ds"
  by (induction ds) (auto split: if_splits)

lemma find_update_first:
  "List.find P ds = Some d \<Longrightarrow> P d' \<Longrightarrow> List.find P (update_first P (\<lambda>_. d') ds) = Some d'"
  by (induction ds) (auto split: if_splits)

lemma apart_update_first:
  "apart listing_clash ds \<Longrightarrow> List.find P ds = Some d \<Longrightarrow> \<not> list_ex (listing_clash d') (remove_first P ds) \<Longrightarrow>
     apart listing_clash (update_first P (\<lambda>_. d') ds)"
proof (induction ds)
  case (Cons x ds)
  show ?case
  proof (cases "P x")
    case True
    with Cons.prems show ?thesis by simp
  next
    case False
    have "list_ex (listing_clash x) (update_first P (\<lambda>_. d') ds) \<Longrightarrow> list_ex (listing_clash x) ds \<or> listing_clash x d'"
      by (induction ds) (auto split: if_splits)
    with False Cons show ?thesis using listing_clash_sym [of d' x] by auto
  qed
qed simp

lemma clash_same_keys:
  "li_property_id d' = li_property_id d \<Longrightarrow> li_slug d' = li_slug d \<Longrightarrow> li_reference_no d' = li_reference_no d \<Longrightarrow>
     li_mongo_id d' = li_mongo_id d \<Longrightarrow> listing_clash d' = listing_clash d"
  by (auto simp: listing_clash_def fun_eq_iff)

lemma mirror_of_id [simp]: "ix_id (mirror_of d) = li_property_id d"
  by (simp add: mirror_of_def)

text \<open>The row update, seen through the documents.\<close>

lemma mirror_update_rows:
  assumes "apart listing_clash ds" and "List.find (\<lambda>d. li_property_id d = i) ds = Some d"
    and "mirror_of d' = g (mirror_of d)"
  shows "map mirror_of (update_first (\<lambda>d. li_property_id d = i) (\<lambda>_. d') ds) =
    update_where (\<lambda>r. ix_id r = i) g (map mirror_of ds)"
  using assms
proof (induction ds)
  case (Cons x ds)
  show ?case
  proof (cases "li_property_id x = i")
    case True
    have "\<forall>y\<in>set ds. li_property_id y \<noteq> i"
      using Cons.prems(1) True by (auto simp: list_ex_iff listing_clash_def)
    then have "map mirror_of ds = update_where (\<lambda>r. ix_id r = i) g (map mirror_of ds)"
      by (simp add: update_where_def)
    with True Cons.prems show ?thesis by (simp add: update_where_def)
  next
    case False
    with Cons show ?thesis by (simp add: update_where_def)
  qed
qed simp

lemma mset_update_where: "mset rows = mset rows' \<Longrightarrow> mset (update_where P f rows) = mset (update_where P f rows')"
  by (simp add: update_where_def)

lemma update_first_pred:
  assumes "\<And>d. d \<in> set ds \<Longrightarrow> P d \<Longrightarrow> Q d" and "List.find P ds = Some d0" and "apart listing_clash ds"
    and "\<And>a b. Q a \<Longrightarrow> Q b \<Longrightarrow> listing_clash a b"
  shows "update_first P g ds = update_first Q g ds \<and> List.find Q ds = Some d0"
  using assms
proof (induction ds)
  case (Cons x ds)
  show ?case
  proof (cases "P x")
    case True
    then show ?thesis using Cons.prems(1) [of x] Cons.prems(2) by simp
  next
    case False
    with Cons.prems(2) have f: "List.find P ds = Some d0" by simp
    from find_SomeD [OF f] have "P d0" "d0 \<in> set ds" by simp_all
    then have "Q d0" using Cons.prems(1) by simp
    with \<open>d0 \<in> set ds\<close> have "\<not> Q x" using Cons.prems(3,4) by (auto simp: list_ex_iff)
    moreover have "update_first P g ds = update_first Q g ds \<and> List.find Q ds = Some d0"
      using f Cons.prems by (intro Cons.IH) auto
    ultimately show ?thesis using False by simp
  qed
qed simp

section \<open>What each operation does\<close>

lemma remove_first_snoc:
  "List.find P ds = None \<Longrightarrow> P d \<Longrightarrow> remove_first P (ds @ [d]) = ds"
  by (induction ds) (auto split: if_splits)

definition fresh_listing :: "(listing list \<Rightarrow> string) \<Rightarrow> listing list \<Rightarrow> int \<Rightarrow> listing \<Rightarrow> listing" where
  "fresh_listing oid ds now data =
     (listing_cast data)\<lparr>li_mongo_id := oid ds, li_created_at := now, li_updated_at := now\<rparr>"

lemma create_cases:
  assumes ok: "stores_ok env oid"
  obtains (created) doc where
      "create_with_mirror env now data w =
         (Return doc, w\<lparr>db_listings := db_listings w @ [doc], db_index := db_index w @ [mirror_of doc]\<rparr>)"
      "doc = fresh_listing oid (db_listings w) now data" "\<not> list_ex (listing_clash doc) (db_listings w)"
      "listing_valid doc"
  | (rejected) e where "create_with_mirror env now data w = (Throw e, w)"
proof -
  define ds where "ds = db_listings w"
  define doc where "doc = fresh_listing oid ds now data"
  from ok have col: "collection_ok (listing_schema oid) (pe_listings env)" and tab: "atomic_table (pe_index env)"
    by (simp_all add: stores_ok_def)
  have mg: "mg_create (pe_listings env) now data ds =
      (if \<not> listing_valid doc then (Throw mongo_validation_error, ds)
       else if list_ex (listing_clash doc) ds then (Throw mongo_duplicate_error, ds) else (Return doc, ds @ [doc]))"
    using collection_create [OF col refl, of now data ds] by (simp add: doc_def fresh_listing_def)
  show ?thesis
  proof (cases "listing_valid doc \<and> \<not> list_ex (listing_clash doc) ds")
    case False
    then obtain e where "mg_create (pe_listings env) now data ds = (Throw e, ds)"
      using mg by (cases "listing_valid doc") auto
    then have "create_with_mirror env now data w = (Throw e, w)"
      by (simp add: create_with_mirror_def seq_def on_simps ds_def)
    then show ?thesis by (rule rejected)
  next
    case True
    with mg have mg': "mg_create (pe_listings env) now data ds = (Return doc, ds @ [doc])" by simp
    show ?thesis
    proof (cases rule: atomic_createE [OF tab, of "mirror_of doc" "db_index w"])
      case (1 x)
      then have "create_with_mirror env now data w =
          (Return doc, w\<lparr>db_listings := ds @ [doc], db_index := db_index w @ [mirror_of doc]\<rparr>)"
        using mg' by (simp add: create_with_mirror_def seq_def catch_def on_simps ds_def)
      with True show ?thesis unfolding ds_def doc_def by (intro created [OF _ refl]) blast+
    next
      case (2 e)
      have "List.find (\<lambda>d. li_mongo_id d = li_mongo_id doc) ds = None"
        using True by (auto simp: find_None_iff list_ex_iff listing_clash_def)
      then have "remove_first (\<lambda>d. li_mongo_id d = li_mongo_id doc) (ds @ [doc]) = ds"
        by (rule remove_first_snoc) simp
      with 2 mg' have "create_with_mirror env now data w =
          (Throw (AppExc (as_app_exception (pe_string_of env) e ''create'')), w)"
        by (simp add: create_with_mirror_def compensate_def seq_def catch_def on_simps ds_def
            collection_delete [OF col])
      then show ?thesis by (rule rejected)
    qed
  qed
qed

lemma cast_ids [simp]:
  "li_property_id (listing_cast d) = li_property_id d" "li_mongo_id (listing_cast d) = li_mongo_id d"
  "li_updated_at (listing_cast d) = li_updated_at d" "li_deleted_at (listing_cast d) = li_deleted_at d"
  by (simp_all add: listing_cast_def)

lemma update_cases:
  assumes ok: "stores_ok env oid" and ap: "apart listing_clash (db_listings w)" and f: "set_only f"
  obtains (updated) d d' where
      "List.find (\<lambda>d. li_property_id d = i) (db_listings w) = Some d"
      "d' = (listing_cast (f d))\<lparr>li_updated_at := now\<rparr>"
      "\<not> list_ex (listing_clash d') (remove_first (\<lambda>d. li_property_id d = i) (db_listings w))"
      "update_with_mirror env now i f w =
         (Return d', w\<lparr>db_listings := update_first (\<lambda>d. li_property_id d = i) (\<lambda>_. d') (db_listings w),
            db_index := update_where (\<lambda>r. ix_id r = i) (copy_mirror (mirror_of d')) (db_index w)\<rparr>)"
  | (rejected) e where "update_with_mirror env now i f w = (Throw e, w)"
  | (restored) e d where
      "List.find (\<lambda>d. li_property_id d = i) (db_listings w) = Some d"
      "update_with_mirror env now i f w =
         (Throw e, w\<lparr>db_listings := update_first (\<lambda>d. li_property_id d = i) (\<lambda>_. d\<lparr>li_updated_at := now\<rparr>)
            (db_listings w)\<rparr>)"
proof -
  define ds where "ds = db_listings w"
  define P where "P = (\<lambda>d :: listing. li_property_id d = i)"
  from ok have col: "collection_ok (listing_schema oid) (pe_listings env)" and tab: "atomic_table (pe_index env)"
    by (simp_all add: stores_ok_def)
  note steps = update_with_mirror_def seq_def catch_def on_simps ds_def P_def collection_reads [OF col]
  show ?thesis
  proof (cases "List.find P ds")
    case None
    then have "update_with_mirror env now i f w = (Throw (property_not_found i), w)"
      by (simp add: steps)
    then show ?thesis by (rule rejected)
  next
    case (Some d)
    define d' where "d' = (listing_cast (f d))\<lparr>li_updated_at := now\<rparr>"
    from find_SomeD [OF Some] have Pd: "P d" by simp
    have Pd': "P d'" and mid: "li_mongo_id d' = li_mongo_id d"
      using f Pd by (simp_all add: d'_def P_def set_only_def)
    note cases_fu = collection_find_update_Some [OF col Some, of now f, simplified, folded d'_def]
    consider (thrown) e where "mg_find_one_and_update (pe_listings env) now P f ds = (Throw e, ds)"
      | (stored) "\<not> list_ex (listing_clash d') (remove_first P ds)"
          "mg_find_one_and_update (pe_listings env) now P f ds = (Return (Some d'), update_first P (\<lambda>_. d') ds)"
      using cases_fu(1) by blast
    then show ?thesis
    proof cases
      case thrown
      with Some have "update_with_mirror env now i f w = (Throw e, w)" by (simp add: steps)
      then show ?thesis by (rule rejected)
    next
      case stored
      show ?thesis
      proof (cases rule: atomic_updateE [OF tab, of "\<lambda>r. ix_id r = i" "copy_mirror (mirror_of d')" "db_index w"])
        case (1 x)
        then have "update_with_mirror env now i f w =
          (Return d', w\<lparr>db_listings := update_first P (\<lambda>_. d') ds,
             db_index := update_where (\<lambda>r. ix_id r = i) (copy_mirror (mirror_of d')) (db_index w)\<rparr>)"
          using stored(2) Some by (simp add: steps)
        with Some stored(1) show ?thesis unfolding ds_def P_def by (intro updated [of d d']) (simp_all add: d'_def)
      next
        case (2 e)
        let ?ds1 = "update_first P (\<lambda>_. d') ds"
        have "\<not> list_ex (listing_clash d) (remove_first P ?ds1)"
          using apart_found [OF ap [folded ds_def] Some] by (simp add: remove_first_update [OF Some Pd'])
        from collection_replace [OF col, simplified, OF this, of now]
        have rep: "mg_replace_one (pe_listings env) now P d ?ds1 =
            (Return (), update_first P (\<lambda>old. d\<lparr>li_mongo_id := li_mongo_id old, li_updated_at := now\<rparr>) ?ds1)"
          by simp
        have "update_first P (\<lambda>old. d\<lparr>li_mongo_id := li_mongo_id old, li_updated_at := now\<rparr>) ?ds1 =
            update_first P (\<lambda>_. d\<lparr>li_updated_at := now\<rparr>) ds"
          by (simp add: update_first_twice [OF Some Pd'] mid)
        with rep have "mg_replace_one (pe_listings env) now P d ?ds1 =
            (Return (), update_first P (\<lambda>_. d\<lparr>li_updated_at := now\<rparr>) ds)" by simp
        with 2 stored Some have "update_with_mirror env now i f w =
            (Throw (AppExc (as_app_exception (pe_string_of env) e ''update'')),
             w\<lparr>db_listings := update_first P (\<lambda>_. d\<lparr>li_updated_at := now\<rparr>) ds\<rparr>)"
          by (simp add: steps)
        with Some show ?thesis unfolding ds_def P_def by (intro restored) assumption+
      qed
    qed
  qed
qed

lemma clash_deleted: "listing_clash (d\<lparr>li_deleted_at := x\<rparr>) = listing_clash d"
  by (simp add: listing_clash_def fun_eq_iff)

lemma delete_cases:
  assumes ok: "stores_ok env oid" and ap: "apart listing_clash (db_listings w)"
  obtains (deleted) d where
      "List.find (\<lambda>d. li_property_id d = i) (db_listings w) = Some d" "li_deleted_at d = None"
      "soft_delete_with_mirror env now i w =
         (Return (), w\<lparr>db_listings := update_first (\<lambda>d. li_property_id d = i)
              (\<lambda>_. d\<lparr>li_deleted_at := Some now, li_updated_at := now\<rparr>) (db_listings w),
            db_index := update_where (\<lambda>r. ix_id r = i) (\<lambda>r. r\<lparr>ix_deleted_at := Some now\<rparr>) (db_index w)\<rparr>)"
  | (rejected) e where "soft_delete_with_mirror env now i w = (Throw e, w)"
  | (restored) e d where
      "List.find (\<lambda>d. li_property_id d = i) (db_listings w) = Some d"
      "soft_delete_with_mirror env now i w =
         (Throw e, w\<lparr>db_listings := update_first (\<lambda>d. li_property_id d = i) (\<lambda>_. d\<lparr>li_updated_at := now\<rparr>)
            (db_listings w)\<rparr>)"
proof -
  define ds where "ds = db_listings w"
  define P where "P = (\<lambda>d :: listing. li_property_id d = i \<and> li_deleted_at d = None)"
  define Q where "Q = (\<lambda>d :: listing. li_property_id d = i)"
  from ok have col: "collection_ok (listing_schema oid) (pe_listings env)" and tab: "atomic_table (pe_index env)"
    by (simp_all add: stores_ok_def)
  have upd: "mg_update_one (pe_listings env) now R (\<lambda>d. d\<lparr>li_deleted_at := x\<rparr>) xs =
      (Return (if List.find R xs = None then 0 else 1),
       update_first R (\<lambda>d. d\<lparr>li_deleted_at := x, li_updated_at := now\<rparr>) xs)" for R x xs
    by (subst collection_update_one [OF col]) (simp_all add: clash_deleted)
  note steps = soft_delete_with_mirror_def seq_def catch_def on_simps upd
  show ?thesis
  proof (cases "List.find P ds")
    case None
    then have "soft_delete_with_mirror env now i w = (Throw (property_not_found i), w)"
      by (simp add: steps ds_def P_def update_first_None)
    then show ?thesis by (rule rejected)
  next
    case (Some d)
    let ?d' = "d\<lparr>li_deleted_at := Some now, li_updated_at := now\<rparr>"
    from find_SomeD [OF Some] have Qd: "Q d" and del: "li_deleted_at d = None" by (simp_all add: P_def Q_def)
    have PQ: "update_first P g ds = update_first Q g ds \<and> List.find Q ds = Some d" for g
      by (rule update_first_pred [OF _ Some ap [folded ds_def]]) (auto simp: P_def Q_def listing_clash_def)
    from PQ have Qf: "List.find Q ds = Some d" by simp
    have ds1: "update_first P (\<lambda>d. d\<lparr>li_deleted_at := Some now, li_updated_at := now\<rparr>) ds = update_first Q (\<lambda>_. ?d') ds"
      using PQ update_first_cong_found [OF Qf, of "\<lambda>d. d\<lparr>li_deleted_at := Some now, li_updated_at := now\<rparr>"] by simp
    have Qd': "Q ?d'" using Qd by (simp add: Q_def)
    show ?thesis
    proof (cases rule: atomic_updateE [OF tab, of "\<lambda>r. ix_id r = i" "\<lambda>r. r\<lparr>ix_deleted_at := Some now\<rparr>" "db_index w"])
      case (1 x)
      then have "soft_delete_with_mirror env now i w =
         (Return (), w\<lparr>db_listings := update_first Q (\<lambda>_. ?d') ds,
            db_index := update_where (\<lambda>r. ix_id r = i) (\<lambda>r. r\<lparr>ix_deleted_at := Some now\<rparr>) (db_index w)\<rparr>)"
        using Some ds1 by (simp add: steps ds_def [symmetric] P_def [symmetric])
      with Qf del show ?thesis unfolding ds_def Q_def by (intro deleted) assumption+
    next
      case (2 e)
      have eq: "d\<lparr>li_deleted_at := None, li_updated_at := now\<rparr> = d\<lparr>li_updated_at := now\<rparr>"
        using del by (cases d) simp
      have "update_first Q (\<lambda>d. d\<lparr>li_deleted_at := None, li_updated_at := now\<rparr>) (update_first Q (\<lambda>_. ?d') ds) =
          update_first Q (\<lambda>_. d\<lparr>li_updated_at := now\<rparr>) ds"
        by (simp add: update_first_twice [OF Qf Qd'] eq)
      with 2 Some ds1 have "soft_delete_with_mirror env now i w =
          (Throw (AppExc (as_app_exception (pe_string_of env) e ''delete'')),
           w\<lparr>db_listings := update_first Q (\<lambda>_. d\<lparr>li_updated_at := now\<rparr>) ds\<rparr>)"
        by (simp add: steps ds_def [symmetric] P_def [symmetric] Q_def [symmetric])
      with Qf show ?thesis unfolding ds_def Q_def by (intro restored) assumption+
    qed
  qed
qed

section \<open>One atomic store\<close>

datatype mirror_op =
    CreateListing int listing
  | UpdateListing int string "listing \<Rightarrow> listing"
  | DeleteListing int string

primrec run_mirror :: "'r platform_env \<Rightarrow> mirror_op \<Rightarrow> ('r, 'z, unit) platform_prog" where
  "run_mirror env (CreateListing now data) = seq (create_with_mirror env now data) (\<lambda>_. ret ())"
| "run_mirror env (UpdateListing now i f) = seq (update_with_mirror env now i f) (\<lambda>_. ret ())"
| "run_mirror env (DeleteListing now i) = soft_delete_with_mirror env now i"

primrec op_ok :: "mirror_op \<Rightarrow> bool" where
  "op_ok (CreateListing now data) = True"
| "op_ok (UpdateListing now i f) = set_only f"
| "op_ok (DeleteListing now i) = True"

definition unstamped :: "listing \<Rightarrow> listing" where
  "unstamped d = d\<lparr>li_updated_at := 0\<rparr>"

definition catalogue_of :: "listing list \<Rightarrow> string \<Rightarrow> listing option" where
  "catalogue_of ds = map_of (map (\<lambda>d. (li_property_id d, unstamped d)) ds)"

text \<open>
  The contract: a catalogue of listings by their id, with operations that happen whole or not at all.
  The time of the last update is not part of it: an undone write leaves it changed.
\<close>

inductive atomic_step ::
  "mirror_op \<Rightarrow> (string \<Rightarrow> listing option) \<Rightarrow> (exn, unit) outcome \<Rightarrow> (string \<Rightarrow> listing option) \<Rightarrow> bool" where
  step_rejected: "atomic_step op m (Throw e) m"
| step_created: "m (li_property_id data) = None \<Longrightarrow>
     atomic_step (CreateListing now data) m (Return ())
       (m(li_property_id data \<mapsto> unstamped ((listing_cast data)\<lparr>li_mongo_id := oid, li_created_at := now\<rparr>)))"
| step_updated: "m i = Some d \<Longrightarrow>
     atomic_step (UpdateListing now i f) m (Return ()) (m(i \<mapsto> unstamped (listing_cast (f d))))"
| step_deleted: "m i = Some d \<Longrightarrow> li_deleted_at d = None \<Longrightarrow>
     atomic_step (DeleteListing now i) m (Return ()) (m(i \<mapsto> d\<lparr>li_deleted_at := Some now\<rparr>))"

inductive_cases atomic_step_deletedE: "atomic_step (DeleteListing now i) m (Return u) m'"

lemma catalogue_of_find:
  "catalogue_of ds i = map_option unstamped (List.find (\<lambda>d. li_property_id d = i) ds)"
  by (induction ds) (auto simp: catalogue_of_def)

lemma catalogue_of_append:
  "\<not> list_ex (listing_clash d) ds \<Longrightarrow>
     catalogue_of (ds @ [d]) = (catalogue_of ds)(li_property_id d \<mapsto> unstamped d) \<and>
     catalogue_of ds (li_property_id d) = None"
proof (induction ds)
  case Nil
  show ?case by (simp add: catalogue_of_def)
next
  case (Cons x ds)
  then have "li_property_id x \<noteq> li_property_id d" by (auto simp: listing_clash_def)
  with Cons show ?case by (auto simp: catalogue_of_def fun_upd_twist)
qed

lemma catalogue_of_update:
  "List.find (\<lambda>d. li_property_id d = i) ds = Some d \<Longrightarrow> li_property_id d' = i \<Longrightarrow>
     catalogue_of (update_first (\<lambda>d. li_property_id d = i) (\<lambda>_. d') ds) = (catalogue_of ds)(i \<mapsto> unstamped d')"
  by (induction ds) (auto simp: catalogue_of_def fun_upd_twist split: if_splits)

lemma mirror_of_stamp [simp]: "mirror_of (d\<lparr>li_updated_at := t\<rparr>) = mirror_of d"
  by (simp add: mirror_of_def)

lemma copy_mirror_self:
  "li_property_id d' = li_property_id d \<Longrightarrow> li_mongo_id d' = li_mongo_id d \<Longrightarrow>
     copy_mirror (mirror_of d') (mirror_of d) = mirror_of d'"
  by (simp add: copy_mirror_def mirror_of_def)

lemma mirror_of_deleted: "mirror_of (d\<lparr>li_deleted_at := x\<rparr>) = (mirror_of d)\<lparr>ix_deleted_at := x\<rparr>"
  by (simp add: mirror_of_def)

lemma stamp_deleted: "d\<lparr>li_updated_at := t, li_deleted_at := x\<rparr> = d\<lparr>li_deleted_at := x, li_updated_at := t\<rparr>"
  by (cases d) simp

lemma in_step_update:
  assumes "in_step w" and fnd: "List.find (\<lambda>d. li_property_id d = i) (db_listings w) = Some d"
    and "\<not> list_ex (listing_clash d') (remove_first (\<lambda>d. li_property_id d = i) (db_listings w))"
    and "mirror_of d' = g (mirror_of d)"
  shows "in_step (w\<lparr>db_listings := update_first (\<lambda>d. li_property_id d = i) (\<lambda>_. d') (db_listings w),
    db_index := update_where (\<lambda>r. ix_id r = i) g (db_index w)\<rparr>)"
proof -
  from assms(1) have ap: "apart listing_clash (db_listings w)"
    and ms: "mset (db_index w) = mset (map mirror_of (db_listings w))" by (simp_all only: in_step_def)
  from apart_update_first [OF ap fnd assms(3)] mset_update_where [OF ms, of "\<lambda>r. ix_id r = i" g]
    mirror_update_rows [where g = g, OF ap fnd assms(4)]
  show ?thesis unfolding in_step_def by simp
qed

lemma update_where_id: "(\<And>r. P r \<Longrightarrow> f r = r) \<Longrightarrow> update_where P f rows = rows"
  by (simp add: update_where_def map_idI)

lemma in_step_restored:
  assumes "in_step w" and fnd: "List.find (\<lambda>d. li_property_id d = i) (db_listings w) = Some d"
  shows "in_step (w\<lparr>db_listings := update_first (\<lambda>d. li_property_id d = i) (\<lambda>_. d\<lparr>li_updated_at := now\<rparr>) (db_listings w)\<rparr>)"
proof -
  from assms(1) have ap: "apart listing_clash (db_listings w)" by (simp only: in_step_def)
  have "listing_clash (d\<lparr>li_updated_at := now\<rparr>) = listing_clash d" by (rule clash_same_keys) simp_all
  with apart_found [OF ap fnd]
  have "\<not> list_ex (listing_clash (d\<lparr>li_updated_at := now\<rparr>)) (remove_first (\<lambda>d. li_property_id d = i) (db_listings w))"
    by simp
  from in_step_update [OF assms this, of "\<lambda>r. r"] show ?thesis by (simp add: update_where_def)
qed

lemma catalogue_of_restored:
  assumes "List.find (\<lambda>d. li_property_id d = i) ds = Some d"
  shows "catalogue_of (update_first (\<lambda>d. li_property_id d = i) (\<lambda>_. d\<lparr>li_updated_at := now\<rparr>) ds) = catalogue_of ds"
  using find_SomeD [OF assms] catalogue_of_find [of ds i] assms
  by (simp add: catalogue_of_update unstamped_def fun_upd_idem)

lemma mirror_step_refines:
  assumes "stores_ok env oid" and "in_step w" and "op_ok op" and "run_mirror env op w = (out, w')"
  shows "atomic_step op (catalogue_of (db_listings w)) out (catalogue_of (db_listings w')) \<and> in_step w'"
proof (cases op)
  case (CreateListing now data)
  show ?thesis
  proof (cases rule: create_cases [OF assms(1), of now data w])
    case (1 doc)
    from 1(1) assms(4) CreateListing have out: "out = Return ()"
      "w' = w\<lparr>db_listings := db_listings w @ [doc], db_index := db_index w @ [mirror_of doc]\<rparr>"
      by (simp_all add: seq_def)
    have ids: "li_property_id doc = li_property_id data"
      "unstamped doc = unstamped ((listing_cast data)\<lparr>li_mongo_id := oid (db_listings w), li_created_at := now\<rparr>)"
      using 1(2) by (simp_all add: fresh_listing_def unstamped_def)
    have "in_step w'"
      using assms(2) 1(3) by (simp add: in_step_def out apart_append)
    moreover have "atomic_step op (catalogue_of (db_listings w)) out (catalogue_of (db_listings w'))"
      using catalogue_of_append [OF 1(3)] ids step_created [of "catalogue_of (db_listings w)" data now]
      unfolding CreateListing out by simp
    ultimately show ?thesis by simp
  next
    case (2 e)
    with assms(2,4) CreateListing show ?thesis by (auto simp: seq_def intro: step_rejected)
  qed
next
  case (UpdateListing now i f)
  with assms(3) have f: "set_only f" by simp
  from assms(2) have ap: "apart listing_clash (db_listings w)" by (simp only: in_step_def)
  show ?thesis
  proof (cases rule: update_cases [OF assms(1) ap f, of i now])
    case (1 d d')
    from 1(4) assms(4) UpdateListing have out: "out = Return ()"
      "w' = w\<lparr>db_listings := update_first (\<lambda>d. li_property_id d = i) (\<lambda>_. d') (db_listings w),
            db_index := update_where (\<lambda>r. ix_id r = i) (copy_mirror (mirror_of d')) (db_index w)\<rparr>"
      by (simp_all add: seq_def)
    from find_SomeD [OF 1(1)] have i: "li_property_id d = i" by simp
    have ids: "li_property_id d' = li_property_id d" "li_mongo_id d' = li_mongo_id d"
      using f by (simp_all add: 1(2) set_only_def)
    have "in_step w'"
      unfolding out by (rule in_step_update [OF assms(2) 1(1,3)]) (simp add: copy_mirror_self [OF ids])
    moreover have "unstamped d' = unstamped (listing_cast (f (unstamped d)))"
      using f by (simp add: 1(2) unstamped_def set_only_def listing_cast_def)
    then have "atomic_step op (catalogue_of (db_listings w)) out (catalogue_of (db_listings w'))"
      using step_updated [of "catalogue_of (db_listings w)" i "unstamped d" now f]
        catalogue_of_update [OF 1(1), of d'] catalogue_of_find [of "db_listings w" i] 1(1) i ids
      unfolding UpdateListing out by simp
    ultimately show ?thesis by simp
  next
    case (2 e)
    with assms(2,4) UpdateListing show ?thesis by (auto simp: seq_def intro: step_rejected)
  next
    case (3 e d)
    with assms(4) UpdateListing have "out = Throw e"
      "w' = w\<lparr>db_listings := update_first (\<lambda>d. li_property_id d = i) (\<lambda>_. d\<lparr>li_updated_at := now\<rparr>) (db_listings w)\<rparr>"
      by (simp_all add: seq_def)
    with in_step_restored [OF assms(2) 3(1)] catalogue_of_restored [OF 3(1)] show ?thesis
      by (simp add: step_rejected)
  qed
next
  case (DeleteListing now i)
  from assms(2) have ap: "apart listing_clash (db_listings w)" by (simp only: in_step_def)
  show ?thesis
  proof (cases rule: delete_cases [OF assms(1) ap, of i now])
    case (1 d)
    let ?d' = "d\<lparr>li_deleted_at := Some now, li_updated_at := now\<rparr>"
    from 1(3) assms(4) DeleteListing have out: "out = Return ()"
      "w' = w\<lparr>db_listings := update_first (\<lambda>d. li_property_id d = i) (\<lambda>_. ?d') (db_listings w),
            db_index := update_where (\<lambda>r. ix_id r = i) (\<lambda>r. r\<lparr>ix_deleted_at := Some now\<rparr>) (db_index w)\<rparr>"
      by simp_all
    from find_SomeD [OF 1(1)] have i: "li_property_id d = i" by simp
    have "listing_clash ?d' = listing_clash d" by (rule clash_same_keys) simp_all
    with apart_found [OF ap 1(1)]
    have free: "\<not> list_ex (listing_clash ?d') (remove_first (\<lambda>d. li_property_id d = i) (db_listings w))" by simp
    have "in_step w'"
      unfolding out by (rule in_step_update [OF assms(2) 1(1) free]) (simp add: mirror_of_deleted)
    moreover have "atomic_step op (catalogue_of (db_listings w)) out (catalogue_of (db_listings w'))"
      using step_deleted [of "catalogue_of (db_listings w)" i "unstamped d" now]
        catalogue_of_update [OF 1(1), of ?d'] catalogue_of_find [of "db_listings w" i] 1(1,2) i
      unfolding DeleteListing out by (simp add: unstamped_def stamp_deleted)
    ultimately show ?thesis by simp
  next
    case (2 e)
    with assms(2,4) DeleteListing show ?thesis by (auto intro: step_rejected)
  next
    case (3 e d)
    with assms(4) DeleteListing have "out = Throw e"
      "w' = w\<lparr>db_listings := update_first (\<lambda>d. li_property_id d = i) (\<lambda>_. d\<lparr>li_updated_at := now\<rparr>) (db_listings w)\<rparr>"
      by simp_all
    with in_step_restored [OF assms(2) 3(1)] catalogue_of_restored [OF 3(1)] show ?thesis
      by (simp add: step_rejected)
  qed
qed

text \<open>
  C2: the two stores refine one atomic store. Whatever PostgreSQL does, each operation of the service
  is a step of the contract on the documents by id, with the same outcome, and leaves the row of every
  listing the mirror of its document.
\<close>

theorem mirror_refines_atomic_store:
  assumes "stores_ok env oid" and "in_step w" and "op_ok op" and "run_mirror env op w = (out, w')"
  shows "atomic_step op (catalogue_of (db_listings w)) out (catalogue_of (db_listings w')) \<and> in_step w'"
  using assms by (rule mirror_step_refines)

lemma mem_oid_Nil: "mem_oid [] = ''o0''"
  by code_simp

lemma demo_listing_facts [simp]:
  "listing_valid (demo_listing\<lparr>li_created_at := t, li_updated_at := t\<rparr>)"
  "fresh_listing mem_oid [] t demo_listing = demo_listing\<lparr>li_created_at := t, li_updated_at := t\<rparr>"
  by (simp_all add: demo_listing_def listing_valid_def text_valid_def price_valid_def plan_valid_def specs_valid_def
      location_valid_def compound_valid_def developer_valid_def media_valid_def stats_valid_def is_iso_date_def
      PROPERTY_TYPES_def SALE_TYPES_def FINISHING_TYPES_def CURRENCIES_def fresh_listing_def listing_cast_def
      text_cast_def location_cast_def compound_cast_def developer_cast_def mem_oid_Nil to_lower_def char_lower_def
      trim_def trim_start_def trim_end_def js_space_def is_digit_def)

lemma mem_stores_ok: "stores_ok mem_platform mem_oid"
  by (simp add: stores_ok_def mem_table_atomic)

lemma down_stores_ok: "stores_ok (mem_platform\<lparr>pe_index := down_table\<rparr>) mem_oid"
  by (simp add: stores_ok_def down_table_atomic)

lemma empty_in_step [simp]: "in_step empty_platform"
  by (simp add: in_step_def)

text \<open>Witness of C1: a listing is created while PostgreSQL is down, and neither store shows it.\<close>

theorem mirror_refines_atomic_store_witness:
  "\<exists>e. run_mirror (mem_platform\<lparr>pe_index := down_table\<rparr>) (CreateListing 5 demo_listing) empty_platform =
       (Throw e, empty_platform) \<and>
     atomic_step (CreateListing 5 demo_listing) (catalogue_of (db_listings empty_platform)) (Throw e)
       (catalogue_of (db_listings empty_platform)) \<and> in_step empty_platform"
proof -
  have run: "run_mirror (mem_platform\<lparr>pe_index := down_table\<rparr>) (CreateListing 5 demo_listing) empty_platform =
      (Throw (AppExc (as_app_exception (\<lambda>_. []) down_error ''create'')), empty_platform)"
    by (simp add: create_with_mirror_def compensate_def seq_def catch_def on_simps mem_collection_def
        fresh_listing_def [symmetric] mem_platform_def down_table_def empty_platform_def Let_def)
  from mirror_refines_atomic_store [OF down_stores_ok empty_in_step _ run] run show ?thesis by auto
qed

section \<open>Runs\<close>

text \<open>Any sequence of operations, whatever PostgreSQL does to each.\<close>

inductive mirror_run :: "'r platform_env \<Rightarrow> ('r, 'z) platform_scheme \<Rightarrow> ('r, 'z) platform_scheme \<Rightarrow> bool" for env where
  run_none: "mirror_run env w w"
| run_op: "mirror_run env w w' \<Longrightarrow> op_ok op \<Longrightarrow> mirror_run env w (snd (run_mirror env op w'))"

text \<open>
  After any run, the rows of \<open>property_index\<close> are exactly the mirrors of the documents.
\<close>

theorem stores_stay_in_step:
  assumes "stores_ok env oid" and "in_step w" and "mirror_run env w w'"
  shows "mset (db_index w') = mset (map mirror_of (db_listings w')) \<and>
    distinct (map li_property_id (db_listings w'))"
proof -
  have "in_step w'"
    using assms(3,2)
  proof (induction rule: mirror_run.induct)
    case (run_op w w' op)
    then show ?case
      using mirror_step_refines [OF assms(1), of w' op] by (cases "run_mirror env op w'") simp
  qed
  moreover have "apart listing_clash ds \<Longrightarrow> distinct (map li_property_id ds)" for ds
    by (induction ds) (auto simp: list_ex_iff listing_clash_def)
  ultimately show ?thesis by (simp add: in_step_def)
qed

theorem stores_stay_in_step_witness:
  "\<exists>w'. mirror_run mem_platform empty_platform w' \<and> db_listings w' \<noteq> [] \<and>
     mset (db_index w') = mset (map mirror_of (db_listings w')) \<and> distinct (map li_property_id (db_listings w'))"
proof -
  let ?w = "snd (run_mirror mem_platform (CreateListing 5 demo_listing) empty_platform)"
  have run: "mirror_run mem_platform empty_platform ?w"
    by (rule run_op [OF run_none]) simp
  have "db_listings ?w \<noteq> []"
    by (simp add: create_with_mirror_def seq_def catch_def on_simps mem_collection_def
        fresh_listing_def [symmetric] mem_platform_def mem_table_def empty_platform_def Let_def)
  with run stores_stay_in_step [OF mem_stores_ok empty_in_step run] show ?thesis by blast
qed

end
