(* ===== verification/Catalogue.thy ===== *)
theory Catalogue
  imports World
begin

text \<open>
  What the catalogue services share: the validators of \<open>class-validator\<close> and the transforms their request
  classes declare, ordering and paging of a query, the list cache and its invalidation, the generation of
  a free slug, and the requests to the search service (\<open>modules/properties/search-index.client.ts\<close>).
\<close>

section \<open>Validators and transforms of request classes\<close>

text \<open>
  A field under \<open>@IsInt\<close> is an \<open>int\<close>, one under \<open>@IsOptional\<close> an option (\<open>null\<close> is not told apart from
  absence). The validators of the library that are not plain comparisons are parameters.
\<close>

record validators =
  vd_uuid :: "string \<Rightarrow> bool"
  vd_url :: "string \<Rightarrow> bool"
  vd_date :: "string \<Rightarrow> bool"
  vd_email :: "string \<Rightarrow> bool"

definition opt_ok :: "('a \<Rightarrow> bool) \<Rightarrow> 'a option \<Rightarrow> bool" where
  "opt_ok p x = (case x of None \<Rightarrow> True | Some v \<Rightarrow> p v)"

lemma opt_ok_simps [simp]: "opt_ok p None" "opt_ok p (Some v) = p v"
  by (simp_all add: opt_ok_def)

text \<open>\<open>@Transform(trim)\<close>, \<open>@IsString\<close>, \<open>@MaxLength(n)\<close>, and the same with \<open>@IsNotEmpty\<close>.\<close>

definition trimmed :: "nat \<Rightarrow> string \<Rightarrow> bool" where
  "trimmed n s \<longleftrightarrow> trim s = s \<and> length s \<le> n"

definition filled :: "nat \<Rightarrow> string \<Rightarrow> bool" where
  "filled n s \<longleftrightarrow> trimmed n s \<and> s \<noteq> []"

definition between :: "int \<Rightarrow> int \<Rightarrow> int \<Rightarrow> bool" where
  "between lo hi n \<longleftrightarrow> lo \<le> n \<and> n \<le> hi"

definition latitude :: "rat \<Rightarrow> bool" where
  "latitude x \<longleftrightarrow> - 90 \<le> x \<and> x \<le> 90"

definition longitude :: "rat \<Rightarrow> bool" where
  "longitude x \<longleftrightarrow> - 180 \<le> x \<and> x \<le> 180"

definition dto_trim :: "js_value \<Rightarrow> js_value" where
  "dto_trim v = (case v of JStr s \<Rightarrow> JStr (trim s) | _ \<Rightarrow> v)"

definition dto_to_boolean :: "js_value \<Rightarrow> js_value" where
  "dto_to_boolean v =
     (if is_boolean v then v
      else if v = JStr ''true'' \<or> v = JStr ''1'' then JBool True
      else if v = JStr ''false'' \<or> v = JStr ''0'' then JBool False
      else v)"

definition dto_to_array :: "js_value \<Rightarrow> js_value" where
  "dto_to_array v =
     (if is_array v then v
      else case v of
          JStr s \<Rightarrow> JArr (map JStr (filter (\<lambda>part. part \<noteq> []) (map trim (split_on CHR '','' s))))
        | _ \<Rightarrow> v)"

definition dto_to_numbers :: "(js_value \<Rightarrow> js_num) \<Rightarrow> js_value \<Rightarrow> js_value" where
  "dto_to_numbers number v =
     (case dto_to_array v of JArr entries \<Rightarrow> JArr (map (\<lambda>e. JNum (number e)) entries) | w \<Rightarrow> w)"

definition ascii_letter :: "char \<Rightarrow> bool" where
  "ascii_letter c \<longleftrightarrow> (let n = (of_char c :: nat) in (65 \<le> n \<and> n \<le> 90) \<or> (97 \<le> n \<and> n \<le> 122))"

text \<open>The pattern \<open>^-?[A-Za-z][A-Za-z0-9_.]*$\<close> of \<open>PaginationQueryDto.sort\<close>, and the whole class.\<close>

definition sort_text :: "string \<Rightarrow> bool" where
  "sort_text s \<longleftrightarrow> (let body = (case s of c # rest \<Rightarrow> if c = CHR ''-'' then rest else s | [] \<Rightarrow> s)
     in body \<noteq> [] \<and> ascii_letter (hd body) \<and>
        (\<forall>c\<in>set body. ascii_letter c \<or> is_digit c \<or> c = CHR ''_'' \<or> c = CHR ''.''))"

definition page_query_ok :: "('a pagination_query_scheme) \<Rightarrow> bool" where
  "page_query_ok q \<longleftrightarrow> 1 \<le> pq_page q \<and> 1 \<le> pq_limit q \<and> pq_limit q \<le> max_page_size \<and> opt_ok sort_text (pq_sort q)"

section \<open>Queries as cache keys\<close>

text \<open>The own properties of a query object; the getters \<open>skip\<close> and \<open>take\<close> are not among them.\<close>

definition js_of_int :: "int \<Rightarrow> js_value" where
  "js_of_int n = JNum (Fin (of_int n))"

definition opt_prop :: "string \<Rightarrow> ('a \<Rightarrow> js_value) \<Rightarrow> 'a option \<Rightarrow> (string \<times> js_value) list" where
  "opt_prop name f x = (case x of None \<Rightarrow> [] | Some v \<Rightarrow> [(name, f v)])"

definition page_props :: "('a pagination_query_scheme) \<Rightarrow> (string \<times> js_value) list" where
  "page_props q = [(''page'', js_of_int (pq_page q)), (''limit'', js_of_int (pq_limit q))] @
     opt_prop ''sort'' JStr (pq_sort q)"

definition entity_query :: "string \<Rightarrow> (string \<times> js_value) list \<Rightarrow> js_value" where
  "entity_query entity props = JObj PlainObject ((''entity'', JStr entity) # props)"

section \<open>Ordering and paging\<close>

text \<open>
  \<open>orderBy: { field: direction }\<close> in PostgreSQL: a null sorts after every value in ascending order, and
  before it in descending order. Text is compared by the database's collation, a parameter.
\<close>

datatype sort_value = NullValue | NumValue rat | TextValue string

fun value_le :: "(string \<Rightarrow> string \<Rightarrow> bool) \<Rightarrow> sort_value \<Rightarrow> sort_value \<Rightarrow> bool" where
  "value_le collate _ NullValue = True"
| "value_le collate NullValue _ = False"
| "value_le collate (NumValue a) (NumValue b) = (a \<le> b)"
| "value_le collate (TextValue a) (TextValue b) = collate a b"
| "value_le collate (NumValue a) (TextValue b) = True"
| "value_le collate (TextValue a) (NumValue b) = False"

definition order_by ::
  "(string \<Rightarrow> string \<Rightarrow> bool) \<Rightarrow> parsed_sort \<Rightarrow> ('row \<Rightarrow> string \<Rightarrow> sort_value) \<Rightarrow> 'row \<Rightarrow> 'row \<Rightarrow> bool" where
  "order_by collate s fld a b =
     (case ps_direction s of
        Asc \<Rightarrow> value_le collate (fld a (ps_field s)) (fld b (ps_field s))
      | Desc \<Rightarrow> value_le collate (fld b (ps_field s)) (fld a (ps_field s)))"

definition opt_num :: "int option \<Rightarrow> sort_value" where
  "opt_num x = (case x of None \<Rightarrow> NullValue | Some n \<Rightarrow> NumValue (of_int n))"

definition find_page ::
  "'row table \<Rightarrow> ('row \<Rightarrow> bool) \<Rightarrow> ('row \<Rightarrow> 'row \<Rightarrow> bool) \<Rightarrow> int \<Rightarrow> int \<Rightarrow> ('row list, exn, 'row list) prog" where
  "find_page tb P le skip limit =
     seq (tb_find_many tb P) (\<lambda>rows. ret (take (nat limit) (drop (nat skip) (sort_by le rows))))"

text \<open>\<open>findMany\<close> and \<open>count\<close> of a list endpoint, and the page they make.\<close>

definition list_page ::
  "'row table \<Rightarrow> ('row \<Rightarrow> bool) \<Rightarrow> ('row \<Rightarrow> 'row \<Rightarrow> bool) \<Rightarrow> ('a pagination_query_scheme) \<Rightarrow>
   ('row list, exn, 'row page) prog" where
  "list_page tb P le q =
     seq (find_page tb P le ((pq_page q - 1) * pq_limit q) (pq_limit q)) (\<lambda>data.
     seq (tb_count tb P) (\<lambda>n. ret (paginate data (of_nat n) (query_input q))))"

lemma list_page_eq:
  assumes "table_ok clash tb"
  shows "list_page tb P le q rows =
    (Return (paginate (page_rows (sort_by le (filter P rows)) (pq_page q) (pq_limit q))
       (of_nat (length (filter P rows))) (query_input q)), rows)"
  by (simp add: list_page_def find_page_def seq_def table_okD [OF assms] page_rows_def)

text \<open>\<open>contains\<close>, \<open>equals\<close> with \<open>mode: 'insensitive'\<close>.\<close>

definition contains_ci :: "'r platform_env \<Rightarrow> string \<Rightarrow> string \<Rightarrow> bool" where
  "contains_ci env s t = js_includes (pe_fold env s) (pe_fold env t)"

definition equals_ci :: "'r platform_env \<Rightarrow> string \<Rightarrow> string \<Rightarrow> bool" where
  "equals_ci env s t \<longleftrightarrow> pe_fold env s = pe_fold env t"

text \<open>A filter that is left out when its parameter is absent or the empty string.\<close>

definition if_given :: "(string \<Rightarrow> bool) \<Rightarrow> string option \<Rightarrow> bool" where
  "if_given p x = (case x of None \<Rightarrow> True | Some s \<Rightarrow> s = [] \<or> p s)"

text \<open>\<open>...(x !== undefined ? { column: x } : {})\<close> in a partial update: a field left out keeps its value.\<close>

definition set_if :: "'a option \<Rightarrow> 'a \<Rightarrow> 'a" where
  "set_if x old = (case x of None \<Rightarrow> old | Some v \<Rightarrow> v)"

definition set_if_opt :: "'a option \<Rightarrow> 'a option \<Rightarrow> 'a option" where
  "set_if_opt x old = (case x of None \<Rightarrow> old | Some v \<Rightarrow> Some v)"

text \<open>The aggregate \<open>_min\<close> and \<open>_max\<close> of a column, null over no rows.\<close>

definition price_range :: "index_row list \<Rightarrow> (int \<times> int) option" where
  "price_range rows =
     (case map ix_price_min rows of
        [] \<Rightarrow> None
      | p # ps \<Rightarrow> Some (foldr min ps p, foldr max ps p))"

section \<open>The list cache\<close>

definition cached_list ::
  "'v codec \<Rightarrow> 'r platform_env \<Rightarrow> int \<Rightarrow> js_value \<Rightarrow> rat \<Rightarrow> ('r, 'z, 'v) platform_prog \<Rightarrow>
   ('r, 'z, 'v option) platform_prog" where
  "cached_list cd env now query ttl factory =
     cache_wrap cd (pe_redis env) sw_cache sw_cache_update now (list_key (pe_digest env) query) ttl
       (seq factory (\<lambda>v. ret (Some v)))"

definition invalidate_lists :: "'r platform_env \<Rightarrow> int \<Rightarrow> ('r, 'z, unit) platform_prog" where
  "invalidate_lists env now =
     seq (on_cache (cache_del_by_pattern (pe_redis env) now list_pattern 250)) (\<lambda>_. ret ())"

section \<open>Free slugs\<close>

text \<open>\<open>buildUniqueSlug\<close> with the \<open>isTaken\<close> of a service, a query that may reject.\<close>

fun first_free_slug ::
  "(string \<Rightarrow> ('w, exn, bool) prog) \<Rightarrow> string \<Rightarrow> nat list \<Rightarrow> ('w, exn, string option) prog" where
  "first_free_slug is_taken base [] = ret None"
| "first_free_slug is_taken base (attempt # attempts) =
     (let candidate = base @ ''-'' @ show_nat attempt
      in seq (is_taken candidate) (\<lambda>taken.
           if \<not> taken then ret (Some candidate) else first_free_slug is_taken base attempts))"

definition unique_slug ::
  "'r platform_env \<Rightarrow> int \<Rightarrow> string \<Rightarrow> (string \<Rightarrow> ('w, exn, bool) prog) \<Rightarrow> string \<Rightarrow> ('w, exn, string) prog" where
  "unique_slug env now desired is_taken fallback =
     (let base = slugify (pe_nfkd env) (Some (map of_char desired)) fallback
      in seq (is_taken base) (\<lambda>taken.
           if \<not> taken then ret base
           else seq (first_free_slug is_taken base [2..<Suc 50]) (\<lambda>candidate.
             case candidate of Some s \<Rightarrow> ret s | None \<Rightarrow> ret (base @ ''-'' @ pe_base36 env now))))"

text \<open>
  A service that can tell which slugs are taken. The probe reads the table and changes nothing; then the
  slug computed is the one \<open>buildUniqueSlug\<close> computes from the table as it is.
\<close>

locale slug_probe =
  fixes ready :: "'e \<Rightarrow> bool"
    and probe :: "'e \<Rightarrow> string \<Rightarrow> ('w, exn, bool) prog"
    and taken :: "'e \<Rightarrow> 'w \<Rightarrow> string \<Rightarrow> bool"
  assumes probe_reads: "ready e \<Longrightarrow> probe e c w = (Return (taken e w c), w)"
begin

lemma first_free_slug_eq:
  "ready e \<Longrightarrow> first_free_slug (probe e) base ns w = (Return (first_free (taken e w) base ns), w)"
  by (induction ns) (simp_all add: seq_def probe_reads Let_def)

lemma unique_slug_eq:
  assumes "ready e"
  shows "unique_slug env now desired (probe e) fallback w =
    (Return (build_unique_slug (pe_nfkd env) (pe_base36 env now) (Some (map of_char desired)) (taken e w) fallback 50), w)"
  using assms
  by (simp add: unique_slug_def build_unique_slug_def seq_def probe_reads first_free_slug_eq Let_def
      del: upt_Suc upt_rec_numeral split: option.split)

end

section \<open>The search service\<close>

definition search_call :: "'r platform_env \<Rightarrow> string \<Rightarrow> string \<Rightarrow> js_value \<Rightarrow> ('r, 'z, unit) platform_prog" where
  "search_call env verb path body =
     catch
       (seq (on_requests (pe_fetch env \<lparr>sr_method = verb, sr_path = path, sr_body = body\<rparr>)) (\<lambda>status. ret ()))
       (\<lambda>_. ret ())"

definition index_property :: "'r platform_env \<Rightarrow> string \<Rightarrow> ('r, 'z, unit) platform_prog" where
  "index_property env property_id =
     search_call env ''POST'' (''/api/search/index/'' @ pe_encode_uri env property_id) Undefined"

definition remove_property :: "'r platform_env \<Rightarrow> string \<Rightarrow> ('r, 'z, unit) platform_prog" where
  "remove_property env property_id =
     search_call env ''DELETE'' (''/api/search/index/'' @ pe_encode_uri env property_id) Undefined"

definition reindex :: "'r platform_env \<Rightarrow> string list option \<Rightarrow> ('r, 'z, unit) platform_prog" where
  "reindex env ids =
     search_call env ''POST'' ''/api/search/reindex''
       (case ids of
          Some (i # is) \<Rightarrow> JObj PlainObject [(''ids'', JArr (map JStr (i # is)))]
        | _ \<Rightarrow> JObj PlainObject [(''full'', JBool True)])"

text \<open>A search outage never fails a write.\<close>

lemma search_call_never_throws: "fst (search_call env verb path body w) \<noteq> Throw e"
  unfolding search_call_def by (rule catch_ret_no_Throw)

end
