(* ===== verification/Wp.thy ===== *)
theory Wp
  imports Catalogue
begin

text \<open>
  Weakest preconditions of programs, as equations the simplifier can run: \<open>wp m Q E w\<close> says that \<open>m\<close>
  from \<open>w\<close> settles, with \<open>Q\<close> of the result and state when it resolves and \<open>E\<close> of the error and state
  when it rejects. An invariant of an operation is then the simplification of one such statement. The
  equations of the database calls hold under \<open>table_ok\<close> and \<open>collection_ok\<close>, those of the cache calls
  under \<open>redis_ok\<close>.
\<close>

named_theorems wp_simps \<open>weakest preconditions of programs\<close>

definition wp ::
  "('w, 'e, 'a) prog \<Rightarrow> ('a \<Rightarrow> 'w \<Rightarrow> bool) \<Rightarrow> ('e \<Rightarrow> 'w \<Rightarrow> bool) \<Rightarrow> 'w \<Rightarrow> bool" where
  "wp m Q E w \<longleftrightarrow> (case m w of (Return a, w') \<Rightarrow> Q a w' | (Throw e, w') \<Rightarrow> E e w' | (Diverge, w') \<Rightarrow> False)"

text \<open>An operation that settles with the invariant.\<close>

definition keeps :: "('w \<Rightarrow> bool) \<Rightarrow> ('w, 'e, 'a) prog \<Rightarrow> bool" where
  "keeps I m \<longleftrightarrow> (\<forall>w. I w \<longrightarrow> wp m (\<lambda>_. I) (\<lambda>_. I) w)"

lemma wp_ret [wp_simps]: "wp (ret a) Q E = Q a"
  by (simp add: wp_def fun_eq_iff)

lemma wp_Pair [wp_simps]: "wp (Pair (Return a)) Q E = Q a" "wp (Pair (Throw e)) Q E = E e"
  by (simp_all add: wp_def fun_eq_iff)

lemma wp_throw [wp_simps]: "wp (throw e) Q E = E e"
  by (simp add: wp_def fun_eq_iff)

lemma wp_seq [wp_simps]: "wp (seq m f) Q E = wp m (\<lambda>a. wp (f a) Q E) E"
  by (simp add: wp_def fun_eq_iff seq_def split: prod.split outcome.split)

lemma wp_catch [wp_simps]: "wp (catch m h) Q E = wp m Q (\<lambda>e. wp (h e) Q E)"
  by (simp add: wp_def fun_eq_iff catch_def split: prod.split outcome.split)

lemma wp_if [wp_simps]: "wp (if b then m else n) Q E w = (if b then wp m Q E w else wp n Q E w)"
  by simp

lemma wp_case_option [wp_simps]:
  "wp (case x of None \<Rightarrow> m | Some a \<Rightarrow> f a) Q E w = (case x of None \<Rightarrow> wp m Q E w | Some a \<Rightarrow> wp (f a) Q E w)"
  by (cases x) simp_all

lemma wp_Let [wp_simps]: "wp (Let x f) Q E w = (let a = x in wp (f a) Q E w)"
  by (simp add: Let_def)

lemma wp_do_if [wp_simps]: "wp (do_if b m) Q E w = (if b then wp m Q E w else Q () w)"
  by (simp add: do_if_def wp_ret)

lemma wp_eq: "m w = (Return a, w') \<Longrightarrow> wp m Q E w = Q a w'" "m w = (Throw e, w') \<Longrightarrow> wp m Q E w = E e w'"
  by (simp_all add: wp_def)

lemma wp_snd: "wp m (\<lambda>_. I) (\<lambda>_. I) w \<Longrightarrow> I (snd (m w))"
  by (auto simp: wp_def split: prod.splits outcome.splits)

lemma wp_mono:
  assumes "wp m Q E w" and "\<And>a w'. Q a w' \<Longrightarrow> Q' a w'" and "\<And>e w'. E e w' \<Longrightarrow> E' e w'"
  shows "wp m Q' E' w"
  using assms by (auto simp: wp_def split: prod.splits outcome.splits)

lemma wp_Return: "wp m Q E w \<Longrightarrow> m w = (Return a, w') \<Longrightarrow> Q a w'"
  by (simp add: wp_def)

lemma wp_Throw: "wp m Q E w \<Longrightarrow> m w = (Throw e, w') \<Longrightarrow> E e w'"
  by (simp add: wp_def)

lemma keepsI: "(\<And>w. I w \<Longrightarrow> wp m (\<lambda>_. I) (\<lambda>_. I) w) \<Longrightarrow> keeps I m"
  by (simp add: keeps_def)

lemma keepsD: "keeps I m \<Longrightarrow> I w \<Longrightarrow> wp m (\<lambda>_. I) (\<lambda>_. I) w"
  by (simp add: keeps_def)

lemma keeps_snd: "keeps I m \<Longrightarrow> I w \<Longrightarrow> I (snd (m w))"
  by (simp add: keepsD wp_snd)

lemma keeps_ret [intro]: "keeps I (ret a)"
  by (simp add: keeps_def wp_simps)

lemma keeps_throw [intro]: "keeps I (throw e)"
  by (simp add: keeps_def wp_simps)

lemma keeps_seq: "keeps I m \<Longrightarrow> (\<And>a. keeps I (f a)) \<Longrightarrow> keeps I (seq m f)"
  unfolding keeps_def wp_seq by (blast intro: wp_mono)

lemma keeps_seq_all: "(\<And>x. x \<in> set xs \<Longrightarrow> keeps I (f x)) \<Longrightarrow> keeps I (seq_all f xs)"
  by (induction xs) (auto intro: keeps_seq)

section \<open>One table of the state\<close>

lemma wp_part: "wp (part sel upd m) Q E w = wp m (\<lambda>a s. Q a (upd (\<lambda>_. s) w)) (\<lambda>e s. E e (upd (\<lambda>_. s) w)) (sel w)"
  by (simp add: wp_def part_def split: prod.split outcome.split)

lemma wp_on [wp_simps]:
  "wp (on_listings m1) Q1 E1 w = wp m1 (\<lambda>a s. Q1 a (w\<lparr>db_listings := s\<rparr>)) (\<lambda>e s. E1 e (w\<lparr>db_listings := s\<rparr>)) (db_listings w)"
  "wp (on_views m2) Q2 E2 w = wp m2 (\<lambda>a s. Q2 a (w\<lparr>db_views := s\<rparr>)) (\<lambda>e s. E2 e (w\<lparr>db_views := s\<rparr>)) (db_views w)"
  "wp (on_index m3) Q3 E3 w = wp m3 (\<lambda>a s. Q3 a (w\<lparr>db_index := s\<rparr>)) (\<lambda>e s. E3 e (w\<lparr>db_index := s\<rparr>)) (db_index w)"
  "wp (on_areas m4) Q4 E4 w = wp m4 (\<lambda>a s. Q4 a (w\<lparr>db_areas := s\<rparr>)) (\<lambda>e s. E4 e (w\<lparr>db_areas := s\<rparr>)) (db_areas w)"
  "wp (on_developers m5) Q5 E5 w =
     wp m5 (\<lambda>a s. Q5 a (w\<lparr>db_developers := s\<rparr>)) (\<lambda>e s. E5 e (w\<lparr>db_developers := s\<rparr>)) (db_developers w)"
  "wp (on_compounds m6) Q6 E6 w =
     wp m6 (\<lambda>a s. Q6 a (w\<lparr>db_compounds := s\<rparr>)) (\<lambda>e s. E6 e (w\<lparr>db_compounds := s\<rparr>)) (db_compounds w)"
  "wp (on_compound_amenities m7) Q7 E7 w =
     wp m7 (\<lambda>a s. Q7 a (w\<lparr>db_compound_amenities := s\<rparr>)) (\<lambda>e s. E7 e (w\<lparr>db_compound_amenities := s\<rparr>))
       (db_compound_amenities w)"
  "wp (on_payment_plans m8) Q8 E8 w =
     wp m8 (\<lambda>a s. Q8 a (w\<lparr>db_payment_plans := s\<rparr>)) (\<lambda>e s. E8 e (w\<lparr>db_payment_plans := s\<rparr>)) (db_payment_plans w)"
  "wp (on_amenities m9) Q9 E9 w =
     wp m9 (\<lambda>a s. Q9 a (w\<lparr>db_amenities := s\<rparr>)) (\<lambda>e s. E9 e (w\<lparr>db_amenities := s\<rparr>)) (db_amenities w)"
  "wp (on_favorites ma) Qa Ea w =
     wp ma (\<lambda>a s. Qa a (w\<lparr>db_favorites := s\<rparr>)) (\<lambda>e s. Ea e (w\<lparr>db_favorites := s\<rparr>)) (db_favorites w)"
  "wp (on_searches mb) Qb Eb w =
     wp mb (\<lambda>a s. Qb a (w\<lparr>db_searches := s\<rparr>)) (\<lambda>e s. Eb e (w\<lparr>db_searches := s\<rparr>)) (db_searches w)"
  "wp (on_leads mc) Qc Ec w = wp mc (\<lambda>a s. Qc a (w\<lparr>db_leads := s\<rparr>)) (\<lambda>e s. Ec e (w\<lparr>db_leads := s\<rparr>)) (db_leads w)"
  "wp (on_users md) Qd Ed w = wp md (\<lambda>a s. Qd a (w\<lparr>db_users := s\<rparr>)) (\<lambda>e s. Ed e (w\<lparr>db_users := s\<rparr>)) (db_users w)"
  "wp (on_accounts me) Qe Ee w =
     wp me (\<lambda>a s. Qe a (w\<lparr>db_accounts := s\<rparr>)) (\<lambda>e s. Ee e (w\<lparr>db_accounts := s\<rparr>)) (db_accounts w)"
  "wp (on_audit mf) Qf Ef w = wp mf (\<lambda>a s. Qf a (w\<lparr>db_audit := s\<rparr>)) (\<lambda>e s. Ef e (w\<lparr>db_audit := s\<rparr>)) (db_audit w)"
  "wp (on_requests mg) Qg Eg w =
     wp mg (\<lambda>a s. Qg a (w\<lparr>db_requests := s\<rparr>)) (\<lambda>e s. Eg e (w\<lparr>db_requests := s\<rparr>)) (db_requests w)"
  by (simp_all only: on_defs wp_part)

text \<open>The calls of a table, for a table that is \<open>table_ok\<close>.\<close>

lemma wp_table:
  assumes "table_ok clash tb"
  shows "wp (tb_find tb P) Q E rows = Q (List.find P rows) rows"
    "wp (tb_find_many tb P) Qm Em rows = Qm (filter P rows) rows"
    "wp (tb_count tb P) Qc Ec rows = Qc (length (filter P rows)) rows"
    "wp (tb_create tb r) Qr Er rows =
       (if list_ex (clash r) rows then Er (prisma_error ''P2002'') rows else Qr r (rows @ [r]))"
    "wp (tb_update tb P f) Qr Er rows =
       (case List.find P rows of
          None \<Rightarrow> Er (prisma_error ''P2025'') rows
        | Some r \<Rightarrow> if takes_key clash P r (f r) rows then Er (prisma_error ''P2002'') rows
                    else Qr (f r) (update_where P f rows))"
    "wp (tb_update_many tb P f) Qc Ec rows = Qc (length (filter P rows)) (update_where P f rows)"
    "wp (tb_delete tb P) Qr Er rows =
       (case List.find P rows of None \<Rightarrow> Er (prisma_error ''P2025'') rows | Some r \<Rightarrow> Qr r (filter (\<lambda>r. \<not> P r) rows))"
    "wp (tb_delete_many tb P) Qc Ec rows = Qc (length (filter P rows)) (filter (\<lambda>r. \<not> P r) rows)"
  by (simp_all add: wp_def table_okD [OF assms] split: option.split)

lemma wp_collection:
  assumes "collection_ok sc c"
  shows "wp (mg_find_one c P) Q E ds = Q (List.find P ds) ds"
    "wp (mg_find c P le skip limit) Qm Em ds = Qm (take limit (drop skip (sort_by le (filter P ds)))) ds"
    "wp (mg_count c P) Qc Ec ds = Qc (length (filter P ds)) ds"
    "wp (mg_delete_one c P) Qu Eu ds = Qu () (remove_first P ds)"
  by (simp_all add: wp_def collection_reads [OF assms] collection_delete [OF assms])

lemma wp_update_one:
  assumes "collection_ok sc c" and "\<And>d. sc_clash sc (f d) = sc_clash sc d"
  shows "wp (mg_update_one c now P f) Q E ds =
    Q (if List.find P ds = None then 0 else 1) (update_first P (\<lambda>d. sc_stamp sc now (f d)) ds)"
  by (simp add: wp_def collection_update_one [OF assms])

section \<open>The cache\<close>

definition wiped :: "'r platform_env \<Rightarrow> int \<Rightarrow> ('r, 'z) platform_scheme \<Rightarrow> 'r" where
  "wiped env now w = sw_cache (snd (invalidate_lists env now w))"

lemma list_pattern_prefix: "list_pattern = ''cache:list:'' @ ''*''"
  by (simp add: list_pattern_def)

lemma invalidate_lists_eq:
  assumes "redis_ok (pe_redis env) v"
  shows "invalidate_lists env now w = (Return (), w\<lparr>sw_cache := wiped env now w\<rparr>)"
    and "keys_become v now (sw_cache w) (wiped env now w) (\<lambda>_ k y. if starts_with k ''cache:list:'' then None else y)"
proof -
  have "\<forall>c\<in>set ''cache:list:''. \<not> glob_special c" by (simp add: glob_special_def)
  then obtain n s' where del: "cache_del_by_pattern (pe_redis env) now (''cache:list:'' @ ''*'') 250 (sw_cache w) = (Return n, s')"
    and become: "keys_become v now (sw_cache w) s' (\<lambda>_ k y. if starts_with k ''cache:list:'' then None else y)"
    using del_by_pattern_prefix [OF assms, where batch = 250 and t = now and s = "sw_cache w"] by (metis zero_less_numeral)
  have run: "invalidate_lists env now w = (Return (), w\<lparr>sw_cache := s'\<rparr>)"
    unfolding invalidate_lists_def list_pattern_prefix seq_def on_cache_eq using del by simp
  then have "wiped env now w = s'" by (simp add: wiped_def)
  with run become show "invalidate_lists env now w = (Return (), w\<lparr>sw_cache := wiped env now w\<rparr>)"
    "keys_become v now (sw_cache w) (wiped env now w) (\<lambda>_ k y. if starts_with k ''cache:list:'' then None else y)"
    by simp_all
qed

lemma wp_invalidate_lists:
  "redis_ok (pe_redis env) v \<Longrightarrow> wp (invalidate_lists env now) Q E w = Q () (w\<lparr>sw_cache := wiped env now w\<rparr>)"
  by (rule wp_eq(1)) (rule invalidate_lists_eq(1))

lemma wp_on_cache [wp_simps]:
  "wp (on_cache m) Q E w = wp m (\<lambda>a s. Q a (w\<lparr>sw_cache := s\<rparr>)) (\<lambda>e s. E e (w\<lparr>sw_cache := s\<rparr>)) (sw_cache w)"
  by (simp add: on_cache_def wp_part)

lemma wp_fresh_uuid [wp_simps]:
  "wp (fresh_uuid env) Q E w = Q (te_uuid env (sw_uuids w)) (w\<lparr>sw_uuids := Suc (sw_uuids w)\<rparr>)"
  by (simp add: wp_def fresh_uuid_def)

section \<open>Counters kept beside the rows they count\<close>

text \<open>
  A column that stores, for each owner, how many rows belong to it, and the operation that recomputes it
  for one owner. An operation that changes the rows of some owners and then recomputes the counters of
  those owners leaves every counter exact.
\<close>

definition exact_off :: "('k \<Rightarrow> nat) \<Rightarrow> ('k \<times> nat) list \<Rightarrow> 'k set \<Rightarrow> bool" where
  "exact_off tally stored K \<longleftrightarrow> (\<forall>(k, n)\<in>set stored. k \<notin> K \<longrightarrow> n = tally k)"

definition tally :: "('k \<Rightarrow> 'row \<Rightarrow> bool) \<Rightarrow> 'row list \<Rightarrow> 'k \<Rightarrow> nat" where
  "tally owned rows k = length (filter (owned k) rows)"

locale derived_counter =
  fixes ready :: "'e \<Rightarrow> bool"
    and sync :: "'e \<Rightarrow> int \<Rightarrow> 'k \<Rightarrow> ('w, exn, unit) prog"
    and rows :: "'w \<Rightarrow> 'row list"
    and owned :: "'k \<Rightarrow> 'row \<Rightarrow> bool"
    and stored :: "'w \<Rightarrow> ('k \<times> nat) list"
  assumes sync_rows: "ready e \<Longrightarrow> rows (snd (sync e now k w)) = rows w"
    and sync_stored: "ready e \<Longrightarrow>
      stored (snd (sync e now k w)) = map (\<lambda>(k', n). (k', if k' = k then tally owned (rows w) k else n)) (stored w)"
    and sync_settles: "ready e \<Longrightarrow> fst (sync e now k w) \<noteq> Diverge"
    and sync_returns: "ready e \<Longrightarrow> k \<in> fst ` set (stored w) \<Longrightarrow> fst (sync e now k w) = Return ()"
begin

lemma sync_exact:
  assumes "ready e" and "exact_off (tally owned (rows w)) (stored w) K"
  shows "exact_off (tally owned (rows w)) (stored (snd (sync e now k w))) (K - {k})"
  using assms by (auto simp: exact_off_def sync_stored)

lemma sync_keys: "ready e \<Longrightarrow> fst ` set (stored (snd (sync e now k w))) = fst ` set (stored w)"
  by (force simp: sync_stored)

lemma wp_sync:
  assumes "ready e" and "exact_off (tally owned (rows w)) (stored w) K"
    and "\<And>w'. exact_off (tally owned (rows w')) (stored w') (K - {k}) \<Longrightarrow>
      fst ` set (stored w') = fst ` set (stored w) \<Longrightarrow> rows w' = rows w \<Longrightarrow> Q () w'"
    and "\<And>x w'. k \<notin> fst ` set (stored w) \<Longrightarrow> exact_off (tally owned (rows w')) (stored w') (K - {k}) \<Longrightarrow>
      rows w' = rows w \<Longrightarrow> E x w'"
  shows "wp (sync e now k) Q E w"
  unfolding wp_def
  using assms(3) [of "snd (sync e now k w)"] assms(4) [of "snd (sync e now k w)"] sync_exact [OF assms(1,2), of now k]
    sync_keys [OF assms(1), of now k w] sync_settles [OF assms(1), of now k w] sync_returns [OF assms(1), of k w now]
    sync_rows [OF assms(1), of now k w]
  by (auto split: prod.split outcome.split) blast

end

lemma tally_append: "tally owned (rows @ [r]) k = tally owned rows k + (if owned k r then 1 else 0)"
  by (simp add: tally_def)

lemma tally_update_where:
  "(\<And>r. r \<in> set rows \<Longrightarrow> P r \<Longrightarrow> owned k (f r) = owned k r) \<Longrightarrow> tally owned (update_where P f rows) k = tally owned rows k"
  by (induction rows) (auto simp: tally_def update_where_def)

lemma tally_filter:
  "(\<And>r. r \<in> set rows \<Longrightarrow> P r \<Longrightarrow> \<not> owned k r) \<Longrightarrow> tally owned (filter (\<lambda>r. \<not> P r) rows) k = tally owned rows k"
  by (induction rows) (auto simp: tally_def)

section \<open>Operations that only read, and operations on one table\<close>

definition reads_only :: "('w, 'e, 'a) prog \<Rightarrow> bool" where
  "reads_only m \<longleftrightarrow> (\<forall>w. snd (m w) = w \<and> fst (m w) \<noteq> Diverge)"

lemma reads_onlyI:
  assumes "\<And>w. wp m (\<lambda>_ w'. w' = w) (\<lambda>_ w'. w' = w) w"
  shows "reads_only m"
  unfolding reads_only_def
proof
  fix w
  show "snd (m w) = w \<and> fst (m w) \<noteq> Diverge"
    using assms [of w] by (auto simp: wp_def split: prod.splits outcome.splits)
qed

lemma wp_reads: "reads_only m \<Longrightarrow> (\<And>a. Q a w) \<Longrightarrow> (\<And>e. E e w) \<Longrightarrow> wp m Q E w"
  unfolding reads_only_def wp_def by (auto split: prod.split outcome.split) (metis fst_conv snd_conv)+

lemma count_pos: "0 < length (filter P xs) \<longleftrightarrow> (\<exists>x\<in>set xs. P x)"
  by (induction xs) auto

text \<open>The clients together with a view of Redis, when the clients keep their promises.\<close>

definition pair_ready :: "'r platform_env \<times> 'r redis_view \<Rightarrow> bool" where
  "pair_ready ev \<longleftrightarrow> services_ready (fst ev) (snd ev)"

text \<open>The calls of every table of the clients, and the invalidation of the lists.\<close>

lemmas service_wps = wp_table [OF ready_index] wp_table [OF ready_areas] wp_table [OF ready_developers]
  wp_table [OF ready_compounds] wp_table [OF ready_compound_amenities] wp_table [OF ready_payment_plans]
  wp_table [OF ready_amenities] wp_table [OF ready_favorites] wp_table [OF ready_searches] wp_table [OF ready_leads]
  wp_table [OF ready_users] wp_table [OF ready_accounts] wp_table [OF ready_audit]
  wp_invalidate_lists [OF ready_redis]

context slug_probe
begin

lemma wp_unique_slug:
  assumes "ready e"
  shows "wp (unique_slug env now desired (probe e) fallback) Q E w =
    Q (build_unique_slug (pe_nfkd env) (pe_base36 env now) (Some (map of_char desired)) (taken e w) fallback 50) w"
  by (simp add: wp_def unique_slug_eq [OF assms])

end

end
