(* ===== verification/Areas.thy ===== *)
theory Areas
  imports Wp
begin

text \<open>
  Areas: the request classes (\<open>modules/areas/dto/area.dto.ts\<close>) and every operation of \<open>AreasService\<close>
  (\<open>modules/areas/areas.service.ts\<close>).
\<close>

section \<open>Requests\<close>

record list_areas = pagination_query +
  la_q :: "string option"
  la_city :: "string option"
  la_governorate :: "string option"

definition list_areas_ok :: "list_areas \<Rightarrow> bool" where
  "list_areas_ok q \<longleftrightarrow> page_query_ok q \<and> opt_ok (trimmed 160) (la_q q) \<and> opt_ok (trimmed 120) (la_city q) \<and>
     opt_ok (trimmed 120) (la_governorate q)"

record create_area =
  na_name_en :: string
  na_name_ar :: string
  na_slug :: "string option"
  na_city :: string
  na_governorate :: string
  na_description_en :: "string option"
  na_description_ar :: "string option"
  na_lat :: rat
  na_lng :: rat
  na_hero_image :: "string option"
  na_avg_price :: "int option"
  na_active :: "bool option"

definition create_area_ok :: "validators \<Rightarrow> create_area \<Rightarrow> bool" where
  "create_area_ok vd d \<longleftrightarrow> filled 160 (na_name_en d) \<and> filled 160 (na_name_ar d) \<and> opt_ok (trimmed 160) (na_slug d) \<and>
     filled 120 (na_city d) \<and> filled 120 (na_governorate d) \<and>
     opt_ok (\<lambda>s. length s \<le> 4000) (na_description_en d) \<and> opt_ok (\<lambda>s. length s \<le> 4000) (na_description_ar d) \<and>
     latitude (na_lat d) \<and> longitude (na_lng d) \<and> opt_ok (vd_url vd) (na_hero_image d) \<and>
     opt_ok (\<lambda>n. 0 \<le> n) (na_avg_price d)"

text \<open>\<open>PartialType(CreateAreaDto)\<close>.\<close>

record update_area =
  ua_name_en :: "string option"
  ua_name_ar :: "string option"
  ua_slug :: "string option"
  ua_city :: "string option"
  ua_governorate :: "string option"
  ua_description_en :: "string option"
  ua_description_ar :: "string option"
  ua_lat :: "rat option"
  ua_lng :: "rat option"
  ua_hero_image :: "string option"
  ua_avg_price :: "int option"
  ua_active :: "bool option"

section \<open>The service\<close>

definition area_sortable :: "string list" where
  "area_sortable = [''nameEn'', ''city'', ''propertyCount'', ''avgPricePerMeter'', ''createdAt'']"

definition area_field :: "area_row \<Rightarrow> string \<Rightarrow> sort_value" where
  "area_field a f =
     (if f = ''nameEn'' then TextValue (ar_name_en a)
      else if f = ''city'' then TextValue (ar_city a)
      else if f = ''propertyCount'' then NumValue (of_nat (ar_property_count a))
      else if f = ''avgPricePerMeter'' then opt_num (ar_avg_price a)
      else NumValue (of_int (ar_created_at a)))"

definition area_where :: "'r platform_env \<Rightarrow> list_areas \<Rightarrow> area_row \<Rightarrow> bool" where
  "area_where env q a \<longleftrightarrow> ar_active a \<and> if_given (equals_ci env (ar_city a)) (la_city q) \<and>
     if_given (equals_ci env (ar_governorate a)) (la_governorate q) \<and>
     if_given (\<lambda>t. contains_ci env (ar_name_en a) t \<or> js_includes (ar_name_ar a) t) (la_q q)"

definition area_query :: "list_areas \<Rightarrow> js_value" where
  "area_query q = entity_query ''areas'' (page_props q @ opt_prop ''q'' JStr (la_q q) @
     opt_prop ''city'' JStr (la_city q) @ opt_prop ''governorate'' JStr (la_governorate q))"

definition area_list :: "'r platform_env \<Rightarrow> int \<Rightarrow> list_areas \<Rightarrow> ('r, 'z, area_row page option) platform_prog" where
  "area_list env now q =
     cached_list (pe_area_page env) env now (area_query q) ttl_list
       (let srt = parse_sort (pq_sort q) area_sortable \<lparr>ps_field = ''propertyCount'', ps_direction = Desc\<rparr>
        in on_areas (list_page (pe_areas env) (area_where env q) (order_by (pe_collate env) srt area_field) q))"

record area_detail =
  ax_area :: area_row
  ax_compound_count :: nat
  ax_developer_count :: nat
  ax_price_range :: "(int \<times> int) option"

definition area_not_found :: "string \<Rightarrow> exn" where
  "area_not_found i = AppExc (not_found (''Area '' @ quote i @ '' was not found'') AreaNotFoundCode)"

definition area_find_one :: "'r platform_env \<Rightarrow> string \<Rightarrow> ('r, 'z, area_detail) platform_prog" where
  "area_find_one env id_or_slug =
     seq (on_areas (tb_find (pe_areas env)
            (\<lambda>a. if is_uuid id_or_slug then ar_id a = id_or_slug else ar_slug a = id_or_slug))) (\<lambda>found.
       case found of
         None \<Rightarrow> throw (area_not_found id_or_slug)
       | Some area \<Rightarrow>
           seq (on_compounds (tb_count (pe_compounds env) (\<lambda>c. co_area_id c = ar_id area \<and> co_active c))) (\<lambda>n.
           seq (on_compounds (tb_find_many (pe_compounds env) (\<lambda>c. co_area_id c = ar_id area \<and> co_active c))) (\<lambda>cs.
           seq (on_index (tb_find_many (pe_index env)
                  (\<lambda>r. ix_area_id r = Some (ar_id area) \<and> ix_deleted_at r = None))) (\<lambda>rows.
             ret \<lparr>ax_area = area, ax_compound_count = n,
                  ax_developer_count = length (js_unique (map co_developer_id cs)),
                  ax_price_range = price_range rows\<rparr>))))"

definition area_slug_taken :: "'r platform_env \<Rightarrow> string \<Rightarrow> ('r, 'z, bool) platform_prog" where
  "area_slug_taken env candidate =
     seq (on_areas (tb_count (pe_areas env) (\<lambda>a. ar_slug a = candidate))) (\<lambda>n. ret (0 < n))"

definition area_slug_taken_by_other :: "'r platform_env \<Rightarrow> string \<Rightarrow> string \<Rightarrow> ('r, 'z, bool) platform_prog" where
  "area_slug_taken_by_other env i candidate =
     seq (on_areas (tb_count (pe_areas env) (\<lambda>a. ar_slug a = candidate \<and> ar_id a \<noteq> i))) (\<lambda>n. ret (0 < n))"

definition area_create :: "'r platform_env \<Rightarrow> int \<Rightarrow> create_area \<Rightarrow> ('r, 'z, area_row) platform_prog" where
  "area_create env now dto =
     seq (unique_slug env now (case na_slug dto of Some s \<Rightarrow> s | None \<Rightarrow> na_name_en dto) (area_slug_taken env) ''area'')
       (\<lambda>slug.
     seq (fresh_uuid (pe_tokens env)) (\<lambda>uuid.
     seq (on_areas (tb_create (pe_areas env)
           \<lparr>ar_id = uuid, ar_slug = slug, ar_name_en = na_name_en dto, ar_name_ar = na_name_ar dto,
            ar_city = na_city dto, ar_governorate = na_governorate dto,
            ar_description_en = na_description_en dto, ar_description_ar = na_description_ar dto,
            ar_lat = na_lat dto, ar_lng = na_lng dto, ar_hero_image = na_hero_image dto,
            ar_property_count = 0, ar_avg_price = na_avg_price dto,
            ar_active = (case na_active dto of Some b \<Rightarrow> b | None \<Rightarrow> True),
            ar_created_at = now, ar_updated_at = now\<rparr>)) (\<lambda>area.
     seq (invalidate_lists env now) (\<lambda>_. ret area))))"

definition area_ensure_exists :: "'r platform_env \<Rightarrow> string \<Rightarrow> ('r, 'z, unit) platform_prog" where
  "area_ensure_exists env i =
     seq (on_areas (tb_count (pe_areas env) (\<lambda>a. ar_id a = i))) (\<lambda>n.
       if n = 0 then throw (area_not_found i) else ret ())"

definition area_update :: "'r platform_env \<Rightarrow> int \<Rightarrow> string \<Rightarrow> update_area \<Rightarrow> ('r, 'z, area_row) platform_prog" where
  "area_update env now i dto =
     seq (area_ensure_exists env i) (\<lambda>_.
     seq (if ua_slug dto \<noteq> None \<or> ua_name_en dto \<noteq> None
          then seq (unique_slug env now (case ua_slug dto of Some s \<Rightarrow> s | None \<Rightarrow> the (ua_name_en dto))
                 (area_slug_taken_by_other env i) ''area'') (\<lambda>s. ret (Some s))
          else ret None) (\<lambda>slug.
     seq (on_areas (tb_update (pe_areas env) (\<lambda>a. ar_id a = i)
           (\<lambda>a. a\<lparr>ar_slug := set_if slug (ar_slug a), ar_name_en := set_if (ua_name_en dto) (ar_name_en a),
              ar_name_ar := set_if (ua_name_ar dto) (ar_name_ar a), ar_city := set_if (ua_city dto) (ar_city a),
              ar_governorate := set_if (ua_governorate dto) (ar_governorate a),
              ar_description_en := set_if_opt (ua_description_en dto) (ar_description_en a),
              ar_description_ar := set_if_opt (ua_description_ar dto) (ar_description_ar a),
              ar_lat := set_if (ua_lat dto) (ar_lat a), ar_lng := set_if (ua_lng dto) (ar_lng a),
              ar_hero_image := set_if_opt (ua_hero_image dto) (ar_hero_image a),
              ar_avg_price := set_if_opt (ua_avg_price dto) (ar_avg_price a),
              ar_active := set_if (ua_active dto) (ar_active a), ar_updated_at := now\<rparr>))) (\<lambda>area.
     seq (invalidate_lists env now) (\<lambda>_. ret area))))"

definition area_remove :: "'r platform_env \<Rightarrow> int \<Rightarrow> string \<Rightarrow> ('r, 'z, string) platform_prog" where
  "area_remove env now i =
     seq (area_ensure_exists env i) (\<lambda>_.
     seq (on_compounds (tb_count (pe_compounds env) (\<lambda>c. co_area_id c = i))) (\<lambda>compounds.
     seq (if 0 < compounds
          then on_areas (tb_update (pe_areas env) (\<lambda>a. ar_id a = i) (\<lambda>a. a\<lparr>ar_active := False, ar_updated_at := now\<rparr>))
          else on_areas (tb_delete (pe_areas env) (\<lambda>a. ar_id a = i))) (\<lambda>_.
     seq (invalidate_lists env now) (\<lambda>_. ret i))))"

definition sync_property_count :: "'r platform_env \<Rightarrow> int \<Rightarrow> string \<Rightarrow> ('r, 'z, unit) platform_prog" where
  "sync_property_count env now area_id =
     seq (on_index (tb_count (pe_index env) (\<lambda>r. ix_area_id r = Some area_id \<and> ix_deleted_at r = None))) (\<lambda>n.
     seq (on_areas (tb_update (pe_areas env) (\<lambda>a. ar_id a = area_id)
            (\<lambda>a. a\<lparr>ar_property_count := n, ar_updated_at := now\<rparr>))) (\<lambda>_.
       invalidate_lists env now))"

section \<open>Free slugs and exact counts\<close>

definition areas_ready :: "'r platform_env \<Rightarrow> bool" where
  "areas_ready env \<longleftrightarrow> table_ok area_clash (pe_areas env)"

definition area_taken :: "'r platform_env \<Rightarrow> ('r, 'z) platform_scheme \<Rightarrow> string \<Rightarrow> bool" where
  "area_taken env w s \<longleftrightarrow> (\<exists>a\<in>set (db_areas w). ar_slug a = s)"

interpretation area_slugs: slug_probe areas_ready area_slug_taken area_taken
  by unfold_locales
    (simp add: areas_ready_def area_slug_taken_def area_taken_def seq_def on_simps table_okD count_pos [simplified])

definition area_taken_by_other :: "'r platform_env \<times> string \<Rightarrow> ('r, 'z) platform_scheme \<Rightarrow> string \<Rightarrow> bool" where
  "area_taken_by_other ei w s \<longleftrightarrow> (\<exists>x\<in>set (db_areas w). ar_slug x = s \<and> ar_id x \<noteq> snd ei)"

definition pair_area_probe :: "'r platform_env \<times> string \<Rightarrow> string \<Rightarrow> ('r, 'z, bool) platform_prog" where
  "pair_area_probe ei s = area_slug_taken_by_other (fst ei) (snd ei) s"

interpretation area_slugs_other: slug_probe "\<lambda>ei. areas_ready (fst ei)" pair_area_probe area_taken_by_other
  by unfold_locales
    (simp add: areas_ready_def pair_area_probe_def area_slug_taken_by_other_def area_taken_by_other_def
      seq_def on_simps table_okD count_pos [simplified])

text \<open>\<open>propertyCount\<close> of an area counts the live rows of \<open>property_index\<close> in it.\<close>

definition index_in_area :: "string \<Rightarrow> index_row \<Rightarrow> bool" where
  "index_in_area i r \<longleftrightarrow> ix_area_id r = Some i \<and> ix_deleted_at r = None"

definition area_counts :: "('r, 'z) platform_scheme \<Rightarrow> (string \<times> nat) list" where
  "area_counts w = map (\<lambda>a. (ar_id a, ar_property_count a)) (db_areas w)"

definition pair_sync_property_count ::
  "'r platform_env \<times> 'r redis_view \<Rightarrow> int \<Rightarrow> string \<Rightarrow> ('r, 'z, unit) platform_prog" where
  "pair_sync_property_count ev now i = sync_property_count (fst ev) now i"

lemma area_clash_counted [simp]: "area_clash (a\<lparr>ar_property_count := n, ar_updated_at := t\<rparr>) = area_clash a"
  by (simp add: area_clash_def fun_eq_iff)

lemma sync_property_count_eq:
  assumes "services_ready env v"
  defines "n \<equiv> \<lambda>w i. tally index_in_area (db_index w) i"
  shows "sync_property_count env now i w =
    (if List.find (\<lambda>a. ar_id a = i) (db_areas w) = None then (Throw (prisma_error ''P2025''), w)
     else let w1 = w\<lparr>db_areas := update_where (\<lambda>a. ar_id a = i) (\<lambda>a. a\<lparr>ar_property_count := n w i, ar_updated_at := now\<rparr>) (db_areas w)\<rparr>
          in (Return (), w1\<lparr>sw_cache := wiped env now w1\<rparr>))"
  using ready_index [OF assms(1)] ready_areas [OF assms(1)] invalidate_lists_eq(1) [OF ready_redis [OF assms(1)]]
  by (auto simp: sync_property_count_def seq_def on_simps table_okD n_def tally_def index_in_area_def [abs_def] Let_def
      split: option.split)

interpretation area_counter: derived_counter pair_ready pair_sync_property_count db_index index_in_area area_counts
proof
  fix ev :: "'r platform_env \<times> 'r redis_view" and now :: int and i :: string and w :: "('r, 'z) platform_scheme"
  assume "pair_ready ev"
  then have ready: "services_ready (fst ev) (snd ev)" by (simp add: pair_ready_def)
  note eq = pair_sync_property_count_def sync_property_count_eq [OF ready]
  show "db_index (snd (pair_sync_property_count ev now i w)) = db_index w"
    by (simp add: eq Let_def)
  show "fst (pair_sync_property_count ev now i w) \<noteq> Diverge"
    by (simp add: eq Let_def)
  show "i \<in> fst ` set (area_counts w) \<Longrightarrow> fst (pair_sync_property_count ev now i w) = Return ()"
    by (auto simp: eq Let_def area_counts_def find_None_iff)
  show "area_counts (snd (pair_sync_property_count ev now i w)) =
      map (\<lambda>(k', n). (k', if k' = i then tally index_in_area (db_index w) i else n)) (area_counts w)"
    by (auto simp: eq Let_def area_counts_def find_None_iff update_where_def)
qed

end
