(* ===== verification/Developers.thy ===== *)
theory Developers
  imports Wp
begin

text \<open>
  Developers: the request classes (\<open>modules/developers/dto/developer.dto.ts\<close>) and every operation of
  \<open>DevelopersService\<close> (\<open>modules/developers/developers.service.ts\<close>).
\<close>

section \<open>Requests\<close>

record list_developers = pagination_query +
  lv_q :: "string option"
  lv_featured :: "bool option"

definition list_developers_ok :: "list_developers \<Rightarrow> bool" where
  "list_developers_ok q \<longleftrightarrow> page_query_ok q \<and> opt_ok (trimmed 160) (lv_q q)"

record create_developer =
  nd_name :: string
  nd_name_ar :: string
  nd_slug :: "string option"
  nd_logo_url :: "string option"
  nd_cover_url :: "string option"
  nd_description_en :: "string option"
  nd_description_ar :: "string option"
  nd_founded_year :: "int option"
  nd_website :: "string option"
  nd_phone :: "string option"
  nd_featured :: "bool option"
  nd_active :: "bool option"

definition create_developer_ok :: "validators \<Rightarrow> create_developer \<Rightarrow> bool" where
  "create_developer_ok vd d \<longleftrightarrow> filled 160 (nd_name d) \<and> filled 160 (nd_name_ar d) \<and>
     opt_ok (trimmed 160) (nd_slug d) \<and> opt_ok (vd_url vd) (nd_logo_url d) \<and> opt_ok (vd_url vd) (nd_cover_url d) \<and>
     opt_ok (\<lambda>s. length s \<le> 4000) (nd_description_en d) \<and> opt_ok (\<lambda>s. length s \<le> 4000) (nd_description_ar d) \<and>
     opt_ok (between 1800 2100) (nd_founded_year d) \<and> opt_ok (vd_url vd) (nd_website d) \<and>
     opt_ok (trimmed 32) (nd_phone d)"

text \<open>\<open>PartialType(CreateDeveloperDto)\<close>.\<close>

record update_developer =
  uv_name :: "string option"
  uv_name_ar :: "string option"
  uv_slug :: "string option"
  uv_logo_url :: "string option"
  uv_cover_url :: "string option"
  uv_description_en :: "string option"
  uv_description_ar :: "string option"
  uv_founded_year :: "int option"
  uv_website :: "string option"
  uv_phone :: "string option"
  uv_featured :: "bool option"
  uv_active :: "bool option"

section \<open>The service\<close>

definition developer_sortable :: "string list" where
  "developer_sortable = [''name'', ''createdAt'', ''projectsCount'', ''foundedYear'']"

definition developer_field :: "developer_row \<Rightarrow> string \<Rightarrow> sort_value" where
  "developer_field d f =
     (if f = ''name'' then TextValue (dv_name d)
      else if f = ''createdAt'' then NumValue (of_int (dv_created_at d))
      else if f = ''projectsCount'' then NumValue (of_nat (dv_projects_count d))
      else opt_num (dv_founded_year d))"

definition developer_where :: "'r platform_env \<Rightarrow> list_developers \<Rightarrow> developer_row \<Rightarrow> bool" where
  "developer_where env q d \<longleftrightarrow> dv_active d \<and> opt_ok (\<lambda>b. dv_featured d = b) (lv_featured q) \<and>
     if_given (\<lambda>t. contains_ci env (dv_name d) t \<or> js_includes (dv_name_ar d) t) (lv_q q)"

definition developer_query :: "list_developers \<Rightarrow> js_value" where
  "developer_query q = entity_query ''developers'' (page_props q @ opt_prop ''q'' JStr (lv_q q) @
     opt_prop ''isFeatured'' JBool (lv_featured q))"

definition developer_list ::
  "'r platform_env \<Rightarrow> int \<Rightarrow> list_developers \<Rightarrow> ('r, 'z, developer_row page option) platform_prog" where
  "developer_list env now q =
     cached_list (pe_developer_page env) env now (developer_query q) ttl_list
       (let srt = parse_sort (pq_sort q) developer_sortable \<lparr>ps_field = ''name'', ps_direction = Asc\<rparr>
        in on_developers (list_page (pe_developers env) (developer_where env q)
             (order_by (pe_collate env) srt developer_field) q))"

record developer_detail =
  dx_developer :: developer_row
  dx_compound_count :: nat
  dx_property_count :: nat

definition developer_not_found :: "string \<Rightarrow> exn" where
  "developer_not_found i = AppExc (not_found (''Developer '' @ quote i @ '' was not found'') DeveloperNotFoundCode)"

definition developer_find_one :: "'r platform_env \<Rightarrow> string \<Rightarrow> ('r, 'z, developer_detail) platform_prog" where
  "developer_find_one env id_or_slug =
     seq (on_developers (tb_find (pe_developers env)
            (\<lambda>d. if is_uuid id_or_slug then dv_id d = id_or_slug else dv_slug d = id_or_slug))) (\<lambda>found.
       case found of
         None \<Rightarrow> throw (developer_not_found id_or_slug)
       | Some d \<Rightarrow>
           seq (on_compounds (tb_count (pe_compounds env) (\<lambda>c. co_developer_id c = dv_id d \<and> co_active c))) (\<lambda>n.
           seq (on_index (tb_count (pe_index env)
                  (\<lambda>r. ix_developer_id r = Some (dv_id d) \<and> ix_deleted_at r = None))) (\<lambda>m.
             ret \<lparr>dx_developer = d, dx_compound_count = n, dx_property_count = m\<rparr>)))"

definition developer_slug_taken :: "'r platform_env \<Rightarrow> string \<Rightarrow> ('r, 'z, bool) platform_prog" where
  "developer_slug_taken env candidate =
     seq (on_developers (tb_count (pe_developers env) (\<lambda>d. dv_slug d = candidate))) (\<lambda>n. ret (0 < n))"

definition developer_slug_taken_by_other ::
  "'r platform_env \<Rightarrow> string \<Rightarrow> string \<Rightarrow> ('r, 'z, bool) platform_prog" where
  "developer_slug_taken_by_other env i candidate =
     seq (on_developers (tb_count (pe_developers env) (\<lambda>d. dv_slug d = candidate \<and> dv_id d \<noteq> i))) (\<lambda>n. ret (0 < n))"

definition developer_create ::
  "'r platform_env \<Rightarrow> int \<Rightarrow> create_developer \<Rightarrow> ('r, 'z, developer_row) platform_prog" where
  "developer_create env now dto =
     seq (unique_slug env now (case nd_slug dto of Some s \<Rightarrow> s | None \<Rightarrow> nd_name dto) (developer_slug_taken env) ''developer'')
       (\<lambda>slug.
     seq (fresh_uuid (pe_tokens env)) (\<lambda>uuid.
     seq (on_developers (tb_create (pe_developers env)
           \<lparr>dv_id = uuid, dv_slug = slug, dv_name = nd_name dto, dv_name_ar = nd_name_ar dto,
            dv_logo_url = nd_logo_url dto, dv_cover_url = nd_cover_url dto,
            dv_description_en = nd_description_en dto, dv_description_ar = nd_description_ar dto,
            dv_founded_year = nd_founded_year dto, dv_projects_count = 0, dv_website = nd_website dto,
            dv_phone = nd_phone dto, dv_featured = (case nd_featured dto of Some b \<Rightarrow> b | None \<Rightarrow> False),
            dv_active = (case nd_active dto of Some b \<Rightarrow> b | None \<Rightarrow> True),
            dv_created_at = now, dv_updated_at = now\<rparr>)) (\<lambda>d.
     seq (invalidate_lists env now) (\<lambda>_. ret d))))"

definition developer_ensure_exists :: "'r platform_env \<Rightarrow> string \<Rightarrow> ('r, 'z, unit) platform_prog" where
  "developer_ensure_exists env i =
     seq (on_developers (tb_count (pe_developers env) (\<lambda>d. dv_id d = i))) (\<lambda>n.
       if n = 0 then throw (developer_not_found i) else ret ())"

definition developer_update ::
  "'r platform_env \<Rightarrow> int \<Rightarrow> string \<Rightarrow> update_developer \<Rightarrow> ('r, 'z, developer_row) platform_prog" where
  "developer_update env now i dto =
     seq (developer_ensure_exists env i) (\<lambda>_.
     seq (if uv_slug dto \<noteq> None \<or> uv_name dto \<noteq> None
          then seq (unique_slug env now (case uv_slug dto of Some s \<Rightarrow> s | None \<Rightarrow> the (uv_name dto))
                 (developer_slug_taken_by_other env i) ''developer'') (\<lambda>s. ret (Some s))
          else ret None) (\<lambda>slug.
     seq (on_developers (tb_update (pe_developers env) (\<lambda>d. dv_id d = i)
           (\<lambda>d. d\<lparr>dv_slug := set_if slug (dv_slug d), dv_name := set_if (uv_name dto) (dv_name d),
              dv_name_ar := set_if (uv_name_ar dto) (dv_name_ar d),
              dv_logo_url := set_if_opt (uv_logo_url dto) (dv_logo_url d),
              dv_cover_url := set_if_opt (uv_cover_url dto) (dv_cover_url d),
              dv_description_en := set_if_opt (uv_description_en dto) (dv_description_en d),
              dv_description_ar := set_if_opt (uv_description_ar dto) (dv_description_ar d),
              dv_founded_year := set_if_opt (uv_founded_year dto) (dv_founded_year d),
              dv_website := set_if_opt (uv_website dto) (dv_website d),
              dv_phone := set_if_opt (uv_phone dto) (dv_phone d),
              dv_featured := set_if (uv_featured dto) (dv_featured d),
              dv_active := set_if (uv_active dto) (dv_active d), dv_updated_at := now\<rparr>))) (\<lambda>d.
     seq (invalidate_lists env now) (\<lambda>_. ret d))))"

definition developer_remove :: "'r platform_env \<Rightarrow> int \<Rightarrow> string \<Rightarrow> ('r, 'z, string) platform_prog" where
  "developer_remove env now i =
     seq (developer_ensure_exists env i) (\<lambda>_.
     seq (on_compounds (tb_count (pe_compounds env) (\<lambda>c. co_developer_id c = i))) (\<lambda>compounds.
     seq (if 0 < compounds
          then on_developers (tb_update (pe_developers env) (\<lambda>d. dv_id d = i)
                 (\<lambda>d. d\<lparr>dv_active := False, dv_updated_at := now\<rparr>))
          else on_developers (tb_delete (pe_developers env) (\<lambda>d. dv_id d = i))) (\<lambda>_.
     seq (invalidate_lists env now) (\<lambda>_. ret i))))"

definition sync_projects_count :: "'r platform_env \<Rightarrow> int \<Rightarrow> string \<Rightarrow> ('r, 'z, unit) platform_prog" where
  "sync_projects_count env now developer_id =
     seq (on_compounds (tb_count (pe_compounds env) (\<lambda>c. co_developer_id c = developer_id \<and> co_active c))) (\<lambda>n.
     seq (on_developers (tb_update (pe_developers env) (\<lambda>d. dv_id d = developer_id)
            (\<lambda>d. d\<lparr>dv_projects_count := n, dv_updated_at := now\<rparr>))) (\<lambda>_.
       invalidate_lists env now))"

section \<open>Free slugs and exact counts\<close>

definition developers_ready :: "'r platform_env \<Rightarrow> bool" where
  "developers_ready env \<longleftrightarrow> table_ok developer_clash (pe_developers env)"

definition developer_taken :: "'r platform_env \<Rightarrow> ('r, 'z) platform_scheme \<Rightarrow> string \<Rightarrow> bool" where
  "developer_taken env w s \<longleftrightarrow> (\<exists>d\<in>set (db_developers w). dv_slug d = s)"

interpretation developer_slugs: slug_probe developers_ready developer_slug_taken developer_taken
  by unfold_locales
    (simp add: developers_ready_def developer_slug_taken_def developer_taken_def seq_def on_simps table_okD count_pos [simplified])

definition developer_taken_by_other :: "'r platform_env \<times> string \<Rightarrow> ('r, 'z) platform_scheme \<Rightarrow> string \<Rightarrow> bool" where
  "developer_taken_by_other ei w s \<longleftrightarrow> (\<exists>x\<in>set (db_developers w). dv_slug x = s \<and> dv_id x \<noteq> snd ei)"

definition pair_developer_probe :: "'r platform_env \<times> string \<Rightarrow> string \<Rightarrow> ('r, 'z, bool) platform_prog" where
  "pair_developer_probe ei s = developer_slug_taken_by_other (fst ei) (snd ei) s"

interpretation developer_slugs_other: slug_probe "\<lambda>ei. developers_ready (fst ei)" pair_developer_probe developer_taken_by_other
  by unfold_locales
    (simp add: developers_ready_def pair_developer_probe_def developer_slug_taken_by_other_def developer_taken_by_other_def
      seq_def on_simps table_okD count_pos [simplified])

text \<open>\<open>projectsCount\<close> of a developer counts its active compounds.\<close>

definition active_project :: "string \<Rightarrow> compound_row \<Rightarrow> bool" where
  "active_project i c \<longleftrightarrow> co_developer_id c = i \<and> co_active c"

definition developer_counts :: "('r, 'z) platform_scheme \<Rightarrow> (string \<times> nat) list" where
  "developer_counts w = map (\<lambda>d. (dv_id d, dv_projects_count d)) (db_developers w)"

definition pair_sync_projects_count ::
  "'r platform_env \<times> 'r redis_view \<Rightarrow> int \<Rightarrow> string \<Rightarrow> ('r, 'z, unit) platform_prog" where
  "pair_sync_projects_count ev now i = sync_projects_count (fst ev) now i"

lemma developer_clash_counted [simp]: "developer_clash (d\<lparr>dv_projects_count := n, dv_updated_at := t\<rparr>) = developer_clash d"
  by (simp add: developer_clash_def fun_eq_iff)

lemma sync_projects_count_eq:
  assumes "services_ready env v"
  defines "n \<equiv> \<lambda>w i. tally active_project (db_compounds w) i"
  shows "sync_projects_count env now i w =
    (if List.find (\<lambda>d. dv_id d = i) (db_developers w) = None then (Throw (prisma_error ''P2025''), w)
     else let w1 = w\<lparr>db_developers := update_where (\<lambda>d. dv_id d = i)
            (\<lambda>d. d\<lparr>dv_projects_count := n w i, dv_updated_at := now\<rparr>) (db_developers w)\<rparr>
          in (Return (), w1\<lparr>sw_cache := wiped env now w1\<rparr>))"
  using ready_compounds [OF assms(1)] ready_developers [OF assms(1)] invalidate_lists_eq(1) [OF ready_redis [OF assms(1)]]
  by (auto simp: sync_projects_count_def seq_def on_simps table_okD n_def tally_def active_project_def [abs_def] Let_def
      split: option.split)

interpretation developer_counter:
  derived_counter pair_ready pair_sync_projects_count db_compounds active_project developer_counts
proof
  fix ev :: "'r platform_env \<times> 'r redis_view" and now :: int and i :: string and w :: "('r, 'z) platform_scheme"
  assume "pair_ready ev"
  then have ready: "services_ready (fst ev) (snd ev)" by (simp add: pair_ready_def)
  note eq = pair_sync_projects_count_def sync_projects_count_eq [OF ready]
  show "db_compounds (snd (pair_sync_projects_count ev now i w)) = db_compounds w"
    by (simp add: eq Let_def)
  show "fst (pair_sync_projects_count ev now i w) \<noteq> Diverge"
    by (simp add: eq Let_def)
  show "i \<in> fst ` set (developer_counts w) \<Longrightarrow> fst (pair_sync_projects_count ev now i w) = Return ()"
    by (auto simp: eq Let_def developer_counts_def find_None_iff)
  show "developer_counts (snd (pair_sync_projects_count ev now i w)) =
      map (\<lambda>(k', n). (k', if k' = i then tally active_project (db_compounds w) i else n)) (developer_counts w)"
    by (auto simp: eq Let_def developer_counts_def find_None_iff update_where_def)
qed

end
