(* ===== verification/Compounds.thy ===== *)
theory Compounds
  imports Developers Areas
begin

text \<open>
  Compounds: the request classes (\<open>modules/compounds/dto/compound.dto.ts\<close>), every operation of
  \<open>CompoundsService\<close> (\<open>modules/compounds/compounds.service.ts\<close>), and the reference list of amenities
  (\<open>modules/amenities/amenities.module.ts\<close>).
\<close>

section \<open>Requests\<close>

record list_compounds = pagination_query +
  lc_q :: "string option"
  lc_developer_id :: "string option"
  lc_area_id :: "string option"
  lc_min_price :: "int option"
  lc_max_price :: "int option"
  lc_unit_types :: "string list option"
  lc_featured :: "bool option"

definition list_compounds_ok :: "validators \<Rightarrow> list_compounds \<Rightarrow> bool" where
  "list_compounds_ok vd q \<longleftrightarrow> page_query_ok q \<and> opt_ok (trimmed 160) (lc_q q) \<and> opt_ok (vd_uuid vd) (lc_developer_id q) \<and>
     opt_ok (vd_uuid vd) (lc_area_id q) \<and> opt_ok (\<lambda>n. 0 \<le> n) (lc_min_price q) \<and> opt_ok (\<lambda>n. 0 \<le> n) (lc_max_price q) \<and>
     opt_ok (\<lambda>ts. set ts \<subseteq> set PROPERTY_TYPES) (lc_unit_types q)"

record create_compound =
  nc_name :: string
  nc_name_ar :: string
  nc_slug :: "string option"
  nc_developer_id :: string
  nc_area_id :: string
  nc_description_en :: "string option"
  nc_description_ar :: "string option"
  nc_starting_price :: "int option"
  nc_max_price :: "int option"
  nc_min_area :: "int option"
  nc_max_area :: "int option"
  nc_delivery_year :: "int option"
  nc_installment_years :: "int option"
  nc_down_percent :: "int option"
  nc_images :: "string list option"
  nc_master_plan :: "string option"
  nc_lat :: rat
  nc_lng :: rat
  nc_unit_types :: "string list option"
  nc_amenity_ids :: "string list option"
  nc_featured :: "bool option"
  nc_active :: "bool option"

definition create_compound_ok :: "validators \<Rightarrow> create_compound \<Rightarrow> bool" where
  "create_compound_ok vd d \<longleftrightarrow> filled 160 (nc_name d) \<and> filled 160 (nc_name_ar d) \<and> opt_ok (trimmed 160) (nc_slug d) \<and>
     vd_uuid vd (nc_developer_id d) \<and> vd_uuid vd (nc_area_id d) \<and>
     opt_ok (\<lambda>s. length s \<le> 6000) (nc_description_en d) \<and> opt_ok (\<lambda>s. length s \<le> 6000) (nc_description_ar d) \<and>
     opt_ok (\<lambda>n. 0 \<le> n) (nc_starting_price d) \<and> opt_ok (\<lambda>n. 0 \<le> n) (nc_max_price d) \<and>
     opt_ok (\<lambda>n. 0 \<le> n) (nc_min_area d) \<and> opt_ok (\<lambda>n. 0 \<le> n) (nc_max_area d) \<and>
     opt_ok (between 2000 2100) (nc_delivery_year d) \<and> opt_ok (between 0 30) (nc_installment_years d) \<and>
     opt_ok (between 0 100) (nc_down_percent d) \<and>
     opt_ok (\<lambda>is. length is \<le> 20 \<and> (\<forall>i\<in>set is. vd_url vd i)) (nc_images d) \<and> opt_ok (vd_url vd) (nc_master_plan d) \<and>
     latitude (nc_lat d) \<and> longitude (nc_lng d) \<and> opt_ok (\<lambda>ts. set ts \<subseteq> set PROPERTY_TYPES) (nc_unit_types d) \<and>
     opt_ok (\<lambda>is. length is \<le> 40 \<and> (\<forall>i\<in>set is. vd_uuid vd i)) (nc_amenity_ids d)"

text \<open>\<open>PartialType(CreateCompoundDto)\<close>.\<close>

record update_compound =
  uc_name :: "string option"
  uc_name_ar :: "string option"
  uc_slug :: "string option"
  uc_developer_id :: "string option"
  uc_area_id :: "string option"
  uc_description_en :: "string option"
  uc_description_ar :: "string option"
  uc_starting_price :: "int option"
  uc_max_price :: "int option"
  uc_min_area :: "int option"
  uc_max_area :: "int option"
  uc_delivery_year :: "int option"
  uc_installment_years :: "int option"
  uc_down_percent :: "int option"
  uc_images :: "string list option"
  uc_master_plan :: "string option"
  uc_lat :: "rat option"
  uc_lng :: "rat option"
  uc_unit_types :: "string list option"
  uc_amenity_ids :: "string list option"
  uc_featured :: "bool option"
  uc_active :: "bool option"

section \<open>The service\<close>

definition compound_sortable :: "string list" where
  "compound_sortable = [''name'', ''startingPrice'', ''deliveryYear'', ''createdAt'']"

definition compound_field :: "compound_row \<Rightarrow> string \<Rightarrow> sort_value" where
  "compound_field c f =
     (if f = ''name'' then TextValue (co_name c)
      else if f = ''startingPrice'' then opt_num (co_starting_price c)
      else if f = ''deliveryYear'' then opt_num (co_delivery_year c)
      else NumValue (of_int (co_created_at c)))"

text \<open>A bound on a nullable column holds of no null.\<close>

definition price_within :: "int option \<Rightarrow> int option \<Rightarrow> int option \<Rightarrow> bool" where
  "price_within lo hi price \<longleftrightarrow> lo = None \<and> hi = None \<or>
     (case price of None \<Rightarrow> False | Some p \<Rightarrow> opt_ok (\<lambda>n. n \<le> p) lo \<and> opt_ok (\<lambda>n. p \<le> n) hi)"

definition some_of :: "string list option \<Rightarrow> string list \<Rightarrow> bool" where
  "some_of wanted present \<longleftrightarrow> (case wanted of Some (t # ts) \<Rightarrow> list_ex (\<lambda>x. x \<in> set present) (t # ts) | _ \<Rightarrow> True)"

definition compound_where :: "'r platform_env \<Rightarrow> list_compounds \<Rightarrow> compound_row \<Rightarrow> bool" where
  "compound_where env q c \<longleftrightarrow> co_active c \<and> if_given (\<lambda>i. co_developer_id c = i) (lc_developer_id q) \<and>
     if_given (\<lambda>i. co_area_id c = i) (lc_area_id q) \<and> opt_ok (\<lambda>b. co_featured c = b) (lc_featured q) \<and>
     some_of (lc_unit_types q) (co_unit_types c) \<and>
     price_within (lc_min_price q) (lc_max_price q) (co_starting_price c) \<and>
     if_given (\<lambda>t. contains_ci env (co_name c) t \<or> js_includes (co_name_ar c) t) (lc_q q)"

definition compound_query :: "list_compounds \<Rightarrow> js_value" where
  "compound_query q = entity_query ''compounds'' (page_props q @ opt_prop ''q'' JStr (lc_q q) @
     opt_prop ''developerId'' JStr (lc_developer_id q) @ opt_prop ''areaId'' JStr (lc_area_id q) @
     opt_prop ''minPrice'' js_of_int (lc_min_price q) @ opt_prop ''maxPrice'' js_of_int (lc_max_price q) @
     opt_prop ''unitTypes'' (\<lambda>ts. JArr (map JStr ts)) (lc_unit_types q) @
     opt_prop ''isFeatured'' JBool (lc_featured q))"

text \<open>
  \<open>include\<close> joins the developer and the area of a row; both foreign keys are \<open>NOT NULL\<close>. The rows joined
  stand for the columns selected. A join over a missing row is an error of the client.
\<close>

definition inconsistent_error :: exn where
  "inconsistent_error = Thrown (JObj ErrorObject [(''name'', JStr ''PrismaClientUnknownRequestError''),
     (''message'', JStr ''Inconsistent query result'')])"

definition join_developer :: "'r platform_env \<Rightarrow> compound_row \<Rightarrow> ('r, 'z, developer_row) platform_prog" where
  "join_developer env c =
     seq (on_developers (tb_find (pe_developers env) (\<lambda>d. dv_id d = co_developer_id c))) (\<lambda>d.
       case d of None \<Rightarrow> throw inconsistent_error | Some d \<Rightarrow> ret d)"

definition join_area :: "'r platform_env \<Rightarrow> compound_row \<Rightarrow> ('r, 'z, area_row) platform_prog" where
  "join_area env c =
     seq (on_areas (tb_find (pe_areas env) (\<lambda>a. ar_id a = co_area_id c))) (\<lambda>a.
       case a of None \<Rightarrow> throw inconsistent_error | Some a \<Rightarrow> ret a)"

primrec join_all ::
  "'r platform_env \<Rightarrow> compound_row list \<Rightarrow> ('r, 'z, (compound_row \<times> developer_row \<times> area_row) list) platform_prog" where
  "join_all env [] = ret []"
| "join_all env (c # cs) =
     seq (join_developer env c) (\<lambda>d. seq (join_area env c) (\<lambda>a. seq (join_all env cs) (\<lambda>rest. ret ((c, d, a) # rest))))"

definition compound_list ::
  "'r platform_env \<Rightarrow> int \<Rightarrow> list_compounds \<Rightarrow>
   ('r, 'z, (compound_row \<times> developer_row \<times> area_row) page option) platform_prog" where
  "compound_list env now q =
     cached_list (pe_compound_page env) env now (compound_query q) ttl_list
       (let srt = parse_sort (pq_sort q) compound_sortable \<lparr>ps_field = ''name'', ps_direction = Asc\<rparr>
        in seq (on_compounds (list_page (pe_compounds env) (compound_where env q)
                  (order_by (pe_collate env) srt compound_field) q)) (\<lambda>pg.
           seq (join_all env (fst pg)) (\<lambda>joined. ret (joined, snd pg))))"

record compound_detail =
  cx_compound :: compound_row
  cx_developer :: developer_row
  cx_area :: area_row
  cx_amenities :: "amenity_row list"
  cx_payment_plans :: "payment_plan_row list"
  cx_property_count :: nat
  cx_price_range :: "(int \<times> int) option"

definition compound_not_found :: "string \<Rightarrow> exn" where
  "compound_not_found i = AppExc (not_found (''Compound '' @ quote i @ '' was not found'') CompoundNotFoundCode)"

text \<open>\<open>orderBy: [{ isDefault: 'desc' }, { installmentYears: 'asc' }]\<close>.\<close>

definition plan_order :: "payment_plan_row \<Rightarrow> payment_plan_row \<Rightarrow> bool" where
  "plan_order a b \<longleftrightarrow> (if py_default a = py_default b then py_years a \<le> py_years b else py_default a)"

definition compound_find_one :: "'r platform_env \<Rightarrow> string \<Rightarrow> ('r, 'z, compound_detail) platform_prog" where
  "compound_find_one env id_or_slug =
     seq (on_compounds (tb_find (pe_compounds env)
            (\<lambda>c. if is_uuid id_or_slug then co_id c = id_or_slug else co_slug c = id_or_slug))) (\<lambda>found.
       case found of
         None \<Rightarrow> throw (compound_not_found id_or_slug)
       | Some c \<Rightarrow>
           seq (join_developer env c) (\<lambda>d.
           seq (join_area env c) (\<lambda>a.
           seq (on_compound_amenities (tb_find_many (pe_compound_amenities env) (\<lambda>l. ca_compound_id l = co_id c))) (\<lambda>links.
           seq (on_amenities (tb_find_many (pe_amenities env) (\<lambda>m. am_id m \<in> set (map ca_amenity_id links)))) (\<lambda>amenities.
           seq (on_payment_plans (tb_find_many (pe_payment_plans env) (\<lambda>p. py_compound_id p = co_id c))) (\<lambda>plans.
           seq (on_index (tb_count (pe_index env) (\<lambda>r. ix_compound_id r = Some (co_id c) \<and> ix_deleted_at r = None))) (\<lambda>n.
           seq (on_index (tb_find_many (pe_index env) (\<lambda>r. ix_compound_id r = Some (co_id c) \<and> ix_deleted_at r = None))) (\<lambda>rows.
             ret \<lparr>cx_compound = c, cx_developer = d, cx_area = a, cx_amenities = amenities,
                  cx_payment_plans = sort_by plan_order plans, cx_property_count = n,
                  cx_price_range = price_range rows\<rparr>))))))))"

definition assert_relations_exist ::
  "'r platform_env \<Rightarrow> string option \<Rightarrow> string option \<Rightarrow> ('r, 'z, unit) platform_prog" where
  "assert_relations_exist env developer_id area_id =
     seq (case developer_id of
            Some i \<Rightarrow>
              if i = [] then ret ()
              else seq (on_developers (tb_count (pe_developers env) (\<lambda>d. dv_id d = i))) (\<lambda>n.
                if n = 0 then throw (AppExc (bad_request (''Developer '' @ quote i @ '' does not exist'')
                  RelatedResourceNotFoundCode [str_detail ''developerId'' ''unknown developer'' ''exists'']))
                else ret ())
          | None \<Rightarrow> ret ()) (\<lambda>_.
       case area_id of
         Some i \<Rightarrow>
           if i = [] then ret ()
           else seq (on_areas (tb_count (pe_areas env) (\<lambda>a. ar_id a = i))) (\<lambda>n.
             if n = 0 then throw (AppExc (bad_request (''Area '' @ quote i @ '' does not exist'')
               RelatedResourceNotFoundCode [str_detail ''areaId'' ''unknown area'' ''exists'']))
             else ret ())
       | None \<Rightarrow> ret ())"

definition compound_slug_taken :: "'r platform_env \<Rightarrow> string \<Rightarrow> ('r, 'z, bool) platform_prog" where
  "compound_slug_taken env candidate =
     seq (on_compounds (tb_count (pe_compounds env) (\<lambda>c. co_slug c = candidate))) (\<lambda>n. ret (0 < n))"

definition compound_slug_taken_by_other ::
  "'r platform_env \<Rightarrow> string \<Rightarrow> string \<Rightarrow> ('r, 'z, bool) platform_prog" where
  "compound_slug_taken_by_other env i candidate =
     seq (on_compounds (tb_count (pe_compounds env) (\<lambda>c. co_slug c = candidate \<and> co_id c \<noteq> i))) (\<lambda>n. ret (0 < n))"

text \<open>A nested \<open>create\<close> and a \<open>$transaction\<close> commit together: on a rejection the tables are as before.\<close>

definition transaction :: "('w, exn, 'a) prog \<Rightarrow> ('w, exn, 'a) prog" where
  "transaction m = (\<lambda>w. case m w of (Return a, w') \<Rightarrow> (Return a, w') | (Throw e, w') \<Rightarrow> (Throw e, w) | (Diverge, w') \<Rightarrow> (Diverge, w'))"

definition link_amenities :: "'r platform_env \<Rightarrow> string \<Rightarrow> string list \<Rightarrow> ('r, 'z, unit) platform_prog" where
  "link_amenities env i = seq_all (\<lambda>amenity_id.
     seq (on_compound_amenities (tb_create (pe_compound_amenities env)
            \<lparr>ca_compound_id = i, ca_amenity_id = amenity_id\<rparr>)) (\<lambda>_. ret ()))"

definition new_compound :: "int \<Rightarrow> string \<Rightarrow> string \<Rightarrow> create_compound \<Rightarrow> compound_row" where
  "new_compound now uuid slug dto =
     \<lparr>co_id = uuid, co_slug = slug, co_name = nc_name dto, co_name_ar = nc_name_ar dto,
      co_developer_id = nc_developer_id dto, co_area_id = nc_area_id dto,
      co_description_en = nc_description_en dto, co_description_ar = nc_description_ar dto,
      co_starting_price = nc_starting_price dto, co_max_price = nc_max_price dto,
      co_min_area = nc_min_area dto, co_max_area = nc_max_area dto,
      co_delivery_year = nc_delivery_year dto, co_installment_years = nc_installment_years dto,
      co_down_percent = nc_down_percent dto,
      co_images = (case nc_images dto of Some is \<Rightarrow> is | None \<Rightarrow> []),
      co_master_plan = nc_master_plan dto, co_lat = nc_lat dto, co_lng = nc_lng dto,
      co_unit_types = (case nc_unit_types dto of Some ts \<Rightarrow> ts | None \<Rightarrow> []),
      co_featured = (case nc_featured dto of Some b \<Rightarrow> b | None \<Rightarrow> False),
      co_active = (case nc_active dto of Some b \<Rightarrow> b | None \<Rightarrow> True),
      co_created_at = now, co_updated_at = now\<rparr>"

definition compound_create ::
  "'r platform_env \<Rightarrow> int \<Rightarrow> create_compound \<Rightarrow> ('r, 'z, compound_detail) platform_prog" where
  "compound_create env now dto =
     seq (assert_relations_exist env (Some (nc_developer_id dto)) (Some (nc_area_id dto))) (\<lambda>_.
     seq (unique_slug env now (case nc_slug dto of Some s \<Rightarrow> s | None \<Rightarrow> nc_name dto) (compound_slug_taken env) ''compound'')
       (\<lambda>slug.
     seq (fresh_uuid (pe_tokens env)) (\<lambda>uuid.
     seq (transaction
           (seq (on_compounds (tb_create (pe_compounds env) (new_compound now uuid slug dto))) (\<lambda>created.
            seq (link_amenities env uuid (case nc_amenity_ids dto of Some is \<Rightarrow> is | None \<Rightarrow> [])) (\<lambda>_.
              ret created)))) (\<lambda>created.
     seq (sync_projects_count env now (nc_developer_id dto)) (\<lambda>_.
     seq (invalidate_lists env now) (\<lambda>_.
       compound_find_one env (co_id created)))))))"

definition apply_compound_update :: "int \<Rightarrow> string option \<Rightarrow> update_compound \<Rightarrow> compound_row \<Rightarrow> compound_row" where
  "apply_compound_update now slug dto c =
     c\<lparr>co_slug := set_if slug (co_slug c), co_name := set_if (uc_name dto) (co_name c),
       co_name_ar := set_if (uc_name_ar dto) (co_name_ar c),
       co_developer_id := set_if (uc_developer_id dto) (co_developer_id c),
       co_area_id := set_if (uc_area_id dto) (co_area_id c),
       co_description_en := set_if_opt (uc_description_en dto) (co_description_en c),
       co_description_ar := set_if_opt (uc_description_ar dto) (co_description_ar c),
       co_starting_price := set_if_opt (uc_starting_price dto) (co_starting_price c),
       co_max_price := set_if_opt (uc_max_price dto) (co_max_price c),
       co_min_area := set_if_opt (uc_min_area dto) (co_min_area c),
       co_max_area := set_if_opt (uc_max_area dto) (co_max_area c),
       co_delivery_year := set_if_opt (uc_delivery_year dto) (co_delivery_year c),
       co_installment_years := set_if_opt (uc_installment_years dto) (co_installment_years c),
       co_down_percent := set_if_opt (uc_down_percent dto) (co_down_percent c),
       co_images := set_if (uc_images dto) (co_images c),
       co_master_plan := set_if_opt (uc_master_plan dto) (co_master_plan c),
       co_lat := set_if (uc_lat dto) (co_lat c), co_lng := set_if (uc_lng dto) (co_lng c),
       co_unit_types := set_if (uc_unit_types dto) (co_unit_types c),
       co_featured := set_if (uc_featured dto) (co_featured c),
       co_active := set_if (uc_active dto) (co_active c), co_updated_at := now\<rparr>"

text \<open>\<open>createMany\<close> with \<open>skipDuplicates\<close> leaves out the pairs that are there.\<close>

definition replace_amenities :: "'r platform_env \<Rightarrow> string \<Rightarrow> string list \<Rightarrow> ('r, 'z, unit) platform_prog" where
  "replace_amenities env i ids =
     seq (on_compound_amenities (tb_delete_many (pe_compound_amenities env) (\<lambda>l. ca_compound_id l = i))) (\<lambda>_.
       link_amenities env i (js_unique ids))"

definition compound_new_slug ::
  "'r platform_env \<Rightarrow> int \<Rightarrow> string \<Rightarrow> update_compound \<Rightarrow> ('r, 'z, string option) platform_prog" where
  "compound_new_slug env now i dto =
     (if uc_slug dto \<noteq> None \<or> uc_name dto \<noteq> None
      then seq (unique_slug env now (case uc_slug dto of Some s \<Rightarrow> s | None \<Rightarrow> the (uc_name dto))
             (compound_slug_taken_by_other env i) ''compound'') (\<lambda>s. ret (Some s))
      else ret None)"

text \<open>The counters of the developer it belongs to now, and of the one it moved away from.\<close>

definition resync_developers ::
  "'r platform_env \<Rightarrow> int \<Rightarrow> update_compound \<Rightarrow> compound_row \<Rightarrow> ('r, 'z, unit) platform_prog" where
  "resync_developers env now dto existing =
     seq (sync_projects_count env now (set_if (uc_developer_id dto) (co_developer_id existing))) (\<lambda>_.
       case uc_developer_id dto of
         Some d \<Rightarrow>
           if d \<noteq> [] \<and> d \<noteq> co_developer_id existing then sync_projects_count env now (co_developer_id existing)
           else ret ()
       | None \<Rightarrow> ret ())"

definition compound_update ::
  "'r platform_env \<Rightarrow> int \<Rightarrow> string \<Rightarrow> update_compound \<Rightarrow> ('r, 'z, compound_detail) platform_prog" where
  "compound_update env now i dto =
     seq (on_compounds (tb_find (pe_compounds env) (\<lambda>c. co_id c = i))) (\<lambda>found.
       case found of
         None \<Rightarrow> throw (compound_not_found i)
       | Some existing \<Rightarrow>
     seq (assert_relations_exist env (uc_developer_id dto) (uc_area_id dto)) (\<lambda>_.
     seq (compound_new_slug env now i dto) (\<lambda>slug.
     seq (transaction
           (seq (on_compounds (tb_update (pe_compounds env) (\<lambda>c. co_id c = i) (apply_compound_update now slug dto))) (\<lambda>_.
            case uc_amenity_ids dto of
              Some ids \<Rightarrow> replace_amenities env i ids
            | None \<Rightarrow> ret ()))) (\<lambda>_.
     seq (resync_developers env now dto existing) (\<lambda>_.
     seq (invalidate_lists env now) (\<lambda>_.
       compound_find_one env i))))))"

definition compound_remove :: "'r platform_env \<Rightarrow> int \<Rightarrow> string \<Rightarrow> ('r, 'z, string) platform_prog" where
  "compound_remove env now i =
     seq (on_compounds (tb_find (pe_compounds env) (\<lambda>c. co_id c = i))) (\<lambda>found.
       case found of
         None \<Rightarrow> throw (compound_not_found i)
       | Some existing \<Rightarrow>
     seq (on_index (tb_count (pe_index env) (\<lambda>r. ix_compound_id r = Some i \<and> ix_deleted_at r = None))) (\<lambda>listings.
     seq (if 0 < listings
          then on_compounds (tb_update (pe_compounds env) (\<lambda>c. co_id c = i)
                 (\<lambda>c. c\<lparr>co_active := False, co_updated_at := now\<rparr>))
          else on_compounds (tb_delete (pe_compounds env) (\<lambda>c. co_id c = i))) (\<lambda>_.
     seq (sync_projects_count env now (co_developer_id existing)) (\<lambda>_.
     seq (invalidate_lists env now) (\<lambda>_. ret i)))))"

section \<open>Amenities\<close>

definition amenity_order :: "'r platform_env \<Rightarrow> amenity_row \<Rightarrow> amenity_row \<Rightarrow> bool" where
  "amenity_order env a b \<longleftrightarrow>
     (if am_category a = am_category b then pe_collate env (am_name_en a) (am_name_en b)
      else pe_collate env (am_category a) (am_category b))"

definition amenity_list ::
  "'r platform_env \<Rightarrow> int \<Rightarrow> string option \<Rightarrow> ('r, 'z, amenity_row list option) platform_prog" where
  "amenity_list env now category =
     cached_list (pe_amenity_list env) env now
       (entity_query ''amenities'' [(''category'', case category of Some c \<Rightarrow> JStr c | None \<Rightarrow> Null)]) ttl_list
       (on_amenities (seq (tb_find_many (pe_amenities env) (\<lambda>a. if_given (\<lambda>c. am_category a = c) category)) (\<lambda>rows.
          ret (sort_by (amenity_order env) rows))))"

text \<open>The buckets of the \<open>Map\<close>, in the order their categories are first met.\<close>

fun group_amenities :: "(string \<times> amenity_row list) list \<Rightarrow> amenity_row list \<Rightarrow> (string \<times> amenity_row list) list" where
  "group_amenities buckets [] = buckets"
| "group_amenities buckets (a # as) =
     group_amenities
       (if am_category a \<in> set (map fst buckets)
        then map (\<lambda>(c, items). if c = am_category a then (c, items @ [a]) else (c, items)) buckets
        else buckets @ [(am_category a, [a])]) as"

definition amenity_grouped ::
  "'r platform_env \<Rightarrow> int \<Rightarrow> ('r, 'z, (string \<times> amenity_row list) list) platform_prog" where
  "amenity_grouped env now =
     seq (amenity_list env now None) (\<lambda>amenities.
       ret (group_amenities [] (case amenities of Some as \<Rightarrow> as | None \<Rightarrow> [])))"

section \<open>The counters of developers stay exact\<close>

definition compounds_ready :: "'r platform_env \<Rightarrow> bool" where
  "compounds_ready env \<longleftrightarrow> table_ok compound_clash (pe_compounds env)"

definition compound_taken :: "'r platform_env \<Rightarrow> ('r, 'z) platform_scheme \<Rightarrow> string \<Rightarrow> bool" where
  "compound_taken env w s \<longleftrightarrow> (\<exists>c\<in>set (db_compounds w). co_slug c = s)"

definition compound_taken_by_other ::
  "'r platform_env \<times> string \<Rightarrow> ('r, 'z) platform_scheme \<Rightarrow> string \<Rightarrow> bool" where
  "compound_taken_by_other ei w s \<longleftrightarrow> (\<exists>c\<in>set (db_compounds w). co_slug c = s \<and> co_id c \<noteq> snd ei)"

definition pair_compound_probe ::
  "'r platform_env \<times> string \<Rightarrow> string \<Rightarrow> ('r, 'z, bool) platform_prog" where
  "pair_compound_probe ei s = compound_slug_taken_by_other (fst ei) (snd ei) s"

interpretation compound_slugs: slug_probe compounds_ready compound_slug_taken compound_taken
  by unfold_locales
    (simp add: compounds_ready_def compound_slug_taken_def compound_taken_def seq_def on_simps table_okD count_pos [simplified])

interpretation compound_slugs_other:
  slug_probe "\<lambda>ei. compounds_ready (fst ei)" pair_compound_probe compound_taken_by_other
  by unfold_locales
    (simp add: compounds_ready_def pair_compound_probe_def compound_slug_taken_by_other_def compound_taken_by_other_def
      seq_def on_simps table_okD count_pos [simplified])

datatype compound_op =
    CreateCompound create_compound
  | UpdateCompound string update_compound
  | RemoveCompound string

primrec run_compound :: "'r platform_env \<Rightarrow> int \<Rightarrow> compound_op \<Rightarrow> ('r, 'z, unit) platform_prog" where
  "run_compound env now (CreateCompound dto) = seq (compound_create env now dto) (\<lambda>_. ret ())"
| "run_compound env now (UpdateCompound i dto) = seq (compound_update env now i dto) (\<lambda>_. ret ())"
| "run_compound env now (RemoveCompound i) = seq (compound_remove env now i) (\<lambda>_. ret ())"

text \<open>The request class requires a UUID, so never the empty string.\<close>

primrec compound_op_ok :: "compound_op \<Rightarrow> bool" where
  "compound_op_ok (CreateCompound dto) = (nc_developer_id dto \<noteq> [])"
| "compound_op_ok (UpdateCompound i dto) = (uc_developer_id dto \<noteq> Some [])"
| "compound_op_ok (RemoveCompound i) = True"

definition counted_rows :: "string set \<Rightarrow> compound_row list \<Rightarrow> developer_row list \<Rightarrow> bool" where
  "counted_rows K cs ds \<longleftrightarrow> distinct (map co_id cs) \<and>
     exact_off (tally active_project cs) (map (\<lambda>d. (dv_id d, dv_projects_count d)) ds) K"

abbreviation counted_off :: "string set \<Rightarrow> ('r, 'z) platform_scheme \<Rightarrow> bool" where
  "counted_off K w \<equiv> counted_rows K (db_compounds w) (db_developers w)"

abbreviation counted :: "('r, 'z) platform_scheme \<Rightarrow> bool" where
  "counted \<equiv> \<lambda>w. counted_off {} w"

lemma developer_counts_frame [simp]:
  "developer_counts (w\<lparr>sw_cache := c\<rparr>) = developer_counts w" "developer_counts (w\<lparr>sw_uuids := u\<rparr>) = developer_counts w"
  "developer_counts (w\<lparr>db_compounds := cs\<rparr>) = developer_counts w"
  "developer_counts (w\<lparr>db_compound_amenities := l\<rparr>) = developer_counts w"
  by (simp_all add: developer_counts_def)

lemma new_compound_sel [simp]:
  "co_developer_id (new_compound now uuid slug dto) = nc_developer_id dto"
  "co_id (new_compound now uuid slug dto) = uuid"
  by (simp_all add: new_compound_def)

lemma wp_transaction [wp_simps]: "wp (transaction m) Q E w = wp m Q (\<lambda>e _. E e w) w"
  by (simp add: wp_def transaction_def split: prod.split outcome.split)

lemma compound_find_one_reads:
  assumes ready: "services_ready env v"
  shows "reads_only (compound_find_one env i)"
  by (rule reads_onlyI)
    (simp add: compound_find_one_def join_developer_def join_area_def wp_simps service_wps [OF ready]
      split: option.split)

lemma wp_link_amenities:
  assumes ready: "services_ready env v"
    and "\<And>l. Q () (w\<lparr>db_compound_amenities := l\<rparr>)" and "\<And>e l. E e (w\<lparr>db_compound_amenities := l\<rparr>)"
  shows "wp (link_amenities env i ids) Q E w"
  using assms(2,3)
proof (induction ids arbitrary: w)
  case Nil
  have "Q () (w\<lparr>db_compound_amenities := db_compound_amenities w\<rparr>)" by (rule Nil.prems(1))
  then show ?case by (simp add: link_amenities_def wp_simps)
next
  case (Cons x xs)
  have tail: "wp (link_amenities env i xs) Q E (w\<lparr>db_compound_amenities := l\<rparr>)" for l
    by (rule Cons.IH) (simp_all add: Cons.prems)
  have "E (prisma_error ''P2002'') (w\<lparr>db_compound_amenities := db_compound_amenities w\<rparr>)" by (rule Cons.prems(2))
  then show ?case
    using tail by (simp add: link_amenities_def wp_simps service_wps [OF ready])
qed

lemma wp_replace_amenities:
  assumes ready: "services_ready env v"
    and "\<And>l. Q () (w\<lparr>db_compound_amenities := l\<rparr>)" and "\<And>e l. E e (w\<lparr>db_compound_amenities := l\<rparr>)"
  shows "wp (replace_amenities env i ids) Q E w"
  unfolding replace_amenities_def wp_simps service_wps [OF ready]
  by (rule wp_link_amenities [OF ready]) (simp_all add: assms)

lemma wp_relations_both:
  assumes ready: "services_ready env v"
    and "\<And>e. E e w"
    and "(\<forall>d. dev = Some d \<longrightarrow> d \<noteq> [] \<longrightarrow> d \<in> dv_id ` set (db_developers w)) \<Longrightarrow>
      (\<forall>a. area = Some a \<longrightarrow> a \<noteq> [] \<longrightarrow> a \<in> ar_id ` set (db_areas w)) \<Longrightarrow> Q () w"
  shows "wp (assert_relations_exist env dev area) Q E w"
proof -
  have "d \<in> dv_id ` set (db_developers w)" if "length (filter (\<lambda>x. dv_id x = d) (db_developers w)) \<noteq> 0" for d
    using that by (force simp: filter_empty_conv)
  moreover have "a \<in> ar_id ` set (db_areas w)" if "length (filter (\<lambda>x. ar_id x = a) (db_areas w)) \<noteq> 0" for a
    using that by (force simp: filter_empty_conv)
  ultimately show ?thesis
    using assms(2,3) by (auto simp: assert_relations_exist_def wp_simps service_wps [OF ready] split: option.split)
qed

lemma wp_relations:
  assumes "services_ready env v" and "\<And>e. E e w"
    and "(\<forall>d. dev = Some d \<longrightarrow> d \<noteq> [] \<longrightarrow> d \<in> fst ` set (developer_counts w)) \<Longrightarrow> Q () w"
  shows "wp (assert_relations_exist env dev area) Q E w"
  by (rule wp_relations_both [OF assms(1)])
    (use assms(2,3) in \<open>auto simp: developer_counts_def image_image\<close>)

lemma wp_sync_developer:
  assumes ready: "services_ready env v" and "counted_off K w"
    and "\<And>w'. counted_off (K - {i}) w' \<Longrightarrow> fst ` set (developer_counts w') = fst ` set (developer_counts w) \<Longrightarrow> Q () w'"
    and "\<And>e w'. i \<notin> fst ` set (developer_counts w) \<Longrightarrow> counted_off (K - {i}) w' \<Longrightarrow> E e w'"
  shows "wp (sync_projects_count env now i) Q E w"
proof -
  have "wp (pair_sync_projects_count (env, v) now i) Q E w"
    using assms
    by (intro developer_counter.wp_sync [where K = K]) (auto simp: pair_ready_def counted_rows_def developer_counts_def)
  then show ?thesis by (simp add: pair_sync_projects_count_def)
qed

lemma counted_rows_create:
  assumes "counted_rows {} cs ds" and "\<not> list_ex (compound_clash c) cs" and "co_developer_id c = d"
  shows "counted_rows {d} (cs @ [c]) ds"
proof -
  have "co_id c \<notin> co_id ` set cs"
    using assms(2) by (auto simp: list_ex_iff compound_clash_def)
  then show ?thesis
    using assms(1,3) by (auto simp: counted_rows_def exact_off_def tally_append active_project_def)
qed

lemma compound_create_counted:
  assumes ready: "services_ready env v" and "counted w" and "nc_developer_id dto \<noteq> []"
  shows "wp (compound_create env now dto) (\<lambda>_. counted) (\<lambda>_. counted) w"
  unfolding compound_create_def wp_seq
proof (rule wp_relations [OF ready], goal_cases)
  case (1 e)
  show ?case by (rule assms(2))
next
  case 2
  have "compounds_ready env" using ready by (simp add: compounds_ready_def ready_compounds)
  note slug = compound_slugs.wp_unique_slug [OF this]
  have sync: "wp (sync_projects_count env now (nc_developer_id dto))
      (\<lambda>a wa. wp (compound_find_one env j) (\<lambda>_. counted) (\<lambda>_. counted) (wa\<lparr>sw_cache := wiped env now wa\<rparr>))
      (\<lambda>_. counted) w'"
    if "counted_off {nc_developer_id dto} w'" for w' j
    by (rule wp_sync_developer [OF ready that]) (simp_all add: wp_reads [OF compound_find_one_reads [OF ready]])
  show ?case
    unfolding slug wp_fresh_uuid wp_transaction wp_on wp_seq service_wps [OF ready]
    using assms(2)
    by (auto intro!: wp_link_amenities [OF ready] sync counted_rows_create [OF assms(2)] simp: wp_simps)
qed

lemma same_compound:
  "distinct (map co_id cs) \<Longrightarrow> List.find (\<lambda>c. co_id c = i) cs = Some x \<Longrightarrow> c \<in> set cs \<Longrightarrow> co_id c = i \<Longrightarrow> c = x"
  by (drule find_SomeD) (auto simp: distinct_map dest: inj_onD)

lemma map_co_id_update_where:
  "(\<And>c. co_id (f c) = co_id c) \<Longrightarrow> map co_id (update_where P f cs) = map co_id cs"
  by (simp add: update_where_def)

lemma counted_rows_change:
  assumes "counted_rows {} cs ds" and fnd: "List.find (\<lambda>c. co_id c = i) cs = Some x"
    and "\<And>c. co_id (f c) = co_id c" and "co_developer_id x \<in> K" and "co_developer_id (f x) \<in> K"
  shows "counted_rows K (update_where (\<lambda>c. co_id c = i) f cs) ds"
    and "counted_rows K (filter (\<lambda>c. co_id c \<noteq> i) cs) ds"
proof -
  from assms(1) have dist: "distinct (map co_id cs)"
    and ex: "exact_off (tally active_project cs) (map (\<lambda>d. (dv_id d, dv_projects_count d)) ds) {}"
    by (simp_all add: counted_rows_def)
  have eq: "tally active_project (update_where (\<lambda>c. co_id c = i) f cs) d = tally active_project cs d" if "d \<notin> K" for d
    by (rule tally_update_where) (use that assms(4,5) same_compound [OF dist fnd] in \<open>auto simp: active_project_def\<close>)
  have eq': "tally active_project (filter (\<lambda>c. co_id c \<noteq> i) cs) d = tally active_project cs d" if "d \<notin> K" for d
    by (rule tally_filter) (use that assms(4) same_compound [OF dist fnd] in \<open>auto simp: active_project_def\<close>)
  from ex eq have "exact_off (tally active_project (update_where (\<lambda>c. co_id c = i) f cs))
      (map (\<lambda>d. (dv_id d, dv_projects_count d)) ds) K"
    unfolding exact_off_def by fastforce
  then show "counted_rows K (update_where (\<lambda>c. co_id c = i) f cs) ds"
    using dist map_co_id_update_where [of f "\<lambda>c. co_id c = i" cs] assms(3) by (simp add: counted_rows_def)
  from ex eq' have "exact_off (tally active_project (filter (\<lambda>c. co_id c \<noteq> i) cs))
      (map (\<lambda>d. (dv_id d, dv_projects_count d)) ds) K"
    unfolding exact_off_def by fastforce
  then show "counted_rows K (filter (\<lambda>c. co_id c \<noteq> i) cs) ds"
    using dist by (simp add: counted_rows_def distinct_map_filter)
qed

lemma apply_compound_update_sel [simp]:
  "co_id (apply_compound_update now slug dto c) = co_id c"
  "co_developer_id (apply_compound_update now slug dto c) = set_if (uc_developer_id dto) (co_developer_id c)"
  by (simp_all add: apply_compound_update_def)

lemma wp_compound_new_slug:
  assumes ready: "services_ready env v" and "\<And>s. Q s w"
  shows "wp (compound_new_slug env now i dto) Q E w"
proof -
  have "compounds_ready (fst (env, i))" using ready by (simp add: compounds_ready_def ready_compounds)
  note slug = compound_slugs_other.wp_unique_slug [OF this, unfolded pair_compound_probe_def [abs_def] fst_conv snd_conv]
  show ?thesis
    unfolding compound_new_slug_def wp_if wp_seq slug wp_ret by (simp add: assms(2))
qed

lemma wp_resync_developers:
  assumes ready: "services_ready env v" and ok: "uc_developer_id dto \<noteq> Some []"
    and inv: "counted_off {set_if (uc_developer_id dto) (co_developer_id x), co_developer_id x} w"
    and dev: "\<forall>d. uc_developer_id dto = Some d \<longrightarrow> d \<in> fst ` set (developer_counts w)"
    and Q: "\<And>w'. counted w' \<Longrightarrow> Q () w'" and E: "\<And>e w'. counted w' \<Longrightarrow> E e w'"
  shows "wp (resync_developers env now dto x) Q E w"
  unfolding resync_developers_def wp_seq
proof (rule wp_sync_developer [OF ready inv], goal_cases)
  case (1 w')
  then show ?case
    using ok Q E
    by (auto simp: wp_simps set_if_def insert_Diff_if split: option.splits if_splits intro!: wp_sync_developer [OF ready 1(1)])
next
  case (2 e w')
  then show ?case using dev E by (auto simp: set_if_def split: option.splits)
qed

lemma compound_update_counted:
  assumes ready: "services_ready env v" and inv: "counted w" and ok: "uc_developer_id dto \<noteq> Some []"
  shows "wp (compound_update env now i dto) (\<lambda>_. counted) (\<lambda>_. counted) w"
proof (cases "List.find (\<lambda>c. co_id c = i) (db_compounds w)")
  case None
  then show ?thesis using inv by (simp add: compound_update_def wp_simps service_wps [OF ready])
next
  case (Some x)
  let ?new = "set_if (uc_developer_id dto) (co_developer_id x)"
  have change: "counted_rows {?new, co_developer_id x}
      (update_where (\<lambda>c. co_id c = i) (apply_compound_update now slug dto) (db_compounds w)) (db_developers w)" for slug
    by (rule counted_rows_change(1) [OF inv Some]) simp_all
  show ?thesis
    unfolding compound_update_def wp_seq wp_on service_wps [OF ready] Some option.case
  proof (rule wp_relations [OF ready], goal_cases)
    case (1 e)
    show ?case using inv by simp
  next
    case 2
    then have dev: "\<forall>d. uc_developer_id dto = Some d \<longrightarrow> d \<in> fst ` set (developer_counts w)"
      using ok by auto
    have resync: "wp (resync_developers env now dto x)
        (\<lambda>a w. wp (compound_find_one env i) (\<lambda>_. counted) (\<lambda>_. counted) (w\<lparr>sw_cache := wiped env now w\<rparr>)) (\<lambda>_. counted)
        (w\<lparr>db_compounds := update_where (\<lambda>c. co_id c = i) (apply_compound_update now slug dto) (db_compounds w),
           db_compound_amenities := l\<rparr>)" for slug l
      by (rule wp_resync_developers [OF ready ok])
        (use dev change in \<open>auto intro!: wp_reads [OF compound_find_one_reads [OF ready]]\<close>)
    have keep: "w\<lparr>db_compounds := cs\<rparr> = w\<lparr>db_compounds := cs, db_compound_amenities := db_compound_amenities w\<rparr>" for cs
      by simp
    show ?case
    proof (rule wp_compound_new_slug [OF ready], unfold wp_transaction wp_seq wp_on service_wps [OF ready], goal_cases)
      case (1 slug)
      show ?case
      proof (cases "uc_amenity_ids dto")
        case None
        show ?thesis
          using Some inv resync [where slug = slug and l = "db_compound_amenities w"] by (simp add: None wp_simps)
      next
        case (Some ids)
        show ?thesis
          using \<open>List.find _ _ = _\<close> resync inv
          by (auto simp: Some wp_simps intro!: wp_replace_amenities [OF ready] split: option.split)
      qed
    qed
  qed
qed

lemma compound_remove_counted:
  assumes ready: "services_ready env v" and inv: "counted w"
  shows "wp (compound_remove env now i) (\<lambda>_. counted) (\<lambda>_. counted) w"
proof (cases "List.find (\<lambda>c. co_id c = i) (db_compounds w)")
  case None
  then show ?thesis using inv by (simp add: compound_remove_def wp_simps service_wps [OF ready])
next
  case (Some x)
  have sync: "wp (sync_projects_count env now (co_developer_id x))
      (\<lambda>_. wp (invalidate_lists env now) (\<lambda>_. counted) (\<lambda>_. counted)) (\<lambda>_. counted) w'"
    if "counted_off {co_developer_id x} w'" for w'
    by (rule wp_sync_developer [OF ready that]) (simp_all add: wp_simps service_wps [OF ready])
  have "counted_rows {co_developer_id x} (update_where (\<lambda>c. co_id c = i)
      (\<lambda>c. c\<lparr>co_active := False, co_updated_at := now\<rparr>) (db_compounds w)) (db_developers w)"
    "counted_rows {co_developer_id x} (filter (\<lambda>c. co_id c \<noteq> i) (db_compounds w)) (db_developers w)"
    by (rule counted_rows_change [OF inv Some]; simp)+
  then show ?thesis
    using Some inv by (simp add: compound_remove_def wp_simps service_wps [OF ready] sync)
qed

lemma run_compound_counted:
  assumes "services_ready env v" and "counted w" and "compound_op_ok op"
  shows "wp (run_compound env now op) (\<lambda>_. counted) (\<lambda>_. counted) w"
  using assms
  by (cases op) (simp_all add: wp_simps compound_create_counted compound_update_counted compound_remove_counted)

definition run_compounds ::
  "'r platform_env \<Rightarrow> (int \<times> compound_op) list \<Rightarrow> ('r, 'z) platform_scheme \<Rightarrow> ('r, 'z) platform_scheme" where
  "run_compounds env ops = fold (\<lambda>(now, op) w. snd (run_compound env now op w)) ops"

text \<open>
  C15: \<open>projectsCount\<close> of every developer is the number of its active compounds, after any sequence of
  compound requests, accepted or rejected, also when a compound moves from one developer to another.
\<close>

theorem project_counters_exact:
  assumes "services_ready env v" and "counted w" and "\<forall>(now, op)\<in>set ops. compound_op_ok op"
    and "d \<in> set (db_developers (run_compounds env ops w))"
  shows "dv_projects_count d =
    length (filter (\<lambda>c. co_developer_id c = dv_id d \<and> co_active c) (db_compounds (run_compounds env ops w)))"
proof -
  have "counted (run_compounds env ops w)"
    using assms(2,3)
  proof (induction ops arbitrary: w)
    case Nil
    then show ?case by (simp add: run_compounds_def)
  next
    case (Cons a ops)
    obtain now op where a: "a = (now, op)" by (cases a)
    have "counted (snd (run_compound env now op w))"
      by (rule wp_snd [OF run_compound_counted [OF assms(1)]]) (use Cons.prems a in auto)
    from Cons.IH [OF this] Cons.prems(2) show ?case by (simp add: run_compounds_def a)
  qed
  with assms(4) show ?thesis
    by (auto simp: counted_rows_def exact_off_def tally_def active_project_def [abs_def])
qed

definition demo_developer :: developer_row where
  "demo_developer = \<lparr>dv_id = ''d1'', dv_slug = ''palm'', dv_name = ''Palm'', dv_name_ar = ''p'', dv_logo_url = None,
     dv_cover_url = None, dv_description_en = None, dv_description_ar = None, dv_founded_year = None,
     dv_projects_count = 1, dv_website = None, dv_phone = None, dv_featured = False, dv_active = True,
     dv_created_at = 0, dv_updated_at = 0\<rparr>"

definition demo_compound :: compound_row where
  "demo_compound = \<lparr>co_id = ''c1'', co_slug = ''palm-hills'', co_name = ''Palm Hills'', co_name_ar = ''p'',
     co_developer_id = ''d1'', co_area_id = ''a1'', co_description_en = None, co_description_ar = None,
     co_starting_price = None, co_max_price = None, co_min_area = None, co_max_area = None,
     co_delivery_year = None, co_installment_years = None, co_down_percent = None, co_images = [],
     co_master_plan = None, co_lat = 30, co_lng = 31, co_unit_types = [], co_featured = False, co_active = True,
     co_created_at = 0, co_updated_at = 0\<rparr>"

definition demo_catalogue :: "mem platform" where
  "demo_catalogue = empty_platform\<lparr>db_developers := [demo_developer], db_compounds := [demo_compound]\<rparr>"

lemma demo_catalogue_counted: "counted demo_catalogue"
  by (simp add: demo_catalogue_def counted_rows_def exact_off_def tally_def active_project_def demo_developer_def
      demo_compound_def)

lemma demo_removed:
  "map (\<lambda>d. (dv_id d, dv_projects_count d)) (db_developers (run_compounds mem_platform [(5, RemoveCompound ''c1'')] demo_catalogue)) =
     [(''d1'', 0)]"
proof -
  let ?Q = "\<lambda>w :: mem platform. map (\<lambda>d. (dv_id d, dv_projects_count d)) (db_developers w) = [(''d1'', 0)]"
  have "wp (run_compound mem_platform 5 (RemoveCompound ''c1'')) (\<lambda>_. ?Q) (\<lambda>_. ?Q) demo_catalogue"
    by (simp add: compound_remove_def demo_catalogue_def wp_simps service_wps [OF mem_services_ready] demo_compound_def
        empty_platform_def sync_projects_count_def demo_developer_def update_where_def
        del: mem_platform_sel)
  then have "?Q (snd (run_compound mem_platform 5 (RemoveCompound ''c1'') demo_catalogue))"
    by (rule wp_snd [where I = ?Q])
  then show ?thesis by (simp add: run_compounds_def)
qed

theorem project_counters_exact_witness:
  "\<exists>d. d \<in> set (db_developers (run_compounds mem_platform [(5, RemoveCompound ''c1'')] demo_catalogue)) \<and>
     dv_projects_count d = length (filter (\<lambda>c. co_developer_id c = dv_id d \<and> co_active c)
       (db_compounds (run_compounds mem_platform [(5, RemoveCompound ''c1'')] demo_catalogue)))"
proof -
  let ?ds = "db_developers (run_compounds mem_platform [(5, RemoveCompound ''c1'')] demo_catalogue)"
  from demo_removed have "?ds \<noteq> []" by (cases ?ds) auto
  then obtain d where "d \<in> set ?ds" by (cases ?ds) auto
  from this project_counters_exact [OF mem_services_ready demo_catalogue_counted _ this] show ?thesis by auto
qed

section \<open>References resolve\<close>

definition refs :: "compound_row list \<Rightarrow> area_row list \<Rightarrow> developer_row list \<Rightarrow> bool" where
  "refs cs as ds \<longleftrightarrow> (\<forall>c\<in>set cs. co_area_id c \<in> ar_id ` set as \<and> co_developer_id c \<in> dv_id ` set ds)"

abbreviation refs_resolve :: "('r, 'z) platform_scheme \<Rightarrow> bool" where
  "refs_resolve \<equiv> \<lambda>w. refs (db_compounds w) (db_areas w) (db_developers w)"

lemma ids_update_where:
  assumes "\<And>r. k (f r) = k r"
  shows "k ` set (update_where P f rows) = k ` set rows"
proof -
  have "map k (update_where P f rows) = map k rows"
    using assms by (simp add: update_where_def)
  then show ?thesis by (metis set_map)
qed

lemma image_filter_neq: "x \<in> k ` A \<Longrightarrow> x \<noteq> i \<Longrightarrow> x \<in> k ` {a \<in> A. k a \<noteq> i}"
  by auto

lemma wp_sync_ids:
  assumes ready: "services_ready env v"
    and "\<And>ds c. dv_id ` set ds = dv_id ` set (db_developers w) \<Longrightarrow> Q () (w\<lparr>db_developers := ds, sw_cache := c\<rparr>)"
    and "\<And>e. E e w"
  shows "wp (sync_projects_count env now i) Q E w"
  using assms(2,3)
  by (simp add: wp_def sync_projects_count_eq [OF ready] Let_def ids_update_where)

lemma area_ops_refs:
  assumes ready: "services_ready env v" and inv: "refs_resolve w"
  shows "wp (area_create env now na) (\<lambda>_. refs_resolve) (\<lambda>_. refs_resolve) w"
    and "wp (area_update env now i ua) (\<lambda>_. refs_resolve) (\<lambda>_. refs_resolve) w"
    and "wp (area_remove env now i) (\<lambda>_. refs_resolve) (\<lambda>_. refs_resolve) w"
proof -
  have slug: "areas_ready env" "areas_ready (fst (env, i))" using ready by (simp_all add: areas_ready_def ready_areas)
  note slugs = area_slugs.wp_unique_slug [OF slug(1)]
    area_slugs_other.wp_unique_slug [OF slug(2), unfolded pair_area_probe_def [abs_def] fst_conv snd_conv]
  note steps = wp_simps service_wps [OF ready] slugs refs_def ids_update_where
  show "wp (area_create env now na) (\<lambda>_. refs_resolve) (\<lambda>_. refs_resolve) w"
    using inv by (auto simp: area_create_def steps)
  show "wp (area_update env now i ua) (\<lambda>_. refs_resolve) (\<lambda>_. refs_resolve) w"
    using inv by (auto simp: area_update_def area_ensure_exists_def steps split: option.split)
  show "wp (area_remove env now i) (\<lambda>_. refs_resolve) (\<lambda>_. refs_resolve) w"
    using inv by (auto simp: area_remove_def area_ensure_exists_def steps filter_empty_conv split: option.split
        intro!: image_filter_neq)
qed

lemma developer_ops_refs:
  assumes ready: "services_ready env v" and inv: "refs_resolve w"
  shows "wp (developer_create env now nd) (\<lambda>_. refs_resolve) (\<lambda>_. refs_resolve) w"
    and "wp (developer_update env now i uv) (\<lambda>_. refs_resolve) (\<lambda>_. refs_resolve) w"
    and "wp (developer_remove env now i) (\<lambda>_. refs_resolve) (\<lambda>_. refs_resolve) w"
proof -
  have slug: "developers_ready env" "developers_ready (fst (env, i))"
    using ready by (simp_all add: developers_ready_def ready_developers)
  note slugs = developer_slugs.wp_unique_slug [OF slug(1)]
    developer_slugs_other.wp_unique_slug [OF slug(2), unfolded pair_developer_probe_def [abs_def] fst_conv snd_conv]
  note steps = wp_simps service_wps [OF ready] slugs refs_def ids_update_where
  show "wp (developer_create env now nd) (\<lambda>_. refs_resolve) (\<lambda>_. refs_resolve) w"
    using inv by (auto simp: developer_create_def steps)
  show "wp (developer_update env now i uv) (\<lambda>_. refs_resolve) (\<lambda>_. refs_resolve) w"
    using inv by (auto simp: developer_update_def developer_ensure_exists_def steps split: option.split)
  show "wp (developer_remove env now i) (\<lambda>_. refs_resolve) (\<lambda>_. refs_resolve) w"
    using inv by (auto simp: developer_remove_def developer_ensure_exists_def steps filter_empty_conv split: option.split
        intro!: image_filter_neq)
qed

lemma new_compound_area [simp]: "co_area_id (new_compound now uuid slug dto) = nc_area_id dto"
  by (simp add: new_compound_def)

lemma apply_compound_update_area [simp]:
  "co_area_id (apply_compound_update now slug dto c) = set_if (uc_area_id dto) (co_area_id c)"
  by (simp add: apply_compound_update_def)

lemma compound_create_refs:
  assumes ready: "services_ready env v" and inv: "refs_resolve w" and "nc_developer_id dto \<noteq> []" and "nc_area_id dto \<noteq> []"
  shows "wp (compound_create env now dto) (\<lambda>_. refs_resolve) (\<lambda>_. refs_resolve) w"
  unfolding compound_create_def wp_seq
proof (rule wp_relations_both [OF ready], goal_cases)
  case (1 e)
  show ?case by (rule inv)
next
  case 2
  have "compounds_ready env" using ready by (simp add: compounds_ready_def ready_compounds)
  note slug = compound_slugs.wp_unique_slug [OF this]
  show ?case
    unfolding slug wp_fresh_uuid wp_transaction wp_on wp_seq service_wps [OF ready]
    using inv 2 assms(3,4)
    by (auto simp: wp_simps refs_def
        intro!: wp_link_amenities [OF ready] wp_sync_ids [OF ready] wp_reads [OF compound_find_one_reads [OF ready]])
qed

lemma compound_update_refs:
  assumes ready: "services_ready env v" and inv: "refs_resolve w"
    and "uc_developer_id dto \<noteq> Some []" and "uc_area_id dto \<noteq> Some []"
  shows "wp (compound_update env now i dto) (\<lambda>_. refs_resolve) (\<lambda>_. refs_resolve) w"
proof (cases "List.find (\<lambda>c. co_id c = i) (db_compounds w)")
  case None
  then show ?thesis using inv by (simp add: compound_update_def wp_simps service_wps [OF ready])
next
  case (Some x)
  show ?thesis
    unfolding compound_update_def wp_seq wp_on service_wps [OF ready] Some option.case
  proof (rule wp_relations_both [OF ready], goal_cases)
    case (1 e)
    show ?case using inv by simp
  next
    case 2
    then have upd: "refs (update_where (\<lambda>c. co_id c = i) (apply_compound_update now slug dto) (db_compounds w))
        (db_areas w) (db_developers w)" for slug
      using inv assms(3,4) by (auto simp: refs_def set_update_where set_if_def split: option.splits)
    have resync: "wp (resync_developers env now dto x)
        (\<lambda>a w. wp (compound_find_one env i) (\<lambda>_. refs_resolve) (\<lambda>_. refs_resolve) (w\<lparr>sw_cache := wiped env now w\<rparr>))
        (\<lambda>_. refs_resolve) w'"
      if "refs_resolve w'" for w'
      using that
      by (auto simp: resync_developers_def wp_simps refs_def split: option.split
          intro!: wp_sync_ids [OF ready] wp_reads [OF compound_find_one_reads [OF ready]])
    show ?case
    proof (rule wp_compound_new_slug [OF ready], unfold wp_transaction wp_seq wp_on service_wps [OF ready] Some option.case, goal_cases)
      case (1 slug)
      show ?case
        using upd [of slug] inv
        by (cases "uc_amenity_ids dto")
          (auto simp: Some wp_simps intro!: resync wp_replace_amenities [OF ready])
    qed
  qed
qed

lemma compound_remove_refs:
  assumes ready: "services_ready env v" and inv: "refs_resolve w"
  shows "wp (compound_remove env now i) (\<lambda>_. refs_resolve) (\<lambda>_. refs_resolve) w"
proof -
  have sync: "wp (sync_projects_count env now d) (\<lambda>_. wp (invalidate_lists env now) (\<lambda>_. refs_resolve) (\<lambda>_. refs_resolve))
      (\<lambda>_. refs_resolve) w'" if "refs_resolve w'" for w' d
    by (rule wp_sync_ids [OF ready]) (use that in \<open>auto simp: wp_simps service_wps [OF ready] refs_def\<close>)
  have "refs (update_where (\<lambda>c. co_id c = i) (\<lambda>c. c\<lparr>co_active := False, co_updated_at := now\<rparr>) (db_compounds w))
      (db_areas w) (db_developers w)"
    "refs (filter (\<lambda>r. co_id r \<noteq> i) (db_compounds w)) (db_areas w) (db_developers w)"
    using inv by (auto simp: refs_def set_update_where)
  then show ?thesis
    using inv by (simp add: compound_remove_def wp_simps service_wps [OF ready] sync split: option.split)
qed

text \<open>Every request that can write one of the three tables.\<close>

datatype catalogue_request =
    CreateArea create_area
  | UpdateArea string update_area
  | RemoveArea string
  | CreateDeveloper create_developer
  | UpdateDeveloper string update_developer
  | RemoveDeveloper string
  | OnCompounds compound_op

fun run_catalogue :: "'r platform_env \<Rightarrow> int \<Rightarrow> catalogue_request \<Rightarrow> ('r, 'z, unit) platform_prog" where
  "run_catalogue env now (CreateArea dto) = seq (area_create env now dto) (\<lambda>_. ret ())"
| "run_catalogue env now (UpdateArea i dto) = seq (area_update env now i dto) (\<lambda>_. ret ())"
| "run_catalogue env now (RemoveArea i) = seq (area_remove env now i) (\<lambda>_. ret ())"
| "run_catalogue env now (CreateDeveloper dto) = seq (developer_create env now dto) (\<lambda>_. ret ())"
| "run_catalogue env now (UpdateDeveloper i dto) = seq (developer_update env now i dto) (\<lambda>_. ret ())"
| "run_catalogue env now (RemoveDeveloper i) = seq (developer_remove env now i) (\<lambda>_. ret ())"
| "run_catalogue env now (OnCompounds op) = run_compound env now op"

text \<open>The request classes require UUIDs here, so never the empty string.\<close>

fun catalogue_request_ok :: "catalogue_request \<Rightarrow> bool" where
  "catalogue_request_ok (OnCompounds (CreateCompound dto)) = (nc_developer_id dto \<noteq> [] \<and> nc_area_id dto \<noteq> [])"
| "catalogue_request_ok (OnCompounds (UpdateCompound i dto)) =
     (uc_developer_id dto \<noteq> Some [] \<and> uc_area_id dto \<noteq> Some [])"
| "catalogue_request_ok op = True"

definition run_requests ::
  "'r platform_env \<Rightarrow> (int \<times> catalogue_request) list \<Rightarrow> ('r, 'z) platform_scheme \<Rightarrow> ('r, 'z) platform_scheme" where
  "run_requests env ops = fold (\<lambda>(now, op) w. snd (run_catalogue env now op w)) ops"

lemma run_catalogue_refs:
  assumes "services_ready env v" and "refs_resolve w" and "catalogue_request_ok op"
  shows "wp (run_catalogue env now op) (\<lambda>_. refs_resolve) (\<lambda>_. refs_resolve) w"
  using assms
proof (cases op)
  case (OnCompounds c)
  then show ?thesis
    using assms
    by (cases c) (simp_all add: wp_simps compound_create_refs compound_update_refs compound_remove_refs)
qed (simp_all add: wp_simps area_ops_refs developer_ops_refs)

text \<open>
  C21: Every compound has an area and a developer that exist, after any sequence of requests that create, change
  or delete areas, developers and compounds, accepted or rejected: the services keep what the foreign keys of
  the schema demand, and answer the deletions that would break it with an error of their own.
\<close>

theorem references_resolve:
  assumes "services_ready env v" and "refs_resolve w" and "\<forall>(now, op)\<in>set ops. catalogue_request_ok op"
    and "c \<in> set (db_compounds (run_requests env ops w))"
  shows "(\<exists>a\<in>set (db_areas (run_requests env ops w)). ar_id a = co_area_id c) \<and>
    (\<exists>d\<in>set (db_developers (run_requests env ops w)). dv_id d = co_developer_id c)"
proof -
  have "refs_resolve (run_requests env ops w)"
    using assms(2,3)
  proof (induction ops arbitrary: w)
    case Nil
    then show ?case by (simp add: run_requests_def)
  next
    case (Cons a ops)
    obtain now op where a: "a = (now, op)" by (cases a)
    have "refs_resolve (snd (run_catalogue env now op w))"
      by (rule wp_snd [OF run_catalogue_refs [OF assms(1)]]) (use Cons.prems a in auto)
    from Cons.IH [OF this] Cons.prems(2) show ?case by (simp add: run_requests_def a)
  qed
  with assms(4) show ?thesis by (force simp: refs_def)
qed

definition demo_area :: area_row where
  "demo_area = \<lparr>ar_id = ''a1'', ar_slug = ''new-cairo'', ar_name_en = ''New Cairo'', ar_name_ar = ''n'', ar_city = ''Cairo'',
     ar_governorate = ''Cairo'', ar_description_en = None, ar_description_ar = None, ar_lat = 30, ar_lng = 31,
     ar_hero_image = None, ar_property_count = 0, ar_avg_price = None, ar_active = True,
     ar_created_at = 0, ar_updated_at = 0\<rparr>"

lemma demo_area_kept:
  "map co_id (db_compounds (run_requests mem_platform [(5, RemoveArea ''a1'')] (demo_catalogue\<lparr>db_areas := [demo_area]\<rparr>))) = [''c1'']"
proof -
  let ?w = "demo_catalogue\<lparr>db_areas := [demo_area]\<rparr>"
  let ?Q = "\<lambda>w :: mem platform. map co_id (db_compounds w) = [''c1'']"
  have "wp (run_catalogue mem_platform 5 (RemoveArea ''a1'')) (\<lambda>_. ?Q) (\<lambda>_. ?Q) ?w"
    by (simp add: area_remove_def area_ensure_exists_def demo_catalogue_def wp_simps service_wps [OF mem_services_ready]
        demo_compound_def demo_area_def empty_platform_def del: mem_platform_sel)
  then have "?Q (snd (run_catalogue mem_platform 5 (RemoveArea ''a1'') ?w))"
    by (rule wp_snd [where I = ?Q])
  then show ?thesis by (simp add: run_requests_def)
qed

theorem references_resolve_witness:
  "\<exists>c. c \<in> set (db_compounds (run_requests mem_platform [(5, RemoveArea ''a1'')] (demo_catalogue\<lparr>db_areas := [demo_area]\<rparr>))) \<and>
     (\<exists>a\<in>set (db_areas (run_requests mem_platform [(5, RemoveArea ''a1'')] (demo_catalogue\<lparr>db_areas := [demo_area]\<rparr>))).
       ar_id a = co_area_id c)"
proof -
  let ?w = "demo_catalogue\<lparr>db_areas := [demo_area]\<rparr>"
  let ?cs = "db_compounds (run_requests mem_platform [(5, RemoveArea ''a1'')] ?w)"
  have ok: "refs_resolve ?w"
    by (simp add: demo_catalogue_def refs_def demo_compound_def demo_area_def demo_developer_def)
  from demo_area_kept have "?cs \<noteq> []" by (cases ?cs) auto
  then obtain c where "c \<in> set ?cs" by (cases ?cs) auto
  from this references_resolve [OF mem_services_ready ok _ this] show ?thesis by auto
qed

end
