(* ===== verification/Cache_Wp.thy ===== *)
theory Cache_Wp
  imports Wp
begin

text \<open>
  The calls of the cache as weakest preconditions, under \<open>redis_ok\<close>: what each does to the keys that are
  live from the instant of the call on.
\<close>

lemma wp_cache_del:
  assumes "redis_ok rc v"
    and "\<And>n r'. keys_become v t r r' (\<lambda>_ k y. if k \<in> set ks then None else y) \<Longrightarrow> Q n r'"
  shows "wp (cache_del rc t ks) Q E r"
  by (rule cache_del_law [OF assms(1), where t = t and ks = ks and r = r]) (simp add: wp_eq(1) assms(2))

lemma wp_cache_get:
  assumes "redis_ok rc v" and "\<And>x r'. keys_become v t r r' (\<lambda>_ _ y. y) \<Longrightarrow> Q x r'"
  shows "wp (cache_get cd rc t k) Q E r"
proof -
  obtain r' where "rd_get rc t k r = (Return (rv_live v r t k), r')" "keys_become v t r r' (\<lambda>_ _ y. y)"
    using redis_get [OF assms(1)] by metis
  then show ?thesis
    using assms(2) by (simp add: cache_get_def wp_simps) (simp add: wp_def wp_simps split: option.split)
qed

lemma wp_cache_set:
  assumes "redis_ok rc v" and "1 \<le> ttl" and "\<And>r'. Q () r'"
  shows "wp (cache_set cd rc t k x ttl) Q E r"
proof (cases "cd_stringify cd x")
  case None
  then show ?thesis by (simp add: cache_set_def wp_simps assms(3))
next
  case (Some y)
  show ?thesis
    by (rule cache_set_law [OF assms(1) Some assms(2), where t = t and k = k and r = r]) (simp add: wp_eq(1) assms(3))
qed

text \<open>A counter that is absent starts at 1 and lives for the given time; one that lives goes on.\<close>

definition counting :: "'r redis_view \<Rightarrow> 'r \<Rightarrow> int \<Rightarrow> string \<Rightarrow> int \<Rightarrow> bool" where
  "counting v r t k e \<longleftrightarrow> (\<exists>n x. 0 < n \<and> e \<le> x \<and> (\<forall>u\<ge>t. rv_live v r u k = (if u < x then Some (show_nat n) else None)))"

lemma counting_later: "counting v r t k e \<Longrightarrow> t \<le> t' \<Longrightarrow> counting v r t' k e"
  unfolding counting_def by (meson order_trans)

lemma counting_frame:
  "counting v r t k e \<Longrightarrow> keys_become v t r r' f \<Longrightarrow> (\<And>u y. f u k y = y) \<Longrightarrow> counting v r' t k e"
  unfolding counting_def keys_become_def by simp

lemma increment_fresh:
  assumes "redis_ok rc v" and "1 \<le> ttl" and "rv_live v r t k = None"
  obtains r' where "cache_increment rc t k ttl r = (Return 1, r')"
    "counting v r' t k (t + 1000 * \<lfloor>ttl\<rfloor>)"
    "\<And>k' u. k' \<noteq> k \<Longrightarrow> t \<le> u \<Longrightarrow> rv_live v r' u k' = rv_live v r u k'"
proof -
  from assms(2) have pos: "0 < \<lfloor>ttl\<rfloor>" by linarith
  have one: "show_nat (Suc 0) = ''1''" by code_simp
  obtain r1 where r1: "rd_incr rc t k r = (Return 1, r1)"
    "keys_become v t r r1 (\<lambda>_ k' y. if k' = k then Some ''1'' else y)"
    by (rule redis_incr_fresh [OF assms(1,3)])
  obtain r2 where r2: "rd_expire rc t k \<lfloor>ttl\<rfloor> r1 = (Return (), r2)"
    "keys_become v t r1 r2 (\<lambda>u k' y. if k' = k then
       (if u < t + 1000 * \<lfloor>ttl\<rfloor> then rv_live v r1 t k else None) else y)"
    by (rule redis_expire [OF assms(1) pos])
  show thesis
  proof (rule that [of r2])
    show "cache_increment rc t k ttl r = (Return 1, r2)"
      using assms(2) by (simp add: cache_increment_def r1 r2)
    show "counting v r2 t k (t + 1000 * \<lfloor>ttl\<rfloor>)"
      unfolding counting_def
      by (rule exI [of _ 1], rule exI [of _ "t + 1000 * \<lfloor>ttl\<rfloor>"])
        (use r1(2) r2(2) in \<open>simp add: keys_become_def one\<close>)
    show "rv_live v r2 u k' = rv_live v r u k'" if "k' \<noteq> k" "t \<le> u" for k' u
      using r1(2) r2(2) that by (simp add: keys_become_def)
  qed
qed

lemma increment_again:
  assumes "redis_ok rc v" and "counting v r t k e" and "t < e"
  obtains n r' where "cache_increment rc t k ttl r = (Return n, r')" "1 < n" "counting v r' t k e"
    "\<And>k' u. k' \<noteq> k \<Longrightarrow> t \<le> u \<Longrightarrow> rv_live v r' u k' = rv_live v r u k'"
proof -
  obtain n x where n: "0 < n" "e \<le> x" and live: "\<forall>u\<ge>t. rv_live v r u k = (if u < x then Some (show_nat n) else None)"
    using assms(2) unfolding counting_def by blast
  with assms(3) have now: "rv_live v r t k = Some (show_nat n)" by simp
  obtain r' where r': "rd_incr rc t k r = (Return (int n + 1), r')"
    "keys_become v t r r' (\<lambda>_ k' y. if k' = k \<and> y \<noteq> None then Some (show_nat (Suc n)) else y)"
    by (rule redis_incr_more [OF assms(1) now])
  show thesis
  proof (rule that [of "int n + 1" r'])
    show "cache_increment rc t k ttl r = (Return (int n + 1), r')"
      using n(1) by (simp add: cache_increment_def r')
    show "1 < int n + 1" using n(1) by simp
    show "counting v r' t k e"
      unfolding counting_def
      by (rule exI [of _ "Suc n"], rule exI [of _ x]) (use r'(2) live n in \<open>simp add: keys_become_def\<close>)
    show "rv_live v r' u k' = rv_live v r u k'" if "k' \<noteq> k" "t \<le> u" for k' u
      using r'(2) that by (simp add: keys_become_def)
  qed
qed

section \<open>Parts of the state a program leaves alone\<close>

definition leaves :: "('w \<Rightarrow> 'c) \<Rightarrow> ('w, 'e, 'a) prog \<Rightarrow> bool" where
  "leaves sel m \<longleftrightarrow> (\<forall>w. sel (snd (m w)) = sel w)"

named_theorems leaves_intros \<open>programs that leave a part of the state alone\<close>

lemma leavesD: "leaves sel m \<Longrightarrow> m w = (x, w') \<Longrightarrow> sel w' = sel w"
  unfolding leaves_def by (metis snd_conv)

lemma leaves_ret [leaves_intros]: "leaves sel (ret a)"
  by (simp add: leaves_def)

lemma leaves_throw [leaves_intros]: "leaves sel (throw e)"
  by (simp add: leaves_def)

lemma leaves_seq [leaves_intros]: "leaves sel m \<Longrightarrow> (\<And>a. leaves sel (f a)) \<Longrightarrow> leaves sel (seq m f)"
  by (auto simp: leaves_def seq_def split: prod.split outcome.split) (metis snd_conv)+

lemma leaves_catch [leaves_intros]: "leaves sel m \<Longrightarrow> (\<And>e. leaves sel (h e)) \<Longrightarrow> leaves sel (catch m h)"
  by (auto simp: leaves_def catch_def split: prod.split outcome.split) (metis snd_conv)+

lemma leaves_if [leaves_intros]: "leaves sel m \<Longrightarrow> leaves sel n \<Longrightarrow> leaves sel (if b then m else n)"
  by simp

lemma leaves_option [leaves_intros]:
  "leaves sel m \<Longrightarrow> (\<And>a. leaves sel (f a)) \<Longrightarrow> leaves sel (case x of None \<Rightarrow> m | Some a \<Rightarrow> f a)"
  by (cases x) simp_all

lemma leaves_Let [leaves_intros]: "(\<And>a. leaves sel (f a)) \<Longrightarrow> leaves sel (let a = x in f a)"
  by (simp add: Let_def)

lemma leaves_on_cache [leaves_intros]:
  "leaves db_listings (on_cache m)" "leaves db_index (on_cache m)" "leaves db_leads (on_cache m)"
  "leaves db_favorites (on_cache m)" "leaves db_users (on_cache m)" "leaves db_searches (on_cache m)"
  by (simp_all add: leaves_def on_cache_def part_eq)

end
