(* ===== verification/Listing_Dto.thy ===== *)
theory Listing_Dto
  imports Wp
begin

text \<open>
  The bodies and queries of the listing endpoints (\<open>modules/properties/dto/property.dto.ts\<close>): a record
  for each class, and for each class the predicate its \<open>class-validator\<close> decorators check.
\<close>

section \<open>Queries\<close>

record list_listings = pagination_query +
  ll_types :: "string list option"
  ll_sale :: "string option"
  ll_status :: "string option"
  ll_finishing :: "string list option"
  ll_min_price :: "int option"
  ll_max_price :: "int option"
  ll_bedrooms :: "int list option"
  ll_area_id :: "string option"
  ll_compound_id :: "string option"
  ll_developer_id :: "string option"
  ll_featured :: "bool option"
  ll_q :: "string option"

definition list_listings_ok :: "validators \<Rightarrow> list_listings \<Rightarrow> bool" where
  "list_listings_ok vd q \<longleftrightarrow> page_query_ok q \<and>
     opt_ok (\<lambda>ts. set ts \<subseteq> set PROPERTY_TYPES) (ll_types q) \<and> opt_ok (\<lambda>s. s \<in> set SALE_TYPES) (ll_sale q) \<and>
     opt_ok (\<lambda>s. s \<in> set (map property_status_string PROPERTY_STATUSES)) (ll_status q) \<and>
     opt_ok (\<lambda>fs. set fs \<subseteq> set FINISHING_TYPES) (ll_finishing q) \<and>
     opt_ok (\<lambda>n. 0 \<le> n) (ll_min_price q) \<and> opt_ok (\<lambda>n. 0 \<le> n) (ll_max_price q) \<and>
     opt_ok (\<lambda>ns. \<forall>n\<in>set ns. 0 \<le> n) (ll_bedrooms q) \<and> opt_ok (vd_uuid vd) (ll_area_id q) \<and>
     opt_ok (vd_uuid vd) (ll_compound_id q) \<and> opt_ok (vd_uuid vd) (ll_developer_id q) \<and>
     opt_ok (trimmed 200) (ll_q q)"

section \<open>Nested types\<close>

record text_dto =
  td_en :: string
  td_ar :: string

definition text_dto_ok :: "text_dto \<Rightarrow> bool" where
  "text_dto_ok t \<longleftrightarrow> filled 4000 (td_en t) \<and> filled 4000 (td_ar t)"

record price_dto =
  pd_amount :: int
  pd_currency :: "string option"
  pd_per_meter :: "int option"

definition price_dto_ok :: "price_dto \<Rightarrow> bool" where
  "price_dto_ok p \<longleftrightarrow> 0 \<le> pd_amount p \<and> opt_ok (\<lambda>c. c = ''EGP'') (pd_currency p) \<and>
     opt_ok (\<lambda>n. 0 \<le> n) (pd_per_meter p)"

record plan_dto =
  pl_down_percent :: int
  pl_years :: int
  pl_monthly :: "int option"
  pl_delivery :: string

definition plan_dto_ok :: "plan_dto \<Rightarrow> bool" where
  "plan_dto_ok p \<longleftrightarrow> between 0 100 (pl_down_percent p) \<and> between 0 30 (pl_years p) \<and>
     opt_ok (\<lambda>n. 0 \<le> n) (pl_monthly p) \<and> is_iso_date (pl_delivery p)"

record specs_dto =
  sd_bedrooms :: int
  sd_bathrooms :: int
  sd_area_sqm :: int
  sd_garden_sqm :: "int option"
  sd_floor :: "int option"
  sd_parking :: "int option"

definition specs_dto_ok :: "specs_dto \<Rightarrow> bool" where
  "specs_dto_ok s \<longleftrightarrow> between 0 50 (sd_bedrooms s) \<and> between 0 50 (sd_bathrooms s) \<and>
     1 \<le> sd_area_sqm s \<and> opt_ok (\<lambda>n. 0 \<le> n) (sd_garden_sqm s) \<and> opt_ok (\<lambda>n. 0 \<le> n) (sd_parking s)"

record geo_dto =
  gd_lat :: rat
  gd_lng :: rat

definition geo_dto_ok :: "geo_dto \<Rightarrow> bool" where
  "geo_dto_ok g \<longleftrightarrow> latitude (gd_lat g) \<and> longitude (gd_lng g)"

record location_dto =
  od_area_id :: string
  od_address :: "string option"
  od_geo :: geo_dto

definition location_dto_ok :: "validators \<Rightarrow> location_dto \<Rightarrow> bool" where
  "location_dto_ok vd l \<longleftrightarrow> vd_uuid vd (od_area_id l) \<and>
     opt_ok (trimmed 300) (od_address l) \<and> geo_dto_ok (od_geo l)"

record image_dto =
  id_url :: string
  id_key :: "string option"
  id_width :: "int option"
  id_height :: "int option"
  id_primary :: "bool option"
  id_order :: "int option"

definition image_dto_ok :: "validators \<Rightarrow> image_dto \<Rightarrow> bool" where
  "image_dto_ok vd i \<longleftrightarrow> vd_url vd (id_url i) \<and> opt_ok (\<lambda>k. length k \<le> 400) (id_key i) \<and>
     opt_ok (\<lambda>n. 1 \<le> n) (id_width i) \<and> opt_ok (\<lambda>n. 1 \<le> n) (id_height i) \<and> opt_ok (\<lambda>n. 0 \<le> n) (id_order i)"

record floor_plan_dto =
  fd_url :: string
  fd_label :: "string option"

definition floor_plan_dto_ok :: "validators \<Rightarrow> floor_plan_dto \<Rightarrow> bool" where
  "floor_plan_dto_ok vd p \<longleftrightarrow> vd_url vd (fd_url p) \<and> opt_ok (trimmed 120) (fd_label p)"

record media_dto =
  md_images :: "image_dto list option"
  md_floor_plans :: "floor_plan_dto list option"
  md_video_url :: "string option"
  md_tour_url :: "string option"

definition media_dto_ok :: "validators \<Rightarrow> media_dto \<Rightarrow> bool" where
  "media_dto_ok vd m \<longleftrightarrow>
     opt_ok (\<lambda>is. length is \<le> 40 \<and> (\<forall>i\<in>set is. image_dto_ok vd i)) (md_images m) \<and>
     opt_ok (\<lambda>ps. length ps \<le> 20 \<and> (\<forall>p\<in>set ps. floor_plan_dto_ok vd p)) (md_floor_plans m) \<and>
     opt_ok (vd_url vd) (md_video_url m) \<and> opt_ok (vd_url vd) (md_tour_url m)"

section \<open>Write bodies\<close>

record create_dto =
  cd_slug :: "string option"
  cd_reference_no :: "string option"
  cd_title :: text_dto
  cd_description :: text_dto
  cd_type :: string
  cd_sale :: string
  cd_status :: "property_status option"
  cd_finishing :: string
  cd_price :: price_dto
  cd_plan :: plan_dto
  cd_specs :: specs_dto
  cd_location :: location_dto
  cd_compound_id :: string
  cd_amenities :: "string list option"
  cd_media :: "media_dto option"
  cd_featured :: "bool option"
  cd_published_at :: "string option"

definition create_dto_ok :: "validators \<Rightarrow> create_dto \<Rightarrow> bool" where
  "create_dto_ok vd d \<longleftrightarrow>
     opt_ok (trimmed 200) (cd_slug d) \<and>
     opt_ok (trimmed 40) (cd_reference_no d) \<and>
     text_dto_ok (cd_title d) \<and> text_dto_ok (cd_description d) \<and> cd_type d \<in> set PROPERTY_TYPES \<and>
     cd_sale d \<in> set SALE_TYPES \<and> cd_finishing d \<in> set FINISHING_TYPES \<and> price_dto_ok (cd_price d) \<and>
     plan_dto_ok (cd_plan d) \<and> specs_dto_ok (cd_specs d) \<and> location_dto_ok vd (cd_location d) \<and>
     vd_uuid vd (cd_compound_id d) \<and> opt_ok (\<lambda>as. length as \<le> 40) (cd_amenities d) \<and>
     opt_ok (media_dto_ok vd) (cd_media d) \<and> opt_ok (vd_date vd) (cd_published_at d)"

text \<open>
  \<open>PartialType(CreatePropertyDto)\<close>: every field optional, the nested classes as they are, so what is
  required inside a nested object stays required.
\<close>

record update_dto =
  ud_slug :: "string option"
  ud_reference_no :: "string option"
  ud_title :: "text_dto option"
  ud_description :: "text_dto option"
  ud_type :: "string option"
  ud_sale :: "string option"
  ud_status :: "property_status option"
  ud_finishing :: "string option"
  ud_price :: "price_dto option"
  ud_plan :: "plan_dto option"
  ud_specs :: "specs_dto option"
  ud_location :: "location_dto option"
  ud_compound_id :: "string option"
  ud_amenities :: "string list option"
  ud_media :: "media_dto option"
  ud_featured :: "bool option"
  ud_published_at :: "string option"

definition update_dto_ok :: "validators \<Rightarrow> update_dto \<Rightarrow> bool" where
  "update_dto_ok vd d \<longleftrightarrow>
     opt_ok (trimmed 200) (ud_slug d) \<and> opt_ok (trimmed 40) (ud_reference_no d) \<and> opt_ok text_dto_ok (ud_title d) \<and>
     opt_ok text_dto_ok (ud_description d) \<and> opt_ok (\<lambda>t. t \<in> set PROPERTY_TYPES) (ud_type d) \<and>
     opt_ok (\<lambda>s. s \<in> set SALE_TYPES) (ud_sale d) \<and> opt_ok (\<lambda>f. f \<in> set FINISHING_TYPES) (ud_finishing d) \<and>
     opt_ok price_dto_ok (ud_price d) \<and> opt_ok plan_dto_ok (ud_plan d) \<and> opt_ok specs_dto_ok (ud_specs d) \<and>
     opt_ok (location_dto_ok vd) (ud_location d) \<and> opt_ok (vd_uuid vd) (ud_compound_id d) \<and>
     opt_ok (\<lambda>as. length as \<le> 40) (ud_amenities d) \<and> opt_ok (media_dto_ok vd) (ud_media d) \<and>
     opt_ok (vd_date vd) (ud_published_at d)"

end
