(* ===== verification/Properties.thy ===== *)
theory Properties
  imports Listing_Dto Compounds Mirror
begin

text \<open>
  Listings: every operation of \<open>PropertiesService\<close> (\<open>modules/properties/properties.service.ts\<close>), the
  parameters its controller passes on, and the address hash of \<open>modules/shared/hash.util.ts\<close>. A write goes
  through \<open>Mirror\<close>, a refreshed count through \<open>Areas\<close>.

  Doubles are rationals: \<open>price * 0.75\<close> and \<open>amount / areaSqm\<close> are exact here.
\<close>

section \<open>Lists\<close>

text \<open>
  \<open>SORT_PATHS\<close>, and the value of a document at such a path. MongoDB sorts a missing value before every
  other one.
\<close>

definition listing_sortable :: "string list" where
  "listing_sortable = [''price'', ''area'', ''bedrooms'', ''publishedAt'', ''createdAt'']"

definition listing_field :: "listing \<Rightarrow> string \<Rightarrow> int option" where
  "listing_field d f =
     (if f = ''price'' then Some (lp_amount (li_price d))
      else if f = ''area'' then Some (ls_area_sqm (li_specs d))
      else if f = ''bedrooms'' then Some (ls_bedrooms (li_specs d))
      else if f = ''publishedAt'' then li_published_at d
      else Some (li_created_at d))"

fun missing_first :: "int option \<Rightarrow> int option \<Rightarrow> bool" where
  "missing_first None _ = True"
| "missing_first (Some a) None = False"
| "missing_first (Some a) (Some b) = (a \<le> b)"

definition listing_order :: "parsed_sort \<Rightarrow> listing \<Rightarrow> listing \<Rightarrow> bool" where
  "listing_order srt a b =
     (let x = listing_field a (ps_field srt); y = listing_field b (ps_field srt)
      in if x = y then li_mongo_id a \<le> li_mongo_id b
         else case ps_direction srt of Asc \<Rightarrow> missing_first x y | Desc \<Rightarrow> missing_first y x)"

text \<open>\<open>new RegExp(pattern, 'i')\<close> for a pattern without operators.\<close>

definition regex_ci :: "'r platform_env \<Rightarrow> string \<Rightarrow> string \<Rightarrow> bool" where
  "regex_ci env pat s = (case literal_pattern pat of Some t \<Rightarrow> contains_ci env s t | None \<Rightarrow> False)"

definition listing_where :: "'r platform_env \<Rightarrow> list_listings \<Rightarrow> listing \<Rightarrow> bool" where
  "listing_where env q d \<longleftrightarrow> li_deleted_at d = None \<and>
     some_of (ll_types q) [li_type d] \<and> some_of (ll_finishing q) [li_finishing d] \<and>
     (case ll_bedrooms q of Some (n # ns) \<Rightarrow> ls_bedrooms (li_specs d) \<in> set (n # ns) | _ \<Rightarrow> True) \<and>
     if_given (\<lambda>s. li_sale d = s) (ll_sale q) \<and> if_given (\<lambda>s. property_status_string (li_status d) = s) (ll_status q) \<and>
     if_given (\<lambda>i. lo_area_id (li_location d) = i) (ll_area_id q) \<and>
     if_given (\<lambda>i. cr_id (li_compound d) = i) (ll_compound_id q) \<and>
     if_given (\<lambda>i. dr_id (li_developer d) = i) (ll_developer_id q) \<and>
     (case ll_featured q of Some b \<Rightarrow> li_featured d = b | None \<Rightarrow> True) \<and>
     (case ll_min_price q of Some n \<Rightarrow> n \<le> lp_amount (li_price d) | None \<Rightarrow> True) \<and>
     (case ll_max_price q of Some n \<Rightarrow> lp_amount (li_price d) \<le> n | None \<Rightarrow> True) \<and>
     if_given (\<lambda>t. list_ex (regex_ci env (escape_reg_exp t))
       [li_reference_no d, li_slug d, lt_en (li_title d), lt_ar (li_title d)]) (ll_q q)"

definition strs :: "string list \<Rightarrow> js_value" where
  "strs ss = JArr (map JStr ss)"

definition listing_query :: "list_listings \<Rightarrow> js_value" where
  "listing_query q = entity_query ''properties'' (page_props q @
     opt_prop ''propertyType'' strs (ll_types q) @ opt_prop ''saleType'' JStr (ll_sale q) @
     opt_prop ''status'' JStr (ll_status q) @ opt_prop ''finishing'' strs (ll_finishing q) @
     opt_prop ''minPrice'' js_of_int (ll_min_price q) @ opt_prop ''maxPrice'' js_of_int (ll_max_price q) @
     opt_prop ''bedrooms'' (\<lambda>ns. JArr (map js_of_int ns)) (ll_bedrooms q) @
     opt_prop ''areaId'' JStr (ll_area_id q) @ opt_prop ''compoundId'' JStr (ll_compound_id q) @
     opt_prop ''developerId'' JStr (ll_developer_id q) @ opt_prop ''isFeatured'' JBool (ll_featured q) @
     opt_prop ''q'' JStr (ll_q q))"

definition property_list :: "'r platform_env \<Rightarrow> int \<Rightarrow> list_listings \<Rightarrow> ('r, 'z, listing page option) platform_prog" where
  "property_list env now q =
     cached_list (pe_listing_page env) env now (listing_query q) ttl_list
       (let srt = parse_sort (pq_sort q) listing_sortable \<lparr>ps_field = ''publishedAt'', ps_direction = Desc\<rparr>
        in seq (on_listings (mg_find (pe_listings env) (listing_where env q) (listing_order srt)
                  (nat ((pq_page q - 1) * pq_limit q)) (nat (pq_limit q)))) (\<lambda>data.
           seq (on_listings (mg_count (pe_listings env) (listing_where env q))) (\<lambda>n.
             ret (paginate data (of_nat n) (query_input q)))))"

section \<open>One listing\<close>

text \<open>
  \<open>identifierFilter\<close>: by the shared UUID, by the object id (compared as bytes, so in any letter case), or by
  slug; Mongoose runs the slug's setters, \<open>trim\<close> and \<open>lowercase\<close>, on the value queried too.
\<close>

definition identifier_filter :: "string \<Rightarrow> listing \<Rightarrow> bool" where
  "identifier_filter id_or_slug d =
     (if is_uuid id_or_slug then li_property_id d = id_or_slug
      else if is_object_id_hex id_or_slug then to_lower (li_mongo_id d) = to_lower id_or_slug
      else li_slug d = to_lower (trim (to_lower id_or_slug)))"

definition property_find_one :: "'r platform_env \<Rightarrow> int \<Rightarrow> string \<Rightarrow> ('r, 'z, listing) platform_prog" where
  "property_find_one env now id_or_slug =
     seq (on_cache (cache_get (pe_listing_codec env) (pe_redis env) now (property_key id_or_slug))) (\<lambda>cached.
       case cached of
         Some d \<Rightarrow> ret d
       | None \<Rightarrow>
           seq (on_listings (mg_find_one (pe_listings env)
                  (\<lambda>d. identifier_filter id_or_slug d \<and> li_deleted_at d = None))) (\<lambda>found.
             case found of
               None \<Rightarrow> throw (property_not_found id_or_slug)
             | Some d \<Rightarrow>
                 seq (on_cache (cache_set (pe_listing_codec env) (pe_redis env) now (property_key id_or_slug) d ttl_property))
                   (\<lambda>_. ret d)))"

definition comparable :: "listing \<Rightarrow> listing \<Rightarrow> bool" where
  "comparable source d \<longleftrightarrow> li_deleted_at d = None \<and> li_property_id d \<noteq> li_property_id source \<and>
     li_status d \<in> {Available, Off_Plan, Reserved} \<and>
     (cr_id (li_compound d) = cr_id (li_compound source) \<or>
      lo_area_id (li_location d) = lo_area_id (li_location source)) \<and>
     \<lfloor>of_int (lp_amount (li_price source)) * (3 / 4 :: rat)\<rfloor> \<le> lp_amount (li_price d) \<and>
     lp_amount (li_price d) \<le> \<lceil>of_int (lp_amount (li_price source)) * (5 / 4 :: rat)\<rceil> \<and>
     max 0 (ls_bedrooms (li_specs source) - 1) \<le> ls_bedrooms (li_specs d) \<and>
     ls_bedrooms (li_specs d) \<le> ls_bedrooms (li_specs source) + 1"

definition price_gap :: "listing \<Rightarrow> listing \<Rightarrow> int" where
  "price_gap source d = \<bar>lp_amount (li_price d) - lp_amount (li_price source)\<bar>"

text \<open>Without a sort, MongoDB answers in natural order, here the order of the collection.\<close>

definition natural_order :: "'d \<Rightarrow> 'd \<Rightarrow> bool" where
  "natural_order a b = True"

definition property_similar :: "'r platform_env \<Rightarrow> int \<Rightarrow> string \<Rightarrow> nat \<Rightarrow> ('r, 'z, listing list) platform_prog" where
  "property_similar env now id_or_slug limit =
     seq (property_find_one env now id_or_slug) (\<lambda>source.
     seq (on_listings (mg_find (pe_listings env) (comparable source) natural_order 0 (limit * 3))) (\<lambda>candidates.
       ret (take limit (sort_by (\<lambda>a b. price_gap source a \<le> price_gap source b) candidates))))"

text \<open>\<open>Number.parseInt(s, 10)\<close>, \<open>None\<close> for \<open>NaN\<close>; and the limit the controller passes on.\<close>

definition parse_int :: "string \<Rightarrow> int option" where
  "parse_int s =
     (let t = trim_start s;
          neg = (case t of c # _ \<Rightarrow> c = CHR ''-'' | [] \<Rightarrow> False);
          body = (case t of c # cs \<Rightarrow> if c = CHR ''-'' \<or> c = CHR ''+'' then cs else t | [] \<Rightarrow> []);
          digits = takeWhile is_digit body
      in if digits = [] then None
         else Some (if neg then - int (read_nat digits) else int (read_nat digits)))"

definition similar_limit :: "string option \<Rightarrow> int" where
  "similar_limit limit =
     (let parsed = parse_int (case limit of Some s \<Rightarrow> s | None \<Rightarrow> ''8'')
      in min 24 (max 1 (case parsed of Some n \<Rightarrow> (if n = 0 then 8 else n) | None \<Rightarrow> 8)))"

definition similar_endpoint ::
  "'r platform_env \<Rightarrow> int \<Rightarrow> string \<Rightarrow> string option \<Rightarrow> ('r, 'z, listing list) platform_prog" where
  "similar_endpoint env now id_or_slug limit = property_similar env now id_or_slug (nat (similar_limit limit))"

section \<open>Derived fields\<close>

definition monthly_installment :: "int \<Rightarrow> int \<Rightarrow> int \<Rightarrow> int" where
  "monthly_installment price down_percent years =
     (let months = years * 12
      in if months \<le> 0 then 0
         else round_rat (of_int price * (1 - of_int down_percent / 100) / of_int months))"

text \<open>The request classes keep \<open>areaSqm\<close> at 1 or more.\<close>

definition per_meter :: "int \<Rightarrow> int \<Rightarrow> int" where
  "per_meter amount area_sqm = round_rat (of_int amount / of_int area_sqm)"

text \<open>\<open>new URL(url)\<close> is a parameter that gives host and path name, or rejects.\<close>

definition derive_media_key :: "'r platform_env \<Rightarrow> string \<Rightarrow> string" where
  "derive_media_key env url =
     (case pe_parse_url env url of
        Some (host, pathname) \<Rightarrow>
          (let stripped = dropWhile (\<lambda>c. c = CHR ''/'') pathname;
               path = (if stripped = [] then ''image'' else stripped)
           in take 400 (''external/'' @ host @ ''/'' @ path))
      | None \<Rightarrow> ''external/'' @ pe_sha1 env url)"

definition normalize_image :: "'r platform_env \<Rightarrow> nat \<times> image_dto \<Rightarrow> listing_image" where
  "normalize_image env ni =
     (let index = fst ni; image = snd ni
      in \<lparr>im_url = id_url image, im_key = (case id_key image of Some k \<Rightarrow> k | None \<Rightarrow> derive_media_key env (id_url image)),
          im_width = (case id_width image of Some n \<Rightarrow> n | None \<Rightarrow> 1600),
          im_height = (case id_height image of Some n \<Rightarrow> n | None \<Rightarrow> 900),
          im_primary = (case id_primary image of Some b \<Rightarrow> b | None \<Rightarrow> False),
          im_order = (case id_order image of Some n \<Rightarrow> n | None \<Rightarrow> int index)\<rparr>)"

text \<open>When no image is marked primary, the first one becomes it.\<close>

fun mark_primary :: "listing_image list \<Rightarrow> listing_image list" where
  "mark_primary [] = []"
| "mark_primary (i # is) = (if list_ex im_primary (i # is) then i # is else i\<lparr>im_primary := True\<rparr> # is)"

definition normalize_media :: "'r platform_env \<Rightarrow> media_dto option \<Rightarrow> listing_media" where
  "normalize_media env media =
     (let images = (case media of Some m \<Rightarrow> (case md_images m of Some is \<Rightarrow> is | None \<Rightarrow> []) | None \<Rightarrow> []);
          plans = (case media of Some m \<Rightarrow> (case md_floor_plans m of Some ps \<Rightarrow> ps | None \<Rightarrow> []) | None \<Rightarrow> [])
      in \<lparr>lm_images = mark_primary (map (normalize_image env) (enumerate 0 images)),
          lm_floor_plans = map (\<lambda>p. \<lparr>fp_url = fd_url p, fp_label = (case fd_label p of Some l \<Rightarrow> l | None \<Rightarrow> [])\<rparr>) plans,
          lm_video_url = (case media of Some m \<Rightarrow> md_video_url m | None \<Rightarrow> None),
          lm_tour_url = (case media of Some m \<Rightarrow> md_tour_url m | None \<Rightarrow> None)\<rparr>)"

definition is_reference_no :: "string \<Rightarrow> bool" where
  "is_reference_no s \<longleftrightarrow> starts_with s ''TC-'' \<and> drop 3 s \<noteq> [] \<and> list_all is_digit (drop 3 s)"

definition next_reference_no :: "'r platform_env \<Rightarrow> ('r, 'z, string) platform_prog" where
  "next_reference_no env =
     seq (on_listings (mg_find (pe_listings env) (\<lambda>d. is_reference_no (li_reference_no d))
            (\<lambda>a b. li_reference_no b \<le> li_reference_no a) 0 1)) (\<lambda>found.
       let current = (case found of d # _ \<Rightarrow> read_nat (drop 3 (li_reference_no d)) | [] \<Rightarrow> 1000)
       in ret (''TC-'' @ show_nat (Suc current)))"

section \<open>After a write\<close>

definition invalidate_property :: "'r platform_env \<Rightarrow> int \<Rightarrow> string \<Rightarrow> string option \<Rightarrow> ('r, 'z, unit) platform_prog" where
  "invalidate_property env now property_id slug =
     seq (on_cache (cache_del (pe_redis env) now (property_key property_id #
            (case slug of Some s \<Rightarrow> if s \<noteq> [] then [property_key s] else [] | None \<Rightarrow> [])))) (\<lambda>_.
       invalidate_lists env now)"

definition after_write ::
  "'r platform_env \<Rightarrow> int \<Rightarrow> string \<Rightarrow> string \<Rightarrow> string option \<Rightarrow> ('r, 'z, unit) platform_prog" where
  "after_write env now property_id area_id previous_slug =
     seq (invalidate_property env now property_id previous_slug) (\<lambda>_.
     seq (index_property env property_id) (\<lambda>_.
       catch (sync_property_count env now area_id) (\<lambda>_. ret ())))"

section \<open>Create\<close>

definition related_not_found :: "string \<Rightarrow> string \<Rightarrow> string \<Rightarrow> string \<Rightarrow> exn" where
  "related_not_found entity i fld what =
     AppExc (bad_request (entity @ '' '' @ quote i @ '' does not exist'') RelatedResourceNotFoundCode
       [str_detail fld (''unknown '' @ what) ''exists''])"

definition property_slug_taken :: "'r platform_env \<Rightarrow> string \<Rightarrow> ('r, 'z, bool) platform_prog" where
  "property_slug_taken env candidate =
     seq (on_listings (mg_count (pe_listings env) (\<lambda>d. li_slug d = candidate))) (\<lambda>n. ret (0 < n))"

definition property_slug_taken_by_other :: "'r platform_env \<Rightarrow> string \<Rightarrow> string \<Rightarrow> ('r, 'z, bool) platform_prog" where
  "property_slug_taken_by_other env i candidate =
     seq (on_listings (mg_count (pe_listings env) (\<lambda>d. li_slug d = candidate \<and> li_property_id d \<noteq> i))) (\<lambda>n. ret (0 < n))"

definition published_date :: "'r platform_env \<Rightarrow> int \<Rightarrow> string option \<Rightarrow> int" where
  "published_date env now published = (case published of Some s \<Rightarrow> if s \<noteq> [] then pe_parse_date env s else now | None \<Rightarrow> now)"

definition text_of :: "text_dto \<Rightarrow> localized_text" where
  "text_of t = \<lparr>lt_en = td_en t, lt_ar = td_ar t\<rparr>"

definition location_of :: "area_row \<Rightarrow> location_dto \<Rightarrow> string \<Rightarrow> listing_location" where
  "location_of area l address =
     \<lparr>lo_area_id = ar_id area, lo_area_name = ar_name_en area, lo_city = ar_city area, lo_governorate = ar_governorate area,
      lo_address = address, lo_geo = \<lparr>gp_type = ''Point'', gp_coordinates = [gd_lng (od_geo l), gd_lat (od_geo l)]\<rparr>\<rparr>"

definition compound_ref_of :: "compound_row \<Rightarrow> compound_ref" where
  "compound_ref_of c = \<lparr>cr_id = co_id c, cr_name = co_name c, cr_slug = co_slug c\<rparr>"

definition developer_ref_of :: "developer_row \<Rightarrow> developer_ref" where
  "developer_ref_of d = \<lparr>dr_id = dv_id d, dr_name = dv_name d, dr_slug = dv_slug d, dr_logo_url = dv_logo_url d\<rparr>"

definition price_of :: "price_dto \<Rightarrow> int \<Rightarrow> listing_price" where
  "price_of p area_sqm = \<lparr>lp_amount = pd_amount p, lp_currency = ''EGP'',
     lp_per_meter = (case pd_per_meter p of Some n \<Rightarrow> n | None \<Rightarrow> per_meter (pd_amount p) area_sqm)\<rparr>"

definition plan_of :: "plan_dto \<Rightarrow> int \<Rightarrow> payment_plan" where
  "plan_of p amount = \<lparr>pp_down_percent = pl_down_percent p, pp_years = pl_years p,
     pp_monthly = (case pl_monthly p of
       Some n \<Rightarrow> n | None \<Rightarrow> monthly_installment amount (pl_down_percent p) (pl_years p)),
     pp_delivery = pl_delivery p\<rparr>"

definition specs_of :: "specs_dto \<Rightarrow> int \<Rightarrow> int \<Rightarrow> int \<Rightarrow> listing_specs" where
  "specs_of s garden storey parking = \<lparr>ls_bedrooms = sd_bedrooms s, ls_bathrooms = sd_bathrooms s,
     ls_area_sqm = sd_area_sqm s, ls_garden_sqm = set_if (sd_garden_sqm s) garden, ls_floor = set_if (sd_floor s) storey,
     ls_parking = set_if (sd_parking s) parking\<rparr>"

definition new_listing ::
  "'r platform_env \<Rightarrow> int \<Rightarrow> string \<Rightarrow> string \<Rightarrow> string \<Rightarrow> area_row \<Rightarrow> compound_row \<Rightarrow> developer_row \<Rightarrow> create_dto \<Rightarrow> listing" where
  "new_listing env now uuid slug reference_no area compound developer dto =
     \<lparr>li_mongo_id = [], li_property_id = uuid, li_slug = slug, li_reference_no = reference_no,
      li_title = text_of (cd_title dto), li_description = text_of (cd_description dto), li_type = cd_type dto,
      li_sale = cd_sale dto, li_status = (case cd_status dto of Some st \<Rightarrow> st | None \<Rightarrow> Available),
      li_finishing = cd_finishing dto, li_price = price_of (cd_price dto) (sd_area_sqm (cd_specs dto)),
      li_plan = plan_of (cd_plan dto) (pd_amount (cd_price dto)), li_specs = specs_of (cd_specs dto) 0 0 0,
      li_location = location_of area (cd_location dto)
        (case od_address (cd_location dto) of Some a \<Rightarrow> a | None \<Rightarrow> []),
      li_compound = compound_ref_of compound, li_developer = developer_ref_of developer,
      li_amenities = (case cd_amenities dto of Some as \<Rightarrow> as | None \<Rightarrow> []),
      li_media = normalize_media env (cd_media dto), li_stats = \<lparr>st_views = 0, st_favorites = 0, st_leads = 0\<rparr>,
      li_featured = (case cd_featured dto of Some b \<Rightarrow> b | None \<Rightarrow> False),
      li_published_at = Some (published_date env now (cd_published_at dto)), li_deleted_at = None,
      li_created_at = 0, li_updated_at = 0\<rparr>"

definition property_create :: "'r platform_env \<Rightarrow> int \<Rightarrow> create_dto \<Rightarrow> ('r, 'z, listing) platform_prog" where
  "property_create env now dto =
     seq (on_compounds (tb_find (pe_compounds env) (\<lambda>c. co_id c = cd_compound_id dto))) (\<lambda>found.
       case found of
         None \<Rightarrow> throw (related_not_found ''Compound'' (cd_compound_id dto) ''compoundId'' ''compound'')
       | Some compound \<Rightarrow>
     seq (join_developer env compound) (\<lambda>developer.
     seq (join_area env compound) (\<lambda>_.
     seq (on_areas (tb_find (pe_areas env) (\<lambda>a. ar_id a = od_area_id (cd_location dto)))) (\<lambda>found.
       case found of
         None \<Rightarrow> throw (related_not_found ''Area'' (od_area_id (cd_location dto)) ''location.areaId'' ''area'')
       | Some area \<Rightarrow>
     seq (unique_slug env now (case cd_slug dto of Some s \<Rightarrow> s | None \<Rightarrow> td_en (cd_title dto))
            (property_slug_taken env) ''property'') (\<lambda>slug.
     seq (fresh_uuid (pe_tokens env)) (\<lambda>uuid.
     seq (case cd_reference_no dto of Some r \<Rightarrow> ret r | None \<Rightarrow> next_reference_no env) (\<lambda>reference_no.
     seq (create_with_mirror env now (new_listing env now uuid slug reference_no area compound developer dto)) (\<lambda>doc.
     seq (after_write env now (li_property_id doc) (ar_id area) None) (\<lambda>_. ret doc)))))))))"

section \<open>Update\<close>

text \<open>The \<open>$set\<close> of an update: a field of the body that is absent is not in it.\<close>

definition updated_plan :: "listing \<Rightarrow> update_dto \<Rightarrow> plan_dto \<Rightarrow> payment_plan" where
  "updated_plan existing dto p =
     plan_of p (case ud_price dto of Some pr \<Rightarrow> pd_amount pr | None \<Rightarrow> lp_amount (li_price existing))"

definition updated_price :: "listing \<Rightarrow> update_dto \<Rightarrow> price_dto \<Rightarrow> listing_price" where
  "updated_price existing dto p =
     price_of p (case ud_specs dto of Some s \<Rightarrow> sd_area_sqm s | None \<Rightarrow> ls_area_sqm (li_specs existing))"

definition updated_specs :: "listing \<Rightarrow> specs_dto \<Rightarrow> listing_specs" where
  "updated_specs existing s =
     specs_of s (ls_garden_sqm (li_specs existing)) (ls_floor (li_specs existing)) (ls_parking (li_specs existing))"

definition updated_location :: "listing \<Rightarrow> area_row \<Rightarrow> location_dto \<Rightarrow> listing_location" where
  "updated_location existing area l =
     location_of area l (case od_address l of Some a \<Rightarrow> a | None \<Rightarrow> lo_address (li_location existing))"

definition apply_listing_update ::
  "'r platform_env \<Rightarrow> listing \<Rightarrow> string option \<Rightarrow> listing_location option \<Rightarrow> (compound_row \<times> developer_row) option \<Rightarrow>
   update_dto \<Rightarrow> listing \<Rightarrow> listing" where
  "apply_listing_update env existing slug loc compound dto d =
     d\<lparr>li_slug := set_if slug (li_slug d), li_title := set_if (map_option text_of (ud_title dto)) (li_title d),
       li_description := set_if (map_option text_of (ud_description dto)) (li_description d),
       li_type := set_if (ud_type dto) (li_type d), li_sale := set_if (ud_sale dto) (li_sale d),
       li_status := set_if (ud_status dto) (li_status d), li_finishing := set_if (ud_finishing dto) (li_finishing d),
       li_featured := set_if (ud_featured dto) (li_featured d), li_amenities := set_if (ud_amenities dto) (li_amenities d),
       li_published_at := set_if_opt (map_option (pe_parse_date env) (ud_published_at dto)) (li_published_at d),
       li_media := set_if (map_option (\<lambda>m. normalize_media env (Some m)) (ud_media dto)) (li_media d),
       li_specs := set_if (map_option (updated_specs existing) (ud_specs dto)) (li_specs d),
       li_price := set_if (map_option (updated_price existing dto) (ud_price dto)) (li_price d),
       li_plan := set_if (map_option (updated_plan existing dto) (ud_plan dto)) (li_plan d),
       li_location := set_if loc (li_location d),
       li_compound := set_if (map_option (\<lambda>cd. compound_ref_of (fst cd)) compound) (li_compound d),
       li_developer := set_if (map_option (\<lambda>cd. developer_ref_of (snd cd)) compound) (li_developer d)\<rparr>"

definition property_new_slug ::
  "'r platform_env \<Rightarrow> int \<Rightarrow> string \<Rightarrow> update_dto \<Rightarrow> ('r, 'z, string option) platform_prog" where
  "property_new_slug env now i dto =
     (if ud_slug dto \<noteq> None \<or> ud_title dto \<noteq> None
      then seq (unique_slug env now (case ud_slug dto of Some s \<Rightarrow> s | None \<Rightarrow> td_en (the (ud_title dto)))
             (property_slug_taken_by_other env i) ''property'') (\<lambda>s. ret (Some s))
      else ret None)"

definition property_new_location ::
  "'r platform_env \<Rightarrow> listing \<Rightarrow> update_dto \<Rightarrow> ('r, 'z, listing_location option) platform_prog" where
  "property_new_location env existing dto =
     (case ud_location dto of
        None \<Rightarrow> ret None
      | Some l \<Rightarrow>
          seq (on_areas (tb_find (pe_areas env) (\<lambda>a. ar_id a = od_area_id l))) (\<lambda>found.
            case found of
              None \<Rightarrow> throw (related_not_found ''Area'' (od_area_id l) ''location.areaId'' ''area'')
            | Some area \<Rightarrow> ret (Some (updated_location existing area l))))"

definition property_new_compound ::
  "'r platform_env \<Rightarrow> update_dto \<Rightarrow> ('r, 'z, (compound_row \<times> developer_row) option) platform_prog" where
  "property_new_compound env dto =
     (case ud_compound_id dto of
        None \<Rightarrow> ret None
      | Some i \<Rightarrow>
          if i = [] then ret None
          else
            seq (on_compounds (tb_find (pe_compounds env) (\<lambda>c. co_id c = i))) (\<lambda>found.
              case found of
                None \<Rightarrow> throw (related_not_found ''Compound'' i ''compoundId'' ''compound'')
              | Some c \<Rightarrow> seq (join_developer env c) (\<lambda>d. ret (Some (c, d)))))"

definition property_update ::
  "'r platform_env \<Rightarrow> int \<Rightarrow> string \<Rightarrow> update_dto \<Rightarrow> ('r, 'z, listing) platform_prog" where
  "property_update env now i dto =
     seq (on_listings (mg_find_one (pe_listings env) (\<lambda>d. li_property_id d = i \<and> li_deleted_at d = None))) (\<lambda>found.
       case found of
         None \<Rightarrow> throw (property_not_found i)
       | Some existing \<Rightarrow>
     seq (property_new_slug env now i dto) (\<lambda>slug.
     seq (property_new_location env existing dto) (\<lambda>loc.
     seq (property_new_compound env dto) (\<lambda>compound.
     seq (update_with_mirror env now i (apply_listing_update env existing slug loc compound dto)) (\<lambda>doc.
     seq (after_write env now i (lo_area_id (li_location existing)) (Some (li_slug existing))) (\<lambda>_. ret doc))))))"

section \<open>Remove\<close>

definition property_remove :: "'r platform_env \<Rightarrow> int \<Rightarrow> string \<Rightarrow> ('r, 'z, string) platform_prog" where
  "property_remove env now i =
     seq (on_listings (mg_find_one (pe_listings env) (\<lambda>d. li_property_id d = i))) (\<lambda>found.
       case found of
         None \<Rightarrow> throw (property_not_found i)
       | Some existing \<Rightarrow>
     seq (soft_delete_with_mirror env now i) (\<lambda>_.
     seq (invalidate_property env now i (Some (li_slug existing))) (\<lambda>_.
     seq (remove_property env i) (\<lambda>_.
     seq (catch (sync_property_count env now (lo_area_id (li_location existing))) (\<lambda>_. ret ())) (\<lambda>_. ret i)))))"

text \<open>The routes of the controller check the identifier first.\<close>

definition with_uuid :: "string \<Rightarrow> (string \<Rightarrow> ('w, exn, 'a) prog) \<Rightarrow> ('w, exn, 'a) prog" where
  "with_uuid i m = (case assert_uuid i ''id'' of Inl e \<Rightarrow> throw (AppExc e) | Inr i \<Rightarrow> m i)"

definition update_endpoint :: "'r platform_env \<Rightarrow> int \<Rightarrow> string \<Rightarrow> update_dto \<Rightarrow> ('r, 'z, listing) platform_prog" where
  "update_endpoint env now i dto = with_uuid i (\<lambda>i. property_update env now i dto)"

definition remove_endpoint :: "'r platform_env \<Rightarrow> int \<Rightarrow> string \<Rightarrow> ('r, 'z, string) platform_prog" where
  "remove_endpoint env now i = with_uuid i (property_remove env now)"

section \<open>Counters of a listing\<close>

definition bump :: "(listing_stats \<Rightarrow> listing_stats) \<Rightarrow> listing \<Rightarrow> listing" where
  "bump f d = d\<lparr>li_stats := f (li_stats d)\<rparr>"

text \<open>\<open>hashIp\<close>.\<close>

definition hash_ip :: "(string \<Rightarrow> string) \<Rightarrow> string option \<Rightarrow> string option" where
  "hash_ip sha256 ip =
     (case ip of
        None \<Rightarrow> None
      | Some a \<Rightarrow> if a = [] then None else Some (take 32 (sha256 (''topchoice:'' @ a))))"

record viewer =
  vw_user_id :: "string option"
  vw_ip :: "string option"
  vw_user_agent :: "string option"
  vw_referrer :: "string option"

definition view_dedupe_ttl :: rat where
  "view_dedupe_ttl = 1800"

definition view_key :: "'r platform_env \<Rightarrow> string \<Rightarrow> viewer \<Rightarrow> string" where
  "view_key env property_id vw =
     rate_limit_key (''view:'' @ property_id)
       (case vw_user_id vw of
          Some u \<Rightarrow> u
        | None \<Rightarrow> (case hash_ip (te_sha256 (pe_tokens env)) (vw_ip vw) of Some h \<Rightarrow> h | None \<Rightarrow> ''anonymous''))"

text \<open>Both writes are started; when one rejects the other still runs, and the rejection is only logged.\<close>

definition record_view :: "'r platform_env \<Rightarrow> int \<Rightarrow> string \<Rightarrow> viewer \<Rightarrow> ('r, 'z, bool) platform_prog" where
  "record_view env now id_or_slug vw =
     seq (on_listings (mg_find_one (pe_listings env)
            (\<lambda>d. identifier_filter id_or_slug d \<and> li_deleted_at d = None))) (\<lambda>found.
       case found of
         None \<Rightarrow> throw (property_not_found id_or_slug)
       | Some d \<Rightarrow>
     seq (on_cache (cache_increment (pe_redis env) now (view_key env (li_property_id d) vw) view_dedupe_ttl)) (\<lambda>hits.
       if 1 < hits then ret False
       else
     seq (catch (seq (on_listings (mg_update_one (pe_listings env) now (\<lambda>x. li_property_id x = li_property_id d)
            (bump (\<lambda>st. st\<lparr>st_views := st_views st + 1\<rparr>)))) (\<lambda>_. ret ())) (\<lambda>_. ret ())) (\<lambda>_.
     seq (catch (seq (on_views (mg_create (pe_views env) now
            \<lparr>pv_property_id = li_property_id d, pv_user_id = vw_user_id vw,
             pv_ip_hash = hash_ip (te_sha256 (pe_tokens env)) (vw_ip vw), pv_user_agent = vw_user_agent vw,
             pv_referrer = vw_referrer vw, pv_viewed_at = 0\<rparr>)) (\<lambda>_. ret ())) (\<lambda>_. ret ())) (\<lambda>_.
     seq (on_cache (cache_del (pe_redis env) now [property_key (li_property_id d)])) (\<lambda>_. ret True)))))"

definition adjust_favorite_count :: "'r platform_env \<Rightarrow> int \<Rightarrow> string \<Rightarrow> int \<Rightarrow> ('r, 'z, unit) platform_prog" where
  "adjust_favorite_count env now property_id delta =
     seq (catch (seq (on_listings (mg_update_one (pe_listings env) now (\<lambda>d. li_property_id d = property_id)
            (bump (\<lambda>st. st\<lparr>st_favorites := st_favorites st + delta\<rparr>)))) (\<lambda>_. ret ())) (\<lambda>_. ret ())) (\<lambda>_.
     seq (on_cache (cache_del (pe_redis env) now [property_key property_id])) (\<lambda>_. ret ()))"

definition increment_lead_count :: "'r platform_env \<Rightarrow> int \<Rightarrow> string \<Rightarrow> ('r, 'z, unit) platform_prog" where
  "increment_lead_count env now property_id =
     seq (catch (seq (on_listings (mg_update_one (pe_listings env) now (\<lambda>d. li_property_id d = property_id)
            (bump (\<lambda>st. st\<lparr>st_leads := st_leads st + 1\<rparr>)))) (\<lambda>_. ret ())) (\<lambda>_. ret ())) (\<lambda>_.
     seq (on_cache (cache_del (pe_redis env) now [property_key property_id])) (\<lambda>_. ret ()))"

section \<open>Free slugs\<close>

definition listings_ready :: "'r platform_env \<Rightarrow> bool" where
  "listings_ready env \<longleftrightarrow> law_mg_reads (pe_listings env)"

lemma listings_readyI: "collection_ok sc (pe_listings env) \<Longrightarrow> listings_ready env"
  by (simp add: listings_ready_def collection_ok_def)

definition property_taken :: "'r platform_env \<Rightarrow> ('r, 'z) platform_scheme \<Rightarrow> string \<Rightarrow> bool" where
  "property_taken env w s \<longleftrightarrow> (\<exists>d\<in>set (db_listings w). li_slug d = s)"

interpretation property_slugs: slug_probe listings_ready property_slug_taken property_taken
  by unfold_locales
    (simp add: listings_ready_def property_slug_taken_def property_taken_def seq_def on_simps law_mg_reads_def
      count_pos [simplified])

definition property_taken_by_other :: "'r platform_env \<times> string \<Rightarrow> ('r, 'z) platform_scheme \<Rightarrow> string \<Rightarrow> bool" where
  "property_taken_by_other ei w s \<longleftrightarrow> (\<exists>d\<in>set (db_listings w). li_slug d = s \<and> li_property_id d \<noteq> snd ei)"

definition pair_property_probe :: "'r platform_env \<times> string \<Rightarrow> string \<Rightarrow> ('r, 'z, bool) platform_prog" where
  "pair_property_probe ei s = property_slug_taken_by_other (fst ei) (snd ei) s"

interpretation property_slugs_other: slug_probe "\<lambda>ei. listings_ready (fst ei)" pair_property_probe property_taken_by_other
  by unfold_locales
    (simp add: listings_ready_def pair_property_probe_def property_slug_taken_by_other_def property_taken_by_other_def
      seq_def on_simps law_mg_reads_def count_pos [simplified])

end
