(* ===== verification/Listing_Laws.thy ===== *)
theory Listing_Laws
  imports Properties Cache_Wp
begin

text \<open>
  What the operations on listings promise: comparable listings, one counted view for each viewer.
\<close>

section \<open>Comparable listings\<close>

lemma set_insert_by [simp]: "set (insert_by le x xs) = insert x (set xs)"
  by (metis mset_insert_by set_mset_add_mset_insert set_mset_mset)

lemma sorted_insert_by:
  "sorted (map f xs) \<Longrightarrow> sorted (map f (insert_by (\<lambda>a b. f a \<le> (f b :: int)) x xs))"
  by (induction xs) auto

lemma sorted_sort_by: "sorted (map f (sort_by (\<lambda>a b. f a \<le> (f b :: int)) xs))"
  unfolding sort_by_def by (induction xs) (auto simp: sorted_insert_by)

lemma similar_limit_range: "1 \<le> similar_limit s \<and> similar_limit s \<le> 24"
  by (simp add: similar_limit_def Let_def)

lemma on_listings_find:
  assumes "collection_ok sc (pe_listings env)"
  shows "on_listings (mg_find_one (pe_listings env) P) w = (Return (List.find P (db_listings w)), w)"
    "on_listings (mg_find (pe_listings env) P le k n) w =
      (Return (take n (drop k (sort_by le (filter P (db_listings w))))), w)"
  by (simp_all add: on_simps collection_reads [OF assms])

lemma find_one_leaves:
  assumes "collection_ok sc (pe_listings env)"
  shows "leaves db_listings (property_find_one env now i)"
proof -
  have "leaves db_listings (on_listings (mg_find_one (pe_listings env) P))" for P
    by (simp add: leaves_def on_listings_find [OF assms])
  then show ?thesis
    unfolding property_find_one_def by (intro leaves_intros)
qed

lemma comparable_prices:
  assumes "comparable source d"
  shows "3 * lp_amount (li_price source) - 3 \<le> 4 * lp_amount (li_price d) \<and>
    4 * lp_amount (li_price d) \<le> 5 * lp_amount (li_price source) + 3"
proof -
  let ?p = "lp_amount (li_price source)" and ?q = "lp_amount (li_price d)"
  from assms have "of_int ?p * (3 / 4 :: rat) < of_int ?q + 1" and "of_int ?q - 1 < of_int ?p * (5 / 4 :: rat)"
    unfolding comparable_def by linarith+
  then have "of_int (3 * ?p) < (of_int (4 * ?q + 4) :: rat)" and "of_int (4 * ?q - 4) < (of_int (5 * ?p) :: rat)"
    by simp_all
  then show ?thesis by (simp only: of_int_less_iff) linarith
qed

text \<open>
  C23: What \<open>GET /properties/:id/similar\<close> answers: whatever the limit asked for, at most 24 stored listings, all of
  them live, in a status still on offer, other than the listing itself, in its compound or its area, within 25
  per cent of its price (up to the rounding of the bounds) and within one bedroom, ordered by how close the price is.
\<close>

theorem similar_listings_comparable:
  assumes "collection_ok (listing_schema oid) (pe_listings env)"
    and "similar_endpoint env now i limit w = (Return ds, w')"
  shows "\<exists>source. fst (property_find_one env now i w) = Return source \<and> length ds \<le> 24 \<and>
    sorted (map (price_gap source) ds) \<and>
    (\<forall>d\<in>set ds. d \<in> set (db_listings w) \<and> li_deleted_at d = None \<and> li_property_id d \<noteq> li_property_id source \<and>
      li_status d \<noteq> Sold \<and> li_status d \<noteq> Delivered \<and>
      (cr_id (li_compound d) = cr_id (li_compound source) \<or>
       lo_area_id (li_location d) = lo_area_id (li_location source)) \<and>
      3 * lp_amount (li_price source) - 3 \<le> 4 * lp_amount (li_price d) \<and>
      4 * lp_amount (li_price d) \<le> 5 * lp_amount (li_price source) + 3 \<and>
      \<bar>ls_bedrooms (li_specs d) - ls_bedrooms (li_specs source)\<bar> \<le> 1)"
proof -
  obtain source w1 where found: "property_find_one env now i w = (Return source, w1)"
    using assms(2)
    by (auto simp: similar_endpoint_def property_similar_def seq_def split: prod.splits outcome.splits)
  let ?n = "nat (similar_limit limit)"
  let ?cs = "take (?n * 3) (sort_by natural_order (filter (comparable source) (db_listings w)))"
  have "db_listings w1 = db_listings w"
    by (rule leavesD [OF find_one_leaves [OF assms(1)] found])
  then have ds: "ds = take ?n (sort_by (\<lambda>a b. price_gap source a \<le> price_gap source b) ?cs)"
    using assms(2) found
    by (simp add: similar_endpoint_def property_similar_def seq_def on_listings_find [OF assms(1)])
  have "length ds \<le> ?n" by (simp add: ds)
  also have "?n \<le> 24" using similar_limit_range [of limit] by linarith
  finally have "length ds \<le> 24" .
  moreover have "sorted (map (price_gap source) ds)"
    by (simp add: ds take_map [symmetric] sorted_wrt_take sorted_sort_by)
  moreover have "d \<in> set (db_listings w) \<and> comparable source d" if "d \<in> set ds" for d
  proof -
    from that have "d \<in> set ?cs" by (auto simp: ds dest: in_set_takeD)
    then have "d \<in> set (sort_by natural_order (filter (comparable source) (db_listings w)))"
      by (rule in_set_takeD)
    then show ?thesis by simp
  qed
  moreover note comparable_prices
  ultimately show ?thesis
    using found by (intro exI [of _ source]) (fastforce simp: comparable_def)
qed

definition other_villa :: listing where
  "other_villa = demo_listing\<lparr>li_mongo_id := ''o1'', li_property_id := ''p2'', li_slug := ''villa-2'',
     li_reference_no := ''TC-1002''\<rparr>"

definition two_villas :: "mem platform" where
  "two_villas = empty_platform\<lparr>db_listings := [demo_listing, other_villa]\<rparr>"

lemma mem_listings_ok: "collection_ok (listing_schema mem_oid) (pe_listings mem_platform)"
  by simp

lemma mem_listing_codec [simp]: "pe_listing_codec mem_platform = no_codec"
  by (simp add: mem_platform_def)

lemma two_villas_source: "property_find_one mem_platform 0 ''villa'' two_villas = (Return demo_listing, two_villas)"
proof -
  have "\<not> is_uuid ''villa''" "\<not> is_object_id_hex ''villa''" "to_lower (trim (to_lower ''villa'')) = ''villa''"
    by code_simp+
  then show ?thesis
    by (simp add: property_find_one_def seq_def on_cache_def part_eq cache_get_def cache_set_def mem_env_def mem_redis_def
        two_villas_def mem_live_def on_listings_find [OF mem_listings_ok] identifier_filter_def demo_listing_def
        no_codec_def catch_def del: mem_platform_sel(2))
qed

lemma two_villas_similar: "similar_endpoint mem_platform 0 ''villa'' None two_villas = (Return [other_villa], two_villas)"
proof -
  have "similar_limit None = 8" by code_simp
  moreover have "filter (comparable demo_listing) [demo_listing, other_villa] = [other_villa]"
    by (simp add: comparable_def other_villa_def demo_listing_def)
  ultimately show ?thesis
    by (simp add: similar_endpoint_def property_similar_def seq_def two_villas_source on_listings_find [OF mem_listings_ok]
        del: mem_platform_sel(2)) (simp add: two_villas_def sort_by_def)
qed

theorem similar_listings_comparable_witness:
  "\<exists>source. fst (property_find_one mem_platform 0 ''villa'' two_villas) = Return source \<and> length [other_villa] \<le> 24 \<and>
     3 * lp_amount (li_price source) - 3 \<le> 4 * lp_amount (li_price other_villa) \<and>
     \<bar>ls_bedrooms (li_specs other_villa) - ls_bedrooms (li_specs source)\<bar> \<le> 1"
  using similar_listings_comparable [OF _ two_villas_similar, of mem_oid] by fastforce

section \<open>Counted views\<close>

lemma find_bumped:
  assumes "distinct (map li_property_id ds)" and "List.find P ds = Some d"
    and "\<And>x. P (f x) = P x"
  shows "List.find P (update_first (\<lambda>x. li_property_id x = li_property_id d) f ds) = Some (f d)"
  using assms by (induction ds) (auto split: if_splits dest: find_SomeD)

lemma ids_bumped:
  "(\<And>x. li_property_id (f x) = li_property_id x) \<Longrightarrow> map li_property_id (update_first P f ds) = map li_property_id ds"
  by (induction ds) auto

lemma identifier_filter_stats [simp]:
  "identifier_filter i (bump f d\<lparr>li_updated_at := t\<rparr>) = identifier_filter i d"
  by (simp add: identifier_filter_def bump_def)

lemma bump_sel [simp]:
  "li_property_id (bump f d) = li_property_id d" "li_mongo_id (bump f d) = li_mongo_id d" "li_slug (bump f d) = li_slug d"
  "li_deleted_at (bump f d) = li_deleted_at d" "li_stats (bump f d) = f (li_stats d)"
  "li_reference_no (bump f d) = li_reference_no d"
  by (simp_all add: bump_def)

lemma listing_clash_bump [simp]: "listing_clash (bump f d) = listing_clash d"
  by (simp add: listing_clash_def fun_eq_iff)

definition viewed :: "int \<Rightarrow> listing \<Rightarrow> listing" where
  "viewed now d = (bump (\<lambda>st. st\<lparr>st_views := st_views st + 1\<rparr>) d)\<lparr>li_updated_at := now\<rparr>"

definition live_listing :: "string \<Rightarrow> listing \<Rightarrow> bool" where
  "live_listing i d \<longleftrightarrow> identifier_filter i d \<and> li_deleted_at d = None"

text \<open>The two outcomes of \<open>recordView\<close>: a counter that is running, and one that is absent.\<close>

lemma view_again:
  assumes ready: "services_ready env v" and mongo: "collection_ok (listing_schema oid) (pe_listings env)"
    and found: "List.find (live_listing i) (db_listings w) = Some d"
    and "counting v (sw_cache w) t (view_key env (li_property_id d) vw) e" and "t < e"
  obtains r where "record_view env t i vw w = (Return False, w\<lparr>sw_cache := r\<rparr>)"
    "counting v r t (view_key env (li_property_id d) vw) e"
    "\<And>k u. k \<noteq> view_key env (li_property_id d) vw \<Longrightarrow> t \<le> u \<Longrightarrow> rv_live v r u k = rv_live v (sw_cache w) u k"
proof -
  obtain n r where inc: "cache_increment (pe_redis env) t (view_key env (li_property_id d) vw) view_dedupe_ttl (sw_cache w) = (Return n, r)"
    and "1 < n" and "counting v r t (view_key env (li_property_id d) vw) e"
    "\<And>k u. k \<noteq> view_key env (li_property_id d) vw \<Longrightarrow> t \<le> u \<Longrightarrow> rv_live v r u k = rv_live v (sw_cache w) u k"
    using increment_again [OF ready_redis [OF ready] assms(4,5)] by metis
  then show thesis
    using found
    by (intro that [of r])
      (simp_all add: record_view_def seq_def on_listings_find [OF mongo] live_listing_def [abs_def] on_cache_def part_eq)
qed

lemma view_key_neq_property [simp]: "view_key env p vw \<noteq> property_key q"
  by (simp add: view_key_def rate_limit_key_def property_key_def)

lemma view_first:
  assumes ready: "services_ready env v" and mongo: "collection_ok (listing_schema oid) (pe_listings env)"
    and views: "collection_ok view_schema (pe_views env)"
    and found: "List.find (live_listing i) (db_listings w) = Some d"
    and absent: "rv_live v (sw_cache w) t (view_key env (li_property_id d) vw) = None"
  obtains w' where "record_view env t i vw w = (Return True, w')"
    "db_listings w' = update_first (\<lambda>x. li_property_id x = li_property_id d) (viewed t) (db_listings w)"
    "counting v (sw_cache w') t (view_key env (li_property_id d) vw) (t + 1800000)"
    "\<And>p x u. view_key env p x \<noteq> view_key env (li_property_id d) vw \<Longrightarrow> t \<le> u \<Longrightarrow>
      rv_live v (sw_cache w') u (view_key env p x) = rv_live v (sw_cache w) u (view_key env p x)"
proof -
  let ?key = "view_key env (li_property_id d) vw"
  have ttl: "1 \<le> view_dedupe_ttl" "\<lfloor>view_dedupe_ttl\<rfloor> = 1800" by (simp_all add: view_dedupe_ttl_def)
  obtain r where inc: "cache_increment (pe_redis env) t ?key view_dedupe_ttl (sw_cache w) = (Return 1, r)"
    and key: "counting v r t ?key (t + 1000 * \<lfloor>view_dedupe_ttl\<rfloor>)"
    and rest: "\<And>k u. k \<noteq> ?key \<Longrightarrow> t \<le> u \<Longrightarrow> rv_live v r u k = rv_live v (sw_cache w) u k"
    using increment_fresh [OF ready_redis [OF ready] ttl(1) absent] by metis
  obtain n r' where del: "cache_del (pe_redis env) t [property_key (li_property_id d)] r = (Return n, r')"
    and become: "keys_become v t r r' (\<lambda>_ k y. if k \<in> set [property_key (li_property_id d)] then None else y)"
    by (rule cache_del_law [OF ready_redis [OF ready]])
  have update: "mg_update_one (pe_listings env) t P (bump f) ds =
      (Return (if List.find P ds = None then 0 else 1), update_first P (\<lambda>x. (bump f x)\<lparr>li_updated_at := t\<rparr>) ds)" for P f ds
    by (simp add: collection_update_one [OF mongo])
  have ignored: "\<exists>vs. catch (seq (on_views (mg_create (pe_views env) t pv)) (\<lambda>_. ret ())) (\<lambda>_. ret ()) x =
      (Return (), x\<lparr>db_views := vs\<rparr>)" for pv x
    by (rule exI [of _ "snd (mg_create (pe_views env) t pv (db_views x))"])
      (simp add: catch_def seq_def on_simps collection_create [OF views] list_ex_iff)
  define w1 where "w1 = w\<lparr>sw_cache := r\<rparr>
    \<lparr>db_listings := update_first (\<lambda>x. li_property_id x = li_property_id d) (viewed t) (db_listings w)\<rparr>"
  obtain vs where vs: "catch (seq (on_views (mg_create (pe_views env) t
      \<lparr>pv_property_id = li_property_id d, pv_user_id = vw_user_id vw,
       pv_ip_hash = hash_ip (te_sha256 (pe_tokens env)) (vw_ip vw), pv_user_agent = vw_user_agent vw,
       pv_referrer = vw_referrer vw, pv_viewed_at = 0\<rparr>)) (\<lambda>_. ret ())) (\<lambda>_. ret ()) w1 = (Return (), w1\<lparr>db_views := vs\<rparr>)"
    using ignored by blast
  show thesis
  proof (rule that [of "w1\<lparr>db_views := vs\<rparr>\<lparr>sw_cache := r'\<rparr>"])
    have "record_view env t i vw w =
        seq (catch (seq (on_views (mg_create (pe_views env) t
            \<lparr>pv_property_id = li_property_id d, pv_user_id = vw_user_id vw,
             pv_ip_hash = hash_ip (te_sha256 (pe_tokens env)) (vw_ip vw), pv_user_agent = vw_user_agent vw,
             pv_referrer = vw_referrer vw, pv_viewed_at = 0\<rparr>)) (\<lambda>_. ret ())) (\<lambda>_. ret ())) (\<lambda>_.
          seq (on_cache (cache_del (pe_redis env) t [property_key (li_property_id d)])) (\<lambda>_. ret True)) w1"
      using found
      by (simp add: record_view_def seq_def collection_reads [OF mongo] live_listing_def [abs_def] on_cache_def part_eq
          inc catch_def on_simps(1) update w1_def viewed_def [abs_def])
    also have "\<dots> = (Return True, w1\<lparr>db_views := vs\<rparr>\<lparr>sw_cache := r'\<rparr>)"
      unfolding seq_def [of "catch _ _"] vs
      by (simp add: seq_def on_cache_def part_eq w1_def del)
    finally show "record_view env t i vw w = (Return True, w1\<lparr>db_views := vs\<rparr>\<lparr>sw_cache := r'\<rparr>)" .
    show "counting v (sw_cache (w1\<lparr>db_views := vs\<rparr>\<lparr>sw_cache := r'\<rparr>)) t ?key (t + 1800000)"
      using counting_frame [OF key become] ttl(2) by simp
    show "rv_live v (sw_cache (w1\<lparr>db_views := vs\<rparr>\<lparr>sw_cache := r'\<rparr>)) u (view_key env p x) =
        rv_live v (sw_cache w) u (view_key env p x)"
      if "view_key env p x \<noteq> ?key" "t \<le> u" for p x u
      using rest [OF that] become that by (simp add: keys_become_def)
  qed (simp add: w1_def)
qed

text \<open>Requests one after the other, each with its time, the identifier it uses, and its viewer.\<close>

primrec run_views ::
  "'r platform_env \<Rightarrow> (int \<times> string \<times> viewer) list \<Rightarrow> ('r, 'z) platform_scheme \<Rightarrow>
   (exn, bool) outcome list \<times> ('r, 'z) platform_scheme" where
  "run_views env [] w = ([], w)"
| "run_views env (tv # tvs) w =
     (let (out, w1) = record_view env (fst tv) (fst (snd tv)) (snd (snd tv)) w;
          (outs, w2) = run_views env tvs w1
      in (out # outs, w2))"

lemma counting_same:
  "counting v r t k e \<Longrightarrow> (\<And>u. t \<le> u \<Longrightarrow> rv_live v r' u k = rv_live v r u k) \<Longrightarrow> counting v r' t k e"
  unfolding counting_def by simp

lemma counting_less: "counting v r t k e \<Longrightarrow> e' \<le> e \<Longrightarrow> counting v r t k e'"
  unfolding counting_def by (meson order_trans)

lemma live_listing_viewed [simp]: "live_listing i (viewed t d) = live_listing i d"
  by (simp add: live_listing_def viewed_def)

lemma viewed_sel [simp]:
  "li_property_id (viewed t d) = li_property_id d" "st_views (li_stats (viewed t d)) = st_views (li_stats d) + 1"
  by (simp_all add: viewed_def)

lemma run_views_count:
  assumes ready: "services_ready env v" and mongo: "collection_ok (listing_schema oid) (pe_listings env)"
    and views: "collection_ok view_schema (pe_views env)"
  defines "keys \<equiv> \<lambda>d tvs. (\<lambda>tv. view_key env (li_property_id d) (snd (snd tv))) ` set tvs"
  assumes "distinct (map li_property_id (db_listings w))" and "\<forall>j\<in>I. List.find (live_listing j) (db_listings w) = Some d"
    and "\<forall>tv\<in>set tvs. fst (snd tv) \<in> I"
    and "sorted (t # map fst tvs)" and "\<forall>tv\<in>set tvs. fst tv < e" and "e \<le> t + 1800000"
    and "S \<subseteq> range (view_key env (li_property_id d))" and "\<forall>k\<in>S. counting v (sw_cache w) t k e"
    and "\<forall>k\<in>keys d tvs - S. rv_live v (sw_cache w) t k = None"
  shows "\<exists>outs w' d'. run_views env tvs w = (outs, w') \<and>
    (\<forall>j\<in>I. List.find (live_listing j) (db_listings w') = Some d') \<and>
    li_property_id d' = li_property_id d \<and>
    st_views (li_stats d') = st_views (li_stats d) + int (card (keys d tvs - S)) \<and>
    length (filter (\<lambda>out. out = Return True) outs) = card (keys d tvs - S)"
  using assms(5-)
proof (induction tvs arbitrary: w d t S)
  case Nil
  then show ?case by (auto simp: keys_def intro!: exI [of _ d])
next
  case (Cons tv tvs)
  let ?key = "view_key env (li_property_id d) (snd (snd tv))" and ?t = "fst tv"
  have t: "t \<le> ?t" "?t < e" using Cons.prems by auto
  have seen: "\<forall>k\<in>S. counting v (sw_cache w) ?t k e"
    using Cons.prems(8) by (auto intro: counting_later [OF _ t(1)])
  have unseen: "rv_live v (sw_cache w) u k = None" if "k \<in> keys d (tv # tvs) - S" "t \<le> u" for k u
    using Cons.prems(9) that redis_live_later [OF ready_redis [OF ready], of t u] by (metis not_None_eq)
  have here: "List.find (live_listing (fst (snd tv))) (db_listings w) = Some d" using Cons.prems(2,3) by simp
  have ids_in: "\<forall>tv\<in>set tvs. fst (snd tv) \<in> I" using Cons.prems(3) by simp
  have rest: "sorted (?t # map fst tvs)" "\<forall>tv\<in>set tvs. fst tv < e" "e \<le> ?t + 1800000"
    using Cons.prems t(1) by auto
  show ?case
  proof (cases "?key \<in> S")
    case True
    then have "counting v (sw_cache w) ?t ?key e" using seen by blast
    then obtain r where view: "record_view env ?t (fst (snd tv)) (snd (snd tv)) w = (Return False, w\<lparr>sw_cache := r\<rparr>)"
      and key: "counting v r ?t ?key e"
      and frame: "\<And>k u. k \<noteq> ?key \<Longrightarrow> ?t \<le> u \<Longrightarrow> rv_live v r u k = rv_live v (sw_cache w) u k"
      using view_again [OF ready mongo here _ t(2)] by metis
    have "\<forall>k\<in>S. counting v r ?t k e"
    proof
      fix k
      assume "k \<in> S"
      then show "counting v r ?t k e"
        using key seen frame by (cases "k = ?key") (auto simp: counting_def)
    qed
    moreover have "\<forall>k\<in>keys d tvs - S. rv_live v r ?t k = None"
    proof
      fix k
      assume k: "k \<in> keys d tvs - S"
      with True have "k \<noteq> ?key" by blast
      from k have "k \<in> keys d (tv # tvs) - S" by (auto simp: keys_def)
      from unseen [OF this t(1)] frame [OF \<open>k \<noteq> ?key\<close>, of ?t] show "rv_live v r ?t k = None" by simp
    qed
    moreover have "keys d (tv # tvs) - S = keys d tvs - S" using True by (auto simp: keys_def)
    ultimately show ?thesis
      using Cons.IH [of "w\<lparr>sw_cache := r\<rparr>" d ?t S] Cons.prems(1,2,7) ids_in rest view by auto
  next
    case False
    then have "rv_live v (sw_cache w) ?t ?key = None" using unseen t(1) by (simp add: keys_def)
    then obtain w1 where view: "record_view env ?t (fst (snd tv)) (snd (snd tv)) w = (Return True, w1)"
      and ds: "db_listings w1 = update_first (\<lambda>x. li_property_id x = li_property_id d) (viewed ?t) (db_listings w)"
      and key: "counting v (sw_cache w1) ?t ?key (?t + 1800000)"
      and frame: "\<And>x u. view_key env (li_property_id d) x \<noteq> ?key \<Longrightarrow> ?t \<le> u \<Longrightarrow>
        rv_live v (sw_cache w1) u (view_key env (li_property_id d) x) = rv_live v (sw_cache w) u (view_key env (li_property_id d) x)"
      using view_first [OF ready mongo views here] by metis
    have found: "\<forall>j\<in>I. List.find (live_listing j) (db_listings w1) = Some (viewed ?t d)"
      unfolding ds using Cons.prems(2) by (auto intro!: find_bumped [OF Cons.prems(1)])
    have ids: "distinct (map li_property_id (db_listings w1))"
      using Cons.prems(1) by (simp add: ds ids_bumped)
    have counts: "\<forall>k\<in>insert ?key S. counting v (sw_cache w1) ?t k e"
    proof
      fix k
      assume "k \<in> insert ?key S"
      show "counting v (sw_cache w1) ?t k e"
      proof (cases "k = ?key")
        case True
        with counting_less [OF key rest(3)] show ?thesis by simp
      next
        case False
        with \<open>k \<in> insert ?key S\<close> have k: "counting v (sw_cache w) ?t k e" and "k \<in> range (view_key env (li_property_id d))"
          using seen Cons.prems(7) by auto
        then obtain x where "k = view_key env (li_property_id d) x" by blast
        with False frame [of x] show ?thesis by (intro counting_same [OF k]) simp
      qed
    qed
    have none: "\<forall>k\<in>keys (viewed ?t d) tvs - insert ?key S. rv_live v (sw_cache w1) ?t k = None"
    proof
      fix k
      assume k: "k \<in> keys (viewed ?t d) tvs - insert ?key S"
      then obtain x where x: "k = view_key env (li_property_id d) x" "k \<noteq> ?key" by (auto simp: keys_def)
      from k have "k \<in> keys d (tv # tvs) - S" by (auto simp: keys_def)
      from unseen [OF this t(1)] frame [of x ?t] x show "rv_live v (sw_cache w1) ?t k = None" by simp
    qed
    have card: "card (keys d (tv # tvs) - S) = Suc (card (keys d tvs - insert ?key S))"
    proof -
      have "keys d (tv # tvs) - S = insert ?key (keys d tvs - insert ?key S)" using False by (auto simp: keys_def)
      then show ?thesis by (simp add: keys_def)
    qed
    have same: "keys (viewed ?t d) tvs = keys d tvs" by (simp add: keys_def)
    from Cons.IH [OF ids found ids_in rest _ counts none] Cons.prems(7) obtain outs w2 d2
      where "run_views env tvs w1 = (outs, w2)" "\<forall>j\<in>I. List.find (live_listing j) (db_listings w2) = Some d2"
        "li_property_id d2 = li_property_id d" "st_views (li_stats d2) = st_views (li_stats d) + 1 + int (card (keys d tvs - insert ?key S))"
        "length (filter (\<lambda>out. out = Return True) outs) = card (keys d tvs - insert ?key S)"
      by (auto simp: same)
    then show ?thesis
      by (intro exI [of _ "Return True # outs"] exI [of _ w2] exI [of _ d2]) (simp add: view card)
  qed
qed

text \<open>
  C22: \<open>POST /properties/:id/view\<close> counts viewers, not requests: over any sequence of requests within 30 minutes, one
  after the other, each naming the listing by its UUID, its slug or its MongoDB id, each viewer (the user, or else the
  address) adds one to \<open>stats.views\<close>, however often and in whatever order they return, and exactly the requests that
  were counted say so.
\<close>

theorem views_count_distinct_viewers:
  assumes "services_ready env v" and "collection_ok (listing_schema oid) (pe_listings env)"
    and "collection_ok view_schema (pe_views env)" and "distinct (map li_property_id (db_listings w))"
    and "\<forall>j\<in>I. List.find (live_listing j) (db_listings w) = Some d" and "\<forall>tv\<in>set tvs. fst (snd tv) \<in> I"
    and "sorted (map fst tvs)" and "\<forall>tv\<in>set tvs. t \<le> fst tv \<and> fst tv < t + 1800000"
    and "\<forall>tv\<in>set tvs. rv_live v (sw_cache w) t (view_key env (li_property_id d) (snd (snd tv))) = None"
    and "run_views env tvs w = (outs, w')"
  shows "\<exists>d'. (\<forall>j\<in>I. List.find (live_listing j) (db_listings w') = Some d') \<and> li_property_id d' = li_property_id d \<and>
    st_views (li_stats d') =
      st_views (li_stats d) + int (card ((\<lambda>tv. view_key env (li_property_id d) (snd (snd tv))) ` set tvs)) \<and>
    length (filter (\<lambda>out. out = Return True) outs) =
      card ((\<lambda>tv. view_key env (li_property_id d) (snd (snd tv))) ` set tvs)"
  using run_views_count [OF assms(1-6), of t "t + 1800000" "{}"] assms(7-) by auto

definition visitor :: viewer where
  "visitor = \<lparr>vw_user_id = Some ''u1'', vw_ip = None, vw_user_agent = None, vw_referrer = None\<rparr>"

theorem views_count_distinct_viewers_witness:
  "\<exists>outs w' d'. run_views mem_platform [(0, ''villa'', visitor), (5, ''VILLA'', visitor)] two_villas = (outs, w') \<and>
     List.find (live_listing ''villa'') (db_listings w') = Some d' \<and> st_views (li_stats d') = 1"
proof -
  let ?tvs = "[(0, ''villa'', visitor), (5, ''VILLA'', visitor)]"
  obtain outs w' where run: "run_views mem_platform ?tvs two_villas = (outs, w')"
    by fastforce
  have "\<not> is_uuid ''villa''" "\<not> is_object_id_hex ''villa''" "to_lower (trim (to_lower ''villa'')) = ''villa''"
    "\<not> is_uuid ''VILLA''" "\<not> is_object_id_hex ''VILLA''" "to_lower (trim (to_lower ''VILLA'')) = ''villa''"
    by code_simp+
  then have found: "\<forall>j\<in>{''villa'', ''VILLA''}. List.find (live_listing j) (db_listings two_villas) = Some demo_listing"
    by (simp add: two_villas_def live_listing_def identifier_filter_def demo_listing_def)
  have "\<forall>tv\<in>set ?tvs.
      rv_live mem_view (sw_cache two_villas) 0 (view_key mem_platform (li_property_id demo_listing) (snd (snd tv))) = None"
    by (simp add: two_villas_def mem_live_def)
  from views_count_distinct_viewers [OF mem_services_ready mem_listings_ok _ _ found _ _ _ this run]
  obtain d' where "List.find (live_listing ''villa'') (db_listings w') = Some d'" "st_views (li_stats d') = 1"
    by (force simp: two_villas_def demo_listing_def other_villa_def)
  with run show ?thesis by blast
qed

end
