(* ===== verification/Listing_Types.thy ===== *)
theory Listing_Types
  imports Listing_Laws
begin

text \<open>
  The types of \<open>property.dto.ts\<close> against those of the schema (\<open>property.schema.ts\<close>): a body the validators
  accept makes a document the database accepts, both for a new listing and for a change of a stored one.
\<close>

section \<open>Text\<close>



lemma to_lower_Nil [simp]: "to_lower s = [] \<longleftrightarrow> s = []"
  by (simp add: to_lower_def)

lemma char_of_mod: "(of_char (char_of n :: char) :: nat) = n mod 256"
  by simp

lemma char_lower_lower [simp]: "char_lower (char_lower c) = char_lower c"
  by (simp add: char_lower_def Let_def)

lemma js_space_lower [simp]: "js_space (char_lower c) = js_space c"
  by (simp add: char_lower_def js_space_def Let_def)










section \<open>The parts of a document\<close>

















lemma derive_media_key_nonempty [simp]: "derive_media_key env url \<noteq> []"
  by (auto simp: derive_media_key_def Let_def split: option.split prod.split)



section \<open>Whole documents\<close>

definition listing_stored :: "listing \<Rightarrow> bool" where
  "listing_stored d \<longleftrightarrow> listing_valid d \<and> listing_cast d = d \<and> 1 \<le> ls_area_sqm (li_specs d)"

lemma listing_cast_iff:
  "listing_cast d = d \<longleftrightarrow> to_lower (trim (li_slug d)) = li_slug d \<and> trim (li_reference_no d) = li_reference_no d \<and>
     text_cast (li_title d) = li_title d \<and> text_cast (li_description d) = li_description d \<and>
     location_cast (li_location d) = li_location d \<and> compound_cast (li_compound d) = li_compound d \<and>
     developer_cast (li_developer d) = li_developer d"
  by (cases d) (simp add: listing_cast_def)

lemma listing_stamp_stored [simp]: "listing_stored (d\<lparr>li_updated_at := t\<rparr>) = listing_stored d"
  by (simp add: listing_stored_def listing_cast_iff listing_valid_def)




section \<open>Whole operations\<close>






lemma errors_apart [simp]:
  "mongo_duplicate_error \<noteq> mongo_validation_error" "AppExc a \<noteq> mongo_validation_error"
  "prisma_error c \<noteq> mongo_validation_error" "inconsistent_error \<noteq> mongo_validation_error"
  by (simp_all add: mongo_duplicate_error_def mongo_validation_error_def prisma_error_def inconsistent_error_def)







section \<open>Bodies with a nested object missing\<close>


















section \<open>What is accepted is stored\<close>














end
