(* ===== verification/Favorites.thy ===== *)
theory Favorites
  imports Properties Cache_Wp
begin

text \<open>
  Favourites (\<open>modules/favorites/favorites.module.ts\<close>): rows in PostgreSQL, unique for a user and a listing,
  and a counter in each listing's document. The counter is the number of rows after any sequence of requests.
\<close>

section \<open>The service\<close>

record favorite_entry =
  fe_property_id :: string
  fe_created_at :: int
  fe_property :: "listing option"

definition newest_first :: "favorite_row \<Rightarrow> favorite_row \<Rightarrow> bool" where
  "newest_first a b \<longleftrightarrow> fv_created_at b \<le> fv_created_at a"

text \<open>A listing that is gone becomes \<open>null\<close>, and so does one whose lookup rejects for another reason.\<close>

definition hydrate :: "'r platform_env \<Rightarrow> int \<Rightarrow> favorite_row \<Rightarrow> ('r, 'z, favorite_entry) platform_prog" where
  "hydrate env now row =
     seq (catch (seq (property_find_one env now (fv_property_id row)) (\<lambda>d. ret (Some d))) (\<lambda>_. ret None)) (\<lambda>d.
       ret \<lparr>fe_property_id = fv_property_id row, fe_created_at = fv_created_at row, fe_property = d\<rparr>)"

primrec hydrate_all :: "'r platform_env \<Rightarrow> int \<Rightarrow> favorite_row list \<Rightarrow> ('r, 'z, favorite_entry list) platform_prog" where
  "hydrate_all env now [] = ret []"
| "hydrate_all env now (row # rows) =
     seq (hydrate env now row) (\<lambda>e. seq (hydrate_all env now rows) (\<lambda>es. ret (e # es)))"

definition favorite_list ::
  "'r platform_env \<Rightarrow> int \<Rightarrow> string \<Rightarrow> ('a pagination_query_scheme) \<Rightarrow> ('r, 'z, favorite_entry page) platform_prog" where
  "favorite_list env now user_id q =
     seq (on_favorites (list_page (pe_favorites env) (\<lambda>f. fv_user_id f = user_id) newest_first q)) (\<lambda>pg.
     seq (hydrate_all env now (fst pg)) (\<lambda>es. ret (es, snd pg)))"

definition favorite_ids :: "'r platform_env \<Rightarrow> string \<Rightarrow> ('r, 'z, string list) platform_prog" where
  "favorite_ids env user_id =
     seq (on_favorites (tb_find_many (pe_favorites env) (\<lambda>f. fv_user_id f = user_id))) (\<lambda>rows.
       ret (map fv_property_id (sort_by newest_first rows)))"

text \<open>The tables match and store the identifier as a UUID; the counter is looked up under the text of the request.\<close>

definition favorite_add :: "'r platform_env \<Rightarrow> int \<Rightarrow> string \<Rightarrow> string \<Rightarrow> ('r, 'z, bool) platform_prog" where
  "favorite_add env now user_id property_id =
     seq (on_index (tb_count (pe_index env) (\<lambda>r. ix_id r = uuid_value property_id \<and> ix_deleted_at r = None))) (\<lambda>exist.
       if exist = 0 then throw (property_not_found property_id)
       else
     seq (on_favorites (tb_count (pe_favorites env) (\<lambda>f. fv_user_id f = user_id \<and> fv_property_id f = uuid_value property_id)))
       (\<lambda>already.
       if 0 < already then ret False
       else
     seq (on_favorites (tb_create (pe_favorites env)
            \<lparr>fv_user_id = user_id, fv_property_id = uuid_value property_id, fv_created_at = now\<rparr>)) (\<lambda>_.
     seq (adjust_favorite_count env now property_id 1) (\<lambda>_. ret True))))"

definition favorite_remove :: "'r platform_env \<Rightarrow> int \<Rightarrow> string \<Rightarrow> string \<Rightarrow> ('r, 'z, bool) platform_prog" where
  "favorite_remove env now user_id property_id =
     seq (on_favorites (tb_delete_many (pe_favorites env) (\<lambda>f. fv_user_id f = user_id \<and> fv_property_id f = uuid_value property_id)))
       (\<lambda>n.
       if n = 0 then ret False
       else seq (adjust_favorite_count env now property_id (- 1)) (\<lambda>_. ret True))"

text \<open>The routes that change favourites, with the user of the session.\<close>

definition with_property_id :: "string \<Rightarrow> (string \<Rightarrow> ('w, exn, 'a) prog) \<Rightarrow> ('w, exn, 'a) prog" where
  "with_property_id i m = (case assert_uuid i ''propertyId'' of Inl e \<Rightarrow> throw (AppExc e) | Inr i \<Rightarrow> m i)"

datatype favorite_request = AddFavorite string string | RemoveFavorite string string

primrec favorite_endpoint :: "'r platform_env \<Rightarrow> int \<Rightarrow> favorite_request \<Rightarrow> ('r, 'z, bool) platform_prog" where
  "favorite_endpoint env now (AddFavorite user_id i) = with_property_id i (favorite_add env now user_id)"
| "favorite_endpoint env now (RemoveFavorite user_id i) = with_property_id i (favorite_remove env now user_id)"

section \<open>Counter and rows\<close>

definition saved :: "string \<Rightarrow> favorite_row \<Rightarrow> bool" where
  "saved property_id f \<longleftrightarrow> fv_property_id f = property_id"

definition favorites_exact :: "('r, 'z) platform_scheme \<Rightarrow> bool" where
  "favorites_exact w \<longleftrightarrow> distinct (map li_property_id (db_listings w)) \<and>
     distinct (map (\<lambda>f. (fv_user_id f, fv_property_id f)) (db_favorites w)) \<and>
     (\<forall>d\<in>set (db_listings w). st_favorites (li_stats d) = int (tally saved (db_favorites w) (li_property_id d)))"

definition counted_favorite :: "int \<Rightarrow> int \<Rightarrow> listing \<Rightarrow> listing" where
  "counted_favorite now delta d = (bump (\<lambda>st. st\<lparr>st_favorites := st_favorites st + delta\<rparr>) d)\<lparr>li_updated_at := now\<rparr>"

lemma counted_favorite_sel [simp]:
  "li_property_id (counted_favorite now k d) = li_property_id d"
  "st_favorites (li_stats (counted_favorite now k d)) = st_favorites (li_stats d) + k"
  by (simp_all add: counted_favorite_def bump_def)

lemma clash_bump [simp]: "listing_clash (bump f d) = listing_clash d"
  by (simp add: listing_clash_def bump_def fun_eq_iff)

lemma wp_adjust_favorite_count:
  assumes ready: "services_ready env v" and mongo: "collection_ok (listing_schema oid) (pe_listings env)"
    and "\<And>r. Q () (w\<lparr>db_listings := update_first (\<lambda>d. li_property_id d = i) (counted_favorite now k) (db_listings w),
      sw_cache := r\<rparr>)"
  shows "wp (adjust_favorite_count env now i k) Q E w"
proof -
  have "wp (mg_update_one (pe_listings env) now P (bump (\<lambda>st. st\<lparr>st_favorites := st_favorites st + k\<rparr>))) Q' E' ds =
      Q' (if List.find P ds = None then 0 else 1) (update_first P (counted_favorite now k) ds)" for P Q' E' ds
    unfolding counted_favorite_def [abs_def] by (subst wp_update_one [OF mongo]) simp_all
  then show ?thesis
    using assms(3) by (simp add: adjust_favorite_count_def wp_simps) (rule wp_cache_del [OF ready_redis [OF ready]], simp)
qed

lemma in_update_first:
  "distinct (map k ds) \<Longrightarrow> d \<in> set (update_first (\<lambda>x. k x = i) f ds) \<Longrightarrow>
     (\<exists>x\<in>set ds. k x = i \<and> d = f x) \<or> (d \<in> set ds \<and> k d \<noteq> i)"
  by (induction ds) (auto split: if_splits, metis image_eqI)

lemma favorites_exact_adjusted:
  assumes "favorites_exact w" and "distinct (map (\<lambda>f. (fv_user_id f, fv_property_id f)) fs)"
    and "int (tally saved fs i) = int (tally saved (db_favorites w) i) + k"
    and "\<And>j. j \<noteq> i \<Longrightarrow> tally saved fs j = tally saved (db_favorites w) j"
  shows "favorites_exact (w\<lparr>db_favorites := fs,
    db_listings := update_first (\<lambda>d. li_property_id d = i) (counted_favorite now k) (db_listings w), sw_cache := r\<rparr>)"
proof -
  have ids: "map li_property_id (update_first (\<lambda>d. li_property_id d = i) (counted_favorite now k) ds) = map li_property_id ds"
    for ds by (induction ds) auto
  show ?thesis
    using assms
    by (auto simp: favorites_exact_def ids dest!: in_update_first [rotated])
qed

lemma favorite_add_exact:
  assumes ready: "services_ready env v" and mongo: "collection_ok (listing_schema oid) (pe_listings env)"
    and inv: "favorites_exact w" and i: "uuid_value i = i"
  shows "wp (favorite_add env now u i) (\<lambda>_. favorites_exact) (\<lambda>_. favorites_exact) w"
proof -
  let ?fs = "db_favorites w @ [\<lparr>fv_user_id = u, fv_property_id = i, fv_created_at = now\<rparr>]"
  have added: "wp (adjust_favorite_count env now i 1) (\<lambda>_. favorites_exact) (\<lambda>_. favorites_exact) (w\<lparr>db_favorites := ?fs\<rparr>)"
    if "filter (\<lambda>f. fv_user_id f = u \<and> fv_property_id f = i) (db_favorites w) = []"
  proof (rule wp_adjust_favorite_count [OF ready mongo])
    fix r
    from that have "(u, i) \<notin> (\<lambda>f. (fv_user_id f, fv_property_id f)) ` set (db_favorites w)"
      by (auto simp: filter_empty_conv)
    with inv have "distinct (map (\<lambda>f. (fv_user_id f, fv_property_id f)) ?fs)"
      by (simp add: favorites_exact_def)
    from favorites_exact_adjusted [OF inv this, where i = i and k = 1 and now = now and r = r]
    show "favorites_exact (w\<lparr>db_favorites := ?fs, db_listings := update_first (\<lambda>d. li_property_id d = i)
        (counted_favorite now 1) (db_listings (w\<lparr>db_favorites := ?fs\<rparr>)), sw_cache := r\<rparr>)"
      by (simp add: tally_append saved_def)
  qed
  show ?thesis
    using inv i by (auto simp: favorite_add_def wp_simps service_wps [OF ready] intro!: added)
qed

lemma one_row:
  "distinct (map k fs) \<Longrightarrow> filter (\<lambda>f. k f = x) fs \<noteq> [] \<Longrightarrow> length (filter (\<lambda>f. k f = x) fs) = 1"
proof (induction fs)
  case (Cons f fs)
  show ?case
  proof (cases "k f = x")
    case True
    with Cons.prems(1) have "filter (\<lambda>f. k f = x) fs = []"
      by (auto simp: filter_empty_conv) (metis image_eqI)
    with True show ?thesis by simp
  next
    case False
    with Cons show ?thesis by simp
  qed
qed simp

lemma distinct_users:
  "distinct (map (\<lambda>f. (fv_user_id f, fv_property_id f)) fs) \<Longrightarrow> distinct (map fv_user_id (filter (saved i) fs))"
  by (induction fs) (auto simp: saved_def image_iff)

lemma tally_removed:
  "tally saved rows j = (if j = i then length (filter (\<lambda>f. fv_user_id f = u \<and> fv_property_id f = i) rows) else 0) +
     tally saved (filter (\<lambda>f. \<not> (fv_user_id f = u \<and> fv_property_id f = i)) rows) j"
  by (induction rows) (auto simp: tally_def saved_def)

lemma favorite_remove_exact:
  assumes ready: "services_ready env v" and mongo: "collection_ok (listing_schema oid) (pe_listings env)"
    and inv: "favorites_exact w" and i: "uuid_value i = i"
  shows "wp (favorite_remove env now u i) (\<lambda>_. favorites_exact) (\<lambda>_. favorites_exact) w"
proof -
  let ?P = "\<lambda>f. fv_user_id f = u \<and> fv_property_id f = i" and ?rows = "db_favorites w"
  let ?fs = "filter (\<lambda>f. \<not> ?P f) ?rows"
  have keys: "distinct (map (\<lambda>f. (fv_user_id f, fv_property_id f)) ?rows)" using inv by (simp add: favorites_exact_def)
  have removed: "wp (adjust_favorite_count env now i (- 1)) (\<lambda>_. favorites_exact) (\<lambda>_. favorites_exact) (w\<lparr>db_favorites := ?fs\<rparr>)"
    if "filter ?P ?rows \<noteq> []"
  proof (rule wp_adjust_favorite_count [OF ready mongo])
    fix r
    have one: "length (filter ?P ?rows) = 1"
      using one_row [OF keys, of "(u, i)"] that by simp
    have "distinct (map (\<lambda>f. (fv_user_id f, fv_property_id f)) ?fs)" using keys by (simp add: distinct_map_filter)
    from favorites_exact_adjusted [OF inv this, where i = i and k = "- 1" and now = now and r = r]
    show "favorites_exact (w\<lparr>db_favorites := ?fs, db_listings := update_first (\<lambda>d. li_property_id d = i)
        (counted_favorite now (- 1)) (db_listings (w\<lparr>db_favorites := ?fs\<rparr>)), sw_cache := r\<rparr>)"
      using one tally_removed [of ?rows _ i u] by simp
  qed
  have none: "?fs = ?rows" if "filter ?P ?rows = []"
    using that by (auto simp: filter_empty_conv filter_id_conv)
  show ?thesis
    using inv removed none i
    by (cases "filter ?P ?rows = []") (simp_all add: favorite_remove_def wp_simps service_wps [OF ready])
qed

text \<open>A request that names the listing in lower case, as the service does.\<close>

primrec lower_case_request :: "favorite_request \<Rightarrow> bool" where
  "lower_case_request (AddFavorite u i) = (uuid_value i = i)"
| "lower_case_request (RemoveFavorite u i) = (uuid_value i = i)"

lemma favorite_endpoint_exact:
  assumes ready: "services_ready env v" and mongo: "collection_ok (listing_schema oid) (pe_listings env)"
    and inv: "favorites_exact w" and op: "lower_case_request op"
  shows "wp (favorite_endpoint env now op) (\<lambda>_. favorites_exact) (\<lambda>_. favorites_exact) w"
  using inv op
  by (cases op) (auto simp: with_property_id_def assert_uuid_def wp_simps favorite_add_exact [OF ready mongo] favorite_remove_exact [OF ready mongo]
      split: sum.split)

definition run_favorites ::
  "'r platform_env \<Rightarrow> (int \<times> favorite_request) list \<Rightarrow> ('r, 'z) platform_scheme \<Rightarrow> ('r, 'z) platform_scheme" where
  "run_favorites env ops = fold (\<lambda>(now, op) w. snd (favorite_endpoint env now op w)) ops"

text \<open>
  C13: \<open>stats.favorites\<close> of every listing is the number of users who saved it, after any sequence of requests of any
  users that save or unsave listings, repeated or not: a second save and a second removal change nothing, no user
  is counted twice, and the counter is never negative. The requests name the listings in lower case, as the service
  hands the identifiers out; one in capitals is stored and not counted (\<open>capitals_not_counted\<close> below).
\<close>

theorem favorites_counter_exact:
  assumes "services_ready env v" and "collection_ok (listing_schema oid) (pe_listings env)" and "favorites_exact w"
    and "\<forall>(now, op)\<in>set ops. lower_case_request op"
    and "d \<in> set (db_listings (run_favorites env ops w))"
  shows "st_favorites (li_stats d) =
    int (card {fv_user_id f | f. f \<in> set (db_favorites (run_favorites env ops w)) \<and> fv_property_id f = li_property_id d})"
proof -
  let ?w = "run_favorites env ops w"
  have "favorites_exact ?w"
    using assms(3,4)
  proof (induction ops arbitrary: w)
    case Nil
    then show ?case by (simp add: run_favorites_def)
  next
    case (Cons a ops)
    obtain now op where a: "a = (now, op)" by (cases a)
    have "lower_case_request op" using Cons.prems(2) a by simp
    then have "favorites_exact (snd (favorite_endpoint env now op w))"
      by (rule wp_snd [OF favorite_endpoint_exact [OF assms(1,2) Cons.prems(1)]])
    from Cons.IH [OF this] Cons.prems(2) show ?case by (simp add: run_favorites_def a)
  qed
  then have keys: "distinct (map (\<lambda>f. (fv_user_id f, fv_property_id f)) (db_favorites ?w))"
    and count: "st_favorites (li_stats d) = int (tally saved (db_favorites ?w) (li_property_id d))"
    using assms(5) by (auto simp: favorites_exact_def)
  let ?mine = "filter (saved (li_property_id d)) (db_favorites ?w)"
  have "distinct (map fv_user_id ?mine)"
    using keys by (rule distinct_users)
  then have "length ?mine = card (fv_user_id ` set ?mine)" by (metis distinct_card length_map set_map)
  also have "fv_user_id ` set ?mine =
      {fv_user_id f | f. f \<in> set (db_favorites ?w) \<and> fv_property_id f = li_property_id d}"
    by (auto simp: saved_def)
  finally show ?thesis by (simp add: count tally_def)
qed

definition demo_property_id :: string where
  "demo_property_id = ''f81d4fae-7dec-41d0-a765-00a0c91e6bf6''"

definition villa_on_offer :: "mem platform" where
  "villa_on_offer = empty_platform\<lparr>db_listings := [demo_listing\<lparr>li_property_id := demo_property_id\<rparr>],
     db_index := [mirror_of (demo_listing\<lparr>li_property_id := demo_property_id\<rparr>)]\<rparr>"

lemma demo_property_lower [simp]: "uuid_value demo_property_id = demo_property_id"
  unfolding demo_property_id_def by code_simp

lemma villa_on_offer_exact: "favorites_exact villa_on_offer"
  by (simp add: favorites_exact_def villa_on_offer_def tally_def demo_listing_def)

lemma villa_on_offer_kept:
  "map li_property_id (db_listings (run_favorites mem_platform [(5, AddFavorite ''u1'' demo_property_id)] villa_on_offer)) =
     [demo_property_id]"
proof -
  let ?Q = "\<lambda>w :: mem platform. map li_property_id (db_listings w) = [demo_property_id]"
  have i: "assert_uuid demo_property_id ''propertyId'' = Inr demo_property_id"
    unfolding demo_property_id_def by code_simp
  have "wp (favorite_endpoint mem_platform 5 (AddFavorite ''u1'' demo_property_id)) (\<lambda>_. ?Q) (\<lambda>_. ?Q) villa_on_offer"
    by (simp add: with_property_id_def i favorite_add_def wp_simps service_wps [OF mem_services_ready] villa_on_offer_def
        empty_platform_def mirror_of_def demo_listing_def del: mem_platform_sel)
      (rule wp_adjust_favorite_count [OF mem_services_ready, of mem_oid], simp_all)
  then have "?Q (snd (favorite_endpoint mem_platform 5 (AddFavorite ''u1'' demo_property_id) villa_on_offer))"
    by (rule wp_snd [where I = ?Q])
  then show ?thesis by (simp add: run_favorites_def)
qed

theorem favorites_counter_exact_witness:
  "\<exists>d. d \<in> set (db_listings (run_favorites mem_platform [(5, AddFavorite ''u1'' demo_property_id)] villa_on_offer)) \<and>
     st_favorites (li_stats d) = int (card {fv_user_id f | f.
       f \<in> set (db_favorites (run_favorites mem_platform [(5, AddFavorite ''u1'' demo_property_id)] villa_on_offer)) \<and>
       fv_property_id f = li_property_id d})"
proof -
  let ?w = "run_favorites mem_platform [(5, AddFavorite ''u1'' demo_property_id)] villa_on_offer"
  from villa_on_offer_kept have "db_listings ?w \<noteq> []" by (cases "db_listings ?w") auto
  then obtain d where d: "d \<in> set (db_listings ?w)" by (cases "db_listings ?w") auto
  have "collection_ok (listing_schema mem_oid) (pe_listings mem_platform)" by simp
  from favorites_counter_exact [OF mem_services_ready this villa_on_offer_exact _ d] d show ?thesis by auto
qed

text \<open>A listing saved under its identifier in capitals: one row, and a counter that stays at zero.\<close>

definition demo_property_capitals :: string where
  "demo_property_capitals = ''F81D4FAE-7DEC-41D0-A765-00A0C91E6BF6''"

lemma capitals_not_counted:
  "wp (favorite_endpoint mem_platform 5 (AddFavorite ''u1'' demo_property_capitals))
     (\<lambda>_ w. map fv_property_id (db_favorites w) = [demo_property_id] \<and>
        map (\<lambda>d. st_favorites (li_stats d)) (db_listings w) = [0]) (\<lambda>_ _. False) villa_on_offer"
proof -
  have i: "assert_uuid demo_property_capitals ''propertyId'' = Inr demo_property_capitals"
    unfolding demo_property_capitals_def by code_simp
  have c: "uuid_value demo_property_capitals = demo_property_id" "demo_property_id \<noteq> demo_property_capitals"
    unfolding demo_property_id_def demo_property_capitals_def by code_simp+
  show ?thesis
    using c(2)
    by (simp add: with_property_id_def i favorite_add_def c(1) wp_simps service_wps [OF mem_services_ready] villa_on_offer_def
        empty_platform_def mirror_of_def demo_listing_def del: mem_platform_sel)
      (rule wp_adjust_favorite_count [OF mem_services_ready, of mem_oid], simp_all)
qed

end
