(* ===== verification/Leads.thy ===== *)
theory Leads
  imports Properties Cache_Wp
begin

text \<open>
  Enquiries: the request classes (\<open>modules/leads/dto/lead.dto.ts\<close>), every operation of \<open>LeadsService\<close>
  (\<open>modules/leads/leads.service.ts\<close>) and the pipeline of statuses, as a step relation.
\<close>

section \<open>Requests\<close>

text \<open>\<open>PHONE_PATTERN\<close>: an optional plus, a digit, then 6 to 19 digits, white space or dashes.\<close>

definition phone_text :: "string \<Rightarrow> bool" where
  "phone_text s \<longleftrightarrow>
     (let body = (case s of c # cs \<Rightarrow> if c = CHR ''+'' then cs else s | [] \<Rightarrow> [])
      in body \<noteq> [] \<and> is_digit (hd body) \<and> 6 \<le> length (tl body) \<and> length (tl body) \<le> 19 \<and>
         list_all (\<lambda>c. is_digit c \<or> js_space c \<or> c = CHR ''-'') (tl body))"

record create_lead =
  nl_property_id :: "string option"
  nl_name :: string
  nl_phone :: string
  nl_email :: "string option"
  nl_message :: "string option"
  nl_area_id :: "string option"
  nl_compound_id :: "string option"
  nl_property_type :: "string option"
  nl_source :: "string option"
  nl_company :: "string option"

definition create_lead_ok :: "validators \<Rightarrow> create_lead \<Rightarrow> bool" where
  "create_lead_ok vd d \<longleftrightarrow> opt_ok (vd_uuid vd) (nl_property_id d) \<and> filled 160 (nl_name d) \<and> filled 32 (nl_phone d) \<and>
     phone_text (nl_phone d) \<and> opt_ok (\<lambda>e. to_lower (trim e) = e \<and> vd_email vd e \<and> length e \<le> 320) (nl_email d) \<and>
     opt_ok (trimmed 2000) (nl_message d) \<and> opt_ok (vd_uuid vd) (nl_area_id d) \<and> opt_ok (vd_uuid vd) (nl_compound_id d) \<and>
     opt_ok (\<lambda>t. t \<in> set PROPERTY_TYPES) (nl_property_type d) \<and> opt_ok (trimmed 60) (nl_source d) \<and>
     opt_ok (\<lambda>s. length s \<le> 200) (nl_company d)"

record list_leads = pagination_query +
  qd_status :: "lead_status option"
  qd_property_id :: "string option"
  qd_assigned_to :: "string option"
  qd_compound_id :: "string option"
  qd_source :: "string option"
  qd_q :: "string option"
  qd_from :: "string option"
  qd_to :: "string option"

definition list_leads_ok :: "validators \<Rightarrow> list_leads \<Rightarrow> bool" where
  "list_leads_ok vd q \<longleftrightarrow> page_query_ok q \<and> opt_ok (vd_uuid vd) (qd_property_id q) \<and> opt_ok (vd_uuid vd) (qd_assigned_to q) \<and>
     opt_ok (vd_uuid vd) (qd_compound_id q) \<and> opt_ok (trimmed 60) (qd_source q) \<and> opt_ok (trimmed 200) (qd_q q) \<and>
     opt_ok (vd_date vd) (qd_from q) \<and> opt_ok (vd_date vd) (qd_to q)"

text \<open>\<open>assignedToId\<close> is declared \<open>string | null\<close>: the inner option is the \<open>null\<close> that takes a lead from its agent.\<close>

record update_lead =
  ul_status :: "lead_status option"
  ul_assigned_to :: "string option option"
  ul_notes :: "string option"

definition update_lead_ok :: "validators \<Rightarrow> update_lead \<Rightarrow> bool" where
  "update_lead_ok vd d \<longleftrightarrow> opt_ok (opt_ok (vd_uuid vd)) (ul_assigned_to d) \<and> opt_ok (trimmed 4000) (ul_notes d)"

section \<open>The pipeline\<close>

fun transitions :: "lead_status \<Rightarrow> lead_status list" where
  "transitions New = [Contacted, Qualified, Lost]"
| "transitions Contacted = [Qualified, Viewing, Lost]"
| "transitions Qualified = [Viewing, Negotiating, Lost]"
| "transitions Viewing = [Negotiating, Won, Lost]"
| "transitions Negotiating = [Won, Lost]"
| "transitions Won = []"
| "transitions Lost = []"

definition transition_error :: "lead_status \<Rightarrow> lead_status \<Rightarrow> exn" where
  "transition_error s t =
     AppExc (bad_request
       (''A lead cannot move from '' @ quote (lead_status_string s) @ '' to '' @ quote (lead_status_string t) @
        (if transitions s \<noteq> [] then ''. Allowed: '' @ join '', '' (map lead_status_string (transitions s))
         else '' - this status is final.''))
       BadRequestCode
       [str_detail ''status'' (''invalid transition from '' @ lead_status_string s) ''transition''])"

definition assert_transition :: "lead_status \<Rightarrow> lead_status \<Rightarrow> ('w, exn, unit) prog" where
  "assert_transition s t = (if t \<in> set (transitions s) then ret () else throw (transition_error s t))"

section \<open>Records with what they refer to\<close>

text \<open>\<open>LEAD_INCLUDE\<close>: the columns selected of each related row, \<open>None\<close> when there is none.\<close>

record lead_property =
  lq_id :: string
  lq_slug :: string
  lq_price_min :: int
  lq_status :: property_status

record lead_user =
  lu_id :: string
  lu_name :: string
  lu_email :: string

record lead_area =
  le_id :: string
  le_slug :: string
  le_name_en :: string
  le_name_ar :: string
  le_city :: string

record lead_compound =
  lk_id :: string
  lk_slug :: string
  lk_name :: string
  lk_name_ar :: string

record lead_record =
  lr_lead :: lead_row
  lr_property :: "lead_property option"
  lr_assigned_to :: "lead_user option"
  lr_user :: "lead_user option"
  lr_area :: "lead_area option"
  lr_compound :: "lead_compound option"

definition related :: "'row table \<Rightarrow> ('row \<Rightarrow> string) \<Rightarrow> string option \<Rightarrow> ('row list, exn, 'row option) prog" where
  "related tb key i = (case i of None \<Rightarrow> ret None | Some x \<Rightarrow> tb_find tb (\<lambda>r. key r = x))"

definition user_brief :: "user_row \<Rightarrow> lead_user" where
  "user_brief u = \<lparr>lu_id = us_id u, lu_name = us_name u, lu_email = us_email u\<rparr>"

definition with_related :: "'r platform_env \<Rightarrow> lead_row \<Rightarrow> ('r, 'z, lead_record) platform_prog" where
  "with_related env l =
     seq (on_index (related (pe_index env) ix_id (ld_property_id l))) (\<lambda>p.
     seq (on_users (related (pe_users env) us_id (ld_assigned_to l))) (\<lambda>agent.
     seq (on_users (related (pe_users env) us_id (ld_user_id l))) (\<lambda>u.
     seq (on_areas (related (pe_areas env) ar_id (ld_area_id l))) (\<lambda>a.
     seq (on_compounds (related (pe_compounds env) co_id (ld_compound_id l))) (\<lambda>c.
       ret \<lparr>lr_lead = l,
            lr_property = map_option (\<lambda>p. \<lparr>lq_id = ix_id p, lq_slug = ix_slug p, lq_price_min = ix_price_min p,
              lq_status = ix_status p\<rparr>) p,
            lr_assigned_to = map_option user_brief agent, lr_user = map_option user_brief u,
            lr_area = map_option (\<lambda>a. \<lparr>le_id = ar_id a, le_slug = ar_slug a, le_name_en = ar_name_en a,
              le_name_ar = ar_name_ar a, le_city = ar_city a\<rparr>) a,
            lr_compound = map_option (\<lambda>c. \<lparr>lk_id = co_id c, lk_slug = co_slug c, lk_name = co_name c,
              lk_name_ar = co_name_ar c\<rparr>) c\<rparr>)))))"

primrec all_related :: "'r platform_env \<Rightarrow> lead_row list \<Rightarrow> ('r, 'z, lead_record list) platform_prog" where
  "all_related env [] = ret []"
| "all_related env (l # ls) = seq (with_related env l) (\<lambda>r. seq (all_related env ls) (\<lambda>rs. ret (r # rs)))"

section \<open>The service\<close>

definition assert_exists :: "string option \<Rightarrow> (string \<Rightarrow> ('w, exn, nat) prog) \<Rightarrow> (string \<Rightarrow> exn) \<Rightarrow> ('w, exn, unit) prog" where
  "assert_exists i how_many err =
     (case i of
        None \<Rightarrow> ret ()
      | Some x \<Rightarrow> if x = [] then ret () else seq (how_many x) (\<lambda>n. if n = 0 then throw (err x) else ret ()))"

definition assert_catalog_refs_exist ::
  "'r platform_env \<Rightarrow> string option \<Rightarrow> string option \<Rightarrow> ('r, 'z, unit) platform_prog" where
  "assert_catalog_refs_exist env area compound =
     seq (assert_exists area (\<lambda>i. on_areas (tb_count (pe_areas env) (\<lambda>a. ar_id a = i)))
       (\<lambda>i. related_not_found ''Area'' i ''areaId'' ''area'')) (\<lambda>_.
     assert_exists compound (\<lambda>i. on_compounds (tb_count (pe_compounds env) (\<lambda>c. co_id c = i)))
       (\<lambda>i. related_not_found ''Compound'' i ''compoundId'' ''compound''))"

definition new_lead :: "int \<Rightarrow> string \<Rightarrow> string option \<Rightarrow> create_lead \<Rightarrow> lead_row" where
  "new_lead now uuid user dto =
     \<lparr>ld_id = uuid, ld_property_id = nl_property_id dto, ld_user_id = user, ld_name = nl_name dto, ld_phone = nl_phone dto,
      ld_email = nl_email dto, ld_message = nl_message dto,
      ld_source = (case nl_source dto of Some s \<Rightarrow> s | None \<Rightarrow> ''website''), ld_area_id = nl_area_id dto,
      ld_compound_id = nl_compound_id dto, ld_property_type = nl_property_type dto, ld_status = New,
      ld_assigned_to = None, ld_notes = None, ld_contacted_at = None, ld_created_at = now, ld_updated_at = now\<rparr>"

text \<open>\<open>None\<close> is the \<open>id: null\<close> of a request the honeypot caught.\<close>

definition honeypot :: "create_lead \<Rightarrow> bool" where
  "honeypot dto \<longleftrightarrow> (case nl_company dto of Some s \<Rightarrow> trim s \<noteq> [] | None \<Rightarrow> False)"

definition lead_create ::
  "'r platform_env \<Rightarrow> int \<Rightarrow> create_lead \<Rightarrow> string option \<Rightarrow> ('r, 'z, string option) platform_prog" where
  "lead_create env now dto user =
     (if honeypot dto then ret None
      else
        seq (assert_exists (nl_property_id dto)
               (\<lambda>i. on_index (tb_count (pe_index env) (\<lambda>r. ix_id r = i \<and> ix_deleted_at r = None)))
               (\<lambda>i. related_not_found ''Property'' i ''propertyId'' ''property'')) (\<lambda>_.
        seq (assert_catalog_refs_exist env (nl_area_id dto) (nl_compound_id dto)) (\<lambda>_.
        seq (fresh_uuid (pe_tokens env)) (\<lambda>uuid.
        seq (on_leads (tb_create (pe_leads env) (new_lead now uuid user dto))) (\<lambda>lead.
        seq (case nl_property_id dto of
               Some i \<Rightarrow> if i \<noteq> [] then increment_lead_count env now i else ret ()
             | None \<Rightarrow> ret ()) (\<lambda>_.
          ret (Some (ld_id lead))))))))"

definition lead_sortable :: "string list" where
  "lead_sortable = [''createdAt'', ''updatedAt'', ''status'', ''name'']"

text \<open>PostgreSQL orders an enumeration by the declaration of its values.\<close>

definition status_rank :: "lead_status \<Rightarrow> nat" where
  "status_rank s = length (takeWhile (\<lambda>t. t \<noteq> s) LEAD_STATUSES)"

definition lead_field :: "lead_row \<Rightarrow> string \<Rightarrow> sort_value" where
  "lead_field l f =
     (if f = ''createdAt'' then NumValue (of_int (ld_created_at l))
      else if f = ''updatedAt'' then NumValue (of_int (ld_updated_at l))
      else if f = ''status'' then NumValue (of_nat (status_rank (ld_status l)))
      else TextValue (ld_name l))"

definition lead_where :: "'r platform_env \<Rightarrow> list_leads \<Rightarrow> lead_row \<Rightarrow> bool" where
  "lead_where env q l \<longleftrightarrow> (case qd_status q of Some s \<Rightarrow> ld_status l = s | None \<Rightarrow> True) \<and>
     if_given (\<lambda>i. ld_property_id l = Some i) (qd_property_id q) \<and>
     if_given (\<lambda>i. ld_assigned_to l = Some i) (qd_assigned_to q) \<and>
     if_given (\<lambda>i. ld_compound_id l = Some i) (qd_compound_id q) \<and> if_given (\<lambda>s. ld_source l = s) (qd_source q) \<and>
     if_given (\<lambda>d. pe_parse_date env d \<le> ld_created_at l) (qd_from q) \<and>
     if_given (\<lambda>d. ld_created_at l \<le> pe_parse_date env d) (qd_to q) \<and>
     if_given (\<lambda>t. contains_ci env (ld_name l) t \<or> (case ld_email l of Some e \<Rightarrow> contains_ci env e t | None \<Rightarrow> False) \<or>
       js_includes (ld_phone l) t) (qd_q q)"

definition lead_list :: "'r platform_env \<Rightarrow> list_leads \<Rightarrow> ('r, 'z, lead_record page) platform_prog" where
  "lead_list env q =
     (let srt = parse_sort (pq_sort q) lead_sortable \<lparr>ps_field = ''createdAt'', ps_direction = Desc\<rparr>
      in seq (on_leads (list_page (pe_leads env) (lead_where env q) (order_by (pe_collate env) srt lead_field) q)) (\<lambda>pg.
         seq (all_related env (fst pg)) (\<lambda>rs. ret (rs, snd pg))))"

definition lead_not_found :: "string \<Rightarrow> exn" where
  "lead_not_found i = AppExc (not_found (''Lead '' @ quote i @ '' was not found'') LeadNotFoundCode)"

definition lead_find_one :: "'r platform_env \<Rightarrow> string \<Rightarrow> ('r, 'z, lead_record) platform_prog" where
  "lead_find_one env i =
     seq (on_leads (tb_find (pe_leads env) (\<lambda>l. ld_id l = i))) (\<lambda>found.
       case found of None \<Rightarrow> throw (lead_not_found i) | Some l \<Rightarrow> with_related env l)"

definition not_an_agent :: exn where
  "not_an_agent = AppExc (bad_request ''Leads can only be assigned to an agent or administrator''
     RelatedResourceNotFoundCode [str_detail ''assignedToId'' ''not an agent'' ''exists''])"

definition apply_lead_update :: "int \<Rightarrow> lead_row \<Rightarrow> update_lead \<Rightarrow> lead_row \<Rightarrow> lead_row" where
  "apply_lead_update now existing dto l =
     l\<lparr>ld_status := set_if (ul_status dto) (ld_status l),
       ld_assigned_to := set_if (ul_assigned_to dto) (ld_assigned_to l),
       ld_notes := set_if_opt (ul_notes dto) (ld_notes l),
       ld_contacted_at := (if ul_status dto = Some Contacted \<and> ld_contacted_at existing = None then Some now
         else ld_contacted_at l),
       ld_updated_at := now\<rparr>"

definition lead_update :: "'r platform_env \<Rightarrow> int \<Rightarrow> string \<Rightarrow> update_lead \<Rightarrow> ('r, 'z, lead_record) platform_prog" where
  "lead_update env now i dto =
     seq (on_leads (tb_find (pe_leads env) (\<lambda>l. ld_id l = i))) (\<lambda>found.
       case found of
         None \<Rightarrow> throw (lead_not_found i)
       | Some existing \<Rightarrow>
     seq (case ul_status dto of
            Some s \<Rightarrow> if s \<noteq> ld_status existing then assert_transition (ld_status existing) s else ret ()
          | None \<Rightarrow> ret ()) (\<lambda>_.
     seq (assert_exists (case ul_assigned_to dto of Some a \<Rightarrow> a | None \<Rightarrow> None)
            (\<lambda>a. on_users (tb_count (pe_users env) (\<lambda>u. us_id u = a \<and> us_role u \<in> {RoleAgent, RoleAdmin, RoleSuperadmin})))
            (\<lambda>_. not_an_agent)) (\<lambda>_.
     seq (on_leads (tb_update (pe_leads env) (\<lambda>l. ld_id l = i) (apply_lead_update now existing dto))) (\<lambda>updated.
       with_related env updated))))"

definition lead_remove :: "'r platform_env \<Rightarrow> string \<Rightarrow> ('r, 'z, string) platform_prog" where
  "lead_remove env i =
     seq (on_leads (tb_count (pe_leads env) (\<lambda>l. ld_id l = i))) (\<lambda>n.
       if n = 0 then throw (lead_not_found i)
       else seq (on_leads (tb_delete (pe_leads env) (\<lambda>l. ld_id l = i))) (\<lambda>_. ret i))"

text \<open>
  \<open>groupBy\<close> gives a count for each status that occurs; the counts start as 0 for every status of
  \<open>TRANSITIONS\<close> and are overwritten by those of the groups.
\<close>

definition grouped_statuses :: "lead_row list \<Rightarrow> (lead_status \<times> nat) list" where
  "grouped_statuses ls = map (\<lambda>s. (s, length (filter (\<lambda>l. ld_status l = s) ls))) (js_unique (map ld_status ls))"

definition lead_status_counts :: "'r platform_env \<Rightarrow> ('r, 'z, (lead_status \<times> nat) list) platform_prog" where
  "lead_status_counts env =
     seq (on_leads (tb_find_many (pe_leads env) (\<lambda>_. True))) (\<lambda>ls.
       let grouped = grouped_statuses ls
       in ret (map (\<lambda>s. (s, case map_of grouped s of Some n \<Rightarrow> n | None \<Rightarrow> 0)) LEAD_STATUSES))"

section \<open>The life of a lead\<close>

inductive lead_path :: "lead_status \<Rightarrow> lead_status \<Rightarrow> bool" where
  Stay: "lead_path s s"
| Move: "lead_path s t \<Longrightarrow> u \<in> set (transitions t) \<Longrightarrow> lead_path s u"

definition stage :: "lead_status \<Rightarrow> nat" where
  "stage s = (case s of New \<Rightarrow> 0 | Contacted \<Rightarrow> 1 | Qualified \<Rightarrow> 2 | Viewing \<Rightarrow> 3 | Negotiating \<Rightarrow> 4 | Won \<Rightarrow> 5 | Lost \<Rightarrow> 5)"

lemma transitions_advance: "t \<in> set (transitions s) \<Longrightarrow> stage s < stage t"
  by (cases s) (auto simp: stage_def)

text \<open>A status is never taken twice, so there are no loops in the pipeline; the last two are final.\<close>

lemma lead_path_stage: "lead_path s t \<Longrightarrow> stage s \<le> stage t"
  by (induction rule: lead_path.induct) (auto dest: transitions_advance)

lemma lead_path_final: "lead_path s t \<Longrightarrow> s = Won \<or> s = Lost \<Longrightarrow> t = s"
  by (induction rule: lead_path.induct) auto

definition continues :: "lead_row \<Rightarrow> lead_row \<Rightarrow> bool" where
  "continues l l' \<longleftrightarrow> lead_path (ld_status l) (ld_status l') \<and>
     (ld_contacted_at l \<noteq> None \<longrightarrow> ld_contacted_at l' = ld_contacted_at l) \<and>
     (ld_status l' = Contacted \<longrightarrow> ld_status l = Contacted \<or> ld_contacted_at l' \<noteq> None) \<and>
     ld_name l' = ld_name l \<and> ld_phone l' = ld_phone l \<and> ld_email l' = ld_email l \<and> ld_message l' = ld_message l \<and>
     ld_property_id l' = ld_property_id l \<and> ld_source l' = ld_source l \<and> ld_created_at l' = ld_created_at l"

lemma continues_refl [simp]: "continues l l"
  by (simp add: continues_def lead_path.Stay)

lemma continues_update:
  assumes "continues l x" and "\<And>s. ul_status dto = Some s \<Longrightarrow> s \<noteq> ld_status x \<Longrightarrow> s \<in> set (transitions (ld_status x))"
  shows "continues l (apply_lead_update now x dto x)"
proof (cases "ul_status dto")
  case None
  with assms(1) show ?thesis by (auto simp: continues_def apply_lead_update_def set_if_def)
next
  case (Some s)
  have "lead_path (ld_status l) s"
    using assms Some by (cases "s = ld_status x") (auto simp: continues_def intro: lead_path.Move)
  with Some assms(1) show ?thesis by (auto simp: continues_def apply_lead_update_def set_if_def)
qed

lemma wp_related:
  assumes "table_ok clash tb"
  shows "wp (related tb key i) Q E rows = Q (case i of None \<Rightarrow> None | Some x \<Rightarrow> List.find (\<lambda>r. key r = x) rows) rows"
  by (simp add: related_def wp_simps wp_table [OF assms] split: option.split)

lemma with_related_reads:
  assumes ready: "services_ready env v"
  shows "reads_only (with_related env l)"
  by (rule reads_onlyI)
    (simp add: with_related_def wp_simps wp_related [OF ready_index [OF ready]] wp_related [OF ready_users [OF ready]]
      wp_related [OF ready_areas [OF ready]] wp_related [OF ready_compounds [OF ready]])

definition followed :: "'r platform_env \<Rightarrow> lead_row \<Rightarrow> ('r, 'z) platform_scheme \<Rightarrow> bool" where
  "followed env l w \<longleftrightarrow> distinct (map ld_id (db_leads w)) \<and>
     (\<forall>l'\<in>set (db_leads w). ld_id l' = ld_id l \<longrightarrow> continues l l') \<and>
     (\<forall>n\<ge>sw_uuids w. te_uuid (pe_tokens env) n \<noteq> ld_id l)"

lemma followed_frame [simp]:
  "followed env l (w\<lparr>db_listings := ds\<rparr>) = followed env l w" "followed env l (w\<lparr>sw_cache := c\<rparr>) = followed env l w"
  by (simp_all add: followed_def)

lemma wp_increment_lead_count:
  assumes ready: "services_ready env v" and mongo: "collection_ok (listing_schema oid) (pe_listings env)"
    and "\<And>ds r. Q () (w\<lparr>db_listings := ds, sw_cache := r\<rparr>)"
  shows "wp (increment_lead_count env now i) Q E w"
proof -
  have "wp (mg_update_one (pe_listings env) now P (bump f)) Q' E' ds =
      Q' (if List.find P ds = None then 0 else 1) (update_first P (\<lambda>d. (bump f d)\<lparr>li_updated_at := now\<rparr>) ds)" for P f Q' E' ds
    by (subst wp_update_one [OF mongo]) (simp_all add: listing_clash_def bump_def fun_eq_iff)
  then show ?thesis
    using assms(3) by (simp add: increment_lead_count_def wp_simps) (rule wp_cache_del [OF ready_redis [OF ready]], simp)
qed

lemma lead_create_followed:
  assumes ready: "services_ready env v" and mongo: "collection_ok (listing_schema oid) (pe_listings env)"
    and inv: "followed env l w"
  shows "wp (lead_create env now dto u) (\<lambda>_. followed env l) (\<lambda>_. followed env l) w"
proof -
  let ?w = "w\<lparr>sw_uuids := Suc (sw_uuids w)\<rparr>"
  let ?new = "new_lead now (te_uuid (pe_tokens env) (sw_uuids w)) u dto"
  have id: "ld_id ?new = te_uuid (pe_tokens env) (sw_uuids w)" by (simp add: new_lead_def)
  have later: "followed env l ?w" using inv by (simp add: followed_def)
  have new: "followed env l (?w\<lparr>db_leads := db_leads w @ [?new]\<rparr>)" if "\<not> list_ex (lead_clash ?new) (db_leads w)"
    using inv that by (auto simp: followed_def id lead_clash_def list_ex_iff)
  have count: "wp (increment_lead_count env now i) (\<lambda>_. wp (ret x) (\<lambda>_. followed env l) (\<lambda>_. followed env l))
      (\<lambda>_. followed env l) w'" if "followed env l w'" for i x w'
    by (rule wp_increment_lead_count [OF ready mongo]) (use that in \<open>simp add: wp_simps\<close>)
  show ?thesis
    using inv later new count
    by (auto simp: lead_create_def assert_exists_def assert_catalog_refs_exist_def wp_simps service_wps [OF ready]
        split: option.split)
qed

lemma lead_update_followed:
  assumes ready: "services_ready env v" and inv: "followed env l w"
  shows "wp (lead_update env now i dto) (\<lambda>_. followed env l) (\<lambda>_. followed env l) w"
proof (cases "List.find (\<lambda>l. ld_id l = i) (db_leads w)")
  case None
  then show ?thesis using inv by (simp add: lead_update_def wp_simps service_wps [OF ready])
next
  case (Some x)
  let ?w = "w\<lparr>db_leads := update_where (\<lambda>l. ld_id l = i) (apply_lead_update now x dto) (db_leads w)\<rparr>"
  have ids: "ld_id (apply_lead_update now x dto y) = ld_id y" for y by (simp add: apply_lead_update_def)
  have updated: "followed env l ?w"
    if move: "\<And>s. ul_status dto = Some s \<Longrightarrow> s \<noteq> ld_status x \<Longrightarrow> s \<in> set (transitions (ld_status x))"
  proof -
    have "map ld_id (update_where (\<lambda>l. ld_id l = i) (apply_lead_update now x dto) rows) = map ld_id rows" for rows
      by (simp add: update_where_def ids)
    moreover have "continues l l'" if "l' \<in> set (update_where (\<lambda>l. ld_id l = i) (apply_lead_update now x dto) (db_leads w))"
      "ld_id l' = ld_id l" for l'
    proof -
      from that(1) obtain y where y: "y \<in> set (db_leads w)" "l' = (if ld_id y = i then apply_lead_update now x dto y else y)"
        by (auto simp: update_where_def)
      then have "ld_id y = ld_id l" using that(2) by (auto simp: ids split: if_splits)
      with y(1) inv have old: "continues l y" by (simp add: followed_def)
      have "y = x" if "ld_id y = i"
        using that y(1) Some inv by (auto simp: followed_def distinct_map dest!: find_SomeD dest: inj_onD)
      then show ?thesis using old continues_update [OF _ move] y(2) by auto
    qed
    ultimately show ?thesis using inv by (simp add: followed_def)
  qed
  have rest: "wp (with_related env z) (\<lambda>_. followed env l) (\<lambda>_. followed env l) w'" if "followed env l w'" for w' z
    by (rule wp_reads [OF with_related_reads [OF ready]]) (rule that)+
  show ?thesis
    using inv updated
    by (auto simp: lead_update_def assert_transition_def assert_exists_def wp_simps service_wps [OF ready] Some
        split: option.split intro!: rest)
qed

lemma lead_remove_followed:
  assumes ready: "services_ready env v" and inv: "followed env l w"
  shows "wp (lead_remove env i) (\<lambda>_. followed env l) (\<lambda>_. followed env l) w"
proof -
  have "followed env l (w\<lparr>db_leads := filter (\<lambda>l. ld_id l \<noteq> i) (db_leads w)\<rparr>)"
    using inv by (auto simp: followed_def distinct_map_filter)
  with inv show ?thesis
    by (auto simp: lead_remove_def wp_simps service_wps [OF ready] split: option.split)
qed

text \<open>The requests that write leads: the public form, and the ones of the staff.\<close>

datatype lead_request =
    SubmitLead create_lead "string option"
  | ChangeLead string update_lead
  | DeleteLead string

primrec lead_endpoint :: "'r platform_env \<Rightarrow> int \<Rightarrow> lead_request \<Rightarrow> ('r, 'z, unit) platform_prog" where
  "lead_endpoint env now (SubmitLead dto user) = seq (lead_create env now dto user) (\<lambda>_. ret ())"
| "lead_endpoint env now (ChangeLead i dto) = with_uuid i (\<lambda>i. seq (lead_update env now i dto) (\<lambda>_. ret ()))"
| "lead_endpoint env now (DeleteLead i) = with_uuid i (\<lambda>i. seq (lead_remove env i) (\<lambda>_. ret ()))"

lemma lead_endpoint_followed:
  assumes ready: "services_ready env v" and mongo: "collection_ok (listing_schema oid) (pe_listings env)"
    and inv: "followed env l w"
  shows "wp (lead_endpoint env now op) (\<lambda>_. followed env l) (\<lambda>_. followed env l) w"
  using inv lead_create_followed [OF ready mongo] lead_update_followed [OF ready] lead_remove_followed [OF ready]
  by (cases op) (auto simp: with_uuid_def wp_simps split: sum.split)

definition run_leads ::
  "'r platform_env \<Rightarrow> (int \<times> lead_request) list \<Rightarrow> ('r, 'z) platform_scheme \<Rightarrow> ('r, 'z) platform_scheme" where
  "run_leads env ops = fold (\<lambda>(now, op) w. snd (lead_endpoint env now op w)) ops"

text \<open>
  C14: A lead moves through the pipeline only: over any sequence of requests of visitors and staff, accepted or
  rejected, its status goes from stage to stage by the moves allowed and never back, \<open>won\<close> and \<open>lost\<close> are
  final, the time of first contact once noted stays, and what the visitor wrote is never altered.
\<close>

theorem lead_lifecycle:
  assumes "services_ready env v" and "collection_ok (listing_schema oid) (pe_listings env)"
    and "distinct (map ld_id (db_leads w))" and "\<forall>n\<ge>sw_uuids w. te_uuid (pe_tokens env) n \<noteq> ld_id l"
    and "l \<in> set (db_leads w)" and "l' \<in> set (db_leads (run_leads env ops w))" and "ld_id l' = ld_id l"
  shows "lead_path (ld_status l) (ld_status l') \<and> stage (ld_status l) \<le> stage (ld_status l') \<and>
    (ld_status l \<in> {Won, Lost} \<longrightarrow> ld_status l' = ld_status l) \<and>
    (ld_contacted_at l \<noteq> None \<longrightarrow> ld_contacted_at l' = ld_contacted_at l) \<and>
    ld_name l' = ld_name l \<and> ld_phone l' = ld_phone l \<and> ld_email l' = ld_email l \<and> ld_message l' = ld_message l"
proof -
  have "l0 = l" if "l0 \<in> set (db_leads w)" "ld_id l0 = ld_id l" for l0
    using assms(3) inj_onD [of ld_id "set (db_leads w)" l0 l] that assms(5) by (simp add: distinct_map)
  then have "\<forall>l0\<in>set (db_leads w). ld_id l0 = ld_id l \<longrightarrow> continues l l0" by fastforce
  then have "followed env l w" using assms(3,4) by (simp add: followed_def)
  then have "followed env l (run_leads env ops w)"
  proof (induction ops arbitrary: w)
    case Nil
    then show ?case by (simp add: run_leads_def)
  next
    case (Cons a ops)
    obtain now op where a: "a = (now, op)" by (cases a)
    have "followed env l (snd (lead_endpoint env now op w))"
      by (rule wp_snd [OF lead_endpoint_followed [OF assms(1,2) Cons.prems]])
    from Cons.IH [OF this] show ?case by (simp add: run_leads_def a)
  qed
  with assms(6,7) have "continues l l'" by (simp add: followed_def)
  then show ?thesis
    by (auto simp: continues_def dest: lead_path_stage lead_path_final)
qed

definition demo_lead_id :: string where
  "demo_lead_id = ''f81d4fae-7dec-41d0-a765-00a0c91e6bf6''"

definition demo_lead :: lead_row where
  "demo_lead =
     \<lparr>ld_id = demo_lead_id, ld_property_id = None, ld_user_id = None, ld_name = ''Mona'',
      ld_phone = ''+201001234567'', ld_email = None, ld_message = None, ld_source = ''website'', ld_area_id = None,
      ld_compound_id = None, ld_property_type = None, ld_status = New, ld_assigned_to = None, ld_notes = None,
      ld_contacted_at = None, ld_created_at = 0, ld_updated_at = 0\<rparr>"

definition call_made :: update_lead where
  "call_made = \<lparr>ul_status = Some Contacted, ul_assigned_to = None, ul_notes = Some ''called''\<rparr>"

definition one_lead :: "mem platform" where
  "one_lead = empty_platform\<lparr>db_leads := [demo_lead]\<rparr>"

lemma demo_lead_sel [simp]:
  "ld_id demo_lead = demo_lead_id" "ld_status demo_lead = New" "ld_phone demo_lead = ''+201001234567''"
  by (simp_all add: demo_lead_def)

lemma one_lead_called:
  "map ld_id (db_leads (run_leads mem_platform [(5, ChangeLead (ld_id demo_lead) call_made)] one_lead)) = [ld_id demo_lead]"
proof -
  let ?Q = "\<lambda>w :: mem platform. map ld_id (db_leads w) = [ld_id demo_lead]"
  have i: "assert_uuid (ld_id demo_lead) ''id'' = Inr (ld_id demo_lead)"
    unfolding demo_lead_sel demo_lead_id_def by code_simp
  have reads: "wp (with_related mem_platform z) (\<lambda>_. ?Q) (\<lambda>_. ?Q) w" if "?Q w" for w :: "mem platform" and z
    by (rule wp_reads [OF with_related_reads [OF mem_services_ready]]) (rule that)+
  have "wp (lead_endpoint mem_platform 5 (ChangeLead (ld_id demo_lead) call_made)) (\<lambda>_. ?Q) (\<lambda>_. ?Q) one_lead"
    by (simp add: with_uuid_def i [simplified] lead_update_def wp_simps service_wps [OF mem_services_ready] one_lead_def
        empty_platform_def call_made_def assert_transition_def assert_exists_def
        del: mem_platform_sel)
      (rule reads [simplified], simp add: update_where_def apply_lead_update_def)
  then have "?Q (snd (lead_endpoint mem_platform 5 (ChangeLead (ld_id demo_lead) call_made) one_lead))"
    by (rule wp_snd [where I = ?Q])
  then show ?thesis by (simp add: run_leads_def)
qed

lemma uuid_of_mem: "te_uuid mem_env n = replicate n CHR ''j''"
  by simp

theorem lead_lifecycle_witness:
  "\<exists>l'. l' \<in> set (db_leads (run_leads mem_platform [(5, ChangeLead (ld_id demo_lead) call_made)] one_lead)) \<and>
     lead_path New (ld_status l') \<and> ld_phone l' = ''+201001234567''"
proof -
  let ?ls = "db_leads (run_leads mem_platform [(5, ChangeLead (ld_id demo_lead) call_made)] one_lead)"
  from one_lead_called obtain l' where l': "l' \<in> set ?ls" "ld_id l' = ld_id demo_lead" by (cases ?ls) auto
  have mongo: "collection_ok (listing_schema mem_oid) (pe_listings mem_platform)" by simp
  have uuids: "\<forall>n\<ge>sw_uuids one_lead. te_uuid (pe_tokens mem_platform) n \<noteq> ld_id demo_lead"
  proof (intro allI impI notI)
    fix n
    assume "te_uuid (pe_tokens mem_platform) n = ld_id demo_lead"
    then have "\<forall>c\<in>set (ld_id demo_lead). c = CHR ''j''" by (metis in_set_replicate mem_platform_sel(1) uuid_of_mem)
    then show False by (simp add: demo_lead_id_def)
  qed
  have "lead_path New (ld_status l') \<and> ld_phone l' = ''+201001234567''"
    using lead_lifecycle [OF mem_services_ready mongo _ uuids _ l'] by (simp add: one_lead_def)
  with l'(1) show ?thesis by blast
qed

end
