(* ===== verification/Saved_Searches.thy ===== *)
theory Saved_Searches
  imports Properties Cache_Wp
begin

text \<open>
  Saved searches (\<open>modules/saved-searches/saved-searches.module.ts\<close>): at most 50 for a user, and each seen
  and changed by its owner only.
\<close>

section \<open>Requests\<close>

record create_search =
  ns_name :: string
  ns_criteria :: js_value
  ns_alert :: "bool option"

definition create_search_ok :: "create_search \<Rightarrow> bool" where
  "create_search_ok d \<longleftrightarrow> filled 160 (ns_name d) \<and> is_record (ns_criteria d)"

text \<open>The name may be the empty text here, unlike at creation.\<close>

record update_search =
  us_new_name :: "string option"
  us_new_criteria :: "js_value option"
  us_new_alert :: "bool option"

definition update_search_ok :: "update_search \<Rightarrow> bool" where
  "update_search_ok d \<longleftrightarrow> opt_ok (trimmed 160) (us_new_name d) \<and> opt_ok is_record (us_new_criteria d)"

section \<open>The service\<close>

definition max_saved_searches :: nat where
  "max_saved_searches = 50"

definition search_newest_first :: "saved_search_row \<Rightarrow> saved_search_row \<Rightarrow> bool" where
  "search_newest_first a b \<longleftrightarrow> ss_created_at b \<le> ss_created_at a"

definition search_list ::
  "'r platform_env \<Rightarrow> string \<Rightarrow> ('a pagination_query_scheme) \<Rightarrow> ('r, 'z, saved_search_row page) platform_prog" where
  "search_list env user_id q =
     on_searches (list_page (pe_searches env) (\<lambda>s. ss_user_id s = user_id) search_newest_first q)"

definition too_many_searches :: exn where
  "too_many_searches = AppExc (bad_request
     (''You can save at most '' @ show_nat max_saved_searches @ '' searches - delete one first'') BadRequestCode [])"

definition search_create ::
  "'r platform_env \<Rightarrow> int \<Rightarrow> string \<Rightarrow> create_search \<Rightarrow> ('r, 'z, saved_search_row) platform_prog" where
  "search_create env now user_id dto =
     seq (on_searches (tb_count (pe_searches env) (\<lambda>s. ss_user_id s = user_id))) (\<lambda>n.
       if max_saved_searches \<le> n then throw too_many_searches
       else
     seq (fresh_uuid (pe_tokens env)) (\<lambda>uuid.
       on_searches (tb_create (pe_searches env)
         \<lparr>ss_id = uuid, ss_user_id = user_id, ss_name = ns_name dto, ss_criteria = ns_criteria dto,
          ss_alert = (case ns_alert dto of Some b \<Rightarrow> b | None \<Rightarrow> False), ss_created_at = now\<rparr>)))"

definition search_not_found :: "string \<Rightarrow> exn" where
  "search_not_found i = AppExc (not_found (''Saved search '' @ quote i @ '' was not found'') SavedSearchNotFoundCode)"

definition ensure_owned :: "'r platform_env \<Rightarrow> string \<Rightarrow> string \<Rightarrow> ('r, 'z, unit) platform_prog" where
  "ensure_owned env user_id i =
     seq (on_searches (tb_count (pe_searches env) (\<lambda>s. ss_id s = i \<and> ss_user_id s = user_id))) (\<lambda>n.
       if n = 0 then throw (search_not_found i) else ret ())"

definition apply_search_update :: "update_search \<Rightarrow> saved_search_row \<Rightarrow> saved_search_row" where
  "apply_search_update dto s =
     s\<lparr>ss_name := set_if (us_new_name dto) (ss_name s), ss_criteria := set_if (us_new_criteria dto) (ss_criteria s),
       ss_alert := set_if (us_new_alert dto) (ss_alert s)\<rparr>"

definition search_update ::
  "'r platform_env \<Rightarrow> string \<Rightarrow> string \<Rightarrow> update_search \<Rightarrow> ('r, 'z, saved_search_row) platform_prog" where
  "search_update env user_id i dto =
     seq (ensure_owned env user_id i) (\<lambda>_.
       on_searches (tb_update (pe_searches env) (\<lambda>s. ss_id s = i) (apply_search_update dto)))"

definition search_remove :: "'r platform_env \<Rightarrow> string \<Rightarrow> string \<Rightarrow> ('r, 'z, string) platform_prog" where
  "search_remove env user_id i =
     seq (ensure_owned env user_id i) (\<lambda>_.
     seq (on_searches (tb_delete (pe_searches env) (\<lambda>s. ss_id s = i))) (\<lambda>_. ret i))"

text \<open>The routes that write, with the user of the session.\<close>

datatype search_action = SaveSearch create_search | EditSearch string update_search | DropSearch string

primrec search_endpoint :: "'r platform_env \<Rightarrow> int \<Rightarrow> string \<Rightarrow> search_action \<Rightarrow> ('r, 'z, unit) platform_prog" where
  "search_endpoint env now u (SaveSearch dto) = seq (search_create env now u dto) (\<lambda>_. ret ())"
| "search_endpoint env now u (EditSearch i dto) = with_uuid i (\<lambda>i. seq (search_update env u i dto) (\<lambda>_. ret ()))"
| "search_endpoint env now u (DropSearch i) = with_uuid i (\<lambda>i. seq (search_remove env u i) (\<lambda>_. ret ()))"

section \<open>The cap, and the owner\<close>

definition searches_of :: "string \<Rightarrow> ('r, 'z) platform_scheme \<Rightarrow> saved_search_row list" where
  "searches_of u w = filter (\<lambda>s. ss_user_id s = u) (db_searches w)"

definition capped :: "('r, 'z) platform_scheme \<Rightarrow> bool" where
  "capped w \<longleftrightarrow> distinct (map ss_id (db_searches w)) \<and> (\<forall>u. length (searches_of u w) \<le> max_saved_searches)"

text \<open>What a request of one user leaves of the rows of another.\<close>

definition only_own :: "string \<Rightarrow> ('r, 'z) platform_scheme \<Rightarrow> ('r, 'z) platform_scheme \<Rightarrow> bool" where
  "only_own u w w' \<longleftrightarrow> capped w' \<and> (\<forall>v. v \<noteq> u \<longrightarrow> searches_of v w' = searches_of v w)"

lemma owned_row:
  "distinct (map k rows) \<Longrightarrow> s \<in> set rows \<Longrightarrow> t \<in> set rows \<Longrightarrow> k s = k t \<Longrightarrow> s = t"
  using inj_onD [of k "set rows" s t] by (simp add: distinct_map)

lemma owned_by_owner:
  assumes "capped w" and "filter (\<lambda>s. ss_id s = i \<and> ss_user_id s = u) (db_searches w) \<noteq> []"
    and "s \<in> set (db_searches w)" and "ss_id s = i"
  shows "ss_user_id s = u"
proof -
  from assms(2) obtain t where t: "t \<in> set (db_searches w)" "ss_id t = i" "ss_user_id t = u"
    by (auto simp: filter_empty_conv)
  from assms(1) have "distinct (map ss_id (db_searches w))" by (simp add: capped_def)
  from owned_row [OF this assms(3) t(1)] t assms(4) show ?thesis by simp
qed

lemma wp_ensure_owned:
  assumes "services_ready env v"
    and "filter (\<lambda>s. ss_id s = i \<and> ss_user_id s = u) (db_searches w) \<noteq> [] \<Longrightarrow> Q () w" and "E (search_not_found i) w"
  shows "wp (ensure_owned env u i) Q E w"
  using assms(2,3) by (simp add: ensure_owned_def wp_simps service_wps [OF assms(1)])

lemma search_create_own:
  assumes ready: "services_ready env v" and inv: "capped w"
  shows "wp (search_create env now u dto) (\<lambda>_. only_own u w) (\<lambda>_. only_own u w) w"
  using inv
  by (auto simp: search_create_def wp_simps service_wps [OF ready] only_own_def capped_def searches_of_def
      search_clash_def list_ex_iff max_saved_searches_def)

lemma updated_owner:
  "length (filter (\<lambda>s. ss_user_id s = x) (update_where P (apply_search_update dto) rows)) =
     length (filter (\<lambda>s. ss_user_id s = x) rows)"
  "map ss_id (update_where P (apply_search_update dto) rows) = map ss_id rows"
  by (induction rows) (auto simp: update_where_def apply_search_update_def)

lemma others_kept:
  assumes "\<And>s. s \<in> set rows \<Longrightarrow> ss_id s = i \<Longrightarrow> ss_user_id s \<noteq> x"
  shows "filter (\<lambda>s. ss_user_id s = x) (update_where (\<lambda>s. ss_id s = i) (apply_search_update dto) rows) =
      filter (\<lambda>s. ss_user_id s = x) rows"
    and "filter (\<lambda>s. ss_user_id s = x) (filter (\<lambda>s. ss_id s \<noteq> i) rows) = filter (\<lambda>s. ss_user_id s = x) rows"
  using assms by (induction rows) (auto simp: update_where_def apply_search_update_def)

lemma search_update_own:
  assumes ready: "services_ready env v" and inv: "capped w"
  shows "wp (search_update env u i dto) (\<lambda>_. only_own u w) (\<lambda>_. only_own u w) w"
  unfolding search_update_def wp_seq
proof (rule wp_ensure_owned [OF ready])
  assume "filter (\<lambda>s. ss_id s = i \<and> ss_user_id s = u) (db_searches w) \<noteq> []"
  from owned_by_owner [OF inv this]
  have "filter (\<lambda>s. ss_user_id s = x) (update_where (\<lambda>s. ss_id s = i) (apply_search_update dto) (db_searches w)) =
      filter (\<lambda>s. ss_user_id s = x) (db_searches w)" if "x \<noteq> u" for x
    using that by (intro others_kept(1)) auto
  then show "wp (on_searches (tb_update (pe_searches env) (\<lambda>s. ss_id s = i) (apply_search_update dto)))
      (\<lambda>_. only_own u w) (\<lambda>_. only_own u w) w"
    using inv
    by (simp add: wp_simps service_wps [OF ready] only_own_def capped_def searches_of_def updated_owner split: option.split)
qed (use inv in \<open>simp add: only_own_def\<close>)

lemma search_remove_own:
  assumes ready: "services_ready env v" and inv: "capped w"
  shows "wp (search_remove env u i) (\<lambda>_. only_own u w) (\<lambda>_. only_own u w) w"
  unfolding search_remove_def wp_seq
proof (rule wp_ensure_owned [OF ready])
  assume "filter (\<lambda>s. ss_id s = i \<and> ss_user_id s = u) (db_searches w) \<noteq> []"
  from owned_by_owner [OF inv this]
  have others: "filter (\<lambda>s. ss_user_id s = x) (filter (\<lambda>s. ss_id s \<noteq> i) (db_searches w)) =
      filter (\<lambda>s. ss_user_id s = x) (db_searches w)" if "x \<noteq> u" for x
    using that by (intro others_kept(2)) auto
  have fewer: "length (filter P (filter R rows)) \<le> length (filter P rows)" for P R and rows :: "saved_search_row list"
    by (induction rows) auto
  have "capped (w\<lparr>db_searches := filter (\<lambda>s. ss_id s \<noteq> i) (db_searches w)\<rparr>)"
    using inv order_trans [OF fewer] by (simp add: capped_def searches_of_def distinct_map_filter)
  then show "wp (on_searches (tb_delete (pe_searches env) (\<lambda>s. ss_id s = i)))
      (\<lambda>a w'. wp (ret i) (\<lambda>_. only_own u w) (\<lambda>_. only_own u w) w') (\<lambda>_. only_own u w) w"
    using inv others
    by (simp add: wp_simps service_wps [OF ready] only_own_def searches_of_def split: option.split)
qed (use inv in \<open>simp add: only_own_def\<close>)

lemma search_endpoint_own:
  assumes ready: "services_ready env v" and inv: "capped w"
  shows "wp (search_endpoint env now u op) (\<lambda>_. only_own u w) (\<lambda>_. only_own u w) w"
proof -
  have refl: "only_own u w w" using inv by (simp add: only_own_def)
  show ?thesis
    using refl
    by (cases op) (auto simp: with_uuid_def wp_simps search_create_own [OF ready inv] search_update_own [OF ready inv]
        search_remove_own [OF ready inv] split: sum.split)
qed

definition run_searches ::
  "'r platform_env \<Rightarrow> (int \<times> string \<times> search_action) list \<Rightarrow> ('r, 'z) platform_scheme \<Rightarrow> ('r, 'z) platform_scheme" where
  "run_searches env ops = fold (\<lambda>(now, u, op) w. snd (search_endpoint env now u op w)) ops"

text \<open>
  C24: After any sequence of requests, whatever their outcomes, no user has more than 50 saved searches; and the
  searches of a user are exactly what they were when every request was another user's, even one that names
  their ids.
\<close>

theorem searches_capped_and_private:
  assumes "services_ready env v" and "capped w"
  shows "length (searches_of x (run_searches env ops w)) \<le> 50 \<and>
    (list_all (\<lambda>(now, u, op). u \<noteq> x) ops \<longrightarrow> searches_of x (run_searches env ops w) = searches_of x w)"
proof -
  have "capped (run_searches env ops w) \<and>
      (list_all (\<lambda>(now, u, op). u \<noteq> x) ops \<longrightarrow> searches_of x (run_searches env ops w) = searches_of x w)"
    using assms(2)
  proof (induction ops arbitrary: w)
    case Nil
    then show ?case by (simp add: run_searches_def)
  next
    case (Cons a ops)
    obtain now u op where a: "a = (now, u, op)" by (cases a)
    have step: "only_own u w (snd (search_endpoint env now u op w))"
      by (rule wp_snd [OF search_endpoint_own [OF assms(1) Cons.prems]])
    then have "capped (snd (search_endpoint env now u op w))" by (simp add: only_own_def)
    from Cons.IH [OF this] step show ?case by (auto simp: run_searches_def a only_own_def)
  qed
  then show ?thesis by (simp add: capped_def max_saved_searches_def)
qed

definition demo_search :: create_search where
  "demo_search = \<lparr>ns_name = ''Sea view'', ns_criteria = JObj PlainObject [], ns_alert = None\<rparr>"

theorem searches_capped_and_private_witness:
  "length (searches_of ''u1'' (run_searches mem_platform
       [(1, ''u1'', SaveSearch demo_search), (2, ''u2'', SaveSearch demo_search)] (empty_platform :: mem platform))) \<le> 50 \<and>
   searches_of ''u3'' (run_searches mem_platform
       [(1, ''u1'', SaveSearch demo_search), (2, ''u2'', SaveSearch demo_search)] (empty_platform :: mem platform)) = []"
proof -
  have "capped (empty_platform :: mem platform)" by (simp add: capped_def empty_platform_def searches_of_def)
  note c = searches_capped_and_private [OF mem_services_ready this]
  show ?thesis
    using c [of "''u1''"] c [of "''u3''" "[(1, ''u1'', SaveSearch demo_search), (2, ''u2'', SaveSearch demo_search)]"]
    by (simp add: searches_of_def empty_platform_def)
qed

end
