(* ===== verification/Users.thy ===== *)
theory Users
  imports Leads
begin

text \<open>
  Users (\<open>modules/users/users.service.ts\<close>, \<open>users.module.ts\<close>, \<open>dto/user.dto.ts\<close>): the profile, the
  administrative edit, which ends sessions, and the removal, which anonymises the account and keeps the row.
\<close>

section \<open>Requests\<close>

record list_users = pagination_query +
  qu_q :: "string option"
  qu_role :: "user_role option"
  qu_active :: "bool option"

definition list_users_ok :: "list_users \<Rightarrow> bool" where
  "list_users_ok q \<longleftrightarrow> page_query_ok q \<and> opt_ok (trimmed 200) (qu_q q)"

record update_profile =
  up_name :: "string option"
  up_phone :: "string option"
  up_avatar_url :: "string option"
  up_locale :: "string option"

definition update_profile_ok :: "validators \<Rightarrow> ('z update_profile_scheme) \<Rightarrow> bool" where
  "update_profile_ok vd d \<longleftrightarrow> opt_ok (trimmed 160) (up_name d) \<and>
     opt_ok (\<lambda>p. trim p = p \<and> phone_text p) (up_phone d) \<and> opt_ok (vd_url vd) (up_avatar_url d) \<and>
     opt_ok (\<lambda>l. l \<in> {''en'', ''ar''}) (up_locale d)"

record admin_update = update_profile +
  xu_role :: "user_role option"
  xu_active :: "bool option"
  xu_verified :: "bool option"

section \<open>The service\<close>

text \<open>\<open>PUBLIC_SELECT\<close>: no password hash, no reset token.\<close>

record user_record =
  ur_id :: string
  ur_email :: string
  ur_name :: string
  ur_role :: user_role
  ur_phone :: "string option"
  ur_avatar_url :: "string option"
  ur_verified :: bool
  ur_active :: bool
  ur_locale :: string
  ur_last_login :: "int option"
  ur_created_at :: int
  ur_updated_at :: int

definition public_select :: "user_row \<Rightarrow> user_record" where
  "public_select u =
     \<lparr>ur_id = us_id u, ur_email = us_email u, ur_name = us_name u, ur_role = us_role u, ur_phone = us_phone u,
      ur_avatar_url = us_avatar_url u, ur_verified = us_verified u, ur_active = us_active u, ur_locale = us_locale u,
      ur_last_login = us_last_login u, ur_created_at = us_created_at u, ur_updated_at = us_updated_at u\<rparr>"

definition user_sortable :: "string list" where
  "user_sortable = [''createdAt'', ''name'', ''email'', ''lastLoginAt'']"

definition user_field :: "user_row \<Rightarrow> string \<Rightarrow> sort_value" where
  "user_field u f =
     (if f = ''createdAt'' then NumValue (of_int (us_created_at u))
      else if f = ''name'' then TextValue (us_name u)
      else if f = ''email'' then TextValue (us_email u)
      else opt_num (us_last_login u))"

definition user_not_found :: "string \<Rightarrow> exn" where
  "user_not_found i = AppExc (not_found (''User '' @ quote i @ '' was not found'') UserNotFoundCode)"

definition user_find_by_id :: "'r platform_env \<Rightarrow> string \<Rightarrow> ('r, 'z, user_record) platform_prog" where
  "user_find_by_id env i =
     seq (on_users (tb_find (pe_users env) (\<lambda>u. us_id u = uuid_value i))) (\<lambda>found.
       case found of None \<Rightarrow> throw (user_not_found i) | Some u \<Rightarrow> ret (public_select u))"

definition user_ensure_exists :: "'r platform_env \<Rightarrow> string \<Rightarrow> ('r, 'z, unit) platform_prog" where
  "user_ensure_exists env i =
     seq (on_users (tb_count (pe_users env) (\<lambda>u. us_id u = uuid_value i))) (\<lambda>n.
       if n = 0 then throw (user_not_found i) else ret ())"

definition apply_profile :: "int \<Rightarrow> ('z update_profile_scheme) \<Rightarrow> user_row \<Rightarrow> user_row" where
  "apply_profile now dto u =
     u\<lparr>us_name := set_if (up_name dto) (us_name u), us_phone := set_if_opt (up_phone dto) (us_phone u),
       us_avatar_url := set_if_opt (up_avatar_url dto) (us_avatar_url u),
       us_locale := set_if (up_locale dto) (us_locale u), us_updated_at := now\<rparr>"

definition update_own_profile ::
  "'r platform_env \<Rightarrow> int \<Rightarrow> string \<Rightarrow> update_profile \<Rightarrow> ('r, 'z, user_record) platform_prog" where
  "update_own_profile env now i dto =
     seq (user_ensure_exists env i) (\<lambda>_.
     seq (on_users (tb_update (pe_users env) (\<lambda>u. us_id u = uuid_value i) (apply_profile now dto))) (\<lambda>u.
       ret (public_select u)))"

definition user_where :: "'r platform_env \<Rightarrow> list_users \<Rightarrow> user_row \<Rightarrow> bool" where
  "user_where env q u \<longleftrightarrow> opt_ok (\<lambda>r. us_role u = r) (qu_role q) \<and> opt_ok (\<lambda>b. us_active u = b) (qu_active q) \<and>
     if_given (\<lambda>t. contains_ci env (us_name u) t \<or> contains_ci env (us_email u) t) (qu_q q)"

definition user_list :: "'r platform_env \<Rightarrow> list_users \<Rightarrow> ('r, 'z, user_record page) platform_prog" where
  "user_list env q =
     (let srt = parse_sort (pq_sort q) user_sortable \<lparr>ps_field = ''createdAt'', ps_direction = Desc\<rparr>
      in seq (on_users (list_page (pe_users env) (user_where env q) (order_by (pe_collate env) srt user_field) q)) (\<lambda>pg.
         ret (map public_select (fst pg), snd pg)))"

definition only_superadmin :: exn where
  "only_superadmin = AppExc (forbidden ''Only a superadmin can change user roles'' InsufficientRoleCode)"

definition own_account :: "string \<Rightarrow> exn" where
  "own_account message = AppExc (bad_request message BadRequestCode [])"

definition apply_admin_update :: "int \<Rightarrow> admin_update \<Rightarrow> user_row \<Rightarrow> user_row" where
  "apply_admin_update now dto u =
     (apply_profile now dto u)\<lparr>us_role := set_if (xu_role dto) (us_role u), us_active := set_if (xu_active dto) (us_active u),
       us_verified := set_if (xu_verified dto) (us_verified u)\<rparr>"

definition changes_role :: "admin_update \<Rightarrow> user_row \<Rightarrow> bool" where
  "changes_role dto target \<longleftrightarrow> (case xu_role dto of None \<Rightarrow> False | Some r \<Rightarrow> r \<noteq> us_role target)"

definition admin_update_user ::
  "'r platform_env \<Rightarrow> int \<Rightarrow> string \<Rightarrow> admin_update \<Rightarrow> string \<Rightarrow> user_role \<Rightarrow> ('r, 'z, user_record) platform_prog" where
  "admin_update_user env now i dto actor_id actor_role =
     seq (on_users (tb_find (pe_users env) (\<lambda>u. us_id u = uuid_value i))) (\<lambda>found.
       case found of
         None \<Rightarrow> throw (user_not_found i)
       | Some target \<Rightarrow>
     seq (if changes_role dto target
          then if actor_role \<noteq> RoleSuperadmin then throw only_superadmin
               else if actor_id = i then throw (own_account ''You cannot change your own role'') else ret ()
          else ret ()) (\<lambda>_.
     seq (if xu_active dto = Some False \<and> actor_id = i
          then throw (own_account ''You cannot deactivate your own account'') else ret ()) (\<lambda>_.
     seq (on_users (tb_update (pe_users env) (\<lambda>u. us_id u = uuid_value i) (apply_admin_update now dto))) (\<lambda>u.
     seq (do_if (changes_role dto target \<or> xu_active dto = Some False)
            (revoke_all_sessions (pe_tokens env) now i)) (\<lambda>_.
       ret (public_select u))))))"

definition anonymised :: "int \<Rightarrow> string \<Rightarrow> user_row \<Rightarrow> user_row" where
  "anonymised now i u =
     u\<lparr>us_active := False, us_email := ''deleted+'' @ i @ ''@topchoice.invalid'', us_name := ''Deleted user'',
       us_phone := None, us_avatar_url := None, us_password_hash := None, us_reset_hash := None,
       us_reset_expires := None, us_updated_at := now\<rparr>"

definition user_remove :: "'r platform_env \<Rightarrow> int \<Rightarrow> string \<Rightarrow> string \<Rightarrow> ('r, 'z, string) platform_prog" where
  "user_remove env now i actor_id =
     (if i = actor_id then throw (own_account ''You cannot delete your own account'')
      else
        seq (user_ensure_exists env i) (\<lambda>_.
        seq (on_users (tb_update (pe_users env) (\<lambda>u. us_id u = uuid_value i) (anonymised now i))) (\<lambda>_.
        seq (on_accounts (tb_delete_many (pe_accounts env) (\<lambda>a. ac_user_id a = uuid_value i))) (\<lambda>_.
        seq (revoke_all_sessions (pe_tokens env) now i) (\<lambda>_. ret i)))))"

text \<open>The routes that write, with the principal of the request. \<open>EditUser\<close> and \<open>RemoveUser\<close> need the role admin.\<close>

datatype user_request =
    EditMe string update_profile
  | EditUser string user_role string admin_update
  | RemoveUser string string

primrec user_endpoint :: "'r platform_env \<Rightarrow> int \<Rightarrow> user_request \<Rightarrow> ('r, 'z, unit) platform_prog" where
  "user_endpoint env now (EditMe me dto) = seq (update_own_profile env now me dto) (\<lambda>_. ret ())"
| "user_endpoint env now (EditUser actor actor_role i dto) =
     with_uuid i (\<lambda>i. seq (admin_update_user env now i dto actor actor_role) (\<lambda>_. ret ()))"
| "user_endpoint env now (RemoveUser actor i) = with_uuid i (\<lambda>i. seq (user_remove env now i actor) (\<lambda>_. ret ()))"

section \<open>Ended sessions\<close>

text \<open>From \<open>t\<close> on, no refresh token of the user is accepted.\<close>

definition locked_out :: "'r token_env \<Rightarrow> string \<Rightarrow> int \<Rightarrow> ('r, 'z) session_world_scheme \<Rightarrow> bool" where
  "locked_out env user_id t w \<longleftrightarrow>
     (\<forall>u\<ge>t. \<forall>tok p. jw_decode (te_jwt env) tok = Some p \<and> jc_sub p = user_id \<longrightarrow>
        (\<exists>e. fst (verify_refresh_token env u tok w) = Throw (AppExc e)))"

lemma wp_revoke_all:
  assumes ok: "env_ok (pe_tokens env) v" and uid: "plain i"
    and after: "\<And>r ts. locked_out (pe_tokens env) i now (w\<lparr>sw_cache := r, sw_tokens := ts\<rparr>) \<Longrightarrow>
      Q () (w\<lparr>sw_cache := r, sw_tokens := ts\<rparr>)"
  shows "wp (revoke_all_sessions (pe_tokens env) now i) Q E w"
proof -
  obtain r where run: "revoke_all_sessions (pe_tokens env) now i w = (Return (), w\<lparr>sw_cache := r,
      sw_tokens := update_where (\<lambda>r. same_uuid (rt_user_id r) i \<and> rt_revoked_at r = None)
        (\<lambda>r. r\<lparr>rt_revoked_at := Some now\<rparr>) (sw_tokens w)\<rparr>)"
    by (rule revoke_all_effect [OF ok uid])
  then have "locked_out (pe_tokens env) i now (snd (revoke_all_sessions (pe_tokens env) now i w))"
    using revoked_rejected [OF ok, of _ _ now _ w] uid by (auto simp: locked_out_def)
  with run show ?thesis by (auto simp: wp_def intro: after)
qed

lemma uuid_plain: "is_uuid i \<Longrightarrow> plain i"
proof -
  assume "is_uuid i"
  then have "\<forall>c\<in>set i. hex_char c \<or> c = CHR ''-''"
    using join_split_on [of "CHR ''-''" i] is_uuid_dash [of i]
    by (auto simp: is_uuid_def hex_run_def list_all_iff split: list.splits)
  then show ?thesis by (auto simp: plain_def glob_special_def hex_char_def)
qed

lemma wp_with_uuid:
  "(is_uuid i \<Longrightarrow> wp (m i) Q E w) \<Longrightarrow> (\<And>e. E (AppExc e) w) \<Longrightarrow> wp (with_uuid i m) Q E w"
  by (simp add: with_uuid_def assert_uuid_def wp_simps)

section \<open>Who changes a role\<close>

definition role_of :: "('r, 'z) platform_scheme \<Rightarrow> string \<Rightarrow> user_role option" where
  "role_of w i = map_option us_role (List.find (\<lambda>u. us_id u = i) (db_users w))"

lemma role_of_frame [simp]:
  "role_of (w\<lparr>sw_cache := r\<rparr>) i = role_of w i" "role_of (w\<lparr>sw_tokens := ts\<rparr>) i = role_of w i"
  "role_of (w\<lparr>db_accounts := as\<rparr>) i = role_of w i"
  by (simp_all add: role_of_def)

lemma find_updated_user:
  assumes "\<And>u. us_id (f u) = us_id u"
  shows "List.find (\<lambda>u. us_id u = x) (update_where (\<lambda>u. us_id u = i) f us) =
    map_option (\<lambda>u. if x = i then f u else u) (List.find (\<lambda>u. us_id u = x) us)"
  by (induction us) (auto simp: update_where_def assms)

lemma user_changes_sel [simp]:
  "us_id (apply_profile now dto u) = us_id u" "us_role (apply_profile now dto u) = us_role u"
  "us_id (apply_admin_update now xdto u) = us_id u" "us_id (anonymised now i u) = us_id u"
  "us_role (apply_admin_update now xdto u) = set_if (xu_role xdto) (us_role u)"
  "us_role (anonymised now i u) = us_role u"
  by (simp_all add: apply_profile_def apply_admin_update_def anonymised_def)

text \<open>The request of a superadmin, under an identifier that is not his own as written, that asks for this role.\<close>

definition role_granted :: "user_request \<Rightarrow> string \<Rightarrow> user_role option \<Rightarrow> bool" where
  "role_granted op i r \<longleftrightarrow>
     (case op of EditUser actor actor_role j dto \<Rightarrow>
        actor_role = RoleSuperadmin \<and> uuid_value j = i \<and> actor \<noteq> j \<and> xu_role dto = r \<and> r \<noteq> None
      | _ \<Rightarrow> False)"

definition roles_kept :: "('r, 'z) platform_scheme \<Rightarrow> user_request \<Rightarrow> ('r, 'z) platform_scheme \<Rightarrow> bool" where
  "roles_kept w op w' \<longleftrightarrow> (\<forall>x. role_of w' x = role_of w x \<or> role_granted op x (role_of w' x))"

lemma roles_kept_frame [simp]:
  "roles_kept w op (w'\<lparr>sw_cache := r, sw_tokens := ts\<rparr>) = roles_kept w op w'"
  by (simp add: roles_kept_def)

lemma user_endpoint_roles:
  assumes ready: "services_ready env v" and tokens: "env_ok (pe_tokens env) v'"
  shows "wp (user_endpoint env now op) (\<lambda>_. roles_kept w op) (\<lambda>_. roles_kept w op) w"
proof -
  have refl: "roles_kept w op w" by (simp add: roles_kept_def)
  show ?thesis
  proof (cases op)
    case (EditMe me dto)
    then show ?thesis
      using refl
      by (auto simp: update_own_profile_def user_ensure_exists_def wp_simps service_wps [OF ready] roles_kept_def role_of_def
          find_updated_user option.map_comp comp_def if_distrib split: option.split cong: if_cong)
  next
    case (RemoveUser actor i)
    then show ?thesis
      using refl
      by (auto simp: user_remove_def user_ensure_exists_def wp_simps service_wps [OF ready] roles_kept_def role_of_def
          find_updated_user option.map_comp comp_def if_distrib split: option.split cong: if_cong
          intro!: wp_with_uuid wp_revoke_all [OF tokens] uuid_plain)
  next
    case (EditUser actor actor_role i dto)
    let ?w = "w\<lparr>db_users := update_where (\<lambda>u. us_id u = uuid_value i) (apply_admin_update now dto) (db_users w)\<rparr>"
    have roles: "role_of ?w x = (if x = uuid_value i then map_option (set_if (xu_role dto)) (role_of w x) else role_of w x)" for x
      by (simp add: role_of_def find_updated_user option.map_comp comp_def)
    have kept: "roles_kept w op ?w"
      if "List.find (\<lambda>u. us_id u = uuid_value i) (db_users w) = Some target"
        "changes_role dto target \<longrightarrow> actor_role = RoleSuperadmin \<and> actor \<noteq> i" for target
      using that EditUser roles
      by (auto simp: roles_kept_def role_granted_def changes_role_def role_of_def set_if_def split: option.splits)
    show ?thesis
    proof (cases "List.find (\<lambda>u. us_id u = uuid_value i) (db_users w)")
      case None
      then show ?thesis
        using refl EditUser by (auto simp: admin_update_user_def wp_simps service_wps [OF ready] intro!: wp_with_uuid)
    next
      case (Some target)
      have "wp (admin_update_user env now i dto actor actor_role) (\<lambda>_. roles_kept w op) (\<lambda>_. roles_kept w op) w"
        if "is_uuid i"
        using refl kept [OF Some] Some
        by (cases "changes_role dto target")
          (auto simp: admin_update_user_def wp_simps service_wps [OF ready]
            intro!: wp_revoke_all [OF tokens uuid_plain [OF that]])
      then show ?thesis using refl EditUser by (auto simp: wp_simps intro!: wp_with_uuid)
    qed
  qed
qed

definition run_users ::
  "'r platform_env \<Rightarrow> (int \<times> user_request) list \<Rightarrow> ('r, 'z) platform_scheme \<Rightarrow> ('r, 'z) platform_scheme" where
  "run_users env ops = fold (\<lambda>(now, op) w. snd (user_endpoint env now op w)) ops"

text \<open>
  C12: Nobody gains or loses a role except by a superadmin: when a user's role after a sequence of requests differs
  from the one before, then one of them was a superadmin's edit of that account that asked for the role the user now has.
  Requests of administrators, of users on themselves, and removals never change one. The superadmin's own identifier is
  not the one the request names, as written; since identifiers are matched in either case, that keeps a superadmin from
  changing his own role only as long as he writes it in lower case (\<open>own_role_in_capitals\<close> below).
\<close>

theorem role_change_needs_superadmin:
  assumes "services_ready env v" and "env_ok (pe_tokens env) v'"
    and "role_of (run_users env ops w) i \<noteq> role_of w i"
  shows "\<exists>now actor j dto. (now, EditUser actor RoleSuperadmin j dto) \<in> set ops \<and> uuid_value j = i \<and> actor \<noteq> j \<and>
    xu_role dto = role_of (run_users env ops w) i"
  using assms(3)
proof (induction ops arbitrary: w)
  case Nil
  then show ?case by (simp add: run_users_def)
next
  case (Cons a ops)
  obtain now op where a: "a = (now, op)" by (cases a)
  let ?w = "snd (user_endpoint env now op w)"
  have run: "run_users env (a # ops) w = run_users env ops ?w" by (simp add: run_users_def a)
  have "roles_kept w op ?w"
    by (rule wp_snd [OF user_endpoint_roles [OF assms(1,2)]])
  then have "role_of ?w i = role_of w i \<or> role_granted op i (role_of ?w i)" by (simp add: roles_kept_def)
  then show ?case
  proof (cases "role_of (run_users env ops ?w) i = role_of ?w i")
    case True
    with Cons.prems \<open>_ \<or> role_granted _ _ _\<close> run show ?thesis
      by (auto simp: role_granted_def a split: user_request.splits)
  next
    case False
    from Cons.IH [OF this] run show ?thesis by auto
  qed
qed

definition demo_user_id :: string where
  "demo_user_id = ''f81d4fae-7dec-41d0-a765-00a0c91e6bf6''"

definition demo_admin :: user_row where
  "demo_admin =
     \<lparr>us_id = demo_user_id, us_email = ''a@b.c'', us_name = ''Mona'', us_password_hash = Some ''h'', us_phone = None,
      us_avatar_url = None, us_role = RoleAdmin, us_verified = True, us_active = True, us_locale = ''en'',
      us_reset_hash = None, us_reset_expires = None, us_last_login = None, us_created_at = 0, us_updated_at = 0\<rparr>"

lemma demo_admin_sel [simp]:
  "us_id demo_admin = demo_user_id" "us_role demo_admin = RoleAdmin" "us_active demo_admin = True"
  by (simp_all add: demo_admin_def)

definition demote :: admin_update where
  "demote = \<lparr>up_name = None, up_phone = None, up_avatar_url = None, up_locale = None, xu_role = Some RoleUser,
     xu_active = None, xu_verified = None\<rparr>"

definition one_admin :: "mem platform" where
  "one_admin = empty_platform\<lparr>db_users := [demo_admin]\<rparr>"

lemma demo_user_uuid: "assert_uuid demo_user_id ''id'' = Inr demo_user_id"
  unfolding demo_user_id_def by code_simp

lemma demo_user_lower [simp]: "uuid_value demo_user_id = demo_user_id"
  unfolding demo_user_id_def by code_simp

lemma demo_user_plain: "plain demo_user_id"
  using demo_user_uuid by (intro uuid_plain) (simp add: assert_uuid_def split: if_splits)

lemma wp_demotion:
  "wp (user_endpoint mem_platform 5 (EditUser ''boss'' RoleSuperadmin demo_user_id demote))
     (\<lambda>_ w. role_of w demo_user_id = Some RoleUser) (\<lambda>_ _. False) one_admin"
proof -
  have tokens: "env_ok (pe_tokens mem_platform) mem_view" by (simp add: mem_env_ok)
  have [simp]: "''boss'' \<noteq> demo_user_id" by (simp add: demo_user_id_def)
  show ?thesis
    by (simp add: with_uuid_def demo_user_uuid admin_update_user_def changes_role_def demote_def wp_simps
        service_wps [OF mem_services_ready] one_admin_def empty_platform_def del: mem_platform_sel)
      (rule wp_revoke_all [OF tokens demo_user_plain], simp add: role_of_def update_where_def set_if_def)
qed

lemma demoted:
  "role_of (run_users mem_platform [(5, EditUser ''boss'' RoleSuperadmin demo_user_id demote)] one_admin) demo_user_id =
     Some RoleUser"
  using wp_demotion by (auto simp: run_users_def wp_def split: prod.splits outcome.splits)

theorem role_change_needs_superadmin_witness:
  "\<exists>now actor j dto. (now, EditUser actor RoleSuperadmin j dto) \<in>
       set [(5::int, EditUser ''boss'' RoleSuperadmin demo_user_id demote)] \<and> uuid_value j = demo_user_id \<and> actor \<noteq> j \<and>
     xu_role dto = role_of (run_users mem_platform [(5, EditUser ''boss'' RoleSuperadmin demo_user_id demote)] one_admin) demo_user_id"
proof (rule role_change_needs_superadmin [OF mem_services_ready])
  show "env_ok (pe_tokens mem_platform) mem_view" by (simp add: mem_env_ok)
  show "role_of (run_users mem_platform [(5, EditUser ''boss'' RoleSuperadmin demo_user_id demote)] one_admin) demo_user_id \<noteq>
      role_of one_admin demo_user_id"
    by (simp add: demoted) (simp add: role_of_def one_admin_def)
qed

text \<open>A superadmin who writes his own identifier in capitals takes his own role away.\<close>

definition demo_user_capitals :: string where
  "demo_user_capitals = ''F81D4FAE-7DEC-41D0-A765-00A0C91E6BF6''"

lemma demo_user_capitals_value [simp]: "uuid_value demo_user_capitals = demo_user_id" "demo_user_capitals \<noteq> demo_user_id"
  unfolding demo_user_id_def demo_user_capitals_def by code_simp+

lemma capitals_uuid: "assert_uuid demo_user_capitals ''id'' = Inr demo_user_capitals"
  unfolding demo_user_capitals_def by code_simp

lemma own_role_in_capitals:
  "wp (user_endpoint mem_platform 5 (EditUser demo_user_id RoleSuperadmin demo_user_capitals demote))
     (\<lambda>_ w. role_of w demo_user_id = Some RoleUser) (\<lambda>_ _. False)
     (one_admin\<lparr>db_users := [demo_admin\<lparr>us_role := RoleSuperadmin\<rparr>]\<rparr>)"
proof -
  have tokens: "env_ok (pe_tokens mem_platform) mem_view" by (simp add: mem_env_ok)
  have "plain demo_user_capitals"
    using capitals_uuid by (intro uuid_plain) (simp add: assert_uuid_def split: if_splits)
  moreover have "demo_user_id \<noteq> demo_user_capitals" using demo_user_capitals_value(2) by metis
  ultimately show ?thesis
    by (simp add: with_uuid_def capitals_uuid admin_update_user_def changes_role_def demote_def wp_simps
        service_wps [OF mem_services_ready] one_admin_def empty_platform_def del: mem_platform_sel)
      (rule wp_revoke_all [OF tokens], assumption, simp add: role_of_def update_where_def set_if_def)
qed

lemma revoke_all_rowless:
  assumes ok: "env_ok env v" and uid: "plain i" and rows: "sw_tokens w = []"
  obtains r where "revoke_all_sessions env t i w = (Return (), w\<lparr>sw_cache := r\<rparr>)"
    "\<forall>u\<ge>t. \<forall>k. marked v r u k = (\<not> starts_with k (refresh_prefix i) \<and> marked v (sw_cache w) u k)"
proof -
  obtain r n where del: "on_cache (cache_del_by_pattern (te_redis env) t (refresh_pattern i) 250) w =
      (Return n, w\<lparr>sw_cache := r\<rparr>)"
    and m: "\<forall>u\<ge>t. \<forall>k. marked v r u k = (\<not> starts_with k (refresh_prefix i) \<and> marked v (sw_cache w) u k)"
    by (rule unmark_prefix_effect [OF ok uid])
  have "revoke_all_sessions env t i w = (Return (), w\<lparr>sw_cache := r\<rparr>)"
    using del rows by (simp add: revoke_all_sessions_def seq_def catch_def on_tokens_eq table_okD [OF env_table [OF ok]]
        update_where_def)
  then show thesis using m by (rule that)
qed

definition marker_only :: "mem platform" where
  "marker_only = one_admin\<lparr>sw_cache := [(refresh_key demo_user_id ''j'', ''{}'', None)]\<rparr>"

lemma capitals_leave_marker:
  "wp (user_endpoint mem_platform 5 (RemoveUser ''boss'' demo_user_capitals))
     (\<lambda>_ w. \<not> locked_out mem_env demo_user_id 5 w) (\<lambda>_ _. False) marker_only"
proof -
  let ?c = "demo_claims\<lparr>jc_sub := demo_user_id\<rparr>"
  let ?tok = "mem_sign 0 ''r'' 2592000 ''topchoice-api'' ''topchoice-clients'' ?c"
  let ?p = "stamped 0 2592000 ''topchoice-api'' ''topchoice-clients'' ?c"
  have p: "jc_sub ?p = demo_user_id" "jc_jti ?p = ''j''"
    by (simp_all add: stamped_def demo_claims_def jwt_claims.defs jwt_payload.defs)
  have dec: "refresh_verified mem_env 5 ?tok ?p"
    using jwt_signed [OF mem_jwt_ok, of 5 0 2592000 "''r''" "''topchoice-api''" "''topchoice-clients''" ?c]
    by (simp add: mem_jwt_def)
  have kept: "\<not> locked_out mem_env demo_user_id 5 w"
    if "marked mem_view (sw_cache w) 5 (refresh_key demo_user_id ''j'')"
      "\<not> marked mem_view (sw_cache w) 5 (deny_key ''j'')" for w :: "mem platform"
  proof -
    have "fst (verify_refresh_token mem_env 5 ?tok w) = Return ?p"
      using verify_refresh_verdict [OF mem_env_ok _ dec, of w] that p by (simp add: demo_user_plain)
    moreover have "jw_decode (te_jwt mem_env) ?tok = Some ?p" by (simp add: mem_jwt_def mem_decode_sign)
    ultimately show ?thesis using p unfolding locked_out_def by (metis order_refl outcome.distinct(1))
  qed
  have plain: "plain demo_user_capitals"
    using capitals_uuid by (intro uuid_plain) (simp add: assert_uuid_def split: if_splits)
  have other: "\<not> starts_with (refresh_key demo_user_id ''j'') (refresh_prefix demo_user_capitals)"
    unfolding demo_user_id_def demo_user_capitals_def by code_simp
  have ended: "wp (revoke_all_sessions mem_env 5 demo_user_capitals) (\<lambda>_ w. \<not> locked_out mem_env demo_user_id 5 w) E w"
    if w: "sw_tokens w = []" "sw_cache w = [(refresh_key demo_user_id ''j'', ''{}'', None)]" for w :: "mem platform" and E
  proof -
    obtain r where run: "revoke_all_sessions mem_env 5 demo_user_capitals w = (Return (), w\<lparr>sw_cache := r\<rparr>)"
      and m: "\<forall>u\<ge>5. \<forall>k. marked mem_view r u k = (\<not> starts_with k (refresh_prefix demo_user_capitals) \<and>
        marked mem_view (sw_cache w) u k)"
      by (rule revoke_all_rowless [OF mem_env_ok plain w(1)])
    have "\<not> locked_out mem_env demo_user_id 5 (w\<lparr>sw_cache := r\<rparr>)"
      by (rule kept) (use m w other in \<open>simp_all add: marked_def mem_live_Cons\<close>)
    with run show ?thesis by (simp add: wp_def)
  qed
  have tokens: "pe_tokens mem_platform = mem_env" by simp
  have "demo_user_capitals \<noteq> ''boss''" unfolding demo_user_capitals_def by simp
  then show ?thesis
    by (simp add: with_uuid_def capitals_uuid user_remove_def user_ensure_exists_def wp_simps
        service_wps [OF mem_services_ready] marker_only_def one_admin_def empty_platform_def del: mem_platform_sel)
      (simp only: tokens, rule ended, simp_all)
qed

section \<open>Lost privileges end sessions\<close>

text \<open>
  C19: An administrative edit that answers after changing a role or turning an account off, and a removal that answers,
  have ended every session of the account, when the request names it in lower case as the tokens do: no refresh token
  issued to it is accepted from that instant on, although the access tokens it still holds name the old role until they
  expire. (An identifier in capitals changes the account as well, but the markers in Redis are looked for under it and
  not found, so that a session known to Redis alone lives on: \<open>capitals_leave_marker\<close> below.)
\<close>

theorem privilege_loss_ends_sessions:
  assumes "services_ready env v" and "env_ok (pe_tokens env) v'" and "uuid_value i = i"
    and "user_endpoint env now op w = (Return (), w')"
    and "(\<exists>actor dto actor_role target. op = EditUser actor actor_role i dto \<and>
        List.find (\<lambda>u. us_id u = i) (db_users w) = Some target \<and>
        (changes_role dto target \<or> xu_active dto = Some False)) \<or>
      (\<exists>actor. op = RemoveUser actor i)"
  shows "locked_out (pe_tokens env) i now w'"
proof -
  have "wp (user_endpoint env now op) (\<lambda>_ w'. locked_out (pe_tokens env) i now w') (\<lambda>_ _. True) w"
    using assms(3,5)
    by (auto simp: user_remove_def user_ensure_exists_def admin_update_user_def wp_simps service_wps [OF assms(1)]
        split: option.split intro!: wp_with_uuid wp_revoke_all [OF assms(2)] uuid_plain)
  with assms(4) show ?thesis by (simp add: wp_def)
qed

theorem privilege_loss_ends_sessions_witness:
  "locked_out mem_env demo_user_id 5
     (snd (user_endpoint mem_platform 5 (EditUser ''boss'' RoleSuperadmin demo_user_id demote) one_admin))"
proof -
  let ?run = "user_endpoint mem_platform 5 (EditUser ''boss'' RoleSuperadmin demo_user_id demote) one_admin"
  have "env_ok (pe_tokens mem_platform) mem_view" by (simp add: mem_env_ok)
  moreover have "?run = (Return (), snd ?run)"
    using wp_demotion by (cases ?run) (auto simp: wp_def split: outcome.splits)
  ultimately have "locked_out (pe_tokens mem_platform) demo_user_id 5 (snd ?run)"
    by (rule privilege_loss_ends_sessions [OF mem_services_ready _ demo_user_lower])
      (simp add: one_admin_def changes_role_def demote_def)
  then show ?thesis by simp
qed

end
