(* ===== verification/Auth.thy ===== *)
theory Auth
  imports Users
begin

text \<open>
  Authentication (\<open>modules/auth\<close>): the request classes, \<open>AuthService\<close>, the mailer, the strategies and guards of
  Passport, and the controller with its refresh cookie. Argon2, the random bytes and the serialisation of query
  parameters are parameters; a mail is appended to an outbox, a \<open>Set-Cookie\<close> header to the response.
\<close>

section \<open>Requests\<close>

text \<open>\<open>PASSWORD_PATTERN\<close>; the dot of the pattern matches no line terminator.\<close>

definition password_text :: "string \<Rightarrow> bool" where
  "password_text s \<longleftrightarrow> (let code = (\<lambda>c. of_char c :: nat)
     in list_ex (\<lambda>c. 97 \<le> code c \<and> code c \<le> 122) s \<and> list_ex (\<lambda>c. 65 \<le> code c \<and> code c \<le> 90) s \<and>
        list_ex is_digit s \<and> list_all (\<lambda>c. code c \<noteq> 10 \<and> code c \<noteq> 13) s)"

definition new_password_ok :: "string \<Rightarrow> bool" where
  "new_password_ok p \<longleftrightarrow> 8 \<le> length p \<and> length p \<le> 128 \<and> password_text p"

definition email_ok :: "validators \<Rightarrow> string \<Rightarrow> bool" where
  "email_ok vd e \<longleftrightarrow> to_lower (trim e) = e \<and> vd_email vd e"

record register_dto =
  rd_name :: string
  rd_email :: string
  rd_password :: string
  rd_phone :: "string option"

definition register_dto_ok :: "validators \<Rightarrow> register_dto \<Rightarrow> bool" where
  "register_dto_ok vd d \<longleftrightarrow> filled 160 (rd_name d) \<and> email_ok vd (rd_email d) \<and> length (rd_email d) \<le> 320 \<and>
     new_password_ok (rd_password d) \<and> opt_ok (\<lambda>p. trim p = p \<and> phone_text p) (rd_phone d)"

record reset_dto =
  rt_token :: string
  rt_password :: string

definition reset_dto_ok :: "reset_dto \<Rightarrow> bool" where
  "reset_dto_ok d \<longleftrightarrow> trim (rt_token d) = rt_token d \<and> rt_token d \<noteq> [] \<and> new_password_ok (rt_password d)"

section \<open>State and parameters\<close>

datatype mail = Welcome string string | PasswordReset string string string nat

record cookie_options =
  ck_http_only :: bool
  ck_secure :: bool
  ck_same_site :: string
  ck_path :: string
  ck_max_age :: "int option"

datatype cookie_change = SetCookie string string cookie_options | ClearCookie string cookie_options

record 'r auth_world = "'r platform" +
  aw_outbox :: "mail list"
  aw_dummy_hash :: "string option"
  aw_cookies :: "cookie_change list"

type_synonym ('r, 'z, 'a) auth_prog = "(('r, 'z) auth_world_scheme, exn, 'a) prog"

record 'r auth_env =
  ax_platform :: "'r platform_env"
  ax_hash :: "nat \<Rightarrow> string \<Rightarrow> string"
  ax_verify :: "string \<Rightarrow> string \<Rightarrow> bool"
  ax_random_token :: "nat \<Rightarrow> string"
  ax_query_string :: "(string \<times> string) list \<Rightarrow> string"
  ax_frontend_url :: string
  ax_development :: bool
  ax_google_enabled :: bool

abbreviation ax_tokens :: "'r auth_env \<Rightarrow> 'r token_env" where
  "ax_tokens env \<equiv> pe_tokens (ax_platform env)"

abbreviation ax_users :: "'r auth_env \<Rightarrow> user_row table" where
  "ax_users env \<equiv> pe_users (ax_platform env)"

text \<open>Fresh randomness: the salt of a hash, the bytes of a token.\<close>

definition draw :: "(nat \<Rightarrow> 'a) \<Rightarrow> ('r, 'z, 'a) session_prog" where
  "draw f = (\<lambda>w. (Return (f (sw_uuids w)), w\<lparr>sw_uuids := Suc (sw_uuids w)\<rparr>))"

definition argon2_hash :: "'r auth_env \<Rightarrow> string \<Rightarrow> ('r, 'z, string) session_prog" where
  "argon2_hash env password = draw (\<lambda>n. ax_hash env n password)"

definition send_mail :: "mail \<Rightarrow> ('r, 'z, unit) auth_prog" where
  "send_mail m = (\<lambda>w. (Return (), w\<lparr>aw_outbox := aw_outbox w @ [m]\<rparr>))"

definition reset_url :: "'r auth_env \<Rightarrow> string \<Rightarrow> string" where
  "reset_url env token = ax_frontend_url env @ ''/reset-password?token='' @ pe_encode_uri (ax_platform env) token"

section \<open>AuthService\<close>

record public_user =
  pu_id :: string
  pu_email :: string
  pu_name :: string
  pu_role :: user_role
  pu_phone :: "string option"
  pu_avatar_url :: "string option"
  pu_verified :: bool
  pu_locale :: string
  pu_created_at :: int

definition to_public_user :: "user_row \<Rightarrow> public_user" where
  "to_public_user u =
     \<lparr>pu_id = us_id u, pu_email = us_email u, pu_name = us_name u, pu_role = us_role u, pu_phone = us_phone u,
      pu_avatar_url = us_avatar_url u, pu_verified = us_verified u, pu_locale = us_locale u,
      pu_created_at = us_created_at u\<rparr>"

definition to_subject :: "user_row \<Rightarrow> token_subject" where
  "to_subject u = \<lparr>ts_id = us_id u, ts_email = us_email u, ts_name = us_name u, ts_role = us_role u\<rparr>"

record auth_result =
  ar_user :: public_user
  ar_tokens :: issued_tokens

definition find_user :: "'r auth_env \<Rightarrow> (user_row \<Rightarrow> bool) \<Rightarrow> ('r, 'z, user_row option) platform_prog" where
  "find_user env P = on_users (tb_find (ax_users env) P)"

definition update_user :: "'r auth_env \<Rightarrow> string \<Rightarrow> (user_row \<Rightarrow> user_row) \<Rightarrow> ('r, 'z, user_row) platform_prog" where
  "update_user env i f = on_users (tb_update (ax_users env) (\<lambda>u. us_id u = i) f)"

definition account_disabled :: exn where
  "account_disabled = AppExc (forbidden ''This account has been disabled'' AccountDisabledCode)"

definition invalid_credentials :: exn where
  "invalid_credentials = AppExc (unauthorized ''Incorrect email or password'' InvalidCredentialsCode)"

definition complete_login ::
  "'r auth_env \<Rightarrow> int \<Rightarrow> user_row \<Rightarrow> session_context \<Rightarrow> ('r, 'z, auth_result) platform_prog" where
  "complete_login env now user ctx =
     seq (issue_tokens (ax_tokens env) now (to_subject user) ctx) (\<lambda>tokens.
     seq (catch (seq (update_user env (us_id user) (\<lambda>u. u\<lparr>us_last_login := Some now, us_updated_at := now\<rparr>)) (\<lambda>_. ret ()))
            (\<lambda>_. ret ())) (\<lambda>_.
       ret \<lparr>ar_user = to_public_user user, ar_tokens = tokens\<rparr>))"

definition new_user :: "int \<Rightarrow> string \<Rightarrow> string \<Rightarrow> string \<Rightarrow> string option \<Rightarrow> string option \<Rightarrow> string option \<Rightarrow> bool \<Rightarrow> user_row" where
  "new_user now uuid email name phone avatar hash verified =
     \<lparr>us_id = uuid, us_email = email, us_name = name, us_password_hash = hash, us_phone = phone,
      us_avatar_url = avatar, us_role = RoleUser, us_verified = verified, us_active = True, us_locale = ''en'',
      us_reset_hash = None, us_reset_expires = None, us_last_login = None, us_created_at = now, us_updated_at = now\<rparr>"

definition register :: "'r auth_env \<Rightarrow> int \<Rightarrow> register_dto \<Rightarrow> session_context \<Rightarrow> ('r, 'z, auth_result) auth_prog" where
  "register env now dto ctx =
     seq (find_user env (\<lambda>u. us_email u = rd_email dto)) (\<lambda>existing.
       if existing \<noteq> None
       then throw (AppExc (conflict ''An account with this email already exists'' EmailAlreadyExistsCode
              [str_detail ''email'' ''already registered'' ''unique'']))
       else
     seq (argon2_hash env (rd_password dto)) (\<lambda>hash.
     seq (fresh_uuid (ax_tokens env)) (\<lambda>uuid.
     seq (on_users (tb_create (ax_users env)
            (new_user now uuid (rd_email dto) (rd_name dto) (rd_phone dto) None (Some hash) False))) (\<lambda>user.
     seq (send_mail (Welcome (us_email user) (us_name user))) (\<lambda>_.
       complete_login env now user ctx)))))"

definition dummy_hash :: "'r auth_env \<Rightarrow> ('r, 'z, string) auth_prog" where
  "dummy_hash env = (\<lambda>w. case aw_dummy_hash w of
     Some h \<Rightarrow> (Return h, w)
   | None \<Rightarrow> seq (argon2_hash env ''topchoice-timing-equalizer'') (\<lambda>h w. (Return h, w\<lparr>aw_dummy_hash := Some h\<rparr>)) w)"

text \<open>\<open>user?.passwordHash ?? dummy\<close> takes an empty hash, which \<open>!user.passwordHash\<close> then refuses.\<close>

definition validate_credentials :: "'r auth_env \<Rightarrow> string \<Rightarrow> string \<Rightarrow> ('r, 'z, user_row) auth_prog" where
  "validate_credentials env email password =
     seq (find_user env (\<lambda>u. us_email u = email)) (\<lambda>found.
     seq (case found of
            None \<Rightarrow> dummy_hash env
          | Some u \<Rightarrow> (case us_password_hash u of Some h \<Rightarrow> ret h | None \<Rightarrow> dummy_hash env)) (\<lambda>hash.
       let matches = ax_verify env hash password
       in case found of
            None \<Rightarrow> throw invalid_credentials
          | Some u \<Rightarrow>
              if us_password_hash u \<in> {None, Some []} \<or> \<not> matches then throw invalid_credentials
              else if \<not> us_active u then throw account_disabled
              else ret u))"

definition refresh_session ::
  "'r auth_env \<Rightarrow> int \<Rightarrow> string \<Rightarrow> session_context \<Rightarrow> ('r, 'z, auth_result) platform_prog" where
  "refresh_session env now token ctx =
     seq (verify_refresh_token (ax_tokens env) now token) (\<lambda>payload.
     seq (find_user env (\<lambda>u. us_id u = jc_sub payload)) (\<lambda>found.
       case found of
         None \<Rightarrow> throw (AppExc (unauthorized ''Session no longer exists'' InvalidTokenCode))
       | Some user \<Rightarrow>
           if \<not> us_active user then throw account_disabled
           else seq (rotate_tokens (ax_tokens env) now (to_subject user) payload ctx) (\<lambda>tokens.
             ret \<lparr>ar_user = to_public_user user, ar_tokens = tokens\<rparr>)))"

definition logout ::
  "'r auth_env \<Rightarrow> int \<Rightarrow> authenticated_user option \<Rightarrow> string option \<Rightarrow> ('r, 'z, unit) session_prog" where
  "logout env now who refresh_token =
     seq (case refresh_token of
            None \<Rightarrow> ret ()
          | Some token \<Rightarrow>
              if token = [] then ret ()
              else seq (catch (seq (verify_refresh_token (ax_tokens env) now token) (\<lambda>p. ret (Some p))) (\<lambda>_. ret None))
                (\<lambda>payload.
                  case payload of
                    None \<Rightarrow> ret ()
                  | Some p \<Rightarrow> revoke_refresh_jti (ax_tokens env) now (jc_sub p) (jc_jti p) (jp_exp p) None)) (\<lambda>_.
       case who of
         None \<Rightarrow> ret ()
       | Some u \<Rightarrow> revoke_access_jti (ax_tokens env) now (au_jti u)
                     (now div 1000 + cf_access_ttl (te_config (ax_tokens env))))"

definition me_not_found :: exn where
  "me_not_found = AppExc (not_found ''User not found'' UserNotFoundCode)"

definition auth_me :: "'r auth_env \<Rightarrow> string \<Rightarrow> ('r, 'z, public_user) platform_prog" where
  "auth_me env i =
     seq (find_user env (\<lambda>u. us_id u = i)) (\<lambda>found.
       case found of None \<Rightarrow> throw me_not_found | Some u \<Rightarrow> ret (to_public_user u))"

definition reset_token_ttl_minutes :: nat where
  "reset_token_ttl_minutes = 60"

definition forgot_password :: "'r auth_env \<Rightarrow> int \<Rightarrow> string \<Rightarrow> ('r, 'z, unit) auth_prog" where
  "forgot_password env now email =
     seq (find_user env (\<lambda>u. us_email u = email)) (\<lambda>found.
       case found of
         None \<Rightarrow> ret ()
       | Some user \<Rightarrow>
           if \<not> us_active user then ret ()
           else
             seq (draw (ax_random_token env)) (\<lambda>token.
             seq (update_user env (us_id user) (\<lambda>u. u\<lparr>us_reset_hash := Some (te_sha256 (ax_tokens env) token),
                    us_reset_expires := Some (seconds_from_now (int reset_token_ttl_minutes * 60) now),
                    us_updated_at := now\<rparr>)) (\<lambda>_.
               send_mail (PasswordReset (us_email user) (us_name user) (reset_url env token) reset_token_ttl_minutes))))"

definition reset_invalid :: exn where
  "reset_invalid = AppExc (bad_request ''This reset link is invalid or has expired'' PasswordResetInvalidCode [])"

definition reset_password :: "'r auth_env \<Rightarrow> int \<Rightarrow> reset_dto \<Rightarrow> ('r, 'z, unit) platform_prog" where
  "reset_password env now dto =
     seq (find_user env (\<lambda>u. us_reset_hash u = Some (te_sha256 (ax_tokens env) (rt_token dto)) \<and>
            (case us_reset_expires u of Some t \<Rightarrow> now < t | None \<Rightarrow> False))) (\<lambda>found.
       case found of
         None \<Rightarrow> throw reset_invalid
       | Some user \<Rightarrow>
           seq (argon2_hash env (rt_password dto)) (\<lambda>hash.
           seq (update_user env (us_id user) (\<lambda>u. u\<lparr>us_password_hash := Some hash, us_reset_hash := None,
                  us_reset_expires := None, us_updated_at := now\<rparr>)) (\<lambda>_.
             revoke_all_sessions (ax_tokens env) now (us_id user))))"

definition change_password ::
  "'r auth_env \<Rightarrow> int \<Rightarrow> string \<Rightarrow> string \<Rightarrow> string \<Rightarrow> ('r, 'z, unit) platform_prog" where
  "change_password env now i current new =
     seq (find_user env (\<lambda>u. us_id u = i)) (\<lambda>found.
       case found of
         None \<Rightarrow> throw me_not_found
       | Some user \<Rightarrow>
           (case us_password_hash user of
              None \<Rightarrow> throw (AppExc (bad_request ''This account signs in with Google and has no password set''
                        InvalidCredentialsCode []))
            | Some h \<Rightarrow>
                if h = [] then throw (AppExc (bad_request ''This account signs in with Google and has no password set''
                        InvalidCredentialsCode []))
                else if \<not> ax_verify env h current
                then throw (AppExc (unauthorized ''Current password is incorrect'' InvalidCredentialsCode))
                else
                  seq (argon2_hash env new) (\<lambda>hash.
                  seq (update_user env i (\<lambda>u. u\<lparr>us_password_hash := Some hash, us_updated_at := now\<rparr>)) (\<lambda>_.
                    revoke_all_sessions (ax_tokens env) now i))))"

record google_profile =
  gg_account_id :: string
  gg_email :: string
  gg_name :: string
  gg_avatar_url :: "string option"
  gg_access_token :: "string option"
  gg_refresh_token :: "string option"

definition link_google :: "'r auth_env \<Rightarrow> int \<Rightarrow> google_profile \<Rightarrow> ('r, 'z, user_row) platform_prog" where
  "link_google env now g = transaction (
     seq (find_user env (\<lambda>u. us_email u = gg_email g)) (\<lambda>existing.
     seq (case existing of
            Some u \<Rightarrow> ret u
          | None \<Rightarrow>
              seq (fresh_uuid (ax_tokens env)) (\<lambda>uuid.
                on_users (tb_create (ax_users env)
                  (new_user now uuid (gg_email g) (gg_name g) None (gg_avatar_url g) None True)))) (\<lambda>record.
     seq (on_accounts (tb_create (pe_accounts (ax_platform env))
            \<lparr>ac_user_id = us_id record, ac_provider = ''google'', ac_provider_id = gg_account_id g,
             ac_access_token = gg_access_token g, ac_refresh_token = gg_refresh_token g\<rparr>)) (\<lambda>_.
       case existing of
         Some u \<Rightarrow> if \<not> us_verified u
                   then update_user env (us_id u) (\<lambda>u. u\<lparr>us_verified := True, us_updated_at := now\<rparr>)
                   else ret record
       | None \<Rightarrow> ret record))))"

definition validate_google_user ::
  "'r auth_env \<Rightarrow> int \<Rightarrow> google_profile \<Rightarrow> session_context \<Rightarrow> ('r, 'z, auth_result) platform_prog" where
  "validate_google_user env now g ctx =
     seq (on_accounts (tb_find (pe_accounts (ax_platform env))
            (\<lambda>a. ac_provider a = ''google'' \<and> ac_provider_id a = gg_account_id g))) (\<lambda>account.
     seq (case account of
            None \<Rightarrow> ret None
          | Some a \<Rightarrow> find_user env (\<lambda>u. us_id u = ac_user_id a)) (\<lambda>linked.
       case linked of
         Some user \<Rightarrow>
           if \<not> us_active user then throw account_disabled else complete_login env now user ctx
       | None \<Rightarrow>
           seq (link_google env now g) (\<lambda>user.
             if \<not> us_active user then throw account_disabled else complete_login env now user ctx)))"

end
