(* ===== verification/Auth_Http.thy ===== *)
theory Auth_Http
  imports Auth
begin

text \<open>
  Authentication at the edge: Passport's strategies (\<open>modules/auth/strategies\<close>), the guards (\<open>modules/auth/guards\<close>)
  that every route passes, and the controller (\<open>auth.controller.ts\<close>) with its cookie.
\<close>

section \<open>The JWT guard\<close>

text \<open>
  What Passport hands to \<open>handleRequest\<close>: a principal, an information message (no token, or the library's reason to
  refuse it), or an error of the strategy.
\<close>

datatype passport_result = Principal authenticated_user | NoPrincipal string | StrategyError exn

definition jwt_validate :: "'r token_env \<Rightarrow> int \<Rightarrow> jwt_payload \<Rightarrow> ('r, 'z, authenticated_user) session_prog" where
  "jwt_validate env now payload =
     (if jc_sub payload = [] \<or> jc_jti payload = []
      then throw (AppExc (unauthorized ''Malformed access token'' InvalidTokenCode))
      else
        seq (on_cache (cache_exists (te_redis env) now (deny_key (jc_jti payload)))) (\<lambda>denied.
          if denied then throw (AppExc (unauthorized ''Session has been revoked'' InvalidTokenCode))
          else ret (authenticated_user_from_payload payload)))"

definition passport_jwt :: "'r token_env \<Rightarrow> int \<Rightarrow> string option \<Rightarrow> ('r, 'z, passport_result) session_prog" where
  "passport_jwt env now bearer =
     (case bearer of
        None \<Rightarrow> ret (NoPrincipal ''No auth token'')
      | Some token \<Rightarrow>
          (case jw_verify (te_jwt env) now (cf_access_secret (te_config env)) (cf_issuer (te_config env))
                  (cf_audience (te_config env)) token of
             Inl message \<Rightarrow> ret (NoPrincipal message)
           | Inr payload \<Rightarrow>
               catch (seq (jwt_validate env now payload) (\<lambda>u. ret (Principal u))) (\<lambda>e. ret (StrategyError e))))"

text \<open>An error that is not an \<open>Error\<close> is replaced by the framework's 401.\<close>

definition is_error :: "exn \<Rightarrow> bool" where
  "is_error e = (case e of Thrown v \<Rightarrow> js_class_of v = Some ErrorObject | _ \<Rightarrow> True)"

definition unauthorized_exception :: exn where
  "unauthorized_exception = HttpExc 401 (JObj PlainObject
     [(''message'', JStr ''Unauthorized''), (''statusCode'', JNum (Fin 401))]) ''Unauthorized''"

definition jwt_handle_request :: "bool \<Rightarrow> passport_result \<Rightarrow> ('w, exn, authenticated_user option) prog" where
  "jwt_handle_request is_public r =
     (if is_public then ret (case r of Principal u \<Rightarrow> Some u | _ \<Rightarrow> None)
      else case r of
             StrategyError e \<Rightarrow> throw (if is_error e then e else unauthorized_exception)
           | NoPrincipal reason \<Rightarrow>
               (let expired = js_includes (to_lower reason) ''expired''
                in throw (AppExc (unauthorized
                     (if expired then ''Access token has expired'' else ''Authentication required'')
                     (if expired then TokenExpiredCode else UnauthorizedCode))))
           | Principal u \<Rightarrow> ret (Some u))"

definition jwt_guard ::
  "'r token_env \<Rightarrow> int \<Rightarrow> bool \<Rightarrow> string option \<Rightarrow> ('r, 'z, authenticated_user option) session_prog" where
  "jwt_guard env now is_public bearer = seq (passport_jwt env now bearer) (jwt_handle_request is_public)"

section \<open>The roles guard\<close>

definition roles_guard :: "user_role list \<Rightarrow> authenticated_user option \<Rightarrow> ('w, exn, unit) prog" where
  "roles_guard required user =
     (if required = [] then ret ()
      else case user of
             None \<Rightarrow> throw (AppExc (unauthorized ''Authentication required'' UnauthorizedCode))
           | Some u \<Rightarrow>
               if au_role u = Some RoleSuperadmin \<or> au_role u \<in> Some ` set required then ret ()
               else throw (AppExc (forbidden
                      (''This action requires one of: '' @ join '', '' (map role_string required)) InsufficientRoleCode)))"

section \<open>A route\<close>

text \<open>
  \<open>ThrottlerGuard\<close> (\<open>app.module.ts\<close>) and the global validation pipe (\<open>main.ts\<close>): whether the caller's window is used up
  and which constraints the body and the query violate are what the two libraries find out. A route: the three global
  guards, that of the root module first, then the pipe, then the handler with the principal.
\<close>

definition throttled_exception :: exn where
  "throttled_exception = HttpExc 429 (JStr ''Too many requests, slow down'') ''Too many requests, slow down''"

definition throttler_guard :: "bool \<Rightarrow> ('w, exn, unit) prog" where
  "throttler_guard throttled = (if throttled then throw throttled_exception else ret ())"

definition validation_pipe :: "validation_error list \<Rightarrow> ('w, exn, unit) prog" where
  "validation_pipe violations = (if violations = [] then ret () else throw (AppExc (validation_exception violations)))"

definition route ::
  "'r token_env \<Rightarrow> int \<Rightarrow> bool \<Rightarrow> bool \<Rightarrow> user_role list \<Rightarrow> string option \<Rightarrow> validation_error list \<Rightarrow>
   (authenticated_user option \<Rightarrow> ('r, 'z, 'a) session_prog) \<Rightarrow> ('r, 'z, 'a) session_prog" where
  "route env now throttled is_public required bearer violations handler =
     seq (throttler_guard throttled) (\<lambda>_.
     seq (jwt_guard env now is_public bearer) (\<lambda>user.
     seq (roles_guard required user) (\<lambda>_.
     seq (validation_pipe violations) (\<lambda>_. handler user))))"

section \<open>The local and the Google strategy\<close>

definition local_validate :: "'r auth_env \<Rightarrow> string \<Rightarrow> string \<Rightarrow> ('r, 'z, user_row) auth_prog" where
  "local_validate env email password = validate_credentials env (to_lower (trim email)) password"

text \<open>Passport answers a body without one of the fields with no principal.\<close>

definition local_guard :: "'r auth_env \<Rightarrow> string \<Rightarrow> string \<Rightarrow> ('r, 'z, user_row) auth_prog" where
  "local_guard env email password =
     (if email = [] \<or> password = [] then throw invalid_credentials
      else catch (local_validate env email password) (\<lambda>e. throw (if is_error e then e else unauthorized_exception)))"

record google_raw =
  gr_id :: string
  gr_emails :: "string list"
  gr_display_name :: string
  gr_photos :: "string list"

definition google_validate :: "string \<Rightarrow> string \<Rightarrow> google_raw \<Rightarrow> string + google_profile" where
  "google_validate access_token refresh_token p =
     (let email = (case gr_emails p of e # _ \<Rightarrow> e | [] \<Rightarrow> [])
      in if email = [] then Inl ''Google account did not return an email address''
         else Inr \<lparr>gg_account_id = gr_id p, gg_email = to_lower (trim email),
           gg_name = (if gr_display_name p \<noteq> [] then gr_display_name p else hd (split_on CHR ''@'' email)),
           gg_avatar_url = (case gr_photos p of v # _ \<Rightarrow> Some v | [] \<Rightarrow> None),
           gg_access_token = Some access_token, gg_refresh_token = Some refresh_token\<rparr>)"

definition google_guard :: "'r auth_env \<Rightarrow> (string + google_profile) option \<Rightarrow> ('w, exn, google_profile) prog" where
  "google_guard env r =
     (if \<not> ax_google_enabled env
      then throw (AppExc (service_unavailable ''Google sign-in is not configured on this deployment'' OauthNotConfiguredCode))
      else case r of
             Some (Inr g) \<Rightarrow> ret g
           | _ \<Rightarrow> throw (AppExc (unauthorized ''Google sign-in failed or was cancelled'' OauthFailedCode)))"

section \<open>The controller\<close>

definition refresh_token_cookie :: string where
  "refresh_token_cookie = ''topchoice_rt''"

text \<open>A maximum age of 0 is left out.\<close>

definition cookie_options_of :: "'r auth_env \<Rightarrow> int option \<Rightarrow> cookie_options" where
  "cookie_options_of env max_age =
     \<lparr>ck_http_only = True, ck_secure = (\<not> ax_development env \<or> starts_with (ax_frontend_url env) ''https''),
      ck_same_site = ''lax'', ck_path = ''/api/v1/auth'',
      ck_max_age = (case max_age of Some s \<Rightarrow> if s \<noteq> 0 then Some (s * 1000) else None | None \<Rightarrow> None)\<rparr>"

definition respond_cookie :: "cookie_change \<Rightarrow> ('r, 'z, unit) auth_prog" where
  "respond_cookie c = (\<lambda>w. (Return (), w\<lparr>aw_cookies := aw_cookies w @ [c]\<rparr>))"

definition set_refresh_cookie :: "'r auth_env \<Rightarrow> string \<Rightarrow> int \<Rightarrow> ('r, 'z, unit) auth_prog" where
  "set_refresh_cookie env token max_age =
     respond_cookie (SetCookie refresh_token_cookie token (cookie_options_of env (Some max_age)))"

definition clear_refresh_cookie :: "'r auth_env \<Rightarrow> ('r, 'z, unit) auth_prog" where
  "clear_refresh_cookie env = respond_cookie (ClearCookie refresh_token_cookie (cookie_options_of env None))"

record auth_body =
  ab_user :: public_user
  ab_access_token :: string
  ab_expires_in :: int

definition respond_with_session :: "'r auth_env \<Rightarrow> auth_result \<Rightarrow> ('r, 'z, auth_body) auth_prog" where
  "respond_with_session env result =
     seq (set_refresh_cookie env (it_refresh_token (ar_tokens result)) (it_refresh_expires_in (ar_tokens result))) (\<lambda>_.
       ret \<lparr>ab_user = ar_user result, ab_access_token = it_access_token (ar_tokens result),
            ab_expires_in = it_expires_in (ar_tokens result)\<rparr>)"

definition register_endpoint ::
  "'r auth_env \<Rightarrow> int \<Rightarrow> register_dto \<Rightarrow> session_context \<Rightarrow> ('r, 'z, auth_body) auth_prog" where
  "register_endpoint env now dto ctx = seq (register env now dto ctx) (respond_with_session env)"

definition login_endpoint ::
  "'r auth_env \<Rightarrow> int \<Rightarrow> string \<Rightarrow> string \<Rightarrow> session_context \<Rightarrow> ('r, 'z, auth_body) auth_prog" where
  "login_endpoint env now email password ctx =
     seq (local_guard env email password) (\<lambda>user.
     seq (complete_login env now user ctx) (respond_with_session env))"

definition refresh_endpoint ::
  "'r auth_env \<Rightarrow> int \<Rightarrow> string option \<Rightarrow> session_context \<Rightarrow> ('r, 'z, auth_body) auth_prog" where
  "refresh_endpoint env now cookie ctx =
     (let token = (case cookie of Some t \<Rightarrow> t | None \<Rightarrow> [])
      in if token = []
         then throw (AppExc (unauthorized ''No refresh token was supplied'' RefreshTokenMissingCode))
         else
           catch (seq (refresh_session env now token ctx) (respond_with_session env))
             (\<lambda>e. seq (clear_refresh_cookie env) (\<lambda>_. throw e)))"

definition logout_endpoint ::
  "'r auth_env \<Rightarrow> int \<Rightarrow> authenticated_user option \<Rightarrow> string option \<Rightarrow> ('r, 'z, unit) auth_prog" where
  "logout_endpoint env now who cookie =
     seq (logout env now who cookie) (\<lambda>_. clear_refresh_cookie env)"

definition change_password_endpoint ::
  "'r auth_env \<Rightarrow> int \<Rightarrow> string \<Rightarrow> string \<Rightarrow> string \<Rightarrow> ('r, 'z, unit) auth_prog" where
  "change_password_endpoint env now i current new =
     seq (change_password env now i current new) (\<lambda>_. clear_refresh_cookie env)"

text \<open>Both outcomes of the callback are redirects.\<close>

definition google_callback ::
  "'r auth_env \<Rightarrow> int \<Rightarrow> google_profile \<Rightarrow> session_context \<Rightarrow> ('r, 'z, string) auth_prog" where
  "google_callback env now g ctx =
     catch
       (seq (validate_google_user env now g ctx) (\<lambda>result.
        seq (set_refresh_cookie env (it_refresh_token (ar_tokens result)) (it_refresh_expires_in (ar_tokens result))) (\<lambda>_.
          ret (ax_frontend_url env @ ''/auth/callback#'' @ ax_query_string env
            [(''accessToken'', it_access_token (ar_tokens result)),
             (''expiresIn'', show_int (it_expires_in (ar_tokens result)))]))))
       (\<lambda>e. ret (ax_frontend_url env @ ''/login?error='' @ pe_encode_uri (ax_platform env)
          (case e of AppExc a \<Rightarrow> ae_code a | _ \<Rightarrow> code_string OauthFailedCode)))"

end
