(* ===== verification/Auth_Laws.thy ===== *)
theory Auth_Laws
  imports Auth_Http
begin

text \<open>
  What authentication promises: who reaches a handler, what a logout, a change of password and a reset end, and
  that an account which is off stays out. The operations of the token service enter through one frame: they touch
  the sessions and nothing else (\<open>session_only\<close>), so the tables of users and accounts come through them unchanged.
\<close>

section \<open>Programs that touch the sessions only\<close>

definition same_data :: "('r, 'z) session_world_scheme \<Rightarrow> ('r, 'z) session_world_scheme \<Rightarrow> bool" where
  "same_data w w' \<longleftrightarrow> (\<exists>r ts n. w' = w\<lparr>sw_cache := r, sw_tokens := ts, sw_uuids := n\<rparr>)"

lemma same_data_refl: "same_data w w"
  unfolding same_data_def
  by (rule exI [of _ "sw_cache w"], rule exI [of _ "sw_tokens w"], rule exI [of _ "sw_uuids w"]) simp

lemma same_data_trans:
  assumes "same_data a b" and "same_data b c"
  shows "same_data a c"
proof -
  obtain r ts n r' ts' n' where b: "b = a\<lparr>sw_cache := r, sw_tokens := ts, sw_uuids := n\<rparr>"
    and c: "c = b\<lparr>sw_cache := r', sw_tokens := ts', sw_uuids := n'\<rparr>"
    using assms unfolding same_data_def by blast
  have "c = a\<lparr>sw_cache := r', sw_tokens := ts', sw_uuids := n'\<rparr>" by (simp add: b c)
  then show ?thesis unfolding same_data_def by blast
qed

lemma same_data_step:
  "same_data w (w\<lparr>sw_cache := r\<rparr>)" "same_data w (w\<lparr>sw_tokens := ts\<rparr>)" "same_data w (w\<lparr>sw_uuids := n\<rparr>)"
  unfolding same_data_def
  by (rule exI [of _ r], rule exI [of _ "sw_tokens w"], rule exI [of _ "sw_uuids w"], simp)
    (rule exI [of _ "sw_cache w"], rule exI [of _ ts], rule exI [of _ "sw_uuids w"], simp,
     rule exI [of _ "sw_cache w"], rule exI [of _ "sw_tokens w"], rule exI [of _ n], simp)

lemma same_data_sel:
  assumes "same_data w w'"
  shows "db_users w' = db_users w" and "db_accounts w' = db_accounts w"
  using assms by (auto simp: same_data_def)

definition session_only :: "('r, 'z, 'a) session_prog \<Rightarrow> bool" where
  "session_only m \<longleftrightarrow> (\<forall>w. fst (m w) \<noteq> Diverge \<and> same_data w (snd (m w)))"

named_theorems session_intros \<open>programs that touch the sessions only\<close>

lemma wp_session:
  assumes "session_only m" and "\<And>a w'. same_data w w' \<Longrightarrow> Q a w'" and "\<And>e w'. same_data w w' \<Longrightarrow> E e w'"
  shows "wp m Q E w"
  using assms(1)[unfolded session_only_def, THEN spec, of w] assms(2,3)
  by (auto simp: wp_def split: prod.split outcome.split)

lemma session_onlyI:
  assumes "\<And>w. wp m (\<lambda>_. same_data w) (\<lambda>_. same_data w) w"
  shows "session_only m"
  unfolding session_only_def
proof
  fix w
  show "fst (m w) \<noteq> Diverge \<and> same_data w (snd (m w))"
    using assms [of w] by (cases "m w") (auto simp: wp_def split: outcome.splits)
qed

lemma session_ret [session_intros]: "session_only (ret a)" "session_only (throw e)"
  by (simp_all add: session_only_def same_data_refl)

lemma session_seq [session_intros]:
  assumes "session_only m" and "\<And>a. session_only (f a)"
  shows "session_only (seq m f)"
proof (rule session_onlyI, unfold wp_seq, rule wp_session [OF assms(1)])
  show "wp (f a) (\<lambda>_. same_data w) (\<lambda>_. same_data w) w'" if "same_data w w'" for a w w'
    by (rule wp_session [OF assms(2)]) (rule same_data_trans [OF that], assumption)+
qed

lemma session_catch [session_intros]:
  assumes "session_only m" and "\<And>e. session_only (h e)"
  shows "session_only (catch m h)"
proof (rule session_onlyI, unfold wp_catch, rule wp_session [OF assms(1)])
  show "wp (h e) (\<lambda>_. same_data w) (\<lambda>_. same_data w) w'" if "same_data w w'" for e w w'
    by (rule wp_session [OF assms(2)]) (rule same_data_trans [OF that], assumption)+
qed

lemma session_if [session_intros]: "session_only m \<Longrightarrow> session_only n \<Longrightarrow> session_only (if b then m else n)"
  by simp

lemma session_do_if [session_intros]: "session_only m \<Longrightarrow> session_only (do_if b m)"
  by (simp add: do_if_def session_ret)

lemma session_option [session_intros]:
  "session_only m \<Longrightarrow> (\<And>a. session_only (f a)) \<Longrightarrow> session_only (case x of None \<Rightarrow> m | Some a \<Rightarrow> f a)"
  by (simp split: option.split)

lemma session_sum [session_intros]:
  "(\<And>a. session_only (f a)) \<Longrightarrow> (\<And>a. session_only (g a)) \<Longrightarrow> session_only (case y of Inl a \<Rightarrow> f a | Inr a \<Rightarrow> g a)"
  by (simp split: sum.split)

lemma session_let [session_intros]: "(\<And>a. session_only (f a)) \<Longrightarrow> session_only (let a = z in f a)"
  by (simp add: Let_def)

lemma session_seq_all [session_intros]: "(\<And>x. session_only (f x)) \<Longrightarrow> session_only (seq_all f xs)"
  by (induction xs) (auto intro: session_intros)

lemma session_cache:
  assumes "\<And>r. wp m (\<lambda>_ _. True) (\<lambda>_ _. True) r"
  shows "session_only (on_cache m)"
  unfolding session_only_def
proof
  fix w
  show "fst (on_cache m w) \<noteq> Diverge \<and> same_data w (snd (on_cache m w))"
    using assms [of "sw_cache w"] same_data_step(1)
    by (auto simp: on_cache_eq wp_def split: prod.splits outcome.splits)
qed

lemma session_tokens:
  assumes "\<And>r. wp m (\<lambda>_ _. True) (\<lambda>_ _. True) r"
  shows "session_only (on_tokens m)"
  unfolding session_only_def
proof
  fix w
  show "fst (on_tokens m w) \<noteq> Diverge \<and> same_data w (snd (on_tokens m w))"
    using assms [of "sw_tokens w"] same_data_step(2)
    by (auto simp: on_tokens_eq wp_def split: prod.splits outcome.splits)
qed

lemma session_draw [session_intros]: "session_only (draw f)" "session_only (fresh_uuid env)"
  by (simp_all add: session_only_def draw_def fresh_uuid_def same_data_step)

lemma del_by_pattern_settles:
  assumes "redis_ok rc v" and "0 < n"
  shows "wp (cache_del_by_pattern rc t p n) (\<lambda>_ _. True) (\<lambda>_ _. True) r"
proof -
  have "\<exists>k s'. scan_loop rc t p n ''0'' 0 r = Some (k, s') \<and> keys_become v t r s' (\<lambda>_ k y. if rv_glob v p k then None else y)"
    by (rule scan_loop_terminates [OF assms]) (simp add: redis_pending_start [OF assms(1)])
  then show ?thesis by (auto simp: wp_def cache_del_by_pattern_def)
qed

lemma cache_exists_settles:
  assumes "redis_ok rc v"
  shows "wp (cache_exists rc t k) (\<lambda>_ _. True) (\<lambda>_ _. True) r"
  by (rule cache_exists_law [OF assms, of t k r]) (simp add: wp_eq(1))

text \<open>The operations of the token service, when Redis answers and the table and the library do.\<close>

lemma session_operations:
  assumes redis: "redis_ok (te_redis env) v" and ok: "env_ok env v'"
  shows session_revoke_all: "session_only (revoke_all_sessions env t i)"
    and session_verify: "session_only (verify_refresh_token env t tok)"
    and session_revoke_refresh: "session_only (revoke_refresh_jti env t i jti ex rep)"
    and session_revoke_access: "session_only (revoke_access_jti env t jti ex)"
    and session_issue: "1 \<le> cf_refresh_ttl (te_config env) \<Longrightarrow> session_only (issue_tokens env t user ctx)"
    and session_rotate: "1 \<le> cf_refresh_ttl (te_config env) \<Longrightarrow> session_only (rotate_tokens env t user pl ctx)"
proof -
  note table = env_table [OF ok]
  have mark: "session_only (set_mark env t k x ttl)" if "1 \<le> ttl" for k x ttl
    unfolding set_mark_def by (rule session_cache, rule wp_cache_set [OF redis]) (use that in simp_all)
  have open_rows: "session_only (on_tokens (tb_find_many (te_table env) P))"
    and close: "session_only (on_tokens (tb_update_many (te_table env) P f))"
    and found: "session_only (on_tokens (tb_find (te_table env) P))"
    and added: "session_only (on_tokens (tb_create (te_table env) x))" for P f x
    by (rule session_tokens, simp add: wp_table [OF table])+
  have marked: "session_only (on_cache (cache_exists (te_redis env) t k))" for k
    by (rule session_cache) (rule cache_exists_settles [OF redis])
  have deleted: "session_only (on_cache (cache_del (te_redis env) t ks))"
    and wiped: "session_only (on_cache (cache_del_by_pattern (te_redis env) t p 250))" for ks p
    by (rule session_cache, rule wp_cache_del [OF redis], simp)
      (rule session_cache, rule del_by_pattern_settles [OF redis], simp)
  have decode: "session_only (decode_token env t tok sec)" for sec
    unfolding decode_token_def Let_def by (auto intro!: session_intros split: sum.split)
  show revoke: "session_only (revoke_all_sessions env t i)" for i
    unfolding revoke_all_sessions_def by (intro session_intros wiped open_rows close mark) simp
  show "session_only (verify_refresh_token env t tok)"
    unfolding verify_refresh_token_def is_denied_def is_known_in_database_def
    by (intro session_intros decode marked revoke found)
  have denied: "session_only (do_if (0 < n) (set_mark env t k x n))" for k x n
    by (cases "0 < n") (simp_all add: do_if_def mark session_ret)
  show ended: "session_only (revoke_refresh_jti env t i jti ex rep)" for i jti ex rep
    unfolding revoke_refresh_jti_def Let_def by (intro session_intros deleted close denied)
  show "session_only (revoke_access_jti env t jti ex)"
    unfolding revoke_access_jti_def Let_def by (rule denied)
  show issue: "session_only (issue_tokens env t user ctx)" if "1 \<le> cf_refresh_ttl (te_config env)"
    unfolding issue_tokens_def remember_refresh_token_def Let_def
    by (intro session_intros added mark that)
  show "session_only (rotate_tokens env t user pl ctx)" if "1 \<le> cf_refresh_ttl (te_config env)"
    unfolding rotate_tokens_def Let_def by (intro session_intros issue ended that)
qed

section \<open>A new password takes over\<close>

text \<open>Argon2 as documented: a hash is never empty, and verifies the password it was made of and no other.\<close>

definition argon_ok :: "'r auth_env \<Rightarrow> bool" where
  "argon_ok env \<longleftrightarrow> (\<forall>n p. ax_hash env n p \<noteq> [] \<and> (\<forall>q. ax_verify env (ax_hash env n p) q \<longleftrightarrow> q = p))"

lemma wp_draw [wp_simps]: "wp (draw f) Q E w = Q (f (sw_uuids w)) (w\<lparr>sw_uuids := Suc (sw_uuids w)\<rparr>)"
  by (simp add: wp_def draw_def)

lemma wp_send_mail [wp_simps]: "wp (send_mail m) Q E w = Q () (w\<lparr>aw_outbox := aw_outbox w @ [m]\<rparr>)"
  by (simp add: wp_def send_mail_def)

lemma wp_dummy_hash [wp_simps]:
  "wp (dummy_hash env) Q E w =
     (case aw_dummy_hash w of
        Some h \<Rightarrow> Q h w
      | None \<Rightarrow> (let h = ax_hash env (sw_uuids w) ''topchoice-timing-equalizer''
                in Q h (w\<lparr>sw_uuids := Suc (sw_uuids w), aw_dummy_hash := Some h\<rparr>)))"
  by (simp add: wp_def dummy_hash_def seq_def argon2_hash_def draw_def Let_def split: option.split)

lemma find_updated:
  assumes "\<And>u. Q u \<Longrightarrow> P (f u) = P u"
  shows "List.find P (update_where Q f us) = map_option (\<lambda>u. if Q u then f u else u) (List.find P us)"
  by (induction us) (auto simp: update_where_def assms)

text \<open>What the password of an account decides.\<close>

definition verdict :: "string \<Rightarrow> user_row \<Rightarrow> string \<Rightarrow> (exn, user_row) outcome" where
  "verdict password u q =
     (if q \<noteq> password then Throw invalid_credentials
      else if \<not> us_active u then Throw account_disabled else Return u)"

lemma validate_verdict:
  assumes "table_ok user_clash (ax_users env)" and "argon_ok env"
    and "List.find (\<lambda>u. us_email u = e) (db_users w) = Some u"
    and "us_password_hash u = Some (ax_hash env n p)"
  shows "fst (validate_credentials env e q w) = verdict p u q"
  using assms(2-4)
  by (simp add: validate_credentials_def find_user_def seq_def on_simps table_okD [OF assms(1)] argon_ok_def verdict_def)

definition password_now ::
  "'r auth_env \<Rightarrow> int \<Rightarrow> user_row \<Rightarrow> string \<Rightarrow> ('r, 'z) auth_world_scheme \<Rightarrow> bool" where
  "password_now env now u password w \<longleftrightarrow> locked_out (ax_tokens env) (us_id u) now w \<and>
     (\<exists>u'. us_id u' = us_id u \<and> us_active u' = us_active u \<and>
        (\<forall>q. fst (validate_credentials env (us_email u) q w) = verdict password u' q))"

lemma password_nowI:
  assumes "table_ok user_clash (ax_users env)" and "argon_ok env"
    and "List.find (\<lambda>x. us_email x = us_email u) (db_users w) = Some u'"
    and "us_password_hash u' = Some (ax_hash env n p)" and "us_id u' = us_id u" and "us_active u' = us_active u"
    and "locked_out (ax_tokens env) (us_id u) now w"
  shows "password_now env now u p w"
  unfolding password_now_def using validate_verdict [OF assms(1-4)] assms(5-7) by blast

text \<open>
  C17: When a change of password answers, the account has moved to the new password: the address signs in with it and
  with nothing else, the old password included, an account that is off is still refused, and no refresh token issued
  before is accepted from that instant on.
\<close>

theorem password_change_effective:
  assumes "services_ready (ax_platform env) v" and "env_ok (ax_tokens env) v'" and "argon_ok env"
    and "List.find (\<lambda>x. us_email x = us_email u) (db_users w) = Some u" and "plain (us_id u)"
    and "change_password env now (us_id u) current new w = (Return (), w')"
  shows "password_now env now u new w'"
proof -
  note users = ready_users [OF assms(1)]
  have "wp (change_password env now (us_id u) current new) (\<lambda>_. password_now env now u new) (\<lambda>_ _. True) w"
    unfolding change_password_def find_user_def update_user_def argon2_hash_def
    by (auto simp: wp_simps wp_table [OF users] find_updated assms(4) split: option.split
        intro!: wp_revoke_all [OF assms(2,5)] password_nowI [OF users assms(3)])
  with assms(6) show ?thesis by (simp add: wp_def)
qed

text \<open>
  C18: A password reset is one use of its link: when it answers, the account the link was made for has moved to the new
  password, its sessions are over, and the same link is refused at every later time, whatever password comes with it.
\<close>

theorem reset_link_single_use:
  assumes "services_ready (ax_platform env) v" and "env_ok (ax_tokens env) v'" and "argon_ok env"
    and "List.find (\<lambda>x. us_email x = us_email u) (db_users w) = Some u" and "plain (us_id u)"
    and "us_reset_hash u = Some (te_sha256 (ax_tokens env) (rt_token dto))"
    and "\<forall>x\<in>set (db_users w). us_reset_hash x = us_reset_hash u \<longrightarrow> us_id x = us_id u"
    and "reset_password env now dto w = (Return (), w')"
  shows "password_now env now u (rt_password dto) w' \<and>
    (\<forall>t p. fst (reset_password env t (dto\<lparr>rt_password := p\<rparr>) w') = Throw reset_invalid)"
proof -
  note users = ready_users [OF assms(1)]
  let ?hash = "Some (te_sha256 (ax_tokens env) (rt_token dto))"
  let ?P = "\<lambda>u. us_reset_hash u = ?hash \<and> (case us_reset_expires u of Some t \<Rightarrow> now < t | None \<Rightarrow> False)"
  have refused: "fst (reset_password env t (dto\<lparr>rt_password := p\<rparr>) w'') = Throw reset_invalid"
    if "\<forall>x\<in>set (db_users w''). us_reset_hash x \<noteq> ?hash" for t p and w'' :: "('a, 'b) auth_world_scheme"
    using that by (auto simp: reset_password_def find_user_def seq_def on_simps table_okD [OF users] find_None_iff
        split: option.split dest!: find_SomeD)
  have own: "us_id x = us_id u" if "List.find ?P (db_users w) = Some x" for x
    using that assms(6,7) by (auto dest: find_SomeD)
  have "wp (reset_password env now dto) (\<lambda>_ w'. password_now env now u (rt_password dto) w' \<and>
      (\<forall>x\<in>set (db_users w'). us_reset_hash x \<noteq> ?hash)) (\<lambda>_ _. True) w"
  proof (cases "List.find ?P (db_users w)")
    case None
    then show ?thesis by (simp add: reset_password_def find_user_def wp_simps wp_table [OF users])
  next
    case (Some x)
    from own [OF Some] have x: "us_id x = us_id u" .
    show ?thesis
      unfolding reset_password_def find_user_def update_user_def argon2_hash_def wp_seq wp_on wp_table [OF users] Some
        wp_case_option option.case wp_draw x
      using assms(6,7)
      by (auto simp: wp_simps wp_table [OF users] find_updated assms(4) set_update_where split: option.split
          intro!: wp_revoke_all [OF assms(2,5)] password_nowI [OF users assms(3)])
  qed
  with assms(8) have "password_now env now u (rt_password dto) w'" "\<forall>x\<in>set (db_users w'). us_reset_hash x \<noteq> ?hash"
    by (simp_all add: wp_def)
  with refused show ?thesis by blast
qed

section \<open>What stands before a handler\<close>

text \<open>
  The principal of a request: of a token that verifies with the access secret, that names a user and a session, whose
  session nobody denied, and whose role is asked for (a superadmin's always is).
\<close>

definition admitted ::
  "'r token_env \<Rightarrow> 'r redis_view \<Rightarrow> int \<Rightarrow> user_role list \<Rightarrow> string option \<Rightarrow> 'r \<Rightarrow> authenticated_user option" where
  "admitted env v now required bearer r =
     (case bearer of
        None \<Rightarrow> None
      | Some token \<Rightarrow>
          (case jw_verify (te_jwt env) now (cf_access_secret (te_config env)) (cf_issuer (te_config env))
                  (cf_audience (te_config env)) token of
             Inl _ \<Rightarrow> None
           | Inr p \<Rightarrow>
               if jc_sub p \<noteq> [] \<and> jc_jti p \<noteq> [] \<and> \<not> marked v r now (deny_key (jc_jti p)) \<and>
                  (required = [] \<or> jc_role p = Some RoleSuperadmin \<or> jc_role p \<in> Some ` set required)
               then Some (authenticated_user_from_payload p) else None))"

definition unauthorised :: "exn \<Rightarrow> bool" where
  "unauthorised e = (case e of AppExc a \<Rightarrow> ae_status a \<in> {401, 403} | _ \<Rightarrow> False)"

lemma unauthorised_simps [simp]:
  "unauthorised (AppExc (unauthorized message c))" "unauthorised (AppExc (forbidden message c))"
  by (simp_all add: unauthorised_def unauthorized_def forbidden_def app_exc_def)

lemma guards_passed:
  assumes "env_ok env v"
  shows "\<exists>r. (\<forall>u\<ge>now. \<forall>k. marked v r u k = marked v (sw_cache w) u k) \<and>
    (case admitted env v now required bearer (sw_cache w) of
       Some p \<Rightarrow> seq (jwt_guard env now False bearer) (\<lambda>user. seq (roles_guard required user) (\<lambda>_. handler user)) w =
         handler (Some p) (w\<lparr>sw_cache := r\<rparr>)
     | None \<Rightarrow> \<exists>e. seq (jwt_guard env now False bearer) (\<lambda>user. seq (roles_guard required user) (\<lambda>_. handler user)) w =
         (Throw e, w\<lparr>sw_cache := r\<rparr>) \<and> unauthorised e)"
proof (cases bearer)
  case None
  then show ?thesis
    by (auto simp: admitted_def jwt_guard_def passport_jwt_def jwt_handle_request_def seq_def Let_def
        intro!: exI [of _ "sw_cache w"])
next
  case (Some token)
  show ?thesis
  proof (cases "jw_verify (te_jwt env) now (cf_access_secret (te_config env)) (cf_issuer (te_config env))
      (cf_audience (te_config env)) token")
    case (Inl m)
    with Some show ?thesis
      by (auto simp: admitted_def jwt_guard_def passport_jwt_def jwt_handle_request_def seq_def Let_def
          intro!: exI [of _ "sw_cache w"])
  next
    case (Inr p)
    obtain r where seen: "on_cache (cache_exists (te_redis env) now (deny_key (jc_jti p))) w =
        (Return (marked v (sw_cache w) now (deny_key (jc_jti p))), w\<lparr>sw_cache := r\<rparr>)"
      and same: "\<forall>u\<ge>now. \<forall>k. marked v r u k = marked v (sw_cache w) u k"
      by (rule is_marked_effect [OF assms])
    note eqs = admitted_def jwt_guard_def passport_jwt_def jwt_handle_request_def jwt_validate_def is_error_def
      seq_def catch_def roles_guard_def authenticated_user_from_payload_def
    show ?thesis
    proof (cases "jc_sub p = [] \<or> jc_jti p = []")
      case True
      with Some Inr show ?thesis by (auto simp: eqs intro!: exI [of _ "sw_cache w"])
    next
      case False
      with Some Inr same seen show ?thesis by (auto simp: eqs intro!: exI [of _ r])
    qed
  qed
qed

lemma pipe_passed:
  "seq (validation_pipe violations) (\<lambda>_. m) w =
     (if violations = [] then m w else (Throw (AppExc (validation_exception violations)), w))"
  by (simp add: validation_pipe_def seq_def)

text \<open>
  C3: No handler of a guarded route runs for anyone else: of the requests that reach the route (the middleware has parsed
  the body), it runs exactly for one that is within the rate limit, is admitted, and whose body and query pass
  validation, with that request's principal. Every other request is refused
  with nothing changed but what Redis knows of its own: 429 above the limit, before anything else is looked at; then 401
  or 403 when it is not admitted; then the validation error that lists the violations.
\<close>

theorem handler_behind_guards:
  assumes "env_ok env v"
  shows "\<exists>r. (\<forall>u\<ge>now. \<forall>k. marked v r u k = marked v (sw_cache w) u k) \<and>
    (if throttled
     then route env now throttled False required bearer violations handler w = (Throw throttled_exception, w)
     else case admitted env v now required bearer (sw_cache w) of
       Some p \<Rightarrow> route env now throttled False required bearer violations handler w =
         (if violations = [] then handler (Some p) (w\<lparr>sw_cache := r\<rparr>)
          else (Throw (AppExc (validation_exception violations)), w\<lparr>sw_cache := r\<rparr>))
     | None \<Rightarrow> \<exists>e. route env now throttled False required bearer violations handler w = (Throw e, w\<lparr>sw_cache := r\<rparr>) \<and>
         unauthorised e)"
proof (cases throttled)
  case True
  then show ?thesis by (auto simp: route_def throttler_guard_def seq_def intro!: exI [of _ "sw_cache w"])
next
  case False
  then have "route env now throttled False required bearer violations handler =
      seq (jwt_guard env now False bearer) (\<lambda>user. seq (roles_guard required user) (\<lambda>_.
        seq (validation_pipe violations) (\<lambda>_. handler user)))"
    by (simp add: route_def throttler_guard_def seq_ret)
  with guards_passed [OF assms, of now w bearer required "\<lambda>user. seq (validation_pipe violations) (\<lambda>_. handler user)"] False
  show ?thesis by (simp add: pipe_passed cong: option.case_cong)
qed

theorem handler_behind_guards_witness:
  "\<exists>e. fst (route mem_env 5 False False [RoleAdmin] None [] (\<lambda>_. ret ()) demo_login) = Throw e \<and> unauthorised e"
  using handler_behind_guards [OF mem_env_ok, of 5 demo_login False "[RoleAdmin]" None "[]" "\<lambda>_. ret ()"]
  by (auto simp: admitted_def)

section \<open>Logging out\<close>

lemma revoke_access_effect:
  assumes "env_ok env v"
  obtains r where "revoke_access_jti env t jti ex w = (Return (), w\<lparr>sw_cache := r\<rparr>)"
    "\<forall>u\<ge>t. \<forall>k. marked v r u k = (if k = deny_key jti \<and> 0 < seconds_until_expiry ex t
       then u < t + 1000 * seconds_until_expiry ex t else marked v (sw_cache w) u k)"
proof (cases "0 < seconds_until_expiry ex t")
  case True
  then have "1 \<le> seconds_until_expiry ex t" by simp
  then obtain r where "set_mark env t (deny_key jti) (RevokedAt None t) (seconds_until_expiry ex t) w = (Return (), w\<lparr>sw_cache := r\<rparr>)"
    "\<forall>u\<ge>t. \<forall>k'. marked v r u k' = (if k' = deny_key jti then u < t + 1000 * seconds_until_expiry ex t
       else marked v (sw_cache w) u k')"
    by (rule set_mark_effect [OF assms])
  with True show thesis by (intro that [of r]) (simp_all add: revoke_access_jti_def Let_def)
next
  case False
  then show thesis by (intro that [of "sw_cache w"]) (simp_all add: revoke_access_jti_def Let_def)
qed

text \<open>A token whose session is denied as long as it verifies is refused by the guard and by the refresh.\<close>

lemma guard_refuses:
  assumes ok: "env_ok env v"
    and deny: "\<And>p. jw_verify (te_jwt env) u (cf_access_secret (te_config env)) (cf_issuer (te_config env))
        (cf_audience (te_config env)) tok = Inr p \<Longrightarrow> marked v (sw_cache w) u (deny_key (jc_jti p))"
  shows "\<exists>e. fst (jwt_guard env u False (Some tok) w) = Throw e \<and> unauthorised e"
proof -
  have "admitted env v u [] (Some tok) (sw_cache w) = None"
    using deny by (auto simp: admitted_def split: sum.split)
  then obtain e r where run: "seq (jwt_guard env u False (Some tok)) (\<lambda>user. seq (roles_guard [] user) (\<lambda>_. ret ())) w =
      (Throw e, w\<lparr>sw_cache := r\<rparr>)" "unauthorised e"
    using guards_passed [OF ok, of u w "Some tok" "[]" "\<lambda>_. ret ()"] by auto
  then show ?thesis
    by (auto simp: seq_def roles_guard_def split: prod.splits outcome.splits)
qed

lemma refresh_refuses:
  assumes ok: "env_ok env v"
    and deny: "\<And>p. refresh_verified env u tok p \<Longrightarrow> plain (jc_sub p) \<and> marked v (sw_cache w) u (deny_key (jc_jti p))"
  shows "\<exists>e. fst (verify_refresh_token env u tok w) = Throw (AppExc e)"
proof (cases "jw_verify (te_jwt env) u (cf_refresh_secret (te_config env)) (cf_issuer (te_config env))
    (cf_audience (te_config env)) tok")
  case (Inl m)
  then show ?thesis by (rule verify_undecoded)
next
  case (Inr p)
  with deny verify_refresh_verdict [OF ok, of p u tok w] show ?thesis by simp
qed

lemma verify_again:
  assumes "jwt_ok jw" and "jw_verify jw t sec iss aud tok = Inr p" and "jw_verify jw u sec iss aud tok = Inr q"
  shows "q = p \<and> u div 1000 < jp_exp p"
  using jwt_accepted [OF assms(1,2)] jwt_accepted [OF assms(1,3)] by simp

text \<open>
  C16: Logging out ends both tokens of the session: it answers, and from then on the access token is refused by the guard
  of every route and the refresh token is not accepted, until and after they expire.
\<close>

theorem logout_ends_session:
  assumes ok: "env_ok (ax_tokens env) v" and uid: "plain (jc_sub p)" and "token \<noteq> []"
    and live: "fst (verify_refresh_token (ax_tokens env) now token w) = Return p"
    and access: "jw_verify (te_jwt (ax_tokens env)) now (cf_access_secret (te_config (ax_tokens env)))
      (cf_issuer (te_config (ax_tokens env))) (cf_audience (te_config (ax_tokens env))) bearer = Inr pa"
    and lifetime: "jp_exp pa \<le> now div 1000 + cf_access_ttl (te_config (ax_tokens env))"
    and other: "jc_jti pa \<noteq> jc_jti p"
  shows "\<exists>w'. logout env now (Some (authenticated_user_from_payload pa)) (Some token) w = (Return (), w') \<and>
    (\<forall>u\<ge>now. (\<exists>e. fst (jwt_guard (ax_tokens env) u False (Some bearer) w') = Throw e \<and> unauthorised e) \<and>
       (\<exists>e. fst (verify_refresh_token (ax_tokens env) u token w') = Throw (AppExc e)))"
proof -
  let ?env = "ax_tokens env"
  let ?ex = "now div 1000 + cf_access_ttl (te_config ?env)"
  obtain w1 where ver: "verify_refresh_token ?env now token w = (Return p, w1)"
    using live by (cases "verify_refresh_token ?env now token w") auto
  have dec: "refresh_verified ?env now token p" by (rule verify_Return_decoded [OF ver])
  obtain r2 where rev: "revoke_refresh_jti ?env now (jc_sub p) (jc_jti p) (jp_exp p) None w1 = (Return (), w1\<lparr>sw_cache := r2,
       sw_tokens := update_where (\<lambda>r. rt_jti r = jc_jti p \<and> rt_revoked_at r = None)
         (\<lambda>r. r\<lparr>rt_revoked_at := Some now, rt_replaced_by := None\<rparr>) (sw_tokens w1)\<rparr>)"
    and m2: "\<forall>u\<ge>now. \<forall>k. marked v r2 u k =
       (k \<noteq> refresh_key (jc_sub p) (jc_jti p) \<and>
        (if k = deny_key (jc_jti p) \<and> 0 < seconds_until_expiry (jp_exp p) now
         then u < now + 1000 * seconds_until_expiry (jp_exp p) now else marked v (sw_cache w1) u k))"
    by (rule revoke_refresh_effect [OF ok])
  define w2 where "w2 = w1\<lparr>sw_cache := r2,
       sw_tokens := update_where (\<lambda>r. rt_jti r = jc_jti p \<and> rt_revoked_at r = None)
         (\<lambda>r. r\<lparr>rt_revoked_at := Some now, rt_replaced_by := None\<rparr>) (sw_tokens w1)\<rparr>"
  obtain r3 where acc: "revoke_access_jti ?env now (jc_jti pa) ?ex w2 = (Return (), w2\<lparr>sw_cache := r3\<rparr>)"
    and m3: "\<forall>u\<ge>now. \<forall>k. marked v r3 u k = (if k = deny_key (jc_jti pa) \<and> 0 < seconds_until_expiry ?ex now
       then u < now + 1000 * seconds_until_expiry ?ex now else marked v (sw_cache w2) u k)"
    by (rule revoke_access_effect [OF ok])
  have run: "logout env now (Some (authenticated_user_from_payload pa)) (Some token) w = (Return (), w2\<lparr>sw_cache := r3\<rparr>)"
    using ver rev acc \<open>token \<noteq> []\<close> by (simp add: logout_def seq_def catch_def w2_def authenticated_user_from_payload_def)
  have jwt: "jwt_ok (te_jwt ?env)" by (rule env_jwt [OF ok])
  have "\<exists>e. fst (jwt_guard ?env u False (Some bearer) (w2\<lparr>sw_cache := r3\<rparr>)) = Throw e \<and> unauthorised e" if "now \<le> u" for u
  proof (rule guard_refuses [OF ok])
    fix q assume "jw_verify (te_jwt ?env) u (cf_access_secret (te_config ?env)) (cf_issuer (te_config ?env))
      (cf_audience (te_config ?env)) bearer = Inr q"
    from verify_again [OF jwt access this] lifetime have q: "q = pa" "u div 1000 < ?ex" by simp_all
    from expiry_covered [OF that q(2)] m3 that q(1)
    show "marked v (sw_cache (w2\<lparr>sw_cache := r3\<rparr>)) u (deny_key (jc_jti q))" by simp
  qed
  moreover have "\<exists>e. fst (verify_refresh_token ?env u token (w2\<lparr>sw_cache := r3\<rparr>)) = Throw (AppExc e)" if "now \<le> u" for u
  proof (rule refresh_refuses [OF ok])
    fix q assume "refresh_verified ?env u token q"
    from verify_again [OF jwt dec this] have q: "q = p" "u div 1000 < jp_exp p" by simp_all
    from expiry_covered [OF that q(2)] m2 m3 that q(1) other uid
    show "plain (jc_sub q) \<and> marked v (sw_cache (w2\<lparr>sw_cache := r3\<rparr>)) u (deny_key (jc_jti q))"
      by (auto simp: w2_def)
  qed
  ultimately show ?thesis using run by blast
qed

section \<open>An account that is off stays out\<close>

text \<open>The services behind the public routes, with the session each opens.\<close>

datatype auth_request =
    SignUp register_dto
  | SignIn string string
  | Renew string
  | SignInGoogle google_profile
  | SignOut "authenticated_user option" "string option"
  | ForgotPassword string
  | ResetPassword reset_dto
  | ChangePassword string string string

primrec auth_request_run ::
  "'r auth_env \<Rightarrow> int \<Rightarrow> session_context \<Rightarrow> auth_request \<Rightarrow> ('r, 'z, auth_result option) auth_prog" where
  "auth_request_run env now ctx (SignUp dto) = seq (register env now dto ctx) (\<lambda>s. ret (Some s))"
| "auth_request_run env now ctx (SignIn email password) =
     seq (local_guard env email password) (\<lambda>user. seq (complete_login env now user ctx) (\<lambda>s. ret (Some s)))"
| "auth_request_run env now ctx (Renew token) = seq (refresh_session env now token ctx) (\<lambda>s. ret (Some s))"
| "auth_request_run env now ctx (SignInGoogle g) = seq (validate_google_user env now g ctx) (\<lambda>s. ret (Some s))"
| "auth_request_run env now ctx (SignOut who token) = seq (logout env now who token) (\<lambda>_. ret None)"
| "auth_request_run env now ctx (ForgotPassword email) = seq (forgot_password env now email) (\<lambda>_. ret None)"
| "auth_request_run env now ctx (ResetPassword dto) = seq (reset_password env now dto) (\<lambda>_. ret None)"
| "auth_request_run env now ctx (ChangePassword i current new) = seq (change_password env now i current new) (\<lambda>_. ret None)"

definition off_rows :: "string \<Rightarrow> user_row list \<Rightarrow> bool" where
  "off_rows i us \<longleftrightarrow> i \<in> us_id ` set us \<and> (\<forall>u\<in>set us. us_id u = i \<longrightarrow> \<not> us_active u)"

abbreviation switched_off :: "string \<Rightarrow> ('r, 'z) platform_scheme \<Rightarrow> bool" where
  "switched_off i w \<equiv> off_rows i (db_users w)"

definition stays_out :: "string \<Rightarrow> auth_result option \<Rightarrow> bool" where
  "stays_out i s \<longleftrightarrow> (case s of Some x \<Rightarrow> pu_id (ar_user x) \<noteq> i | None \<Rightarrow> True)"

lemma off_update:
  assumes "off_rows i us" and ids: "\<And>u. us_id (f u) = us_id u" and stays: "\<And>u. us_active (f u) \<longrightarrow> us_active u"
  shows "off_rows i (update_where P f us)"
proof -
  have "us_id ` set (update_where P f us) = us_id ` set us"
    unfolding set_update_where image_image by (rule image_cong) (simp_all add: ids)
  moreover have "\<not> us_active u" if "u \<in> set (update_where P f us)" "us_id u = i" for u
  proof -
    from that(1) obtain x where "x \<in> set us" "u = (if P x then f x else x)" by (auto simp: set_update_where)
    with assms(1) that(2) ids [of x] stays [of x] show ?thesis by (auto simp: off_rows_def split: if_splits)
  qed
  ultimately show ?thesis using assms(1) by (simp add: off_rows_def)
qed

lemma off_create: "off_rows i us \<Longrightarrow> \<not> list_ex (user_clash u) us \<Longrightarrow> off_rows i (us @ [u]) \<and> us_id u \<noteq> i"
  by (auto simp: off_rows_def list_ex_iff user_clash_def)

lemma off_find: "off_rows i us \<Longrightarrow> List.find P us = Some u \<Longrightarrow> us_active u \<Longrightarrow> us_id u \<noteq> i"
  by (auto simp: off_rows_def dest: find_SomeD)

lemma wp_keeps_off:
  assumes "session_only m" and "switched_off i w"
    and "\<And>a w'. switched_off i w' \<Longrightarrow> Q a w'" and "\<And>e w'. switched_off i w' \<Longrightarrow> E e w'"
  shows "wp m Q E w"
  by (rule wp_session [OF assms(1)]) (use assms(2) in \<open>simp_all add: assms(3,4) same_data_sel(1)\<close>)

lemma complete_login_off:
  assumes ready: "services_ready (ax_platform env) v" and ok: "env_ok (ax_tokens env) v'"
    and ttl: "1 \<le> cf_refresh_ttl (te_config (ax_tokens env))"
    and off: "switched_off i w" and user: "us_id user \<noteq> i"
  shows "wp (complete_login env now user ctx) (\<lambda>s w'. switched_off i w' \<and> stays_out i (Some s)) (\<lambda>_. switched_off i) w"
  unfolding complete_login_def update_user_def wp_seq wp_catch wp_on wp_table [OF ready_users [OF ready]]
  by (rule wp_keeps_off [OF session_issue [OF ready_redis [OF ready] ok ttl] off])
    (auto simp: wp_simps stays_out_def to_public_user_def user split: option.split intro!: off_update)

lemma register_off:
  assumes ready: "services_ready (ax_platform env) v" and ok: "env_ok (ax_tokens env) v'"
    and ttl: "1 \<le> cf_refresh_ttl (te_config (ax_tokens env))" and off: "switched_off i w"
  shows "wp (register env now dto ctx) (\<lambda>s w'. switched_off i w' \<and> stays_out i (Some s)) (\<lambda>_. switched_off i) w"
  unfolding register_def find_user_def argon2_hash_def
  using off off_create [OF off]
  by (auto simp: wp_simps wp_table [OF ready_users [OF ready]] intro!: complete_login_off [OF ready ok ttl])

lemma sign_in_off:
  assumes ready: "services_ready (ax_platform env) v" and ok: "env_ok (ax_tokens env) v'"
    and ttl: "1 \<le> cf_refresh_ttl (te_config (ax_tokens env))" and off: "switched_off i w"
  shows "wp (local_guard env email password) (\<lambda>user w'. switched_off i w' \<and> us_id user \<noteq> i) (\<lambda>_. switched_off i) w"
  unfolding local_guard_def local_validate_def validate_credentials_def find_user_def
  using off off_find [OF off]
  by (auto simp: wp_simps wp_table [OF ready_users [OF ready]] Let_def split: option.split)

lemma refresh_off:
  assumes ready: "services_ready (ax_platform env) v" and ok: "env_ok (ax_tokens env) v'"
    and ttl: "1 \<le> cf_refresh_ttl (te_config (ax_tokens env))" and off: "switched_off i w"
  shows "wp (refresh_session env now token ctx) (\<lambda>s w'. switched_off i w' \<and> stays_out i (Some s)) (\<lambda>_. switched_off i) w"
  unfolding refresh_session_def find_user_def wp_seq wp_on wp_table [OF ready_users [OF ready]]
proof (rule wp_keeps_off [OF session_verify [OF ready_redis [OF ready] ok] off])
  fix payload and w' :: "('a, 'b) platform_scheme"
  assume off': "switched_off i w'"
  show "wp (case List.find (\<lambda>u. us_id u = jc_sub payload) (db_users w') of
        None \<Rightarrow> throw (AppExc (unauthorized ''Session no longer exists'' InvalidTokenCode))
      | Some user \<Rightarrow> if \<not> us_active user then throw account_disabled
          else seq (rotate_tokens (ax_tokens env) now (to_subject user) payload ctx)
            (\<lambda>tokens. ret \<lparr>ar_user = to_public_user user, ar_tokens = tokens\<rparr>))
      (\<lambda>s w'. switched_off i w' \<and> stays_out i (Some s)) (\<lambda>_. switched_off i) (w'\<lparr>db_users := db_users w'\<rparr>)"
    using off' off_find [OF off']
    by (auto simp: wp_simps stays_out_def to_public_user_def split: option.split
        intro!: wp_keeps_off [OF session_rotate [OF ready_redis [OF ready] ok ttl]])
qed

lemma google_off:
  assumes ready: "services_ready (ax_platform env) v" and ok: "env_ok (ax_tokens env) v'"
    and ttl: "1 \<le> cf_refresh_ttl (te_config (ax_tokens env))" and off: "switched_off i w"
  shows "wp (link_google env now g) (\<lambda>user w'. switched_off i w' \<and> (us_active user \<longrightarrow> us_id user \<noteq> i)) (\<lambda>_. switched_off i) w"
proof (cases "List.find (\<lambda>u. us_email u = gg_email g) (db_users w)")
  case (Some u)
  with off off_find [OF off] show ?thesis
    unfolding link_google_def find_user_def update_user_def
    by (auto simp: wp_simps wp_table [OF ready_users [OF ready]] wp_table [OF ready_accounts [OF ready]] split: option.split
        intro!: off_update)
next
  case None
  with off off_create [OF off] show ?thesis
    unfolding link_google_def find_user_def update_user_def
    by (auto simp: wp_simps wp_table [OF ready_users [OF ready]] wp_table [OF ready_accounts [OF ready]] split: option.split)
qed

lemma google_session_off:
  assumes ready: "services_ready (ax_platform env) v" and ok: "env_ok (ax_tokens env) v'"
    and ttl: "1 \<le> cf_refresh_ttl (te_config (ax_tokens env))" and off: "switched_off i w"
  shows "wp (validate_google_user env now g ctx) (\<lambda>s w'. switched_off i w' \<and> stays_out i (Some s)) (\<lambda>_. switched_off i) w"
proof -
  have link: "wp (seq (link_google env now g) (\<lambda>user.
        if \<not> us_active user then throw account_disabled else complete_login env now user ctx))
      (\<lambda>s w'. switched_off i w' \<and> stays_out i (Some s)) (\<lambda>_. switched_off i) w"
    unfolding wp_seq
    by (rule wp_mono [OF google_off [OF ready ok ttl off]])
      (auto simp: wp_simps intro!: complete_login_off [OF ready ok ttl])
  then show ?thesis
    unfolding validate_google_user_def find_user_def
    using off off_find [OF off]
    by (auto simp: wp_simps wp_table [OF ready_users [OF ready]] wp_table [OF ready_accounts [OF ready]]
        split: option.split intro!: complete_login_off [OF ready ok ttl])
qed

lemma logout_session:
  assumes "redis_ok (te_redis (ax_tokens env)) v" and "env_ok (ax_tokens env) v'"
  shows "session_only (logout env now who token)"
  unfolding logout_def
  by (intro session_intros session_verify [OF assms] session_revoke_refresh [OF assms] session_revoke_access [OF assms])

lemma auth_request_off:
  assumes ready: "services_ready (ax_platform env) v" and ok: "env_ok (ax_tokens env) v'"
    and ttl: "1 \<le> cf_refresh_ttl (te_config (ax_tokens env))" and off: "switched_off i w"
  shows "wp (auth_request_run env now ctx req) (\<lambda>s w'. switched_off i w' \<and> stays_out i s) (\<lambda>_. switched_off i) w"
proof -
  note users = wp_table [OF ready_users [OF ready]]
  note revoke = session_revoke_all [OF ready_redis [OF ready] ok]
  have none: "stays_out i None" by (simp add: stays_out_def)
  show ?thesis
  proof (cases req)
    case (SignIn email password)
    then show ?thesis
      by (auto simp: wp_simps intro!: wp_mono [OF sign_in_off [OF ready ok ttl off]] wp_mono [OF complete_login_off [OF ready ok ttl]])
  next
    case (SignOut who token)
    then show ?thesis
      using off none by (auto simp: wp_simps intro!: wp_keeps_off [OF logout_session [OF ready_redis [OF ready] ok]])
  next
    case (ForgotPassword email)
    then show ?thesis
      using off none by (auto simp: forgot_password_def find_user_def update_user_def wp_simps users split: option.split
          intro!: off_update)
  next
    case (ResetPassword dto)
    then show ?thesis
      using off none by (auto simp: reset_password_def find_user_def update_user_def argon2_hash_def wp_simps users
          split: option.split intro!: off_update wp_keeps_off [OF revoke])
  next
    case (ChangePassword j current new)
    then show ?thesis
      using off none by (auto simp: change_password_def find_user_def update_user_def argon2_hash_def wp_simps users
          split: option.split intro!: off_update wp_keeps_off [OF revoke])
  qed (auto simp: wp_simps off intro!: wp_mono [OF register_off [OF ready ok ttl off]] wp_mono [OF refresh_off [OF ready ok ttl off]]
      wp_mono [OF google_session_off [OF ready ok ttl off]])
qed

text \<open>The sessions a sequence of requests opens.\<close>

fun auth_sessions ::
  "'r auth_env \<Rightarrow> (int \<times> session_context \<times> auth_request) list \<Rightarrow> ('r, 'z) auth_world_scheme \<Rightarrow> auth_result list" where
  "auth_sessions env [] w = []"
| "auth_sessions env ((now, ctx, req) # reqs) w =
     (let (out, w') = auth_request_run env now ctx req w; rest = auth_sessions env reqs w'
      in case out of Return (Some s) \<Rightarrow> s # rest | _ \<Rightarrow> rest)"

lemma off_switched:
  assumes "List.find (\<lambda>u. us_id u = i) us = Some x" and "\<And>u. us_id (f u) = us_id u" and "\<And>u. \<not> us_active (f u)"
  shows "off_rows i (update_where (\<lambda>u. us_id u = i) f us)"
proof -
  have "x \<in> set us" "us_id x = i" using find_SomeD [OF assms(1)] by simp_all
  then have "i \<in> us_id ` set (update_where (\<lambda>u. us_id u = i) f us)"
    unfolding set_update_where image_image using assms(2) [of x] by (intro image_eqI [of _ _ x]) auto
  moreover have "\<not> us_active u" if "u \<in> set (update_where (\<lambda>u. us_id u = i) f us)" "us_id u = i" for u
    using that assms(3) by (auto simp: set_update_where split: if_splits)
  ultimately show ?thesis by (simp add: off_rows_def)
qed

lemma endpoint_switches_off:
  assumes ready: "services_ready env v" and ok: "env_ok (pe_tokens env) v'"
    and op: "(\<exists>actor actor_role dto. op = EditUser actor actor_role i dto \<and> xu_active dto = Some False) \<or>
      (\<exists>actor. op = RemoveUser actor i)"
  shows "wp (user_endpoint env now op) (\<lambda>_ w'. switched_off (uuid_value i) w') (\<lambda>_ _. True) w"
proof -
  note users = wp_table [OF ready_users [OF ready]] wp_table [OF ready_accounts [OF ready]]
  note revoke = wp_keeps_off [OF session_revoke_all [OF ready_redis [OF ready] ok]]
  have revoked: "wp (revoke_all_sessions (pe_tokens env) now i) (\<lambda>_ w'. switched_off (uuid_value i) w') (\<lambda>_ _. True) w'"
    if "switched_off (uuid_value i) w'" for w' :: "('a, 'b) platform_scheme"
    by (rule revoke [OF that]) simp_all
  show ?thesis
  proof (cases "List.find (\<lambda>u. us_id u = uuid_value i) (db_users w)")
    case None
    with op show ?thesis
      by (auto simp: user_remove_def user_ensure_exists_def admin_update_user_def wp_simps users intro!: wp_with_uuid)
  next
    case (Some x)
    have off: "off_rows (uuid_value i) (update_where (\<lambda>u. us_id u = uuid_value i) (anonymised now i) (db_users w))"
      "xu_active dto = Some False \<Longrightarrow> off_rows (uuid_value i) (update_where (\<lambda>u. us_id u = uuid_value i) (apply_admin_update now dto) (db_users w))" for dto
      by (rule off_switched [OF Some], simp, simp add: anonymised_def)
        (rule off_switched [OF Some], simp, simp add: apply_admin_update_def set_if_def)
    with op Some show ?thesis
      by (auto simp: user_remove_def user_ensure_exists_def admin_update_user_def wp_simps users
          intro!: wp_with_uuid revoked split: option.split)
  qed
qed

text \<open>
  C11: An account that was removed, or switched off by an administrator (in either case of its identifier), stays out: whatever requests follow to register,
  sign in with a password or with Google, renew a session, reset or change a password, none of them opens a session for it.
\<close>

theorem removed_account_stays_out:
  assumes "services_ready (ax_platform env) v" and "env_ok (ax_tokens env) v'"
    and "1 \<le> cf_refresh_ttl (te_config (ax_tokens env))"
    and "user_endpoint (ax_platform env) now op w = (Return (), w')"
    and "(\<exists>actor actor_role dto. op = EditUser actor actor_role i dto \<and> xu_active dto = Some False) \<or>
      (\<exists>actor. op = RemoveUser actor i)"
    and "s \<in> set (auth_sessions env reqs w')"
  shows "pu_id (ar_user s) \<noteq> uuid_value i"
proof -
  have "wp (user_endpoint (ax_platform env) now op) (\<lambda>_ w'. switched_off (uuid_value i) w') (\<lambda>_ _. True) w"
    by (rule endpoint_switches_off [OF assms(1,2,5)])
  with assms(4) have "switched_off (uuid_value i) w'" by (simp add: wp_def)
  then show ?thesis
    using assms(6)
  proof (induction reqs arbitrary: w')
    case Nil
    then show ?case by simp
  next
    case (Cons a reqs)
    obtain t ctx req where a: "a = (t, ctx, req)" by (cases a)
    obtain out w1 where run: "auth_request_run env t ctx req w' = (out, w1)" by (cases "auth_request_run env t ctx req w'")
    have "wp (auth_request_run env t ctx req) (\<lambda>s w'. switched_off (uuid_value i) w' \<and> stays_out (uuid_value i) s) (\<lambda>_. switched_off (uuid_value i)) w'"
      by (rule auth_request_off [OF assms(1-3) Cons.prems(1)])
    with run have "switched_off (uuid_value i) w1" "\<forall>x. out = Return (Some x) \<longrightarrow> pu_id (ar_user x) \<noteq> uuid_value i"
      by (auto simp: wp_def stays_out_def split: outcome.splits)
    moreover have "s = x \<and> out = Return (Some x) \<or> s \<in> set (auth_sessions env reqs w1)" if "out = Return (Some x)" for x
      using Cons.prems(2) that by (simp add: a run)
    ultimately show ?case
      using Cons.IH [of w1] Cons.prems(2) by (cases out; simp add: a run Let_def split: option.splits) blast
  qed
qed

section \<open>Instances\<close>

definition mem_auth :: "mem auth_env" where
  "mem_auth =
     \<lparr>ax_platform = mem_platform, ax_hash = (\<lambda>n p. CHR ''h'' # p), ax_verify = (\<lambda>h q. h = CHR ''h'' # q),
      ax_random_token = show_nat, ax_query_string = (\<lambda>_. []), ax_frontend_url = ''https://topchoice.example'',
      ax_development = False, ax_google_enabled = False\<rparr>"

lemma mem_auth_sel [simp]: "ax_platform mem_auth = mem_platform" "ax_verify mem_auth h q = (h = CHR ''h'' # q)"
  by (simp_all add: mem_auth_def)

lemma mem_auth_ready:
  "services_ready (ax_platform mem_auth) mem_view" "env_ok (ax_tokens mem_auth) mem_view" "argon_ok mem_auth"
  by (simp_all add: mem_services_ready mem_env_ok) (auto simp: argon_ok_def mem_auth_def)

definition demo_member :: user_row where
  "demo_member = demo_admin\<lparr>us_password_hash := Some ''hold'', us_reset_hash := Some ''key'', us_reset_expires := Some 9\<rparr>"

definition member_world :: "mem auth_world" where
  "member_world = \<lparr>sw_cache = [], sw_tokens = [], sw_uuids = 0, db_listings = [], db_views = [], db_index = [],
     db_areas = [], db_developers = [], db_compounds = [], db_compound_amenities = [], db_payment_plans = [],
     db_amenities = [], db_favorites = [], db_searches = [], db_leads = [], db_users = [demo_member], db_accounts = [],
     db_audit = [], db_requests = [], aw_outbox = [], aw_dummy_hash = None, aw_cookies = []\<rparr>"

lemma member_world_sel [simp]: "db_users member_world = [demo_member]" "us_id demo_member = demo_user_id"
  "us_email demo_member = ''a@b.c''" "us_reset_hash demo_member = Some ''key''" "us_reset_expires demo_member = Some 9"
  "us_password_hash demo_member = Some ''hold''" "us_active demo_member = True" "us_role demo_member = RoleAdmin"
  by (simp_all add: member_world_def demo_member_def) (simp add: demo_admin_def)

lemma wp_returns: "wp m (\<lambda>_ _. True) (\<lambda>_ _. False) w \<Longrightarrow> \<exists>a. m w = (Return a, snd (m w))"
  by (auto simp: wp_def split: prod.splits outcome.splits)

lemma member_revoked:
  "wp (revoke_all_sessions (pe_tokens mem_platform) now demo_user_id) (\<lambda>_ _. True) (\<lambda>_ _. False) w"
  by (rule wp_revoke_all [OF mem_auth_ready(2) [unfolded mem_auth_sel] demo_user_plain]) simp

theorem password_change_effective_witness:
  "password_now mem_auth 5 demo_member ''new'' (snd (change_password mem_auth 5 demo_user_id ''old'' ''new'' member_world))"
proof (rule password_change_effective [OF mem_auth_ready, where current = "''old''"])
  have "wp (change_password mem_auth 5 demo_user_id ''old'' ''new'') (\<lambda>_ _. True) (\<lambda>_ _. False) member_world"
    unfolding change_password_def find_user_def update_user_def argon2_hash_def mem_auth_sel
    by (simp add: wp_simps wp_table [OF ready_users [OF mem_services_ready]] member_revoked del: mem_platform_sel)
  from wp_returns [OF this]
  show "change_password mem_auth 5 (us_id demo_member) ''old'' ''new'' member_world =
      (Return (), snd (change_password mem_auth 5 demo_user_id ''old'' ''new'' member_world))" by simp
qed (simp_all add: demo_user_plain)

definition demo_reset :: reset_dto where
  "demo_reset = \<lparr>rt_token = ''key'', rt_password = ''new''\<rparr>"

lemma demo_reset_sel [simp]: "rt_token demo_reset = ''key''" "rt_password demo_reset = ''new''"
  by (simp_all add: demo_reset_def)

theorem reset_link_single_use_witness:
  "fst (reset_password mem_auth 6 (demo_reset\<lparr>rt_password := ''again''\<rparr>) (snd (reset_password mem_auth 5 demo_reset member_world))) =
     Throw reset_invalid"
proof -
  have "wp (reset_password mem_auth 5 demo_reset) (\<lambda>_ _. True) (\<lambda>_ _. False) member_world"
    unfolding reset_password_def find_user_def update_user_def argon2_hash_def mem_auth_sel
    by (simp add: wp_simps wp_table [OF ready_users [OF mem_services_ready]] member_revoked del: mem_platform_sel)
      (simp add: wp_simps member_revoked)
  from wp_returns [OF this]
  have "reset_password mem_auth 5 demo_reset member_world = (Return (), snd (reset_password mem_auth 5 demo_reset member_world))" by simp
  from reset_link_single_use [OF mem_auth_ready _ _ _ _ this, of demo_member] show ?thesis
    by (simp add: demo_user_plain)
qed

definition demo_access_claims :: jwt_claims where
  "demo_access_claims = \<lparr>jc_sub = ''u1'', jc_email = None, jc_role = Some RoleUser, jc_name = None, jc_jti = ''i''\<rparr>"

theorem logout_ends_session_witness:
  "\<exists>w'. logout mem_auth 1000 (Some (authenticated_user_from_payload (stamped 0 900 ''topchoice-api'' ''topchoice-clients'' demo_access_claims)))
      (Some demo_token) demo_login = (Return (), w') \<and>
    (\<forall>u\<ge>1000. (\<exists>e. fst (jwt_guard mem_env u False
          (Some (mem_sign 0 ''a'' 900 ''topchoice-api'' ''topchoice-clients'' demo_access_claims)) w') = Throw e \<and> unauthorised e) \<and>
       (\<exists>e. fst (verify_refresh_token mem_env u demo_token w') = Throw (AppExc e)))"
proof -
  let ?pa = "stamped 0 900 ''topchoice-api'' ''topchoice-clients'' demo_access_claims"
  let ?bearer = "mem_sign 0 ''a'' 900 ''topchoice-api'' ''topchoice-clients'' demo_access_claims"
  have env: "ax_tokens mem_auth = mem_env" by (simp add: mem_platform_def)
  have pa: "jp_exp ?pa = 900" "jc_jti ?pa = ''i''"
    by (simp_all add: stamped_def demo_access_claims_def jwt_claims.defs jwt_payload.defs)
  have bearer: "jw_verify mem_jwt 1000 ''a'' ''topchoice-api'' ''topchoice-clients'' ?bearer = Inr ?pa"
    using jwt_signed [OF mem_jwt_ok, of 1000 0 900 "''a''" "''topchoice-api''" "''topchoice-clients''" demo_access_claims]
    by (simp add: mem_jwt_def)
  have token: "demo_token \<noteq> []" by (simp add: demo_token_def mem_sign_def enc_field_def)
  show ?thesis
    using logout_ends_session [OF mem_auth_ready(2), of demo_payload demo_token 1000 demo_login ?bearer ?pa]
    by (simp add: env demo_verify demo_plain bearer pa token)
qed

definition newcomer :: register_dto where
  "newcomer = \<lparr>rd_name = ''Ann'', rd_email = ''ann@b.c'', rd_password = ''Abcdefg1'', rd_phone = None\<rparr>"

lemma newcomer_sel [simp]: "rd_email newcomer = ''ann@b.c''" by (simp add: newcomer_def)

lemma wp_issue:
  assumes "env_ok env v" and "1 \<le> cf_refresh_ttl (te_config env)" and "\<And>it w'. Q it w'"
  shows "wp (issue_tokens env t user ctx) Q E w"
  by (rule issue_effect [OF assms(1,2), of t user ctx w]) (simp add: wp_eq(1) assms(3))

lemma newcomer_registers:
  assumes rows: "db_users w = [anonymised 5 demo_user_id demo_member]"
  shows "wp (register mem_auth 6 newcomer demo_ctx) (\<lambda>_ _. True) (\<lambda>_ _. False) w"
proof -
  have uuid: "CHR ''j'' # cs \<noteq> demo_user_id" for cs by (simp add: demo_user_id_def)
  show ?thesis
    unfolding register_def find_user_def argon2_hash_def complete_login_def update_user_def mem_auth_sel
    by (simp add: wp_simps wp_table [OF ready_users [OF mem_services_ready]] rows anonymised_def user_clash_def new_user_def uuid
        del: mem_platform_sel(2-))
      (rule wp_issue [OF mem_env_ok], simp,
       simp add: wp_simps wp_table [OF ready_users [OF mem_services_ready]] del: mem_platform_sel(2-) split: option.split)
qed

theorem removed_account_stays_out_witness:
  "pu_id (ar_user (hd (auth_sessions mem_auth [(6, demo_ctx, SignUp newcomer)]
     (snd (user_endpoint mem_platform 5 (RemoveUser ''boss'' demo_user_id) member_world))))) \<noteq> demo_user_id"
proof -
  let ?op = "RemoveUser ''boss'' demo_user_id"
  let ?w = "snd (user_endpoint mem_platform 5 ?op member_world)"
  let ?reqs = "[(6, demo_ctx, SignUp newcomer)]"
  note users = wp_table [OF ready_users [OF mem_services_ready]] wp_table [OF ready_accounts [OF mem_services_ready]]
  have [simp]: "demo_user_id \<noteq> ''boss''" by (simp add: demo_user_id_def)
  have run: "wp (user_endpoint mem_platform 5 ?op) (\<lambda>_ w'. db_users w' = [anonymised 5 demo_user_id demo_member]) (\<lambda>_ _. False) member_world"
    by (simp add: with_uuid_def demo_user_uuid user_remove_def user_ensure_exists_def wp_simps users update_where_def
        del: mem_platform_sel)
      (rule wp_revoke_all [OF mem_auth_ready(2) [unfolded mem_auth_sel] demo_user_plain], simp)
  then have removed: "user_endpoint mem_platform 5 ?op member_world = (Return (), ?w)"
    and rows: "db_users ?w = [anonymised 5 demo_user_id demo_member]"
    by (auto simp: wp_def split: prod.splits outcome.splits)
  obtain a where "register mem_auth 6 newcomer demo_ctx ?w = (Return a, snd (register mem_auth 6 newcomer demo_ctx ?w))"
    using wp_returns [OF newcomer_registers [OF rows]] by blast
  then have "auth_sessions mem_auth ?reqs ?w = [a]"
    by (cases "register mem_auth 6 newcomer demo_ctx ?w") (simp add: seq_def)
  then have "a \<in> set (auth_sessions mem_auth ?reqs ?w)" "hd (auth_sessions mem_auth ?reqs ?w) = a" by simp_all
  with removed_account_stays_out [OF mem_auth_ready(1,2) _ _ _ this(1), of 5 ?op member_world demo_user_id] removed
  show ?thesis by simp
qed

end
