(* ===== verification/Paths.thy ===== *)
theory Paths
  imports Js_Values
begin

text \<open>
  The functions of \<open>node:path\<close> that the storage driver uses (the POSIX ones), and the decoding of hexadecimal
  text that \<open>Buffer.from\<close> does. A normal path is a list of names, none of them empty, a dot or two dots.
\<close>

section \<open>Normalising a path\<close>

text \<open>\<open>normalizeString\<close>: the names kept so far are in reverse; with \<open>climb\<close>, two dots at the start stay.\<close>

fun norm_names :: "bool \<Rightarrow> string list \<Rightarrow> string list \<Rightarrow> string list" where
  "norm_names climb acc [] = rev acc"
| "norm_names climb acc (s # ss) =
     (if s = [] \<or> s = ''.'' then norm_names climb acc ss
      else if s = ''..'' then
        (case acc of
           a # acc' \<Rightarrow>
             if a \<noteq> ''..'' then norm_names climb acc' ss
             else if climb then norm_names climb (s # acc) ss else norm_names climb acc ss
         | [] \<Rightarrow> if climb then norm_names climb [s] ss else norm_names climb [] ss)
      else norm_names climb (s # acc) ss)"

abbreviation slash :: char where
  "slash \<equiv> CHR ''/''"

definition is_absolute :: "string \<Rightarrow> bool" where
  "is_absolute p \<longleftrightarrow> starts_with p [slash]"

definition ends_with_slash :: "string \<Rightarrow> bool" where
  "ends_with_slash p \<longleftrightarrow> p \<noteq> [] \<and> last p = slash"

definition path_normalize :: "string \<Rightarrow> string" where
  "path_normalize p =
     (if p = [] then ''.''
      else
        let names = join [slash] (norm_names (\<not> is_absolute p) [] (split_on slash p))
        in if names = []
           then (if is_absolute p then [slash] else if ends_with_slash p then ''./'' else ''.'')
           else (if is_absolute p then [slash] else []) @ names @ (if ends_with_slash p then [slash] else []))"

definition path_join :: "string \<Rightarrow> string \<Rightarrow> string" where
  "path_join a b =
     (let parts = filter (\<lambda>p. p \<noteq> []) [a, b]
      in if parts = [] then ''.'' else path_normalize (join [slash] parts))"

text \<open>The absolute path of a list of names, and \<open>resolve\<close> of one path against the working directory.\<close>

definition path_of :: "string list \<Rightarrow> string" where
  "path_of names = slash # join [slash] names"

definition path_names :: "string \<Rightarrow> string list" where
  "path_names p = norm_names False [] (split_on slash p)"

definition path_resolve :: "string \<Rightarrow> string \<Rightarrow> string" where
  "path_resolve cwd p = path_of (path_names (if is_absolute p then p else cwd @ [slash] @ p))"

text \<open>\<open>extname\<close> of the last name; a name that only starts with a dot has none.\<close>

definition last_name :: "string \<Rightarrow> string" where
  "last_name p = rev (takeWhile (\<lambda>c. c \<noteq> slash) (dropWhile (\<lambda>c. c = slash) (rev p)))"

definition path_extname :: "string \<Rightarrow> string" where
  "path_extname p =
     (let name = last_name p; before = rev (drop 1 (dropWhile (\<lambda>c. c \<noteq> CHR ''.'') (rev name)))
      in if CHR ''.'' \<notin> set name \<or> before = [] \<or> name = ''..'' then []
         else drop (length before) name)"

definition parent_names :: "string list \<Rightarrow> string list list" where
  "parent_names names = map (\<lambda>n. take n names) [0..<length names]"

section \<open>Names that stay below\<close>

definition normal_name :: "string \<Rightarrow> bool" where
  "normal_name s \<longleftrightarrow> s \<notin> {[], ''.'', ''..''} \<and> slash \<notin> set s"

lemma normal_nameD: "normal_name s \<Longrightarrow> s \<noteq> [] \<and> s \<noteq> ''.'' \<and> s \<noteq> ''..'' \<and> slash \<notin> set s"
  by (simp add: normal_name_def)

lemma split_on_no_slash: "w \<in> set (split_on c s) \<Longrightarrow> c \<notin> set w"
  by (induction s arbitrary: w) (auto split: list.splits if_splits)

lemma norm_names_normal:
  assumes "\<forall>s\<in>set ss. slash \<notin> set s" and "\<forall>s\<in>set acc. normal_name s"
  shows "\<forall>s\<in>set (norm_names False acc ss). normal_name s"
  using assms
proof (induction ss arbitrary: acc)
  case (Cons s ss)
  have acc: "normal_name s \<Longrightarrow> \<forall>t\<in>set (s # acc). normal_name t" "\<forall>t\<in>set (tl acc). normal_name t"
    using Cons.prems(2) by (cases acc; simp)+
  have ss: "\<forall>t\<in>set ss. slash \<notin> set t" using Cons.prems(1) by simp
  have "norm_names False acc (s # ss) = (if normal_name s then norm_names False (s # acc) ss
      else if s = ''..'' then norm_names False (tl acc) ss else norm_names False acc ss)"
    using Cons.prems by (cases acc) (simp_all add: normal_name_def)
  with Cons.IH [OF ss acc(1)] Cons.IH [OF ss acc(2)] Cons.IH [OF ss Cons.prems(2)] show ?case by simp
qed simp

lemma path_names_normal: "\<forall>s\<in>set (path_names p). normal_name s"
  unfolding path_names_def by (rule norm_names_normal) (auto dest: split_on_no_slash)

lemma norm_names_id: "\<forall>s\<in>set ss. normal_name s \<Longrightarrow> norm_names climb acc ss = rev acc @ ss"
  by (induction ss arbitrary: acc) (auto simp: normal_name_def)

lemma norm_names_append: "\<forall>s\<in>set ss. normal_name s \<Longrightarrow> norm_names climb acc (ss @ ts) = norm_names climb (rev ss @ acc) ts"
  by (induction ss arbitrary: acc) (auto simp: normal_name_def)

lemma split_path_of:
  assumes "\<forall>s\<in>set ns. normal_name s"
  shows "split_on slash (path_of ns) = (if ns = [] then [[], []] else [] # ns)"
  using split_on_join [of ns slash] assms by (auto simp: path_of_def normal_name_def)

lemma path_names_of [simp]: "\<forall>s\<in>set ns. normal_name s \<Longrightarrow> path_names (path_of ns) = ns"
  by (simp add: path_names_def split_path_of norm_names_id)

lemma path_of_absolute [simp]: "is_absolute (path_of ns)"
  by (simp add: is_absolute_def path_of_def starts_with_def)

lemma path_of_inj:
  assumes "\<forall>s\<in>set ns. normal_name s" and "\<forall>s\<in>set ms. normal_name s" and "path_of ns = path_of ms"
  shows "ns = ms"
  using assms path_names_of by metis

text \<open>A path that starts with another one and a slash lies below it.\<close>

lemma path_below:
  assumes ms: "\<forall>s\<in>set ms. normal_name s" and rs: "\<forall>s\<in>set rs. normal_name s"
    and pre: "starts_with (path_of ms) (path_of rs @ [slash])"
  obtains rest where "ms = rs @ rest" "rs \<noteq> []"
proof -
  from pre obtain x where x: "path_of ms = path_of rs @ slash # x"
    unfolding starts_with_prefix prefix_def by auto
  have rs_ne: "rs \<noteq> []"
  proof
    assume "rs = []"
    with x have eq: "join [slash] ms = slash # x" by (simp add: path_of_def)
    then have "split_on slash (join [slash] ms) = [] # split_on slash x" by simp
    with ms eq show False
      using split_on_join [of ms slash] by (cases ms) (auto simp: normal_name_def)
  qed
  from x have eq: "join [slash] ms = join [slash] rs @ slash # x" by (simp add: path_of_def)
  have "split_on slash (join [slash] rs @ slash # x) = rs @ split_on slash x"
    using rs_ne rs
  proof (induction "[slash]" rs rule: join.induct)
    case (2 r)
    then show ?case using split_on_append_sep [of slash r x] by (auto simp: normal_name_def)
  next
    case (3 r r' rs)
    then show ?case using split_on_append_sep [of slash r "join [slash] (r' # rs) @ slash # x"] by (auto simp: normal_name_def)
  qed simp
  moreover have "ms \<noteq> []" using eq by (cases ms) auto
  then have "split_on slash (join [slash] ms) = ms" using ms by (intro split_on_join) (auto simp: normal_name_def)
  ultimately show thesis using eq that rs_ne by metis
qed

section \<open>Hexadecimal text\<close>

definition hex_digit :: "nat \<Rightarrow> char" where
  "hex_digit n = (if n < 10 then char_of (48 + n) else char_of (87 + n))"

definition hex_value :: "char \<Rightarrow> nat option" where
  "hex_value c =
     (let n = (of_char c :: nat)
      in if 48 \<le> n \<and> n \<le> 57 then Some (n - 48)
         else if 97 \<le> n \<and> n \<le> 102 then Some (n - 87)
         else if 65 \<le> n \<and> n \<le> 70 then Some (n - 55) else None)"

definition hex_text :: "nat list \<Rightarrow> string" where
  "hex_text bs = concat (map (\<lambda>b. [hex_digit (b div 16), hex_digit (b mod 16)]) bs)"

text \<open>\<open>Buffer.from(s, 'hex')\<close> reads pairs of digits and stops at the first character that is not one.\<close>

fun hex_bytes :: "string \<Rightarrow> nat list" where
  "hex_bytes (c # d # s) =
     (case (hex_value c, hex_value d) of
        (Some x, Some y) \<Rightarrow> (16 * x + y) # hex_bytes s
      | _ \<Rightarrow> [])"
| "hex_bytes s = []"

lemma hex_value_digit: "n < 16 \<Longrightarrow> hex_value (hex_digit n) = Some n"
  by (auto simp: hex_digit_def hex_value_def Let_def)

lemma hex_bytes_text: "\<forall>b\<in>set bs. b < 256 \<Longrightarrow> hex_bytes (hex_text bs) = bs"
  by (induction bs) (auto simp: hex_text_def hex_value_digit less_mult_imp_div_less)

end
