(* ===== verification/Uploads.thy ===== *)
theory Uploads
  imports "HOL-Library.AList" Paths Properties
begin

text \<open>
  Uploads (\<open>modules/uploads\<close>): the request class, the service, the two storage drivers and the endpoints of the
  local one, over a file system: which directories exist, and what the files hold. The S3 client, HMAC, UUIDs and the
  serialisation of query parameters are parameters.
\<close>

section \<open>What may be uploaded\<close>

definition allowed_content_types :: "(string \<times> string) list" where
  "allowed_content_types =
     [(''image/jpeg'', ''jpg''), (''image/png'', ''png''), (''image/webp'', ''webp''), (''image/avif'', ''avif''),
      (''image/gif'', ''gif''), (''application/pdf'', ''pdf'')]"

definition allowed_folders :: "string list" where
  "allowed_folders =
     [''properties'', ''compounds'', ''developers'', ''areas'', ''avatars'', ''floor-plans'', ''documents'']"

definition max_upload_bytes :: int where
  "max_upload_bytes = 15 * 1024 * 1024"

record presign_dto =
  pd_filename :: string
  pd_content_type :: string
  pd_folder :: string

definition presign_dto_ok :: "presign_dto \<Rightarrow> bool" where
  "presign_dto_ok d \<longleftrightarrow> filled 255 (pd_filename d) \<and> pd_content_type d \<in> set (map fst allowed_content_types) \<and>
     pd_folder d \<in> set allowed_folders"

definition delete_upload_ok :: "string \<Rightarrow> bool" where
  "delete_upload_ok key \<longleftrightarrow> filled 400 key"

section \<open>State and parameters\<close>

record 's upload_world =
  up_files :: "(string \<times> string) list"
  up_directories :: "string list"
  up_uuids :: nat
  up_bucket :: 's

type_synonym ('s, 'a) upload_prog = "('s upload_world, exn, 'a) prog"

record local_options =
  lo_root_dir :: string
  lo_cwd :: string
  lo_public_api_url :: string
  lo_signing_secret :: string

text \<open>The calls on the bucket: sign a PUT, delete an object, read its head.\<close>

record 's s3_options =
  so_cloudfront_domain :: string
  so_public_base_url :: string
  so_presign :: "string \<Rightarrow> string \<Rightarrow> ('s, exn, string) prog"
  so_delete :: "string \<Rightarrow> ('s, exn, unit) prog"
  so_head :: "string \<Rightarrow> ('s, exn, unit) prog"

datatype 's storage_driver = LocalStorage local_options | S3Storage "'s s3_options"

record 's upload_env =
  ue_driver :: "'s storage_driver"
  ue_uuid :: "nat \<Rightarrow> string"
  ue_hmac :: "string \<Rightarrow> string \<Rightarrow> nat list"
  ue_number_text :: "int \<Rightarrow> string"
  ue_query_string :: "(string \<times> string) list \<Rightarrow> string"
  ue_encode_uri :: "string \<Rightarrow> string"
  ue_string_of :: "js_value \<Rightarrow> string"

definition on_bucket :: "('s, exn, 'a) prog \<Rightarrow> ('s, 'a) upload_prog" where
  "on_bucket = part up_bucket up_bucket_update"

text \<open>An error of the file system.\<close>

definition fs_error :: "string \<Rightarrow> exn" where
  "fs_error code = Thrown (JObj ErrorObject [(''name'', JStr ''Error''), (''code'', JStr code), (''message'', JStr code)])"

definition file_at :: "'s upload_world \<Rightarrow> string \<Rightarrow> string option" where
  "file_at w p = map_of (up_files w) p"

text \<open>\<open>mkdir\<close> with \<open>recursive\<close>: a name on the way that is a file is an error.\<close>

definition fs_mkdir :: "string list \<Rightarrow> ('s, unit) upload_prog" where
  "fs_mkdir names = (\<lambda>w.
     let chain = map path_of (parent_names names @ [names])
     in if list_ex (\<lambda>p. file_at w p \<noteq> None) chain then (Throw (fs_error ''ENOTDIR''), w)
        else (Return (), w\<lparr>up_directories := js_unique (up_directories w @ chain)\<rparr>))"

definition fs_write :: "string \<Rightarrow> string \<Rightarrow> ('s, unit) upload_prog" where
  "fs_write p content = (\<lambda>w.
     if p \<in> set (up_directories w) then (Throw (fs_error ''EISDIR''), w)
     else (Return (), w\<lparr>up_files := AList.update p content (up_files w)\<rparr>))"

definition fs_rm :: "string \<Rightarrow> ('s, unit) upload_prog" where
  "fs_rm p = (\<lambda>w.
     if p \<in> set (up_directories w) then (Throw (fs_error ''ERR_FS_EISDIR''), w)
     else (Return (), w\<lparr>up_files := AList.delete p (up_files w)\<rparr>))"

section \<open>The local driver\<close>

definition presign_ttl_seconds :: int where
  "presign_ttl_seconds = 900"

definition root_names :: "local_options \<Rightarrow> string list" where
  "root_names st = path_names (path_resolve (lo_cwd st) (lo_root_dir st))"

definition invalid_key :: exn where
  "invalid_key = AppExc (bad_request ''Invalid object key'' InvalidIdentifierCode [])"

definition resolve_key :: "local_options \<Rightarrow> string \<Rightarrow> exn + string" where
  "resolve_key st key =
     (let root = path_resolve (lo_cwd st) (lo_root_dir st);
          target = path_resolve (lo_cwd st) (path_join root (path_normalize key))
      in if target \<noteq> root \<and> \<not> starts_with target (root @ [slash]) then Inl invalid_key else Inr target)"

definition sign_upload :: "'s upload_env \<Rightarrow> local_options \<Rightarrow> string \<Rightarrow> int \<Rightarrow> string" where
  "sign_upload env st key expires_at =
     hex_text (ue_hmac env (lo_signing_secret st) (key @ '':'' @ ue_number_text env expires_at))"

text \<open>\<open>Number.isFinite\<close> of the double nearest to an integer.\<close>

definition finite_double :: "int \<Rightarrow> bool" where
  "finite_double n \<longleftrightarrow> \<bar>n\<bar> < 2 ^ 1024 - 2 ^ 970"

definition verify_upload_signature ::
  "'s upload_env \<Rightarrow> local_options \<Rightarrow> int \<Rightarrow> string \<Rightarrow> int option \<Rightarrow> string \<Rightarrow> exn + unit" where
  "verify_upload_signature env st now key expires_at sig =
     (case expires_at of
        None \<Rightarrow> Inl (AppExc (forbidden ''This upload link has expired'' UploadFailedCode))
      | Some e \<Rightarrow>
          if \<not> finite_double e \<or> e < now div 1000
          then Inl (AppExc (forbidden ''This upload link has expired'' UploadFailedCode))
          else if hex_bytes (sign_upload env st key e) \<noteq> hex_bytes sig
          then Inl (AppExc (forbidden ''Invalid upload signature'' UploadFailedCode))
          else Inr ())"

definition local_public_url :: "'s upload_env \<Rightarrow> local_options \<Rightarrow> string \<Rightarrow> string" where
  "local_public_url env st key = lo_public_api_url st @ ''/uploads/file?key='' @ ue_encode_uri env key"

record presigned =
  pr_upload_url :: string
  pr_key :: string
  pr_public_url :: string
  pr_expires_in :: int
  pr_content_type :: string

definition local_presign :: "'s upload_env \<Rightarrow> local_options \<Rightarrow> int \<Rightarrow> string \<Rightarrow> string \<Rightarrow> presigned" where
  "local_presign env st now key content_type =
     (let expires_at = now div 1000 + presign_ttl_seconds
      in \<lparr>pr_upload_url = lo_public_api_url st @ ''/uploads/local?'' @ ue_query_string env
            [(''key'', key), (''exp'', ue_number_text env expires_at), (''sig'', sign_upload env st key expires_at)],
          pr_key = key, pr_public_url = local_public_url env st key, pr_expires_in = presign_ttl_seconds,
          pr_content_type = content_type\<rparr>)"

definition resolved :: "exn + 'a \<Rightarrow> ('w, exn, 'a) prog" where
  "resolved r = (case r of Inl e \<Rightarrow> throw e | Inr a \<Rightarrow> ret a)"

definition local_delete :: "local_options \<Rightarrow> string \<Rightarrow> ('s, unit) upload_prog" where
  "local_delete st key = seq (resolved (resolve_key st key)) fs_rm"

definition local_exists :: "local_options \<Rightarrow> string \<Rightarrow> 's upload_world \<Rightarrow> bool" where
  "local_exists st key w = (case resolve_key st key of Inl e \<Rightarrow> False | Inr p \<Rightarrow> file_at w p \<noteq> None)"

definition ensure_directory_for :: "local_options \<Rightarrow> string \<Rightarrow> ('s, string) upload_prog" where
  "ensure_directory_for st key =
     seq (resolved (resolve_key st key)) (\<lambda>target.
     seq (fs_mkdir (butlast (path_names target))) (\<lambda>_. ret target))"

section \<open>The S3 driver\<close>

definition strip_slashes :: "string \<Rightarrow> string" where
  "strip_slashes s = rev (dropWhile (\<lambda>c. c = slash) (rev s))"

definition s3_public_url :: "'s s3_options \<Rightarrow> string \<Rightarrow> string" where
  "s3_public_url st key =
     strip_slashes (if so_cloudfront_domain st \<noteq> [] then ''https://'' @ so_cloudfront_domain st else so_public_base_url st) @
       [slash] @ key"

definition s3_presign :: "'s s3_options \<Rightarrow> string \<Rightarrow> string \<Rightarrow> ('s, presigned) upload_prog" where
  "s3_presign st key content_type =
     catch
       (seq (on_bucket (so_presign st key content_type)) (\<lambda>url.
          ret \<lparr>pr_upload_url = url, pr_key = key, pr_public_url = s3_public_url st key,
               pr_expires_in = presign_ttl_seconds, pr_content_type = content_type\<rparr>))
       (\<lambda>_. throw (AppExc (service_unavailable
          ''Could not prepare the upload - object storage is unavailable'' UploadFailedCode)))"

definition s3_delete :: "'s s3_options \<Rightarrow> string \<Rightarrow> ('s, unit) upload_prog" where
  "s3_delete st key =
     catch (on_bucket (so_delete st key)) (\<lambda>_.
       throw (AppExc (service_unavailable ''Could not delete the object from storage'' UploadFailedCode)))"

definition s3_exists :: "'s s3_options \<Rightarrow> string \<Rightarrow> ('s, bool) upload_prog" where
  "s3_exists st key = catch (seq (on_bucket (so_head st key)) (\<lambda>_. ret True)) (\<lambda>_. ret False)"

section \<open>UploadsService\<close>

definition extension_for :: "string \<Rightarrow> string \<Rightarrow> exn + string" where
  "extension_for content_type filename =
     (case map_of allowed_content_types content_type of
        None \<Rightarrow> Inl (AppExc (bad_request (''Unsupported content type '' @ quote content_type) UnsupportedMediaTypeCode
          [str_detail ''contentType'' ''not allowed'' ''allowlist'']))
      | Some canonical \<Rightarrow>
          (let ext = path_extname filename;
               original = to_lower (if ext = [] then [] else tl ext);
               equivalent = original = canonical \<or> canonical = ''jpg'' \<and> original = ''jpeg''
           in Inr (if equivalent \<and> original \<noteq> [] \<and> length original \<le> 5 \<and>
                      list_all (\<lambda>c. is_digit c \<or> (let n = (of_char c :: nat) in 97 \<le> n \<and> n \<le> 122)) original
                   then original else canonical)))"

definition lower_digit_dash :: "char \<Rightarrow> bool" where
  "lower_digit_dash c \<longleftrightarrow> is_digit c \<or> c = CHR ''-'' \<or> (let n = (of_char c :: nat) in 97 \<le> n \<and> n \<le> 122)"

definition safe_key :: "string \<Rightarrow> bool" where
  "safe_key key \<longleftrightarrow>
     (case split_on slash key of
        [folder, name] \<Rightarrow> folder \<noteq> [] \<and> name \<noteq> [] \<and> list_all lower_digit_dash folder \<and>
          list_all (\<lambda>c. lower_digit_dash c \<or> c \<in> {CHR ''.'', CHR ''_''} \<or>
            (let n = (of_char c :: nat) in 65 \<le> n \<and> n \<le> 90)) name
      | _ \<Rightarrow> False) \<and> \<not> js_includes key ''..''"

definition assert_safe_key :: "string \<Rightarrow> exn + unit" where
  "assert_safe_key key =
     (if safe_key key then Inr ()
      else Inl (AppExc (bad_request ''Invalid object key'' InvalidIdentifierCode
             [str_detail ''key'' ''malformed object key'' ''pattern''])))"

definition storage_presign :: "'s upload_env \<Rightarrow> int \<Rightarrow> string \<Rightarrow> string \<Rightarrow> ('s, presigned) upload_prog" where
  "storage_presign env now key content_type =
     (case ue_driver env of
        LocalStorage st \<Rightarrow> ret (local_presign env st now key content_type)
      | S3Storage st \<Rightarrow> s3_presign st key content_type)"

definition upload_presign :: "'s upload_env \<Rightarrow> int \<Rightarrow> presign_dto \<Rightarrow> ('s, presigned) upload_prog" where
  "upload_presign env now dto =
     seq (resolved (extension_for (pd_content_type dto) (pd_filename dto))) (\<lambda>extension.
     seq (\<lambda>w. (Return (ue_uuid env (up_uuids w)), w\<lparr>up_uuids := Suc (up_uuids w)\<rparr>)) (\<lambda>uuid.
       storage_presign env now (pd_folder dto @ [slash] @ uuid @ ''.'' @ extension) (pd_content_type dto)))"

definition upload_remove :: "'s upload_env \<Rightarrow> string \<Rightarrow> ('s, string) upload_prog" where
  "upload_remove env key =
     seq (resolved (assert_safe_key key)) (\<lambda>_.
     seq (case ue_driver env of LocalStorage st \<Rightarrow> local_delete st key | S3Storage st \<Rightarrow> s3_delete st key) (\<lambda>_. ret key))"

definition upload_public_url :: "'s upload_env \<Rightarrow> string \<Rightarrow> exn + string" where
  "upload_public_url env key =
     (case assert_safe_key key of
        Inl e \<Rightarrow> Inl e
      | Inr _ \<Rightarrow> Inr (case ue_driver env of LocalStorage st \<Rightarrow> local_public_url env st key | S3Storage st \<Rightarrow> s3_public_url st key))"

section \<open>The endpoints of the local driver\<close>

definition local_driver :: "'s upload_env \<Rightarrow> exn + local_options" where
  "local_driver env =
     (case ue_driver env of
        LocalStorage st \<Rightarrow> Inr st
      | S3Storage _ \<Rightarrow> Inl (AppExc (not_found
          ''This deployment uploads directly to S3 - use the presigned URL instead'' NotFoundCode)))"

text \<open>The operator \<open>in\<close> also finds what an object inherits.\<close>

definition inherited_names :: "string list" where
  "inherited_names =
     [''constructor'', ''__defineGetter__'', ''__defineSetter__'', ''hasOwnProperty'', ''__lookupGetter__'',
      ''__lookupSetter__'', ''isPrototypeOf'', ''propertyIsEnumerable'', ''toString'', ''valueOf'', ''__proto__'',
      ''toLocaleString'']"

definition content_type_refused :: "string option \<Rightarrow> bool" where
  "content_type_refused content_type \<longleftrightarrow>
     (case content_type of
        None \<Rightarrow> False
      | Some t \<Rightarrow> t \<noteq> [] \<and>
          trim (hd (split_on CHR '';'' t)) \<notin> set (map fst allowed_content_types) \<union> set inherited_names)"

text \<open>
  The body arrives in chunks, and ends or breaks with a message. Once more than the maximum has arrived the request is
  destroyed; whatever was written by then is removed.
\<close>

record request_body =
  rb_chunks :: "string list"
  rb_broken :: "string option"

definition stream_failure :: "request_body \<Rightarrow> string option" where
  "stream_failure body =
     (if max_upload_bytes < int (length (concat (rb_chunks body))) then Some ''upload exceeded the maximum size''
      else rb_broken body)"

definition write_stream :: "string \<Rightarrow> request_body \<Rightarrow> ('s, unit) upload_prog" where
  "write_stream target body =
     seq (fs_write target (concat (rb_chunks body))) (\<lambda>_.
       case stream_failure body of None \<Rightarrow> ret () | Some message \<Rightarrow> throw (js_error message))"

definition upload_local ::
  "'s upload_env \<Rightarrow> int \<Rightarrow> string \<Rightarrow> string \<Rightarrow> string \<Rightarrow> string option \<Rightarrow> string option \<Rightarrow> request_body \<Rightarrow>
   ('s, string \<times> string) upload_prog" where
  "upload_local env now key expiry sig content_type content_length body =
     seq (resolved (local_driver env)) (\<lambda>st.
       if key = [] \<or> expiry = [] \<or> sig = []
       then throw (AppExc (bad_request ''key, exp and sig are all required'' BadRequestCode []))
       else
     seq (resolved (verify_upload_signature env st now key (parse_int expiry) sig)) (\<lambda>_.
       if content_type_refused content_type
       then throw (AppExc (bad_request (''Unsupported content type '' @ quote (case content_type of Some t \<Rightarrow> t | None \<Rightarrow> []))
              UnsupportedMediaTypeCode []))
       else if (case parse_int (case content_length of Some l \<Rightarrow> l | None \<Rightarrow> ''0'') of
                  Some n \<Rightarrow> finite_double n \<and> max_upload_bytes < n | None \<Rightarrow> False)
       then throw (AppExc (bad_request
              (''Uploads are limited to '' @ show_int (max_upload_bytes div 1024 div 1024) @ '' MB'') PayloadTooLargeCode []))
       else
     seq (ensure_directory_for st key) (\<lambda>target.
     seq (catch (write_stream target body) (\<lambda>e.
            seq (catch (local_delete st key) (\<lambda>_. ret ())) (\<lambda>_.
              throw (AppExc (bad_request (''Upload failed: '' @ error_text (ue_string_of env) e) UploadFailedCode []))))) (\<lambda>_.
       ret (key, local_public_url env st key)))))"

record served_file =
  sf_content_type :: string
  sf_length :: nat
  sf_content :: string

definition served_content_type :: "string \<Rightarrow> string" where
  "served_content_type key =
     (let extension = to_lower (last (split_on CHR ''.'' key))
      in case List.find (\<lambda>(_, ext). ext = extension) allowed_content_types of
           Some (t, _) \<Rightarrow> t
         | None \<Rightarrow> ''application/octet-stream'')"

definition serve_local :: "'s upload_env \<Rightarrow> string \<Rightarrow> ('s, served_file) upload_prog" where
  "serve_local env key =
     seq (resolved (local_driver env)) (\<lambda>st w.
       if key = [] \<or> \<not> local_exists st key w then (Throw (AppExc (not_found ''Object not found'' NotFoundCode)), w)
       else
         (case resolve_key st key of
            Inl e \<Rightarrow> (Throw e, w)
          | Inr p \<Rightarrow>
              (case file_at w p of
                 None \<Rightarrow> (Throw (fs_error ''ENOENT''), w)
               | Some content \<Rightarrow>
                   (Return \<lparr>sf_content_type = served_content_type key, sf_length = length content, sf_content = content\<rparr>, w))))"

end
