(* ===== verification/Upload_Laws.thy ===== *)
theory Upload_Laws
  imports Uploads Users
begin

text \<open>
  What uploads promise: no request reaches a file outside the root, a link is good for its key and its time only, and
  what is put through a link is what is served.
\<close>

section \<open>The root\<close>

definition below_root :: "local_options \<Rightarrow> string \<Rightarrow> bool" where
  "below_root st p \<longleftrightarrow> (\<exists>rest. p = path_of (root_names st @ rest) \<and> (\<forall>s\<in>set rest. normal_name s))"

lemma resolve_path_of: "\<forall>s\<in>set ns. normal_name s \<Longrightarrow> path_resolve cwd (path_of ns) = path_of ns"
  by (simp add: path_resolve_def)

lemma root_path: "path_resolve (lo_cwd st) (lo_root_dir st) = path_of (root_names st)"
  "\<forall>s\<in>set (root_names st). normal_name s"
  by (simp_all add: root_names_def path_resolve_def path_names_normal)

lemma resolve_key_below:
  assumes "resolve_key st key = Inr p"
  shows "below_root st p"
proof -
  let ?t = "path_join (path_of (root_names st)) (path_normalize key)"
  define ns where "ns = path_names (if is_absolute ?t then ?t else lo_cwd st @ [slash] @ ?t)"
  have p: "p = path_of ns" and le: "p = path_of (root_names st) \<or> starts_with p (path_of (root_names st) @ [slash])"
    using assms by (auto simp: resolve_key_def Let_def root_path path_resolve_def [of _ ?t] ns_def split: if_splits)
  have ns: "\<forall>s\<in>set ns. normal_name s" unfolding ns_def by (rule path_names_normal)
  from le show ?thesis
  proof
    assume "p = path_of (root_names st)"
    then show ?thesis unfolding below_root_def by (intro exI [of _ "[]"]) simp
  next
    assume "starts_with p (path_of (root_names st) @ [slash])"
    then obtain rest where "ns = root_names st @ rest"
      using path_below [OF ns root_path(2)] unfolding p by blast
    with ns p show ?thesis unfolding below_root_def by (intro exI [of _ rest]) simp
  qed
qed

definition outside_same :: "local_options \<Rightarrow> 's upload_world \<Rightarrow> 's upload_world \<Rightarrow> bool" where
  "outside_same st w w' \<longleftrightarrow> (\<forall>p. \<not> below_root st p \<longrightarrow> file_at w' p = file_at w p)"

lemma keeps_resolved: "(\<And>a. r = Inr a \<Longrightarrow> keeps I (f a)) \<Longrightarrow> keeps I (seq (resolved r) f)"
  by (cases r) (simp_all add: resolved_def keeps_def wp_simps)

lemma keeps_catch: "keeps I m \<Longrightarrow> (\<And>e. keeps I (h e)) \<Longrightarrow> keeps I (catch m h)"
  unfolding keeps_def wp_catch by (blast intro: wp_mono)

lemma keeps_if: "keeps I m \<Longrightarrow> keeps I n \<Longrightarrow> keeps I (if b then m else n)"
  by simp

lemma files_outside:
  assumes "below_root st p"
  shows "keeps (outside_same st w) (fs_write p content)" and "keeps (outside_same st w) (fs_rm p)"
  using assms by (auto simp: keeps_def wp_def outside_same_def fs_write_def fs_rm_def file_at_def update_conv' delete_conv' restrict_map_def)

lemma mkdir_outside: "keeps (outside_same st w) (fs_mkdir names)"
  by (auto simp: keeps_def wp_def outside_same_def fs_mkdir_def file_at_def Let_def)

lemma delete_outside: "keeps (outside_same st w) (local_delete st key)"
  unfolding local_delete_def by (rule keeps_resolved) (rule files_outside(2) [OF resolve_key_below])

text \<open>The requests that write.\<close>

datatype upload_request =
    PutFile string string string "string option" "string option" request_body
  | DeleteFile string

primrec upload_endpoint :: "'s upload_env \<Rightarrow> int \<Rightarrow> upload_request \<Rightarrow> ('s, unit) upload_prog" where
  "upload_endpoint env now (PutFile key expiry sig content_type content_length body) =
     seq (upload_local env now key expiry sig content_type content_length body) (\<lambda>_. ret ())"
| "upload_endpoint env now (DeleteFile key) = seq (upload_remove env key) (\<lambda>_. ret ())"

lemma endpoint_outside:
  assumes local: "ue_driver env = LocalStorage st"
  shows "keeps (outside_same st w) (upload_endpoint env now req)"
proof (cases req)
  case (DeleteFile key)
  then show ?thesis
    by (auto simp: upload_remove_def local intro!: keeps_seq keeps_resolved delete_outside)
next
  case (PutFile key expiry sig content_type content_length body)
  have target: "keeps (outside_same st w) (seq (ensure_directory_for st key) f)"
    if "\<And>p. below_root st p \<Longrightarrow> keeps (outside_same st w) (f p)" for f :: "string \<Rightarrow> ('a, 'b) upload_prog"
    unfolding ensure_directory_for_def seq_assoc
    by (rule keeps_resolved, rule keeps_seq [OF mkdir_outside]) (auto intro: that resolve_key_below)
  have stream: "keeps (outside_same st w) (write_stream p body)" if "below_root st p" for p
    unfolding write_stream_def by (rule keeps_seq [OF files_outside(1) [OF that]]) (auto split: option.split)
  show ?thesis
    unfolding PutFile upload_endpoint.simps upload_local_def
    by (rule keeps_seq, rule keeps_resolved)
      (auto simp: local_driver_def local intro!: keeps_if keeps_resolved target keeps_seq keeps_catch stream delete_outside)
qed

definition run_uploads :: "'s upload_env \<Rightarrow> (int \<times> upload_request) list \<Rightarrow> 's upload_world \<Rightarrow> 's upload_world" where
  "run_uploads env reqs = fold (\<lambda>(now, req) w. snd (upload_endpoint env now req w)) reqs"

text \<open>
  C25: No upload reaches outside its directory: whatever keys a sequence of uploads and deletions carries, with dots,
  slashes or absolute paths, signed or not, every file that is not below the root directory stays as it was.
\<close>

theorem uploads_stay_below_root:
  assumes "ue_driver env = LocalStorage st"
    and "file_at (run_uploads env reqs w) p \<noteq> file_at w p"
  shows "\<exists>rest. p = path_of (root_names st @ rest) \<and> (\<forall>s\<in>set rest. normal_name s)"
proof -
  have "outside_same st w (run_uploads env reqs w')" if "outside_same st w w'" for w'
    using that
  proof (induction reqs arbitrary: w')
    case Nil
    then show ?case by (simp add: run_uploads_def)
  next
    case (Cons a reqs)
    obtain now req where a: "a = (now, req)" by (cases a)
    from Cons.IH [OF keeps_snd [OF endpoint_outside [OF assms(1)] Cons.prems, of now req]]
    show ?case by (simp add: run_uploads_def a)
  qed
  from this [of w] have "outside_same st w (run_uploads env reqs w)" by (simp add: outside_same_def)
  with assms(2) show ?thesis unfolding outside_same_def below_root_def by blast
qed

section \<open>Links\<close>

text \<open>
  A code of HMAC-SHA256 is 32 bytes. A number prints without a colon, and an integer that a double holds exactly prints
  as its digits.
\<close>

definition signing_ok :: "'s upload_env \<Rightarrow> bool" where
  "signing_ok env \<longleftrightarrow> (\<forall>k a. length (ue_hmac env k a) = 32 \<and> (\<forall>x\<in>set (ue_hmac env k a). x < 256)) \<and>
     (\<forall>n. CHR '':'' \<notin> set (ue_number_text env n)) \<and> (\<forall>n. \<bar>n\<bar> \<le> 2 ^ 53 \<longrightarrow> ue_number_text env n = show_int n)"

text \<open>No collision between the codes of two texts, what an attacker cannot find for HMAC.\<close>

definition no_collision :: "'s upload_env \<Rightarrow> local_options \<Rightarrow> string \<Rightarrow> string \<Rightarrow> bool" where
  "no_collision env st a b \<longleftrightarrow>
     (ue_hmac env (lo_signing_secret st) a = ue_hmac env (lo_signing_secret st) b \<longrightarrow> a = b)"

lemma same_ends:
  assumes "c \<notin> set x" and "c \<notin> set y" and "a @ c # x = b @ c # y"
  shows "a = b \<and> x = y"
proof -
  have "takeWhile (\<lambda>d. d \<noteq> c) (rev z @ c # rev d) = rev z" if "c \<notin> set z" for z d
    using that by (subst takeWhile_append2) auto
  from this [OF assms(1), of a] this [OF assms(2), of b] have "x = y"
    using arg_cong [OF assms(3), of rev] by simp
  with assms(3) show ?thesis by simp
qed

lemma upload_accepted:
  assumes "signing_ok env" and "\<bar>e\<bar> \<le> 2 ^ 53" and "\<bar>e'\<bar> \<le> 2 ^ 53"
    and "no_collision env st (key' @ '':'' @ show_int e') (key @ '':'' @ show_int e)"
  shows "verify_upload_signature env st now key' (Some e') (sign_upload env st key e) = Inr () \<longleftrightarrow>
    key' = key \<and> e' = e \<and> now div 1000 \<le> e"
proof -
  have big: "finite_double e'" using assms(3) by (simp add: finite_double_def)
  have digits: "ue_number_text env e = show_int e" "ue_number_text env e' = show_int e'"
    and colon: "CHR '':'' \<notin> set (ue_number_text env n)" for n
    using assms by (simp_all add: signing_ok_def)
  have "sign_upload env st key' e' = hex_text (ue_hmac env (lo_signing_secret st) (key' @ '':'' @ show_int e'))"
    "sign_upload env st key e = hex_text (ue_hmac env (lo_signing_secret st) (key @ '':'' @ show_int e))"
    by (simp_all add: sign_upload_def digits)
  then have "hex_bytes (sign_upload env st key' e') = hex_bytes (sign_upload env st key e) \<longleftrightarrow>
      key' @ '':'' @ show_int e' = key @ '':'' @ show_int e"
    using assms(1,4) by (auto simp: hex_bytes_text signing_ok_def no_collision_def)
  also have "\<dots> \<longleftrightarrow> key' = key \<and> e' = e"
    using same_ends [of "CHR '':''" "show_int e'" "show_int e" key' key] colon [of e] colon [of e']
    by (auto simp: digits show_int_inj)
  finally show ?thesis by (auto simp: verify_upload_signature_def big)
qed

text \<open>
  A link opens one key, for a quarter of an hour: the signature made for a key and an instant is accepted for that
  key and that instant only, and no longer once the instant has passed.
\<close>

theorem upload_link_exact:
  assumes "signing_ok env" and "\<bar>e\<bar> \<le> 2 ^ 53" and "\<bar>e'\<bar> \<le> 2 ^ 53"
    and "no_collision env st (key' @ '':'' @ show_int e') (key @ '':'' @ show_int e)"
  shows "verify_upload_signature env st now key' (Some e') (sign_upload env st key e) = Inr () \<longleftrightarrow>
    key' = key \<and> e' = e \<and> now div 1000 \<le> e"
  by (rule upload_accepted [OF assms])

section \<open>Put, then serve\<close>

lemma parse_show_int:
  assumes "0 \<le> n"
  shows "parse_int (show_int n) = Some n"
proof -
  have digits: "\<forall>c\<in>set (show_nat (nat n)). is_digit c" by (rule show_nat_digits)
  obtain c cs where cs: "show_nat (nat n) = c # cs" by (cases "show_nat (nat n)") auto
  with digits have c: "is_digit c" by simp
  then have "\<not> js_space c" "c \<noteq> CHR ''-''" "c \<noteq> CHR ''+''"
    by (auto simp: is_digit_def js_space_def Let_def)
  then have "trim_start (show_nat (nat n)) = c # cs" using cs by (simp add: trim_start_def)
  moreover have "takeWhile is_digit (c # cs) = c # cs" using digits cs by (simp add: takeWhile_eq_all_conv)
  moreover have "read_nat (c # cs) = nat n" using cs read_show_nat by metis
  ultimately show ?thesis
    using assms \<open>c \<noteq> CHR ''-''\<close> \<open>c \<noteq> CHR ''+''\<close> by (simp add: parse_int_def show_int_def Let_def)
qed

lemma folder_name: "f \<in> set allowed_folders \<Longrightarrow> normal_name f \<and> CHR ''.'' \<notin> set f \<and> f \<noteq> []"
  by (auto simp: allowed_folders_def normal_name_def)

lemma extension_cases:
  assumes "extension_for t filename = Inr x"
  obtains canonical where "map_of allowed_content_types t = Some canonical" "x = canonical \<or> canonical = ''jpg'' \<and> x = ''jpeg''"
  using assms by (auto simp: extension_for_def Let_def split: option.splits if_splits)

text \<open>The type a file is served with is the one it was announced with; only \<open>.jpeg\<close> is not recognised.\<close>

lemma served_type:
  assumes "map_of allowed_content_types t = Some canonical" and "CHR ''.'' \<notin> set f"
  shows "served_content_type (f @ ''.'' @ canonical) = t"
    and "served_content_type (f @ ''.jpeg'') = ''application/octet-stream''"
proof -
  have "list_all (\<lambda>(t, c). CHR ''.'' \<notin> set c \<and> List.find (\<lambda>(_, ext). ext = to_lower c) allowed_content_types = Some (t, c))
      allowed_content_types" by code_simp
  with map_of_SomeD [OF assms(1)]
  have "CHR ''.'' \<notin> set canonical \<and> List.find (\<lambda>(_, ext). ext = to_lower canonical) allowed_content_types = Some (t, canonical)"
    by (auto simp: list_all_iff)
  then show "served_content_type (f @ ''.'' @ canonical) = t"
    using assms(2) by (simp add: served_content_type_def Let_def split_on_append_sep split_on_no_sep)
  show "served_content_type (f @ ''.jpeg'') = ''application/octet-stream''"
  proof -
    have "List.find (\<lambda>(_, ext). ext = to_lower ''jpeg'') allowed_content_types = None" by code_simp
    then show ?thesis
      using assms(2) by (simp add: served_content_type_def Let_def split_on_append_sep split_on_no_sep)
  qed
qed

lemma last_path_of: "ns \<noteq> [] \<Longrightarrow> \<forall>s\<in>set ns. normal_name s \<Longrightarrow> last (path_of ns) \<noteq> slash"
proof (induction ns)
  case (Cons n ns)
  have n: "n \<noteq> []" "slash \<notin> set n" using Cons.prems(2) by (simp_all add: normal_name_def)
  show ?case
  proof (cases ns)
    case Nil
    have "last n \<noteq> slash" using n last_in_set [OF n(1)] by metis
    with n Nil show ?thesis by (simp add: path_of_def)
  next
    case (Cons m ms)
    with Cons.IH Cons.prems show ?thesis by (simp add: path_of_def)
  qed
qed simp

lemma normalize_path_of:
  assumes "ns \<noteq> []" and "\<forall>s\<in>set ns. normal_name s"
  shows "path_normalize (path_of ns) = path_of ns"
proof -
  obtain n ms where ns: "ns = n # ms" using assms(1) by (cases ns) auto
  with assms(2) have n: "n \<noteq> []" by (simp add: normal_name_def)
  have ne: "path_of ns \<noteq> []" "join [slash] ns \<noteq> []"
    using n by (simp_all add: path_of_def ns) (cases ms, simp_all)
  have "norm_names False [] (split_on slash (path_of ns)) = ns"
    using path_names_of [OF assms(2)] by (simp add: path_names_def)
  then show ?thesis
    using ne last_path_of [OF assms] by (simp add: path_normalize_def Let_def ends_with_slash_def) (simp add: path_of_def)
qed

lemma join_append:
  "ns \<noteq> [] \<Longrightarrow> ms \<noteq> [] \<Longrightarrow> join [c] (ns @ ms) = join [c] ns @ c # join [c] ms"
  by (induction "[c]" ns rule: join.induct) (auto simp: neq_Nil_conv)

lemma resolve_key_two:
  assumes root: "root_names st \<noteq> []" and f: "normal_name f" and n: "normal_name n"
  shows "resolve_key st (f @ [slash] @ n) = Inr (path_of (root_names st @ [f, n]))"
proof -
  let ?rs = "root_names st"
  have rs: "\<forall>s\<in>set ?rs. normal_name s" by (rule root_path(2))
  have names: "\<forall>s\<in>set (?rs @ [f, n]). normal_name s" using rs f n by simp
  have fn: "split_on slash (f @ slash # n) = [f, n]" "f \<noteq> []" "n \<noteq> []" "hd f \<noteq> slash" "last n \<noteq> slash"
    using f n by (auto simp: normal_name_def split_on_append_sep split_on_no_sep hd_in_set last_in_set intro: hd_in_set dest: hd_in_set last_in_set)
  have relative: "\<not> is_absolute (f @ slash # n)" using fn by (cases f) (simp_all add: is_absolute_def starts_with_def)
  have key: "path_normalize (f @ slash # n) = f @ slash # n"
    using fn relative f n by (simp add: path_normalize_def Let_def norm_names_id [of "[f, n]"] ends_with_slash_def normal_name_def)
  have joined: "path_of (?rs @ [f, n]) = path_of ?rs @ slash # f @ slash # n"
    using root join_append [of ?rs "[f, n]" slash] by (simp add: path_of_def)
  have "path_join (path_of ?rs) (f @ slash # n) = path_normalize (path_of (?rs @ [f, n]))"
    using fn joined by (simp add: path_join_def path_of_def)
  also have "\<dots> = path_of (?rs @ [f, n])" by (rule normalize_path_of) (simp_all add: names)
  finally have "path_resolve (lo_cwd st) (path_join (path_of ?rs) (f @ slash # n)) = path_of (?rs @ [f, n])"
    by (simp add: resolve_path_of names)
  moreover have "starts_with (path_of (?rs @ [f, n])) (path_of ?rs @ [slash])"
    unfolding joined starts_with_prefix by (simp add: prefix_def)
  ultimately show ?thesis by (simp add: resolve_key_def Let_def root_path key)
qed

definition free_way :: "string list \<Rightarrow> 's upload_world \<Rightarrow> bool" where
  "free_way names w \<longleftrightarrow> (\<forall>n. file_at w (path_of (take n names)) = None) \<and>
     (\<forall>name. path_of (names @ [name]) \<notin> set (up_directories w))"

lemma put_effect:
  assumes names: "\<forall>s\<in>set names. normal_name s" and name: "normal_name name"
    and key: "resolve_key st key = Inr (path_of (names @ [name]))" and way: "free_way names w"
    and body: "stream_failure body = None"
  obtains w' where "seq (ensure_directory_for st key) (\<lambda>target. write_stream target body) w = (Return (), w')"
    "file_at w' (path_of (names @ [name])) = Some (concat (rb_chunks body))"
proof -
  let ?chain = "map path_of (parent_names names @ [names])"
  let ?target = "path_of (names @ [name])"
  have all: "\<forall>s\<in>set (names @ [name]). normal_name s" using names name by simp
  have chain: "\<exists>n. p = path_of (take n names)" if "p \<in> set ?chain" for p
    using that by (auto simp: parent_names_def intro: exI [of _ "length names"])
  have "file_at w p = None" if "p \<in> set ?chain" for p
    using chain [OF that] way by (auto simp: free_way_def)
  then have "\<forall>p\<in>set ?chain. \<not> file_at w p \<noteq> None" by (intro ballI) simp
  then have "\<not> list_ex (\<lambda>p. file_at w p \<noteq> None) ?chain" unfolding list_ex_iff by blast
  then have mkdir: "fs_mkdir names w = (Return (), w\<lparr>up_directories := js_unique (up_directories w @ ?chain)\<rparr>)"
    by (simp add: fs_mkdir_def Let_def)
  have "?target \<noteq> path_of (take n names)" for n
  proof
    assume "?target = path_of (take n names)"
    then have "names @ [name] = take n names"
      using all names by (intro path_of_inj) (auto dest: in_set_takeD)
    then have "length (names @ [name]) = length (take n names)" by simp
    then show False by simp
  qed
  then have "?target \<notin> set ?chain" using chain by blast
  moreover have "?target \<notin> set (up_directories w)" using way by (simp add: free_way_def)
  ultimately have "?target \<notin> set (js_unique (up_directories w @ ?chain))" by simp
  then have "seq (ensure_directory_for st key) (\<lambda>target. write_stream target body) w =
      (Return (), w\<lparr>up_directories := js_unique (up_directories w @ ?chain), up_files := AList.update ?target (concat (rb_chunks body)) (up_files w)\<rparr>)"
    using mkdir key all body
    by (simp add: ensure_directory_for_def resolved_def seq_def write_stream_def fs_write_def)
  then show thesis by (rule that) (simp add: file_at_def update_conv')
qed

lemma uuid_name:
  assumes "is_uuid i"
  shows "i \<noteq> [] \<and> CHR ''.'' \<notin> set i \<and> slash \<notin> set i"
proof -
  have "hex_char c \<or> c = CHR ''-''" if "c \<in> set i" for c
    using that assms join_split_on [of "CHR ''-''" i] is_uuid_dash [of i]
    by (auto simp: is_uuid_def hex_run_def list_all_iff split: list.splits)
  moreover have "\<not> hex_char CHR ''.''" "\<not> hex_char slash" by (simp_all add: hex_char_def)
  ultimately show ?thesis using is_uuid_dash [OF assms] by auto
qed

text \<open>The link of a presigned upload, with the content type of the file.\<close>

definition presigned_link :: "'s upload_env \<Rightarrow> local_options \<Rightarrow> presigned \<Rightarrow> string \<Rightarrow> string \<Rightarrow> string \<Rightarrow> bool" where
  "presigned_link env st p key expiry sig \<longleftrightarrow> pr_key p = key \<and>
     pr_upload_url p = lo_public_api_url st @ ''/uploads/local?'' @
       ue_query_string env [(''key'', key), (''exp'', expiry), (''sig'', sig)]"

definition file_type :: "presign_dto \<Rightarrow> string" where
  "file_type d = (if extension_for (pd_content_type d) (pd_filename d) = Inr ''jpeg'' then ''application/octet-stream''
     else pd_content_type d)"

lemma presigned_key:
  assumes "presign_dto_ok d" and "is_uuid i" and "extension_for (pd_content_type d) (pd_filename d) = Inr x"
  shows "served_content_type (pd_folder d @ [slash] @ i @ ''.'' @ x) = file_type d"
    and "normal_name (i @ ''.'' @ x)" and "x \<noteq> []"
proof -
  obtain c where c: "map_of allowed_content_types (pd_content_type d) = Some c" "x = c \<or> c = ''jpg'' \<and> x = ''jpeg''"
    by (rule extension_cases [OF assms(3)])
  have "list_all (\<lambda>c. slash \<notin> set c \<and> c \<noteq> [] \<and> c \<noteq> ''jpeg'') (map snd allowed_content_types)" by code_simp
  with map_of_SomeD [OF c(1)] have cs: "slash \<notin> set c" "c \<noteq> []" "c \<noteq> ''jpeg''" by (auto simp: list_all_iff)
  have folder: "CHR ''.'' \<notin> set (pd_folder d @ [slash] @ i)"
    using folder_name uuid_name [OF assms(2)] assms(1) by (auto simp: presign_dto_ok_def)
  show "served_content_type (pd_folder d @ [slash] @ i @ ''.'' @ x) = file_type d"
    using served_type [OF c(1) folder] c(2) cs(3) assms(3) by (auto simp: file_type_def)
  show "normal_name (i @ ''.'' @ x)"
    using uuid_name [OF assms(2)] c(2) cs by (cases i) (auto simp: normal_name_def)
  show "x \<noteq> []" using c(2) cs(2) by auto
qed

text \<open>
  C26: What is put through a link is what is served: the link of a presigned upload accepts, until it expires, the file
  it was made for, and from then on the file is served under its key with its bytes, its length, and the content type it
  was announced with, but for \<open>.jpeg\<close> files, which are served as an octet stream.
\<close>

theorem upload_round_trip:
  assumes local: "ue_driver env = LocalStorage st" and signing: "signing_ok env" and dto: "presign_dto_ok d"
    and uuid: "is_uuid (ue_uuid env (up_uuids w))" and root: "root_names st \<noteq> []"
    and way: "free_way (root_names st @ [pd_folder d]) w"
    and presigned: "upload_presign env t d w = (Return p, w1)"
    and "0 \<le> t" and "t < 2 ^ 52" and "t \<le> u" and "u div 1000 \<le> t div 1000 + presign_ttl_seconds"
    and "rb_broken body = None" and "int (length (concat (rb_chunks body))) \<le> max_upload_bytes"
  shows "\<exists>expiry sig w2. presigned_link env st p (pr_key p) expiry sig \<and>
    upload_local env u (pr_key p) expiry sig (Some (pd_content_type d)) (Some (show_int (length (concat (rb_chunks body))))) body w1 =
      (Return (pr_key p, pr_public_url p), w2) \<and>
    serve_local env (pr_key p) w2 =
      (Return \<lparr>sf_content_type = file_type d, sf_length = length (concat (rb_chunks body)),
               sf_content = concat (rb_chunks body)\<rparr>, w2)"
proof -
  let ?i = "ue_uuid env (up_uuids w)" and ?e = "t div 1000 + presign_ttl_seconds"
  obtain x where x: "extension_for (pd_content_type d) (pd_filename d) = Inr x"
    using presigned by (cases "extension_for (pd_content_type d) (pd_filename d)")
      (auto simp: upload_presign_def resolved_def seq_def)
  let ?name = "?i @ ''.'' @ x"
  let ?key = "pd_folder d @ [slash] @ ?name"
  have p: "p = local_presign env st t ?key (pd_content_type d)" and w1: "w1 = w\<lparr>up_uuids := Suc (up_uuids w)\<rparr>"
    using presigned by (auto simp: upload_presign_def resolved_def seq_def x storage_presign_def local)
  have folder: "normal_name (pd_folder d)" using folder_name dto by (auto simp: presign_dto_ok_def)
  have e: "0 \<le> ?e" "\<bar>?e\<bar> \<le> 2 ^ 53" using assms(8,9) by (auto simp: presign_ttl_seconds_def)
  have text_e: "ue_number_text env ?e = show_int ?e" using signing e(2) by (simp add: signing_ok_def)
  let ?sig = "sign_upload env st ?key ?e"
  have sig: "verify_upload_signature env st u ?key (Some ?e) ?sig = Inr ()"
    using upload_accepted [OF signing e(2) e(2)] assms(11) by (simp add: no_collision_def)
  have key: "resolve_key st ?key = Inr (path_of ((root_names st @ [pd_folder d]) @ [?name]))"
    using resolve_key_two [OF root folder presigned_key(2) [OF dto uuid x]] by simp
  have "stream_failure body = None" using assms(12,13) by (simp add: stream_failure_def)
  moreover have "free_way (root_names st @ [pd_folder d]) w1" using way by (simp add: free_way_def w1 file_at_def)
  moreover have "\<forall>s\<in>set (root_names st @ [pd_folder d]). normal_name s" using root_path(2) folder by simp
  ultimately obtain w2 where put: "seq (ensure_directory_for st ?key) (\<lambda>target. write_stream target body) w1 = (Return (), w2)"
    and stored: "file_at w2 (path_of ((root_names st @ [pd_folder d]) @ [?name])) = Some (concat (rb_chunks body))"
    using put_effect [OF _ presigned_key(2) [OF dto uuid x] key] by metis
  have "ue_hmac env k a \<noteq> []" for k a
  proof -
    have "length (ue_hmac env k a) = 32" using signing by (simp add: signing_ok_def)
    then show ?thesis by auto
  qed
  then have nonempty: "show_int ?e \<noteq> []" "?sig \<noteq> []"
    by (simp_all add: show_int_def sign_upload_def hex_text_def)
  have "list_all (\<lambda>t. trim (hd (split_on CHR '';'' t)) = t) (map fst allowed_content_types)" by code_simp
  moreover have allowed: "pd_content_type d \<in> set (map fst allowed_content_types)" using dto by (simp add: presign_dto_ok_def)
  ultimately have "trim (hd (split_on CHR '';'' (pd_content_type d))) = pd_content_type d" by (simp only: list_all_iff)
  with allowed have ct: "\<not> content_type_refused (Some (pd_content_type d))"
    by (simp add: content_type_refused_def)
  have len: "parse_int (show_int (length (concat (rb_chunks body)))) = Some (length (concat (rb_chunks body)))"
    by (rule parse_show_int) simp
  have "upload_local env u ?key (show_int ?e) ?sig (Some (pd_content_type d)) (Some (show_int (length (concat (rb_chunks body))))) body w1 =
      (Return (?key, local_public_url env st ?key), w2)"
  proof -
    obtain target w' where "ensure_directory_for st ?key w1 = (Return target, w')" "write_stream target body w' = (Return (), w2)"
      using put by (auto simp: seq_eq_Return)
    then show ?thesis
      using sig nonempty ct len parse_show_int [OF e(1)] assms(13)
      by (simp add: upload_local_def local_driver_def local resolved_def)
  qed
  moreover have "serve_local env ?key w2 = (Return \<lparr>sf_content_type = file_type d, sf_length = length (concat (rb_chunks body)),
               sf_content = concat (rb_chunks body)\<rparr>, w2)"
    using key stored presigned_key(1) [OF dto uuid x]
    by (simp add: serve_local_def resolved_def local_driver_def local local_exists_def)
  ultimately show ?thesis
    by (intro exI [of _ "show_int ?e"] exI [of _ ?sig] exI [of _ w2])
      (simp add: p local_presign_def presigned_link_def text_e Let_def)
qed

section \<open>Instances\<close>

definition demo_local :: local_options where
  "demo_local = \<lparr>lo_root_dir = ''/srv/up'', lo_cwd = ''/app'', lo_public_api_url = ''https://t.example/api/v1'',
     lo_signing_secret = ''s''\<rparr>"

definition mem_uploads :: "unit upload_env" where
  "mem_uploads = \<lparr>ue_driver = LocalStorage demo_local, ue_uuid = (\<lambda>_. demo_user_id),
     ue_hmac = (\<lambda>k a. replicate 31 0 @ [length a mod 256]), ue_number_text = show_int,
     ue_query_string = (\<lambda>_. []), ue_encode_uri = (\<lambda>s. s), ue_string_of = (\<lambda>_. [])\<rparr>"

lemma mem_uploads_sel [simp]:
  "ue_driver mem_uploads = LocalStorage demo_local" "ue_uuid mem_uploads n = demo_user_id"
  "ue_hmac mem_uploads k a = replicate 31 0 @ [length a mod 256]" "ue_number_text mem_uploads = show_int"
  by (simp_all add: mem_uploads_def)

lemma mem_signing_ok: "signing_ok mem_uploads"
proof -
  have "CHR '':'' \<notin> set (show_int n)" for n
  proof -
    have "\<not> is_digit CHR '':''" by (simp add: is_digit_def)
    then have "CHR '':'' \<notin> set (show_nat m)" for m using show_nat_digits [of m] by metis
    then show ?thesis by (simp add: show_int_def)
  qed
  then show ?thesis by (simp add: signing_ok_def)
qed

definition one_file :: "unit upload_world" where
  "one_file = \<lparr>up_files = [(''/srv/up/areas/a.png'', ''png'')], up_directories = [''/srv/up'', ''/srv/up/areas''],
     up_uuids = 0, up_bucket = ()\<rparr>"

lemma demo_deletion: "file_at (run_uploads mem_uploads [(5, DeleteFile ''areas/a.png'')] one_file) ''/srv/up/areas/a.png'' = None"
  by code_simp

theorem uploads_stay_below_root_witness:
  "\<exists>rest. ''/srv/up/areas/a.png'' = path_of (root_names demo_local @ rest) \<and> (\<forall>s\<in>set rest. normal_name s)"
proof (rule uploads_stay_below_root [OF mem_uploads_sel(1)])
  show "file_at (run_uploads mem_uploads [(5, DeleteFile ''areas/a.png'')] one_file) ''/srv/up/areas/a.png'' \<noteq>
      file_at one_file ''/srv/up/areas/a.png''"
    unfolding demo_deletion by (simp add: one_file_def file_at_def)
qed

theorem upload_link_exact_witness:
  "verify_upload_signature mem_uploads demo_local 5000 ''areas/b'' (Some 900) (sign_upload mem_uploads demo_local ''areas/a'' 90)
     \<noteq> Inr ()"
proof -
  have "show_int 900 = ''900''" "show_int 90 = ''90''" by code_simp+
  then have "no_collision mem_uploads demo_local (''areas/b'' @ '':'' @ show_int 900) (''areas/a'' @ '':'' @ show_int 90)"
    by (simp add: no_collision_def)
  from upload_link_exact [OF mem_signing_ok _ _ this] show ?thesis by simp
qed

definition demo_photo :: presign_dto where
  "demo_photo = \<lparr>pd_filename = ''a.JPG'', pd_content_type = ''image/jpeg'', pd_folder = ''areas''\<rparr>"

definition demo_body :: request_body where
  "demo_body = \<lparr>rb_chunks = [''ab'', ''c''], rb_broken = None\<rparr>"

theorem upload_round_trip_witness:
  "\<exists>p w1 expiry sig w2. upload_presign mem_uploads 1000 demo_photo one_file = (Return p, w1) \<and>
    presigned_link mem_uploads demo_local p (pr_key p) expiry sig \<and>
    upload_local mem_uploads 2000 (pr_key p) expiry sig (Some (pd_content_type demo_photo))
      (Some (show_int (length (concat (rb_chunks demo_body))))) demo_body w1 = (Return (pr_key p, pr_public_url p), w2) \<and>
    serve_local mem_uploads (pr_key p) w2 =
      (Return \<lparr>sf_content_type = file_type demo_photo, sf_length = length (concat (rb_chunks demo_body)),
               sf_content = concat (rb_chunks demo_body)\<rparr>, w2)"
proof -
  have ext: "extension_for (pd_content_type demo_photo) (pd_filename demo_photo) = Inr ''jpg''" by code_simp
  obtain p w1 where presigned: "upload_presign mem_uploads 1000 demo_photo one_file = (Return p, w1)"
    by (simp add: upload_presign_def resolved_def ext seq_def storage_presign_def)
  have root: "root_names demo_local = [''srv'', ''up'']" by code_simp
  have way: "free_way (root_names demo_local @ [pd_folder demo_photo]) one_file"
  proof -
    have "take n [''srv'', ''up'', ''areas''] \<in> {[], [''srv''], [''srv'', ''up''], [''srv'', ''up'', ''areas'']}" for n
      by (cases n; cases "n - 1"; cases "n - 2") auto
    moreover have "file_at one_file (path_of ns) = None" if "ns \<in> {[], [''srv''], [''srv'', ''up''], [''srv'', ''up'', ''areas'']}" for ns
      using that by (elim insertE emptyE; simp add: one_file_def file_at_def path_of_def)
    ultimately have "file_at one_file (path_of (take n [''srv'', ''up'', ''areas''])) = None" for n by blast
    then show ?thesis by (simp add: free_way_def root demo_photo_def one_file_def path_of_def)
  qed
  have uuid: "is_uuid (ue_uuid mem_uploads (up_uuids one_file))"
    using demo_user_uuid by (simp add: assert_uuid_def split: if_splits)
  have "presign_dto_ok demo_photo" by code_simp
  from upload_round_trip [OF mem_uploads_sel(1) mem_signing_ok this uuid _ way presigned, of 2000 demo_body]
  show ?thesis using presigned
    by (auto simp: root presign_ttl_seconds_def demo_body_def max_upload_bytes_def)
qed

end
