(* ===== verification/Audit_Trail.thy ===== *)
theory Audit_Trail
  imports Leads
begin

text \<open>
  The audit trail (\<open>modules/admin/audit.service.ts\<close>): the shallow difference of two values with the sensitive fields
  left out, the row it becomes, and the list of the trail. \<open>JSON.stringify\<close> is a parameter; the ellipsis of a shortened
  text is three dots.
\<close>

record audit_entry =
  ae_actor_id :: "string option"
  ae_action :: string
  ae_entity_type :: string
  ae_entity_id :: "string option"
  ae_before :: js_value
  ae_after :: js_value
  ae_ip_address :: "string option"
  ae_user_agent :: "string option"
  ae_request_id :: "string option"

definition redacted_fields :: "string list" where
  "redacted_fields =
     [''password'', ''passwordHash'', ''currentPassword'', ''newPassword'', ''token'', ''accessToken'', ''refreshToken'',
      ''resetTokenHash'', ''secret'']"

text \<open>\<open>Object.keys\<close> and a property read; the characters of a text and the elements of an array have their index as key.\<close>

fun own_keys :: "js_value \<Rightarrow> string list" where
  "own_keys (JObj _ ps) = map fst ps"
| "own_keys (JArr xs) = map show_nat [0..<length xs]"
| "own_keys (JStr s) = map show_nat [0..<length s]"
| "own_keys _ = []"

fun read_key :: "js_value \<Rightarrow> string \<Rightarrow> js_value" where
  "read_key (JArr xs) k = (case List.find (\<lambda>i. show_nat i = k) [0..<length xs] of Some i \<Rightarrow> xs ! i | None \<Rightarrow> Undefined)"
| "read_key (JStr s) k = (case List.find (\<lambda>i. show_nat i = k) [0..<length s] of Some i \<Rightarrow> JStr [s ! i] | None \<Rightarrow> Undefined)"
| "read_key v k = get_prop v k"

definition audit_truncate :: "js_value \<Rightarrow> js_value" where
  "audit_truncate v =
     (case v of JStr s \<Rightarrow> if 500 < length s then JStr (take 500 s @ ''...'') else v | _ \<Rightarrow> v)"

definition change_of :: "js_value \<Rightarrow> js_value \<Rightarrow> js_value" where
  "change_of old new = JObj PlainObject [(''from'', audit_truncate old), (''to'', audit_truncate new)]"

definition audit_changes :: "(js_value \<Rightarrow> string option) \<Rightarrow> js_value \<Rightarrow> js_value \<Rightarrow> (string \<times> js_value) list" where
  "audit_changes json previous new =
     map (\<lambda>k. (k, change_of (read_key previous k) (read_key new k)))
       (filter (\<lambda>k. k \<notin> set redacted_fields \<and> json (read_key previous k) \<noteq> json (read_key new k))
         (js_unique (own_keys previous @ own_keys new)))"

definition audit_diff :: "(js_value \<Rightarrow> string option) \<Rightarrow> js_value \<Rightarrow> js_value \<Rightarrow> js_value option" where
  "audit_diff json before new =
     (if \<not> is_record new then None
      else
        let previous = (if before \<in> {Undefined, Null} then JObj PlainObject [] else before);
            changes = audit_changes json previous new
        in if changes = [] then None else Some (JObj PlainObject changes))"

definition audit_row_of :: "(js_value \<Rightarrow> string option) \<Rightarrow> int \<Rightarrow> audit_entry \<Rightarrow> audit_row" where
  "audit_row_of json now e =
     \<lparr>ad_user_id = ae_actor_id e, ad_action = ae_action e, ad_entity_type = ae_entity_type e,
      ad_entity_id = ae_entity_id e,
      ad_metadata = JObj PlainObject (case audit_diff json (ae_before e) (ae_after e) of
        Some d \<Rightarrow> [(''changes'', d)] | None \<Rightarrow> []),
      ad_ip_address = ae_ip_address e, ad_user_agent = ae_user_agent e, ad_request_id = ae_request_id e,
      ad_created_at = now\<rparr>"

definition audit_record ::
  "'r platform_env \<Rightarrow> (js_value \<Rightarrow> string option) \<Rightarrow> int \<Rightarrow> audit_entry \<Rightarrow> ('r, 'z, unit) platform_prog" where
  "audit_record env json now e =
     catch (seq (on_audit (tb_create (pe_audit env) (audit_row_of json now e))) (\<lambda>_. ret ())) (\<lambda>_. ret ())"

record list_audit = pagination_query +
  qa_action :: "string option"
  qa_entity_type :: "string option"
  qa_user_id :: "string option"

definition list_audit_ok :: "list_audit \<Rightarrow> bool" where
  "list_audit_ok q \<longleftrightarrow> page_query_ok q \<and> opt_ok (trimmed 80) (qa_action q) \<and> opt_ok (trimmed 60) (qa_entity_type q) \<and>
     opt_ok is_uuid (qa_user_id q)"

definition audit_where :: "list_audit \<Rightarrow> audit_row \<Rightarrow> bool" where
  "audit_where q a \<longleftrightarrow> if_given (\<lambda>t. ad_action a = t) (qa_action q) \<and> if_given (\<lambda>t. ad_entity_type a = t) (qa_entity_type q) \<and>
     if_given (\<lambda>i. ad_user_id a = Some i) (qa_user_id q)"

definition audit_newest_first :: "audit_row \<Rightarrow> audit_row \<Rightarrow> bool" where
  "audit_newest_first a b \<longleftrightarrow> ad_created_at b \<le> ad_created_at a"

record audit_user =
  ay_id :: string
  ay_name :: string
  ay_email :: string
  ay_role :: user_role

definition audit_author :: "'r platform_env \<Rightarrow> audit_row \<Rightarrow> ('r, 'z, audit_row \<times> audit_user option) platform_prog" where
  "audit_author env a =
     seq (on_users (related (pe_users env) us_id (ad_user_id a))) (\<lambda>u.
       ret (a, map_option (\<lambda>u. \<lparr>ay_id = us_id u, ay_name = us_name u, ay_email = us_email u, ay_role = us_role u\<rparr>) u))"

primrec audit_authors ::
  "'r platform_env \<Rightarrow> audit_row list \<Rightarrow> ('r, 'z, (audit_row \<times> audit_user option) list) platform_prog" where
  "audit_authors env [] = ret []"
| "audit_authors env (a # rows) = seq (audit_author env a) (\<lambda>x. seq (audit_authors env rows) (\<lambda>xs. ret (x # xs)))"

definition audit_list ::
  "'r platform_env \<Rightarrow> list_audit \<Rightarrow> ('r, 'z, (audit_row \<times> audit_user option) page) platform_prog" where
  "audit_list env q =
     seq (on_audit (list_page (pe_audit env) (audit_where q) audit_newest_first q)) (\<lambda>pg.
     seq (audit_authors env (fst pg)) (\<lambda>rows. ret (rows, snd pg)))"

section \<open>What the trail holds\<close>

lemma own_keys_read: "read_key v k \<noteq> Undefined \<Longrightarrow> k \<in> set (own_keys v)"
proof (cases v)
  case (JObj c ps)
  then show "read_key v k \<noteq> Undefined \<Longrightarrow> ?thesis" by (auto split: option.splits dest: map_of_SomeD intro: rev_image_eqI)
qed (auto split: option.splits dest: find_SomeD)

lemma change_listed:
  "map_of (audit_changes json previous new) k =
    (if k \<notin> set redacted_fields \<and> json (read_key previous k) \<noteq> json (read_key new k)
     then Some (change_of (read_key previous k) (read_key new k)) else None)"
proof -
  let ?keys = "filter (\<lambda>k. k \<notin> set redacted_fields \<and> json (read_key previous k) \<noteq> json (read_key new k))
         (js_unique (own_keys previous @ own_keys new))"
  have "k \<in> set (own_keys previous @ own_keys new)" if "json (read_key previous k) \<noteq> json (read_key new k)"
    using that own_keys_read [of previous k] own_keys_read [of new k] by (cases "read_key previous k = Undefined"; cases "read_key new k = Undefined") auto
  then have "k \<in> set ?keys \<longleftrightarrow> k \<notin> set redacted_fields \<and> json (read_key previous k) \<noteq> json (read_key new k)"
    by (auto simp: set_js_unique)
  then show ?thesis by (simp add: audit_changes_def map_of_map_restrict [unfolded comp_def] restrict_map_def)
qed

lemma absent_before: "v \<in> {Undefined, Null} \<Longrightarrow> audit_changes json (JObj PlainObject []) new = audit_changes json v new"
  by (auto simp: audit_changes_def)

lemma recorded_changes:
  "get_prop (get_prop (ad_metadata (audit_row_of json now e)) ''changes'') k =
    (if is_record (ae_after e) \<and> k \<notin> set redacted_fields \<and>
        json (read_key (ae_before e) k) \<noteq> json (read_key (ae_after e) k)
     then change_of (read_key (ae_before e) k) (read_key (ae_after e) k) else Undefined)"
proof -
  have "get_prop (get_prop (ad_metadata (audit_row_of json now e)) ''changes'') k =
      (if is_record (ae_after e)
       then case map_of (audit_changes json (ae_before e) (ae_after e)) k of Some v \<Rightarrow> v | None \<Rightarrow> Undefined else Undefined)"
    by (auto simp: audit_row_of_def audit_diff_def Let_def absent_before)
  then show ?thesis using change_listed [of json "ae_before e" "ae_after e" k] by simp
qed

text \<open>
  What the table asks of a row (\<open>model AuditLog\<close>): the columns are bounded, and the actor is one of the users.
\<close>

definition audit_columns_fit :: "user_row list \<Rightarrow> audit_row \<Rightarrow> bool" where
  "audit_columns_fit users a \<longleftrightarrow>
     (\<forall>i\<in>set_option (ad_user_id a). \<exists>u\<in>set users. us_id u = i) \<and>
     length (ad_action a) \<le> 80 \<and> length (ad_entity_type a) \<le> 60 \<and>
     (\<forall>i\<in>set_option (ad_entity_id a). length i \<le> 64) \<and> (\<forall>i\<in>set_option (ad_ip_address a). length i \<le> 64) \<and>
     (\<forall>i\<in>set_option (ad_request_id a). length i \<le> 128)"

text \<open>
  C39: An audited change fails no operation, and its row names what changed. The call answers whatever the table does: where
  the table is up and the row keeps the bounds of its columns and names an existing user, one row is added, else the
  trail is as before and nothing tells the caller. In the row, under a field name of the compared values, stand the old and
  the new value exactly when the field is not one of the redacted ones and its two values differ as JSON. Only the fields
  of the compared values themselves are held back, not those of objects within them (\<open>nested_secret_recorded\<close>).
\<close>

theorem audit_row_exact:
  fixes env :: "'r platform_env" and json :: "js_value \<Rightarrow> string option" and now :: int and e :: audit_entry and w :: "('r, 'z) platform_scheme"
  defines "row \<equiv> audit_row_of json now e"
  assumes table: "\<And>a rows. tb_create (pe_audit env) a rows =
      (if up \<and> audit_columns_fit (db_users w) a then (Return a, rows @ [a]) else (Throw (refusal a), rows))"
  shows "audit_record env json now e w =
      (Return (), w\<lparr>db_audit := db_audit w @ (if up \<and> audit_columns_fit (db_users w) row then [row] else [])\<rparr>) \<and>
    ad_user_id row = ae_actor_id e \<and> ad_action row = ae_action e \<and> ad_entity_type row = ae_entity_type e \<and>
    ad_entity_id row = ae_entity_id e \<and>
    get_prop (get_prop (ad_metadata row) ''changes'') k =
      (if is_record (ae_after e) \<and> k \<notin> set redacted_fields \<and>
          json (read_key (ae_before e) k) \<noteq> json (read_key (ae_after e) k)
       then change_of (read_key (ae_before e) k) (read_key (ae_after e) k) else Undefined)"
  unfolding row_def recorded_changes
  by (simp add: audit_record_def seq_def catch_def on_simps table) (simp add: audit_row_of_def)

text \<open>A secret inside a field that is compared as a whole is written out with it.\<close>

lemma nested_secret_recorded:
  fixes old_hash new_hash :: string and a t :: string
  defines "e \<equiv> \<lparr>ae_actor_id = None, ae_action = a, ae_entity_type = t, ae_entity_id = None,
      ae_before = JObj PlainObject [(''account'', JObj PlainObject [(''passwordHash'', JStr old_hash)])],
      ae_after = JObj PlainObject [(''account'', JObj PlainObject [(''passwordHash'', JStr new_hash)])],
      ae_ip_address = None, ae_user_agent = None, ae_request_id = None\<rparr>"
  assumes "json (JObj PlainObject [(''passwordHash'', JStr old_hash)]) \<noteq> json (JObj PlainObject [(''passwordHash'', JStr new_hash)])"
  shows "get_prop (get_prop (ad_metadata (audit_row_of json now e)) ''changes'') ''account'' =
    JObj PlainObject [(''from'', JObj PlainObject [(''passwordHash'', JStr old_hash)]),
      (''to'', JObj PlainObject [(''passwordHash'', JStr new_hash)])]"
  using assms(2) by (simp add: recorded_changes e_def redacted_fields_def change_of_def audit_truncate_def)

definition demo_edit :: audit_entry where
  "demo_edit =
     \<lparr>ae_actor_id = None, ae_action = ''user.updated'', ae_entity_type = ''user'', ae_entity_id = Some ''u2'',
      ae_before = JObj PlainObject [(''name'', JStr ''Ann''), (''passwordHash'', JStr ''x'')],
      ae_after = JObj PlainObject [(''name'', JStr ''Bea''), (''passwordHash'', JStr ''y'')],
      ae_ip_address = None, ae_user_agent = None, ae_request_id = None\<rparr>"

text \<open>A trail that checks its rows, over a platform without users: the second entry names an actor that is none of them.\<close>

definition checked_trail :: "mem platform_env" where
  "checked_trail = mem_platform\<lparr>pe_audit := (mem_table no_clash)\<lparr>tb_create := (\<lambda>a rows.
     if audit_columns_fit [] a then (Return a, rows @ [a]) else (Throw (prisma_error ''P2003''), rows))\<rparr>\<rparr>"

theorem audit_row_exact_witness:
  "(\<exists>row. db_audit (snd (audit_record checked_trail string_of 5 demo_edit empty_platform)) = [row] \<and>
      get_prop (get_prop (ad_metadata row) ''changes'') ''passwordHash'' = Undefined) \<and>
    audit_record checked_trail string_of 5 (demo_edit\<lparr>ae_actor_id := Some ''u1''\<rparr>) empty_platform = (Return (), empty_platform)"
proof -
  have table: "tb_create (pe_audit checked_trail) a rows =
      (if True \<and> audit_columns_fit (db_users empty_platform) a then (Return a, rows @ [a])
       else (Throw (prisma_error ''P2003''), rows))" for a rows
    by (simp add: checked_trail_def empty_platform_def)
  note law = audit_row_exact [where env = checked_trail and w = empty_platform and up = True and refusal = "\<lambda>_. prisma_error ''P2003''", OF table]
  let ?row = "audit_row_of string_of 5 demo_edit"
  have fits: "audit_columns_fit (db_users empty_platform) ?row"
    "\<not> audit_columns_fit (db_users empty_platform) (audit_row_of string_of 5 (demo_edit\<lparr>ae_actor_id := Some ''u1''\<rparr>))"
    by (simp_all add: audit_columns_fit_def audit_row_of_def demo_edit_def empty_platform_def)
  show ?thesis
    using law [where json = string_of and now = 5 and e = demo_edit and k = "''passwordHash''"]
      law [where json = string_of and now = 5 and e = "demo_edit\<lparr>ae_actor_id := Some ''u1''\<rparr>" and k = "[]"] fits
    by (auto simp: redacted_fields_def empty_platform_def)
qed

end
