(* ===== verification/Calendar.thy ===== *)
theory Calendar
  imports Js_Values
begin

text \<open>
  What the sources use of \<open>Date\<close> in UTC: the month of an instant and the first instant of a month. A month is the number
  \<open>12 * year + month\<close>, an instant a number of milliseconds since 1970.
\<close>

section \<open>Months and days\<close>

definition leap_days :: "int \<Rightarrow> int" where
  "leap_days n = n div 4 - n div 100 + n div 400"

definition is_leap :: "int \<Rightarrow> bool" where
  "is_leap y \<longleftrightarrow> 4 dvd y \<and> (\<not> 100 dvd y \<or> 400 dvd y)"

text \<open>The days from the first of January 1970 to the first of January of a year.\<close>

definition year_first :: "int \<Rightarrow> int" where
  "year_first y = 365 * (y - 1970) + leap_days (y - 1) - leap_days 1969"

definition month_offset :: "bool \<Rightarrow> int \<Rightarrow> int" where
  "month_offset leap k =
     [0, 31, 59, 90, 120, 151, 181, 212, 243, 273, 304, 334, 365] ! nat k + (if leap \<and> 2 \<le> k then 1 else 0)"

definition month_first :: "int \<Rightarrow> int" where
  "month_first m = year_first (m div 12) + month_offset (is_leap (m div 12)) (m mod 12)"

definition year_of_day :: "int \<Rightarrow> int" where
  "year_of_day d =
     (let y = 1970 + (400 * d) div 146097
      in if d < year_first y then y - 1 else if year_first (y + 1) \<le> d then y + 1 else y)"

definition month_in_year :: "bool \<Rightarrow> int \<Rightarrow> int" where
  "month_in_year leap r =
     int (length (takeWhile (\<lambda>k. month_offset leap k \<le> r) [1..11]))"

definition month_of_day :: "int \<Rightarrow> int" where
  "month_of_day d = (let y = year_of_day d in 12 * y + month_in_year (is_leap y) (d - year_first y))"

text \<open>The month of an instant, the first instant of a month, and the key \<open>YYYY-MM\<close> of a month.\<close>

definition day_length :: int where
  "day_length = 86400000"

definition month_of :: "int \<Rightarrow> int" where
  "month_of t = month_of_day (t div day_length)"

definition month_start :: "int \<Rightarrow> int" where
  "month_start m = day_length * month_first m"

definition month_key :: "int \<Rightarrow> string" where
  "month_key m =
     (let k = show_int (m mod 12 + 1)
      in show_int (m div 12) @ ''-'' @ (if length k < 2 then CHR ''0'' # k else k))"

section \<open>The month of an instant is the one it lies in\<close>

lemma div_bounds:
  assumes "0 < (k :: int)"
  shows "k * (x div k) \<le> x" "x < k * (x div k) + k"
  using mult_div_mod_eq [of k x] pos_mod_sign [OF assms, of x] pos_mod_bound [OF assms, of x] by linarith+

lemma leap_days_bounds: "97 * n - 699 \<le> 400 * leap_days n" "400 * leap_days n \<le> 97 * n + 396"
proof -
  have "4 * (n div 4) \<le> n" "n \<le> 4 * (n div 4) + 3" by presburger+
  moreover have "100 * (n div 100) \<le> n" "n \<le> 100 * (n div 100) + 99" by presburger+
  moreover have "400 * (n div 400) \<le> n" "n \<le> 400 * (n div 400) + 399" by presburger+
  ultimately have "97 * n - 699 \<le> 400 * (n div 4) - 400 * (n div 100) + 400 * (n div 400) \<and>
      400 * (n div 4) - 400 * (n div 100) + 400 * (n div 400) \<le> 97 * n + 396"
    by (intro conjI; linarith)
  then show "97 * n - 699 \<le> 400 * leap_days n" "400 * leap_days n \<le> 97 * n + 396" by (simp_all add: leap_days_def)
qed

lemma leap_days_1969: "leap_days 1969 = 477"
  by (simp add: leap_days_def)

lemma div_pred:
  assumes "0 < (k :: int)"
  shows "y div k - (y - 1) div k = (if k dvd y then 1 else 0)"
proof (cases "k dvd y")
  case True
  then obtain j where j: "y = k * j" by (auto elim: dvdE)
  have "(k * j - 1) div k = j - 1" using assms by (intro int_div_pos_eq [of _ _ _ "k - 1"]) (auto simp: algebra_simps)
  then show ?thesis using assms j by simp
next
  case False
  then have "0 < y mod k" using assms by (simp add: dvd_eq_mod_eq_0 order_less_le)
  moreover have "y mod k < k" using assms by simp
  moreover have "y = k * (y div k) + y mod k" by simp
  ultimately have "(y - 1) div k = y div k"
    by (intro int_div_pos_eq [of _ _ _ "y mod k - 1"]) linarith+
  then show ?thesis using False by simp
qed

lemma year_first_Suc: "year_first (y + 1) = year_first y + (if is_leap y then 366 else 365)"
proof -
  have "leap_days y - leap_days (y - 1) = (if is_leap y then 1 else 0)"
  proof -
    have "y div 4 - (y - 1) div 4 = (if 4 dvd y then 1 else 0)" "y div 100 - (y - 1) div 100 = (if 100 dvd y then 1 else 0)"
      "y div 400 - (y - 1) div 400 = (if 400 dvd y then 1 else 0)"
      using div_pred [of 4 y] div_pred [of 100 y] div_pred [of 400 y] by simp_all
    moreover have "400 dvd y \<Longrightarrow> 100 dvd y" "100 dvd y \<Longrightarrow> 4 dvd y"
      using dvd_trans [of 100 400 y] dvd_trans [of 4 100 y] by simp_all
    ultimately show ?thesis unfolding leap_days_def is_leap_def
      by (cases "4 dvd y"; cases "100 dvd y"; cases "400 dvd y"; simp only: if_True if_False simp_thms; linarith)
  qed
  then show ?thesis by (simp add: year_first_def algebra_simps)
qed

lemma year_of_day_bounds: "year_first (year_of_day d) \<le> d" "d < year_first (year_of_day d + 1)"
proof -
  define e where "e = (400 * d) div 146097"
  have e: "146097 * e \<le> 400 * d" "400 * d < 146097 * e + 146097" unfolding e_def using div_bounds [of 146097 "400 * d"] by simp_all
  have low: "146097 * k - 506 \<le> 400 * year_first (1970 + k)" and high: "400 * year_first (1970 + k) \<le> 146097 * k + 589" for k
    using leap_days_bounds [of "1969 + k"] by (simp_all add: year_first_def leap_days_1969 algebra_simps)
  have "year_first (1970 + e - 1) \<le> d" using high [of "e - 1"] e by (simp add: algebra_simps)
  moreover have "d < year_first (1970 + e + 1 + 1)" using low [of "e + 2"] e by (simp add: algebra_simps)
  ultimately show "year_first (year_of_day d) \<le> d" "d < year_first (year_of_day d + 1)"
    by (auto simp: year_of_day_def Let_def e_def)
qed

lemma month_in_year_bounds:
  assumes "0 \<le> r" and "r < (if leap then 366 else 365)"
  shows "0 \<le> month_in_year leap r" "month_in_year leap r < 12"
    "month_offset leap (month_in_year leap r) \<le> r" "r < month_offset leap (month_in_year leap r + 1)"
proof -
  let ?P = "\<lambda>k. month_offset leap k \<le> r" and ?ks = "[1..11] :: int list"
  let ?n = "length (takeWhile ?P ?ks)"
  have len: "?n \<le> 11" using length_takeWhile_le [of ?P ?ks] by simp
  have m: "month_in_year leap r = int ?n" by (simp add: month_in_year_def)
  show "0 \<le> month_in_year leap r" "month_in_year leap r < 12" using len by (simp_all add: m)
  show "month_offset leap (month_in_year leap r) \<le> r"
  proof (cases ?n)
    case 0
    then show ?thesis using assms by (simp add: m month_offset_def)
  next
    case (Suc i)
    then have "takeWhile ?P ?ks ! i = 1 + int i" using len by (simp add: takeWhile_nth)
    moreover have "takeWhile ?P ?ks ! i \<in> set (takeWhile ?P ?ks)" using Suc by (intro nth_mem) simp
    ultimately have "?P (1 + int i)" using set_takeWhileD by metis
    then show ?thesis using Suc by (simp add: m)
  qed
  show "r < month_offset leap (month_in_year leap r + 1)"
  proof (cases "?n = 11")
    case True
    then have "month_in_year leap r = 11" using m by linarith
    then show ?thesis using assms by (cases leap) (simp_all add: month_offset_def)
  next
    case False
    then have "?n < length ?ks" using len by simp
    then have "\<not> ?P (?ks ! ?n)" by (rule nth_length_takeWhile)
    moreover have "?ks ! ?n = 1 + int ?n" using len False by (intro nth_upto) linarith
    ultimately show ?thesis by (simp add: m add.commute)
  qed
qed

lemma month_first_year_end: "month_first (12 * y + 12) = year_first y + month_offset (is_leap y) 12"
proof -
  have "(12 * y + 12) div 12 = y + 1" "(12 * y + 12) mod 12 = 0" by presburger+
  then show ?thesis by (simp add: month_first_def year_first_Suc month_offset_def)
qed

lemma month_first_in_year:
  assumes "0 \<le> k" and "k \<le> 12"
  shows "month_first (12 * y + k) = year_first y + month_offset (is_leap y) k"
proof (cases "k = 12")
  case False
  then have "(12 * y + k) div 12 = y" "(12 * y + k) mod 12 = k" using assms by presburger+
  then show ?thesis by (simp add: month_first_def)
qed (simp add: month_first_year_end)

lemma month_of_day_bounds: "month_first (month_of_day d) \<le> d" "d < month_first (month_of_day d + 1)"
proof -
  let ?y = "year_of_day d" let ?r = "d - year_first ?y" let ?k = "month_in_year (is_leap ?y) ?r"
  have r: "0 \<le> ?r" "?r < (if is_leap ?y then 366 else 365)"
    using year_of_day_bounds [of d] year_first_Suc [of ?y] by (auto split: if_splits)
  note k = month_in_year_bounds [OF r]
  have m: "month_of_day d = 12 * ?y + ?k" by (simp add: month_of_day_def Let_def)
  show "month_first (month_of_day d) \<le> d" using month_first_in_year [of ?k ?y] k by (simp add: m)
  show "d < month_first (month_of_day d + 1)" using month_first_in_year [of "?k + 1" ?y] k by (simp add: m add.assoc)
qed

lemma month_first_step: "month_first m < month_first (m + 1)"
proof -
  let ?y = "m div 12" and ?k = "m mod 12"
  have k: "0 \<le> ?k" "?k < 12" by simp_all
  have m: "m = 12 * ?y + ?k" by simp
  have "?k \<in> {0, 1, 2, 3, 4, 5, 6, 7, 8, 9, 10, 11}" using k by (simp only: insert_iff empty_iff) arith
  then have "month_offset (is_leap ?y) ?k < month_offset (is_leap ?y) (?k + 1)"
    by (auto simp: month_offset_def)
  then show ?thesis using month_first_in_year [of ?k ?y] month_first_in_year [of "?k + 1" ?y] k
    by (simp add: add.assoc [symmetric])
qed

lemma month_first_mono: "m < n \<Longrightarrow> month_first m < month_first n"
proof -
  have "month_first m < month_first (m + int (Suc j))" for j
  proof (induction j)
    case 0
    then show ?case using month_first_step [of m] by simp
  next
    case (Suc j)
    then show ?case using month_first_step [of "m + int (Suc j)"] by (simp add: algebra_simps)
  qed
  from this [of "nat (n - m) - 1"] show "m < n \<Longrightarrow> month_first m < month_first n" by simp
qed

lemma month_of_bounds: "month_start (month_of t) \<le> t" "t < month_start (month_of t + 1)"
proof -
  let ?d = "t div 86400000"
  have "86400000 * ?d \<le> t" "t < 86400000 * (?d + 1)" using div_bounds [of 86400000 t] by simp_all
  then show "month_start (month_of t) \<le> t" "t < month_start (month_of t + 1)"
    using month_of_day_bounds [of ?d] by (simp_all add: month_start_def month_of_def day_length_def)
qed

lemma month_start_mono: "m < n \<Longrightarrow> month_start m < month_start n"
  using month_first_mono by (simp add: month_start_def day_length_def)

lemma month_start_mono_le: "m \<le> n \<Longrightarrow> month_start m \<le> month_start n"
  using month_start_mono [of m n] by (cases "m = n") auto

text \<open>An instant is in the month whose bounds it lies between.\<close>

lemma month_of_iff: "month_of t = m \<longleftrightarrow> month_start m \<le> t \<and> t < month_start (m + 1)"
proof
  assume "month_start m \<le> t \<and> t < month_start (m + 1)"
  moreover have "\<not> month_of t < m" "\<not> m < month_of t"
    using month_of_bounds [of t] month_start_mono_le [of "month_of t + 1" m] month_start_mono_le [of "m + 1" "month_of t"]
      calculation by linarith+
  ultimately show "month_of t = m" by simp
qed (use month_of_bounds in auto)

lemma month_start_le_iff: "month_start m \<le> t \<longleftrightarrow> m \<le> month_of t"
  using month_of_bounds [of t] month_start_mono_le [of m "month_of t"] month_start_mono_le [of "month_of t + 1" m] by linarith

end
