(* ===== verification/Dashboard.thy ===== *)
theory Dashboard
  imports Listing_Laws Leads Calendar
begin

text \<open>
  \<open>modules/admin/admin.service.ts\<close>: the statistics of the dashboard, computed from the listings, the users and the leads. A stage
  of an aggregation is a function of the documents the pipeline matched. MongoDB promises no order between groups of the same
  size; here they stand in the order in which the collection first names them.
\<close>

section \<open>Groups and averages\<close>

definition groups :: "('a \<Rightarrow> 'k) \<Rightarrow> 'a list \<Rightarrow> ('k \<times> 'a list) list" where
  "groups key xs = map (\<lambda>k. (k, filter (\<lambda>x. key x = k) xs)) (js_unique (map key xs))"

definition group_counts :: "('a \<Rightarrow> 'k) \<Rightarrow> 'a list \<Rightarrow> ('k \<times> nat) list" where
  "group_counts key xs = map (\<lambda>(k, ys). (k, length ys)) (groups key xs)"

definition average :: "int list \<Rightarrow> rat" where
  "average ns = of_int (sum_list ns) / of_nat (length ns)"

section \<open>The facets\<close>

definition stats_ttl_seconds :: rat where
  "stats_ttl_seconds = 60"

definition trend_months :: nat where
  "trend_months = 12"

record facet_totals =
  tt_count :: nat
  tt_value :: int
  tt_price :: rat
  tt_per_meter :: rat

record engagement =
  eg_views :: int
  eg_favorites :: int
  eg_leads :: int

record top_area =
  ta_id :: string
  ta_name :: string
  ta_count :: nat
  ta_price :: rat

record top_developer =
  td_id :: string
  td_name :: string
  td_count :: nat

record facet_rows =
  pf_totals :: "facet_totals list"
  pf_status :: "(property_status \<times> nat) list"
  pf_featured :: "nat list"
  pf_new :: "nat list"
  pf_engagement :: "engagement list"
  pf_areas :: "top_area list"
  pf_developers :: "top_developer list"
  pf_trend :: "(string \<times> nat) list"

text \<open>\<open>$count\<close> and \<open>$group\<close> with \<open>_id: null\<close> give no document over none.\<close>

definition count_stage :: "'a list \<Rightarrow> nat list" where
  "count_stage ds = (if ds = [] then [] else [length ds])"

definition totals_stage :: "listing list \<Rightarrow> facet_totals list" where
  "totals_stage ds =
     (if ds = [] then []
      else [\<lparr>tt_count = length ds, tt_value = sum_list (map (lp_amount \<circ> li_price) ds),
             tt_price = average (map (lp_amount \<circ> li_price) ds),
             tt_per_meter = average (map (lp_per_meter \<circ> li_price) ds)\<rparr>])"

definition engagement_stage :: "listing list \<Rightarrow> engagement list" where
  "engagement_stage ds =
     (if ds = [] then []
      else [\<lparr>eg_views = sum_list (map (st_views \<circ> li_stats) ds), eg_favorites = sum_list (map (st_favorites \<circ> li_stats) ds),
             eg_leads = sum_list (map (st_leads \<circ> li_stats) ds)\<rparr>])"

definition areas_stage :: "listing list \<Rightarrow> top_area list" where
  "areas_stage ds =
     take 5 (sort_by (\<lambda>a b. ta_count b \<le> ta_count a)
       (map (\<lambda>(i, ls). \<lparr>ta_id = i, ta_name = lo_area_name (li_location (hd ls)), ta_count = length ls,
                         ta_price = average (map (lp_amount \<circ> li_price) ls)\<rparr>)
         (groups (lo_area_id \<circ> li_location) ds)))"

definition developers_stage :: "listing list \<Rightarrow> top_developer list" where
  "developers_stage ds =
     take 5 (sort_by (\<lambda>a b. td_count b \<le> td_count a)
       (map (\<lambda>(i, ls). \<lparr>td_id = i, td_name = dr_name (li_developer (hd ls)), td_count = length ls\<rparr>)
         (groups (dr_id \<circ> li_developer) ds)))"

definition live :: "listing \<Rightarrow> bool" where
  "live d \<longleftrightarrow> li_deleted_at d = None"

definition facets_of :: "int \<Rightarrow> int \<Rightarrow> listing list \<Rightarrow> facet_rows" where
  "facets_of month_begin trend_begin ds =
     \<lparr>pf_totals = totals_stage ds,
      pf_status = group_counts li_status ds,
      pf_featured = count_stage (filter li_featured ds),
      pf_new = count_stage (filter (\<lambda>d. month_begin \<le> li_created_at d) ds),
      pf_engagement = engagement_stage ds,
      pf_areas = areas_stage ds,
      pf_developers = developers_stage ds,
      pf_trend = group_counts (\<lambda>d. month_key (month_of (li_created_at d))) (filter (\<lambda>d. trend_begin \<le> li_created_at d) ds)\<rparr>"

text \<open>The pipeline reads the documents that \<open>$match\<close> lets through, all of them.\<close>

definition property_facets ::
  "'r platform_env \<Rightarrow> int \<Rightarrow> int \<Rightarrow> ('r, 'z, facet_rows) platform_prog" where
  "property_facets env month_begin trend_begin =
     seq (on_listings (mg_count (pe_listings env) live)) (\<lambda>n.
     seq (on_listings (mg_find (pe_listings env) live natural_order 0 n)) (\<lambda>ds.
       ret (facets_of month_begin trend_begin ds)))"

definition sold_this_month :: "'r platform_env \<Rightarrow> int \<Rightarrow> ('r, 'z, nat) platform_prog" where
  "sold_this_month env month_begin =
     on_listings (mg_count (pe_listings env) (\<lambda>d. live d \<and> li_status d = Sold \<and> month_begin \<le> li_updated_at d))"

text \<open>The raw query groups the leads by the text of their month.\<close>

definition lead_trend :: "'r platform_env \<Rightarrow> int \<Rightarrow> ('r, 'z, (string \<times> nat) list) platform_prog" where
  "lead_trend env since =
     seq (on_leads (tb_find_many (pe_leads env) (\<lambda>l. since \<le> ld_created_at l))) (\<lambda>ls.
       ret (sort_by (\<lambda>a b. pe_collate env (fst a) (fst b)) (group_counts (\<lambda>l. month_key (month_of (ld_created_at l))) ls)))"

text \<open>\<open>monthKeys\<close> moves a cursor month by month.\<close>

definition month_keys :: "int \<Rightarrow> string list" where
  "month_keys start = map (\<lambda>i. month_key (month_of start + int i)) [0..<trend_months]"

section \<open>The statistics\<close>

record month_point =
  mp_month :: string
  mp_listings :: nat
  mp_leads :: nat

record admin_stats =
  as_total :: nat
  as_available :: nat
  as_sold :: nat
  as_reserved :: nat
  as_featured :: nat
  as_new_listings :: nat
  as_sold_this_month :: nat
  as_portfolio_value :: int
  as_avg_price :: int
  as_avg_per_meter :: int
  as_users :: nat
  as_by_role :: "user_role \<Rightarrow> nat"
  as_new_users :: nat
  as_leads :: nat
  as_by_status :: "lead_status \<Rightarrow> nat"
  as_new_leads :: nat
  as_engagement :: engagement
  as_top_areas :: "top_area list"
  as_top_developers :: "top_developer list"
  as_trend :: "month_point list"

definition no_totals :: facet_totals where
  "no_totals = \<lparr>tt_count = 0, tt_value = 0, tt_price = 0, tt_per_meter = 0\<rparr>"

definition no_engagement :: engagement where
  "no_engagement = \<lparr>eg_views = 0, eg_favorites = 0, eg_leads = 0\<rparr>"

definition first_or :: "'a \<Rightarrow> 'a list \<Rightarrow> 'a" where
  "first_or d xs = (case xs of [] \<Rightarrow> d | x # _ \<Rightarrow> x)"

definition looked_up :: "('k \<times> nat) list \<Rightarrow> 'k \<Rightarrow> nat" where
  "looked_up rows k = (case map_of rows k of Some n \<Rightarrow> n | None \<Rightarrow> 0)"

text \<open>A table of counters that starts at zero and is overwritten by the rows.\<close>

definition counters :: "('k \<times> nat) list \<Rightarrow> 'k \<Rightarrow> nat" where
  "counters rows = fold (\<lambda>(k, n) f. f(k := n)) rows (\<lambda>_. 0)"

definition compute_stats :: "'r platform_env \<Rightarrow> int \<Rightarrow> ('r, 'z, admin_stats) platform_prog" where
  "compute_stats env now =
     (let month_begin = month_start (month_of now);
          trend_begin = month_start (month_of month_begin - (int trend_months - 1))
      in seq (property_facets env month_begin trend_begin) (\<lambda>facets.
         seq (on_users (tb_find_many (pe_users env) (\<lambda>_. True))) (\<lambda>users.
         seq (on_users (tb_count (pe_users env) (\<lambda>u. month_begin \<le> us_created_at u))) (\<lambda>new_users.
         seq (on_leads (tb_find_many (pe_leads env) (\<lambda>_. True))) (\<lambda>leads.
         seq (on_leads (tb_count (pe_leads env) (\<lambda>l. month_begin \<le> ld_created_at l))) (\<lambda>new_leads.
         seq (lead_trend env trend_begin) (\<lambda>leads_by_month.
         seq (sold_this_month env month_begin) (\<lambda>sold.
           let totals = first_or no_totals (pf_totals facets);
               by_status = looked_up (pf_status facets);
               user_groups = group_counts us_role users;
               lead_groups = group_counts ld_status leads
           in ret
             \<lparr>as_total = tt_count totals, as_available = by_status Available, as_sold = by_status Sold,
              as_reserved = by_status Reserved, as_featured = first_or 0 (pf_featured facets),
              as_new_listings = first_or 0 (pf_new facets), as_sold_this_month = sold,
              as_portfolio_value = tt_value totals, as_avg_price = round_rat (tt_price totals),
              as_avg_per_meter = round_rat (tt_per_meter totals),
              as_users = sum_list (map snd user_groups), as_by_role = counters user_groups, as_new_users = new_users,
              as_leads = sum_list (map snd lead_groups), as_by_status = counters lead_groups, as_new_leads = new_leads,
              as_engagement = first_or no_engagement (pf_engagement facets),
              as_top_areas = map (\<lambda>a. a\<lparr>ta_price := of_int (round_rat (ta_price a))\<rparr>) (pf_areas facets),
              as_top_developers = pf_developers facets,
              as_trend = map (\<lambda>k. \<lparr>mp_month = k, mp_listings = looked_up (pf_trend facets) k,
                                    mp_leads = looked_up leads_by_month k\<rparr>) (month_keys trend_begin)\<rparr>))))))))"

definition dashboard_stats ::
  "admin_stats codec \<Rightarrow> 'r platform_env \<Rightarrow> int \<Rightarrow> ('r, 'z, admin_stats option) platform_prog" where
  "dashboard_stats cd env now =
     cached_list cd env now (JObj PlainObject [(''entity'', JStr ''admin-stats'')]) stats_ttl_seconds (compute_stats env now)"

section \<open>Groups count what they group\<close>

lemma map_of_groups: "map_of (groups key xs) k = (if k \<in> key ` set xs then Some (filter (\<lambda>x. key x = k) xs) else None)"
proof -
  have "map_of (map (\<lambda>k. (k, f k)) ks) k = (if k \<in> set ks then Some (f k) else None)" for f :: "'b \<Rightarrow> 'a list" and ks
    by (induction ks) auto
  then show ?thesis by (simp add: groups_def)
qed

lemma map_of_map_snd: "map_of (map (\<lambda>(k, y). (k, f y)) rows) k = map_option f (map_of rows k)"
  by (induction rows) auto

lemma map_of_group_counts: "map_of (group_counts key xs) k = map_option length (map_of (groups key xs) k)"
  by (simp add: group_counts_def map_of_map_snd)

lemma filter_key_none: "k \<notin> key ` set xs \<Longrightarrow> filter (\<lambda>x. key x = k) xs = []"
  by (auto simp: filter_empty_conv)

lemma looked_up_groups: "looked_up (group_counts key xs) k = length (filter (\<lambda>x. key x = k) xs)"
  by (auto simp: looked_up_def map_of_group_counts map_of_groups filter_empty_conv)

lemma looked_up_permuted:
  assumes "distinct (map fst rows)" and "mset rows' = mset rows"
  shows "looked_up rows' k = looked_up rows k"
proof -
  have "distinct (map fst rows')" using assms by (metis mset_eq_imp_distinct_iff mset_map)
  moreover have "set rows' = set rows" using assms(2) by (rule mset_eq_setD)
  ultimately have "map_of rows' = map_of rows" using assms(1) 
    by (intro map_of_eqI ballI) (simp, metis map_of_eq_Some_iff not_None_eq)
  then show ?thesis by (simp add: looked_up_def)
qed

lemma fst_group_counts: "map fst (group_counts key xs) = js_unique (map key xs)"
  by (simp add: group_counts_def groups_def comp_def)

lemma counters_lookup:
  assumes "distinct (map fst rows)"
  shows "counters rows k = looked_up rows k"
proof -
  have "fold (\<lambda>(k, n) f. f(k := n)) rows f k = (case map_of rows k of Some n \<Rightarrow> n | None \<Rightarrow> f k)" for f
    using assms
  proof (induction rows arbitrary: f)
    case (Cons r rows)
    obtain j n where r: "r = (j, n)" by force
    have "map_of rows j = None" using Cons.prems r by (simp add: map_of_eq_None_iff)
    then show ?case using Cons r by (auto split: option.split)
  qed simp
  then show ?thesis by (simp add: counters_def looked_up_def)
qed

lemma counters_groups: "counters (group_counts key xs) k = length (filter (\<lambda>x. key x = k) xs)"
  by (simp add: counters_lookup fst_group_counts looked_up_groups)

lemma sum_groups: "sum_list (map snd (group_counts key xs)) = length xs"
proof -
  have "(\<Sum>k\<leftarrow>ks. length (filter (\<lambda>x. key x = k) xs)) = length xs" if "distinct ks" "key ` set xs \<subseteq> set ks" for ks
    using that
  proof (induction xs)
    case (Cons x xs)
    have "(\<Sum>k\<leftarrow>ks. length (filter (\<lambda>y. key y = k) (x # xs))) =
      (\<Sum>k\<leftarrow>ks. (if k = key x then 1 else 0) + length (filter (\<lambda>y. key y = k) xs))"
      by (intro arg_cong [where f = sum_list] map_cong) auto
    also have "\<dots> = (\<Sum>k\<leftarrow>ks. if k = key x then 1 else 0) + length xs"
      using Cons by (simp add: sum_list_addf)
    also have "(\<Sum>k\<leftarrow>ks. if k = key x then 1 else (0 :: nat)) = 1"
      using Cons.prems by (simp add: sum_list_distinct_conv_sum_set)
    finally show ?case by simp
  qed simp
  from this [of "js_unique (map key xs)"] show ?thesis by (simp add: group_counts_def groups_def comp_def)
qed

section \<open>Months have different keys\<close>

lemma two_digits:
  assumes "n < 100"
  shows "(if length (show_nat n) < 2 then CHR ''0'' # show_nat n else show_nat n) = [digit_char (n div 10), digit_char (n mod 10)]"
proof (cases "n < 10")
  case True
  moreover have "digit_char 0 = CHR ''0''" by code_simp
  ultimately show ?thesis by (simp add: show_nat.simps [of n])
next
  case False
  then have "n div 10 < 10" using assms by linarith
  then show ?thesis using False by (simp add: show_nat.simps [of n] show_nat.simps [of "n div 10"])
qed

lemma month_key_digits:
  "month_key m = show_int (m div 12) @ ''-'' @
     [digit_char (nat (m mod 12 + 1) div 10), digit_char (nat (m mod 12 + 1) mod 10)]"
proof -
  have k: "0 \<le> m mod 12" "m mod 12 < 12" by simp_all
  then have "nat (m mod 12 + 1) < 100" by linarith
  moreover have "\<not> m mod 12 + 1 < 0" using k by linarith
  then have "show_int (m mod 12 + 1) = show_nat (nat (m mod 12 + 1))" by (simp only: show_int_def if_False)
  ultimately show ?thesis using two_digits [of "nat (m mod 12 + 1)"] by (simp only: month_key_def Let_def)
qed

lemma month_key_inj: "month_key m = month_key n \<longleftrightarrow> m = n"
proof
  let ?m = "nat (m mod 12 + 1)" and ?n = "nat (n mod 12 + 1)"
  have small: "?m div 10 < 10" "?n div 10 < 10"
    using pos_mod_bound [of 12 m] pos_mod_bound [of 12 n] by linarith+
  assume "month_key m = month_key n"
  then have year: "show_int (m div 12) = show_int (n div 12)"
    and d: "digit_char (?m div 10) = digit_char (?n div 10)" "digit_char (?m mod 10) = digit_char (?n mod 10)"
    by (simp_all add: month_key_digits)
  have "?m div 10 = ?n div 10" "?m mod 10 = ?n mod 10"
    using arg_cong [OF d(1), of digit_val] arg_cong [OF d(2), of digit_val] small by simp_all
  then have "?m = ?n" by (metis div_mult_mod_eq)
  moreover have "0 \<le> m mod 12" "0 \<le> n mod 12" by simp_all
  ultimately have "m mod 12 = n mod 12" by linarith
  moreover have "m div 12 = n div 12" using year by (simp add: show_int_inj)
  ultimately show "m = n" by (metis div_mult_mod_eq)
qed simp

section \<open>The dashboard counts what is there\<close>

lemma sort_by_natural: "sort_by natural_order xs = xs"
proof (induction xs)
  case (Cons x xs)
  have "insert_by natural_order x xs = x # xs" by (cases xs) (simp_all add: natural_order_def)
  with Cons show ?case by (simp add: sort_by_def)
qed (simp add: sort_by_def)

lemma month_begin_of: "month_of (month_start m) = m"
  using month_start_mono [of m "m + 1"] by (simp add: month_of_iff)

lemma first_count: "first_or 0 (count_stage xs) = length xs"
  by (simp add: first_or_def count_stage_def)

lemma trend_count:
  assumes "0 \<le> i"
  shows "looked_up (group_counts (\<lambda>x. month_key (month_of (created x))) (filter (\<lambda>x. month_start m \<le> created x) xs)) (month_key (m + i)) =
    length (filter (\<lambda>x. month_of (created x) = m + i) xs)"
proof -
  have "(month_start m \<le> created x \<and> month_key (month_of (created x)) = month_key (m + i)) = (month_of (created x) = m + i)" for x
    using assms by (auto simp: month_key_inj month_start_le_iff)
  then show ?thesis by (simp add: looked_up_groups filter_filter conj_commute)
qed

lemma lead_trend_eq:
  assumes "table_ok lead_clash (pe_leads env)"
  shows "\<exists>rows. lead_trend env since w = (Return rows, w) \<and>
    (\<forall>k. looked_up rows k =
      looked_up (group_counts (\<lambda>l. month_key (month_of (ld_created_at l))) (filter (\<lambda>l. since \<le> ld_created_at l) (db_leads w))) k)"
  by (simp add: lead_trend_def on_leads_def part_def seq_def table_okD [OF assms] looked_up_permuted fst_group_counts)

lemma sum_list_first: "tt_value (first_or no_totals (totals_stage ds)) = (\<Sum>d\<leftarrow>ds. lp_amount (li_price d))"
  "tt_count (first_or no_totals (totals_stage ds)) = length ds"
  "eg_views (first_or no_engagement (engagement_stage ds)) = (\<Sum>d\<leftarrow>ds. st_views (li_stats d))"
  "eg_favorites (first_or no_engagement (engagement_stage ds)) = (\<Sum>d\<leftarrow>ds. st_favorites (li_stats d))"
  by (simp_all add: first_or_def totals_stage_def engagement_stage_def no_totals_def no_engagement_def comp_def)

text \<open>
  C28: The dashboard counts what is there, and changes nothing: the live listings in all, by status and of this month, the
  users by role, the leads by status, the value on offer and the views; and the trend has the twelve months up to the current
  one, in order, each with exactly the live listings and the leads created in that month.
\<close>

theorem dashboard_exact:
  assumes ready: "services_ready env v" and mongo: "collection_ok (listing_schema oid) (pe_listings env)"
  shows "\<exists>s. compute_stats env now w = (Return s, w) \<and>
    (let ls = filter live (db_listings w); current = month_of now
     in as_total s = length ls \<and>
        as_available s = length (filter (\<lambda>d. li_status d = Available) ls) \<and>
        as_sold s = length (filter (\<lambda>d. li_status d = Sold) ls) \<and>
        as_new_listings s = length (filter (\<lambda>d. current \<le> month_of (li_created_at d)) ls) \<and>
        as_portfolio_value s = (\<Sum>d\<leftarrow>ls. lp_amount (li_price d)) \<and>
        eg_views (as_engagement s) = (\<Sum>d\<leftarrow>ls. st_views (li_stats d)) \<and>
        as_users s = length (db_users w) \<and>
        (\<forall>r. as_by_role s r = length (filter (\<lambda>u. us_role u = r) (db_users w))) \<and>
        as_leads s = length (db_leads w) \<and>
        (\<forall>t. as_by_status s t = length (filter (\<lambda>l. ld_status l = t) (db_leads w))) \<and>
        as_trend s = map (\<lambda>i. \<lparr>mp_month = month_key (current - 11 + int i),
          mp_listings = length (filter (\<lambda>d. month_of (li_created_at d) = current - 11 + int i) ls),
          mp_leads = length (filter (\<lambda>l. month_of (ld_created_at l) = current - 11 + int i) (db_leads w))\<rparr>) [0..<12])"
proof -
  let ?b = "month_start (month_of now)" and ?t = "month_start (month_of now - 11)"
  obtain rows where rows: "lead_trend env ?t w = (Return rows, w)"
    "\<And>k. looked_up rows k = looked_up (group_counts (\<lambda>l. month_key (month_of (ld_created_at l)))
       (filter (\<lambda>l. ?t \<le> ld_created_at l) (db_leads w))) k"
    using lead_trend_eq [OF ready_leads [OF ready]] by blast
  have facets: "property_facets env ?b ?t w = (Return (facets_of ?b ?t (filter live (db_listings w))), w)"
    by (simp add: property_facets_def on_listings_def part_def seq_def collection_reads [OF mongo] sort_by_natural)
  have leads: "looked_up rows (month_key (month_of now - 11 + int i)) =
      length (filter (\<lambda>l. month_of (ld_created_at l) = month_of now - 11 + int i) (db_leads w))" for i
    by (simp add: rows(2) trend_count)
  show ?thesis
    using facets rows(1)
    by (simp add: compute_stats_def month_begin_of trend_months_def sold_this_month_def on_users_def on_leads_def on_listings_def
        part_def seq_def table_okD [OF ready_users [OF ready]] table_okD [OF ready_leads [OF ready]] collection_reads [OF mongo] Let_def)
      (simp add: facets_of_def first_count sum_list_first looked_up_groups counters_groups sum_groups month_start_le_iff
        month_keys_def month_begin_of trend_months_def leads,
        auto simp: month_key_inj intro!: arg_cong [where f = length] filter_cong)
qed

lemma dashboard_exact_witness:
  "\<exists>s. compute_stats mem_platform 0 (empty_platform\<lparr>db_listings := [demo_listing]\<rparr>) =
    (Return s, empty_platform\<lparr>db_listings := [demo_listing]\<rparr>) \<and> length (as_trend s) = 12"
  using dashboard_exact [OF mem_services_ready mem_listings_ok, of 0 "empty_platform\<lparr>db_listings := [demo_listing]\<rparr>"]
  by (auto simp: Let_def)

end
