(* ===== verification/Web_Url.thy ===== *)
theory Web_Url
  imports Paths
begin

text \<open>
  What the web application uses of the platform for query strings and numbers: \<open>URLSearchParams\<close> (the encoding of forms,
  on the bytes of a text) and \<open>Number\<close> of a text. Numbers are exact: rounding to a double is not modelled.
\<close>

section \<open>The encoding of forms\<close>

definition form_plain :: "char \<Rightarrow> bool" where
  "form_plain c \<longleftrightarrow>
     (let n = (of_char c :: nat)
      in 48 \<le> n \<and> n \<le> 57 \<or> 65 \<le> n \<and> n \<le> 90 \<or> 97 \<le> n \<and> n \<le> 122 \<or> n \<in> {42, 45, 46, 95})"

definition hex_upper :: "nat \<Rightarrow> char" where
  "hex_upper n = (if n < 10 then char_of (48 + n) else char_of (55 + n))"

definition form_char :: "char \<Rightarrow> string" where
  "form_char c =
     (if form_plain c then [c]
      else if c = CHR '' '' then ''+''
      else [CHR ''%'', hex_upper (of_char c div 16), hex_upper (of_char c mod 16)])"

definition form_text :: "string \<Rightarrow> string" where
  "form_text s = concat (map form_char s)"

definition form_encode :: "(string \<times> string) list \<Rightarrow> string" where
  "form_encode ps = join ''&'' (map (\<lambda>(k, v). form_text k @ CHR ''='' # form_text v) ps)"

fun form_decode_text :: "string \<Rightarrow> string" where
  "form_decode_text [] = []"
| "form_decode_text (c # s) =
     (if c = CHR ''+'' then CHR '' '' # form_decode_text s
      else if c = CHR ''%'' then
        (case s of
           a # b # t \<Rightarrow>
             (case (hex_value a, hex_value b) of
                (Some x, Some y) \<Rightarrow> char_of (16 * x + y) # form_decode_text t
              | _ \<Rightarrow> c # form_decode_text s)
         | _ \<Rightarrow> c # form_decode_text s)
      else c # form_decode_text s)"

definition form_pair :: "string \<Rightarrow> string \<times> string" where
  "form_pair s =
     (let name = takeWhile (\<lambda>c. c \<noteq> CHR ''='') s; rest = dropWhile (\<lambda>c. c \<noteq> CHR ''='') s
      in (form_decode_text name, form_decode_text (tl rest)))"

definition form_decode :: "string \<Rightarrow> (string \<times> string) list" where
  "form_decode s =
     (let t = (case s of [] \<Rightarrow> [] | c # u \<Rightarrow> if c = CHR ''?'' then u else s)
      in map form_pair (filter (\<lambda>p. p \<noteq> []) (split_on CHR ''&'' t)))"

text \<open>\<open>get\<close> and \<open>getAll\<close>.\<close>

definition get_all :: "(string \<times> string) list \<Rightarrow> string \<Rightarrow> string list" where
  "get_all ps k = map snd (filter (\<lambda>p. fst p = k) ps)"

definition get_first :: "(string \<times> string) list \<Rightarrow> string \<Rightarrow> string option" where
  "get_first ps k = (case get_all ps k of [] \<Rightarrow> None | v # _ \<Rightarrow> Some v)"

lemma char_value: "(char_of (of_char c :: nat) :: char) = c"
  by simp

lemma byte_halves: "16 * (of_char c div 16) + of_char c mod 16 = (of_char c :: nat)" "(of_char c :: nat) div 16 < 16"
proof -
  have "(of_char c :: nat) < 256" by simp
  then show "(of_char c :: nat) div 16 < 16" by (rule less_mult_imp_div_less [of _ 16 16, simplified])
qed simp

lemma hex_value_upper: "n < 16 \<Longrightarrow> hex_value (hex_upper n) = Some n"
  by (auto simp: hex_upper_def hex_value_def Let_def)

lemma form_plain_neq: "form_plain c \<Longrightarrow> c \<notin> {CHR ''+'', CHR ''%'', CHR ''='', CHR ''&'', CHR ''?''}"
  by (auto simp: form_plain_def)

lemma form_decode_char: "form_decode_text (form_char c @ s) = c # form_decode_text s"
  using form_plain_neq [of c] byte_halves [of c] by (auto simp: form_char_def hex_value_upper)

lemma form_decode_form_text: "form_decode_text (form_text s) = s"
  by (induction s) (simp_all add: form_text_def form_decode_char)

lemma hex_upper_code: "n < 16 \<Longrightarrow> (of_char (hex_upper n) :: nat) = (if n < 10 then 48 + n else 55 + n)"
  by (simp add: hex_upper_def)

lemma hex_upper_plain: "n < 16 \<Longrightarrow> hex_upper n \<notin> {CHR ''='', CHR ''&'', CHR ''?''}"
  using hex_upper_code [of n] by (auto split: if_splits)

lemma form_char_safe: "d \<in> set (form_char c) \<Longrightarrow> d \<notin> {CHR ''='', CHR ''&'', CHR ''?''}"
  using form_plain_neq [of c] hex_upper_plain byte_halves(2) [of c] by (auto simp: form_char_def split: if_splits)

lemma form_text_safe: "CHR ''='' \<notin> set (form_text s)" "CHR ''&'' \<notin> set (form_text s)" "CHR ''?'' \<notin> set (form_text s)"
  using form_char_safe by (force simp: form_text_def)+

lemma form_pair_text: "form_pair (form_text k @ CHR ''='' # form_text v) = (k, v)"
proof -
  have "\<forall>c\<in>set (form_text k). c \<noteq> CHR ''=''" using form_text_safe(1) by metis
  then have "takeWhile (\<lambda>c. c \<noteq> CHR ''='') (form_text k @ CHR ''='' # form_text v) = form_text k"
    "dropWhile (\<lambda>c. c \<noteq> CHR ''='') (form_text k @ CHR ''='' # form_text v) = CHR ''='' # form_text v"
    by (simp_all add: takeWhile_append2 dropWhile_append2)
  then show ?thesis by (simp add: form_pair_def form_decode_form_text)
qed

text \<open>What is written is read back.\<close>

lemma form_decode_encode: "form_decode (form_encode ps) = ps"
proof (cases "ps = []")
  case True
  then show ?thesis by (simp add: form_decode_def form_encode_def)
next
  case False
  let ?parts = "map (\<lambda>(k, v). form_text k @ CHR ''='' # form_text v) ps"
  have clean: "\<forall>w\<in>set ?parts. CHR ''&'' \<notin> set w" using form_text_safe(2) by auto
  have "split_on CHR ''&'' (join ''&'' ?parts) = ?parts" using False clean by (intro split_on_join) auto
  moreover have "filter (\<lambda>p. p \<noteq> []) ?parts = ?parts" by (auto simp: filter_id_conv)
  moreover have "CHR ''?'' \<notin> set (join ''&'' ?parts)"
  proof -
    have "\<forall>w\<in>set ws. CHR ''?'' \<notin> set w \<Longrightarrow> CHR ''?'' \<notin> set (join ''&'' ws)" for ws
      by (induction "''&''" ws rule: join.induct) auto
    then show ?thesis using form_text_safe(3) by auto
  qed
  ultimately show ?thesis
    by (auto simp: form_decode_def form_encode_def Let_def form_pair_text comp_def case_prod_unfold split: list.split)
qed

section \<open>Numbers\<close>

text \<open>
  \<open>Number(text)\<close>: a blank text is 0; then the words for infinity, the three prefixes, and a decimal literal: a sign,
  digits with at most one point, and an exponent.
\<close>

definition digit_of :: "nat \<Rightarrow> char \<Rightarrow> nat option" where
  "digit_of base c = (case hex_value c of Some n \<Rightarrow> if n < base then Some n else None | None \<Rightarrow> None)"

definition digits_value :: "nat \<Rightarrow> string \<Rightarrow> nat option" where
  "digits_value base s =
     (if s = [] \<or> \<not> list_all (\<lambda>c. digit_of base c \<noteq> None) s then None
      else Some (foldl (\<lambda>n c. base * n + the (digit_of base c)) 0 s))"

definition signed :: "string \<Rightarrow> bool \<times> string" where
  "signed s =
     (case s of
        [] \<Rightarrow> (False, s)
      | c # t \<Rightarrow> if c = CHR ''-'' then (True, t) else if c = CHR ''+'' then (False, t) else (False, s))"

definition exponent_value :: "string \<Rightarrow> int option" where
  "exponent_value s = (case signed s of (negative, t) \<Rightarrow>
     map_option (\<lambda>n. if negative then - int n else int n) (digits_value 10 t))"

definition power_of_ten :: "int \<Rightarrow> rat" where
  "power_of_ten e = (if 0 \<le> e then 10 ^ nat e else 1 / 10 ^ nat (- e))"

text \<open>Digits, perhaps a point and more digits; one of the two runs is not empty.\<close>

definition mantissa_value :: "string \<Rightarrow> rat option" where
  "mantissa_value s =
     (let whole = takeWhile (\<lambda>c. c \<noteq> CHR ''.'') s; rest = dropWhile (\<lambda>c. c \<noteq> CHR ''.'') s; part = tl rest
      in if rest = [] then map_option of_nat (digits_value 10 whole)
         else map_option (\<lambda>n. of_nat n / 10 ^ length part) (digits_value 10 (whole @ part)))"

definition unsigned_value :: "string \<Rightarrow> rat option" where
  "unsigned_value s =
     (let mantissa = takeWhile (\<lambda>c. c \<notin> {CHR ''e'', CHR ''E''}) s; rest = dropWhile (\<lambda>c. c \<notin> {CHR ''e'', CHR ''E''}) s
      in case mantissa_value mantissa of
           None \<Rightarrow> None
         | Some m \<Rightarrow>
             if rest = [] then Some m else map_option (\<lambda>e. m * power_of_ten e) (exponent_value (tl rest)))"

definition prefix_base :: "string \<Rightarrow> nat option" where
  "prefix_base s =
     (let p = to_lower (take 2 s)
      in if p = ''0x'' then Some 16 else if p = ''0o'' then Some 8 else if p = ''0b'' then Some 2 else None)"

definition js_number :: "string \<Rightarrow> js_num" where
  "js_number text =
     (let s = trim text
      in if s = [] then Fin 0
         else if s \<in> {''Infinity'', ''+Infinity''} then Infinity False
         else if s = ''-Infinity'' then Infinity True
         else
           (case prefix_base s of
              Some b \<Rightarrow> (case digits_value b (drop 2 s) of Some n \<Rightarrow> Fin (of_nat n) | None \<Rightarrow> NaN)
            | None \<Rightarrow>
                (case signed s of (negative, t) \<Rightarrow>
                   (case unsigned_value t of Some r \<Rightarrow> Fin (if negative then - r else r) | None \<Rightarrow> NaN))))"

text \<open>
  \<open>String(n)\<close> of a number that is written without an exponent: below $10^{21}$, with at most 20 digits after the point.
\<close>

fun decimals :: "nat \<Rightarrow> rat \<Rightarrow> nat" where
  "decimals 0 r = 0"
| "decimals (Suc k) r = (if of_int (floor r) = r then 0 else Suc (decimals k (10 * r)))"

definition pad_zeros :: "nat \<Rightarrow> string \<Rightarrow> string" where
  "pad_zeros k s = replicate (k - length s) CHR ''0'' @ s"

definition unsigned_text :: "rat \<Rightarrow> string" where
  "unsigned_text r =
     (let k = decimals 20 r; n = nat (floor (r * 10 ^ k))
      in if k = 0 then show_nat n
         else show_nat (n div 10 ^ k) @ CHR ''.'' # pad_zeros k (show_nat (n mod 10 ^ k)))"

definition number_text :: "rat \<Rightarrow> string" where
  "number_text r = (if r < 0 then CHR ''-'' # unsigned_text (- r) else unsigned_text r)"

definition plain_number :: "rat \<Rightarrow> bool" where
  "plain_number r \<longleftrightarrow> of_int (floor (r * 10 ^ 20)) = r * 10 ^ 20"

lemma decimals_exact: "of_int (floor (r * 10 ^ k)) = r * 10 ^ k \<Longrightarrow>
  of_int (floor (r * 10 ^ decimals k r)) = r * 10 ^ decimals k r"
  by (induction k r rule: decimals.induct) (auto simp: mult_ac)

lemma digit_of_digit: "is_digit c \<Longrightarrow> digit_of 10 c = Some (digit_val c)"
  by (auto simp: digit_of_def hex_value_def digit_val_def is_digit_def Let_def)

lemma foldl_digits: "\<forall>c\<in>set s. is_digit c \<Longrightarrow>
  foldl (\<lambda>n c. 10 * n + the (digit_of 10 c)) a s = a * 10 ^ length s + read_nat s"
proof (induction s rule: rev_induct)
  case (snoc c s)
  then show ?case by (simp add: read_nat_snoc digit_of_digit algebra_simps)
qed (simp add: read_nat_def)

lemma digits_value_digits: "s \<noteq> [] \<Longrightarrow> \<forall>c\<in>set s. is_digit c \<Longrightarrow> digits_value 10 s = Some (read_nat s)"
  using foldl_digits [of s 0] by (auto simp: digits_value_def list_all_iff digit_of_digit)

lemma read_nat_append: "\<forall>c\<in>set t. is_digit c \<Longrightarrow> read_nat (s @ t) = read_nat s * 10 ^ length t + read_nat t"
proof (induction t rule: rev_induct)
  case (snoc c t)
  then show ?case by (simp add: read_nat_snoc algebra_simps flip: append_assoc)
qed (simp add: read_nat_def)

lemma length_show_nat: "n < 10 ^ k \<Longrightarrow> 0 < k \<Longrightarrow> length (show_nat n) \<le> k"
proof (induction n arbitrary: k rule: show_nat.induct)
  case (1 n)
  show ?case
  proof (cases "n < 10")
    case True
    then show ?thesis using 1 by (simp add: show_nat.simps [of n])
  next
    case False
    with 1 obtain j where j: "k = Suc j" by (cases k) auto
    with 1 False have "n div 10 < 10 ^ j" "0 < j" by (auto simp: less_mult_imp_div_less mult.commute intro: Nat.gr0I)
    then show ?thesis using "1.IH" [OF False, of j] j False by (simp add: show_nat.simps [of n])
  qed
qed

lemma zero_digit: "is_digit CHR ''0''" "digit_val CHR ''0'' = 0"
  by (simp_all add: is_digit_def digit_val_def)

lemma read_zeros: "read_nat (replicate n CHR ''0'') = 0"
proof (induction n)
  case (Suc n)
  then show ?case by (simp only: replicate_append_same [symmetric] replicate_Suc read_nat_snoc) (simp add: zero_digit)
qed (simp add: read_nat_def)

lemma pad_zeros_props: "n < 10 ^ k \<Longrightarrow> 0 < k \<Longrightarrow> length (pad_zeros k (show_nat n)) = k"
  "\<forall>c\<in>set (pad_zeros k (show_nat n)). is_digit c" "read_nat (pad_zeros k (show_nat n)) = n"
  using length_show_nat [of n k] show_nat_digits
  by (auto simp: pad_zeros_def zero_digit read_nat_append read_zeros)

lemma point_not_digit: "\<not> is_digit CHR ''.''" "\<not> is_digit CHR ''e''" "\<not> is_digit CHR ''E''" "\<not> is_digit CHR ''-''" "\<not> is_digit CHR ''+''"
  "\<not> is_digit CHR ''I''"
  by (simp_all add: is_digit_def)

lemma show_nat_digit: "c \<in> set (show_nat n) \<Longrightarrow> is_digit c" "is_digit (hd (show_nat n))"
  using show_nat_digits [of n] by auto

lemma unsigned_text_chars: "\<forall>c\<in>set (unsigned_text r). is_digit c \<or> c = CHR ''.''"
  using show_nat_digit pad_zeros_props(2) by (auto simp: unsigned_text_def Let_def)

lemma unsigned_text_hd: "unsigned_text r \<noteq> [] \<and> is_digit (hd (unsigned_text r))"
  using show_nat_digit by (auto simp: unsigned_text_def Let_def hd_append)

lemma takeWhile_all: "\<forall>c\<in>set s. P c \<Longrightarrow> takeWhile P s = s \<and> dropWhile P s = []"
  by (induction s) auto

lemma unsigned_value_mantissa:
  "\<forall>c\<in>set s. is_digit c \<or> c = CHR ''.'' \<Longrightarrow> unsigned_value s = mantissa_value s"
proof -
  assume a: "\<forall>c\<in>set s. is_digit c \<or> c = CHR ''.''"
  have "takeWhile (\<lambda>c. c \<notin> {CHR ''e'', CHR ''E''}) s = s \<and> dropWhile (\<lambda>c. c \<notin> {CHR ''e'', CHR ''E''}) s = []"
    by (rule takeWhile_all) (use a point_not_digit in auto)
  then show ?thesis
    by (simp add: unsigned_value_def Let_def del: takeWhile_eq_all_conv dropWhile_eq_Nil_conv split: option.split)
qed

lemma unsigned_value_text:
  assumes "plain_number r" "0 \<le> r"
  shows "unsigned_value (unsigned_text r) = Some r"
proof -
  let ?k = "decimals 20 r" and ?n = "nat (floor (r * 10 ^ decimals 20 r))"
  have n: "(of_nat ?n :: rat) = r * 10 ^ ?k" using decimals_exact assms by (simp add: plain_number_def)
  have digits: "takeWhile (\<lambda>c. c \<noteq> CHR ''.'') s = s \<and> dropWhile (\<lambda>c. c \<noteq> CHR ''.'') s = []"
    if "\<forall>c\<in>set s. is_digit c" for s
    by (rule takeWhile_all) (use that point_not_digit in auto)
  show ?thesis
  proof (cases "?k = 0")
    case True
    with n have "(of_nat ?n :: rat) = r" by simp
    moreover have "mantissa_value (show_nat ?n) = Some (of_nat ?n)"
      using digits [OF show_nat_digits, of ?n] by (simp add: mantissa_value_def digits_value_digits show_nat_digits Let_def
          del: takeWhile_eq_all_conv dropWhile_eq_Nil_conv)
    moreover have "unsigned_text r = show_nat ?n" using True by (simp add: unsigned_text_def Let_def)
    ultimately show ?thesis using unsigned_value_mantissa [OF unsigned_text_chars, of r] by simp
  next
    case False
    let ?w = "show_nat (?n div 10 ^ ?k)" and ?f = "pad_zeros ?k (show_nat (?n mod 10 ^ ?k))"
    have f: "length ?f = ?k" using False by (intro pad_zeros_props(1)) auto
    have cut: "takeWhile (\<lambda>c. c \<noteq> CHR ''.'') (?w @ CHR ''.'' # ?f) = ?w" "dropWhile (\<lambda>c. c \<noteq> CHR ''.'') (?w @ CHR ''.'' # ?f) = CHR ''.'' # ?f"
      using show_nat_digits point_not_digit by (subst takeWhile_append2 dropWhile_append2; force)+
    have "read_nat (?w @ ?f) = ?n div 10 ^ ?k * 10 ^ ?k + ?n mod 10 ^ ?k"
      using f by (simp add: read_nat_append pad_zeros_props)
    then have "read_nat (?w @ ?f) = ?n" by (simp only: div_mult_mod_eq)
    moreover have "\<forall>c\<in>set (?w @ ?f). is_digit c" using show_nat_digits pad_zeros_props(2) by auto
    ultimately have "digits_value 10 (?w @ ?f) = Some ?n" using digits_value_digits [of "?w @ ?f"] by simp
    then have "mantissa_value (?w @ CHR ''.'' # ?f) = Some (of_nat ?n / 10 ^ ?k)"
      using cut f by (simp add: mantissa_value_def Let_def)
    moreover have "unsigned_text r = ?w @ CHR ''.'' # ?f" using False by (simp add: unsigned_text_def Let_def)
    ultimately show ?thesis using n unsigned_value_mantissa [OF unsigned_text_chars, of r] by simp
  qed
qed

lemma number_text_chars: "\<forall>c\<in>set (number_text r). is_digit c \<or> c = CHR ''.'' \<or> c = CHR ''-''"
  using unsigned_text_chars by (auto simp: number_text_def)

lemma number_text_solid: "number_text r \<noteq> []" "trim (number_text r) = number_text r" "CHR '','' \<notin> set (number_text r)"
proof -
  have "\<not> js_space c \<and> c \<noteq> CHR '',''" if "c \<in> set (number_text r)" for c
    using number_text_chars that digit_not_space by (force simp: js_space_def is_digit_def)
  then show "trim (number_text r) = number_text r" "CHR '','' \<notin> set (number_text r)" by (auto intro: trim_no_space)
qed (use unsigned_text_hd in \<open>auto simp: number_text_def\<close>)

lemma no_prefix: "prefix_base (number_text r) = None"
proof -
  have "d \<notin> set (to_lower (number_text r))" if "d \<in> {CHR ''x'', CHR ''o'', CHR ''b''}" for d
    using number_text_chars [of r] that by (force simp: to_lower_def char_lower_def is_digit_def Let_def)
  then have "to_lower (take 2 (number_text r)) \<noteq> CHR ''0'' # [d]" if "d \<in> {CHR ''x'', CHR ''o'', CHR ''b''}" for d
    using that by (metis in_set_takeD list.set_intros(1,2) take_map to_lower_def)
  then show ?thesis by (simp add: prefix_base_def Let_def)
qed

text \<open>A number that is written is read back.\<close>

lemma js_number_text:
  assumes "plain_number r"
  shows "js_number (number_text r) = Fin r"
proof -
  have "hd (number_text r) \<noteq> CHR ''I''" "number_text r \<noteq> ''+Infinity''" "number_text r \<noteq> ''-Infinity''"
    using unsigned_text_hd [of r] unsigned_text_hd [of "- r"] number_text_chars [of r] point_not_digit
    by (auto simp: number_text_def is_digit_def split: if_splits)
  then have "js_number (number_text r) =
    (case signed (number_text r) of (negative, t) \<Rightarrow>
       (case unsigned_value t of Some q \<Rightarrow> Fin (if negative then - q else q) | None \<Rightarrow> NaN))"
    using number_text_solid [of r] by (auto simp: js_number_def Let_def no_prefix)
  moreover have "signed (number_text r) = (r < 0, unsigned_text (abs r))"
    using unsigned_text_hd [of r] point_not_digit by (auto simp: number_text_def signed_def split: list.split)
  moreover have "plain_number (abs r)"
    using assms by (auto simp: plain_number_def abs_if) (metis floor_of_int of_int_minus)
  ultimately show ?thesis using unsigned_value_text [of "abs r"] by simp
qed

end
