(* ===== verification/Config.thy ===== *)
theory Config
  imports Tokens Web_Url
begin

text \<open>
  \<open>config/env.schema.ts\<close> and \<open>config/configuration.ts\<close>: the environment is checked once, at boot, and read into the
  configuration tree. What the schema library does is written out: an absent variable takes its default or is reported as
  missing; the checks of a value all run, and each that fails is an issue. The texts of the library's own issues and the URL
  parser are parameters.
\<close>

section \<open>The schema\<close>

record schema_env =
  se_is_url :: "string \<Rightarrow> bool"
  se_min :: "nat \<Rightarrow> string"
  se_max :: "int \<Rightarrow> string"
  se_enum :: "string \<Rightarrow> string"
  se_nan :: string
  se_int :: string
  se_min_number :: "int \<Rightarrow> string"

text \<open>A check gives the message of its issue, if it fails.\<close>

type_synonym check = "string \<Rightarrow> string option"

definition requires :: "string \<Rightarrow> (string \<Rightarrow> bool) \<Rightarrow> check" where
  "requires message p s = (if p s then None else Some message)"

record text_field =
  tf_name :: string
  tf_checks :: "check list"
  tf_default :: "string option"
  tf_refine :: "check list"

text \<open>A refinement that stands after the default also sees the default.\<close>

definition duration_units :: "string list" where
  "duration_units = [''ms'', ''s'', ''m'', ''h'', ''d'', ''w'', ''y'']"

definition duration_pattern :: "string \<Rightarrow> bool" where
  "duration_pattern s \<longleftrightarrow>
     (let rest = to_lower (dropWhile js_space (dropWhile is_digit s))
      in takeWhile is_digit s \<noteq> [] \<and> (rest = [] \<or> rest \<in> set duration_units))"

definition origin_parts :: "string \<Rightarrow> string list" where
  "origin_parts value = filter (\<lambda>p. p \<noteq> []) (map trim (split_on CHR '','' value))"

definition at_least :: "schema_env \<Rightarrow> nat \<Rightarrow> check" where
  "at_least zd n = requires (se_min zd n) (\<lambda>s. n \<le> length s)"

definition origin_list :: "schema_env \<Rightarrow> check list" where
  "origin_list zd =
     [at_least zd 1,
      requires ''must be an absolute URL (or a comma separated list of absolute URLs)''
        (\<lambda>s. list_all (se_is_url zd) (origin_parts s))]"

definition duration_field :: "string \<Rightarrow> string \<Rightarrow> text_field" where
  "duration_field name fallback =
     \<lparr>tf_name = name, tf_checks = [], tf_default = Some fallback,
      tf_refine = [requires (''must be a duration such as '' @ quote ''15m'' @ '', '' @ quote ''30d'' @ '', '' @ quote ''3600s'' @
        '' or a plain number of milliseconds'') (\<lambda>s. duration_pattern (trim s))]\<rparr>"

definition required_text :: "string \<Rightarrow> check list \<Rightarrow> text_field" where
  "required_text name checks = \<lparr>tf_name = name, tf_checks = checks, tf_default = None, tf_refine = []\<rparr>"

definition optional_text :: "string \<Rightarrow> check list \<Rightarrow> string \<Rightarrow> text_field" where
  "optional_text name checks fallback =
     \<lparr>tf_name = name, tf_checks = checks, tf_default = Some fallback, tf_refine = []\<rparr>"

definition secret_check :: check where
  "secret_check = requires ''must be at least 32 characters'' (\<lambda>s. 32 \<le> length s)"

definition node_env_check :: "schema_env \<Rightarrow> check" where
  "node_env_check zd s = requires (se_enum zd s) (\<lambda>v. v \<in> {''development'', ''test'', ''production''}) s"

definition begins_with :: "string list \<Rightarrow> string \<Rightarrow> bool" where
  "begins_with ps s \<longleftrightarrow> list_ex (starts_with s) ps"

definition scheme_check :: "string \<Rightarrow> string list \<Rightarrow> check" where
  "scheme_check kind ps = requires (''must be a '' @ kind @ '':// connection string'') (begins_with ps)"

definition store_address :: "schema_env \<Rightarrow> string \<Rightarrow> string \<Rightarrow> string list \<Rightarrow> text_field" where
  "store_address zd name kind ps = required_text name [at_least zd 1, scheme_check kind ps]"

definition service_token_check :: check where
  "service_token_check = requires ''must be at least 8 characters (shared service-to-service token)'' (\<lambda>s. 8 \<le> length s)"

text \<open>The fields in their order; the two numbers stand between texts.\<close>

datatype schema_field = TextField text_field | NumberField string int "int option" int

definition env_schema :: "schema_env \<Rightarrow> schema_field list" where
  "env_schema zd =
     [TextField (optional_text ''NODE_ENV'' [node_env_check zd] ''development''),
      TextField (optional_text ''APP_ENV'' [at_least zd 1] ''development''),
      NumberField ''PORT'' 1 (Some 65535) 4000,
      TextField (required_text ''FRONTEND_URL'' (origin_list zd)),
      TextField (optional_text ''PUBLIC_API_URL'' [at_least zd 1] ''https://localhost/api/v1''),
      TextField (required_text ''INTERNAL_SERVICE_TOKEN'' [service_token_check]),
      TextField (required_text ''JWT_ACCESS_SECRET'' [secret_check]),
      TextField (required_text ''JWT_REFRESH_SECRET'' [secret_check]),
      TextField (duration_field ''JWT_ACCESS_TTL'' ''15m''),
      TextField (duration_field ''JWT_REFRESH_TTL'' ''30d''),
      TextField (optional_text ''JWT_ISSUER'' [at_least zd 1] ''topchoice-api''),
      TextField (optional_text ''JWT_AUDIENCE'' [at_least zd 1] ''topchoice-clients''),
      TextField (optional_text ''GOOGLE_CLIENT_ID'' [] []),
      TextField (optional_text ''GOOGLE_CLIENT_SECRET'' [] []),
      TextField \<lparr>tf_name = ''GOOGLE_CALLBACK_URL'', tf_checks = [],
        tf_default = Some ''https://localhost/api/v1/auth/google/callback'',
        tf_refine = [requires ''must be an absolute URL'' (\<lambda>s. s = [] \<or> se_is_url zd s)]\<rparr>,
      TextField (store_address zd ''DATABASE_URL'' ''postgresql'' [''postgres://'', ''postgresql://'']),
      TextField (store_address zd ''MONGO_URI'' ''mongodb'' [''mongodb://'', ''mongodb+srv://'']),
      TextField (store_address zd ''REDIS_URL'' ''redis'' [''redis://'', ''rediss://'']),
      NumberField ''REDIS_TTL_DEFAULT'' 1 None 300,
      TextField (optional_text ''AWS_REGION'' [at_least zd 1] ''eu-central-1''),
      TextField (optional_text ''AWS_ACCESS_KEY_ID'' [] []),
      TextField (optional_text ''AWS_SECRET_ACCESS_KEY'' [] []),
      TextField (optional_text ''S3_BUCKET'' [at_least zd 1] ''topchoice-media''),
      TextField (optional_text ''S3_PUBLIC_BASE_URL'' [] []),
      TextField (optional_text ''CLOUDFRONT_DOMAIN'' [] []),
      TextField (optional_text ''API_CORE_URL'' [at_least zd 1] ''http://api-core:4000''),
      TextField (optional_text ''SEARCH_SVC_URL'' [at_least zd 1] ''http://search-svc:8000''),
      TextField (optional_text ''RAG_SVC_URL'' [at_least zd 1] ''http://rag-svc:8001''),
      TextField (optional_text ''REPORTS_SVC_URL'' [at_least zd 1] ''http://reports-svc:4567'')]"

section \<open>Checking the environment\<close>

type_synonym environment = "string \<Rightarrow> string option"

definition failed :: "check list \<Rightarrow> string \<Rightarrow> string list" where
  "failed checks s = List.map_filter (\<lambda>c. c s) checks"

text \<open>The value a text field takes, and the messages of its issues.\<close>

definition text_value :: "environment \<Rightarrow> text_field \<Rightarrow> string" where
  "text_value raw f = (case raw (tf_name f) of Some s \<Rightarrow> s | None \<Rightarrow> (case tf_default f of Some d \<Rightarrow> d | None \<Rightarrow> []))"

definition text_issues :: "environment \<Rightarrow> text_field \<Rightarrow> string list" where
  "text_issues raw f =
     (case raw (tf_name f) of
        Some s \<Rightarrow> failed (tf_checks f @ tf_refine f) s
      | None \<Rightarrow> (case tf_default f of Some d \<Rightarrow> failed (tf_refine f) d | None \<Rightarrow> [''is missing'']))"

text \<open>\<open>z.coerce.number().int().min(low).max(high)\<close>: what is no number is one issue, else every bound is checked.\<close>

fun js_below :: "js_num \<Rightarrow> int \<Rightarrow> bool" where
  "js_below (Fin r) n \<longleftrightarrow> r < of_int n"
| "js_below (Infinity negative) n \<longleftrightarrow> negative"
| "js_below NaN n \<longleftrightarrow> False"

fun js_above :: "js_num \<Rightarrow> int \<Rightarrow> bool" where
  "js_above (Fin r) n \<longleftrightarrow> of_int n < r"
| "js_above (Infinity negative) n \<longleftrightarrow> \<not> negative"
| "js_above NaN n \<longleftrightarrow> False"

fun js_whole :: "js_num \<Rightarrow> bool" where
  "js_whole (Fin r) \<longleftrightarrow> of_int (floor r) = r"
| "js_whole n \<longleftrightarrow> False"

definition number_issues :: "schema_env \<Rightarrow> int \<Rightarrow> int option \<Rightarrow> js_num \<Rightarrow> string list" where
  "number_issues zd low high n =
     (if n = NaN then [se_nan zd]
      else (if js_whole n then [] else [se_int zd]) @
        (if js_below n low then [se_min_number zd low] else []) @
        (case high of Some h \<Rightarrow> if js_above n h then [se_max zd h] else [] | None \<Rightarrow> []))"

fun whole_part :: "js_num \<Rightarrow> int" where
  "whole_part (Fin r) = floor r"
| "whole_part n = 0"

definition number_value :: "environment \<Rightarrow> string \<Rightarrow> int \<Rightarrow> int" where
  "number_value raw name fallback = (case raw name of Some s \<Rightarrow> whole_part (js_number s) | None \<Rightarrow> fallback)"

fun field_issues :: "schema_env \<Rightarrow> environment \<Rightarrow> schema_field \<Rightarrow> (string \<times> string) list" where
  "field_issues zd raw (TextField f) = map (Pair (tf_name f)) (text_issues raw f)"
| "field_issues zd raw (NumberField name low high fallback) =
     (case raw name of
        Some s \<Rightarrow> map (Pair name) (number_issues zd low high (js_number s))
      | None \<Rightarrow> [])"

record env_values =
  ev_text :: "string \<Rightarrow> string"
  ev_number :: "string \<Rightarrow> int"

fun text_entry :: "environment \<Rightarrow> schema_field \<Rightarrow> (string \<times> string) list" where
  "text_entry raw (TextField f) = [(tf_name f, text_value raw f)]"
| "text_entry raw (NumberField name low high fallback) = []"

fun number_entry :: "environment \<Rightarrow> schema_field \<Rightarrow> (string \<times> int) list" where
  "number_entry raw (TextField f) = []"
| "number_entry raw (NumberField name low high fallback) = [(name, number_value raw name fallback)]"

definition entry_or :: "'a \<Rightarrow> (string \<times> 'a) list \<Rightarrow> string \<Rightarrow> 'a" where
  "entry_or d es name = (case map_of es name of Some v \<Rightarrow> v | None \<Rightarrow> d)"

definition env_of :: "schema_env \<Rightarrow> environment \<Rightarrow> env_values" where
  "env_of zd raw =
     \<lparr>ev_text = entry_or [] (concat (map (text_entry raw) (env_schema zd))),
      ev_number = entry_or 0 (concat (map (number_entry raw) (env_schema zd)))\<rparr>"

definition env_issues :: "schema_env \<Rightarrow> environment \<Rightarrow> (string \<times> string) list" where
  "env_issues zd raw = concat (map (field_issues zd raw) (env_schema zd))"

text \<open>\<open>EnvValidationError\<close> with its issues and their message.\<close>

record env_error =
  ee_issues :: "string list"
  ee_message :: string

definition env_error_of :: "(string \<times> string) list \<Rightarrow> env_error" where
  "env_error_of issues =
     (let texts = map (\<lambda>(name, message). name @ '': '' @ message) issues
      in \<lparr>ee_issues = texts,
          ee_message = join [CHR 0x0A]
            (''Invalid environment configuration for api-core:'' # map (\<lambda>t. ''  - '' @ t) texts @
             [[], ''Copy .env.example to .env at the repository root and fill in the blanks.'',
              ''Variable names are defined by docs/CONTRACT.md 7 and must not be renamed.''])\<rparr>)"

text \<open>\<open>validateEnv\<close> and \<open>getEnv\<close> over the memoised environment.\<close>

definition validate_env ::
  "schema_env \<Rightarrow> environment \<Rightarrow> env_values option \<Rightarrow> (env_error + env_values) \<times> env_values option" where
  "validate_env zd raw cached =
     (case env_issues zd raw of
        [] \<Rightarrow> (Inr (env_of zd raw), Some (env_of zd raw))
      | issues \<Rightarrow> (Inl (env_error_of issues), cached))"

definition get_env ::
  "schema_env \<Rightarrow> environment \<Rightarrow> env_values option \<Rightarrow> (env_error + env_values) \<times> env_values option" where
  "get_env zd raw cached = (case cached of Some env \<Rightarrow> (Inr env, cached) | None \<Rightarrow> validate_env zd raw cached)"

definition reset_env_cache :: "env_values option \<Rightarrow> env_values option" where
  "reset_env_cache cached = None"

section \<open>The configuration tree\<close>

record app_runtime =
  ar_node_env :: string
  ar_app_env :: string
  ar_port :: int
  ar_cors_origins :: "string list"
  ar_frontend_url :: string
  ar_public_api_url :: string
  ar_service_token :: string

record jwt_config =
  jc_access_secret :: string
  jc_refresh_secret :: string
  jc_access_ttl :: string
  jc_refresh_ttl :: string
  jc_issuer :: string
  jc_audience :: string

record google_config =
  gc_client_id :: string
  gc_client_secret :: string
  gc_callback_url :: string
  gc_enabled :: bool

record storage_config =
  sg_region :: string
  sg_access_key_id :: string
  sg_secret_access_key :: string
  sg_bucket :: string
  sg_public_base_url :: string
  sg_cloudfront_domain :: string
  sg_enabled :: bool

record service_urls =
  su_api_core :: string
  su_search :: string
  su_rag :: string
  su_reports :: string

record app_config =
  cf_app :: app_runtime
  cf_jwt :: jwt_config
  cf_google :: google_config
  cf_database_url :: string
  cf_mongo_uri :: string
  cf_redis_url :: string
  cf_default_ttl :: int
  cf_storage :: storage_config
  cf_services :: service_urls

definition trim_trailing_slash :: "string \<Rightarrow> string" where
  "trim_trailing_slash s = rev (dropWhile (\<lambda>c. c = CHR ''/'') (rev s))"

definition split_origins :: "string \<Rightarrow> string list" where
  "split_origins value =
     js_unique (filter (\<lambda>p. p \<noteq> []) (map (trim_trailing_slash \<circ> trim) (split_on CHR '','' value)))"

definition build_config :: "env_values \<Rightarrow> app_config" where
  "build_config env =
     (let text = ev_text env; cors_origins = split_origins (text ''FRONTEND_URL'')
      in \<lparr>cf_app =
            \<lparr>ar_node_env = text ''NODE_ENV'', ar_app_env = text ''APP_ENV'', ar_port = ev_number env ''PORT'',
             ar_cors_origins = cors_origins,
             ar_frontend_url = (case cors_origins of [] \<Rightarrow> trim_trailing_slash (text ''FRONTEND_URL'') | o1 # _ \<Rightarrow> o1),
             ar_public_api_url = trim_trailing_slash (text ''PUBLIC_API_URL''),
             ar_service_token = text ''INTERNAL_SERVICE_TOKEN''\<rparr>,
          cf_jwt =
            \<lparr>jc_access_secret = text ''JWT_ACCESS_SECRET'', jc_refresh_secret = text ''JWT_REFRESH_SECRET'',
             jc_access_ttl = trim (text ''JWT_ACCESS_TTL''), jc_refresh_ttl = trim (text ''JWT_REFRESH_TTL''),
             jc_issuer = text ''JWT_ISSUER'', jc_audience = text ''JWT_AUDIENCE''\<rparr>,
          cf_google =
            \<lparr>gc_client_id = text ''GOOGLE_CLIENT_ID'', gc_client_secret = text ''GOOGLE_CLIENT_SECRET'',
             gc_callback_url = text ''GOOGLE_CALLBACK_URL'',
             gc_enabled = (text ''GOOGLE_CLIENT_ID'' \<noteq> [] \<and> text ''GOOGLE_CLIENT_SECRET'' \<noteq> [])\<rparr>,
          cf_database_url = text ''DATABASE_URL'', cf_mongo_uri = text ''MONGO_URI'', cf_redis_url = text ''REDIS_URL'',
          cf_default_ttl = ev_number env ''REDIS_TTL_DEFAULT'',
          cf_storage =
            \<lparr>sg_region = text ''AWS_REGION'', sg_access_key_id = text ''AWS_ACCESS_KEY_ID'',
             sg_secret_access_key = text ''AWS_SECRET_ACCESS_KEY'', sg_bucket = text ''S3_BUCKET'',
             sg_public_base_url = trim_trailing_slash
               (if text ''S3_PUBLIC_BASE_URL'' \<noteq> [] then text ''S3_PUBLIC_BASE_URL''
                else if text ''CLOUDFRONT_DOMAIN'' \<noteq> [] then ''https://'' @ text ''CLOUDFRONT_DOMAIN'' else []),
             sg_cloudfront_domain = text ''CLOUDFRONT_DOMAIN'',
             sg_enabled = (text ''AWS_ACCESS_KEY_ID'' \<noteq> [] \<and> text ''AWS_SECRET_ACCESS_KEY'' \<noteq> [])\<rparr>,
          cf_services =
            \<lparr>su_api_core = trim_trailing_slash (text ''API_CORE_URL''), su_search = trim_trailing_slash (text ''SEARCH_SVC_URL''),
             su_rag = trim_trailing_slash (text ''RAG_SVC_URL''),
             su_reports = trim_trailing_slash (text ''REPORTS_SVC_URL'')\<rparr>\<rparr>)"

definition configuration ::
  "schema_env \<Rightarrow> environment \<Rightarrow> env_values option \<Rightarrow> (env_error + app_config) \<times> env_values option" where
  "configuration zd raw cached =
     (case get_env zd raw cached of
        (Inl e, cached') \<Rightarrow> (Inl e, cached')
      | (Inr env, cached') \<Rightarrow> (Inr (build_config env), cached'))"

section \<open>Times to live\<close>

lemma unit_not_dot: "u \<in> set duration_units \<Longrightarrow> u \<noteq> [] \<and> hd u \<noteq> CHR ''.''"
  by (auto simp: duration_units_def)

lemma unit_known: "u \<in> set duration_units \<Longrightarrow> u \<noteq> ''ms'' \<Longrightarrow> \<exists>n>0. unit_seconds u = Some n"
  by (auto simp: duration_units_def unit_seconds_def)

text \<open>The unit of a duration, in lower case; seconds when there is none.\<close>

definition duration_unit :: "string \<Rightarrow> string" where
  "duration_unit s =
     (let u = to_lower (dropWhile js_space (dropWhile is_digit s)) in if u = [] then ''s'' else u)"

lemma match_plain_duration:
  assumes "duration_pattern s"
  shows "match_duration s = (if duration_unit s = ''ms'' then None
    else Some (of_nat (read_nat (takeWhile is_digit s)), duration_unit s))"
proof -
  let ?rest = "dropWhile is_digit s"
  have whole: "takeWhile is_digit s \<noteq> []"
    and u: "to_lower (dropWhile js_space ?rest) = [] \<or> to_lower (dropWhile js_space ?rest) \<in> set duration_units"
    using assms by (auto simp: duration_pattern_def Let_def)
  have dot: "?rest \<noteq> CHR ''.'' # t" for t
  proof
    assume "?rest = CHR ''.'' # t"
    then have "to_lower (dropWhile js_space ?rest) = CHR ''.'' # to_lower t"
      by (simp add: js_space_def to_lower_def char_lower_def)
    then show False using u unit_not_dot by fastforce
  qed
  have amount: "decimal_value (takeWhile is_digit s) [] = of_nat (read_nat (takeWhile is_digit s))"
    by (simp add: decimal_value_def read_nat_def)
  have ms: "unit_seconds ''ms'' = None" by (simp add: unit_seconds_def)
  have "match_unit a ?rest = (if duration_unit s = ''ms'' then None else Some (a, duration_unit s))" for a
  proof (cases "to_lower (dropWhile js_space ?rest) \<in> {[], ''ms''}")
    case True
    then show ?thesis using ms by (auto simp: match_unit_def duration_unit_def)
  next
    case False
    then obtain n where "unit_seconds (to_lower (dropWhile js_space ?rest)) = Some n" using u unit_known by blast
    then show ?thesis using False by (simp add: match_unit_def duration_unit_def Let_def)
  qed
  then show ?thesis using whole dot amount
    by (cases ?rest) (auto simp: match_duration_def Let_def simp del: dropWhile_eq_Nil_conv)
qed

text \<open>
  A time to live that the schema accepts is one that the token service accepts, as so many seconds, unless it is zero or
  counts milliseconds, which the schema alone knows.
\<close>

lemma validated_duration:
  assumes "duration_pattern (trim s)"
  shows "(\<exists>n>0. duration_to_seconds num_text (JStr s) = Inr n) \<longleftrightarrow>
    duration_unit (trim s) \<noteq> ''ms'' \<and> 0 < read_nat (takeWhile is_digit (trim s))"
proof (cases "duration_unit (trim s) = ''ms''")
  case True
  then show ?thesis by (simp add: match_plain_duration [OF assms])
next
  case False
  let ?n = "read_nat (takeWhile is_digit (trim s))"
  have "duration_unit (trim s) \<in> set duration_units"
    using assms by (auto simp: duration_pattern_def duration_unit_def duration_units_def Let_def)
  then obtain k where k: "0 < k" "unit_seconds (duration_unit (trim s)) = Some k" using unit_known False by blast
  have "\<lfloor>(of_nat ?n :: rat) * of_int k\<rfloor> = int ?n * k"
    by (metis floor_of_int of_int_mult of_int_of_nat_eq)
  then have "duration_to_seconds num_text (JStr s) =
    (if int ?n * k \<le> 0 then Inl (js_error (''Invalid duration: '' @ quote s @ '' resolves to '' @ show_int (int ?n * k) @ ''s''))
     else Inr (int ?n * k))"
    by (simp only: duration_to_seconds.simps match_plain_duration [OF assms] False if_False option.case prod.case
        k option.sel Let_def)
  moreover have "int ?n * k \<le> 0 \<longleftrightarrow> ?n = 0" using k(1) by (simp add: mult_le_0_iff)
  ultimately show ?thesis using False k(1) by auto
qed

section \<open>What the check of the environment leaves\<close>

lemma no_field_issue:
  assumes "env_issues zd raw = []" "f \<in> set (env_schema zd)"
  shows "field_issues zd raw f = []"
  using assms by (auto simp: env_issues_def)

lemma text_fields_distinct: "distinct (map fst (concat (map (text_entry raw) (env_schema zd))))"
  by (simp add: env_schema_def store_address_def required_text_def optional_text_def duration_field_def)

lemma number_fields_distinct: "distinct (map fst (concat (map (number_entry raw) (env_schema zd))))"
  by (simp add: env_schema_def)

lemma env_text:
  assumes "TextField f \<in> set (env_schema zd)"
  shows "ev_text (env_of zd raw) (tf_name f) = text_value raw f"
proof -
  have "(tf_name f, text_value raw f) \<in> set (concat (map (text_entry raw) (env_schema zd)))" using assms by force
  then show ?thesis by (simp add: env_of_def entry_or_def map_of_is_SomeI [OF text_fields_distinct])
qed

lemma env_number:
  assumes "NumberField name low high fallback \<in> set (env_schema zd)"
  shows "ev_number (env_of zd raw) name = number_value raw name fallback"
proof -
  have "(name, number_value raw name fallback) \<in> set (concat (map (number_entry raw) (env_schema zd)))" using assms by force
  then show ?thesis by (simp add: env_of_def entry_or_def map_of_is_SomeI [OF number_fields_distinct])
qed

lemma no_failed: "failed cs s = [] \<longleftrightarrow> (\<forall>c\<in>set cs. c s = None)"
  by (induction cs) (auto simp: failed_def map_filter_simps split: option.splits)

lemma required_text_checked:
  assumes "env_issues zd raw = []" "TextField (required_text name cs) \<in> set (env_schema zd)" "requires m p \<in> set cs"
  shows "p (ev_text (env_of zd raw) name)"
proof -
  have "text_issues raw (required_text name cs) = []" using no_field_issue [OF assms(1,2)] by simp
  then obtain s where "raw name = Some s" "requires m p s = None"
    using assms(3) by (auto simp: text_issues_def required_text_def no_failed split: option.splits)
  moreover have "ev_text (env_of zd raw) name = text_value raw (required_text name cs)"
    using env_text [OF assms(2)] by (simp add: required_text_def)
  ultimately show ?thesis by (simp add: text_value_def required_text_def requires_def split: if_splits)
qed

lemma store_address_checked:
  assumes "env_issues zd raw = []" "TextField (store_address zd name kind ps) \<in> set (env_schema zd)"
  shows "begins_with ps (ev_text (env_of zd raw) name)"
  using assms(2) unfolding store_address_def scheme_check_def
  by (rule required_text_checked [OF assms(1)]) (rule list.set_intros(2) [OF list.set_intros(1)])

lemma duration_checked:
  assumes "env_issues zd raw = []" "TextField (duration_field name d) \<in> set (env_schema zd)"
  shows "duration_pattern (trim (ev_text (env_of zd raw) name))"
proof -
  have "text_issues raw (duration_field name d) = []" using no_field_issue [OF assms] by simp
  moreover have "ev_text (env_of zd raw) name = text_value raw (duration_field name d)"
    using env_text [OF assms(2)] by (simp add: duration_field_def)
  ultimately show ?thesis
    by (auto simp: text_issues_def text_value_def duration_field_def no_failed requires_def split: option.splits if_splits)
qed

lemma whole_part_bounds:
  assumes "number_issues zd low high n = []"
  shows "low \<le> whole_part n \<and> (\<forall>h. high = Some h \<longrightarrow> whole_part n \<le> h)"
  using assms
  by (cases n) (auto simp: number_issues_def le_floor_iff floor_le_iff not_less split: if_splits option.splits)

lemma number_checked:
  assumes "env_issues zd raw = []" "NumberField name low high d \<in> set (env_schema zd)"
    "low \<le> d" "\<And>h. high = Some h \<Longrightarrow> d \<le> h"
  shows "low \<le> ev_number (env_of zd raw) name \<and> (\<forall>h. high = Some h \<longrightarrow> ev_number (env_of zd raw) name \<le> h)"
proof -
  have "field_issues zd raw (NumberField name low high d) = []" by (rule no_field_issue [OF assms(1,2)])
  then show ?thesis
    using assms(3,4) whole_part_bounds [of zd low high]
    by (auto simp: env_number [OF assms(2)] number_value_def split: option.splits)
qed

lemma trimmed_slash: "trim_trailing_slash s \<noteq> [] \<Longrightarrow> last (trim_trailing_slash s) \<noteq> CHR ''/''"
  using hd_dropWhile [of "\<lambda>c. c = CHR ''/''" "rev s"]
  by (simp add: trim_trailing_slash_def last_rev del: dropWhile_eq_Nil_conv)

lemma origins_clean:
  "distinct (split_origins v) \<and> [] \<notin> set (split_origins v) \<and> CHR ''/'' \<notin> last ` set (split_origins v)"
  by (auto simp: split_origins_def dest!: trimmed_slash)

lemma configured:
  "configuration zd raw cached = (Inr cf, cached') \<longleftrightarrow>
     (case cached of
        Some env \<Rightarrow> cached' = cached \<and> cf = build_config env
      | None \<Rightarrow> env_issues zd raw = [] \<and> cached' = Some (env_of zd raw) \<and> cf = build_config (env_of zd raw))"
  by (auto simp: configuration_def get_env_def validate_env_def split: option.splits list.splits)

text \<open>What the check lets through although nobody can use it.\<close>

lemma milliseconds_only_here:
  "duration_pattern ''900000ms'' \<and> (\<nexists>n. duration_to_seconds num_text (JStr ''900000ms'') = Inr n)"
proof -
  have accepted: "duration_pattern ''900000ms''" and unit: "duration_unit ''900000ms'' = ''ms''" and
    trimmed: "trim ''900000ms'' = ''900000ms''" by code_simp+
  show ?thesis by (simp add: accepted trimmed match_plain_duration [OF accepted] unit)
qed

lemma comma_is_no_origin: "origin_parts '','' = [] \<and> split_origins '','' = []"
  by code_simp

text \<open>
  C40: What the boot check lets into the configuration, and what it does not rule out. The port and the cache's time to
  live are in range, the secrets and the service token have their minimal lengths, the stores' addresses have the schemes
  their clients speak, and the allowed origins are distinct, not empty texts and end in no slash; there may be none of
  them (\<open>comma_is_no_origin\<close>). A time to live that passed is one that the token service can read exactly if it is not zero
  and does not count milliseconds: the check also passes such values, and the token service then refuses them. The
  environment it came from is remembered: whatever the process environment becomes, the configuration stays the same until
  the memo is dropped, and then the check runs again.
\<close>

theorem environment_checked:
  assumes "configuration zd raw None = (Inr cf, memo)"
  shows "ar_port (cf_app cf) \<in> {1..65535} \<and> 1 \<le> cf_default_ttl cf \<and>
    32 \<le> length (jc_access_secret (cf_jwt cf)) \<and> 32 \<le> length (jc_refresh_secret (cf_jwt cf)) \<and>
    8 \<le> length (ar_service_token (cf_app cf)) \<and>
    begins_with [''postgres://'', ''postgresql://''] (cf_database_url cf) \<and>
    begins_with [''mongodb://'', ''mongodb+srv://''] (cf_mongo_uri cf) \<and>
    begins_with [''redis://'', ''rediss://''] (cf_redis_url cf) \<and>
    distinct (ar_cors_origins (cf_app cf)) \<and> [] \<notin> set (ar_cors_origins (cf_app cf)) \<and>
    CHR ''/'' \<notin> last ` set (ar_cors_origins (cf_app cf)) \<and>
    (\<forall>ttl\<in>{jc_access_ttl (cf_jwt cf), jc_refresh_ttl (cf_jwt cf)}.
       (\<exists>n>0. duration_to_seconds num_text (JStr ttl) = Inr n) \<longleftrightarrow>
       duration_unit ttl \<noteq> ''ms'' \<and> 0 < read_nat (takeWhile is_digit ttl)) \<and>
    (\<forall>raw'. configuration zd raw' memo = (Inr cf, memo)) \<and>
    (\<forall>raw'. configuration zd raw' (reset_env_cache memo) = configuration zd raw' None)"
proof -
  have ok: "env_issues zd raw = []" and memo: "memo = Some (env_of zd raw)" and cf: "cf = build_config (env_of zd raw)"
    using assms by (simp_all add: configured)
  note checked = required_text_checked [OF ok] and address = store_address_checked [OF ok] and ttl = duration_checked [OF ok] and num = number_checked [OF ok]
  have "ar_port (cf_app cf) \<in> {1..65535}" "1 \<le> cf_default_ttl cf"
    using num [of "''PORT''" 1 "Some 65535" 4000] num [of "''REDIS_TTL_DEFAULT''" 1 None 300]
    by (simp_all add: cf build_config_def Let_def env_schema_def)
  moreover have "32 \<le> length (ev_text (env_of zd raw) name)" if "name \<in> {''JWT_ACCESS_SECRET'', ''JWT_REFRESH_SECRET''}" for name
    using that checked [of name "[secret_check]" _ "\<lambda>s. 32 \<le> length s"] by (auto simp: env_schema_def secret_check_def)
  then have "32 \<le> length (jc_access_secret (cf_jwt cf))" "32 \<le> length (jc_refresh_secret (cf_jwt cf))"
    by (simp_all add: cf build_config_def Let_def)
  moreover have "8 \<le> length (ar_service_token (cf_app cf))"
    using checked [of "''INTERNAL_SERVICE_TOKEN''" "[service_token_check]" _ "\<lambda>s. 8 \<le> length s"]
    by (simp add: cf build_config_def Let_def env_schema_def service_token_check_def)
  moreover have "begins_with [''postgres://'', ''postgresql://''] (cf_database_url cf)"
    using address [of "''DATABASE_URL''" "''postgresql''" "[''postgres://'', ''postgresql://'']"] by (simp add: cf build_config_def Let_def env_schema_def)
  moreover have "begins_with [''mongodb://'', ''mongodb+srv://''] (cf_mongo_uri cf)"
    using address [of "''MONGO_URI''" "''mongodb''" "[''mongodb://'', ''mongodb+srv://'']"] by (simp add: cf build_config_def Let_def env_schema_def)
  moreover have "begins_with [''redis://'', ''rediss://''] (cf_redis_url cf)"
    using address [of "''REDIS_URL''" "''redis''" "[''redis://'', ''rediss://'']"] by (simp add: cf build_config_def Let_def env_schema_def)
  moreover have "duration_pattern (trim (jc_access_ttl (cf_jwt cf)))" "duration_pattern (trim (jc_refresh_ttl (cf_jwt cf)))"
    using ttl [of "''JWT_ACCESS_TTL''" "''15m''"] ttl [of "''JWT_REFRESH_TTL''" "''30d''"]
    by (simp_all add: cf build_config_def Let_def env_schema_def)
  moreover have "\<forall>ttl\<in>{jc_access_ttl (cf_jwt cf), jc_refresh_ttl (cf_jwt cf)}. trim ttl = ttl"
    by (simp add: cf build_config_def Let_def)
  moreover have "distinct (ar_cors_origins (cf_app cf)) \<and> [] \<notin> set (ar_cors_origins (cf_app cf)) \<and>
    CHR ''/'' \<notin> last ` set (ar_cors_origins (cf_app cf))"
    using origins_clean by (simp add: cf build_config_def Let_def)
  moreover have "configuration zd raw' memo = (Inr cf, memo)" for raw' by (simp add: configured memo cf)
  moreover have "reset_env_cache memo = None" by (simp add: reset_env_cache_def)
  ultimately show ?thesis by (simp add: validated_duration del: duration_to_seconds.simps)
qed

definition sample_schema :: schema_env where
  "sample_schema =
     \<lparr>se_is_url = (\<lambda>s. begins_with [''http://'', ''https://''] s), se_min = (\<lambda>n. ''too short''), se_max = (\<lambda>n. ''too large''),
      se_enum = (\<lambda>s. ''not an option''), se_nan = ''not a number'', se_int = ''not an integer'',
      se_min_number = (\<lambda>n. ''too small'')\<rparr>"

definition sample_environment :: environment where
  "sample_environment = map_of
     [(''FRONTEND_URL'', ''https://a.example/, https://b.example''),
      (''INTERNAL_SERVICE_TOKEN'', ''service-token''), (''JWT_ACCESS_SECRET'', ''0123456789abcdef0123456789abcdef''),
      (''JWT_REFRESH_SECRET'', ''fedcba9876543210fedcba9876543210''), (''JWT_ACCESS_TTL'', ''900s''),
      (''DATABASE_URL'', ''postgres://db''), (''MONGO_URI'', ''mongodb://db''), (''REDIS_URL'', ''redis://cache'')]"

lemma sample_present:
  "sample_environment ''FRONTEND_URL'' = Some ''https://a.example/, https://b.example''"
  "sample_environment ''INTERNAL_SERVICE_TOKEN'' = Some ''service-token''"
  "sample_environment ''JWT_ACCESS_SECRET'' = Some ''0123456789abcdef0123456789abcdef''"
  "sample_environment ''JWT_REFRESH_SECRET'' = Some ''fedcba9876543210fedcba9876543210''"
  "sample_environment ''JWT_ACCESS_TTL'' = Some ''900s''"
  "sample_environment ''DATABASE_URL'' = Some ''postgres://db''"
  "sample_environment ''MONGO_URI'' = Some ''mongodb://db''"
  "sample_environment ''REDIS_URL'' = Some ''redis://cache''"
  by (simp_all add: sample_environment_def)

lemma sample_issues: "env_issues sample_schema sample_environment = []"
proof -
  have absent: "list_all (\<lambda>n. sample_environment n = None)
    [''NODE_ENV'', ''APP_ENV'', ''PORT'', ''PUBLIC_API_URL'', ''JWT_REFRESH_TTL'', ''JWT_ISSUER'', ''JWT_AUDIENCE'',
     ''GOOGLE_CLIENT_ID'', ''GOOGLE_CLIENT_SECRET'', ''GOOGLE_CALLBACK_URL'', ''REDIS_TTL_DEFAULT'', ''AWS_REGION'',
     ''AWS_ACCESS_KEY_ID'', ''AWS_SECRET_ACCESS_KEY'', ''S3_BUCKET'', ''S3_PUBLIC_BASE_URL'', ''CLOUDFRONT_DOMAIN'',
     ''API_CORE_URL'', ''SEARCH_SVC_URL'', ''RAG_SVC_URL'', ''REPORTS_SVC_URL'']"
    by (simp add: sample_environment_def)
  have accepted: "list_all (se_is_url sample_schema) (origin_parts ''https://a.example/, https://b.example'')"
    "se_is_url sample_schema ''https://localhost/api/v1/auth/google/callback''"
    "duration_pattern (trim ''900s'')" "duration_pattern (trim ''30d'')"
    "begins_with [''postgres://'', ''postgresql://''] ''postgres://db''"
    "begins_with [''mongodb://'', ''mongodb+srv://''] ''mongodb://db''"
    "begins_with [''redis://'', ''rediss://''] ''redis://cache''" by code_simp+
  show ?thesis
    using absent
    by (simp add: env_issues_def env_schema_def sample_present accepted text_issues_def no_failed requires_def at_least_def
        origin_list_def secret_check_def service_token_check_def scheme_check_def store_address_def required_text_def
        optional_text_def duration_field_def)
qed

theorem environment_checked_witness:
  "let cf = build_config (env_of sample_schema sample_environment)
   in ar_cors_origins (cf_app cf) = [''https://a.example'', ''https://b.example''] \<and> jc_access_ttl (cf_jwt cf) = ''900s'' \<and>
     ar_port (cf_app cf) \<in> {1..65535} \<and>
     (\<exists>n>0. duration_to_seconds (\<lambda>n. []) (JStr (jc_access_ttl (cf_jwt cf))) = Inr n)"
proof -
  let ?cf = "build_config (env_of sample_schema sample_environment)"
  have read: "ev_text (env_of sample_schema sample_environment) ''FRONTEND_URL'' = ''https://a.example/, https://b.example''"
    "ev_text (env_of sample_schema sample_environment) ''JWT_ACCESS_TTL'' = ''900s''"
    using env_text [of "required_text ''FRONTEND_URL'' (origin_list sample_schema)" sample_schema sample_environment]
      env_text [of "duration_field ''JWT_ACCESS_TTL'' ''15m''" sample_schema sample_environment]
    by (simp_all add: env_schema_def text_value_def sample_present required_text_def duration_field_def)
  have evaluated: "split_origins ''https://a.example/, https://b.example'' = [''https://a.example'', ''https://b.example'']"
    "trim ''900s'' = ''900s''" "duration_unit ''900s'' \<noteq> ''ms''" "0 < read_nat (takeWhile is_digit ''900s'')" by code_simp+
  have tree: "ar_cors_origins (cf_app ?cf) = [''https://a.example'', ''https://b.example'']" "jc_access_ttl (cf_jwt ?cf) = ''900s''"
    by (simp_all add: build_config_def Let_def read evaluated)
  have "configuration sample_schema sample_environment None = (Inr ?cf, Some (env_of sample_schema sample_environment))"
    by (simp add: configured sample_issues)
  from environment_checked [OF this, of "\<lambda>n. []"] evaluated tree show ?thesis
    by (simp add: Let_def del: duration_to_seconds.simps)
qed

end
