(* ===== verification/Chat_Client.thy ===== *)
theory Chat_Client
  imports Http_Errors
begin

text \<open>
  The chat transport of the web application (\<open>apps/web/src/lib/chat-client.ts\<close>): the guest token, the frames of an
  event stream, and the calls on the handlers. \<open>fetch\<close>, \<open>JSON.parse\<close> and \<open>String\<close> are parameters; a response is what
  \<open>fetch\<close> resolves to, with the decoded chunks of its body.
\<close>

section \<open>Splitting a text at a pattern\<close>

text \<open>\<open>m s\<close> is the length of the match at the start of \<open>s\<close>, 0 for no match; the pattern never matches nothing.\<close>

fun split_by :: "(string \<Rightarrow> nat) \<Rightarrow> string \<Rightarrow> string list" where
  "split_by m [] = [[]]"
| "split_by m (c # s) =
     (if m (c # s) \<noteq> 0 then [] # split_by m (drop (m (c # s) - 1) s)
      else case split_by m s of [] \<Rightarrow> [[c]] | w # ws \<Rightarrow> (c # w) # ws)"

abbreviation line_feed :: char where
  "line_feed \<equiv> CHR 0x0A"

abbreviation carriage_return :: char where
  "carriage_return \<equiv> CHR 0x0D"

text \<open>The patterns for the end of a line, and for a line end followed by another one.\<close>

definition newline_at :: "string \<Rightarrow> nat" where
  "newline_at s =
     (case s of
        [] \<Rightarrow> 0
      | c # t \<Rightarrow>
          if c = line_feed then 1
          else if c = carriage_return then (case t of [] \<Rightarrow> 0 | d # _ \<Rightarrow> if d = line_feed then 2 else 0)
          else 0)"

definition blank_line_at :: "string \<Rightarrow> nat" where
  "blank_line_at s =
     (let n = newline_at s; k = newline_at (drop n s) in if n = 0 \<or> k = 0 then 0 else n + k)"

definition parse_frames :: "string \<Rightarrow> string list \<times> string" where
  "parse_frames buffer = (let parts = split_by blank_line_at buffer in (butlast parts, last parts))"

section \<open>One frame\<close>

record chat_env =
  ce_parse :: "string \<Rightarrow> js_value option"
  ce_string :: "js_value \<Rightarrow> string"

text \<open>The event of a frame so far and its data lines.\<close>

definition frame_line :: "string \<Rightarrow> string \<times> string list \<Rightarrow> string \<times> string list" where
  "frame_line line acc =
     (case acc of (event, datas) \<Rightarrow>
        if starts_with line '':'' then (event, datas)
        else if starts_with line ''event:'' then (trim (drop 6 line), datas)
        else if starts_with line ''data:'' then (event, datas @ [trim (drop 5 line)])
        else (event, datas))"

definition read_frame :: "chat_env \<Rightarrow> string \<Rightarrow> (string \<times> js_value) option" where
  "read_frame env frame =
     (case fold frame_line (split_by newline_at frame) (''message'', []) of
        (event, datas) \<Rightarrow>
          if datas = [] then None
          else let raw = join [line_feed] datas
               in Some (event, case ce_parse env raw of Some v \<Rightarrow> v | None \<Rightarrow> JStr raw))"

section \<open>Handlers\<close>

text \<open>A handler that is not given is not called. What an error carries: a code and a message.\<close>

record 'w stream_handlers =
  on_token :: "(string \<Rightarrow> ('w, exn, unit) prog) option"
  on_sources :: "(js_value \<Rightarrow> ('w, exn, unit) prog) option"
  on_tool_start :: "(js_value \<Rightarrow> ('w, exn, unit) prog) option"
  on_tool_end :: "(js_value \<Rightarrow> ('w, exn, unit) prog) option"
  on_done :: "(js_value \<Rightarrow> ('w, exn, unit) prog) option"
  on_error :: "(js_value \<Rightarrow> js_value \<Rightarrow> ('w, exn, unit) prog) option"

definition call1 :: "('a \<Rightarrow> ('w, exn, unit) prog) option \<Rightarrow> 'a \<Rightarrow> ('w, exn, unit) prog" where
  "call1 h x = (case h of None \<Rightarrow> ret () | Some f \<Rightarrow> f x)"

definition call2 :: "('a \<Rightarrow> 'b \<Rightarrow> ('w, exn, unit) prog) option \<Rightarrow> 'a \<Rightarrow> 'b \<Rightarrow> ('w, exn, unit) prog" where
  "call2 h x y = (case h of None \<Rightarrow> ret () | Some f \<Rightarrow> f x y)"

text \<open>
  The guest token in the local storage of the browser; with the storage disabled, reads give nothing and writes are
  dropped.
\<close>

record guest_storage =
  gs_enabled :: bool
  gs_token :: "string option"

definition guest_token_get :: "guest_storage \<Rightarrow> string option" where
  "guest_token_get g = (if gs_enabled g then gs_token g else None)"

definition guest_token_set :: "chat_env \<Rightarrow> js_value \<Rightarrow> (guest_storage, exn, unit) prog" where
  "guest_token_set env token =
     modify_state (\<lambda>g. if truthy token \<and> gs_enabled g then g\<lparr>gs_token := Some (ce_string env token)\<rparr> else g)"

definition guest_token_clear :: "(guest_storage, exn, unit) prog" where
  "guest_token_clear = modify_state (\<lambda>g. if gs_enabled g then g\<lparr>gs_token := None\<rparr> else g)"

text \<open>A state that holds the storage, beside whatever the handlers work on.\<close>

record browser =
  br_guest :: guest_storage

definition set_guest :: "chat_env \<Rightarrow> js_value \<Rightarrow> ('z browser_scheme, exn, unit) prog" where
  "set_guest env token = (\<lambda>w. (Return (), w\<lparr>br_guest := snd (guest_token_set env token (br_guest w))\<rparr>))"

definition dispatch ::
  "chat_env \<Rightarrow> string \<Rightarrow> js_value \<Rightarrow> 'z browser_scheme stream_handlers \<Rightarrow> ('z browser_scheme, exn, unit) prog" where
  "dispatch env event data handlers =
     (let payload = nullish data (JObj PlainObject [])
      in if event = ''meta'' then set_guest env (get_prop payload ''guestToken'')
         else if event = ''token'' then
           call1 (on_token handlers) (ce_string env (nullish (get_prop payload ''text'') (JStr [])))
         else if event = ''sources'' then
           call1 (on_sources handlers) (nullish (get_prop payload ''sources'') (JArr []))
         else if event = ''tool_start'' then call1 (on_tool_start handlers) payload
         else if event = ''tool_end'' then call1 (on_tool_end handlers) payload
         else if event = ''done'' then
           seq (do_if (truthy (get_prop payload ''guestToken'')) (set_guest env (get_prop payload ''guestToken''))) (\<lambda>_.
             call1 (on_done handlers) payload)
         else if event = ''error'' then
           call2 (on_error handlers) (get_prop payload ''code'')
             (nullish (get_prop payload ''message'') (JStr ''The assistant hit an error.''))
         else ret ())"

definition handle_frame ::
  "chat_env \<Rightarrow> 'z browser_scheme stream_handlers \<Rightarrow> string \<Rightarrow> ('z browser_scheme, exn, unit) prog" where
  "handle_frame env handlers frame =
     (case read_frame env frame of None \<Rightarrow> ret () | Some (event, data) \<Rightarrow> dispatch env event data handlers)"

section \<open>The stream\<close>

text \<open>A stream of chunks that ends, or that breaks with a rejection of the reader.\<close>

fun read_stream ::
  "chat_env \<Rightarrow> 'z browser_scheme stream_handlers \<Rightarrow> exn option \<Rightarrow> string \<Rightarrow> string list \<Rightarrow>
   ('z browser_scheme, exn, unit) prog" where
  "read_stream env handlers broken buffer [] =
     (case broken of Some e \<Rightarrow> throw e | None \<Rightarrow> handle_frame env handlers buffer)"
| "read_stream env handlers broken buffer (chunk # chunks) =
     (case parse_frames (buffer @ chunk) of (frames, rest) \<Rightarrow>
        seq (seq_all (handle_frame env handlers) frames) (\<lambda>_. read_stream env handlers broken rest chunks))"

record send_options =
  sd_message :: string
  sd_thread_id :: js_value
  sd_access_token :: "string option"
  sd_locale :: string

record chat_request =
  cq_message :: string
  cq_thread_id :: js_value
  cq_guest_token :: "string option"
  cq_locale :: string
  cq_bearer :: "string option"

record chat_response =
  cs_status :: int
  cs_content_type :: "string option"
  cs_json :: "js_value option"
  cs_has_body :: bool
  cs_chunks :: "string list"
  cs_broken :: "exn option"

definition response_ok :: "int \<Rightarrow> bool" where
  "response_ok status \<longleftrightarrow> 200 \<le> status \<and> status \<le> 299"

text \<open>\<open>body?.data\<close>, with \<open>null\<close> for a body that is no JSON.\<close>

definition json_or_null :: "chat_response \<Rightarrow> js_value" where
  "json_or_null r = (case cs_json r of Some v \<Rightarrow> v | None \<Rightarrow> Null)"

text \<open>\<open>value?.length\<close> is not 0.\<close>

definition has_length :: "js_value \<Rightarrow> bool" where
  "has_length v \<longleftrightarrow> array_of v \<noteq> [] \<or> (case string_of v of Some s \<Rightarrow> s \<noteq> [] | None \<Rightarrow> truthy (get_prop v ''length''))"

definition plain_reply :: "chat_env \<Rightarrow> js_value \<Rightarrow> 'z browser_scheme stream_handlers \<Rightarrow> ('z browser_scheme, exn, unit) prog" where
  "plain_reply env data handlers =
     (if \<not> truthy data then call2 (on_error handlers) Undefined (JStr ''The assistant returned an empty reply.'')
      else
        seq (do_if (truthy (get_prop data ''guestToken'')) (set_guest env (get_prop data ''guestToken''))) (\<lambda>_.
        seq (do_if (truthy (get_prop data ''answer'')) (call1 (on_token handlers) (ce_string env (get_prop data ''answer'')))) (\<lambda>_.
        seq (do_if (has_length (get_prop data ''sources'')) (call1 (on_sources handlers) (get_prop data ''sources''))) (\<lambda>_.
          call1 (on_done handlers) data))))"

definition chat_request_of :: "send_options \<Rightarrow> string option \<Rightarrow> chat_request" where
  "chat_request_of opts guest =
     \<lparr>cq_message = sd_message opts, cq_thread_id = nullish (sd_thread_id opts) Undefined, cq_guest_token = guest,
      cq_locale = sd_locale opts,
      cq_bearer = (case sd_access_token opts of Some t \<Rightarrow> if t = [] then None else Some t | None \<Rightarrow> None)\<rparr>"

definition stream_message ::
  "chat_env \<Rightarrow> (chat_request \<Rightarrow> exn + chat_response) \<Rightarrow> send_options \<Rightarrow> 'z browser_scheme stream_handlers \<Rightarrow>
   ('z browser_scheme, exn, unit) prog" where
  "stream_message env fetch opts handlers = (\<lambda>w.
     (case fetch (chat_request_of opts (guest_token_get (br_guest w))) of
        Inl e \<Rightarrow> throw e
      | Inr r \<Rightarrow>
          if \<not> response_ok (cs_status r) then
            let failure = get_prop (json_or_null r) ''error''
            in call2 (on_error handlers) (get_prop failure ''code'')
                 (nullish (get_prop failure ''message'')
                   (JStr (''The assistant is unavailable ('' @ show_int (cs_status r) @ '').'')))
          else if \<not> js_includes (case cs_content_type r of Some t \<Rightarrow> t | None \<Rightarrow> []) ''text/event-stream'' then
            plain_reply env (get_prop (json_or_null r) ''data'') handlers
          else if \<not> cs_has_body r then
            call2 (on_error handlers) Undefined (JStr ''Streaming is not supported by this browser.'')
          else read_stream env handlers (cs_broken r) [] (cs_chunks r)) w)"

section \<open>Splitting in pieces\<close>

lemma seq_all_append: "seq_all f (xs @ ys) = seq (seq_all f xs) (\<lambda>_. seq_all f ys)"
proof (induction xs)
  case Nil
  show ?case by (rule ext) simp
qed (simp add: seq_assoc)

lemma split_by_nonempty [simp]: "split_by m s \<noteq> []"
  by (cases s) (auto split: list.split)

lemma newline_simps [simp]:
  "newline_at [] = 0"
  "newline_at (line_feed # s) = 1"
  "newline_at (carriage_return # line_feed # s) = 2"
  by (simp_all add: newline_at_def)

text \<open>A pattern that sees as much of the text as it needs: what is appended does not change an earlier match.\<close>

definition settled_pattern :: "(string \<Rightarrow> nat) \<Rightarrow> bool" where
  "settled_pattern m \<longleftrightarrow>
     (\<forall>s t. m s \<noteq> 0 \<longrightarrow> m (s @ t) = m s \<and> m s \<le> length s) \<and>
     (\<forall>c s t. m (c # s) = 0 \<longrightarrow> tl (split_by m s) \<noteq> [] \<longrightarrow> m (c # s @ t) = 0)"

lemma split_by_single: "tl (split_by m s) = [] \<Longrightarrow> split_by m s = [s]"
  by (induction m s rule: split_by.induct) (auto split: list.splits if_splits)

lemma split_by_last: "tl (split_by m (last (split_by m s))) = []"
proof (induction m s rule: split_by.induct)
  case (2 m c s)
  show ?case
  proof (cases "m (c # s) = 0")
    case True
    obtain w ws where ws: "split_by m s = w # ws" by (cases "split_by m s") auto
    with 2(2) [OF] True split_by_single [of m s] show ?thesis by (cases "ws = []") auto
  qed (use 2(1) in auto)
qed simp

text \<open>Splitting a text that comes in two pieces: the last part of the first piece waits for the second.\<close>

lemma split_by_append:
  assumes m: "settled_pattern m"
  shows "split_by m (s @ t) = butlast (split_by m s) @ split_by m (last (split_by m s) @ t)"
  using m
proof (induction m s rule: split_by.induct)
  case (1 m)
  then show ?case by simp
next
  case (2 m c s)
  note settled = 2(3) [unfolded settled_pattern_def]
  show ?case
  proof (cases "m (c # s) = 0")
    case False
    with settled have same: "m (c # s @ t) = m (c # s)" and len: "m (c # s) \<le> Suc (length s)"
      by (metis append_Cons, metis length_Cons)
    from 2(1) [OF False 2(3)] False same len show ?thesis by simp
  next
    case True
    obtain w ws where ws: "split_by m s = w # ws" by (cases "split_by m s") auto
    show ?thesis
    proof (cases "ws = []")
      case True
      with ws split_by_single [of m s] have "w = s" by simp
      with True \<open>m (c # s) = 0\<close> ws show ?thesis by simp
    next
      case False
      with settled True ws have "m (c # s @ t) = 0" by fastforce
      with 2(2) [OF _ 2(3)] True ws False show ?thesis by (cases ws) simp_all
    qed
  qed
qed

lemma newline_settled: "settled_pattern newline_at"
  unfolding settled_pattern_def
proof (intro conjI allI impI)
  fix s t assume "newline_at s \<noteq> 0"
  then show "newline_at (s @ t) = newline_at s" "newline_at s \<le> length s"
    by (auto simp: newline_at_def split: list.splits if_splits)
next
  fix c s t assume "newline_at (c # s) = 0" and "tl (split_by newline_at s) \<noteq> []"
  then show "newline_at (c # s @ t) = 0" by (cases s) (auto simp: newline_at_def split: if_splits)
qed

lemma blank_line_cases:
  assumes "blank_line_at s \<noteq> 0"
  obtains u where "s = line_feed # line_feed # u" "blank_line_at s = 2"
  | u where "s = line_feed # carriage_return # line_feed # u" "blank_line_at s = 3"
  | u where "s = carriage_return # line_feed # line_feed # u" "blank_line_at s = 3"
  | u where "s = carriage_return # line_feed # carriage_return # line_feed # u" "blank_line_at s = 4"
  using assms by (auto simp: blank_line_at_def newline_at_def Let_def split: list.splits if_splits)

lemma blank_line_simps [simp]:
  "blank_line_at (line_feed # line_feed # u) = 2"
  "blank_line_at (line_feed # carriage_return # line_feed # u) = 3"
  "blank_line_at (carriage_return # line_feed # line_feed # u) = 3"
  "blank_line_at (carriage_return # line_feed # carriage_return # line_feed # u) = 4"
  by (simp_all add: blank_line_at_def)

lemma blank_line_settled: "settled_pattern blank_line_at"
  unfolding settled_pattern_def
proof (intro conjI allI impI)
  fix s t assume "blank_line_at s \<noteq> 0"
  then show "blank_line_at (s @ t) = blank_line_at s" "blank_line_at s \<le> length s"
    by (cases rule: blank_line_cases; simp)+
next
  fix c s t assume none: "blank_line_at (c # s) = 0" and more: "tl (split_by blank_line_at s) \<noteq> []"
  show "blank_line_at (c # s @ t) = 0"
  proof (rule ccontr)
    assume "blank_line_at (c # s @ t) \<noteq> 0"
    then have "s \<in> {[], [line_feed], [carriage_return], [carriage_return, line_feed], [line_feed, carriage_return]}"
      using none by (cases rule: blank_line_cases) (auto simp: append_eq_Cons_conv)
    with more show False by (auto simp: blank_line_at_def newline_at_def)
  qed
qed

lemma stream_chunks:
  "read_stream env handlers broken [] chunks =
     seq (seq_all (handle_frame env handlers) (fst (parse_frames (concat chunks)))) (\<lambda>_.
       case broken of Some e \<Rightarrow> throw e
       | None \<Rightarrow> handle_frame env handlers (snd (parse_frames (concat chunks))))"
proof -
  have "read_stream env handlers broken buffer chunks =
     seq (seq_all (handle_frame env handlers) (fst (parse_frames (buffer @ concat chunks)))) (\<lambda>_.
       case broken of Some e \<Rightarrow> throw e
       | None \<Rightarrow> handle_frame env handlers (snd (parse_frames (buffer @ concat chunks))))"
    if "tl (split_by blank_line_at buffer) = []" for buffer
    using that
  proof (induction chunks arbitrary: buffer)
    case Nil
    with split_by_single [OF Nil] show ?case by (cases broken) (simp_all add: parse_frames_def)
  next
    case (Cons chunk chunks)
    let ?parts = "split_by blank_line_at (buffer @ chunk)"
    show ?case
      using Cons.IH [OF split_by_last] split_by_append [OF blank_line_settled, of "buffer @ chunk" "concat chunks"]
      by (cases broken) (simp_all add: parse_frames_def Let_def butlast_append seq_all_append seq_assoc)
  qed
  from this [of "[]"] show ?thesis by (cases broken) simp_all
qed

text \<open>
  C30: The events a chat stream delivers do not depend on how the network cuts it: reading any chunks runs the handlers
  exactly as on the frames of the whole text, in order, and then on what is left after the last blank line.
\<close>

theorem stream_chunks_irrelevant:
  "read_stream env handlers broken [] chunks =
     seq (seq_all (handle_frame env handlers) (fst (parse_frames (concat chunks)))) (\<lambda>_.
       case broken of Some e \<Rightarrow> throw e
       | None \<Rightarrow> handle_frame env handlers (snd (parse_frames (concat chunks))))"
  by (rule stream_chunks)

end
