(* ===== verification/Chat_Store.thy ===== *)
theory Chat_Store
  imports Chat_Client
begin

text \<open>
  The chat widget of the web application: its store (\<open>apps/web/src/store/chat.store.ts\<close>) and the sending of a message in
  \<open>components/chat/chat-panel.tsx\<close>, which feeds the store from the stream of \<open>Chat_Client\<close>. What comes from the server
  unchecked is a \<open>js_value\<close>.
\<close>

section \<open>The store\<close>

record chat_message =
  cm_id :: js_value
  cm_thread :: js_value
  cm_role :: string
  cm_content :: string
  cm_sources :: js_value
  cm_created_at :: int
  cm_streaming :: bool
  cm_error :: js_value
  cm_rating :: "int option"

record tool_call =
  tc_id :: js_value
  tc_name :: js_value
  tc_status :: string

record chat_store =
  ch_thread_id :: js_value
  ch_messages :: "chat_message list"
  ch_sources :: js_value
  ch_tool_calls :: "tool_call list"
  ch_is_open :: bool
  ch_is_streaming :: bool
  ch_streaming_id :: "string option"
  ch_input :: string
  ch_error :: js_value
  ch_unread :: nat
  ch_hydrated :: bool

definition initial_chat :: chat_store where
  "initial_chat =
     \<lparr>ch_thread_id = Null, ch_messages = [], ch_sources = JArr [], ch_tool_calls = [], ch_is_open = False,
      ch_is_streaming = False, ch_streaming_id = None, ch_input = [], ch_error = Null, ch_unread = 0,
      ch_hydrated = False\<rparr>"

text \<open>What a store keeps of a message with a given id, and what it changes.\<close>

definition change_message :: "js_value \<Rightarrow> (chat_message \<Rightarrow> chat_message) \<Rightarrow> chat_store \<Rightarrow> chat_store" where
  "change_message i f s = s\<lparr>ch_messages := map (\<lambda>m. if cm_id m = i then f m else m) (ch_messages s)\<rparr>"

definition append_message :: "chat_message \<Rightarrow> chat_store \<Rightarrow> chat_store" where
  "append_message m s =
     s\<lparr>ch_messages := ch_messages s @ [m],
       ch_unread := (if cm_role m = ''assistant'' \<and> \<not> ch_is_open s then ch_unread s + 1 else ch_unread s)\<rparr>"

definition start_assistant_message :: "string \<Rightarrow> int \<Rightarrow> js_value \<Rightarrow> chat_store \<Rightarrow> chat_store" where
  "start_assistant_message i now thread_id s =
     s\<lparr>ch_messages := ch_messages s @
         [\<lparr>cm_id = JStr i, cm_thread = thread_id, cm_role = ''assistant'', cm_content = [], cm_sources = JArr [],
           cm_created_at = now, cm_streaming = True, cm_error = Undefined, cm_rating = None\<rparr>],
       ch_streaming_id := Some i, ch_is_streaming := True, ch_error := Null\<rparr>"

definition append_token :: "string \<Rightarrow> string \<Rightarrow> chat_store \<Rightarrow> chat_store" where
  "append_token i token = change_message (JStr i) (\<lambda>m. m\<lparr>cm_content := cm_content m @ token\<rparr>)"

definition finish_assistant_message ::
  "string \<Rightarrow> (chat_message \<Rightarrow> chat_message) \<Rightarrow> chat_store \<Rightarrow> chat_store" where
  "finish_assistant_message i patch s =
     (change_message (JStr i) (\<lambda>m. (patch m)\<lparr>cm_streaming := False\<rparr>) s)
       \<lparr>ch_is_streaming := False, ch_streaming_id := None,
        ch_unread := (if ch_is_open s then ch_unread s else ch_unread s + 1)\<rparr>"

definition set_chat_sources :: "js_value \<Rightarrow> string option \<Rightarrow> chat_store \<Rightarrow> chat_store" where
  "set_chat_sources sources i s =
     (case i of
        Some j \<Rightarrow> if j = [] then s else change_message (JStr j) (\<lambda>m. m\<lparr>cm_sources := sources\<rparr>) s
      | None \<Rightarrow> s)\<lparr>ch_sources := sources\<rparr>"

definition start_tool_call :: "tool_call \<Rightarrow> chat_store \<Rightarrow> chat_store" where
  "start_tool_call c s = s\<lparr>ch_tool_calls := ch_tool_calls s @ [c\<lparr>tc_status := ''running''\<rparr>]\<rparr>"

definition end_tool_call :: "js_value \<Rightarrow> (tool_call \<Rightarrow> tool_call) \<Rightarrow> chat_store \<Rightarrow> chat_store" where
  "end_tool_call i patch s =
     s\<lparr>ch_tool_calls := map (\<lambda>c. if tc_id c = i then patch (c\<lparr>tc_status := ''done''\<rparr>) else c) (ch_tool_calls s)\<rparr>"

definition set_chat_error :: "js_value \<Rightarrow> chat_store \<Rightarrow> chat_store" where
  "set_chat_error e s = s\<lparr>ch_error := e, ch_is_streaming := False, ch_streaming_id := None\<rparr>"

definition rate_message :: "js_value \<Rightarrow> int \<Rightarrow> chat_store \<Rightarrow> chat_store" where
  "rate_message i rating = change_message i (\<lambda>m. m\<lparr>cm_rating := Some rating\<rparr>)"

definition open_chat :: "chat_store \<Rightarrow> chat_store" where
  "open_chat s = s\<lparr>ch_is_open := True, ch_unread := 0\<rparr>"

definition toggle_chat :: "chat_store \<Rightarrow> chat_store" where
  "toggle_chat s = s\<lparr>ch_is_open := \<not> ch_is_open s, ch_unread := (if ch_is_open s then ch_unread s else 0)\<rparr>"

definition reset_thread :: "chat_store \<Rightarrow> chat_store" where
  "reset_thread s =
     s\<lparr>ch_thread_id := Null, ch_messages := [], ch_sources := JArr [], ch_tool_calls := [], ch_is_streaming := False,
       ch_streaming_id := None, ch_error := Null, ch_input := []\<rparr>"

text \<open>Only the thread survives a reload; the rest is as in a fresh store.\<close>

definition persisted_chat :: "chat_store \<Rightarrow> js_value" where
  "persisted_chat s = ch_thread_id s"

definition rehydrate_chat :: "js_value \<Rightarrow> chat_store \<Rightarrow> chat_store" where
  "rehydrate_chat saved s = s\<lparr>ch_thread_id := saved, ch_hydrated := True\<rparr>"

section \<open>Sending a message\<close>

record panel = browser +
  pn_chat :: chat_store
  pn_active_tool :: js_value
  pn_uuids :: nat

record panel_env =
  pv_chat :: chat_env
  pv_fetch :: "chat_request \<Rightarrow> exn + chat_response"
  pv_new_id :: "nat \<Rightarrow> string"
  pv_locale :: string
  pv_token :: "string option"

type_synonym 'a panel_prog = "(panel, exn, 'a) prog"

definition on_chat :: "(chat_store \<Rightarrow> chat_store) \<Rightarrow> unit panel_prog" where
  "on_chat f = modify_state (\<lambda>w. w\<lparr>pn_chat := f (pn_chat w)\<rparr>)"

definition set_active_tool :: "js_value \<Rightarrow> unit panel_prog" where
  "set_active_tool t = modify_state (\<lambda>w. w\<lparr>pn_active_tool := t\<rparr>)"

definition new_id :: "panel_env \<Rightarrow> string panel_prog" where
  "new_id env = (\<lambda>w. (Return (pv_new_id env (pn_uuids w)), w\<lparr>pn_uuids := Suc (pn_uuids w)\<rparr>))"

definition panel_handlers :: "string \<Rightarrow> panel stream_handlers" where
  "panel_handlers i =
     \<lparr>on_token = Some (\<lambda>token. on_chat (append_token i token)),
      on_sources = Some (\<lambda>sources. on_chat (set_chat_sources sources (Some i))),
      on_tool_start = Some (\<lambda>payload.
        let name = nullish (get_prop payload ''name'') (nullish (get_prop payload ''route'') (JStr ''tool''))
        in seq (set_active_tool name) (\<lambda>_. on_chat (start_tool_call \<lparr>tc_id = name, tc_name = name, tc_status = ''running''\<rparr>))),
      on_tool_end = Some (\<lambda>payload.
        seq (set_active_tool Null) (\<lambda>_.
          on_chat (end_tool_call (nullish (get_prop payload ''name'') (JStr ''tool''))
            (\<lambda>c. c\<lparr>tc_status := (if get_prop payload ''ok'' = JBool False then ''error'' else ''done'')\<rparr>)))),
      on_done = Some (\<lambda>payload.
        seq (do_if (truthy (get_prop payload ''threadId'')) (on_chat (\<lambda>s. s\<lparr>ch_thread_id := get_prop payload ''threadId''\<rparr>))) (\<lambda>_.
          on_chat (finish_assistant_message i (\<lambda>m. m
            \<lparr>cm_id := nullish (get_prop payload ''messageId'') (JStr i), cm_thread := get_prop payload ''threadId'',
             cm_sources := get_prop payload ''sources''\<rparr>)))),
      on_error = Some (\<lambda>_ message.
        seq (on_chat (set_chat_error message)) (\<lambda>_.
          on_chat (finish_assistant_message i (\<lambda>m. m\<lparr>cm_error := message\<rparr>))))\<rparr>"

text \<open>What was thrown, as an error object.\<close>

definition failure_value :: "exn \<Rightarrow> js_value" where
  "failure_value e = (case e of Thrown v \<Rightarrow> v | _ \<Rightarrow> Undefined)"

definition failure_message :: "exn \<Rightarrow> js_value" where
  "failure_message e =
     (if js_class_of (failure_value e) = Some ErrorObject then get_prop (failure_value e) ''message''
      else JStr ''The assistant is unreachable.'')"

definition send_message :: "panel_env \<Rightarrow> int \<Rightarrow> string \<Rightarrow> unit panel_prog" where
  "send_message env now text =
     seq get_state (\<lambda>w.
       let question = trim text; thread_id = ch_thread_id (pn_chat w); local_thread = nullish thread_id (JStr ''pending'')
       in if question = [] \<or> ch_is_streaming (pn_chat w) then ret ()
       else
     seq (on_chat (set_chat_error Null)) (\<lambda>_.
     seq (on_chat (\<lambda>s. s\<lparr>ch_input := []\<rparr>)) (\<lambda>_.
     seq (new_id env) (\<lambda>user_id.
     seq (on_chat (append_message
            \<lparr>cm_id = JStr user_id, cm_thread = local_thread, cm_role = ''user'', cm_content = question,
             cm_sources = Undefined, cm_created_at = now, cm_streaming = False, cm_error = Undefined, cm_rating = None\<rparr>)) (\<lambda>_.
     seq (new_id env) (\<lambda>assistant_id.
     seq (on_chat (start_assistant_message assistant_id now local_thread)) (\<lambda>_.
     seq (on_chat (\<lambda>s. s\<lparr>ch_is_streaming := True\<rparr>)) (\<lambda>_.
     seq (catch
            (stream_message (pv_chat env) (pv_fetch env)
              \<lparr>sd_message = question, sd_thread_id = thread_id, sd_access_token = pv_token env, sd_locale = pv_locale env\<rparr>
              (panel_handlers assistant_id))
            (\<lambda>e. do_if (get_prop (failure_value e) ''name'' \<noteq> JStr ''AbortError'')
              (seq (on_chat (set_chat_error (failure_message e))) (\<lambda>_.
                 on_chat (finish_assistant_message assistant_id (\<lambda>m. m\<lparr>cm_error := failure_message e\<rparr>)))))) (\<lambda>_.
     seq (on_chat (\<lambda>s. s\<lparr>ch_is_streaming := False\<rparr>)) (\<lambda>_.
       set_active_tool Null))))))))))"

definition stop_chat :: "unit panel_prog" where
  "stop_chat = seq (on_chat (\<lambda>s. s\<lparr>ch_is_streaming := False\<rparr>)) (\<lambda>_. set_active_tool Null)"


section \<open>The events of a reply\<close>

text \<open>A frame as the service writes it, and what is relied on of JSON text: it is one line and reads back.\<close>

definition event_frame :: "(js_value \<Rightarrow> string) \<Rightarrow> string \<times> js_value \<Rightarrow> string" where
  "event_frame json ev = (case ev of (e, v) \<Rightarrow> ''event: '' @ e @ line_feed # ''data: '' @ json v)"

definition event_text :: "(js_value \<Rightarrow> string) \<Rightarrow> string \<times> js_value \<Rightarrow> string" where
  "event_text json ev = event_frame json ev @ [line_feed, line_feed]"

definition no_newline :: "string \<Rightarrow> bool" where
  "no_newline s \<longleftrightarrow> (\<forall>c\<in>set s. c \<noteq> line_feed \<and> c \<noteq> carriage_return)"

definition json_lines :: "chat_env \<Rightarrow> (js_value \<Rightarrow> string) \<Rightarrow> js_value set \<Rightarrow> bool" where
  "json_lines env json vs \<longleftrightarrow> (\<forall>v\<in>vs. ce_parse env (json v) = Some v \<and> no_newline (json v) \<and> trim (json v) = json v)"

definition reply_events :: "string list" where
  "reply_events = [''meta'', ''token'', ''sources'', ''tool_start'', ''tool_end'']"

definition streamed_text :: "chat_env \<Rightarrow> (string \<times> js_value) list \<Rightarrow> string" where
  "streamed_text env evs =
     concat (map (\<lambda>(e, v). if e = ''token'' then ce_string env (nullish (get_prop v ''text'') (JStr [])) else []) evs)"

lemma split_by_run:
  "\<forall>c\<in>set x. \<forall>s. m (c # s) = 0 \<Longrightarrow> split_by m (x @ t) = (x @ hd (split_by m t)) # tl (split_by m t)"
  by (induction x) (auto split: list.split)

lemma no_newline_at:
  "no_newline x \<Longrightarrow> \<forall>c\<in>set x. \<forall>s. newline_at (c # s) = 0"
  "no_newline x \<Longrightarrow> \<forall>c\<in>set x. \<forall>s. blank_line_at (c # s) = 0"
  by (auto simp: no_newline_def newline_at_def blank_line_at_def)

lemma no_newline_append [simp]: "no_newline (x @ y) \<longleftrightarrow> no_newline x \<and> no_newline y"
  "no_newline (c # y) \<longleftrightarrow> c \<noteq> line_feed \<and> c \<noteq> carriage_return \<and> no_newline y" "no_newline []"
  by (auto simp: no_newline_def)

lemma split_two_lines:
  assumes "no_newline x" and "no_newline y"
  shows "split_by newline_at (x @ line_feed # y) = [x, y]"
  using split_by_run [where t = "line_feed # y", OF no_newline_at(1) [OF assms(1)]]
    split_by_run [where t = "[]", OF no_newline_at(1) [OF assms(2)]] by simp

lemma split_frames:
  assumes "no_newline x" and "no_newline y" and "y \<noteq> []"
  shows "split_by blank_line_at (x @ line_feed # y @ line_feed # line_feed # t) =
    (x @ line_feed # y) # split_by blank_line_at t"
proof -
  obtain d z where y: "y = d # z" using assms(3) by (cases y) auto
  have "blank_line_at (line_feed # y @ s) = 0" for s
    using assms(2) by (auto simp: y blank_line_at_def newline_at_def)
  then have "split_by blank_line_at (line_feed # y @ line_feed # line_feed # t) =
      (line_feed # y) # split_by blank_line_at t"
    using split_by_run [where t = "line_feed # line_feed # t", OF no_newline_at(2) [OF assms(2)]] by simp
  then show ?thesis
    using split_by_run [where t = "line_feed # y @ line_feed # line_feed # t", OF no_newline_at(2) [OF assms(1)]] by simp
qed

lemma trim_space: "trim (CHR '' '' # s) = trim s"
  by (simp add: trim_def trim_start_def js_space_def)

text \<open>What the client reads is what the service wrote.\<close>

lemma read_event_frame:
  assumes "json_lines env json vs" and "v \<in> vs" and "no_newline e" and "trim e = e"
  shows "read_frame env (event_frame json (e, v)) = Some (e, v)"
proof -
  have v: "no_newline (json v)" "trim (json v) = json v" "ce_parse env (json v) = Some v"
    using assms(1,2) by (simp_all add: json_lines_def)
  have "split_by newline_at (event_frame json (e, v)) = [''event: '' @ e, ''data: '' @ json v]"
    using split_two_lines [of "''event: '' @ e" "''data: '' @ json v"] v(1) assms(3) by (simp add: event_frame_def)
  then show ?thesis
    by (simp add: read_frame_def frame_line_def starts_with_def trim_space assms(4) v)
qed

lemma parse_event_texts:
  assumes "json_lines env json vs" and "\<forall>(e, v)\<in>set evs. no_newline e \<and> v \<in> vs"
  shows "split_by blank_line_at (concat (map (event_text json) evs)) = map (event_frame json) evs @ [[]]"
  using assms(2)
proof (induction evs)
  case (Cons ev evs)
  obtain e v where ev: "ev = (e, v)" by (cases ev)
  have "no_newline (json v)" using assms(1) Cons.prems by (simp add: json_lines_def ev)
  then show ?case
    using split_frames [of "''event: '' @ e" "''data: '' @ json v"] Cons by (simp add: ev event_text_def event_frame_def)
qed simp

section \<open>The transcript\<close>

text \<open>The answer that is being received: the last message, alone with its id, with the text so far.\<close>

definition replying :: "string \<Rightarrow> chat_message list \<Rightarrow> string \<Rightarrow> panel \<Rightarrow> bool" where
  "replying i old text w \<longleftrightarrow> (\<forall>m\<in>set old. cm_id m \<noteq> JStr i) \<and> i \<noteq> [] \<and>
     (\<exists>m. ch_messages (pn_chat w) = old @ [m] \<and> cm_id m = JStr i \<and> cm_role m = ''assistant'' \<and> cm_content m = text \<and>
       cm_streaming m)"

lemma change_last:
  assumes "\<forall>m\<in>set old. cm_id m \<noteq> i" and "ch_messages s = old @ [m]" and "cm_id m = i"
  shows "ch_messages (change_message i f s) = old @ [f m]"
proof -
  have "map (\<lambda>x. if cm_id x = i then f x else x) old = old" using assms(1) by (intro map_idI) auto
  with assms(2,3) show ?thesis by (simp add: change_message_def)
qed

lemmas chat_ops = on_chat_def set_active_tool_def set_guest_def call1_def panel_handlers_def

lemma get_prop_nullish [simp]: "get_prop (nullish v (JObj PlainObject [])) k = get_prop v k"
  by (cases v) (simp_all add: nullish_def)

lemma dispatch_replies:
  assumes "replying i old text w" and "e \<in> set reply_events"
  shows "\<exists>w'. dispatch env e v (panel_handlers i) w = (Return (), w') \<and>
    replying i old (text @ streamed_text env [(e, v)]) w'"
proof -
  obtain m where m: "ch_messages (pn_chat w) = old @ [m]" "cm_id m = JStr i"
    and reply: "cm_role m = ''assistant''" "cm_content m = text" "cm_streaming m"
    and others: "\<forall>x\<in>set old. cm_id x \<noteq> JStr i" "i \<noteq> []"
    using assms(1) by (auto simp: replying_def)
  note last = change_last [OF others(1) m]
  show ?thesis
    using assms(2) m reply others
    by (auto simp: reply_events_def dispatch_def chat_ops replying_def streamed_text_def Let_def last append_token_def
        set_chat_sources_def start_tool_call_def end_tool_call_def seq_def)
qed

lemma replies_run:
  assumes "replying i old said w" and "\<forall>(e, v)\<in>set evs. e \<in> set reply_events"
  shows "\<exists>w'. seq_all (\<lambda>(e, v). dispatch env e v (panel_handlers i)) evs w = (Return (), w') \<and>
    replying i old (said @ streamed_text env evs) w'"
  using assms
proof (induction evs arbitrary: said w)
  case Nil
  then show ?case by (simp add: streamed_text_def)
next
  case (Cons ev evs)
  obtain e v where ev: "ev = (e, v)" by (cases ev)
  obtain w1 where w1: "dispatch env e v (panel_handlers i) w = (Return (), w1)"
    and r1: "replying i old (said @ streamed_text env [(e, v)]) w1"
    using dispatch_replies [OF Cons.prems(1), of e env v] Cons.prems(2) ev by auto
  show ?case using Cons.IH [OF r1] Cons.prems(2) w1 by (auto simp: ev streamed_text_def)
qed

text \<open>The text of a whole reply: its events, and the last one, if it arrived.\<close>

definition reply_text :: "(js_value \<Rightarrow> string) \<Rightarrow> (string \<times> js_value) list \<Rightarrow> js_value option \<Rightarrow> string" where
  "reply_text json evs final =
     concat (map (event_text json) (evs @ (case final of Some d \<Rightarrow> [(''done'', d)] | None \<Rightarrow> [])))"

lemma frames_handled:
  assumes "json_lines env json vs" and "\<forall>(e, v)\<in>set evs. no_newline e \<and> trim e = e \<and> v \<in> vs"
    and that: "concat chunks = concat (map (event_text json) evs)"
  shows "read_stream env handlers None [] chunks = seq_all (\<lambda>(e, v). dispatch env e v handlers) evs"
proof -
  have "\<forall>(e, v)\<in>set evs. no_newline e \<and> v \<in> vs" using assms(2) by auto
  from parse_event_texts [OF assms(1) this]
  have frames: "parse_frames (concat chunks) = (map (event_frame json) evs, [])"
    by (simp add: parse_frames_def that)
  have each: "seq_all (handle_frame env handlers) (map (event_frame json) evs) = seq_all (\<lambda>(e, v). dispatch env e v handlers) evs"
    using assms(2) by (induction evs) (auto simp: handle_frame_def read_event_frame [OF assms(1)])
  show ?thesis
    by (subst stream_chunks) (auto simp: frames each handle_frame_def read_frame_def frame_line_def starts_with_def fun_eq_iff seq_def split: prod.splits outcome.splits)
qed

lemma event_names: "e \<in> set reply_events \<or> e = ''done'' \<Longrightarrow> no_newline e \<and> trim e = e"
  by (auto simp: reply_events_def trim_def trim_start_def trim_end_def js_space_def)

text \<open>The last event finishes the answer, whatever id it gets.\<close>

lemma done_finishes:
  assumes "replying i old text w"
  shows "\<exists>w' reply. dispatch env ''done'' d (panel_handlers i) w = (Return (), w') \<and>
    ch_messages (pn_chat w') = old @ [reply] \<and> cm_role reply = ''assistant'' \<and> cm_content reply = text \<and>
    \<not> cm_streaming reply \<and> cm_error reply = cm_error (last (ch_messages (pn_chat w)))"
proof -
  obtain m where m: "ch_messages (pn_chat w) = old @ [m]" "cm_id m = JStr i"
    and reply: "cm_role m = ''assistant''" "cm_content m = text"
    and others: "\<forall>x\<in>set old. cm_id x \<noteq> JStr i"
    using assms(1) by (auto simp: replying_def)
  note last = change_last [OF others(1) m]
  have moved: "ch_messages (s\<lparr>ch_thread_id := x\<rparr>) = ch_messages s" for s :: chat_store and x by simp
  show ?thesis
    using m reply change_last [OF others, of "(pn_chat w)\<lparr>ch_thread_id := get_prop d ''threadId''\<rparr>" m] last
    by (auto simp: dispatch_def chat_ops Let_def finish_assistant_message_def seq_def do_if_def)
qed

definition chat_stream_answer :: "chat_response \<Rightarrow> string \<Rightarrow> bool" where
  "chat_stream_answer r text \<longleftrightarrow> response_ok (cs_status r) \<and> cs_has_body r \<and> cs_broken r = None \<and>
     (\<exists>t. cs_content_type r = Some t \<and> js_includes t ''text/event-stream'') \<and> concat (cs_chunks r) = text"

text \<open>Up to the request, sending stores the question and an empty answer.\<close>

lemma panel_steps [simp]:
  "on_chat f w = (Return (), w\<lparr>pn_chat := f (pn_chat w)\<rparr>)"
  "set_active_tool t w = (Return (), w\<lparr>pn_active_tool := t\<rparr>)"
  "new_id env w = (Return (pv_new_id env (pn_uuids w)), w\<lparr>pn_uuids := Suc (pn_uuids w)\<rparr>)"
  by (simp_all add: on_chat_def set_active_tool_def new_id_def)

lemma question_asked:
  assumes "trim said \<noteq> []" and "\<not> ch_is_streaming (pn_chat w)" and inj: "inj (pv_new_id env)"
    and fresh: "\<forall>n\<ge>pn_uuids w. pv_new_id env n \<noteq> [] \<and> JStr (pv_new_id env n) \<notin> cm_id ` set (ch_messages (pn_chat w))"
  obtains asked v opts h where "cm_role asked = ''user''" and "cm_content asked = trim said"
    and "replying (pv_new_id env (Suc (pn_uuids w))) (ch_messages (pn_chat w) @ [asked]) [] v"
    and "send_message env now said w =
      seq (catch (stream_message (pv_chat env) (pv_fetch env) opts (panel_handlers (pv_new_id env (Suc (pn_uuids w))))) h)
        (\<lambda>_. seq (on_chat (\<lambda>s. s\<lparr>ch_is_streaming := False\<rparr>)) (\<lambda>_. set_active_tool Null)) v"
proof -
  let ?thread = "nullish (ch_thread_id (pn_chat w)) (JStr ''pending'')"
  define asked where "asked = \<lparr>cm_id = JStr (pv_new_id env (pn_uuids w)), cm_thread = ?thread, cm_role = ''user'',
    cm_content = trim said, cm_sources = Undefined, cm_created_at = now, cm_streaming = False, cm_error = Undefined,
    cm_rating = None\<rparr>"
  define v where "v = w\<lparr>pn_uuids := Suc (Suc (pn_uuids w)), pn_chat :=
    (start_assistant_message (pv_new_id env (Suc (pn_uuids w))) now ?thread
      (append_message asked ((set_chat_error Null (pn_chat w))\<lparr>ch_input := []\<rparr>)))\<lparr>ch_is_streaming := True\<rparr>\<rparr>"
  let ?h = "\<lambda>e. do_if (get_prop (failure_value e) ''name'' \<noteq> JStr ''AbortError'')
    (seq (on_chat (set_chat_error (failure_message e))) (\<lambda>_.
       on_chat (finish_assistant_message (pv_new_id env (Suc (pn_uuids w))) (\<lambda>m. m\<lparr>cm_error := failure_message e\<rparr>))))"
  have "replying (pv_new_id env (Suc (pn_uuids w))) (ch_messages (pn_chat w) @ [asked]) [] v"
    using fresh [rule_format, of "Suc (pn_uuids w)"] injD [OF inj, of "pn_uuids w" "Suc (pn_uuids w)"]
    by (auto simp: replying_def v_def start_assistant_message_def append_message_def set_chat_error_def asked_def image_iff)
  moreover have "send_message env now said w =
      seq (catch (stream_message (pv_chat env) (pv_fetch env)
          \<lparr>sd_message = trim said, sd_thread_id = ch_thread_id (pn_chat w), sd_access_token = pv_token env, sd_locale = pv_locale env\<rparr>
          (panel_handlers (pv_new_id env (Suc (pn_uuids w))))) ?h)
        (\<lambda>_. seq (on_chat (\<lambda>s. s\<lparr>ch_is_streaming := False\<rparr>)) (\<lambda>_. set_active_tool Null)) v"
    using assms(1,2) by (simp add: send_message_def Let_def v_def asked_def)
  ultimately show thesis using that [of asked v] by (simp add: asked_def)
qed

text \<open>
  C5: A streamed answer is shown as it was written: after a question, the conversation has grown by the question and by
  one answer, whose text is the texts of the token events in order, however the network cut the stream; the widget is
  ready for the next question. The answer is marked as finished exactly if the last event, \<open>done\<close>, arrived.
\<close>

theorem chat_reply_shown:
  assumes json: "json_lines (pv_chat env) json (snd ` set evs \<union> set_option final)" and events: "\<forall>(e, v)\<in>set evs. e \<in> set reply_events"
    and answer: "\<And>rq. \<exists>r. pv_fetch env rq = Inr r \<and> chat_stream_answer r (reply_text json evs final)"
    and question: "trim text \<noteq> []" and idle: "\<not> ch_is_streaming (pn_chat w)"
    and fresh: "inj (pv_new_id env)" "\<forall>n\<ge>pn_uuids w. pv_new_id env n \<noteq> [] \<and> JStr (pv_new_id env n) \<notin> cm_id ` set (ch_messages (pn_chat w))"
  shows "\<exists>w' asked reply. send_message env now text w = (Return (), w') \<and>
    ch_messages (pn_chat w') = ch_messages (pn_chat w) @ [asked, reply] \<and>
    cm_role asked = ''user'' \<and> cm_content asked = trim text \<and>
    cm_role reply = ''assistant'' \<and> cm_content reply = streamed_text (pv_chat env) evs \<and>
    (cm_streaming reply \<longleftrightarrow> final = None) \<and> \<not> ch_is_streaming (pn_chat w')"
proof -
  let ?i = "pv_new_id env (Suc (pn_uuids w))" and ?c = "pv_chat env"
  let ?all = "evs @ (case final of Some d \<Rightarrow> [(''done'', d)] | None \<Rightarrow> [])"
  obtain asked v opts h where asked: "cm_role asked = ''user''" "cm_content asked = trim text"
    and v: "replying ?i (ch_messages (pn_chat w) @ [asked]) [] v"
    and send: "send_message env now text w = seq (catch (stream_message ?c (pv_fetch env) opts (panel_handlers ?i)) h)
        (\<lambda>_. seq (on_chat (\<lambda>s. s\<lparr>ch_is_streaming := False\<rparr>)) (\<lambda>_. set_active_tool Null)) v"
    using question_asked [OF question idle fresh] by metis
  have names: "\<forall>(e, v)\<in>set ?all. no_newline e \<and> trim e = e \<and> v \<in> snd ` set evs \<union> set_option final"
  proof
    fix ev assume "ev \<in> set ?all"
    then have "ev \<in> set evs \<or> (\<exists>d. final = Some d \<and> ev = (''done'', d))" by (cases final) auto
    then have "(fst ev \<in> set reply_events \<or> fst ev = ''done'') \<and> snd ev \<in> snd ` set evs \<union> set_option final"
      using events by (cases ev) force
    then show "case ev of (e, v) \<Rightarrow> no_newline e \<and> trim e = e \<and> v \<in> snd ` set evs \<union> set_option final"
      using event_names [of "fst ev"] by (cases ev) simp
  qed
  obtain r where "pv_fetch env (chat_request_of opts (guest_token_get (br_guest v))) = Inr r"
    and r: "chat_stream_answer r (reply_text json evs final)"
    using answer by blast
  then have run: "stream_message ?c (pv_fetch env) opts (panel_handlers ?i) v =
      seq_all (\<lambda>(e, u). dispatch ?c e u (panel_handlers ?i)) ?all v"
    using frames_handled [OF json names, of "cs_chunks r" "panel_handlers ?i"]
    by (auto simp: stream_message_def chat_stream_answer_def reply_text_def)
  obtain v1 where v1: "seq_all (\<lambda>(e, u). dispatch ?c e u (panel_handlers ?i)) evs v = (Return (), v1)"
    and r1: "replying ?i (ch_messages (pn_chat w) @ [asked]) (streamed_text ?c evs) v1"
    using replies_run [OF v events, of ?c] by auto
  show ?thesis
  proof (cases final)
    case None
    then show ?thesis using run v1 r1 asked by (auto simp: send replying_def)
  next
    case (Some d)
    then show ?thesis using run v1 done_finishes [OF r1, of ?c d] asked by (auto simp: send seq_all_append)
  qed
qed

text \<open>Two pieces of an answer, cut in the middle of a frame, with a table for the JSON texts.\<close>

definition demo_token :: "string \<Rightarrow> js_value" where
  "demo_token t = JObj PlainObject [(''text'', JStr t)]"

definition demo_done :: js_value where
  "demo_done = JObj PlainObject [(''threadId'', JStr ''t1''), (''messageId'', JStr ''m1'')]"

definition demo_json :: "js_value \<Rightarrow> string" where
  "demo_json v = (if v = demo_token ''Hi '' then ''{text:Hi}'' else if v = demo_token ''there'' then ''{text:there}'' else ''{done}'')"

definition demo_panel_env :: panel_env where
  "demo_panel_env =
     \<lparr>pv_chat = \<lparr>ce_parse = (\<lambda>s. if s = ''{text:Hi}'' then Some (demo_token ''Hi '')
          else if s = ''{text:there}'' then Some (demo_token ''there'') else if s = ''{done}'' then Some demo_done else None),
        ce_string = (\<lambda>v. case v of JStr s \<Rightarrow> s | _ \<Rightarrow> [])\<rparr>,
      pv_fetch = (\<lambda>_. Inr \<lparr>cs_status = 200, cs_content_type = Some ''text/event-stream'', cs_json = None, cs_has_body = True,
        cs_chunks = (let s = reply_text demo_json [(''token'', demo_token ''Hi ''), (''token'', demo_token ''there'')] (Some demo_done)
          in [take 20 s, drop 20 s]),
        cs_broken = None\<rparr>),
      pv_new_id = show_nat, pv_locale = ''en'', pv_token = None\<rparr>"

definition fresh_panel :: panel where
  "fresh_panel = \<lparr>br_guest = \<lparr>gs_enabled = True, gs_token = None\<rparr>, pn_chat = initial_chat, pn_active_tool = Null, pn_uuids = 0\<rparr>"

theorem chat_reply_shown_witness:
  "\<exists>w' asked reply. send_message demo_panel_env 5 '' Hello '' fresh_panel = (Return (), w') \<and>
    ch_messages (pn_chat w') = [asked, reply] \<and> cm_content asked = ''Hello'' \<and> cm_content reply = ''Hi there'' \<and>
    \<not> cm_streaming reply"
proof -
  let ?evs = "[(''token'', demo_token ''Hi ''), (''token'', demo_token ''there'')]"
  have json: "json_lines (pv_chat demo_panel_env) demo_json (snd ` set ?evs \<union> set_option (Some demo_done))"
    by (auto simp: json_lines_def demo_panel_env_def demo_json_def demo_token_def demo_done_def no_newline_def trim_def
        trim_start_def trim_end_def js_space_def)
  have answer: "\<exists>r. pv_fetch demo_panel_env rq = Inr r \<and> chat_stream_answer r (reply_text demo_json ?evs (Some demo_done))" for rq
    by (simp add: demo_panel_env_def chat_stream_answer_def response_ok_def Let_def starts_with_def)
  have ids: "inj (pv_new_id demo_panel_env)" "pv_new_id demo_panel_env n \<noteq> []" for n
    by (auto simp: demo_panel_env_def inj_def show_nat_inj)
  have said: "trim '' Hello '' = ''Hello''" by (simp add: trim_def trim_start_def trim_end_def js_space_def)
  have "streamed_text (pv_chat demo_panel_env) ?evs = ''Hi there''"
    by (simp add: streamed_text_def demo_panel_env_def demo_token_def nullish_def)
  with chat_reply_shown [OF json _ answer, of "'' Hello ''" fresh_panel 5] ids said show ?thesis
    by (auto simp: fresh_panel_def initial_chat_def reply_events_def)
qed

end
