(* ===== verification/Web_Auth.thy ===== *)
theory Web_Auth
  imports Http_Errors
begin

text \<open>
  The session in the browser: reading an access token (\<open>apps/web/src/lib/jwt.ts\<close>, with the \<open>atob\<close> of the platform) and
  the auth store (\<open>store/auth.store.ts\<close>). The UTF-8 text of some bytes read as JSON, and \<open>Number\<close> of a value that is no
  number, are parameters.
\<close>

section \<open>Base 64\<close>

definition base64_value :: "char \<Rightarrow> nat option" where
  "base64_value c =
     (let n = (of_char c :: nat)
      in if 65 \<le> n \<and> n \<le> 90 then Some (n - 65)
         else if 97 \<le> n \<and> n \<le> 122 then Some (n - 71)
         else if 48 \<le> n \<and> n \<le> 57 then Some (n + 4)
         else if c = CHR ''+'' then Some 62
         else if c = CHR ''/'' then Some 63 else None)"

text \<open>Four digits of six bits are three bytes; the bits left over at the end are dropped.\<close>

fun sextets_to_bytes :: "nat list \<Rightarrow> nat list" where
  "sextets_to_bytes (a # b # c # d # ds) =
     (4 * a + b div 16) # (16 * (b mod 16) + c div 4) # (64 * (c mod 4) + d) # sextets_to_bytes ds"
| "sextets_to_bytes [a, b, c] = [4 * a + b div 16, 16 * (b mod 16) + c div 4]"
| "sextets_to_bytes [a, b] = [4 * a + b div 16]"
| "sextets_to_bytes ds = []"

definition ascii_space :: "char \<Rightarrow> bool" where
  "ascii_space c \<longleftrightarrow> (of_char c :: nat) \<in> {9, 10, 12, 13, 32}"

definition strip_padding :: "string \<Rightarrow> string" where
  "strip_padding s =
     (if length s mod 4 \<noteq> 0 then s
      else
        let drop_one = \<lambda>t. if t \<noteq> [] \<and> last t = CHR ''='' then butlast t else t
        in drop_one (drop_one s))"

definition atob :: "string \<Rightarrow> string option" where
  "atob s =
     (let t = strip_padding (filter (\<lambda>c. \<not> ascii_space c) s)
      in if length t mod 4 = 1 \<or> \<not> list_all (\<lambda>c. base64_value c \<noteq> None) t then None
         else Some (map char_of (sextets_to_bytes (map (\<lambda>c. the (base64_value c)) t))))"

section \<open>Access tokens\<close>

record web_env =
  we_parse_bytes :: "string \<Rightarrow> js_value option"
  we_to_number :: "js_value \<Rightarrow> js_num"

definition base64url_decode :: "string \<Rightarrow> string option" where
  "base64url_decode segment =
     (let normalized = map (\<lambda>c. if c = CHR ''-'' then CHR ''+'' else if c = CHR ''_'' then CHR ''/'' else c) segment;
          padded = normalized @ replicate ((4 - length normalized mod 4) mod 4) (CHR ''='')
      in atob padded)"

definition decode_access_token :: "web_env \<Rightarrow> string option \<Rightarrow> js_value" where
  "decode_access_token env token =
     (case token of
        None \<Rightarrow> Null
      | Some t \<Rightarrow>
          if t = [] then Null
          else
            (case split_on CHR ''.'' t of
               [_, claims, _] \<Rightarrow>
                 (case base64url_decode claims of
                    None \<Rightarrow> Null
                  | Some bytes \<Rightarrow> (case we_parse_bytes env bytes of Some v \<Rightarrow> v | None \<Rightarrow> Null))
             | _ \<Rightarrow> Null))"

definition to_num :: "web_env \<Rightarrow> js_value \<Rightarrow> js_num" where
  "to_num env v = (case v of JNum n \<Rightarrow> n | _ \<Rightarrow> we_to_number env v)"

definition times_thousand :: "js_num \<Rightarrow> js_num" where
  "times_thousand n = (case n of Fin r \<Rightarrow> Fin (1000 * r) | _ \<Rightarrow> n)"

definition token_expires_at :: "web_env \<Rightarrow> string option \<Rightarrow> js_num option" where
  "token_expires_at env token =
     (let e = get_prop (decode_access_token env token) ''exp''
      in if truthy e then Some (times_thousand (to_num env e)) else None)"

definition is_token_expired :: "web_env \<Rightarrow> int \<Rightarrow> string option \<Rightarrow> int \<Rightarrow> bool" where
  "is_token_expired env now token skew =
     (case token_expires_at env token of
        None \<Rightarrow> token = None \<or> token = Some []
      | Some (Fin r) \<Rightarrow> r - of_int (skew * 1000) \<le> of_int now
      | Some NaN \<Rightarrow> False
      | Some (Infinity negative) \<Rightarrow> negative)"

section \<open>The auth store\<close>

datatype auth_status = Unauthenticated | Authenticated

record auth_store =
  wa_user :: js_value
  wa_token :: "string option"
  wa_expires_at :: "js_num option"
  wa_status :: auth_status
  wa_hydrated :: bool

definition initial_auth :: auth_store where
  "initial_auth = \<lparr>wa_user = Null, wa_token = None, wa_expires_at = None, wa_status = Unauthenticated, wa_hydrated = False\<rparr>"

definition status_of :: "string option \<Rightarrow> js_value \<Rightarrow> auth_status" where
  "status_of token user = (if token \<noteq> None \<and> token \<noteq> Some [] \<and> truthy user then Authenticated else Unauthenticated)"

definition auth_login :: "web_env \<Rightarrow> js_value \<Rightarrow> string \<Rightarrow> auth_store \<Rightarrow> auth_store" where
  "auth_login env user token s =
     s\<lparr>wa_user := user, wa_token := Some token, wa_expires_at := token_expires_at env (Some token), wa_status := Authenticated\<rparr>"

definition set_session :: "web_env \<Rightarrow> js_value \<Rightarrow> string option \<Rightarrow> auth_store \<Rightarrow> auth_store" where
  "set_session env user token s =
     (let next = if user = Undefined then wa_user s else user
      in s\<lparr>wa_user := next, wa_token := token, wa_expires_at := token_expires_at env token, wa_status := status_of token next\<rparr>)"

definition set_access_token :: "web_env \<Rightarrow> string option \<Rightarrow> auth_store \<Rightarrow> auth_store" where
  "set_access_token env token s =
     s\<lparr>wa_token := token, wa_expires_at := token_expires_at env token, wa_status := status_of token (wa_user s)\<rparr>"

definition set_user :: "js_value \<Rightarrow> auth_store \<Rightarrow> auth_store" where
  "set_user user s = s\<lparr>wa_user := user, wa_status := status_of (wa_token s) user\<rparr>"

definition auth_logout :: "auth_store \<Rightarrow> auth_store" where
  "auth_logout s = s\<lparr>wa_user := Null, wa_token := None, wa_expires_at := None, wa_status := Unauthenticated\<rparr>"

text \<open>
  What is stored, as JSON: a field that is undefined is left out, and a number that is not finite is \<open>null\<close>. Reading it
  merges it into a store; with nothing stored the store stays, but for its status.
\<close>

record persisted_auth =
  ps_user :: "js_value option"
  ps_token :: "string option"
  ps_expires_at :: "js_num option"

definition json_number :: "js_num option \<Rightarrow> js_num option" where
  "json_number n = (case n of Some (Fin r) \<Rightarrow> Some (Fin r) | _ \<Rightarrow> None)"

definition partialize_auth :: "auth_store \<Rightarrow> persisted_auth" where
  "partialize_auth s =
     \<lparr>ps_user = (if wa_user s = Undefined then None else Some (wa_user s)), ps_token = wa_token s,
      ps_expires_at = json_number (wa_expires_at s)\<rparr>"

definition merge_auth :: "persisted_auth option \<Rightarrow> auth_store \<Rightarrow> auth_store" where
  "merge_auth persisted current =
     (case persisted of
        None \<Rightarrow> current\<lparr>wa_status := Unauthenticated\<rparr>
      | Some p \<Rightarrow>
          current\<lparr>wa_user := (case ps_user p of Some u \<Rightarrow> u | None \<Rightarrow> wa_user current), wa_token := ps_token p,
            wa_expires_at := ps_expires_at p,
            wa_status := (case ps_user p of Some u \<Rightarrow> status_of (ps_token p) u | None \<Rightarrow> Unauthenticated)\<rparr>)"

definition set_hydrated :: "bool \<Rightarrow> auth_store \<Rightarrow> auth_store" where
  "set_hydrated b s = s\<lparr>wa_hydrated := b\<rparr>"

definition has_role :: "string list \<Rightarrow> auth_store \<Rightarrow> bool" where
  "has_role roles s \<longleftrightarrow> truthy (wa_user s) \<and>
     (case get_prop (wa_user s) ''role'' of JStr r \<Rightarrow> r \<in> set roles | _ \<Rightarrow> False)"

text \<open>The actions; a reload starts a fresh store and reads what was stored.\<close>

datatype auth_action =
    Login js_value string
  | SetSession js_value "string option"
  | SetAccessToken "string option"
  | SetUser js_value
  | Logout
  | Reload

primrec auth_step :: "web_env \<Rightarrow> auth_action \<Rightarrow> auth_store \<Rightarrow> auth_store" where
  "auth_step env (Login user token) s = auth_login env user token s"
| "auth_step env (SetSession user token) s = set_session env user token s"
| "auth_step env (SetAccessToken token) s = set_access_token env token s"
| "auth_step env (SetUser user) s = set_user user s"
| "auth_step env Logout s = auth_logout s"
| "auth_step env Reload s = set_hydrated True (merge_auth (Some (partialize_auth s)) initial_auth)"

section \<open>The store is consistent\<close>

definition action_ok :: "auth_action \<Rightarrow> bool" where
  "action_ok a \<longleftrightarrow> (case a of Login user token \<Rightarrow> truthy user \<and> token \<noteq> [] | _ \<Rightarrow> True)"

definition auth_consistent :: "web_env \<Rightarrow> auth_store \<Rightarrow> bool" where
  "auth_consistent env s \<longleftrightarrow> wa_status s = status_of (wa_token s) (wa_user s) \<and>
     json_number (wa_expires_at s) = json_number (token_expires_at env (wa_token s))"

lemma json_number_idem [simp]: "json_number (json_number n) = json_number n"
  by (auto simp: json_number_def split: option.splits js_num.splits)

lemma no_token [simp]: "token_expires_at env None = None" "status_of None u = Unauthenticated"
  "status_of t Undefined = Unauthenticated" "status_of t Null = Unauthenticated"
  by (simp_all add: token_expires_at_def decode_access_token_def status_of_def)

lemma auth_step_consistent:
  assumes "action_ok a" and "auth_consistent env s"
  shows "auth_consistent env (auth_step env a s)"
  using assms
  by (cases a)
    (auto simp: auth_consistent_def action_ok_def auth_login_def set_session_def set_access_token_def set_user_def
      auth_logout_def set_hydrated_def merge_auth_def partialize_auth_def initial_auth_def status_of_def Let_def)

interpretation session: state_container initial_auth "auth_step (env :: web_env)" action_ok "auth_consistent env" for env
  by unfold_locales (auto intro: auth_step_consistent, simp add: auth_consistent_def initial_auth_def)

text \<open>
  C31: The browser's idea of being signed in is consistent, over any sequence of logins, refreshed sessions, profile
  changes, logouts and reloads of the page: the status is \<open>authenticated\<close> exactly when there are both an access token
  and a user, and the instant of expiry is the one the token carries.
\<close>

theorem auth_store_consistent:
  assumes "\<forall>a\<in>set actions. action_ok a"
  shows "let s = fold (auth_step env) actions initial_auth in
    (wa_status s = Authenticated \<longleftrightarrow> (\<exists>t. wa_token s = Some t \<and> t \<noteq> []) \<and> truthy (wa_user s)) \<and>
    json_number (wa_expires_at s) = json_number (token_expires_at env (wa_token s))"
  using session.inv_run [OF assms, of env] by (auto simp: auth_consistent_def status_of_def Let_def)

definition demo_web :: web_env where
  "demo_web =
     \<lparr>we_parse_bytes = (\<lambda>s. if s = ''{exp:9}'' then Some (JObj PlainObject [(''exp'', JNum (Fin 9))]) else None),
      we_to_number = (\<lambda>_. NaN)\<rparr>"

definition demo_signed_in :: js_value where
  "demo_signed_in = JObj PlainObject [(''id'', JStr ''u1''), (''role'', JStr ''user'')]"

text \<open>A login, a reload, and a session that was refreshed without a user: still signed in. After a logout not.\<close>

theorem auth_store_consistent_witness:
  "wa_status (fold (auth_step demo_web) [Login demo_signed_in ''a.b.c'', Reload, SetSession Undefined (Some ''d.e.f'')] initial_auth) =
     Authenticated \<and>
   wa_status (fold (auth_step demo_web) [Login demo_signed_in ''a.b.c'', Logout, Reload] initial_auth) = Unauthenticated"
proof -
  have ok: "\<forall>a\<in>set [Login demo_signed_in ''a.b.c'', Reload, SetSession Undefined (Some ''d.e.f'')]. action_ok a"
    "\<forall>a\<in>set [Login demo_signed_in ''a.b.c'', Logout, Reload]. action_ok a"
    by (simp_all add: action_ok_def demo_signed_in_def)
  show ?thesis
    using auth_store_consistent [OF ok(1), of demo_web] auth_store_consistent [OF ok(2), of demo_web]
    by (auto simp: Let_def auth_login_def set_session_def auth_logout_def set_hydrated_def merge_auth_def
        partialize_auth_def initial_auth_def demo_signed_in_def status_of_def)
qed

section \<open>The token of the server is read\<close>

text \<open>How a token is written: bytes in the alphabet for URLs, without padding.\<close>

fun bytes_to_sextets :: "nat list \<Rightarrow> nat list" where
  "bytes_to_sextets (a # b # c # bs) =
     (a div 4) # (16 * (a mod 4) + b div 16) # (4 * (b mod 16) + c div 64) # (c mod 64) # bytes_to_sextets bs"
| "bytes_to_sextets [a, b] = [a div 4, 16 * (a mod 4) + b div 16, 4 * (b mod 16)]"
| "bytes_to_sextets [a] = [a div 4, 16 * (a mod 4)]"
| "bytes_to_sextets bs = []"

definition base64_char :: "nat \<Rightarrow> char" where
  "base64_char n =
     (if n < 26 then char_of (n + 65) else if n < 52 then char_of (n + 71) else if n < 62 then char_of (n - 4)
      else if n = 62 then CHR ''+'' else CHR ''/'')"

definition base64url_char :: "nat \<Rightarrow> char" where
  "base64url_char n = (if n = 62 then CHR ''-'' else if n = 63 then CHR ''_'' else base64_char n)"

definition base64url_encode :: "string \<Rightarrow> string" where
  "base64url_encode s = map base64url_char (bytes_to_sextets (map of_char s))"

lemma sextet_parts:
  assumes "(b::nat) < 256"
  shows "4 * (a div 4) + (16 * (a mod 4) + b div 16) div 16 = (a::nat)" "4 * (a div 4) + (16 * (a mod 4)) div 16 = a"
    "16 * ((16 * c + a div 16) mod 16) + (4 * (a mod 16) + b div 64) div 4 = (16 * (a div 16 mod 16) + a mod 16 :: nat)"
    "16 * ((16 * c + a div 16) mod 16) + (4 * (a mod 16)) div 4 = (16 * (a div 16 mod 16) + a mod 16 :: nat)"
    "64 * ((4 * c + b div 64) mod 4) + b mod 64 = b"
proof -
  have "b div 16 < 16" "b div 64 < 4" using assms by auto
  then show "4 * (a div 4) + (16 * (a mod 4) + b div 16) div 16 = (a::nat)" "4 * (a div 4) + (16 * (a mod 4)) div 16 = a"
    "16 * ((16 * c + a div 16) mod 16) + (4 * (a mod 16) + b div 64) div 4 = (16 * (a div 16 mod 16) + a mod 16 :: nat)"
    "16 * ((16 * c + a div 16) mod 16) + (4 * (a mod 16)) div 4 = (16 * (a div 16 mod 16) + a mod 16 :: nat)"
    "64 * ((4 * c + b div 64) mod 4) + b mod 64 = b"
    by simp_all
qed

lemma byte_parts: "(a::nat) < 256 \<Longrightarrow> 16 * (a div 16 mod 16) + a mod 16 = a"
proof -
  assume "a < 256"
  then have "a div 16 < 16" by auto
  then show ?thesis by simp
qed

lemma bytes_of_sextets: "\<forall>b\<in>set bs. b < 256 \<Longrightarrow> sextets_to_bytes (bytes_to_sextets bs) = bs"
  by (induction bs rule: bytes_to_sextets.induct) (auto simp: sextet_parts byte_parts)

lemma sextet_small:
  assumes "(b::nat) < 256"
  shows "b div 4 < 64" "16 * (a mod 4) + b div 16 < 64" "4 * (a mod 16) + b div 64 < 64" "16 * (a mod 4) < (64::nat)"
    "4 * (a mod 16) < (64::nat)" "a mod 64 < (64::nat)"
proof -
  have "a mod 4 < 4" "a mod 16 < 16" "b div 16 < 16" "b div 64 < 4" using assms by auto
  then show "b div 4 < 64" "16 * (a mod 4) + b div 16 < 64" "4 * (a mod 16) + b div 64 < 64" "16 * (a mod 4) < (64::nat)"
    "4 * (a mod 16) < (64::nat)" "a mod 64 < (64::nat)"
    using assms by auto
qed

lemma sextets_small: "\<forall>b\<in>set bs. b < 256 \<Longrightarrow> \<forall>n\<in>set (bytes_to_sextets bs). n < 64"
  by (induction bs rule: bytes_to_sextets.induct) (auto simp: sextet_small)

lemma sextets_length: "length (bytes_to_sextets bs) mod 4 \<noteq> 1"
  by (induction bs rule: bytes_to_sextets.induct) auto

lemma base64_code:
  "n < 64 \<Longrightarrow> (of_char (base64_char n) :: nat) =
     (if n < 26 then n + 65 else if n < 52 then n + 71 else if n < 62 then n - 4 else if n = 62 then 43 else 47)"
  by (simp add: base64_char_def)

lemma char_code: "c = d \<longleftrightarrow> (of_char c :: nat) = of_char d"
  by simp

lemma base64_digit:
  assumes "n < 64"
  shows "base64_value (base64_char n) = Some n" and "\<not> ascii_space (base64_char n)" and "base64_char n \<noteq> CHR ''=''"
    and "(if base64url_char n = CHR ''-'' then CHR ''+'' else if base64url_char n = CHR ''_'' then CHR ''/'' else base64url_char n) = base64_char n"
    and "base64url_char n \<noteq> CHR ''.''"
  using base64_code [OF assms] assms
  unfolding base64_value_def ascii_space_def base64url_char_def Let_def char_code
  by (auto simp: base64_char_def)

lemma strip_padding_pad:
  assumes "CHR ''='' \<notin> set s" and "length s mod 4 \<noteq> 1"
  shows "strip_padding (s @ replicate ((4 - length s mod 4) mod 4) (CHR ''='')) = s"
proof -
  have last: "s \<noteq> [] \<Longrightarrow> last s \<noteq> CHR ''=''" using assms(1) last_in_set by metis
  have "length s mod 4 \<in> {0, 2, 3}" using assms(2) by (simp, presburger)
  then consider "length s mod 4 = 0" | "length s mod 4 = 2" | "length s mod 4 = 3" by auto
  then show ?thesis
  proof cases
    case 1
    with last show ?thesis by (cases "s = []") (simp_all add: strip_padding_def Let_def)
  next
    case 2
    then have "(length s + 2) mod 4 = 0" by presburger
    with 2 show ?thesis by (simp add: strip_padding_def Let_def numeral_2_eq_2 butlast_append)
  next
    case 3
    then have "Suc (length s) mod 4 = 0" by presburger
    with 3 last show ?thesis by (cases "s = []") (simp_all add: strip_padding_def Let_def butlast_append)
  qed
qed

lemma base64url_decode_encode: "base64url_decode (base64url_encode s) = Some s"
proof -
  let ?ds = "bytes_to_sextets (map of_char s :: nat list)"
  have small: "\<forall>n\<in>set ?ds. n < 64" by (rule sextets_small) (auto simp: of_char_of)
  let ?t = "map base64_char ?ds"
  have norm: "map (\<lambda>c. if c = CHR ''-'' then CHR ''+'' else if c = CHR ''_'' then CHR ''/'' else c) (base64url_encode s) = ?t"
    unfolding base64url_encode_def map_map using small by (intro map_cong) (auto simp only: comp_def base64_digit)
  have "strip_padding (?t @ replicate ((4 - length ?t mod 4) mod 4) (CHR ''='')) = ?t"
    using small sextets_length [of "map of_char s"] by (intro strip_padding_pad) (auto simp: base64_digit(3) [symmetric])
  moreover have "filter (\<lambda>c. \<not> ascii_space c) (?t @ replicate ((4 - length ?t mod 4) mod 4) (CHR ''='')) =
      ?t @ replicate ((4 - length ?t mod 4) mod 4) (CHR ''='')"
    using small base64_digit(2) by (subst filter_id_conv) (auto simp: ascii_space_def [of "CHR ''=''"])
  moreover have "map (\<lambda>c. the (base64_value c)) ?t = ?ds" "list_all (\<lambda>c. base64_value c \<noteq> None) ?t"
    using small by (auto simp: map_idI base64_digit(1) list_all_iff)
  moreover have "map char_of (sextets_to_bytes ?ds) = s"
    using bytes_of_sextets [of "map of_char s :: nat list"] by (simp add: comp_def)
  ultimately show ?thesis
    using sextets_length [of "map of_char s"]
    unfolding base64url_decode_def Let_def norm atob_def by simp
qed

lemma base64url_no_dot: "CHR ''.'' \<notin> set (base64url_encode s)"
  using sextets_small [of "map of_char s :: nat list"] base64_digit(5)
  by (force simp: base64url_encode_def dest: sym)

text \<open>
  The browser reads a token as it was written: for any claims in the encoding of a JSON web token, the instant of
  expiry is the one of the claim \<open>exp\<close>, and the token counts as expired from the skew before it on.
\<close>

theorem token_expiry_read:
  assumes "CHR ''.'' \<notin> set h" and "CHR ''.'' \<notin> set sig" and "we_parse_bytes env claims = Some v"
    and "get_prop v ''exp'' = JNum (Fin r)" and "r \<noteq> 0"
  shows "let token = Some (h @ ''.'' @ base64url_encode claims @ ''.'' @ sig) in
    token_expires_at env token = Some (Fin (1000 * r)) \<and>
    (is_token_expired env now token skew \<longleftrightarrow> 1000 * (r - of_int skew) \<le> of_int now)"
proof -
  have "split_on CHR ''.'' (h @ ''.'' @ base64url_encode claims @ ''.'' @ sig) = [h, base64url_encode claims, sig]"
    using split_on_append_sep [OF assms(1), of "base64url_encode claims @ ''.'' @ sig"]
      split_on_append_sep [OF base64url_no_dot, of claims sig] split_on_no_sep [OF assms(2)] by simp
  then have "decode_access_token env (Some (h @ ''.'' @ base64url_encode claims @ ''.'' @ sig)) = v"
    by (simp add: decode_access_token_def base64url_decode_encode assms(3))
  then have "token_expires_at env (Some (h @ ''.'' @ base64url_encode claims @ ''.'' @ sig)) = Some (Fin (1000 * r))"
    using assms(4,5) by (simp add: token_expires_at_def to_num_def times_thousand_def num_truthy_def)
  then show ?thesis by (simp add: is_token_expired_def Let_def algebra_simps)
qed

theorem token_expiry_read_witness:
  "is_token_expired demo_web 9000 (Some (''h.'' @ base64url_encode ''{exp:9}'' @ ''.s'')) 30 \<and>
   \<not> is_token_expired demo_web (- 30000) (Some (''h.'' @ base64url_encode ''{exp:9}'' @ ''.s'')) 30"
  using token_expiry_read [of "''h''" "''s''" demo_web "''{exp:9}''" "JObj PlainObject [(''exp'', JNum (Fin 9))]" 9 9000 30]
    token_expiry_read [of "''h''" "''s''" demo_web "''{exp:9}''" "JObj PlainObject [(''exp'', JNum (Fin 9))]" 9 "- 30000" 30]
  by (simp add: demo_web_def Let_def)

end
