(* ===== verification/Web_Api.thy ===== *)
theory Web_Api
  imports Web_Auth
begin

text \<open>
  The client of the services in the web application (\<open>apps/web/src/lib/api.ts\<close> and \<open>lib/env.ts\<close>): the URLs, the
  refresh of the session, and a request with its replay. \<open>fetch\<close>, \<open>JSON.stringify\<close>, \<open>String\<close>, the serialisation of
  \<open>URLSearchParams\<close> and the random ids are parameters. A request has the refresh to itself; what two requests that are
  refused at the same time do is in \<open>Web_Refresh\<close>.
\<close>

section \<open>Errors\<close>

record api_error =
  ax_code :: js_value
  ax_message :: js_value
  ax_status :: int
  ax_details :: "js_value list"
  ax_request_id :: "string option"

datatype web_exn = ApiFailure api_error | Foreign js_value

definition is_error_value :: "js_value \<Rightarrow> bool" where
  "is_error_value v \<longleftrightarrow> js_class_of v = Some ErrorObject"

definition api_error_from :: "web_exn \<Rightarrow> api_error" where
  "api_error_from e =
     (case e of
        ApiFailure a \<Rightarrow> a
      | Foreign v \<Rightarrow>
          if is_error_value v
          then \<lparr>ax_code = JStr ''NETWORK_ERROR'', ax_message = get_prop v ''message'', ax_status = 0, ax_details = [],
                ax_request_id = None\<rparr>
          else \<lparr>ax_code = JStr ''UNKNOWN_ERROR'', ax_message = JStr ''Something went wrong'', ax_status = 0, ax_details = [],
                ax_request_id = None\<rparr>)"

definition error_message :: "web_exn \<Rightarrow> js_value \<Rightarrow> js_value" where
  "error_message e fallback =
     (case e of
        Foreign v \<Rightarrow> if is_error_value v then get_prop v ''message'' else fallback
      | ApiFailure a \<Rightarrow>
          if ax_status a = 0 then JStr ''Cannot reach the server. Check your connection.''
          else if truthy (ax_message a) then ax_message a else fallback)"

definition http_status_code :: "int \<Rightarrow> string" where
  "http_status_code status =
     (if status = 400 then ''BAD_REQUEST'' else if status = 401 then ''UNAUTHORIZED'' else if status = 403 then ''FORBIDDEN''
      else if status = 404 then ''NOT_FOUND'' else if status = 409 then ''CONFLICT'' else if status = 422 then ''VALIDATION_ERROR''
      else if status = 429 then ''RATE_LIMITED'' else if status = 0 then ''NETWORK_ERROR''
      else if 500 \<le> status then ''INTERNAL_ERROR'' else ''REQUEST_FAILED'')"

text \<open>\<open>'error' in envelope\<close> is an error itself for a value that is no object.\<close>

definition has_key :: "js_value \<Rightarrow> string \<Rightarrow> bool" where
  "has_key v k \<longleftrightarrow> k \<in> fst ` set (entries_of v)"

definition normalize_error :: "js_value \<Rightarrow> int \<Rightarrow> string option \<Rightarrow> js_value \<Rightarrow> web_exn" where
  "normalize_error payload status request_id fallback =
     (if truthy payload \<and> \<not> is_record payload
      then Foreign (JObj ErrorObject [(''name'', JStr ''TypeError''),
        (''message'', JStr ''Cannot use 'in' operator to search for 'error' in a primitive'')])
      else
        let e = (if truthy payload \<and> has_key payload ''error'' then get_prop payload ''error'' else Undefined)
        in ApiFailure
             \<lparr>ax_code = nullish (get_prop e ''code'') (JStr (http_status_code status)),
              ax_message = nullish (get_prop e ''message'') fallback, ax_status = status,
              ax_details = array_of (get_prop e ''details''), ax_request_id = request_id\<rparr>)"

section \<open>URLs\<close>

datatype service = CoreService | SearchService | ChatService | ReportsService

text \<open>What is sent and what comes back; a rejection is an abort or a failure. Header names are in lower case in a response.\<close>

datatype web_body = NoBody | FormBody js_value | TextBody string

record net_request =
  nr_method :: string
  nr_url :: string
  nr_headers :: "string \<Rightarrow> string option"
  nr_credentials :: string
  nr_body :: web_body
  nr_cache :: "string option"

record net_response =
  ns_status :: int
  ns_status_text :: string
  ns_headers :: "string \<Rightarrow> string option"
  ns_text :: string
  ns_json :: "js_value option"

datatype fetch_failure = Aborted js_value | Failed js_value

record 's api_env =
  ap_fetch :: "net_request \<Rightarrow> ('s, fetch_failure, net_response) prog"
  ap_is_server :: bool
  ap_variable :: "string \<Rightarrow> string option"
  ap_form :: "(string \<times> string) list \<Rightarrow> string"
  ap_string :: "js_value \<Rightarrow> string"
  ap_json :: "js_value \<Rightarrow> string"
  ap_new_id :: "nat \<Rightarrow> string"
  ap_web :: web_env

definition variable_or :: "'s api_env \<Rightarrow> string \<Rightarrow> string \<Rightarrow> string" where
  "variable_or env name fallback =
     (case ap_variable env name of Some v \<Rightarrow> if v = [] then fallback else v | None \<Rightarrow> fallback)"

definition public_base :: "'s api_env \<Rightarrow> service \<Rightarrow> string" where
  "public_base env service =
     (case service of
        CoreService \<Rightarrow> variable_or env ''NEXT_PUBLIC_API_URL'' ''/api/v1''
      | SearchService \<Rightarrow> variable_or env ''NEXT_PUBLIC_SEARCH_URL'' ''/api/search''
      | ChatService \<Rightarrow> variable_or env ''NEXT_PUBLIC_CHAT_URL'' ''/api/chat''
      | ReportsService \<Rightarrow> variable_or env ''NEXT_PUBLIC_REPORTS_URL'' ''/api/reports'')"

definition server_origin :: "'s api_env \<Rightarrow> service \<Rightarrow> string" where
  "server_origin env service =
     (case service of
        CoreService \<Rightarrow> variable_or env ''API_CORE_URL'' ''http://localhost:4000''
      | SearchService \<Rightarrow> variable_or env ''SEARCH_SVC_URL'' ''http://localhost:8000''
      | ChatService \<Rightarrow> variable_or env ''RAG_SVC_URL'' ''http://localhost:8001''
      | ReportsService \<Rightarrow> variable_or env ''REPORTS_SVC_URL'' ''http://localhost:4567'')"

definition trim_slashes_end :: "string \<Rightarrow> string" where
  "trim_slashes_end s = rev (dropWhile (\<lambda>c. c = CHR ''/'') (rev s))"

definition trim_slashes_start :: "string \<Rightarrow> string" where
  "trim_slashes_start s = dropWhile (\<lambda>c. c = CHR ''/'') s"

definition is_http_url :: "string \<Rightarrow> bool" where
  "is_http_url s \<longleftrightarrow> starts_with (to_lower s) ''http://'' \<or> starts_with (to_lower s) ''https://''"

definition service_base_url :: "'s api_env \<Rightarrow> service \<Rightarrow> string" where
  "service_base_url env service =
     (let path = public_base env service
      in if \<not> ap_is_server env then path
         else if is_http_url path then path
         else trim_slashes_end (server_origin env service) @ (if starts_with path ''/'' then path else CHR ''/'' # path))"

text \<open>A query parameter is a value or an array of values; the ones that are empty are left out.\<close>

definition empty_param :: "js_value \<Rightarrow> bool" where
  "empty_param v \<longleftrightarrow> v \<in> {Undefined, Null, JStr []}"

definition query_pairs :: "'s api_env \<Rightarrow> (string \<times> js_value) list \<Rightarrow> (string \<times> string) list" where
  "query_pairs env query =
     concat (map (\<lambda>(k, v).
       if empty_param v then []
       else case v of
              JArr vs \<Rightarrow> map (\<lambda>x. (k, ap_string env x)) (filter (\<lambda>x. \<not> empty_param x) vs)
            | _ \<Rightarrow> [(k, ap_string env v)]) query)"

definition build_query_string :: "'s api_env \<Rightarrow> (string \<times> js_value) list \<Rightarrow> string" where
  "build_query_string env query =
     (let text = ap_form env (query_pairs env query) in if text = [] then [] else CHR ''?'' # text)"

definition service_url :: "'s api_env \<Rightarrow> service \<Rightarrow> string \<Rightarrow> (string \<times> js_value) list \<Rightarrow> string" where
  "service_url env service path query =
     trim_slashes_end (service_base_url env service) @
     (if path = [] \<or> path = ''/'' then [] else CHR ''/'' # trim_slashes_start path) @
     build_query_string env query"

section \<open>The session\<close>

text \<open>The state of the page: the auth store, the announcements that the session expired, the network, and the ids drawn.\<close>

record 's browser_page =
  pg_auth :: auth_store
  pg_expired :: nat
  pg_net :: 's
  pg_ids :: nat

type_synonym ('s, 'a) web_prog = "('s browser_page, web_exn, 'a) prog"

definition ns_ok :: "net_response \<Rightarrow> bool" where
  "ns_ok r \<longleftrightarrow> 200 \<le> ns_status r \<and> ns_status r \<le> 299"

definition draw_id :: "'s api_env \<Rightarrow> ('s, string) web_prog" where
  "draw_id env = (\<lambda>w. (Return (ap_new_id env (pg_ids w)), w\<lparr>pg_ids := Suc (pg_ids w)\<rparr>))"

definition on_fetch :: "'s api_env \<Rightarrow> net_request \<Rightarrow> ('s browser_page, fetch_failure, net_response) prog" where
  "on_fetch env rq = (\<lambda>w. case ap_fetch env rq (pg_net w) of (out, s) \<Rightarrow> (out, w\<lparr>pg_net := s\<rparr>))"

definition read_access_token :: "'s api_env \<Rightarrow> 's browser_page \<Rightarrow> string option" where
  "read_access_token env w = (if ap_is_server env then None else wa_token (pg_auth w))"

definition apply_refreshed_session :: "'s api_env \<Rightarrow> string \<Rightarrow> js_value \<Rightarrow> ('s, unit) web_prog" where
  "apply_refreshed_session env token user =
     do_if (\<not> ap_is_server env)
       (modify_state (\<lambda>w. w\<lparr>pg_auth := set_session (ap_web env) (nullish user Undefined) (Some token) (pg_auth w)\<rparr>))"

definition clear_session :: "'s api_env \<Rightarrow> ('s, unit) web_prog" where
  "clear_session env =
     do_if (\<not> ap_is_server env)
       (modify_state (\<lambda>w. w\<lparr>pg_auth := auth_logout (pg_auth w), pg_expired := Suc (pg_expired w)\<rparr>))"

definition refresh_request :: "'s api_env \<Rightarrow> string \<Rightarrow> net_request" where
  "refresh_request env i =
     \<lparr>nr_method = ''POST'', nr_url = service_url env CoreService ''/auth/refresh'' [],
      nr_headers = [''Accept'' \<mapsto> ''application/json'', ''X-Request-Id'' \<mapsto> i], nr_credentials = ''include'',
      nr_body = NoBody, nr_cache = None\<rparr>"

definition perform_refresh :: "'s api_env \<Rightarrow> ('s, string option) web_prog" where
  "perform_refresh env =
     seq (draw_id env) (\<lambda>i w.
       case on_fetch env (refresh_request env i) w of
         (Return r, w') \<Rightarrow>
           if \<not> ns_ok r then (Return None, w')
           else
             (case ns_json r of
                None \<Rightarrow> (Return None, w')
              | Some e \<Rightarrow>
                  let token = get_prop (get_prop e ''data'') ''accessToken''
                  in if \<not> truthy (get_prop e ''success'') \<or> \<not> truthy token then (Return None, w')
                     else seq (apply_refreshed_session env (ap_string env token) (nullish (get_prop (get_prop e ''data'') ''user'') Null))
                            (\<lambda>_. ret (Some (ap_string env token))) w')
       | (Throw _, w') \<Rightarrow> (Return None, w')
       | (Diverge, w') \<Rightarrow> (Diverge, w'))"

definition refresh_access_token :: "'s api_env \<Rightarrow> ('s, string option) web_prog" where
  "refresh_access_token env = (if ap_is_server env then ret None else perform_refresh env)"

section \<open>A request\<close>

record request_options =
  ro_method :: string
  ro_service :: service
  ro_query :: "(string \<times> js_value) list"
  ro_body :: web_body
  ro_headers :: "(string \<times> string) list"
  ro_token :: "string option"
  ro_skip_auth :: bool
  ro_skip_refresh :: bool
  ro_request_id :: "string option"
  ro_credentials :: string
  ro_cache :: "string option"

definition default_options :: request_options where
  "default_options =
     \<lparr>ro_method = ''GET'', ro_service = CoreService, ro_query = [], ro_body = NoBody, ro_headers = [], ro_token = None,
      ro_skip_auth = False, ro_skip_refresh = False, ro_request_id = None, ro_credentials = ''include'', ro_cache = None\<rparr>"

record api_result =
  ar_data :: js_value
  ar_meta :: js_value
  ar_request_id :: string
  ar_status :: int

definition request_headers :: "request_options \<Rightarrow> string option \<Rightarrow> string \<Rightarrow> string \<Rightarrow> string option" where
  "request_headers opts bearer rid =
     (let base = [''Accept'' \<mapsto> ''application/json'', ''X-Request-Id'' \<mapsto> rid] ++ map_of (rev (ro_headers opts));
          typed = (case ro_body opts of
            TextBody _ \<Rightarrow> if base ''Content-Type'' \<in> {None, Some []} then base(''Content-Type'' \<mapsto> ''application/json'') else base
          | _ \<Rightarrow> base)
      in if ro_skip_auth opts then typed
         else (case bearer of
                 None \<Rightarrow> typed
               | Some t \<Rightarrow> if t = [] then typed else typed(''Authorization'' \<mapsto> ''Bearer '' @ t)))"

definition net_request_of :: "'s api_env \<Rightarrow> string \<Rightarrow> request_options \<Rightarrow> string \<Rightarrow> 's browser_page \<Rightarrow> net_request" where
  "net_request_of env path opts rid w =
     \<lparr>nr_method = ro_method opts, nr_url = service_url env (ro_service opts) path (ro_query opts),
      nr_headers = request_headers opts (case ro_token opts of Some t \<Rightarrow> Some t | None \<Rightarrow> read_access_token env w) rid,
      nr_credentials = ro_credentials opts, nr_body = ro_body opts,
      nr_cache = (case ro_cache opts of Some c \<Rightarrow> if c = [] then None else Some c | None \<Rightarrow> None)\<rparr>"

text \<open>What a response is for the caller.\<close>

definition or_text :: "string \<Rightarrow> string \<Rightarrow> string" where
  "or_text a b = (if a = [] then b else a)"

definition read_response :: "string \<Rightarrow> net_response \<Rightarrow> web_exn + api_result" where
  "read_response rid r =
     (let i = (case ns_headers r ''x-request-id'' of Some j \<Rightarrow> j | None \<Rightarrow> rid);
          found = (\<lambda>data meta. Inr \<lparr>ar_data = data, ar_meta = meta, ar_request_id = i, ar_status = ns_status r\<rparr>)
      in if ns_status r = 204 \<or> ns_status r = 205 then
           (if \<not> ns_ok r then Inl (normalize_error Null (ns_status r) (Some i) (JStr (ns_status_text r))) else found Undefined Undefined)
         else if \<not> js_includes (case ns_headers r ''content-type'' of Some t \<Rightarrow> t | None \<Rightarrow> []) ''application/json'' then
           (if \<not> ns_ok r
            then Inl (ApiFailure
                   \<lparr>ax_code = JStr (http_status_code (ns_status r)),
                    ax_message = JStr (or_text (take 300 (ns_text r)) (or_text (ns_status_text r) ''Request failed'')),
                    ax_status = ns_status r, ax_details = [], ax_request_id = Some i\<rparr>)
            else found (JStr (ns_text r)) Undefined)
         else
           (case ns_json r of
              None \<Rightarrow>
                if \<not> ns_ok r then Inl (normalize_error Null (ns_status r) (Some i) (JStr (ns_status_text r)))
                else Inl (ApiFailure
                       \<lparr>ax_code = JStr ''INVALID_RESPONSE'', ax_message = JStr ''The server returned a malformed response'',
                        ax_status = ns_status r, ax_details = [], ax_request_id = Some i\<rparr>)
            | Some payload \<Rightarrow>
                if \<not> ns_ok r then Inl (normalize_error payload (ns_status r) (Some i) (JStr (ns_status_text r)))
                else if is_record payload \<and> has_key payload ''success'' then
                  (if \<not> truthy (get_prop payload ''success'')
                   then Inl (normalize_error payload (ns_status r) (Some i) (JStr ''Request failed''))
                   else found (get_prop payload ''data'') (get_prop payload ''meta''))
                else found payload Undefined))"

definition from_sum :: "web_exn + 'a \<Rightarrow> ('s, 'a) web_prog" where
  "from_sum r = (case r of Inl e \<Rightarrow> throw e | Inr a \<Rightarrow> ret a)"

definition network_error :: "js_value \<Rightarrow> string \<Rightarrow> web_exn" where
  "network_error v rid =
     ApiFailure
       \<lparr>ax_code = JStr ''NETWORK_ERROR'',
        ax_message = (if is_error_value v then get_prop v ''message'' else JStr ''Unable to reach the server''),
        ax_status = 0, ax_details = [], ax_request_id = Some rid\<rparr>"

definition send :: "'s api_env \<Rightarrow> string \<Rightarrow> request_options \<Rightarrow> string \<Rightarrow> ('s, net_response) web_prog" where
  "send env path opts rid = (\<lambda>w.
     case on_fetch env (net_request_of env path opts rid w) w of
       (Return r, w') \<Rightarrow> (Return r, w')
     | (Throw (Aborted v), w') \<Rightarrow> (Throw (Foreign v), w')
     | (Throw (Failed v), w') \<Rightarrow> (Throw (network_error v rid), w')
     | (Diverge, w') \<Rightarrow> (Diverge, w'))"

function execute_request :: "'s api_env \<Rightarrow> string \<Rightarrow> request_options \<Rightarrow> nat \<Rightarrow> ('s, api_result) web_prog" where
  "execute_request env path opts attempt =
     seq (case ro_request_id opts of Some i \<Rightarrow> ret i | None \<Rightarrow> draw_id env) (\<lambda>rid.
     seq (send env path opts rid) (\<lambda>r.
       if ns_status r = 401 \<and> attempt = 0 \<and> \<not> ro_skip_auth opts \<and> \<not> ro_skip_refresh opts \<and> \<not> ap_is_server env \<and>
          \<not> js_includes path ''/auth/refresh''
       then
         seq (refresh_access_token env) (\<lambda>refreshed.
           case refreshed of
             Some t \<Rightarrow>
               if t = [] then seq (clear_session env) (\<lambda>_. from_sum (read_response rid r))
               else execute_request env path (opts\<lparr>ro_token := Some t, ro_request_id := Some rid\<rparr>) (attempt + 1)
           | None \<Rightarrow> seq (clear_session env) (\<lambda>_. from_sum (read_response rid r)))
       else from_sum (read_response rid r)))"
  by pat_completeness auto

termination
  by (relation "measure (\<lambda>(_, _, _, attempt). 1 - attempt)") auto

declare execute_request.simps [simp del]

definition request_with_meta :: "'s api_env \<Rightarrow> string \<Rightarrow> request_options \<Rightarrow> ('s, api_result) web_prog" where
  "request_with_meta env path opts = execute_request env path opts 0"

definition request :: "'s api_env \<Rightarrow> string \<Rightarrow> request_options \<Rightarrow> ('s, js_value) web_prog" where
  "request env path opts = seq (execute_request env path opts 0) (\<lambda>r. ret (ar_data r))"

definition meta_of_items :: "nat \<Rightarrow> js_value" where
  "meta_of_items n =
     JObj PlainObject
       [(''page'', JNum (Fin 1)), (''limit'', JNum (Fin (of_nat n))), (''total'', JNum (Fin (of_nat n))),
        (''totalPages'', JNum (Fin (if n = 0 then 0 else 1)))]"

definition request_paginated :: "'s api_env \<Rightarrow> string \<Rightarrow> request_options \<Rightarrow> ('s, js_value list \<times> js_value) web_prog" where
  "request_paginated env path opts =
     seq (execute_request env path opts 0) (\<lambda>r.
       let items = array_of (ar_data r) in ret (items, nullish (ar_meta r) (meta_of_items (length items))))"

text \<open>The shorthands.\<close>

definition json_body :: "'s api_env \<Rightarrow> js_value \<Rightarrow> web_body" where
  "json_body env v = (if v = Undefined then NoBody else TextBody (ap_json env v))"

definition api_get :: "'s api_env \<Rightarrow> string \<Rightarrow> request_options \<Rightarrow> ('s, js_value) web_prog" where
  "api_get env path opts = request env path (opts\<lparr>ro_method := ''GET''\<rparr>)"

definition api_list :: "'s api_env \<Rightarrow> string \<Rightarrow> request_options \<Rightarrow> ('s, js_value list \<times> js_value) web_prog" where
  "api_list env path opts = request_paginated env path (opts\<lparr>ro_method := ''GET''\<rparr>)"

definition api_send :: "'s api_env \<Rightarrow> string \<Rightarrow> string \<Rightarrow> js_value \<Rightarrow> request_options \<Rightarrow> ('s, js_value) web_prog" where
  "api_send env verb path v opts = request env path (opts\<lparr>ro_method := verb, ro_body := json_body env v\<rparr>)"

definition api_delete :: "'s api_env \<Rightarrow> string \<Rightarrow> request_options \<Rightarrow> ('s, js_value) web_prog" where
  "api_delete env path opts = request env path (opts\<lparr>ro_method := ''DELETE''\<rparr>)"

end
