(* ===== verification/Web_Api_Laws.thy ===== *)
theory Web_Api_Laws
  imports Web_Api
begin

text \<open>
  What a request of the browser promises: it reads the envelopes of \<open>Http_Errors\<close>, the ones \<open>api-core\<close> sends, and a
  refused request is repeated at most once, with the token of one refresh.
\<close>

section \<open>The envelopes\<close>

definition json_reply :: "net_response \<Rightarrow> js_value \<Rightarrow> bool" where
  "json_reply r body \<longleftrightarrow> ns_json r = Some body \<and>
     (\<exists>t. ns_headers r ''content-type'' = Some t \<and> js_includes t ''application/json'')"

text \<open>A value of a handler that is not itself an envelope, and one that is a page of rows.\<close>

definition plain_payload :: "js_value \<Rightarrow> bool" where
  "plain_payload p \<longleftrightarrow> js_class_of p \<notin> {Some StreamableFileObject, Some BufferObject} \<and>
     \<not> (is_record p \<and> is_boolean (get_prop p ''success''))"

definition page_payload :: "js_value \<Rightarrow> bool" where
  "page_payload p \<longleftrightarrow> is_record p \<and> is_array (get_prop p ''data'') \<and> is_pagination_meta (get_prop p ''meta'')"

lemma read_success:
  assumes "json_reply r (intercept True False p)" and "plain_payload p" and "ns_ok r" and "ns_status r \<notin> {204, 205}"
  shows "\<exists>x. read_response rid r = Inr x \<and> ar_status x = ns_status r \<and>
    ar_data x = (if page_payload p then get_prop p ''data'' else if p = Undefined then Null else p) \<and>
    ar_meta x = (if page_payload p then get_prop p ''meta'' else Undefined)"
  using assms
  by (auto simp: read_response_def json_reply_def plain_payload_def page_payload_def intercept_def wrap_payload_def
      envelope_def paginated_envelope_def has_key_def Let_def)

lemma read_failure:
  assumes "json_reply r (error_envelope n)" and "\<not> ns_ok r" and "ns_status r \<notin> {204, 205}"
  shows "\<exists>i. read_response rid r = Inl (ApiFailure
    \<lparr>ax_code = JStr (ne_code n), ax_message = JStr (ne_message n), ax_status = ns_status r, ax_details = ne_details n,
     ax_request_id = i\<rparr>)"
  using assms
  by (auto simp: read_response_def json_reply_def error_envelope_def normalize_error_def has_key_def nullish_def Let_def)

lemma id_drawn:
  obtains rid w1 where "(case ro_request_id opts of Some i \<Rightarrow> ret i | None \<Rightarrow> draw_id env) w = (Return rid, w1)"
    and "pg_auth w1 = pg_auth w" "pg_expired w1 = pg_expired w" "pg_net w1 = pg_net w"
proof (cases "ro_request_id opts")
  case None
  with that show thesis by (simp add: draw_id_def)
next
  case (Some i)
  with that [of i w] show thesis by simp
qed

text \<open>A request that is not refused for its token is what its response reads as.\<close>

lemma request_answered:
  assumes "\<And>rq s. \<exists>s'. ap_fetch env rq s = (Return r, s')" and "ns_status r \<noteq> 401 \<or> ro_skip_refresh opts"
  shows "\<exists>rid w'. request_with_meta env path opts w = from_sum (read_response rid r) w'"
proof -
  have sent: "\<exists>w'. send env path opts rid v = (Return r, w')" for rid v
    using assms(1) [of "net_request_of env path opts rid v" "pg_net v"] by (auto simp: send_def on_fetch_def)
  obtain rid w1 where rid: "(case ro_request_id opts of Some i \<Rightarrow> ret i | None \<Rightarrow> draw_id env) w = (Return rid, w1)"
    by (rule id_drawn)
  obtain w2 where w2: "send env path opts rid w1 = (Return r, w2)" using sent by blast
  show ?thesis
    unfolding request_with_meta_def execute_request.simps [of env path opts 0]
    by (intro exI [of _ rid] exI [of _ w2]) (use assms(2) rid w2 in auto)
qed

text \<open>
  C4: The browser reads what the service says. A value that a handler returned arrives as it was, and a page of rows
  with its page numbers; an exception that the filter answered is thrown with its code, message, status and details.
\<close>

theorem client_reads_server:
  assumes answer: "\<And>rq s. \<exists>s'. ap_fetch env rq s = (Return r, s')" and "ns_status r \<notin> {204, 205, 401}"
  shows "(ns_ok r \<and> json_reply r (intercept True False p) \<and> plain_payload p \<longrightarrow>
      (\<exists>x w'. request_with_meta env path opts w = (Return x, w') \<and>
        ar_data x = (if page_payload p then get_prop p ''data'' else if p = Undefined then Null else p) \<and>
        ar_meta x = (if page_payload p then get_prop p ''meta'' else Undefined))) \<and>
    (filter_catch str True False rq e = (level, Some reply) \<and> json_reply r (rp_body reply) \<and>
      of_int (ns_status r) = rp_status reply \<and> \<not> ns_ok r \<longrightarrow>
      (\<exists>a w'. request_with_meta env path opts w = (Throw (ApiFailure a), w') \<and>
        ax_code a = JStr (ne_code (normalize_exception str e)) \<and>
        ax_message a = JStr (ne_message (normalize_exception str e)) \<and>
        of_int (ax_status a) = ne_status (normalize_exception str e) \<and>
        ax_details a = ne_details (normalize_exception str e)))"
proof -
  obtain rid w' where run: "request_with_meta env path opts w = from_sum (read_response rid r) w'"
    using request_answered [OF answer] assms(2) by blast
  show ?thesis
    using read_success [of r p rid] read_failure [of r "normalize_exception str e" rid] assms(2)
    by (auto simp: run from_sum_def filter_catch_def Let_def)
qed

section \<open>Refused requests\<close>

text \<open>A record of the requests that reached the network, which answers each of them.\<close>

definition observes :: "('s \<Rightarrow> net_request list) \<Rightarrow> 's api_env \<Rightarrow> bool" where
  "observes obs env \<longleftrightarrow> (\<forall>rq s. obs (snd (ap_fetch env rq s)) = obs s @ [rq] \<and> fst (ap_fetch env rq s) \<noteq> Diverge)"

lemma send_effect:
  assumes "observes obs env" and "send env path opts rid w = (out, w')"
  shows "obs (pg_net w') = obs (pg_net w) @ [net_request_of env path opts rid w]" "pg_auth w' = pg_auth w"
    "pg_expired w' = pg_expired w" "out \<noteq> Diverge"
proof -
  let ?rq = "net_request_of env path opts rid w"
  obtain o1 s1 where f: "ap_fetch env ?rq (pg_net w) = (o1, s1)" by (cases "ap_fetch env ?rq (pg_net w)")
  have "obs s1 = obs (pg_net w) @ [?rq]" "o1 \<noteq> Diverge"
    using assms(1) f unfolding observes_def by (metis fst_conv snd_conv)+
  with assms(2) f show "obs (pg_net w') = obs (pg_net w) @ [?rq]" "pg_auth w' = pg_auth w"
    "pg_expired w' = pg_expired w" "out \<noteq> Diverge"
    by (auto simp: send_def on_fetch_def split: outcome.splits fetch_failure.splits)
qed

lemma refresh_effect:
  assumes "observes obs env" and "\<not> ap_is_server env" and "refresh_access_token env w = (out, w')"
  obtains i where "obs (pg_net w') = obs (pg_net w) @ [refresh_request env i]" "pg_expired w' = pg_expired w"
    and "out = Return None \<or> (\<exists>t. out = Return (Some t) \<and> wa_token (pg_auth w') = Some t)"
proof -
  let ?rq = "refresh_request env (ap_new_id env (pg_ids w))"
  obtain o1 s1 where f: "ap_fetch env ?rq (pg_net w) = (o1, s1)" by (cases "ap_fetch env ?rq (pg_net w)")
  have s1: "obs s1 = obs (pg_net w) @ [?rq]" "o1 \<noteq> Diverge"
    using assms(1) f unfolding observes_def by (metis fst_conv snd_conv)+
  show thesis
    using assms(2,3) f s1
    by (intro that [of "ap_new_id env (pg_ids w)"])
      (auto simp: refresh_access_token_def perform_refresh_def draw_id_def on_fetch_def apply_refreshed_session_def
        set_session_def Let_def split: outcome.splits option.splits if_splits)
qed

text \<open>What became of a request: it was sent once, the session was lost, or it was sent again with a fresh token.\<close>

definition sent_once :: "('s \<Rightarrow> net_request list) \<Rightarrow> 's browser_page \<Rightarrow> 's browser_page \<Rightarrow> bool" where
  "sent_once obs w w' \<longleftrightarrow> (\<exists>a. obs (pg_net w') = obs (pg_net w) @ [a] \<and> pg_auth w' = pg_auth w \<and> pg_expired w' = pg_expired w)"

definition session_lost :: "('s \<Rightarrow> net_request list) \<Rightarrow> 's api_env \<Rightarrow> 's browser_page \<Rightarrow> 's browser_page \<Rightarrow> bool" where
  "session_lost obs env w w' \<longleftrightarrow> (\<exists>a i. obs (pg_net w') = obs (pg_net w) @ [a, refresh_request env i] \<and>
     wa_status (pg_auth w') = Unauthenticated \<and> wa_token (pg_auth w') = None \<and> wa_user (pg_auth w') = Null \<and>
     pg_expired w' = Suc (pg_expired w))"

definition sent_again :: "('s \<Rightarrow> net_request list) \<Rightarrow> 's api_env \<Rightarrow> 's browser_page \<Rightarrow> 's browser_page \<Rightarrow> bool" where
  "sent_again obs env w w' \<longleftrightarrow> (\<exists>a i t. wa_token (pg_auth w') = Some t \<and>
     obs (pg_net w') = obs (pg_net w) @ [a, refresh_request env i,
       a\<lparr>nr_headers := (nr_headers a)(''Authorization'' \<mapsto> ''Bearer '' @ t)\<rparr>] \<and> pg_expired w' = pg_expired w)"

lemma again_headers:
  assumes "\<not> ro_skip_auth opts" and "t \<noteq> []"
  shows "net_request_of env path (opts\<lparr>ro_token := Some t, ro_request_id := i\<rparr>) rid w' =
    (net_request_of env path opts rid w)\<lparr>nr_headers :=
      (nr_headers (net_request_of env path opts rid w))(''Authorization'' \<mapsto> ''Bearer '' @ t)\<rparr>"
  using assms
  by (auto simp: net_request_of_def request_headers_def Let_def split: option.splits web_body.splits)

lemma second_attempt:
  assumes "ro_request_id opts = Some rid"
  shows "execute_request env path opts 1 = seq (send env path opts rid) (\<lambda>r. from_sum (read_response rid r))"
  by (subst execute_request.simps) (auto simp: assms fun_eq_iff seq_def split: prod.splits outcome.splits)

text \<open>
  C9: A refused request costs at most one refresh and one repetition, whatever the services answer: either the request
  was sent once and the session is as before, or the refresh failed, the session is cleared and its end announced once,
  or the same request, with the same request id, was sent again with the refreshed token, which is the one stored.
\<close>

theorem refresh_and_replay_once:
  assumes obs: "observes obs env"
  shows "let w' = snd (request_with_meta env path opts w) in
    sent_once obs w w' \<or> session_lost obs env w w' \<or> sent_again obs env w w'"
proof -
  obtain rid w1 where rid: "(case ro_request_id opts of Some i \<Rightarrow> ret i | None \<Rightarrow> draw_id env) w = (Return rid, w1)"
    and w1: "pg_auth w1 = pg_auth w" "pg_expired w1 = pg_expired w" "pg_net w1 = pg_net w"
    by (rule id_drawn)
  obtain out w2 where w2: "send env path opts rid w1 = (out, w2)" by (cases "send env path opts rid w1")
  note s2 = send_effect [OF obs w2]
  have once: "sent_once obs w w2" using s2 w1 by (auto simp: sent_once_def)
  have summed: "snd (from_sum x v) = v" for x :: "web_exn + 'x" and v :: "'a browser_page"
    by (cases x) (simp_all add: from_sum_def)
  define again where "again r \<longleftrightarrow> ns_status r = 401 \<and> \<not> ro_skip_auth opts \<and> \<not> ro_skip_refresh opts \<and>
    \<not> ap_is_server env \<and> \<not> js_includes path ''/auth/refresh''" for r :: net_response
  note run = execute_request.simps [of env path opts 0]
  show ?thesis
  proof (cases "\<exists>r. out = Return r \<and> again r")
    case False
    then have "snd (request_with_meta env path opts w) = w2"
      unfolding request_with_meta_def run using rid w2 s2(4)
      by (cases out) (auto simp: again_def summed)
    with once show ?thesis by simp
  next
    case True
    then obtain r where r: "out = Return r" "again r" by blast
    obtain o3 w3 where w3: "refresh_access_token env w2 = (o3, w3)" by (cases "refresh_access_token env w2")
    obtain i where s3: "obs (pg_net w3) = obs (pg_net w2) @ [refresh_request env i]" "pg_expired w3 = pg_expired w2"
      and o3: "o3 = Return None \<or> (\<exists>t. o3 = Return (Some t) \<and> wa_token (pg_auth w3) = Some t)"
      using refresh_effect [OF obs _ w3] r(2) by (auto simp: again_def)
    let ?next = "\<lambda>refreshed. case refreshed of
             Some t \<Rightarrow>
               if t = [] then seq (clear_session env) (\<lambda>_. from_sum (read_response rid r))
               else execute_request env path (opts\<lparr>ro_token := Some t, ro_request_id := Some rid\<rparr>) (0 + 1)
           | None \<Rightarrow> seq (clear_session env) (\<lambda>_. from_sum (read_response rid r))"
    have step: "request_with_meta env path opts w = seq (refresh_access_token env) ?next w2"
      unfolding request_with_meta_def run using rid w2 r by (auto simp: again_def)
    have lost: "session_lost obs env w (snd (seq (clear_session env) (\<lambda>_. from_sum (read_response rid r)) w3))"
      using r(2) s2 s3 w1
      unfolding session_lost_def
      by (intro exI [of _ "net_request_of env path opts rid w1"] exI [of _ i])
        (simp add: clear_session_def again_def auth_logout_def summed)
    show ?thesis
    proof (cases "\<exists>t. o3 = Return (Some t) \<and> t \<noteq> []")
      case False
      then have "o3 = Return None \<or> o3 = Return (Some [])" using o3 by blast
      then have "request_with_meta env path opts w = seq (clear_session env) (\<lambda>_. from_sum (read_response rid r)) w3"
        using step w3 by (elim disjE) simp_all
      with lost show ?thesis by simp
    next
      case True
      then obtain t where t: "o3 = Return (Some t)" "t \<noteq> []" "wa_token (pg_auth w3) = Some t" using o3 by auto
      let ?opts = "opts\<lparr>ro_token := Some t, ro_request_id := Some rid\<rparr>"
      obtain o4 w4 where w4: "send env path ?opts rid w3 = (o4, w4)" by (cases "send env path ?opts rid w3")
      note s4 = send_effect [OF obs w4]
      have "snd (request_with_meta env path opts w) = w4"
        using step w3 t second_attempt [of ?opts rid env path] w4 s4(4) by (cases o4) (auto simp: summed)
      moreover have "sent_again obs env w w4"
        unfolding sent_again_def
        by (rule exI [of _ "net_request_of env path opts rid w1"], rule exI [of _ i], rule exI [of _ t])
          (use s2 s3 s4 w1 t r(2) again_headers [of opts t env path "Some rid" rid w3 w1] in \<open>simp add: again_def\<close>)
      ultimately show ?thesis by simp
    qed
  qed
qed

section \<open>A service in memory\<close>

text \<open>It refuses every token but one, hands that one out on a refresh, and answers with a page of one row.\<close>

definition demo_page :: js_value where
  "demo_page = JObj PlainObject [(''data'', JArr [JStr ''villa'']), (''meta'', JObj PlainObject
     [(''page'', JNum (Fin 1)), (''limit'', JNum (Fin 20)), (''total'', JNum (Fin 1)), (''totalPages'', JNum (Fin 1))])]"

definition json_response :: "int \<Rightarrow> js_value \<Rightarrow> net_response" where
  "json_response status body =
     \<lparr>ns_status = status, ns_status_text = [], ns_headers = [''content-type'' \<mapsto> ''application/json''], ns_text = [],
      ns_json = Some body\<rparr>"

definition demo_session :: js_value where
  "demo_session = JObj PlainObject [(''success'', JBool True), (''data'', JObj PlainObject [(''accessToken'', JStr ''new'')])]"

definition demo_fetch :: "(net_request \<Rightarrow> net_response) \<Rightarrow> net_request \<Rightarrow> (net_request list, fetch_failure, net_response) prog" where
  "demo_fetch answer rq s = (Return (answer rq), s @ [rq])"

definition demo_answer :: "net_request \<Rightarrow> net_response" where
  "demo_answer rq =
     (if nr_url rq = ''/api/v1/auth/refresh'' then json_response 200 demo_session
      else if nr_headers rq ''Authorization'' = Some ''Bearer new'' then json_response 200 (intercept True False demo_page)
      else json_response 401 (error_envelope \<lparr>ne_status = 401, ne_code = ''UNAUTHORIZED'', ne_message = ''No'', ne_details = [], ne_cause = None\<rparr>))"

definition demo_api :: "(net_request \<Rightarrow> net_response) \<Rightarrow> net_request list api_env" where
  "demo_api answer =
     \<lparr>ap_fetch = demo_fetch answer, ap_is_server = False, ap_variable = (\<lambda>_. None), ap_form = (\<lambda>_. []),
      ap_string = (\<lambda>v. case v of JStr s \<Rightarrow> s | _ \<Rightarrow> []), ap_json = (\<lambda>_. []), ap_new_id = show_nat, ap_web = demo_web\<rparr>"

definition open_page :: "net_request list browser_page" where
  "open_page = \<lparr>pg_auth = auth_login demo_web demo_signed_in ''old'' initial_auth, pg_expired = 0, pg_net = [], pg_ids = 0\<rparr>"

theorem client_reads_server_witness:
  "\<exists>x w'. request_with_meta (demo_api (\<lambda>_. json_response 200 (intercept True False demo_page))) ''/properties'' default_options open_page =
      (Return x, w') \<and> ar_data x = JArr [JStr ''villa''] \<and> get_prop (ar_meta x) ''total'' = JNum (Fin 1)"
proof -
  let ?r = "json_response 200 (intercept True False demo_page)"
  have answer: "\<exists>s'. ap_fetch (demo_api (\<lambda>_. ?r)) rq s = (Return ?r, s')" for rq s
    by (simp add: demo_api_def demo_fetch_def)
  have "json_reply ?r (intercept True False demo_page)" "ns_ok ?r" "plain_payload demo_page" "page_payload demo_page"
    by (simp_all add: json_reply_def json_response_def ns_ok_def plain_payload_def page_payload_def demo_page_def
        is_pagination_meta_def starts_with_def)
  with client_reads_server [OF answer, where p = demo_page and path = "''/properties''" and opts = default_options and w = open_page]
  show ?thesis by (auto simp: json_response_def demo_page_def)
qed

theorem refresh_and_replay_once_witness:
  "let w' = snd (request_with_meta (demo_api demo_answer) ''/leads'' default_options open_page) in
    length (pg_net w') \<in> {1, 2, 3} \<and> (length (pg_net w') = 3 \<longrightarrow> wa_token (pg_auth w') \<noteq> None)"
proof -
  have "observes id (demo_api demo_answer)"
    by (simp add: observes_def demo_api_def demo_fetch_def)
  from refresh_and_replay_once [OF this, of "''/leads''" default_options open_page] show ?thesis
    by (auto simp: Let_def sent_once_def session_lost_def sent_again_def open_page_def)
qed

end
