(* ===== verification/Web_Refresh.thy ===== *)
theory Web_Refresh
  imports Web_Api
begin

text \<open>
  Requests of one page that are under way at the same time share the refresh of the session (\<open>refreshAccessToken\<close> and the
  branch for 401 in \<open>apps/web/src/lib/api.ts\<close>): a step relation whose steps are what runs between two suspensions, at the
  page, at the service and on the line between them. A refresh token is a number; the service replaces the current one by
  the next when it accepts it, and refuses one it has replaced.
\<close>

section \<open>The steps\<close>

datatype phase =
    Idle
  | Sending "string option" bool
  | Awaiting nat
  | Finished int

text \<open>The answer of the service to a refresh: the cookie's new token, or a refusal, which may clear the cookie.\<close>

datatype service_reply = Rotated nat | Refused bool

text \<open>
  \<open>fl_open\<close> are the calls the page waits for, \<open>fl_sent\<close> those the service has not handled. \<open>fl_valid\<close> is the token the
  service takes; \<open>fl_replayed\<close> says that it was shown one it had replaced, \<open>fl_lost\<close> that a call failed without an answer.
\<close>

record flights =
  fl_phase :: "nat \<Rightarrow> phase"
  fl_in_flight :: "nat option"
  fl_open :: "nat set"
  fl_sent :: "nat set"
  fl_result :: "nat \<Rightarrow> string option option"
  fl_presented :: "nat \<Rightarrow> nat option"
  fl_reply :: "nat \<Rightarrow> service_reply option"
  fl_next :: nat
  fl_cookie :: "nat option"
  fl_token :: "string option"
  fl_valid :: nat
  fl_replayed :: bool
  fl_lost :: bool

definition no_flights :: "nat \<Rightarrow> string option \<Rightarrow> flights" where
  "no_flights cookie token =
     \<lparr>fl_phase = (\<lambda>_. Idle), fl_in_flight = None, fl_open = {}, fl_sent = {}, fl_result = (\<lambda>_. None),
      fl_presented = (\<lambda>_. None), fl_reply = (\<lambda>_. None), fl_next = 0, fl_cookie = Some cookie, fl_token = token,
      fl_valid = cookie, fl_replayed = False, fl_lost = False\<rparr>"

text \<open>
  A request goes out with the stored token; \<open>may\<close> says that this is its first attempt and its options allow a refresh. An
  answer finishes it, but for a 401 that may be refreshed, which starts the refresh or joins the one in flight. The
  answer of a refresh may come whole, come without a readable body (the browser has stored its cookie), or not come,
  whether or not the service has handled the call: the \<open>catch\<close> of \<open>performRefresh\<close> makes them all \<open>null\<close>.
\<close>

inductive flight_step :: "flights \<Rightarrow> flights \<Rightarrow> bool" where
  send_request: "fl_phase s r = Idle \<Longrightarrow>
     flight_step s (s\<lparr>fl_phase := (fl_phase s)(r := Sending (fl_token s) may)\<rparr>)"
| answered: "fl_phase s r = Sending t may \<Longrightarrow> status \<noteq> 401 \<or> \<not> may \<Longrightarrow>
     flight_step s (s\<lparr>fl_phase := (fl_phase s)(r := Finished status)\<rparr>)"
| starts_refresh: "fl_phase s r = Sending t True \<Longrightarrow> fl_in_flight s = None \<Longrightarrow>
     flight_step s (s\<lparr>fl_phase := (fl_phase s)(r := Awaiting (fl_next s)), fl_in_flight := Some (fl_next s),
       fl_open := insert (fl_next s) (fl_open s), fl_sent := insert (fl_next s) (fl_sent s),
       fl_presented := (fl_presented s)(fl_next s := fl_cookie s), fl_next := Suc (fl_next s)\<rparr>)"
| joins_refresh: "fl_phase s r = Sending t True \<Longrightarrow> fl_in_flight s = Some k \<Longrightarrow>
     flight_step s (s\<lparr>fl_phase := (fl_phase s)(r := Awaiting k)\<rparr>)"
| service_rotates: "k \<in> fl_sent s \<Longrightarrow> fl_presented s k = Some (fl_valid s) \<Longrightarrow>
     flight_step s (s\<lparr>fl_sent := fl_sent s - {k}, fl_reply := (fl_reply s)(k := Some (Rotated (Suc (fl_valid s)))),
       fl_valid := Suc (fl_valid s)\<rparr>)"
| service_refuses: "k \<in> fl_sent s \<Longrightarrow>
     flight_step s (s\<lparr>fl_sent := fl_sent s - {k}, fl_reply := (fl_reply s)(k := Some (Refused clears)),
       fl_replayed := (fl_replayed s \<or> (\<exists>c. fl_presented s k = Some c \<and> c < fl_valid s))\<rparr>)"
| refreshed: "k \<in> fl_open s \<Longrightarrow> fl_reply s k = Some (Rotated n) \<Longrightarrow>
     flight_step s (s\<lparr>fl_open := fl_open s - {k}, fl_result := (fl_result s)(k := Some (Some t)),
       fl_cookie := Some n, fl_token := Some t\<rparr>)"
| unreadable: "k \<in> fl_open s \<Longrightarrow> fl_reply s k = Some (Rotated n) \<Longrightarrow>
     flight_step s (s\<lparr>fl_open := fl_open s - {k}, fl_result := (fl_result s)(k := Some None), fl_cookie := Some n\<rparr>)"
| refresh_refused: "k \<in> fl_open s \<Longrightarrow> fl_reply s k = Some (Refused clears) \<Longrightarrow>
     flight_step s (s\<lparr>fl_open := fl_open s - {k}, fl_result := (fl_result s)(k := Some None),
       fl_cookie := (if clears then None else fl_cookie s)\<rparr>)"
| connection_lost: "k \<in> fl_open s \<Longrightarrow>
     flight_step s (s\<lparr>fl_open := fl_open s - {k}, fl_result := (fl_result s)(k := Some None), fl_lost := True\<rparr>)"
| refresh_settled: "fl_in_flight s = Some k \<Longrightarrow> fl_result s k \<noteq> None \<Longrightarrow>
     flight_step s (s\<lparr>fl_in_flight := None\<rparr>)"
| replays: "fl_phase s r = Awaiting k \<Longrightarrow> fl_result s k = Some (Some t) \<Longrightarrow> fl_in_flight s \<noteq> Some k \<Longrightarrow>
     flight_step s (s\<lparr>fl_phase := (fl_phase s)(r := Sending (Some t) False)\<rparr>)"
| loses_session: "fl_phase s r = Awaiting k \<Longrightarrow> fl_result s k = Some None \<Longrightarrow> fl_in_flight s \<noteq> Some k \<Longrightarrow>
     flight_step s (s\<lparr>fl_phase := (fl_phase s)(r := Finished 401), fl_token := None\<rparr>)"

abbreviation flight_steps :: "flights \<Rightarrow> flights \<Rightarrow> bool" where
  "flight_steps \<equiv> flight_step\<^sup>*\<^sup>*"

text \<open>A step that sends no further request.\<close>

definition flight_moves :: "flights \<Rightarrow> flights \<Rightarrow> bool" where
  "flight_moves s s' \<longleftrightarrow> flight_step s s' \<and> (\<forall>r. fl_phase s r = Idle \<longrightarrow> fl_phase s' r = Idle)"

section \<open>One refresh at a time\<close>

definition flights_ok :: "flights \<Rightarrow> bool" where
  "flights_ok s \<longleftrightarrow>
     (\<forall>k\<in>fl_open s. fl_in_flight s = Some k \<and> fl_result s k = None \<and> k < fl_next s) \<and>
     (\<forall>k. fl_in_flight s = Some k \<longrightarrow> k < fl_next s \<and> (k \<in> fl_open s \<or> fl_result s k \<noteq> None)) \<and>
     (\<forall>r k. fl_phase s r = Awaiting k \<longrightarrow> k < fl_next s \<and> (k \<in> fl_open s \<or> fl_result s k \<noteq> None)) \<and>
     (\<forall>k. fl_result s k \<noteq> None \<or> fl_reply s k \<noteq> None \<or> k \<in> fl_sent s \<longrightarrow> k < fl_next s) \<and>
     finite {r. fl_phase s r \<noteq> Idle} \<and> finite (fl_sent s)"

lemma flights_okD:
  assumes "flights_ok s"
  shows "k \<in> fl_open s \<Longrightarrow> fl_in_flight s = Some k" "k \<in> fl_open s \<Longrightarrow> fl_result s k = None"
    "k \<in> fl_open s \<Longrightarrow> k < fl_next s"
    "fl_in_flight s = Some k \<Longrightarrow> k < fl_next s" "fl_in_flight s = Some k \<Longrightarrow> k \<in> fl_open s \<or> fl_result s k \<noteq> None"
    "fl_phase s r = Awaiting k \<Longrightarrow> k \<in> fl_open s \<or> fl_result s k \<noteq> None"
    "\<not> k < fl_next s \<Longrightarrow> fl_result s k = None" "\<not> k < fl_next s \<Longrightarrow> fl_reply s k = None" "k \<in> fl_sent s \<Longrightarrow> k < fl_next s"
    "finite {r. fl_phase s r \<noteq> Idle}" "finite (fl_sent s)"
  using assms unfolding flights_ok_def by blast+

lemma open_refresh:
  assumes "flights_ok s" and "k \<in> fl_open s"
  shows "fl_open s = {k}"
proof -
  have "j = k" if "j \<in> fl_open s" for j
    using flights_okD(1) [OF assms(1) that] flights_okD(1) [OF assms] by simp
  with assms(2) show ?thesis by blast
qed

lemma finite_moved:
  "finite {r. f r \<noteq> Idle} \<Longrightarrow> finite {r. (f(i := x)) r \<noteq> Idle}"
  "finite {r. f r \<noteq> Idle} \<Longrightarrow> finite {r. r \<noteq> i \<longrightarrow> f r \<noteq> Idle}"
  by (rule finite_subset [of _ "insert i {r. f r \<noteq> Idle}"], auto)+

lemma flights_ok_step:
  assumes "flight_step s s'" and "flights_ok s"
  shows "flights_ok s'"
proof -
  note fin = finite_moved [OF flights_okD(10) [OF assms(2)]]
  from assms(1) show ?thesis
  proof (cases rule: flight_step.cases)
    case (starts_refresh r t)
    have "fl_open s = {}" using flights_okD(1) [OF assms(2)] starts_refresh by fastforce
    moreover have "fl_result s (fl_next s) = None" by (rule flights_okD(7) [OF assms(2)]) simp
    ultimately show ?thesis
      using starts_refresh assms(2) fin by (auto simp: flights_ok_def less_Suc_eq)
  next
    case (refreshed k n t)
    show ?thesis
      using refreshed assms(2) open_refresh [OF assms(2) refreshed(2)] flights_okD(3) [OF assms(2) refreshed(2)]
      by (auto simp: flights_ok_def)
  next
    case (unreadable k n)
    show ?thesis
      using unreadable assms(2) open_refresh [OF assms(2) unreadable(2)] flights_okD(3) [OF assms(2) unreadable(2)]
      by (auto simp: flights_ok_def)
  next
    case (refresh_refused k clears)
    show ?thesis
      using refresh_refused assms(2) open_refresh [OF assms(2) refresh_refused(2)] flights_okD(3) [OF assms(2) refresh_refused(2)]
      by (auto simp: flights_ok_def)
  next
    case (connection_lost k)
    show ?thesis
      using connection_lost assms(2) open_refresh [OF assms(2) connection_lost(2)] flights_okD(3) [OF assms(2) connection_lost(2)]
      by (auto simp: flights_ok_def)
  next
    case (joins_refresh r t k)
    have "k < fl_next s" "k \<in> fl_open s \<or> fl_result s k \<noteq> None" using flights_okD(4,5) [OF assms(2) joins_refresh(3)] by auto
    with joins_refresh(1) assms(2) fin(1) [of r "Awaiting k"] show ?thesis by (simp add: flights_ok_def)
  next
    case (refresh_settled k)
    then show ?thesis using assms(2) by (fastforce simp: flights_ok_def)
  qed (use assms(2) fin in \<open>auto simp: flights_ok_def\<close>)
qed

lemma flights_ok_reachable: "flight_steps (no_flights cookie token) s \<Longrightarrow> flights_ok s"
proof (induction rule: rtranclp_induct)
  case base
  show ?case by (simp add: flights_ok_def no_flights_def)
qed (rule flights_ok_step)

section \<open>No token is shown twice while answers arrive\<close>

definition cookie_current :: "flights \<Rightarrow> bool" where
  "cookie_current s \<longleftrightarrow> \<not> fl_lost s \<longrightarrow>
     \<not> fl_replayed s \<and> (\<forall>k\<in>fl_sent s. k \<in> fl_open s \<and> fl_reply s k = None) \<and>
     (\<forall>k\<in>fl_open s. fl_presented s k = fl_cookie s \<and> (\<forall>n. fl_reply s k = Some (Rotated n) \<longrightarrow> n = fl_valid s)) \<and>
     ((\<exists>k\<in>fl_open s. \<exists>n. fl_reply s k = Some (Rotated n)) \<or> fl_cookie s \<in> {None, Some (fl_valid s)})"

lemma cookie_currentD:
  assumes "cookie_current s" and "\<not> fl_lost s"
  shows "k \<in> fl_sent s \<Longrightarrow> k \<in> fl_open s" "k \<in> fl_open s \<Longrightarrow> fl_presented s k = fl_cookie s" "\<not> fl_replayed s"
    "k \<in> fl_sent s \<Longrightarrow> fl_reply s k = None"
    "(\<exists>k\<in>fl_open s. \<exists>n. fl_reply s k = Some (Rotated n)) \<or> fl_cookie s \<in> {None, Some (fl_valid s)}"
  using assms unfolding cookie_current_def by blast+

lemma cookie_current_step:
  assumes "flight_step s s'" and ok: "flights_ok s" and "cookie_current s"
  shows "cookie_current s'"
  using assms(1)
proof (cases rule: flight_step.cases)
  case (starts_refresh r t)
  have "fl_open s = {}" using flights_okD(1) [OF ok] starts_refresh by fastforce
  moreover have "fl_reply s (fl_next s) = None" by (rule flights_okD(8) [OF ok]) simp
  ultimately show ?thesis using starts_refresh assms(3) by (auto simp: cookie_current_def)
next
  case (service_rotates k)
  show ?thesis
  proof (cases "fl_lost s")
    case False
    have opened: "k \<in> fl_open s" by (rule cookie_currentD(1) [OF assms(3) False service_rotates(2)])
    have "fl_sent s = {k}" using service_rotates(2) cookie_currentD(1) [OF assms(3) False] open_refresh [OF ok opened] by blast
    with open_refresh [OF ok opened] cookie_currentD(2,3) [OF assms(3) False] opened service_rotates(1,3) show ?thesis
      by (simp add: cookie_current_def)
  qed (use service_rotates in \<open>simp add: cookie_current_def\<close>)
next
  case (service_refuses k clears)
  show ?thesis
  proof (cases "fl_lost s")
    case False
    have opened: "k \<in> fl_open s" by (rule cookie_currentD(1) [OF assms(3) False service_refuses(2)])
    have sent: "fl_sent s = {k}"
      using service_refuses(2) cookie_currentD(1) [OF assms(3) False] open_refresh [OF ok opened] by blast
    have "fl_reply s k = None" by (rule cookie_currentD(4) [OF assms(3) False service_refuses(2)])
    then have "fl_cookie s = None \<or> fl_cookie s = Some (fl_valid s)"
      using cookie_currentD(5) [OF assms(3) False] open_refresh [OF ok opened] by simp
    with sent open_refresh [OF ok opened] cookie_currentD(2,3) [OF assms(3) False] opened service_refuses(1) show ?thesis
      by (auto simp: cookie_current_def)
  qed (use service_refuses in \<open>simp add: cookie_current_def\<close>)
next
  case (refreshed k n t)
  from open_refresh [OF ok refreshed(2)] refreshed assms(3) show ?thesis by (auto simp: cookie_current_def)
next
  case (unreadable k n)
  from open_refresh [OF ok unreadable(2)] unreadable assms(3) show ?thesis by (auto simp: cookie_current_def)
next
  case (refresh_refused k clears)
  from open_refresh [OF ok refresh_refused(2)] refresh_refused assms(3) show ?thesis by (auto simp: cookie_current_def)
qed (use assms(3) in \<open>auto simp: cookie_current_def\<close>)

lemma cookie_current_reachable: "flight_steps (no_flights cookie token) s \<Longrightarrow> cookie_current s"
proof (induction rule: rtranclp_induct)
  case base
  show ?case by (simp add: cookie_current_def no_flights_def)
qed (blast intro: cookie_current_step flights_ok_reachable)

section \<open>Every request comes to an end\<close>

fun phase_weight :: "phase \<Rightarrow> nat" where
  "phase_weight Idle = 0"
| "phase_weight (Sending t may) = (if may then 6 else 1)"
| "phase_weight (Awaiting k) = 2"
| "phase_weight (Finished status) = 0"

definition phases_weight :: "(nat \<Rightarrow> phase) \<Rightarrow> nat" where
  "phases_weight f = (\<Sum>r | f r \<noteq> Idle. phase_weight (f r))"

text \<open>How many steps the requests of the page and their refreshes have left.\<close>

definition pending :: "flights \<Rightarrow> nat" where
  "pending s = phases_weight (fl_phase s) + card (fl_sent s) +
     (case fl_in_flight s of None \<Rightarrow> 0 | Some k \<Rightarrow> if k \<in> fl_open s then 2 else 1)"

lemma phases_weight_over:
  assumes "finite A" and "{r. f r \<noteq> Idle} \<subseteq> A"
  shows "phases_weight f = (\<Sum>r\<in>A. phase_weight (f r))"
  unfolding phases_weight_def using assms by (intro sum.mono_neutral_left) auto

lemma phases_weight_moved:
  assumes "finite {r. f r \<noteq> Idle}"
  shows "phases_weight (f(r := x)) + phase_weight (f r) = phases_weight f + phase_weight x"
proof -
  let ?A = "insert r {r. f r \<noteq> Idle}"
  have fin: "finite ?A" using assms by simp
  have "phases_weight (f(r := x)) = (\<Sum>i\<in>?A. phase_weight ((f(r := x)) i))" using fin by (rule phases_weight_over) auto
  also have "\<dots> = phase_weight x + (\<Sum>i\<in>?A - {r}. phase_weight (f i))"
    using fin by (subst sum.remove [of _ r]) (auto intro!: sum.cong)
  finally have new: "phases_weight (f(r := x)) = phase_weight x + (\<Sum>i\<in>?A - {r}. phase_weight (f i))" .
  have "phases_weight f = (\<Sum>i\<in>?A. phase_weight (f i))" using fin by (rule phases_weight_over) auto
  also have "\<dots> = phase_weight (f r) + (\<Sum>i\<in>?A - {r}. phase_weight (f i))" using fin by (rule sum.remove) simp
  finally show ?thesis using new by simp
qed

lemma pending_falls:
  assumes "flight_moves s s'" and ok: "flights_ok s"
  shows "pending s' < pending s"
proof -
  note moved = phases_weight_moved [OF flights_okD(10) [OF ok]]
  have step: "flight_step s s'" using assms(1) by (simp add: flight_moves_def)
  then show ?thesis
  proof (cases rule: flight_step.cases)
    case (send_request r may)
    with assms(1) show ?thesis by (auto simp: flight_moves_def dest: spec [of _ r])
  next
    case (answered r t may status)
    with moved [of r "Finished status"] show ?thesis by (simp add: pending_def split: if_splits option.split)
  next
    case (starts_refresh r t)
    have "fl_next s \<notin> fl_sent s" using flights_okD(9) [OF ok] by blast
    with starts_refresh moved [of r "Awaiting (fl_next s)"] flights_okD(11) [OF ok] show ?thesis by (simp add: pending_def split: option.split)
  next
    case (joins_refresh r t k)
    with moved [of r "Awaiting k"] show ?thesis by (simp add: pending_def split: option.split)
  next
    case (service_rotates k)
    then have "0 < card (fl_sent s)" using flights_okD(11) [OF ok] by (auto simp: card_gt_0_iff)
    with service_rotates flights_okD(11) [OF ok] show ?thesis by (simp add: pending_def card_Diff_singleton split: option.split)
  next
    case (service_refuses k clears)
    then have "0 < card (fl_sent s)" using flights_okD(11) [OF ok] by (auto simp: card_gt_0_iff)
    with service_refuses flights_okD(11) [OF ok] show ?thesis by (simp add: pending_def card_Diff_singleton split: option.split)
  next
    case (refreshed k n t)
    with flights_okD(1) [OF ok refreshed(2)] show ?thesis by (simp add: pending_def split: option.split)
  next
    case (unreadable k n)
    with flights_okD(1) [OF ok unreadable(2)] show ?thesis by (simp add: pending_def split: option.split)
  next
    case (refresh_refused k clears)
    with flights_okD(1) [OF ok refresh_refused(2)] show ?thesis by (simp add: pending_def split: option.split)
  next
    case (connection_lost k)
    with flights_okD(1) [OF ok connection_lost(2)] show ?thesis by (simp add: pending_def split: option.split)
  next
    case (refresh_settled k)
    then show ?thesis by (simp add: pending_def split: option.split)
  next
    case (replays r k t)
    with moved [of r "Sending (Some t) False"] show ?thesis by (simp add: pending_def split: option.split)
  next
    case (loses_session r k)
    with moved [of r "Finished 401"] show ?thesis by (simp add: pending_def split: option.split)
  qed
qed

text \<open>Where no step is left but to send further requests, none is under way.\<close>

lemma moved_phase:
  "flight_step s s' \<Longrightarrow> fl_phase s' = (fl_phase s)(r := x) \<Longrightarrow> fl_phase s r \<noteq> Idle \<Longrightarrow> flight_moves s s'"
  by (simp add: flight_moves_def)

lemma same_phase: "flight_step s s' \<Longrightarrow> fl_phase s' = fl_phase s \<Longrightarrow> flight_moves s s'"
  by (simp add: flight_moves_def)

lemma under_way_moves:
  assumes ok: "flights_ok s" and "fl_phase s r \<noteq> Idle" and "\<forall>status. fl_phase s r \<noteq> Finished status"
  shows "\<exists>s'. flight_moves s s'"
proof (cases "fl_phase s r")
  case (Sending t may)
  then have "flight_step s (s\<lparr>fl_phase := (fl_phase s)(r := Finished 200)\<rparr>)" by (rule flight_step.answered) simp
  from moved_phase [OF this, of r "Finished 200"] Sending show ?thesis by auto
next
  case (Awaiting k)
  show ?thesis
  proof (cases "fl_result s k")
    case None
    then have "k \<in> fl_open s" using flights_okD(6) [OF ok Awaiting] by simp
    from same_phase [OF flight_step.connection_lost [OF this]] show ?thesis by auto
  next
    case (Some o1)
    show ?thesis
    proof (cases "fl_in_flight s = Some k")
      case True
      from same_phase [OF flight_step.refresh_settled [OF True]] Some show ?thesis by auto
    next
      case False
      show ?thesis
      proof (cases o1)
        case None
        with Some have "flight_step s (s\<lparr>fl_phase := (fl_phase s)(r := Finished 401), fl_token := None\<rparr>)"
          using flight_step.loses_session [OF Awaiting _ False] by simp
        from moved_phase [OF this, of r "Finished 401"] Awaiting show ?thesis by auto
      next
        case (Some t)
        with \<open>fl_result s k = Some o1\<close> have "flight_step s (s\<lparr>fl_phase := (fl_phase s)(r := Sending (Some t) False)\<rparr>)"
          using flight_step.replays [OF Awaiting _ False] by simp
        from moved_phase [OF this, of r "Sending (Some t) False"] Awaiting show ?thesis by auto
      qed
    qed
  qed
qed (use assms in auto)

lemma moves_bounded:
  "(flight_moves ^^ n) s s' \<Longrightarrow> flights_ok s \<Longrightarrow> flights_ok s' \<and> n + pending s' \<le> pending s"
proof (induction n arbitrary: s')
  case (Suc n)
  then obtain m where m: "(flight_moves ^^ n) s m" "flight_moves m s'" by auto
  with Suc.IH Suc.prems have ok: "flights_ok m" "n + pending m \<le> pending s" by auto
  moreover have "flights_ok s'" using m(2) ok(1) flights_ok_step by (auto simp: flight_moves_def)
  ultimately show ?case using pending_falls [OF m(2) ok(1)] by simp
qed simp

text \<open>
  C6: Concurrent requests of a page share one refresh. However the requests, the service and the connection interleave, at
  most one refresh call is open. The service is never shown a refresh token it has replaced, unless the answer of an earlier
  refresh was lost on the way. And no request waits for ever: a run that sends no further request is at most as long as
  the steps pending at its start, and where it cannot be continued every request that was sent has finished.
\<close>

theorem refresh_single_flight:
  assumes "flight_steps (no_flights cookie token) s"
  shows "(\<forall>j\<in>fl_open s. \<forall>k\<in>fl_open s. j = k) \<and> (fl_replayed s \<longrightarrow> fl_lost s) \<and>
    (\<forall>n s'. (flight_moves ^^ n) s s' \<longrightarrow> n \<le> pending s \<and>
      ((\<nexists>s''. flight_moves s' s'') \<longrightarrow> (\<forall>r. fl_phase s' r = Idle \<or> (\<exists>status. fl_phase s' r = Finished status))))"
proof -
  note ok = flights_ok_reachable [OF assms]
  have "fl_replayed s \<longrightarrow> fl_lost s"
    using cookie_current_reachable [OF assms] by (auto simp: cookie_current_def)
  moreover have "\<forall>j\<in>fl_open s. \<forall>k\<in>fl_open s. j = k" using open_refresh [OF ok] by blast
  moreover have "n \<le> pending s \<and>
      ((\<nexists>s''. flight_moves s' s'') \<longrightarrow> (\<forall>r. fl_phase s' r = Idle \<or> (\<exists>status. fl_phase s' r = Finished status)))"
    if "(flight_moves ^^ n) s s'" for n s'
    using moves_bounded [OF that ok] under_way_moves [of s'] by auto
  ultimately show ?thesis by blast
qed

section \<open>A lost answer\<close>

text \<open>
  Two requests are refused and share one refresh; the service rotates the token, the answer is lost. The next request
  presents the old token, and the service is shown one it has replaced.
\<close>

definition two_waiting :: flights where
  "two_waiting = (no_flights 7 (Some ''old''))\<lparr>fl_phase := (\<lambda>_. Idle)(0 := Awaiting 0, 1 := Awaiting 0), fl_in_flight := Some 0,
     fl_open := {0}, fl_sent := {0}, fl_presented := (\<lambda>_. None)(0 := Some 7), fl_next := 1\<rparr>"

lemma two_waiting_reached: "flight_steps (no_flights 7 (Some ''old'')) two_waiting"
proof -
  let ?s0 = "no_flights 7 (Some ''old'')"
  let ?s1 = "?s0\<lparr>fl_phase := (fl_phase ?s0)(0 := Sending (Some ''old'') True)\<rparr>"
  let ?s2 = "?s1\<lparr>fl_phase := (fl_phase ?s1)(1 := Sending (Some ''old'') True)\<rparr>"
  let ?s3 = "?s2\<lparr>fl_phase := (fl_phase ?s2)(0 := Awaiting 0), fl_in_flight := Some 0, fl_open := {0}, fl_sent := {0},
    fl_presented := (fl_presented ?s2)(0 := Some 7), fl_next := 1\<rparr>"
  let ?s4 = "?s3\<lparr>fl_phase := (fl_phase ?s3)(1 := Awaiting 0)\<rparr>"
  have "flight_step ?s0 ?s1" using flight_step.send_request [of ?s0 0 True] by (simp add: no_flights_def)
  moreover have "flight_step ?s1 ?s2" using flight_step.send_request [of ?s1 1 True] by (simp add: no_flights_def)
  moreover have "flight_step ?s2 ?s3" using flight_step.starts_refresh [of ?s2 0 "Some ''old''"] by (simp add: no_flights_def)
  moreover have "flight_step ?s3 ?s4" using flight_step.joins_refresh [of ?s3 1 "Some ''old''" 0] by (simp add: no_flights_def)
  ultimately have "flight_steps ?s0 ?s4" by (meson rtranclp.rtrancl_into_rtrancl rtranclp.rtrancl_refl)
  moreover have "?s4 = two_waiting" by (auto simp: two_waiting_def no_flights_def fun_eq_iff)
  ultimately show ?thesis by (simp only:)
qed

lemma lost_answer_is_replayed: "\<exists>s. flight_steps two_waiting s \<and> fl_replayed s"
proof -
  let ?s0 = two_waiting
  let ?s1 = "?s0\<lparr>fl_sent := {}, fl_reply := (fl_reply ?s0)(0 := Some (Rotated 8)), fl_valid := 8\<rparr>"
  let ?s2 = "?s1\<lparr>fl_open := {}, fl_result := (fl_result ?s1)(0 := Some None), fl_lost := True\<rparr>"
  let ?s3 = "?s2\<lparr>fl_in_flight := None\<rparr>"
  let ?s4 = "?s3\<lparr>fl_phase := (fl_phase ?s3)(2 := Sending (Some ''old'') True)\<rparr>"
  let ?s5 = "?s4\<lparr>fl_phase := (fl_phase ?s4)(2 := Awaiting 1), fl_in_flight := Some 1, fl_open := {1}, fl_sent := {1},
    fl_presented := (fl_presented ?s4)(1 := Some 7), fl_next := 2\<rparr>"
  let ?s6 = "?s5\<lparr>fl_sent := {}, fl_reply := (fl_reply ?s5)(1 := Some (Refused True)), fl_replayed := True\<rparr>"
  have "flight_step ?s0 ?s1" using flight_step.service_rotates [of 0 ?s0] by (simp add: two_waiting_def no_flights_def)
  moreover have "flight_step ?s1 ?s2" using flight_step.connection_lost [of 0 ?s1] by (simp add: two_waiting_def no_flights_def)
  moreover have "flight_step ?s2 ?s3" using flight_step.refresh_settled [of ?s2 0] by (simp add: two_waiting_def no_flights_def)
  moreover have "flight_step ?s3 ?s4" using flight_step.send_request [of ?s3 2 True] by (simp add: two_waiting_def no_flights_def)
  moreover have "flight_step ?s4 ?s5"
    using flight_step.starts_refresh [of ?s4 2 "Some ''old''"] by (simp add: two_waiting_def no_flights_def numeral_2_eq_2)
  moreover have "flight_step ?s5 ?s6"
    using flight_step.service_refuses [of 1 ?s5 True] by (simp add: two_waiting_def no_flights_def)
  ultimately have "flight_steps ?s0 ?s6" by (meson rtranclp.rtrancl_into_rtrancl rtranclp.rtrancl_refl)
  moreover have "fl_replayed ?s6" by simp
  ultimately show ?thesis by blast
qed

theorem refresh_single_flight_witness:
  "\<exists>s. flight_steps (no_flights 7 (Some ''old'')) s \<and> fl_replayed s \<and> fl_lost s \<and>
    (\<forall>j\<in>fl_open two_waiting. \<forall>k\<in>fl_open two_waiting. j = k)"
proof -
  obtain s where on: "flight_steps two_waiting s" and seen: "fl_replayed s" using lost_answer_is_replayed by blast
  have run: "flight_steps (no_flights 7 (Some ''old'')) s" by (rule rtranclp_trans [OF two_waiting_reached on])
  from refresh_single_flight [OF run] refresh_single_flight [OF two_waiting_reached] run seen show ?thesis by blast
qed

end
