(* ===== verification/Web_Stores.thy ===== *)
theory Web_Stores
  imports Web_Api
begin

text \<open>
  Two stores of the web application: the tray of listings to compare (\<open>apps/web/src/store/compare.store.ts\<close>) and the
  favourites (\<open>store/favorites.store.ts\<close>), which are changed first and put back when the server refuses. The endpoints
  of the server are parameters.
\<close>

section \<open>The compare tray\<close>

record compare_item =
  ci_id :: string
  ci_slug :: string
  ci_title :: string
  ci_image :: "string option"
  ci_price :: rat
  ci_area_sqm :: rat
  ci_bedrooms :: int
  ci_bathrooms :: int
  ci_property_type :: string
  ci_area_name :: string
  ci_compound_name :: "string option"

record compare_store =
  ct_items :: "compare_item list"
  ct_bar_open :: bool
  ct_hydrated :: bool

datatype refusal = Duplicate | Full

definition max_compare_items :: nat where
  "max_compare_items = 4"

definition initial_compare :: compare_store where
  "initial_compare = \<lparr>ct_items = [], ct_bar_open = True, ct_hydrated = False\<rparr>"

definition compare_has :: "string \<Rightarrow> compare_store \<Rightarrow> bool" where
  "compare_has i s \<longleftrightarrow> list_ex (\<lambda>x. ci_id x = i) (ct_items s)"

definition compare_is_full :: "compare_store \<Rightarrow> bool" where
  "compare_is_full s \<longleftrightarrow> max_compare_items \<le> length (ct_items s)"

definition compare_add :: "compare_item \<Rightarrow> compare_store \<Rightarrow> refusal option \<times> compare_store" where
  "compare_add x s =
     (if compare_has (ci_id x) s then (Some Duplicate, s)
      else if compare_is_full s then (Some Full, s)
      else (None, s\<lparr>ct_items := ct_items s @ [x], ct_bar_open := True\<rparr>))"

definition compare_remove :: "string \<Rightarrow> compare_store \<Rightarrow> compare_store" where
  "compare_remove i s = s\<lparr>ct_items := filter (\<lambda>x. ci_id x \<noteq> i) (ct_items s)\<rparr>"

text \<open>The result says whether the call succeeded, whether the item was added, and why not.\<close>

definition compare_toggle :: "compare_item \<Rightarrow> compare_store \<Rightarrow> (bool \<times> bool \<times> refusal option) \<times> compare_store" where
  "compare_toggle x s =
     (if compare_has (ci_id x) s then ((True, False, None), compare_remove (ci_id x) s)
      else (case compare_add x s of (reason, s') \<Rightarrow> ((reason = None, reason = None, reason), s')))"

definition compare_clear :: "compare_store \<Rightarrow> compare_store" where
  "compare_clear s = s\<lparr>ct_items := []\<rparr>"

definition compare_set_bar_open :: "bool \<Rightarrow> compare_store \<Rightarrow> compare_store" where
  "compare_set_bar_open b s = s\<lparr>ct_bar_open := b\<rparr>"

text \<open>A reload starts afresh with the items that were stored.\<close>

definition compare_reload :: "compare_store \<Rightarrow> compare_store" where
  "compare_reload s = initial_compare\<lparr>ct_items := take max_compare_items (ct_items s), ct_hydrated := True\<rparr>"

datatype compare_action =
    AddItem compare_item
  | RemoveItem string
  | ToggleItem compare_item
  | ClearItems
  | SetBarOpen bool
  | ReloadItems

primrec compare_step :: "compare_action \<Rightarrow> compare_store \<Rightarrow> compare_store" where
  "compare_step (AddItem x) s = snd (compare_add x s)"
| "compare_step (RemoveItem i) s = compare_remove i s"
| "compare_step (ToggleItem x) s = snd (compare_toggle x s)"
| "compare_step ClearItems s = compare_clear s"
| "compare_step (SetBarOpen b) s = compare_set_bar_open b s"
| "compare_step ReloadItems s = compare_reload s"

definition tray_ok :: "compare_store \<Rightarrow> bool" where
  "tray_ok s \<longleftrightarrow> length (ct_items s) \<le> max_compare_items \<and> distinct (map ci_id (ct_items s))"

lemma compare_has_iff: "compare_has i s \<longleftrightarrow> i \<in> ci_id ` set (ct_items s)"
  by (auto simp: compare_has_def list_ex_iff)

lemma tray_step: "tray_ok s \<Longrightarrow> tray_ok (compare_step a s)"
proof (cases a)
  case (RemoveItem i)
  then show "tray_ok s \<Longrightarrow> ?thesis"
    by (auto simp: tray_ok_def compare_remove_def distinct_map_filter intro: le_trans [OF length_filter_le])
qed (auto simp: tray_ok_def compare_add_def compare_toggle_def compare_remove_def compare_clear_def compare_set_bar_open_def
    compare_reload_def compare_has_def compare_is_full_def initial_compare_def list_ex_iff distinct_map_filter
    take_map [symmetric] intro: le_trans [OF length_filter_le])

interpretation tray: state_container initial_compare compare_step "\<lambda>_. True" tray_ok
  by unfold_locales (simp add: tray_ok_def initial_compare_def, rule tray_step)

text \<open>
  The compare tray never holds more than four listings, nor one twice, over any sequence of actions and reloads; and
  a listing is added, at the end, exactly when it is new and there is room.
\<close>

theorem compare_tray_bounded:
  "let s = fold compare_step actions initial_compare in
    length (ct_items s) \<le> 4 \<and> distinct (map ci_id (ct_items s)) \<and>
    (case compare_add x s of (refused, s') \<Rightarrow>
      ct_items s' = (if ci_id x \<notin> ci_id ` set (ct_items s) \<and> length (ct_items s) < 4 then ct_items s @ [x] else ct_items s) \<and>
      (refused = None \<longleftrightarrow> ct_items s' \<noteq> ct_items s))"
  using tray.inv_run [of actions]
  by (auto simp: tray_ok_def Let_def compare_add_def compare_has_iff compare_is_full_def max_compare_items_def)

section \<open>Favourites\<close>

text \<open>
  The rest of the world: the session of the browser and what the server holds. The calls save and remove a favourite and
  list the saved ids; a call that is answered with 401 may have ended the session (\<open>clearSession\<close> of \<open>lib/api.ts\<close>).
\<close>

record 's favorites_api =
  fv_signed_in :: "'s \<Rightarrow> bool"
  fv_post :: "string \<Rightarrow> ('s, web_exn, unit) prog"
  fv_delete :: "string \<Rightarrow> ('s, web_exn, unit) prog"
  fv_list :: "('s, web_exn, string list) prog"

record 's favorites_store =
  fs_ids :: "string list"
  fs_pending :: "string set"
  fs_hydrated :: bool
  fs_last_synced_at :: "int option"
  fs_server :: 's

type_synonym ('s, 'a) favorites_prog = "('s favorites_store, web_exn, 'a) prog"

definition on_server :: "('s, web_exn, 'a) prog \<Rightarrow> ('s, 'a) favorites_prog" where
  "on_server m = (\<lambda>w. case m (fs_server w) of (out, s) \<Rightarrow> (out, w\<lparr>fs_server := s\<rparr>))"

definition is_favorite :: "string \<Rightarrow> 's favorites_store \<Rightarrow> bool" where
  "is_favorite i w \<longleftrightarrow> i \<in> set (fs_ids w)"

definition set_pending :: "string \<Rightarrow> bool \<Rightarrow> 's favorites_store \<Rightarrow> 's favorites_store" where
  "set_pending i b w = w\<lparr>fs_pending := (if b then insert i (fs_pending w) else fs_pending w - {i})\<rparr>"


definition has_status :: "web_exn \<Rightarrow> int \<Rightarrow> bool" where
  "has_status e status \<longleftrightarrow> (case e of ApiFailure a \<Rightarrow> ax_status a = status | Foreign _ \<Rightarrow> False)"


definition begin_remove :: "string \<Rightarrow> 's favorites_store \<Rightarrow> 's favorites_store" where
  "begin_remove i w = (set_pending i True w)\<lparr>fs_ids := filter (\<lambda>j. j \<noteq> i) (fs_ids w)\<rparr>"

definition fail_remove :: "string \<Rightarrow> string list \<Rightarrow> web_exn \<Rightarrow> 's favorites_store \<Rightarrow> 's favorites_store" where
  "fail_remove i snapshot e w =
     (set_pending i False w)\<lparr>fs_ids := (if has_status e 404 then fs_ids w else snapshot)\<rparr>"




definition set_all_favorites :: "string list \<Rightarrow> ('s, unit) favorites_prog" where
  "set_all_favorites ids = modify_state (\<lambda>w. w\<lparr>fs_ids := js_unique ids\<rparr>)"

definition clear_favorites :: "('s, unit) favorites_prog" where
  "clear_favorites = modify_state (\<lambda>w. w\<lparr>fs_ids := [], fs_pending := {}, fs_last_synced_at := None\<rparr>)"

text \<open>\<open>Promise.allSettled\<close>: every id is pushed, whatever becomes of the others.\<close>

definition push_favorites :: "'s favorites_api \<Rightarrow> string list \<Rightarrow> ('s, unit) favorites_prog" where
  "push_favorites api ids = seq_all (\<lambda>i. catch (on_server (fv_post api i)) (\<lambda>_. ret ())) ids"

definition sync_favorites :: "'s favorites_api \<Rightarrow> int \<Rightarrow> ('s, unit) favorites_prog" where
  "sync_favorites api now =
     seq get_state (\<lambda>w.
       if \<not> fv_signed_in api (fs_server w) then ret ()
       else catch
         (seq (on_server (fv_list api)) (\<lambda>server_ids.
            let missing = filter (\<lambda>i. i \<notin> set server_ids) (fs_ids w)
            in seq (push_favorites api missing) (\<lambda>_.
                 modify_state (\<lambda>w. w\<lparr>fs_ids := js_unique (server_ids @ missing), fs_last_synced_at := Some now\<rparr>))))
         (\<lambda>_. ret ()))"


section \<open>The favourites of the server\<close>

text \<open>
  A refusal is an answer with a 4xx; after any other failure (no answer, an unreadable one, a 5xx) the server may or may
  not have done the work. Only a 401 ends the session.
\<close>

definition refused :: "web_exn \<Rightarrow> bool" where
  "refused e \<longleftrightarrow> (case e of ApiFailure a \<Rightarrow> 400 \<le> ax_status a \<and> ax_status a < 500 | Foreign _ \<Rightarrow> False)"

definition session_after :: "'s favorites_api \<Rightarrow> web_exn \<Rightarrow> 's \<Rightarrow> 's \<Rightarrow> bool" where
  "session_after api e s s' \<longleftrightarrow>
     fv_signed_in api s' = fv_signed_in api s \<or> (has_status e 401 \<and> \<not> fv_signed_in api s')"

definition call_outcome ::
  "'s favorites_api \<Rightarrow> ('s \<Rightarrow> string set) \<Rightarrow> string set \<Rightarrow> bool \<Rightarrow> int \<Rightarrow> 's \<Rightarrow> (web_exn, unit) outcome \<Rightarrow> 's \<Rightarrow> bool" where
  "call_outcome api saved done futile status s out s' \<longleftrightarrow>
     (out = Return () \<and> saved s' = done \<and> fv_signed_in api s' = fv_signed_in api s) \<or>
     (\<exists>e. out = Throw e \<and> (saved s' = saved s \<or> \<not> refused e \<and> saved s' = done) \<and> (has_status e status \<longrightarrow> futile) \<and>
        session_after api e s s')"

text \<open>
  What the endpoints promise of the saved ids: a call that succeeds does its work, one that is refused changes nothing,
  and it is answered with 409 or 404 only when there is nothing to do. The list gives saved ids, up to a page of them.
\<close>

definition favorites_api_ok :: "'s favorites_api \<Rightarrow> ('s \<Rightarrow> string set) \<Rightarrow> bool" where
  "favorites_api_ok api saved \<longleftrightarrow>
     (\<forall>i s out s'. fv_post api i s = (out, s') \<longrightarrow>
        call_outcome api saved (insert i (saved s)) (i \<in> saved s) 409 s out s') \<and>
     (\<forall>i s out s'. fv_delete api i s = (out, s') \<longrightarrow>
        call_outcome api saved (saved s - {i}) (i \<notin> saved s) 404 s out s') \<and>
     (\<forall>s out s'. fv_list api s = (out, s') \<longrightarrow> saved s' = saved s \<and>
        ((\<exists>l. out = Return l \<and> set l \<subseteq> saved s \<and> fv_signed_in api s' = fv_signed_in api s) \<or>
         (\<exists>e. out = Throw e \<and> session_after api e s s')))"








text \<open>\<open>sure\<close>: no answer has been lost so far.\<close>

definition in_agreement :: "'s favorites_api \<Rightarrow> ('s \<Rightarrow> string set) \<Rightarrow> bool \<Rightarrow> 's favorites_store \<Rightarrow> bool" where
  "in_agreement api saved sure w \<longleftrightarrow> distinct (fs_ids w) \<and> fs_pending w = {} \<and>
     (sure \<and> fv_signed_in api (fs_server w) \<longrightarrow> set (fs_ids w) = saved (fs_server w))"





lemma agreement_weaken: "in_agreement api saved sure w \<Longrightarrow> in_agreement api saved (sure \<and> b) w"
  by (auto simp: in_agreement_def)








text \<open>
  A synchronisation that is not refused brings the two together, whatever was lost before, when the list it is given is
  complete: what either side had is then on both.
\<close>

lemma sync_restores:
  assumes api: "favorites_api_ok api saved" and "fv_signed_in api (fs_server w)"
    and list: "fv_list api (fs_server w) = (Return l, s1)" "set l = saved s1"
    and taken: "\<forall>i s. fst (fv_post api i s) = Return ()"
  shows "set (fs_ids (snd (sync_favorites api now w))) = saved (fs_server (snd (sync_favorites api now w)))"
proof -
  have all: "\<exists>s'. push_favorites api ids v = (Return (), v\<lparr>fs_server := s'\<rparr>) \<and> saved s' = saved (fs_server v) \<union> set ids" for ids v
  proof (induction ids arbitrary: v)
    case Nil
    then show ?case by (auto simp: push_favorites_def intro: exI [of _ "fs_server v"])
  next
    case (Cons i ids)
    obtain s2 where post: "fv_post api i (fs_server v) = (Return (), s2)"
      using taken by (metis prod.collapse)
    with api have "saved s2 = insert i (saved (fs_server v))"
      unfolding favorites_api_ok_def call_outcome_def by blast
    with post Cons.IH [of "v\<lparr>fs_server := s2\<rparr>"] show ?case
      by (auto simp: push_favorites_def catch_def on_server_def)
  qed
  let ?missing = "filter (\<lambda>i. i \<notin> set l) (fs_ids w)"
  obtain s2 where "push_favorites api ?missing (w\<lparr>fs_server := s1\<rparr>) = (Return (), w\<lparr>fs_server := s2\<rparr>)"
    "saved s2 = saved s1 \<union> set ?missing"
    using all [of ?missing "w\<lparr>fs_server := s1\<rparr>"] by auto
  with assms(2) list show ?thesis
    by (simp add: sync_favorites_def on_server_def Let_def seq_def catch_def)
qed

text \<open>
  Two removals that overlap are another matter: the first one fails after the second one succeeded, and puts back the
  ids as they were before both.
\<close>

lemma overlapping_removals_bring_back:
  assumes "a \<noteq> b" and "{a, b} \<subseteq> set (fs_ids w)" and "\<not> has_status e 404"
  shows "b \<in> set (fs_ids (fail_remove a (fs_ids w) e (set_pending b False (begin_remove b (begin_remove a w)))))"
  using assms by (simp add: fail_remove_def)

section \<open>The interface\<close>

datatype theme = Light | Dark | System

record ui_store =
  ui_locale :: string
  ui_dir :: string
  ui_theme :: theme
  ui_mobile_nav :: bool
  ui_filter_sheet :: bool
  ui_search_overlay :: bool
  ui_command_menu :: bool
  ui_hydrated :: bool

definition direction_for_locale :: "string \<Rightarrow> string" where
  "direction_for_locale locale = (if locale = ''ar'' then ''rtl'' else ''ltr'')"

definition initial_ui :: ui_store where
  "initial_ui =
     \<lparr>ui_locale = ''en'', ui_dir = ''ltr'', ui_theme = System, ui_mobile_nav = False, ui_filter_sheet = False,
      ui_search_overlay = False, ui_command_menu = False, ui_hydrated = False\<rparr>"

datatype ui_action =
    SetLocale string
  | ToggleLocale
  | SetTheme theme
  | SetMobileNav bool
  | SetFilterSheet bool
  | SetSearchOverlay bool
  | SetCommandMenu bool
  | CloseAllOverlays
  | ReloadUi

definition set_locale :: "string \<Rightarrow> ui_store \<Rightarrow> ui_store" where
  "set_locale locale s = s\<lparr>ui_locale := locale, ui_dir := direction_for_locale locale\<rparr>"

definition toggle_locale :: "ui_store \<Rightarrow> ui_store" where
  "toggle_locale s = set_locale (if ui_locale s = ''en'' then ''ar'' else ''en'') s"

definition close_all_overlays :: "ui_store \<Rightarrow> ui_store" where
  "close_all_overlays s =
     s\<lparr>ui_mobile_nav := False, ui_filter_sheet := False, ui_search_overlay := False, ui_command_menu := False\<rparr>"

text \<open>The locale, its direction and the theme survive a reload.\<close>

definition reload_ui :: "ui_store \<Rightarrow> ui_store" where
  "reload_ui s = initial_ui\<lparr>ui_locale := ui_locale s, ui_dir := ui_dir s, ui_theme := ui_theme s, ui_hydrated := True\<rparr>"

primrec ui_step :: "ui_action \<Rightarrow> ui_store \<Rightarrow> ui_store" where
  "ui_step (SetLocale l) s = set_locale l s"
| "ui_step ToggleLocale s = toggle_locale s"
| "ui_step (SetTheme t) s = s\<lparr>ui_theme := t\<rparr>"
| "ui_step (SetMobileNav b) s = s\<lparr>ui_mobile_nav := b\<rparr>"
| "ui_step (SetFilterSheet b) s = s\<lparr>ui_filter_sheet := b\<rparr>"
| "ui_step (SetSearchOverlay b) s = s\<lparr>ui_search_overlay := b\<rparr>"
| "ui_step (SetCommandMenu b) s = s\<lparr>ui_command_menu := b\<rparr>"
| "ui_step CloseAllOverlays s = close_all_overlays s"
| "ui_step ReloadUi s = reload_ui s"

interpretation ui: state_container initial_ui ui_step "\<lambda>_. True" "\<lambda>s. ui_dir s = direction_for_locale (ui_locale s)"
proof unfold_locales
  fix a and s :: ui_store assume "ui_dir s = direction_for_locale (ui_locale s)"
  then show "ui_dir (ui_step a s) = direction_for_locale (ui_locale (ui_step a s))"
    by (cases a) (simp_all add: set_locale_def toggle_locale_def close_all_overlays_def reload_ui_def)
qed (simp add: initial_ui_def direction_for_locale_def)

text \<open>The text runs in the direction of the language, over any sequence of actions.\<close>

lemma direction_follows_locale:
  "let s = fold ui_step actions initial_ui in ui_dir s = (if ui_locale s = ''ar'' then ''rtl'' else ''ltr'')"
  using ui.inv_run [of actions] by (simp add: direction_for_locale_def Let_def)

end
