(* ===== verification/Web_Filters.thy ===== *)
theory Web_Filters
  imports Web_Url Enums
begin

text \<open>
  \<open>apps/web/src/lib/filters.ts\<close> and \<open>store/filters.store.ts\<close>: the search filters, their query string, and the store that
  the URL drives. The numbers of a filter are finite.
\<close>

section \<open>Filters\<close>

text \<open>\<open>SearchFilters\<close> is a map from the names of its fields; a field that is absent or undefined is not in the map.\<close>

datatype filter_value = FText string | FNumber rat | FTexts "string list" | FNumbers "rat list"

type_synonym filters = "string \<Rightarrow> filter_value option"

definition empty_filters :: filters where
  "empty_filters = Map.empty"

definition default_page_limit :: rat where
  "default_page_limit = 20"

definition relevance_sort :: string where
  "relevance_sort = ''relevance''"

definition filter_keys :: "string list" where
  "filter_keys =
     [''q'', ''saleType'', ''propertyType'', ''areaId'', ''compoundId'', ''developerId'', ''minPrice'', ''maxPrice'',
      ''bedrooms'', ''bathrooms'', ''minArea'', ''maxArea'', ''finishing'', ''status'', ''amenities'', ''deliveryBefore'',
      ''maxDownPayment'', ''minInstallmentYears'', ''lat'', ''lng'', ''radiusKm'', ''sort'', ''page'', ''limit'']"

definition non_filter_keys :: "string list" where
  "non_filter_keys = [''sort'', ''page'', ''limit'', ''q'']"

section \<open>Reading a query string\<close>

definition read_number :: "(string \<times> string) list \<Rightarrow> string \<Rightarrow> rat option" where
  "read_number params k =
     (case get_first params k of
        None \<Rightarrow> None
      | Some raw \<Rightarrow>
          if trim raw = [] then None
          else (case js_number raw of Fin r \<Rightarrow> Some r | _ \<Rightarrow> None))"

definition list_parts :: "(string \<times> string) list \<Rightarrow> string \<Rightarrow> string list" where
  "list_parts params k = map trim (concat (map (split_on CHR '','') (get_all params k)))"

fun finite_part :: "js_num \<Rightarrow> rat list" where
  "finite_part (Fin r) = [r]"
| "finite_part n = []"

definition read_number_list :: "(string \<times> string) list \<Rightarrow> string \<Rightarrow> rat list" where
  "read_number_list params k = js_unique (concat (map (finite_part \<circ> js_number) (list_parts params k)))"

definition read_string_list :: "(string \<times> string) list \<Rightarrow> string \<Rightarrow> string list" where
  "read_string_list params k = js_unique (filter (\<lambda>s. s \<noteq> []) (list_parts params k))"

text \<open>The five ways in which \<open>deserializeFilters\<close> decides whether a field is set.\<close>

definition field_number :: "(string \<times> string) list \<Rightarrow> string \<Rightarrow> filter_value option" where
  "field_number params k = map_option FNumber (read_number params k)"

definition field_numbers :: "(string \<times> string) list \<Rightarrow> string \<Rightarrow> filter_value option" where
  "field_numbers params k = (case read_number_list params k of [] \<Rightarrow> None | rs \<Rightarrow> Some (FNumbers rs))"

definition field_texts :: "(string \<Rightarrow> bool) \<Rightarrow> (string \<times> string) list \<Rightarrow> string \<Rightarrow> filter_value option" where
  "field_texts ok params k =
     (case filter ok (read_string_list params k) of [] \<Rightarrow> None | ss \<Rightarrow> Some (FTexts ss))"

definition field_text :: "(string \<Rightarrow> bool) \<Rightarrow> (string \<times> string) list \<Rightarrow> string \<Rightarrow> filter_value option" where
  "field_text ok params k =
     (case get_first params k of
        None \<Rightarrow> None
      | Some s \<Rightarrow> if s \<noteq> [] \<and> ok s then Some (FText s) else None)"

definition field_query :: "(string \<times> string) list \<Rightarrow> string \<Rightarrow> filter_value option" where
  "field_query params k =
     (case get_first params k of
        None \<Rightarrow> None
      | Some s \<Rightarrow> if trim s \<noteq> [] then Some (FText (trim s)) else None)"

definition assign_field :: "string \<times> filter_value option \<Rightarrow> filters \<Rightarrow> filters" where
  "assign_field = (\<lambda>(k, v) f. case v of None \<Rightarrow> f | Some x \<Rightarrow> f(k \<mapsto> x))"

definition read_fields :: "(string \<times> string) list \<Rightarrow> (string \<times> filter_value option) list" where
  "read_fields params =
     (let located = (read_number params ''lat'' \<noteq> None \<and> read_number params ''lng'' \<noteq> None)
      in
        [(''q'', field_query params ''q''),
         (''propertyType'', field_texts web_is_property_type params ''propertyType''),
         (''saleType'', field_text web_is_sale_type params ''saleType''),
         (''status'', field_text web_is_property_status params ''status''),
         (''finishing'', field_texts web_is_finishing params ''finishing''),
         (''minPrice'', field_number params ''minPrice''),
         (''maxPrice'', field_number params ''maxPrice''),
         (''minArea'', field_number params ''minArea''),
         (''maxArea'', field_number params ''maxArea''),
         (''bedrooms'', field_numbers params ''bedrooms''),
         (''bathrooms'', field_numbers params ''bathrooms''),
         (''areaId'', field_texts (\<lambda>_. True) params ''areaId''),
         (''compoundId'', field_texts (\<lambda>_. True) params ''compoundId''),
         (''developerId'', field_texts (\<lambda>_. True) params ''developerId''),
         (''amenities'', field_texts (\<lambda>_. True) params ''amenities''),
         (''deliveryBefore'', field_text (\<lambda>_. True) params ''deliveryBefore''),
         (''maxDownPayment'', field_number params ''maxDownPayment''),
         (''minInstallmentYears'', field_number params ''minInstallmentYears''),
         (''lat'', if located then field_number params ''lat'' else None),
         (''lng'', if located then field_number params ''lng'' else None),
         (''radiusKm'', if located then field_number params ''radiusKm'' else None),
         (''sort'', field_text web_is_search_sort params ''sort''),
         (''page'',
           case read_number params ''page'' of
             Some r \<Rightarrow> if 1 < r then Some (FNumber (of_int (floor r))) else None
           | None \<Rightarrow> None),
         (''limit'',
           case read_number params ''limit'' of
             Some r \<Rightarrow> if r \<noteq> default_page_limit then Some (FNumber (of_int (floor r))) else None
           | None \<Rightarrow> None)])"

definition deserialize_params :: "(string \<times> string) list \<Rightarrow> filters" where
  "deserialize_params params = fold assign_field (read_fields params) empty_filters"

definition deserialize_filters :: "string \<Rightarrow> filters" where
  "deserialize_filters query = deserialize_params (form_decode query)"

section \<open>Writing a query string\<close>

fun value_texts :: "filter_value option \<Rightarrow> string list" where
  "value_texts None = []"
| "value_texts (Some (FText s)) = (if s = [] then [] else [s])"
| "value_texts (Some (FNumber r)) = [number_text r]"
| "value_texts (Some (FTexts ss)) = ss"
| "value_texts (Some (FNumbers rs)) = map number_text rs"

definition filter_pairs :: "filters \<Rightarrow> (string \<times> string) list" where
  "filter_pairs f = concat (map (\<lambda>k. map (Pair k) (value_texts (f k))) filter_keys)"

definition serialize_filters :: "filters \<Rightarrow> string" where
  "serialize_filters f = form_encode (filter_pairs f)"

definition filters_to_href :: "filters \<Rightarrow> string \<Rightarrow> string" where
  "filters_to_href f pathname =
     (let query = serialize_filters f in if query \<noteq> [] then pathname @ ''?'' @ query else pathname)"

text \<open>An emptied value: undefined, the empty text or the empty list.\<close>

fun emptied :: "filter_value option \<Rightarrow> bool" where
  "emptied None = True"
| "emptied (Some (FText s)) = (s = [])"
| "emptied (Some (FTexts ss)) = (ss = [])"
| "emptied (Some (FNumbers rs)) = (rs = [])"
| "emptied (Some (FNumber r)) = False"

fun list_valued :: "filter_value option \<Rightarrow> bool" where
  "list_valued (Some (FTexts ss)) = True"
| "list_valued (Some (FNumbers rs)) = True"
| "list_valued v = False"

definition filters_to_query_params :: "filters \<Rightarrow> filters" where
  "filters_to_query_params f = (\<lambda>k. if emptied (f k) then None else f k)"

definition counts_as_filter :: "filters \<Rightarrow> string \<Rightarrow> bool" where
  "counts_as_filter f k \<longleftrightarrow>
     k \<notin> set non_filter_keys \<and> \<not> emptied (f k) \<and> (list_valued (f k) \<or> k \<notin> {''lng'', ''radiusKm''})"

definition count_active_filters :: "filters \<Rightarrow> nat" where
  "count_active_filters f = length (filter (counts_as_filter f) filter_keys)"

definition has_active_filters :: "filters \<Rightarrow> bool" where
  "has_active_filters f \<longleftrightarrow> 0 < count_active_filters f"

text \<open>A patch lists the keys it names, with their values; the value of a key may be undefined.\<close>

type_synonym patch = "(string \<times> filter_value option) list"

definition patched :: "filters \<Rightarrow> patch \<Rightarrow> filters" where
  "patched base patch = fold (\<lambda>(k, v) f. f(k := v)) patch base"

definition merge_filters :: "filters \<Rightarrow> patch \<Rightarrow> filters" where
  "merge_filters base patch = (\<lambda>k. let v = patched base patch k in if emptied v then None else v)"

definition filters_equal :: "filters \<Rightarrow> filters \<Rightarrow> bool" where
  "filters_equal a b \<longleftrightarrow> serialize_filters a = serialize_filters b"

definition patch_of :: "filters \<Rightarrow> patch" where
  "patch_of f = map (\<lambda>k. (k, f k)) (filter (\<lambda>k. f k \<noteq> None) filter_keys)"

section \<open>The store\<close>

datatype list_layout = GridLayout | ListLayout | MapLayout

record filters_store =
  ft_filters :: filters
  ft_draft :: filters
  ft_layout :: list_layout

definition initial_filters :: filters where
  "initial_filters = [''sort'' \<mapsto> FText relevance_sort, ''page'' \<mapsto> FNumber 1, ''limit'' \<mapsto> FNumber default_page_limit]"

definition initial_filters_store :: filters_store where
  "initial_filters_store = \<lparr>ft_filters = initial_filters, ft_draft = initial_filters, ft_layout = GridLayout\<rparr>"

definition with_page_reset :: "filters \<Rightarrow> patch \<Rightarrow> filters" where
  "with_page_reset f patch =
     merge_filters f
       (if list_ex (\<lambda>(k, _). k \<noteq> ''page'') patch then patch @ [(''page'', Some (FNumber 1))] else patch)"

definition toggle_in_array :: "'a list \<Rightarrow> 'a \<Rightarrow> 'a list" where
  "toggle_in_array xs x = (if x \<in> set xs then filter (\<lambda>y. y \<noteq> x) xs else xs @ [x])"

fun texts_value :: "filter_value option \<Rightarrow> string list" where
  "texts_value (Some (FTexts ss)) = ss"
| "texts_value v = []"

fun numbers_value :: "filter_value option \<Rightarrow> rat list" where
  "numbers_value (Some (FNumbers rs)) = rs"
| "numbers_value v = []"

definition set_filters :: "filters \<Rightarrow> filters_store \<Rightarrow> filters_store" where
  "set_filters f s = s\<lparr>ft_filters := merge_filters empty_filters (patch_of f), ft_draft := merge_filters empty_filters (patch_of f)\<rparr>"

definition patch_filters :: "patch \<Rightarrow> filters_store \<Rightarrow> filters_store" where
  "patch_filters patch s = s\<lparr>ft_filters := with_page_reset (ft_filters s) patch\<rparr>"

definition set_filter :: "string \<Rightarrow> filter_value option \<Rightarrow> filters_store \<Rightarrow> filters_store" where
  "set_filter k v s = s\<lparr>ft_filters := with_page_reset (ft_filters s) [(k, v)]\<rparr>"

definition toggle_array_filter :: "string \<Rightarrow> string \<Rightarrow> filters_store \<Rightarrow> filters_store" where
  "toggle_array_filter k v s =
     (let next_texts = toggle_in_array (texts_value (ft_filters s k)) v
      in s\<lparr>ft_filters := with_page_reset (ft_filters s) [(k, Some (FTexts next_texts))]\<rparr>)"

definition toggle_number_filter :: "string \<Rightarrow> rat \<Rightarrow> filters_store \<Rightarrow> filters_store" where
  "toggle_number_filter k v s =
     (let next_numbers = sort (toggle_in_array (numbers_value (ft_filters s k)) v)
      in s\<lparr>ft_filters := with_page_reset (ft_filters s) [(k, Some (FNumbers next_numbers))]\<rparr>)"

definition set_price_range :: "rat option \<Rightarrow> rat option \<Rightarrow> filters_store \<Rightarrow> filters_store" where
  "set_price_range low high s =
     s\<lparr>ft_filters := with_page_reset (ft_filters s)
         [(''minPrice'', map_option FNumber low), (''maxPrice'', map_option FNumber high)]\<rparr>"

definition set_area_range :: "rat option \<Rightarrow> rat option \<Rightarrow> filters_store \<Rightarrow> filters_store" where
  "set_area_range low high s =
     s\<lparr>ft_filters := with_page_reset (ft_filters s)
         [(''minArea'', map_option FNumber low), (''maxArea'', map_option FNumber high)]\<rparr>"

definition set_sort :: "string \<Rightarrow> filters_store \<Rightarrow> filters_store" where
  "set_sort srt s = s\<lparr>ft_filters := with_page_reset (ft_filters s) [(''sort'', Some (FText srt))]\<rparr>"

definition set_page :: "rat \<Rightarrow> filters_store \<Rightarrow> filters_store" where
  "set_page n s = s\<lparr>ft_filters := merge_filters (ft_filters s) [(''page'', Some (FNumber n))]\<rparr>"

definition set_limit :: "rat \<Rightarrow> filters_store \<Rightarrow> filters_store" where
  "set_limit n s = s\<lparr>ft_filters := with_page_reset (ft_filters s) [(''limit'', Some (FNumber n))]\<rparr>"

definition set_layout :: "list_layout \<Rightarrow> filters_store \<Rightarrow> filters_store" where
  "set_layout l s = s\<lparr>ft_layout := l\<rparr>"

definition clear_filter :: "string \<Rightarrow> filters_store \<Rightarrow> filters_store" where
  "clear_filter k s = s\<lparr>ft_filters := with_page_reset (ft_filters s) [(k, None)]\<rparr>"

definition reset_filters :: "filters_store \<Rightarrow> filters_store" where
  "reset_filters s = s\<lparr>ft_filters := initial_filters, ft_draft := initial_filters\<rparr>"

definition open_draft :: "filters_store \<Rightarrow> filters_store" where
  "open_draft s = s\<lparr>ft_draft := ft_filters s\<rparr>"

definition patch_draft :: "patch \<Rightarrow> filters_store \<Rightarrow> filters_store" where
  "patch_draft patch s = s\<lparr>ft_draft := merge_filters (ft_draft s) patch\<rparr>"

definition reset_draft :: "filters_store \<Rightarrow> filters_store" where
  "reset_draft s = s\<lparr>ft_draft := initial_filters\<rparr>"

definition apply_draft :: "filters_store \<Rightarrow> filters_store" where
  "apply_draft s = s\<lparr>ft_filters := merge_filters (ft_draft s) [(''page'', Some (FNumber 1))]\<rparr>"

definition parsed_filters :: "string \<Rightarrow> filters" where
  "parsed_filters query = merge_filters initial_filters (patch_of (deserialize_filters query))"

definition sync_from_query_string :: "string \<Rightarrow> filters_store \<Rightarrow> filters_store" where
  "sync_from_query_string query s =
     (let parsed = parsed_filters query
      in if filters_equal parsed (ft_filters s) then s else s\<lparr>ft_filters := parsed, ft_draft := parsed\<rparr>)"

definition to_query_string :: "filters_store \<Rightarrow> string" where
  "to_query_string s = serialize_filters (ft_filters s)"

definition to_href :: "string \<Rightarrow> filters_store \<Rightarrow> string" where
  "to_href pathname s = filters_to_href (ft_filters s) pathname"

definition active_count :: "filters_store \<Rightarrow> nat" where
  "active_count s = count_active_filters (ft_filters s)"

datatype filters_action =
    SetFilters filters | PatchFilters patch | SetFilter string "filter_value option" | ToggleArrayFilter string string
  | ToggleNumberFilter string rat | SetPriceRange "rat option" "rat option" | SetAreaRange "rat option" "rat option"
  | SetSort string | SetPage rat | SetLimit rat | SetLayout list_layout | ClearFilter string | ResetFilters
  | OpenDraft | PatchDraft patch | ResetDraft | ApplyDraft | SyncFromQueryString string

fun filters_step :: "filters_action \<Rightarrow> filters_store \<Rightarrow> filters_store" where
  "filters_step (SetFilters f) = set_filters f"
| "filters_step (PatchFilters p) = patch_filters p"
| "filters_step (SetFilter k v) = set_filter k v"
| "filters_step (ToggleArrayFilter k v) = toggle_array_filter k v"
| "filters_step (ToggleNumberFilter k n) = toggle_number_filter k n"
| "filters_step (SetPriceRange low high) = set_price_range low high"
| "filters_step (SetAreaRange low high) = set_area_range low high"
| "filters_step (SetSort srt) = set_sort srt"
| "filters_step (SetPage n) = set_page n"
| "filters_step (SetLimit n) = set_limit n"
| "filters_step (SetLayout l) = set_layout l"
| "filters_step (ClearFilter k) = clear_filter k"
| "filters_step ResetFilters = reset_filters"
| "filters_step OpenDraft = open_draft"
| "filters_step (PatchDraft p) = patch_draft p"
| "filters_step ResetDraft = reset_draft"
| "filters_step ApplyDraft = apply_draft"
| "filters_step (SyncFromQueryString query) = sync_from_query_string query"

end
