(* ===== verification/Web_Filters_Laws.thy ===== *)
theory Web_Filters_Laws
  imports Web_Filters Identifiers
begin

text \<open>
  What the filters promise: what is written into a URL is read back, the store and its URL agree, and a changed search
  starts at its first page.
\<close>

section \<open>Lookup\<close>

lemma fold_assign_lookup:
  "distinct (map fst xs) \<Longrightarrow>
     fold assign_field xs f k = (case map_of xs k of Some (Some v) \<Rightarrow> Some v | _ \<Rightarrow> f k)"
proof (induction xs arbitrary: f)
  case (Cons x xs)
  obtain j v where x: "x = (j, v)" by force
  have "map_of xs j = None" using Cons.prems x by (simp add: map_of_eq_None_iff)
  then show ?case using Cons x by (auto simp: assign_field_def split: option.split)
qed simp

lemma map_fst_read_fields: "map fst (read_fields params) =
   [''q'', ''propertyType'', ''saleType'', ''status'', ''finishing'', ''minPrice'', ''maxPrice'', ''minArea'', ''maxArea'', ''bedrooms'',
    ''bathrooms'', ''areaId'', ''compoundId'', ''developerId'', ''amenities'', ''deliveryBefore'', ''maxDownPayment'',
    ''minInstallmentYears'', ''lat'', ''lng'', ''radiusKm'', ''sort'', ''page'', ''limit'']"
  by (simp add: read_fields_def Let_def)

lemma deserialize_params_lookup:
  "deserialize_params params k = (case map_of (read_fields params) k of Some v \<Rightarrow> v | None \<Rightarrow> None)"
proof -
  have "distinct (map fst (read_fields params))" unfolding map_fst_read_fields by simp
  then show ?thesis
    by (simp add: deserialize_params_def fold_assign_lookup empty_filters_def split: option.split)
qed

lemma deserialize_params_absent: "k \<notin> set filter_keys \<Longrightarrow> deserialize_params params k = None"
proof -
  assume "k \<notin> set filter_keys"
  then have "k \<notin> set (map fst (read_fields params))" unfolding map_fst_read_fields filter_keys_def by auto
  then show ?thesis by (simp add: deserialize_params_lookup map_of_eq_None_iff [THEN iffD2])
qed

definition located :: "(string \<times> string) list \<Rightarrow> bool" where
  "located params \<longleftrightarrow> read_number params ''lat'' \<noteq> None \<and> read_number params ''lng'' \<noteq> None"

lemma deserialize_simps:
  "deserialize_params ps ''q'' = field_query ps ''q''"
  "deserialize_params ps ''propertyType'' = field_texts web_is_property_type ps ''propertyType''"
  "deserialize_params ps ''saleType'' = field_text web_is_sale_type ps ''saleType''"
  "deserialize_params ps ''status'' = field_text web_is_property_status ps ''status''"
  "deserialize_params ps ''finishing'' = field_texts web_is_finishing ps ''finishing''"
  "deserialize_params ps ''minPrice'' = field_number ps ''minPrice''"
  "deserialize_params ps ''maxPrice'' = field_number ps ''maxPrice''"
  "deserialize_params ps ''minArea'' = field_number ps ''minArea''"
  "deserialize_params ps ''maxArea'' = field_number ps ''maxArea''"
  "deserialize_params ps ''bedrooms'' = field_numbers ps ''bedrooms''"
  "deserialize_params ps ''bathrooms'' = field_numbers ps ''bathrooms''"
  "deserialize_params ps ''areaId'' = field_texts (\<lambda>_. True) ps ''areaId''"
  "deserialize_params ps ''compoundId'' = field_texts (\<lambda>_. True) ps ''compoundId''"
  "deserialize_params ps ''developerId'' = field_texts (\<lambda>_. True) ps ''developerId''"
  "deserialize_params ps ''amenities'' = field_texts (\<lambda>_. True) ps ''amenities''"
  "deserialize_params ps ''deliveryBefore'' = field_text (\<lambda>_. True) ps ''deliveryBefore''"
  "deserialize_params ps ''maxDownPayment'' = field_number ps ''maxDownPayment''"
  "deserialize_params ps ''minInstallmentYears'' = field_number ps ''minInstallmentYears''"
  "deserialize_params ps ''lat'' = (if located ps then field_number ps ''lat'' else None)"
  "deserialize_params ps ''lng'' = (if located ps then field_number ps ''lng'' else None)"
  "deserialize_params ps ''radiusKm'' = (if located ps then field_number ps ''radiusKm'' else None)"
  "deserialize_params ps ''sort'' = field_text web_is_search_sort ps ''sort''"
  "deserialize_params ps ''page'' = (case read_number ps ''page'' of
     Some r \<Rightarrow> if 1 < r then Some (FNumber (of_int (floor r))) else None | None \<Rightarrow> None)"
  "deserialize_params ps ''limit'' = (case read_number ps ''limit'' of
     Some r \<Rightarrow> if r \<noteq> default_page_limit then Some (FNumber (of_int (floor r))) else None | None \<Rightarrow> None)"
  by (simp_all add: deserialize_params_lookup read_fields_def located_def Let_def)

section \<open>What a written field is read as\<close>

lemma get_all_pairs:
  "distinct ks \<Longrightarrow> get_all (concat (map (\<lambda>k. map (Pair k) (g k)) ks)) k = (if k \<in> set ks then g k else [])"
proof (induction ks)
  case (Cons j ks)
  have "get_all (map (Pair j) vs) k = (if k = j then vs else [])" for vs :: "string list"
    by (induction vs) (auto simp: get_all_def)
  moreover have "get_all (ps @ qs) k = get_all ps k @ get_all qs k" for ps qs by (simp add: get_all_def)
  ultimately show ?case using Cons by auto
qed (simp add: get_all_def)

lemma distinct_filter_keys: "distinct filter_keys"
  by (simp add: filter_keys_def)

lemma get_all_filter_pairs: "k \<in> set filter_keys \<Longrightarrow> get_all (filter_pairs f) k = value_texts (f k)"
  using get_all_pairs [OF distinct_filter_keys, of "\<lambda>k. value_texts (f k)" k] by (simp add: filter_pairs_def)

text \<open>The values each kind of field may have, so that they are read back.\<close>

fun good_number :: "filter_value option \<Rightarrow> bool" where
  "good_number None = True"
| "good_number (Some (FNumber r)) = plain_number r"
| "good_number (Some v) = False"

fun good_numbers :: "filter_value option \<Rightarrow> bool" where
  "good_numbers None = True"
| "good_numbers (Some (FNumbers rs)) = (rs \<noteq> [] \<and> distinct rs \<and> list_all plain_number rs)"
| "good_numbers (Some v) = False"

fun good_query :: "filter_value option \<Rightarrow> bool" where
  "good_query None = True"
| "good_query (Some (FText s)) = (s \<noteq> [] \<and> trim s = s)"
| "good_query (Some v) = False"

fun good_text :: "(string \<Rightarrow> bool) \<Rightarrow> filter_value option \<Rightarrow> bool" where
  "good_text ok None = True"
| "good_text ok (Some (FText s)) = (s \<noteq> [] \<and> ok s)"
| "good_text ok (Some v) = False"

definition good_entry :: "(string \<Rightarrow> bool) \<Rightarrow> string \<Rightarrow> bool" where
  "good_entry ok s \<longleftrightarrow> s \<noteq> [] \<and> trim s = s \<and> CHR '','' \<notin> set s \<and> ok s"

fun good_texts :: "(string \<Rightarrow> bool) \<Rightarrow> filter_value option \<Rightarrow> bool" where
  "good_texts ok None = True"
| "good_texts ok (Some (FTexts ss)) = (ss \<noteq> [] \<and> distinct ss \<and> list_all (good_entry ok) ss)"
| "good_texts ok (Some v) = False"

fun good_count :: "(rat \<Rightarrow> bool) \<Rightarrow> filter_value option \<Rightarrow> bool" where
  "good_count ok None = True"
| "good_count ok (Some (FNumber r)) = (of_int (floor r) = r \<and> ok r)"
| "good_count ok (Some v) = False"

lemma plain_integer: "of_int (floor r) = r \<Longrightarrow> plain_number r"
  unfolding plain_number_def by (metis floor_of_int of_int_mult of_int_numeral of_int_power)

lemma get_first_texts: "get_all ps k = vs \<Longrightarrow> get_first ps k = (case vs of [] \<Rightarrow> None | v # _ \<Rightarrow> Some v)"
  by (simp add: get_first_def)

lemma read_number_text:
  "get_all ps k = value_texts v \<Longrightarrow> good_number v \<Longrightarrow>
     read_number ps k = (case v of Some (FNumber r) \<Rightarrow> Some r | _ \<Rightarrow> None)"
  unfolding read_number_def by (cases v rule: value_texts.cases) (simp_all add: get_first_texts js_number_text number_text_solid)

lemma field_number_text: "get_all ps k = value_texts v \<Longrightarrow> good_number v \<Longrightarrow> field_number ps k = v"
  using read_number_text [of ps k v] by (cases v rule: value_texts.cases) (simp_all add: field_number_def)

lemma field_query_text: "get_all ps k = value_texts v \<Longrightarrow> good_query v \<Longrightarrow> field_query ps k = v"
  by (cases v rule: value_texts.cases) (simp_all add: field_query_def get_first_def)

lemma field_text_text: "get_all ps k = value_texts v \<Longrightarrow> good_text ok v \<Longrightarrow> field_text ok ps k = v"
  by (cases v rule: value_texts.cases) (simp_all add: field_text_def get_first_def)

lemma parts_whole:
  "\<forall>s\<in>set ss. trim s = s \<and> CHR '','' \<notin> set s \<Longrightarrow> map trim (concat (map (split_on CHR '','') ss)) = ss"
  by (induction ss) (simp_all add: split_on_no_sep)

lemma field_texts_text:
  assumes "get_all ps k = value_texts v" and "good_texts ok v"
  shows "field_texts ok ps k = v"
proof (cases v rule: value_texts.cases)
  case (4 ss)
  then have ss: "ss \<noteq> []" "distinct ss" "\<forall>s\<in>set ss. good_entry ok s" using assms(2) by (auto simp: list_all_iff)
  have "list_parts ps k = ss"
    using assms(1) 4 ss(3) parts_whole [of ss] by (simp add: list_parts_def good_entry_def)
  moreover have "filter (\<lambda>s. s \<noteq> []) ss = ss" "filter ok ss = ss"
    using ss(3) by (auto simp: filter_id_conv good_entry_def)
  ultimately show ?thesis using ss 4 by (simp add: field_texts_def read_string_list_def split: list.split)
qed (use assms in \<open>simp_all add: field_texts_def read_string_list_def list_parts_def split: list.split\<close>)

lemma field_numbers_text:
  assumes "get_all ps k = value_texts v" and "good_numbers v"
  shows "field_numbers ps k = v"
proof (cases v rule: value_texts.cases)
  case (5 rs)
  then have rs: "rs \<noteq> []" "distinct rs" "\<forall>r\<in>set rs. plain_number r" using assms(2) by (auto simp: list_all_iff)
  have "list_parts ps k = map number_text rs"
    using assms(1) 5 parts_whole [of "map number_text rs"] by (simp add: list_parts_def number_text_solid)
  moreover have "concat (map (finite_part \<circ> js_number) (map number_text rs)) = rs"
    using rs(3) by (induction rs) (simp_all add: js_number_text)
  ultimately show ?thesis using rs 5 by (simp add: field_numbers_def read_number_list_def split: list.split)
qed (use assms in \<open>simp_all add: field_numbers_def read_number_list_def list_parts_def split: list.split\<close>)

lemma good_count_number: "good_count ok v \<Longrightarrow> good_number v"
  by (cases v rule: value_texts.cases) (auto intro: plain_integer)

section \<open>Filters that survive a URL\<close>

text \<open>Every field but the page and the limit, which have defaults of their own.\<close>

definition good_fields :: "filters \<Rightarrow> bool" where
  "good_fields f \<longleftrightarrow>
     good_query (f ''q'') \<and> good_texts web_is_property_type (f ''propertyType'') \<and>
     good_text web_is_sale_type (f ''saleType'') \<and> good_text web_is_property_status (f ''status'') \<and>
     good_texts web_is_finishing (f ''finishing'') \<and>
     list_all (\<lambda>k. good_number (f k))
       [''minPrice'', ''maxPrice'', ''minArea'', ''maxArea'', ''maxDownPayment'', ''minInstallmentYears'', ''lat'', ''lng'', ''radiusKm''] \<and>
     good_numbers (f ''bedrooms'') \<and> good_numbers (f ''bathrooms'') \<and>
     list_all (\<lambda>k. good_texts (\<lambda>_. True) (f k)) [''areaId'', ''compoundId'', ''developerId'', ''amenities''] \<and>
     good_text (\<lambda>_. True) (f ''deliveryBefore'') \<and> good_text web_is_search_sort (f ''sort'') \<and>
     (f ''lat'' = None \<longleftrightarrow> f ''lng'' = None) \<and> (f ''lat'' = None \<longrightarrow> f ''radiusKm'' = None) \<and>
     (\<forall>k. k \<notin> set filter_keys \<longrightarrow> f k = None)"

definition canonical_filters :: "filters \<Rightarrow> bool" where
  "canonical_filters f \<longleftrightarrow>
     good_fields f \<and> good_count (\<lambda>r. 1 < r) (f ''page'') \<and> good_count (\<lambda>r. r \<noteq> default_page_limit) (f ''limit'')"

lemma key_in: "k \<in> set filter_keys \<Longrightarrow> get_all (filter_pairs f) k = value_texts (f k)"
  by (rule get_all_filter_pairs)

lemma read_pairs:
  assumes "k \<in> set filter_keys"
  shows "good_number (f k) \<Longrightarrow> field_number (filter_pairs f) k = f k"
    "good_numbers (f k) \<Longrightarrow> field_numbers (filter_pairs f) k = f k"
    "good_query (f k) \<Longrightarrow> field_query (filter_pairs f) k = f k"
    "good_text ok (f k) \<Longrightarrow> field_text ok (filter_pairs f) k = f k"
    "good_texts ok (f k) \<Longrightarrow> field_texts ok (filter_pairs f) k = f k"
    "good_number (f k) \<Longrightarrow> read_number (filter_pairs f) k = (case f k of Some (FNumber r) \<Rightarrow> Some r | _ \<Rightarrow> None)"
  using get_all_filter_pairs [OF assms, of f]
  by (auto intro: field_number_text field_numbers_text field_query_text field_text_text field_texts_text read_number_text)

lemma in_filter_keys:
  "''q'' \<in> set filter_keys" "''saleType'' \<in> set filter_keys" "''propertyType'' \<in> set filter_keys"
  "''areaId'' \<in> set filter_keys" "''compoundId'' \<in> set filter_keys" "''developerId'' \<in> set filter_keys"
  "''minPrice'' \<in> set filter_keys" "''maxPrice'' \<in> set filter_keys" "''bedrooms'' \<in> set filter_keys"
  "''bathrooms'' \<in> set filter_keys" "''minArea'' \<in> set filter_keys" "''maxArea'' \<in> set filter_keys"
  "''finishing'' \<in> set filter_keys" "''status'' \<in> set filter_keys" "''amenities'' \<in> set filter_keys"
  "''deliveryBefore'' \<in> set filter_keys" "''maxDownPayment'' \<in> set filter_keys"
  "''minInstallmentYears'' \<in> set filter_keys" "''lat'' \<in> set filter_keys" "''lng'' \<in> set filter_keys"
  "''radiusKm'' \<in> set filter_keys" "''sort'' \<in> set filter_keys" "''page'' \<in> set filter_keys" "''limit'' \<in> set filter_keys"
  by (simp_all add: filter_keys_def)

lemma good_number_None: "good_number v \<Longrightarrow> (case v of Some (FNumber r) \<Rightarrow> Some r | _ \<Rightarrow> None) = None \<longleftrightarrow> v = None"
  by (cases v rule: value_texts.cases) auto

lemma good_fields_read:
  assumes "good_fields f" and "k \<notin> {''page'', ''limit''}"
  shows "deserialize_params (filter_pairs f) k = f k"
proof (cases "k \<in> set filter_keys")
  case True
  note g = assms(1) [unfolded good_fields_def list.pred_inject]
  have "located (filter_pairs f) \<longleftrightarrow> f ''lat'' \<noteq> None \<and> f ''lng'' \<noteq> None"
    using g by (simp add: located_def read_pairs in_filter_keys good_number_None)
  then show ?thesis
    using True [unfolded filter_keys_def, simplified] assms(2) g
    by (elim disjE; cases "f ''lat''"; simp add: deserialize_simps read_pairs in_filter_keys)
next
  case False
  then show ?thesis using assms(1) by (simp add: deserialize_params_absent good_fields_def)
qed

lemma good_page_read:
  assumes "good_number (f ''page'')" and "good_number (f ''limit'')"
  shows "deserialize_params (filter_pairs f) ''page'' = (case f ''page'' of
      Some (FNumber r) \<Rightarrow> if 1 < r then Some (FNumber (of_int (floor r))) else None | _ \<Rightarrow> None)"
    "deserialize_params (filter_pairs f) ''limit'' = (case f ''limit'' of
      Some (FNumber r) \<Rightarrow> if r \<noteq> default_page_limit then Some (FNumber (of_int (floor r))) else None | _ \<Rightarrow> None)"
  using assms by (simp_all add: deserialize_simps read_pairs in_filter_keys split: option.splits filter_value.splits)

lemma serialize_deserialize: "deserialize_filters (serialize_filters f) = deserialize_params (filter_pairs f)"
  by (simp add: deserialize_filters_def serialize_filters_def form_decode_encode)

lemma canonical_read:
  assumes "canonical_filters f"
  shows "deserialize_filters (serialize_filters f) = f"
proof
  fix k
  have g: "good_fields f" and c: "good_count (\<lambda>r. 1 < r) (f ''page'')" "good_count (\<lambda>r. r \<noteq> default_page_limit) (f ''limit'')"
    using assms by (simp_all add: canonical_filters_def)
  note p = good_page_read [OF good_count_number [OF c(1)] good_count_number [OF c(2)]]
  show "deserialize_filters (serialize_filters f) k = f k"
  proof (cases "k \<in> {''page'', ''limit''}")
    case True
    then show ?thesis using c
      by (cases "f ''page''" rule: value_texts.cases; cases "f ''limit''" rule: value_texts.cases)
        (auto simp: serialize_deserialize p)
  next
    case False
    then show ?thesis using good_fields_read [OF g] by (simp add: serialize_deserialize)
  qed
qed

section \<open>What a query string is read as\<close>

fun plain_value :: "filter_value option \<Rightarrow> bool" where
  "plain_value (Some (FNumber r)) = plain_number r"
| "plain_value (Some (FNumbers rs)) = list_all plain_number rs"
| "plain_value v = True"

lemma field_number_good: "plain_value (field_number ps k) \<Longrightarrow> good_number (field_number ps k)"
  by (cases "read_number ps k") (simp_all add: field_number_def)

lemma field_numbers_good: "plain_value (field_numbers ps k) \<Longrightarrow> good_numbers (field_numbers ps k)"
proof -
  have "distinct (read_number_list ps k)" by (simp add: read_number_list_def)
  then show "plain_value (field_numbers ps k) \<Longrightarrow> good_numbers (field_numbers ps k)"
    by (cases "read_number_list ps k") (simp_all add: field_numbers_def)
qed

lemma field_number_None: "field_number ps k = None \<longleftrightarrow> read_number ps k = None"
  by (simp add: field_number_def)

lemma field_query_good: "good_query (field_query ps k)"
  by (simp add: field_query_def split: option.split)

lemma field_text_good: "good_text ok (field_text ok ps k)"
  by (simp add: field_text_def split: option.split)

lemma list_part: "s \<in> set (list_parts ps k) \<Longrightarrow> trim s = s \<and> CHR '','' \<notin> set s"
  using set_trim split_on_no_slash by (fastforce simp: list_parts_def)

lemma field_texts_good: "good_texts ok (field_texts ok ps k)"
proof -
  let ?ss = "filter ok (read_string_list ps k)"
  have "distinct ?ss" by (simp add: read_string_list_def)
  moreover have "list_all (good_entry ok) ?ss"
    using list_part [of _ ps k] by (auto simp: list_all_iff good_entry_def read_string_list_def)
  ultimately show ?thesis by (cases ?ss) (simp_all add: field_texts_def)
qed

lemma deserialize_good:
  assumes "\<forall>k\<in>set filter_keys. plain_value (deserialize_params ps k)"
  shows "good_fields (deserialize_params ps)"
proof -
  let ?f = "deserialize_params ps"
  note plain = assms [unfolded filter_keys_def, simplified deserialize_simps list.set ball_simps]
  have "located ps \<Longrightarrow> field_number ps ''lat'' \<noteq> None \<and> field_number ps ''lng'' \<noteq> None"
    by (simp add: located_def field_number_None)
  then show ?thesis using plain
    by (cases "located ps") (auto simp add: good_fields_def deserialize_simps field_number_good field_numbers_good field_query_good field_text_good
        field_texts_good deserialize_params_absent)
qed

section \<open>The store and its URL\<close>

lemma fold_patch:
  "fold (\<lambda>(k, v) f. f(k := v)) (map (\<lambda>k. (k, d k)) ks) b k = (if k \<in> set ks then d k else b k)"
  by (induction ks arbitrary: b) auto

lemma merge_patch_of:
  assumes "\<And>k. k \<notin> set filter_keys \<Longrightarrow> d k = None"
  shows "merge_filters b (patch_of d) k =
    (let v = (case d k of None \<Rightarrow> b k | Some x \<Rightarrow> Some x) in if emptied v then None else v)"
proof -
  have "patched b (patch_of d) k = (case d k of None \<Rightarrow> b k | Some x \<Rightarrow> Some x)"
    using assms [of k] by (auto simp: patched_def patch_of_def fold_patch split: option.split)
  then show ?thesis by (simp add: merge_filters_def Let_def)
qed

lemma initial_absent: "k \<noteq> ''sort'' \<Longrightarrow> k \<noteq> ''page'' \<Longrightarrow> k \<noteq> ''limit'' \<Longrightarrow> initial_filters k = None"
  by (simp add: initial_filters_def)

lemma initial_lookup: "initial_filters ''sort'' = Some (FText relevance_sort)" "initial_filters ''page'' = Some (FNumber 1)"
  "initial_filters ''limit'' = Some (FNumber default_page_limit)"
  by (simp_all add: initial_filters_def)

text \<open>What the store holds after it has read a URL.\<close>

definition url_state :: "filters \<Rightarrow> bool" where
  "url_state p \<longleftrightarrow> good_fields p \<and> p ''sort'' \<noteq> None \<and>
     p ''page'' \<noteq> None \<and> good_count (\<lambda>r. 1 \<le> r) (p ''page'') \<and>
     p ''limit'' \<noteq> None \<and> good_count (\<lambda>_. True) (p ''limit'')"

lemma good_not_emptied:
  "good_number v \<Longrightarrow> v \<noteq> None \<Longrightarrow> \<not> emptied v" "good_numbers v \<Longrightarrow> v \<noteq> None \<Longrightarrow> \<not> emptied v"
  "good_query v \<Longrightarrow> v \<noteq> None \<Longrightarrow> \<not> emptied v" "good_text ok v \<Longrightarrow> v \<noteq> None \<Longrightarrow> \<not> emptied v"
  "good_texts ok v \<Longrightarrow> v \<noteq> None \<Longrightarrow> \<not> emptied v" "good_count c v \<Longrightarrow> v \<noteq> None \<Longrightarrow> \<not> emptied v"
  by (cases v rule: value_texts.cases; simp)+

lemma good_fields_settled:
  assumes "good_fields f" and "good_number (f ''page'')" and "good_number (f ''limit'')"
  shows "f k = None \<or> \<not> emptied (f k)"
proof (cases "k \<in> set filter_keys")
  case True
  note g = assms(1) [unfolded good_fields_def list.pred_inject]
  show ?thesis
    using True [unfolded filter_keys_def, simplified] g assms(2,3)
    by (elim disjE; cases "f k"; simp; metis good_not_emptied option.distinct(1))
qed (use assms(1) in \<open>simp add: good_fields_def\<close>)

lemma page_read_good:
  "good_count (\<lambda>r. 1 \<le> r) (deserialize_params ps ''page'')" "good_count (\<lambda>_. True) (deserialize_params ps ''limit'')"
  by (simp_all add: deserialize_simps le_floor_iff split: option.split)

lemma merged_read:
  assumes "good_fields (deserialize_params ps)"
  shows "merge_filters initial_filters (patch_of (deserialize_params ps)) k =
    (case deserialize_params ps k of None \<Rightarrow> initial_filters k | Some v \<Rightarrow> Some v)"
proof -
  let ?d = "deserialize_params ps"
  have "?d k = None \<or> \<not> emptied (?d k)"
    using good_fields_settled [OF assms] page_read_good good_count_number by blast
  moreover have "initial_filters k = None \<or> \<not> emptied (initial_filters k)"
    by (simp add: initial_filters_def relevance_sort_def)
  ultimately show ?thesis
    by (auto simp: merge_patch_of [OF deserialize_params_absent] Let_def split: option.split)
qed

lemma good_fields_with_defaults:
  assumes "good_fields d" and "good_text web_is_search_sort s"
  shows "good_fields (d(''sort'' := s, ''page'' := p, ''limit'' := l))"
  using assms by (simp add: good_fields_def filter_keys_def)

lemma parsed_url_state:
  assumes "\<forall>k\<in>set filter_keys. plain_value (deserialize_filters query k)"
  shows "url_state (parsed_filters query)"
proof -
  define ps where "ps = form_decode query"
  let ?d = "deserialize_params ps" and ?p = "merge_filters initial_filters (patch_of (deserialize_params ps))"
  have plain: "\<forall>k\<in>set filter_keys. plain_value (?d k)" using assms by (simp add: deserialize_filters_def ps_def)
  note m = merged_read [OF deserialize_good [OF plain]]
  have "?p = ?d(''sort'' := ?p ''sort'', ''page'' := ?p ''page'', ''limit'' := ?p ''limit'')"
    by (rule ext) (auto simp: m initial_absent split: option.split)
  moreover have "good_text web_is_search_sort (?p ''sort'')"
    using field_text_good [of web_is_search_sort ps "''sort''"]
    by (cases "field_text web_is_search_sort ps ''sort''")
      (simp_all add: m initial_lookup deserialize_simps relevance_sort_def web_is_search_sort_def SEARCH_SORTS_def)
  ultimately have "good_fields ?p" using good_fields_with_defaults [OF deserialize_good [OF plain]] by metis
  moreover have "?p ''sort'' \<noteq> None" "?p ''page'' \<noteq> None" "?p ''limit'' \<noteq> None"
    by (simp_all add: m initial_lookup split: option.split)
  moreover have "good_count (\<lambda>r. 1 \<le> r) (?p ''page'')" "good_count (\<lambda>_. True) (?p ''limit'')"
    using page_read_good [of ps]
    by (cases "?d ''page''"; cases "?d ''limit''"; simp add: m initial_lookup default_page_limit_def)+
  ultimately show ?thesis by (simp add: url_state_def parsed_filters_def deserialize_filters_def flip: ps_def)
qed

lemma url_state_read:
  assumes "url_state p"
  shows "parsed_filters (serialize_filters p) = p"
proof
  fix k
  have g: "good_fields p" "good_number (p ''page'')" "good_number (p ''limit'')"
    using assms good_count_number by (auto simp: url_state_def)
  note page = good_page_read [OF g(2,3)]
  let ?d = "deserialize_params (filter_pairs p)"
  have "?d = p(''sort'' := p ''sort'', ''page'' := ?d ''page'', ''limit'' := ?d ''limit'')"
    by (rule ext) (simp add: good_fields_read [OF g(1)])
  moreover have "good_text web_is_search_sort (p ''sort'')" using g(1) by (simp add: good_fields_def)
  ultimately have "good_fields ?d" using good_fields_with_defaults [OF g(1)] by metis
  note m = merged_read [OF this]
  obtain r where r: "p ''page'' = Some (FNumber r)" "of_int (floor r) = r" "1 \<le> r"
    using assms by (cases "p ''page''" rule: value_texts.cases) (auto simp: url_state_def)
  obtain n where n: "p ''limit'' = Some (FNumber n)" "of_int (floor n) = n"
    using assms by (cases "p ''limit''" rule: value_texts.cases) (auto simp: url_state_def)
  obtain t where t: "p ''sort'' = Some t" using assms by (auto simp: url_state_def)
  have "merge_filters initial_filters (patch_of ?d) k = p k"
  proof (cases "k \<in> {''page'', ''limit''}")
    case True
    then show ?thesis using r n by (auto simp: m page initial_lookup)
  next
    case False
    then show ?thesis using t by (cases "k = ''sort''") (auto simp: m good_fields_read [OF g(1)] initial_absent split: option.split)
  qed
  then show "parsed_filters (serialize_filters p) k = p k" by (simp add: parsed_filters_def serialize_deserialize)
qed

section \<open>A changed search starts at its first page\<close>

text \<open>A patch that names a field other than the page sets the page to 1, and each field it names to its value.\<close>

lemma patched_append: "patched b (p @ q) = patched (patched b p) q"
  by (simp add: patched_def)

lemma with_page_reset_lookup:
  assumes "\<exists>k\<in>fst ` set patch. k \<noteq> ''page''"
  shows "with_page_reset f patch k =
    (if k = ''page'' then Some (FNumber 1)
     else let v = patched f patch k in if emptied v then None else v)"
proof -
  have "list_ex (\<lambda>(k, _). k \<noteq> ''page'') patch" using assms by (force simp: list_ex_iff)
  then show ?thesis
    by (simp add: with_page_reset_def merge_filters_def patched_append Let_def) (simp add: patched_def)
qed

definition no_emptied :: "filters \<Rightarrow> bool" where
  "no_emptied f \<longleftrightarrow> (\<forall>k. f k = None \<or> \<not> emptied (f k))"

lemma merge_no_emptied: "no_emptied (merge_filters f patch)"
  by (simp add: no_emptied_def merge_filters_def Let_def)

lemma initial_no_emptied: "no_emptied initial_filters"
  by (simp add: no_emptied_def initial_filters_def relevance_sort_def)

lemmas filters_actions =
  set_filters_def patch_filters_def set_filter_def toggle_array_filter_def toggle_number_filter_def set_price_range_def
  set_area_range_def set_sort_def set_page_def set_limit_def set_layout_def clear_filter_def reset_filters_def
  open_draft_def patch_draft_def reset_draft_def apply_draft_def sync_from_query_string_def parsed_filters_def
  with_page_reset_def

interpretation search: state_container initial_filters_store filters_step "\<lambda>_. True"
  "\<lambda>s. no_emptied (ft_filters s) \<and> no_emptied (ft_draft s)"
proof unfold_locales
  fix a and s :: filters_store assume "no_emptied (ft_filters s) \<and> no_emptied (ft_draft s)"
  then show "no_emptied (ft_filters (filters_step a s)) \<and> no_emptied (ft_draft (filters_step a s))"
    by (cases a) (simp_all add: filters_actions merge_no_emptied initial_no_emptied Let_def)
qed (simp add: initial_filters_store_def initial_no_emptied)

text \<open>The store never holds an emptied field, over any sequence of actions.\<close>

lemma filters_never_emptied:
  "ft_filters (fold filters_step actions initial_filters_store) k = None \<or>
     \<not> emptied (ft_filters (fold filters_step actions initial_filters_store) k)"
  using search.inv_run [of actions] by (auto simp: no_emptied_def)

section \<open>The properties\<close>

text \<open>
  C8: What is written into a URL is read back: filters whose values are of the kinds the fields have, without what is a
  default anyway, come out of the query string as they went in, every value of every list in its place.
\<close>

theorem filters_survive_url:
  assumes "canonical_filters f"
  shows "deserialize_filters (serialize_filters f) = f"
  using assms by (rule canonical_read)

definition demo_filters :: filters where
  "demo_filters =
     [''q'' \<mapsto> FText ''new cairo'', ''saleType'' \<mapsto> FText ''primary'', ''propertyType'' \<mapsto> FTexts [''apartment'', ''villa''],
      ''minPrice'' \<mapsto> FNumber 3000000, ''bedrooms'' \<mapsto> FNumbers [3, 4], ''areaId'' \<mapsto> FTexts [''a&b=c''],
      ''lat'' \<mapsto> FNumber (61 / 2), ''lng'' \<mapsto> FNumber (- 5 / 4), ''sort'' \<mapsto> FText ''price_asc'', ''page'' \<mapsto> FNumber 2]"

lemma demo_canonical: "canonical_filters demo_filters"
proof -
  have "plain_number 3000000" "plain_number 3" "plain_number 4" by (rule plain_integer; simp)+
  moreover have "plain_number (61 / 2)" "plain_number (- 5 / 4)" by (simp_all add: plain_number_def)
  ultimately show ?thesis
    by (simp add: canonical_filters_def good_fields_def demo_filters_def good_entry_def filter_keys_def
        web_is_property_type_def web_is_sale_type_def web_is_search_sort_def WEB_PROPERTY_TYPES_def WEB_SALE_TYPES_def
        SEARCH_SORTS_def trim_def trim_start_def trim_end_def js_space_def)
qed

lemma filters_survive_url_witness: "deserialize_filters (serialize_filters demo_filters) = demo_filters"
  by (rule filters_survive_url [OF demo_canonical])

text \<open>
  C10: The URL drives the store. After the store has read a query string whose numbers are plain decimals, it shows the
  filters of that query over the defaults; the query string it writes is read without any change to the store; and every
  change of a filter other than the page starts at page 1.
\<close>

theorem url_drives_filters:
  assumes "\<forall>k\<in>set filter_keys. plain_value (deserialize_filters query k)"
  shows "let s' = sync_from_query_string query s in
    to_query_string s' = serialize_filters (parsed_filters query) \<and>
    sync_from_query_string (to_query_string s') s' = s' \<and>
    (k \<noteq> ''page'' \<longrightarrow> ft_filters (set_filter k v s') ''page'' = Some (FNumber 1) \<and>
      ft_filters (set_filter k v s') k = (if emptied v then None else v))"
proof -
  let ?s = "sync_from_query_string query s"
  have written: "to_query_string ?s = serialize_filters (parsed_filters query)"
    by (simp add: sync_from_query_string_def to_query_string_def filters_equal_def Let_def)
  have again: "parsed_filters (serialize_filters (parsed_filters query)) = parsed_filters query"
    using assms by (intro url_state_read parsed_url_state)
  have "sync_from_query_string (to_query_string ?s) ?s = ?s"
    unfolding written sync_from_query_string_def [of "serialize_filters (parsed_filters query)"]
    using written by (simp add: again filters_equal_def to_query_string_def Let_def)
  with written show ?thesis
    by (simp add: set_filter_def with_page_reset_lookup patched_def Let_def)
qed

lemma url_drives_filters_witness:
  "let s' = sync_from_query_string ''q=zayed&minPrice=2.5&bedrooms=3,4'' initial_filters_store in
    sync_from_query_string (to_query_string s') s' = s' \<and>
    ft_filters (set_filter ''status'' (Some (FText ''sold'')) s') ''page'' = Some (FNumber 1)"
proof -
  have "list_all (\<lambda>k. plain_value (deserialize_filters ''q=zayed&minPrice=2.5&bedrooms=3,4'' k)) filter_keys" by code_simp
  then have "\<forall>k\<in>set filter_keys. plain_value (deserialize_filters ''q=zayed&minPrice=2.5&bedrooms=3,4'' k)"
    by (simp add: list_all_iff)
  note drives = url_drives_filters [OF this, of initial_filters_store "''status''" "Some (FText ''sold'')"]
  have "''status'' \<noteq> ''page''" by simp
  with drives show ?thesis unfolding Let_def by blast
qed

end
