(* ===== verification/Web_Search.thy ===== *)
theory Web_Search
  imports Web_Filters_Laws
begin

text \<open>
  The search page (\<open>app/search/page.tsx\<close>, the URL effects of \<open>app/search/search-client.tsx\<close>) and what
  \<open>lib/queries.ts\<close> makes of the answers of the search service.
\<close>

section \<open>The query of a link\<close>

text \<open>The framework hands a page each parameter with all its values; the page writes them into one query string.\<close>

definition search_params :: "(string \<times> string) list \<Rightarrow> (string \<times> string list) list" where
  "search_params params = map (\<lambda>k. (k, get_all params k)) (js_unique (map fst params))"

definition initial_query :: "string \<Rightarrow> string" where
  "initial_query query =
     form_encode (concat (map (\<lambda>(k, vs). map (Pair k) vs) (search_params (form_decode query))))"

text \<open>\<open>Object.fromEntries\<close> of some pairs, as pairs again: a name stands once, with its last value.\<close>

definition from_entries :: "(string \<times> string) list \<Rightarrow> (string \<times> string) list" where
  "from_entries params = map (\<lambda>k. (k, last (get_all params k))) (js_unique (map fst params))"

section \<open>The effects of the page\<close>

text \<open>What the page last read from or wrote to the URL, the store, and the queries written with \<open>router.replace\<close>.\<close>

record search_page =
  sp_applied :: "string option"
  sp_store :: filters_store
  sp_replaced :: "string list"

definition seed_store :: "string \<Rightarrow> search_page \<Rightarrow> search_page" where
  "seed_store query s =
     (if sp_applied s \<noteq> None then s
      else s\<lparr>sp_applied := Some query,
             sp_store := set_filters (deserialize_params (from_entries (form_decode query))) (sp_store s)\<rparr>)"

text \<open>The effect sees the query string of the render it belongs to.\<close>

definition write_url :: "string \<Rightarrow> search_page \<Rightarrow> search_page" where
  "write_url next_query s =
     (if sp_applied s = None \<or> sp_applied s = Some next_query then s
      else s\<lparr>sp_applied := Some next_query, sp_replaced := sp_replaced s @ [next_query]\<rparr>)"

text \<open>
  The first render has the store as it was; both effects run after it, in their order. The store has changed by then, so the
  page renders once more, and the second effect runs again.
\<close>

definition open_search :: "string \<Rightarrow> search_page \<Rightarrow> search_page" where
  "open_search query s =
     (let first = to_query_string (sp_store s);
          s' = write_url first (seed_store query s)
      in write_url (to_query_string (sp_store s')) s')"

definition fresh_search :: search_page where
  "fresh_search = \<lparr>sp_applied = None, sp_store = initial_filters_store, sp_replaced = []\<rparr>"

text \<open>The links to the pages next to the current one.\<close>

definition page_window :: int where
  "page_window = 2"

definition page_links :: "int \<Rightarrow> int \<Rightarrow> int list" where
  "page_links current total_pages =
     (if total_pages \<le> 1 then []
      else
        let first = max 1 (current - page_window); final = min total_pages (current + page_window)
        in map (\<lambda>i. first + int i) [0..<nat (final - first + 1)])"

section \<open>The answers of the search service\<close>

record page_meta =
  pm_page :: rat
  pm_limit :: rat
  pm_total :: rat
  pm_total_pages :: rat

definition meta_for :: "rat \<Rightarrow> rat \<Rightarrow> rat \<Rightarrow> page_meta" where
  "meta_for current limit hits_total =
     \<lparr>pm_page = current, pm_limit = limit, pm_total = hits_total,
      pm_total_pages = (if 0 < limit then of_int (ceiling (hits_total / limit)) else 0)\<rparr>"

text \<open>An answer is a list of hits, or a record whose fields may be missing; a missing record is one without fields.\<close>

record 'h search_record =
  sr_results :: "'h list option"
  sr_hits :: "'h list option"
  sr_total :: "rat option"
  sr_page :: "rat option"
  sr_limit :: "rat option"
  sr_total_pages :: "rat option"
  sr_facets :: js_value
  sr_took :: js_value

record 'h search_results =
  sx_hits :: "'h list"
  sx_facets :: js_value
  sx_took :: js_value
  sx_meta :: page_meta

datatype 'h search_payload = HitList "'h list" | SearchRecord "'h search_record"

fun number_or :: "rat \<Rightarrow> filter_value option \<Rightarrow> rat" where
  "number_or d (Some (FNumber r)) = r"
| "number_or d v = d"

definition or_else :: "'a option \<Rightarrow> 'a \<Rightarrow> 'a" where
  "or_else v d = (case v of Some x \<Rightarrow> x | None \<Rightarrow> d)"

definition normalize_search ::
  "'h search_payload \<Rightarrow> page_meta option \<Rightarrow> filters \<Rightarrow> 'h search_results" where
  "normalize_search payload meta f =
     (let current = number_or 1 (f ''page''); limit = number_or default_page_limit (f ''limit'')
      in case payload of
           HitList hits \<Rightarrow>
             \<lparr>sx_hits = hits, sx_facets = Undefined, sx_took = Undefined,
              sx_meta = or_else meta (meta_for current limit (of_nat (length hits)))\<rparr>
         | SearchRecord r \<Rightarrow>
             let hits = or_else (case sr_results r of Some hs \<Rightarrow> Some hs | None \<Rightarrow> sr_hits r) [];
                 resolved_limit = or_else (sr_limit r) limit;
                 resolved_total = or_else (sr_total r) (of_nat (length hits))
             in \<lparr>sx_hits = hits, sx_facets = sr_facets r, sx_took = sr_took r,
                 sx_meta = or_else meta
                   \<lparr>pm_page = or_else (sr_page r) current, pm_limit = resolved_limit, pm_total = resolved_total,
                    pm_total_pages =
                      or_else (sr_total_pages r) (pm_total_pages (meta_for current resolved_limit resolved_total))\<rparr>\<rparr>)"

text \<open>The similar listings: a list, or the field \<open>hits\<close> of a record.\<close>

definition similar_hits :: "'h search_payload \<Rightarrow> 'h list" where
  "similar_hits payload = (case payload of HitList hits \<Rightarrow> hits | SearchRecord r \<Rightarrow> or_else (sr_hits r) [])"

definition next_page_param :: "page_meta \<Rightarrow> rat option" where
  "next_page_param m = (if pm_page m < pm_total_pages m then Some (pm_page m + 1) else None)"

section \<open>What a link shows\<close>

lemma get_all_from_entries: "get_all (from_entries ps) k = (case get_all ps k of [] \<Rightarrow> [] | v # vs \<Rightarrow> [last (v # vs)])"
proof -
  have keys: "get_all (map (\<lambda>k. (k, f k)) ks) k = (if k \<in> set ks then [f k] else [])" if "distinct ks"
    for f :: "string \<Rightarrow> string" and ks
    using that by (induction ks) (auto simp: get_all_def)
  have "k \<in> fst ` set ps \<longleftrightarrow> get_all ps k \<noteq> []" by (auto simp: get_all_def filter_empty_conv image_iff)
  then show ?thesis by (auto simp: from_entries_def keys split: list.split)
qed

lemma get_all_initial: "get_all (form_decode (initial_query query)) k = get_all (form_decode query) k"
proof -
  let ?ps = "form_decode query"
  have "concat (map (\<lambda>(k, vs). map (Pair k) vs) (search_params ?ps)) =
      concat (map (\<lambda>k. map (Pair k) (get_all ?ps k)) (js_unique (map fst ?ps)))"
    by (simp add: search_params_def comp_def)
  moreover have "k \<notin> set (map fst ?ps) \<Longrightarrow> get_all ?ps k = []" by (auto simp: get_all_def filter_empty_conv)
  ultimately show ?thesis by (simp add: initial_query_def form_decode_encode get_all_pairs)
qed

text \<open>Reading depends on the values of each name only.\<close>

lemma deserialize_get_all:
  assumes "\<And>k. get_all ps k = get_all qs k"
  shows "deserialize_params ps = deserialize_params qs"
proof -
  have first: "get_first ps = get_first qs" and parts: "list_parts ps = list_parts qs"
    by (rule ext; simp add: get_first_def list_parts_def assms)+
  then have numbers: "read_number ps = read_number qs" "read_number_list ps = read_number_list qs"
    and texts: "read_string_list ps = read_string_list qs"
    by (simp_all add: fun_eq_iff read_number_def read_number_list_def read_string_list_def)
  have "read_fields ps = read_fields qs"
    by (simp only: read_fields_def field_query_def field_texts_def field_text_def field_number_def field_numbers_def
        first numbers texts)
  then show ?thesis by (simp add: deserialize_params_def)
qed

fun last_value :: "filter_value \<Rightarrow> filter_value" where
  "last_value (FTexts ss) = FTexts [last ss]"
| "last_value (FNumbers rs) = FNumbers [last rs]"
| "last_value v = v"

definition last_values :: "filters \<Rightarrow> filters" where
  "last_values f = (\<lambda>k. map_option last_value (f k))"

lemma good_last:
  "good_query v \<Longrightarrow> good_query (map_option last_value v)" "good_text ok v \<Longrightarrow> good_text ok (map_option last_value v)"
  "good_texts ok v \<Longrightarrow> good_texts ok (map_option last_value v)" "good_number v \<Longrightarrow> good_number (map_option last_value v)"
  "good_numbers v \<Longrightarrow> good_numbers (map_option last_value v)" "good_count c v \<Longrightarrow> good_count c (map_option last_value v)"
  by (cases v rule: value_texts.cases; force simp: list_all_iff)+

lemma last_values_canonical: "canonical_filters f \<Longrightarrow> canonical_filters (last_values f)"
  by (simp add: canonical_filters_def good_fields_def last_values_def good_last)

lemma canonical_settled: "canonical_filters f \<Longrightarrow> f k = None \<or> \<not> emptied (f k)"
  by (metis canonical_filters_def good_fields_settled good_count_number)

lemma value_texts_last: "canonical_filters f \<Longrightarrow>
  value_texts (last_values f k) = (case value_texts (f k) of [] \<Rightarrow> [] | v # vs \<Rightarrow> [last (v # vs)])"
  using canonical_settled [of f k]
  by (cases "f k" rule: value_texts.cases) (auto simp: last_values_def last_map split: list.split if_splits)

lemma serialized_params: "form_decode (initial_query (serialize_filters f)) = form_decode (initial_query (form_encode (filter_pairs f)))"
  by (simp add: serialize_filters_def)

lemma get_all_absent: "k \<notin> set filter_keys \<Longrightarrow> get_all (filter_pairs f) k = []"
  using get_all_pairs [OF distinct_filter_keys, of "\<lambda>k. value_texts (f k)" k] by (simp add: filter_pairs_def)

lemma link_read:
  assumes "canonical_filters f"
  shows "deserialize_params (from_entries (form_decode (initial_query (serialize_filters f)))) = last_values f"
proof -
  have "get_all (from_entries (form_decode (initial_query (serialize_filters f)))) k = get_all (filter_pairs (last_values f)) k" for k
  proof (cases "k \<in> set filter_keys")
    case True
    then show ?thesis
      by (simp add: get_all_from_entries get_all_initial serialize_filters_def form_decode_encode get_all_filter_pairs
          value_texts_last [OF assms])
  next
    case False
    then show ?thesis
      by (simp add: get_all_from_entries get_all_initial serialize_filters_def form_decode_encode get_all_absent)
  qed
  then have "deserialize_params (from_entries (form_decode (initial_query (serialize_filters f)))) =
      deserialize_params (filter_pairs (last_values f))"
    by (rule deserialize_get_all)
  then show ?thesis using canonical_read [OF last_values_canonical [OF assms]] by (simp add: serialize_deserialize)
qed

lemma merge_canonical:
  assumes "canonical_filters f"
  shows "merge_filters empty_filters (patch_of f) = f"
proof
  fix k
  have "k \<notin> set filter_keys \<Longrightarrow> f k = None" for k using assms by (simp add: canonical_filters_def good_fields_def)
  then show "merge_filters empty_filters (patch_of f) k = f k"
    using canonical_settled [OF assms, of k] by (auto simp: merge_patch_of empty_filters_def Let_def split: option.split)
qed

lemma sp_write_url: "sp_store (write_url q s) = sp_store s"
  by (simp add: write_url_def)

lemma opened:
  assumes "canonical_filters f" and "sp_applied s = None"
  shows "ft_filters (sp_store (open_search (initial_query (serialize_filters f)) s)) = last_values f"
  using assms(2)
  by (simp add: open_search_def sp_write_url seed_store_def set_filters_def link_read [OF assms(1)]
      merge_canonical [OF last_values_canonical [OF assms(1)]] Let_def)

text \<open>
  C27: A shared link keeps one value of each list. Opening the link that the store writes for some filters shows, of every list,
  the last value only; so the page shows the filters of the link exactly if no filter has several values, and otherwise it
  writes the shorter query over the link.
\<close>

theorem shared_link_keeps_last:
  assumes "canonical_filters f" and "sp_applied s = None"
  shows "let s' = open_search (initial_query (serialize_filters f)) s in
    ft_filters (sp_store s') = last_values f \<and>
    sp_applied s' = Some (serialize_filters (last_values f)) \<and>
    (ft_filters (sp_store s') = f \<longleftrightarrow> (\<forall>k. length (value_texts (f k)) \<le> 1))"
proof -
  let ?s = "open_search (initial_query (serialize_filters f)) s"
  have shown: "ft_filters (sp_store ?s) = last_values f" by (rule opened [OF assms])
  have "sp_applied ?s = Some (to_query_string (sp_store ?s))"
    using assms(2) by (simp add: open_search_def write_url_def seed_store_def Let_def)
  then have applied: "sp_applied ?s = Some (serialize_filters (last_values f))"
    by (simp add: to_query_string_def shown)
  have "last_values f k = f k \<longleftrightarrow> length (value_texts (f k)) \<le> 1" for k
    using canonical_settled [OF assms(1), of k]
    by (cases "f k" rule: value_texts.cases) (auto simp: last_values_def neq_Nil_conv)
  then have "last_values f = f \<longleftrightarrow> (\<forall>k. length (value_texts (f k)) \<le> 1)" by (simp add: fun_eq_iff)
  with shown applied show ?thesis by (simp add: Let_def)
qed

lemma shared_link_keeps_last_witness:
  "ft_filters (sp_store (open_search (initial_query (serialize_filters demo_filters)) fresh_search)) ''propertyType'' =
     Some (FTexts [''villa''])"
  using shared_link_keeps_last [OF demo_canonical, of fresh_search]
  by (simp add: fresh_search_def last_values_def demo_filters_def Let_def)

text \<open>The links name the current page and its neighbours, each once, in order, and only pages there are.\<close>

lemma page_links_bounds: "j \<in> set (page_links current n) \<Longrightarrow> 1 \<le> current \<Longrightarrow> current \<le> n \<Longrightarrow> 1 \<le> j \<and> j \<le> n \<and> \<bar>j - current\<bar> \<le> 2"
  by (auto simp: page_links_def page_window_def Let_def split: if_splits)

lemma page_links_current: "1 \<le> current \<Longrightarrow> current \<le> n \<Longrightarrow> 1 < n \<Longrightarrow> current \<in> set (page_links current n)"
  by (auto simp: page_links_def page_window_def Let_def image_iff intro!: bexI [of _ "nat (current - max 1 (current - 2))"])

text \<open>A record of similar listings that names them \<open>results\<close>, as the search service does, shows none.\<close>

lemma similar_results_ignored: "similar_hits (SearchRecord (r\<lparr>sr_results := Some hs, sr_hits := None\<rparr>)) = []"
  by (simp add: similar_hits_def or_else_def)

end
