(* ===== verification/Web_Proxy.thy ===== *)
theory Web_Proxy
  imports Web_Api Identifiers
begin

text \<open>
  The proxy of the web server, \<open>app/api/[...path]/route.ts\<close>: a request below \<open>/api\<close> goes to the service that owns its first
  segment. Header names are lower case, as the platform hands them out; the body is passed on unread.
\<close>

section \<open>The owner of a path\<close>

definition origin_for :: "'s api_env \<Rightarrow> string option \<Rightarrow> string option" where
  "origin_for env segment =
     (if segment = Some ''v1'' then Some (server_origin env CoreService)
      else if segment = Some ''search'' then Some (server_origin env SearchService)
      else if segment = Some ''chat'' then Some (server_origin env ChatService)
      else if segment = Some ''reports'' then Some (server_origin env ReportsService)
      else None)"

definition strip_request :: "string list" where
  "strip_request =
     [''host'', ''connection'', ''keep-alive'', ''transfer-encoding'', ''upgrade'', ''content-length'', ''accept-encoding'',
      ''x-forwarded-host'', ''x-forwarded-port'']"

definition strip_response :: "string list" where
  "strip_response =
     [''connection'', ''keep-alive'', ''transfer-encoding'', ''upgrade'', ''content-encoding'', ''content-length'']"

section \<open>Headers\<close>

text \<open>\<open>Headers.set\<close> replaces the values of a name; the values of one name are one entry, except for \<open>set-cookie\<close>.\<close>

type_synonym headers = "(string \<times> string) list"

definition headers_set :: "string \<Rightarrow> string \<Rightarrow> headers \<Rightarrow> headers" where
  "headers_set k v hs = filter (\<lambda>h. fst h \<noteq> k) hs @ [(k, v)]"

definition forward_headers :: "string list \<Rightarrow> headers \<Rightarrow> headers" where
  "forward_headers strip hs =
     fold (\<lambda>(k, v) out. if to_lower k \<in> set strip then out else headers_set k v out) hs []"

section \<open>The proxy\<close>

record proxied_request =
  px_method :: string
  px_search :: string
  px_headers :: headers
  px_body :: "string option"

record upstream_request =
  up_method :: string
  up_url :: string
  up_headers :: headers
  up_body :: "string option"

record proxied_response =
  ps_status :: int
  ps_status_text :: string
  ps_headers :: headers
  ps_body :: "js_value + string"

definition proxy_error :: "int \<Rightarrow> string \<Rightarrow> string \<Rightarrow> proxied_response" where
  "proxy_error status code message =
     \<lparr>ps_status = status, ps_status_text = [], ps_headers = [(''content-type'', ''application/json'')],
      ps_body = Inl (JObj PlainObject
        [(''success'', JBool False),
         (''error'', JObj PlainObject
           [(''code'', JStr code), (''message'', JStr message), (''details'', JArr [])])])\<rparr>"

definition proxy_target :: "string \<Rightarrow> string list \<Rightarrow> string \<Rightarrow> string" where
  "proxy_target origin path search = origin @ ''/api/'' @ join ''/'' path @ search"

definition has_body :: "string \<Rightarrow> bool" where
  "has_body verb \<longleftrightarrow> verb \<noteq> ''GET'' \<and> verb \<noteq> ''HEAD''"

definition upstream_of :: "string \<Rightarrow> string list \<Rightarrow> proxied_request \<Rightarrow> upstream_request" where
  "upstream_of origin path rq =
     \<lparr>up_method = px_method rq, up_url = proxy_target origin path (px_search rq),
      up_headers = forward_headers strip_request (px_headers rq),
      up_body = (if has_body (px_method rq) then px_body rq else None)\<rparr>"

definition proxy ::
  "'t api_env \<Rightarrow> (upstream_request \<Rightarrow> ('s, js_value, proxied_response) prog) \<Rightarrow> proxied_request \<Rightarrow> string list \<Rightarrow>
   ('s, js_value, proxied_response) prog" where
  "proxy env fetch rq path =
     (let segment = (case path of [] \<Rightarrow> None | p # _ \<Rightarrow> Some p)
      in case origin_for env segment of
           None \<Rightarrow>
             ret (proxy_error 404 ''NOT_FOUND''
               (''Unknown API namespace '' @ quote (case segment of Some p \<Rightarrow> p | None \<Rightarrow> [])))
         | Some origin \<Rightarrow>
             catch
               (seq (fetch (upstream_of origin path rq)) (\<lambda>r.
                  ret (r\<lparr>ps_headers := forward_headers strip_response (ps_headers r)\<rparr>)))
               (\<lambda>_. ret (proxy_error 502 ''UPSTREAM_UNAVAILABLE'' ''The upstream service is not reachable right now.'')))"

section \<open>Headers that pass\<close>

lemma fst_headers_set: "fst ` set (headers_set k v out) = insert k (fst ` set out)"
  by (auto simp: headers_set_def image_iff)

lemma forward_headers_fold:
  "k \<in> fst ` set (fold (\<lambda>(k, v) out. if to_lower k \<in> set strip then out else headers_set k v out) hs out) \<longleftrightarrow>
     k \<in> fst ` set out \<or> (k \<in> fst ` set hs \<and> to_lower k \<notin> set strip)"
proof (induction hs arbitrary: out)
  case (Cons h hs)
  obtain j v where h: "h = (j, v)" by force
  show ?case by (simp only: h fold_simps Cons.IH case_prod_conv) (auto simp: fst_headers_set)
qed simp

text \<open>A header passes exactly if its name is not stripped; where every name stands once, with its value and in its place.\<close>

lemma forwarded_names: "k \<in> fst ` set (forward_headers strip hs) \<longleftrightarrow> k \<in> fst ` set hs \<and> to_lower k \<notin> set strip"
  by (simp add: forward_headers_def forward_headers_fold)

lemma forwarded_distinct:
  "distinct (map fst hs) \<Longrightarrow> forward_headers strip hs = filter (\<lambda>h. to_lower (fst h) \<notin> set strip) hs"
proof -
  have "fold (\<lambda>(k, v) out. if to_lower k \<in> set strip then out else headers_set k v out) hs out =
      out @ filter (\<lambda>h. to_lower (fst h) \<notin> set strip) hs" if "distinct (map fst (out @ hs))" for out
    using that
  proof (induction hs arbitrary: out)
    case (Cons h hs)
    obtain k v where h: "h = (k, v)" by force
    have "filter (\<lambda>h. fst h \<noteq> k) out = out" using Cons.prems h by (auto simp: filter_id_conv)
    then show ?case using Cons.IH [of out] Cons.IH [of "out @ [h]"] Cons.prems h by (auto simp: headers_set_def)
  qed simp
  from this [of "[]"] show "distinct (map fst hs) \<Longrightarrow> ?thesis" by (simp add: forward_headers_def)
qed

text \<open>Whatever the headers, the last value given under a name is the one that passes, once.\<close>

lemma map_of_headers_set: "map_of (headers_set k v out) j = (if j = k then Some v else map_of out j)"
proof -
  have "map_of (filter (\<lambda>h. fst h \<noteq> k) out) j = (if j = k then None else map_of out j)"
    by (induction out) auto
  then show ?thesis by (auto simp: headers_set_def map_add_def split: option.split)
qed

lemma distinct_headers_set: "distinct (map fst out) \<Longrightarrow> distinct (map fst (headers_set k v out))"
  by (auto simp: headers_set_def distinct_map_filter)

lemma forwarded_fold:
  "map_of (fold (\<lambda>(k, v) out. if to_lower k \<in> set strip then out else headers_set k v out) hs out) j =
    (if to_lower j \<in> set strip then map_of out j
     else case map_of (rev hs) j of Some v \<Rightarrow> Some v | None \<Rightarrow> map_of out j)"
  "distinct (map fst out) \<Longrightarrow>
    distinct (map fst (fold (\<lambda>(k, v) out. if to_lower k \<in> set strip then out else headers_set k v out) hs out))"
proof (induction hs arbitrary: out)
  case (Cons h hs)
  obtain k v where h: "h = (k, v)" by force
  {
    case 1
    then show ?case by (auto simp: h Cons.IH(1) map_of_headers_set map_add_def split: option.split)
  next
    case 2
    then show ?case by (simp add: h Cons.IH(2) distinct_headers_set)
  }
qed simp_all

lemma forwarded_value:
  "map_of (forward_headers strip hs) k = (if to_lower k \<in> set strip then None else map_of (rev hs) k)"
  by (simp add: forward_headers_def forwarded_fold(1) split: option.split)

lemma forwarded_once: "distinct (map fst (forward_headers strip hs))"
  by (simp add: forward_headers_def forwarded_fold(2))

text \<open>Of two cookies that a service sets, one arrives.\<close>

lemma second_cookie_replaces_first:
  "forward_headers strip_response [(''set-cookie'', a), (''set-cookie'', b)] = [(''set-cookie'', b)]"
  by (simp add: forward_headers_def strip_response_def headers_set_def to_lower_def char_lower_def)

section \<open>The proxy and the direct call\<close>

definition segment_of :: "service \<Rightarrow> string" where
  "segment_of service =
     (case service of CoreService \<Rightarrow> ''v1'' | SearchService \<Rightarrow> ''search'' | ChatService \<Rightarrow> ''chat'' | ReportsService \<Rightarrow> ''reports'')"

lemma origin_for_segment: "origin_for env (Some (segment_of svc)) = Some (server_origin env svc)"
  by (cases svc) (simp_all add: origin_for_def segment_of_def)

lemma origin_unchanged [simp]: "server_origin (env\<lparr>ap_is_server := b\<rparr>) svc = server_origin env svc"
  "public_base (env\<lparr>ap_is_server := b\<rparr>) svc = public_base env svc"
  by (simp_all add: server_origin_def public_base_def variable_or_def cong: service.case_cong)

lemma query_unchanged [simp]: "build_query_string (env\<lparr>ap_is_server := b\<rparr>) q = build_query_string env q"
proof -
  have same: "ap_string (env\<lparr>ap_is_server := b\<rparr>) = ap_string env" by simp
  have "query_pairs (env\<lparr>ap_is_server := b\<rparr>) q = query_pairs env q" unfolding query_pairs_def same by (rule refl)
  then show ?thesis by (simp add: build_query_string_def)
qed

lemma trim_slashes_segment: "trim_slashes_end (s @ ''/api/'' @ segment_of svc) = s @ ''/api/'' @ segment_of svc"
  by (cases svc) (simp_all add: trim_slashes_end_def segment_of_def)

lemma trim_slashes_path:
  assumes "segs \<noteq> []" and "\<forall>s\<in>set segs. s \<noteq> [] \<and> CHR ''/'' \<notin> set s"
  shows "trim_slashes_start (''/'' @ join ''/'' segs) = join ''/'' segs" "join ''/'' segs \<noteq> []"
    "join ''/'' (p # segs) = p @ ''/'' @ join ''/'' segs"
proof -
  obtain s segs' where segs: "segs = s # segs'" using assms(1) by (cases segs) auto
  obtain c t where s: "s = c # t" "c \<noteq> CHR ''/''" using assms(2) segs by (cases s) auto
  have "\<exists>u. join ''/'' segs = c # u" by (cases segs') (simp_all add: segs s)
  then show "trim_slashes_start (''/'' @ join ''/'' segs) = join ''/'' segs" "join ''/'' segs \<noteq> []"
    using s(2) by (auto simp: trim_slashes_start_def)
  show "join ''/'' (p # segs) = p @ ''/'' @ join ''/'' segs" by (simp add: segs)
qed

text \<open>
  C29: Both runtimes reach the same place. For a service below its own path of \<open>/api\<close>, what the browser asks for is that path
  with the query, and what the proxy makes of it is the URL that the server asks for directly. The answer keeps its status
  and its body; of its headers it loses those of the connection and the encoding, and under every other name the last
  value alone arrives (of several cookies that a service sets, one). A rejection becomes an error envelope with status 502.
\<close>

theorem proxied_as_direct:
  fixes env :: "'t api_env"
  assumes base: "public_base env svc = ''/api/'' @ segment_of svc"
    and origin: "trim_slashes_end (server_origin env svc) = server_origin env svc"
    and segs: "segs \<noteq> []" "\<forall>s\<in>set segs. s \<noteq> [] \<and> CHR ''/'' \<notin> set s"
    and search: "px_search rq = build_query_string env q"
  shows "service_url (env\<lparr>ap_is_server := False\<rparr>) svc (''/'' @ join ''/'' segs) q =
      ''/api/'' @ join ''/'' (segment_of svc # segs) @ px_search rq \<and>
    up_url (upstream_of (server_origin env svc) (segment_of svc # segs) rq) =
      service_url (env\<lparr>ap_is_server := True\<rparr>) svc (''/'' @ join ''/'' segs) q \<and>
    (case fetch (upstream_of (server_origin env svc) (segment_of svc # segs) rq) w of
       (Return r, w') \<Rightarrow>
         \<exists>a. proxy env fetch rq (segment_of svc # segs) w = (Return a, w') \<and>
           ps_status a = ps_status r \<and> ps_status_text a = ps_status_text r \<and> ps_body a = ps_body r \<and>
           distinct (map fst (ps_headers a)) \<and>
           (\<forall>k. map_of (ps_headers a) k =
             (if to_lower k \<in> set strip_response then None else map_of (rev (ps_headers r)) k))
     | (Throw e, w') \<Rightarrow>
         proxy env fetch rq (segment_of svc # segs) w =
           (Return (proxy_error 502 ''UPSTREAM_UNAVAILABLE'' ''The upstream service is not reachable right now.''), w')
     | (Diverge, w') \<Rightarrow> proxy env fetch rq (segment_of svc # segs) w = (Diverge, w'))"
proof (intro conjI)
  note p = trim_slashes_path [OF segs]
  have not_url: "\<not> is_http_url (''/api/'' @ segment_of svc)" "starts_with (''/api/'' @ segment_of svc) ''/''"
    by (simp_all add: is_http_url_def to_lower_def char_lower_def starts_with_def)
  show "service_url (env\<lparr>ap_is_server := False\<rparr>) svc (''/'' @ join ''/'' segs) q =
      ''/api/'' @ join ''/'' (segment_of svc # segs) @ px_search rq"
    using p trim_slashes_segment [of "[]" svc] by (simp add: service_url_def service_base_url_def base search)
  show "up_url (upstream_of (server_origin env svc) (segment_of svc # segs) rq) =
      service_url (env\<lparr>ap_is_server := True\<rparr>) svc (''/'' @ join ''/'' segs) q"
    using p not_url trim_slashes_segment [of "server_origin env svc" svc]
    by (simp add: service_url_def service_base_url_def base search origin upstream_of_def proxy_target_def)
  show "case fetch (upstream_of (server_origin env svc) (segment_of svc # segs) rq) w of
       (Return r, w') \<Rightarrow>
         \<exists>a. proxy env fetch rq (segment_of svc # segs) w = (Return a, w') \<and>
           ps_status a = ps_status r \<and> ps_status_text a = ps_status_text r \<and> ps_body a = ps_body r \<and>
           distinct (map fst (ps_headers a)) \<and>
           (\<forall>k. map_of (ps_headers a) k =
             (if to_lower k \<in> set strip_response then None else map_of (rev (ps_headers r)) k))
     | (Throw e, w') \<Rightarrow>
         proxy env fetch rq (segment_of svc # segs) w =
           (Return (proxy_error 502 ''UPSTREAM_UNAVAILABLE'' ''The upstream service is not reachable right now.''), w')
     | (Diverge, w') \<Rightarrow> proxy env fetch rq (segment_of svc # segs) w = (Diverge, w')"
    by (simp add: proxy_def origin_for_segment catch_def seq_def forwarded_value forwarded_once split: prod.split outcome.split)
qed

text \<open>A path that no service owns is answered with 404, and nothing is sent.\<close>

lemma unknown_namespace:
  "p \<notin> {''v1'', ''search'', ''chat'', ''reports''} \<Longrightarrow>
     \<exists>r. proxy env fetch rq (p # path) w = (Return r, w) \<and> ps_status r = 404"
  by (simp add: proxy_def origin_for_def proxy_error_def)

definition demo_web_server :: "unit api_env" where
  "demo_web_server =
     \<lparr>ap_fetch = (\<lambda>_. throw (Failed Undefined)), ap_is_server = True, ap_variable = (\<lambda>_. None), ap_form = (\<lambda>_. []),
      ap_string = (\<lambda>_. []), ap_json = (\<lambda>_. []), ap_new_id = (\<lambda>_. []), ap_web = demo_web\<rparr>"

lemma proxied_as_direct_witness:
  "up_url (upstream_of ''http://localhost:4000'' [''v1'', ''areas'']
      \<lparr>px_method = ''GET'', px_search = [], px_headers = [(''host'', ''localhost'')], px_body = None\<rparr>) =
    service_url demo_web_server CoreService ''/areas'' []"
proof -
  let ?rq = "\<lparr>px_method = ''GET'', px_search = [], px_headers = [(''host'', ''localhost'')], px_body = None\<rparr>"
  have vals: "server_origin demo_web_server CoreService = ''http://localhost:4000''" "public_base demo_web_server CoreService = ''/api/v1''"
    "segment_of CoreService = ''v1''" "build_query_string demo_web_server [] = []" "demo_web_server\<lparr>ap_is_server := True\<rparr> = demo_web_server"
    by (simp_all add: server_origin_def public_base_def variable_or_def demo_web_server_def segment_of_def build_query_string_def query_pairs_def)
  have "up_url (upstream_of (server_origin demo_web_server CoreService) (segment_of CoreService # [''areas'']) ?rq) =
      service_url (demo_web_server\<lparr>ap_is_server := True\<rparr>) CoreService (''/'' @ join ''/'' [''areas'']) []"
    using proxied_as_direct [of demo_web_server CoreService "[''areas'']" ?rq "[]" "\<lambda>_ w. (Throw Undefined, w)" "()"]
    by (simp add: vals trim_slashes_end_def)
  then show ?thesis by (simp add: vals)
qed

end
