(* ===== verification/Spec2Isabelle.thy ===== *)
theory Spec2Isabelle
  imports Prelude Js_Values Http_Errors Pagination Enums Identifiers Cache Database Tokens World Mirror Catalogue Wp
    Areas Developers Compounds Cache_Wp Listing_Dto Properties Listing_Laws Listing_Types Favorites Leads Saved_Searches
    Users Auth Auth_Http Auth_Laws Paths Uploads Upload_Laws Audit_Trail Calendar Dashboard Config Chat_Client Chat_Store
    Web_Auth Web_Api Web_Api_Laws Web_Refresh Web_Stores Web_Url Web_Filters Web_Filters_Laws Web_Search Web_Proxy
begin

text \<open>
  A verification development for the TypeScript code of the real estate platform: its service and the parts of its
  web application that keep state and talk to it.

  The program. \<open>apps/api-core\<close> is a NestJS service over PostgreSQL (through Prisma), MongoDB (through
  Mongoose) and Redis. A request passes the guards, the validation pipe, a controller and a service; its result
  or its error is put into an envelope. The services of the modules share the stores: the listing lives in
  MongoDB, with a mirror row in PostgreSQL that the catalogue, the favourites and the leads refer to, and with
  counters and cached copies that several services keep up to date. \<open>apps/web\<close> is a browser application over it: a
  client that puts the session's token on each request, opens the envelope and renews the session once when a token
  is refused; stores that survive a reload of the page; and a chat widget that reads a stream of events.

  Effects. An asynchronous operation is a program \<open>'w \<Rightarrow> ('e, 'a) outcome \<times> 'w\<close> on a record of the state, with
  the outcomes \<open>Return\<close>, \<open>Throw\<close> and \<open>Diverge\<close> (\<open>Prelude\<close>); \<open>seq\<close> and \<open>catch\<close> compose them. \<open>now\<close> is the
  instant of an operation in milliseconds, the same for the whole operation. A client library is a record of
  the calls the code makes on it, and what its documentation promises is a named predicate (\<open>redis_ok\<close>,
  \<open>table_ok\<close>, \<open>collection_ok\<close>, \<open>jwt_ok\<close>); every such predicate has an implementation in memory that meets it.

  Identifiers. A column of type \<open>uuid\<close> takes an identifier in either case (\<open>uuid_value\<close> of \<open>Tokens\<close>), MongoDB, Redis and a
  comparison in the code take it as it is written. \<open>Tokens\<close>, \<open>Users\<close> and \<open>Favorites\<close> keep the two apart, and show what
  an identifier in capitals does; the other modules take the identifiers of a request in lower case, as the service
  hands them out.

  The theories, with the sources under \<open>apps/api-core/src\<close> unless said otherwise:

  \<^item> \<open>Prelude\<close>, \<open>Js_Values\<close>: programs, numbers and values of JavaScript, the lemmas everything shares.
  \<^item> \<open>Http_Errors\<close>: \<open>common/errors\<close>, \<open>common/filters\<close>, \<open>common/pipes\<close>, \<open>common/interceptors\<close>.
  \<^item> \<open>Pagination\<close>, \<open>Enums\<close>, \<open>Identifiers\<close>: \<open>common/utils/pagination.ts\<close>, \<open>common/enums.ts\<close> with its copy in
    \<open>apps/web\<close>, \<open>modules/shared\<close> and the request ids.
  \<^item> \<open>Cache\<close>: \<open>redis/cache.service.ts\<close> and \<open>cache-keys.ts\<close>. The SCAN loop is a \<open>partial_function\<close>, so that not
    returning is a value, and it is proved to return.
  \<^item> \<open>Database\<close>, \<open>World\<close>: a Prisma model, a Mongoose model, the rows, the documents and the state of the
    platform (\<open>prisma/schema.prisma\<close>, \<open>mongo/schemas\<close>).
  \<^item> \<open>Tokens\<close>: \<open>modules/auth/token.service.ts\<close>: issue, verify, rotate and revoke.
  \<^item> \<open>Mirror\<close>: \<open>modules/properties/property-mirror.service.ts\<close>, with the atomic store it refines.
  \<^item> \<open>Wp\<close>, \<open>Cache_Wp\<close>: weakest preconditions of programs, the locales \<open>slug_probe\<close> (a taken-slug query) and
    \<open>derived_counter\<close> (a counter column and its recount), and the cache calls.
  \<^item> \<open>Catalogue\<close>, \<open>Areas\<close>, \<open>Developers\<close>, \<open>Compounds\<close>: the list endpoints' queries, and the modules of the
    catalogue. They interpret \<open>slug_probe\<close> and \<open>derived_counter\<close> with their own queries and counters.
  \<^item> \<open>Listing_Dto\<close>, \<open>Properties\<close>, \<open>Listing_Laws\<close>, \<open>Listing_Types\<close>: \<open>modules/properties\<close>: the request classes,
    the service, what it answers, and that what it stores meets the schema. A body that misses a nested object is in
    \<open>Listing_Types\<close> (\<open>create_body\<close>, \<open>update_body\<close>).
  \<^item> \<open>Favorites\<close>, \<open>Leads\<close>, \<open>Saved_Searches\<close>, \<open>Users\<close>: the modules of those names.
  \<^item> \<open>Auth\<close>, \<open>Auth_Http\<close>, \<open>Auth_Laws\<close>: \<open>modules/auth\<close>: the service, then the strategies, guards and controller,
    then what they promise. \<open>route\<close> is the way of a request through the rate limit, the guards and the validation pipe to its
    handler; whether it is within the limit and what its body violates are parameters.
  \<^item> \<open>Paths\<close>, \<open>Uploads\<close>, \<open>Upload_Laws\<close>: \<open>node:path\<close>, \<open>modules/uploads\<close> with its storage drivers over a file system, and
    what an upload promises.
  \<^item> \<open>Audit_Trail\<close>: \<open>modules/admin/audit.service.ts\<close>.
  \<^item> \<open>Calendar\<close>, \<open>Dashboard\<close>: months in UTC, then \<open>modules/admin/admin.service.ts\<close>.
  \<^item> \<open>Config\<close>: \<open>config/env.schema.ts\<close> and \<open>configuration.ts\<close>: the environment's check and the configuration it becomes.

  The browser, with its sources under \<open>apps/web/src\<close>:

  \<^item> \<open>Chat_Client\<close>, \<open>Chat_Store\<close>: \<open>lib/chat-client.ts\<close> (the event stream and the guest token), then \<open>store/chat.store.ts\<close> and
    the handlers of \<open>components/chat/chat-panel.tsx\<close>, composed with the client.
  \<^item> \<open>Web_Auth\<close>: \<open>lib/jwt.ts\<close> and \<open>store/auth.store.ts\<close>.
  \<^item> \<open>Web_Api\<close>, \<open>Web_Api_Laws\<close>: \<open>lib/api.ts\<close> with \<open>lib/env.ts\<close> as a program over one page's state; then what it makes of the
    interceptor's and the filter's answers, and what a refused request costs.
  \<^item> \<open>Web_Refresh\<close>: the same refresh as an inductive step relation, for requests that interleave, with the refresh token
    that the service holds next to the one in the browser, and answers that are lost.
  \<^item> \<open>Web_Stores\<close>: \<open>store/compare.store.ts\<close>, \<open>favorites.store.ts\<close> and \<open>ui.store.ts\<close>.
  \<^item> \<open>Web_Url\<close>, \<open>Web_Filters\<close>, \<open>Web_Filters_Laws\<close>: \<open>URLSearchParams\<close> and numbers as texts, then \<open>lib/filters.ts\<close> with
    \<open>store/filters.store.ts\<close>, and that the URL and the store agree.
  \<^item> \<open>Web_Search\<close>: the effects of \<open>app/search\<close> between URL and store, and the answers of the search service in \<open>lib/queries.ts\<close>.
  \<^item> \<open>Web_Proxy\<close>: \<open>app/api/[...path]/route.ts\<close>, and that it reaches what \<open>Web_Api\<close> reaches on the server.

  A store is an instance of the locale \<open>state_container\<close> (an initial state, steps and an invariant they keep):
  \<open>Web_Auth\<close>, \<open>Web_Stores\<close> and \<open>Web_Filters_Laws\<close> interpret it with the actions of their stores, a reload of the page among them.

  What the properties show: a refresh token is used once and a replay ends the family (and two ways in which
  that fails); a read through the cache gives what the computation behind it gives, and the deletion by
  pattern is complete, for a positive batch size; every error is normalised, with the status and the code that belong to its kind; the two stores of a listing refine one store; the counters \<open>projectsCount\<close>,
  \<open>stats.favorites\<close> and \<open>stats.views\<close> count what they say (favourites, when listings are named in lower case); references resolve; leads follow their pipeline;
  saved searches are capped and private; accepted bodies become valid documents (but for two empty texts), and one that misses a nested
  object stores nothing; a handler runs behind the rate limit, its guards and the validation only; roles change by a superadmin's hand only; logging out, a new password, a lost privilege and a removal end
  sessions, and a removed account stays out; uploads stay below their directory and what is put is what is served; an
  audit entry fails no operation, and its row, where the table takes it, names exactly what changed; the dashboard counts what is there; a configuration that passed its check keeps its bounds;
  the browser reads what the service says, refreshes its session at most once
  for a refused request and one at a time for all of them, shows the service a replaced refresh token only after a lost
  answer, keeps its session consistent, and shows the favourites that the service holds while the session lasts; search filters survive their URL (but not the search page, which
  keeps the last of several values); the proxy reaches what a direct call reaches, and passes status and body on; a chat answer is shown as it was written, however the network cuts it.

  Not modelled: log lines; \<open>class-validator\<close> and \<open>class-transformer\<close> themselves (their effect on a body is
  the \<open>_ok\<close> predicate of its record); a property that is \<open>null\<close> rather than absent in a body, other than the
  assignee of a lead; doubles, for which prices are integers and quotients rationals; the typographic dashes in
  messages; the interleaving of two requests, except where a property is about it (\<open>Promise.all\<close> is a
  sequence); cascades of the database (deleting a compound leaves its links in the model); a rejection of Argon2 while
  hashing; the order MongoDB returns unsorted documents in is the order of insertion; the
  services in other languages; the rendering of the web application's pages and its data hooks; two
  favourites clicked before the first is answered, except in \<open>overlapping_removals_bring_back\<close>.
\<close>

end
